(* ===== verification/Prelude.thy ===== *)
theory Prelude
  imports Main "HOL-Library.Word"
begin

text \<open>
  Shared ground of the development: the model of Python's byte strings, integers and
  exceptions, and the lemmas about them that every component uses.

  \<^item> A Python \<open>bytes\<close> or \<open>bytearray\<close> value is a list of \<open>8 word\<close>; an element read from it is
    the \<open>int\<close> \<open>uint b\<close>, as \<open>b[i]\<close> is in Python.
  \<^item> A Python \<open>int\<close> is an \<open>int\<close>: unbounded, with floor division.
  \<^item> Code that can raise returns \<open>py_error + 'a\<close> (abbreviated \<open>'a res\<close>); \<open>rbind\<close> runs the
    rest of the function unless an exception was raised and \<open>ensure\<close> is the helper of
    \<open>src/basicswap/util/__init__.py\<close>.
  \<^item> \<open>int.to_bytes\<close> and \<open>int.from_bytes\<close> are \<open>to_bytes_le\<close>, \<open>to_bytes_be\<close>, \<open>from_le\<close> and
    \<open>from_be\<close>.
\<close>

unbundle bit_operations_syntax

section \<open>Exceptions as values\<close>

datatype py_error =
    ValueError string
  | TemporaryError string
  | RuntimeError string
  | IndexError
  | KeyError
  | OverflowError
  | TypeError
  | AttributeError
  | AssertionError
  | UnicodeError
  | StructError
  | OtherError string

type_synonym 'a res = "py_error + 'a"

definition rbind :: "'a res \<Rightarrow> ('a \<Rightarrow> 'b res) \<Rightarrow> 'b res" where
  "rbind m f = (case m of Inl e \<Rightarrow> Inl e | Inr x \<Rightarrow> f x)"

definition ensure :: "bool \<Rightarrow> string \<Rightarrow> unit res" where
  "ensure v err_string = (if v then Inr () else Inl (ValueError err_string))"

definition of_option :: "py_error \<Rightarrow> 'a option \<Rightarrow> 'a res" where
  "of_option e x = (case x of None \<Rightarrow> Inl e | Some y \<Rightarrow> Inr y)"

named_theorems res_simps "evaluation of the exception combinators"
named_theorems byte_simps "bytes read as integers"

lemma rbind_simps [simp, res_simps]:
  "rbind (Inl e) f = Inl e"
  "rbind (Inr x) f = f x"
  by (simp_all add: rbind_def)

lemma rbind_Inr_iff: "rbind m f = Inr y \<longleftrightarrow> (\<exists>x. m = Inr x \<and> f x = Inr y)"
  by (cases m) auto

lemma rbind_InrE [elim!]:
  assumes "rbind m f = Inr y"
  obtains x where "m = Inr x" and "f x = Inr y"
  using assms by (auto simp: rbind_Inr_iff)

lemma rbind_cong [fundef_cong]:
  "m = m' \<Longrightarrow> (\<And>x. m' = Inr x \<Longrightarrow> f x = g x) \<Longrightarrow> rbind m f = rbind m' g"
  by (cases m') auto

lemma rbind_assoc: "rbind (rbind m f) g = rbind m (\<lambda>x. rbind (f x) g)"
  by (cases m) auto

lemma ensure_simps [simp, res_simps]:
  "ensure True s = Inr ()"
  "ensure False s = Inl (ValueError s)"
  by (simp_all add: ensure_def)

lemma ensure_Inr_iff [simp]: "ensure c s = Inr u \<longleftrightarrow> c"
  by (simp add: ensure_def)

lemma ensure_Inl_iff [simp]: "ensure c s = Inl e \<longleftrightarrow> \<not> c \<and> e = ValueError s"
  by (auto simp: ensure_def)

lemma of_option_simps [simp, res_simps]:
  "of_option e None = Inl e"
  "of_option e (Some x) = Inr x"
  by (simp_all add: of_option_def)

lemma of_option_Inr_iff [simp]: "of_option e m = Inr x \<longleftrightarrow> m = Some x"
  by (cases m) auto

section \<open>Bit masks and shifts on integers\<close>

lemma int_and_mask: "(v::int) AND mask n = v mod 2 ^ n"
  by (simp add: take_bit_eq_mod flip: take_bit_eq_mask)

lemma int_and_127: "(v::int) AND 127 = v mod 128"
  using int_and_mask [of v 7] by (simp add: mask_eq_exp_minus_1)

lemma int_and_255: "(v::int) AND 255 = v mod 256"
  using int_and_mask [of v 8] by (simp add: mask_eq_exp_minus_1)

lemma int_and_7: "(v::int) AND 7 = v mod 8"
  using int_and_mask [of v 3] by (simp add: mask_eq_exp_minus_1)

lemma int_and_1: "(v::int) AND 1 = v mod 2"
  by (simp add: and_one_eq)

lemma int_and_128_eq_0: "(v::int) AND 128 = 0 \<longleftrightarrow> even (v div 128)"
  using and_exp_eq_0_iff_not_bit [of v 7] by (simp add: bit_iff_odd)

lemma int_or_128: "(v::int) mod 128 OR 128 = v mod 128 + 128"
  using concat_bit_eq [of 7 v 1] concat_bit_def [of 7 v 1]
  by (simp add: take_bit_eq_mod push_bit_eq_mult)

lemma int_or_push_bit:
  assumes "0 \<le> a" and "a < 2 ^ n"
  shows "(a::int) OR push_bit n b = a + 2 ^ n * b"
proof -
  have "take_bit n a = a"
    using assms by (simp add: take_bit_eq_mod)
  then show ?thesis
    using concat_bit_eq [of n a b] concat_bit_def [of n a b]
    by (simp add: push_bit_eq_mult mult.commute)
qed

lemma push_bit_bytes: "push_bit (8 * i) (x::int) = 256 ^ i * x"
  unfolding push_bit_eq_mult power_mult by simp

section \<open>Byte strings\<close>

type_synonym byte = "8 word"
type_synonym bytes = "byte list"

text \<open>\<open>bytes((v,))\<close> raises unless \<open>v\<close> is in \<open>range(256)\<close>.\<close>

definition mk_byte :: "int \<Rightarrow> byte res" where
  "mk_byte v = (if 0 \<le> v \<and> v < 256 then Inr (word_of_int v)
                else Inl (ValueError ''bytes must be in range(0, 256)''))"

text \<open>\<open>bytes(vs)\<close> and \<open>bytearray(vs)\<close> for a list of integers.\<close>

primrec mk_bytes :: "int list \<Rightarrow> bytes res" where
  "mk_bytes [] = Inr []"
| "mk_bytes (v # vs) = rbind (mk_byte v) (\<lambda>c. rbind (mk_bytes vs) (\<lambda>cs. Inr (c # cs)))"

text \<open>\<open>b[i]\<close> and \<open>b[i:j]\<close> with non-negative indices: the first raises out of range, the second
  is clipped.\<close>

definition bget :: "bytes \<Rightarrow> nat \<Rightarrow> int res" where
  "bget b i = (if i < length b then Inr (uint (b ! i)) else Inl IndexError)"

definition bslice :: "'a list \<Rightarrow> nat \<Rightarrow> nat \<Rightarrow> 'a list" where
  "bslice b i j = take (j - i) (drop i b)"

text \<open>\<open>b[:-n]\<close> and \<open>b[-n:]\<close> for a positive literal \<open>n\<close>.\<close>

definition bslice_to_neg :: "'a list \<Rightarrow> nat \<Rightarrow> 'a list" where
  "bslice_to_neg b n = take (length b - n) b"

definition bslice_from_neg :: "'a list \<Rightarrow> nat \<Rightarrow> 'a list" where
  "bslice_from_neg b n = drop (length b - n) b"

lemma mk_byte_ok [simp]: "0 \<le> v \<Longrightarrow> v < 256 \<Longrightarrow> mk_byte v = Inr (word_of_int v)"
  by (simp add: mk_byte_def)

lemma mk_byte_Inr_iff: "mk_byte v = Inr b \<longleftrightarrow> 0 \<le> v \<and> v < 256 \<and> b = word_of_int v"
  by (auto simp: mk_byte_def)

lemma mk_bytes_Inr_iff: "mk_bytes vs = Inr b \<longleftrightarrow> (\<forall>v\<in>set vs. 0 \<le> v \<and> v < 256) \<and> b = map word_of_int vs"
  by (induction vs arbitrary: b) (auto simp: rbind_Inr_iff mk_byte_Inr_iff)

lemma bget_append_left [simp]: "i < length a \<Longrightarrow> bget (a @ b) i = bget a i"
  by (simp add: bget_def nth_append)

lemma bget_append_right [simp]: "bget (a @ b) (length a + i) = bget b i"
  by (simp add: bget_def)

lemma bget_length_append [simp]: "bget (a @ b) (length a) = bget b 0"
  using bget_append_right [of a b 0] by simp

lemma bget_Cons_0 [simp]: "bget (x # xs) 0 = Inr (uint x)"
  by (simp add: bget_def)

lemma bget_Cons_Suc [simp]: "bget (x # xs) (Suc i) = bget xs i"
  by (simp add: bget_def)

lemma bget_Cons_numeral [simp]: "bget (x # xs) (numeral k) = bget xs (pred_numeral k)"
  by (simp add: bget_def numeral_eq_Suc)

lemma bget_Inr_iff: "bget b i = Inr v \<longleftrightarrow> i < length b \<and> v = uint (b ! i)"
  by (auto simp: bget_def)

lemma bslice_length [simp]: "length (bslice b i j) = min (j - i) (length b - i)"
  by (simp add: bslice_def min.commute)

lemma bslice_append_exact [simp]:
  "i = length a \<Longrightarrow> j = length a + length b \<Longrightarrow> bslice (a @ b @ c) i j = b"
  by (simp add: bslice_def)

lemma bslice_to_neg_append [simp]: "length c = n \<Longrightarrow> bslice_to_neg (a @ c) n = a"
  by (simp add: bslice_to_neg_def)

lemma bslice_from_neg_append [simp]: "length c = n \<Longrightarrow> bslice_from_neg (a @ c) n = c"
  by (simp add: bslice_from_neg_def)

lemma uint_byte_range [byte_simps]: "0 \<le> uint (b::byte)" "uint (b::byte) < 256"
  using uint_bounded [of b] by simp_all

lemma uint_word_of_int_byte [byte_simps]: "uint (word_of_int v :: byte) = v mod 256"
  by (simp add: uint_word_of_int)

lemma word_of_int_uint_byte [simp]: "word_of_int (uint b) = (b::byte)"
  by simp

lemma byte_high_bit: "uint (b::byte) AND 128 = 0 \<longleftrightarrow> uint b < 128"
proof -
  have "0 \<le> uint b" "uint b < 256"
    by (simp_all add: byte_simps)
  then have "uint b div 128 = (if uint b < 128 then 0 else 1)"
    by auto
  then show ?thesis
    by (simp add: int_and_128_eq_0)
qed

lemma byte_mod_128: "\<not> uint (b::byte) < 128 \<Longrightarrow> uint b mod 128 = uint b - 128"
proof -
  have "x mod 128 = x - 128" if "128 \<le> x" "x < 256" for x :: int
    using that by presburger
  then show "\<not> uint b < 128 \<Longrightarrow> ?thesis"
    using uint_byte_range [of b] by simp
qed

section \<open>Fixed-width integers\<close>

primrec le_bytes :: "nat \<Rightarrow> int \<Rightarrow> bytes" where
  "le_bytes 0 v = []"
| "le_bytes (Suc n) v = word_of_int v # le_bytes n (v div 256)"

primrec from_le :: "bytes \<Rightarrow> int" where
  "from_le [] = 0"
| "from_le (b # bs) = uint b + 256 * from_le bs"

definition from_be :: "bytes \<Rightarrow> int" where
  "from_be b = from_le (rev b)"

text \<open>\<open>v.to_bytes(n, "little")\<close> and \<open>v.to_bytes(n, "big")\<close>: OverflowError for a negative value
  and for one that does not fit.\<close>

definition to_bytes_le :: "nat \<Rightarrow> int \<Rightarrow> bytes res" where
  "to_bytes_le n v = (if 0 \<le> v \<and> v < 256 ^ n then Inr (le_bytes n v) else Inl OverflowError)"

definition to_bytes_be :: "nat \<Rightarrow> int \<Rightarrow> bytes res" where
  "to_bytes_be n v = (if 0 \<le> v \<and> v < 256 ^ n then Inr (rev (le_bytes n v)) else Inl OverflowError)"

lemma le_bytes_length [simp]: "length (le_bytes n v) = n"
  by (induction n arbitrary: v) auto

lemma from_le_range: "0 \<le> from_le b \<and> from_le b < 256 ^ length b"
proof (induction b)
  case (Cons x xs)
  have "0 \<le> uint x" "uint x < 256"
    by (simp_all add: byte_simps)
  with Cons show ?case
    by auto
qed simp

lemmas from_le_nonneg = from_le_range [THEN conjunct1]
lemmas from_le_less = from_le_range [THEN conjunct2]

lemma from_le_le_bytes: "from_le (le_bytes n v) = v mod 256 ^ n"
proof (induction n arbitrary: v)
  case (Suc n)
  have "v mod 256 ^ Suc n = v mod 256 + 256 * (v div 256 mod 256 ^ n)"
    by (simp add: mod_mult2_eq' zmod_zmult2_eq)
  with Suc show ?case
    by (simp add: byte_simps)
qed simp

lemma le_bytes_from_le: "length b = n \<Longrightarrow> le_bytes n (from_le b) = b"
proof (induction b arbitrary: n)
  case (Cons x xs)
  have x: "0 \<le> uint x" "uint x < 256"
    by (simp_all add: byte_simps)
  have "(word_of_int (uint x + 256 * from_le xs) :: byte) = x"
  proof -
    have "(uint x + 256 * from_le xs) mod 256 = uint x"
      using x by simp
    then show ?thesis
      by (metis uint_word_of_int_byte word_of_int_uint_byte)
  qed
  moreover have "(uint x + 256 * from_le xs) div 256 = from_le xs"
    using x by simp
  ultimately show ?case
    using Cons by auto
qed simp

lemma from_le_append: "from_le (a @ b) = from_le a + 256 ^ length a * from_le b"
  by (induction a) (auto simp: algebra_simps)

lemma from_le_inject: "length a = length b \<Longrightarrow> from_le a = from_le b \<longleftrightarrow> a = b"
  by (metis le_bytes_from_le)

lemma to_bytes_le_Inr_iff:
  "to_bytes_le n v = Inr b \<longleftrightarrow> length b = n \<and> from_le b = v"
proof
  assume "to_bytes_le n v = Inr b"
  then show "length b = n \<and> from_le b = v"
    by (auto simp: to_bytes_le_def from_le_le_bytes split: if_splits)
next
  assume "length b = n \<and> from_le b = v"
  then show "to_bytes_le n v = Inr b"
    using from_le_range [of b] by (auto simp: to_bytes_le_def le_bytes_from_le)
qed

lemma to_bytes_be_Inr_iff:
  "to_bytes_be n v = Inr b \<longleftrightarrow> length b = n \<and> from_be b = v"
  using to_bytes_le_Inr_iff [of n v "rev b"]
  by (auto simp: to_bytes_be_def to_bytes_le_def from_be_def split: if_splits)

lemma from_be_range: "0 \<le> from_be b \<and> from_be b < 256 ^ length b"
  using from_le_range [of "rev b"] by (simp add: from_be_def)

section \<open>Lists\<close>

lemma take_drop_bslice: "i \<le> j \<Longrightarrow> take i b @ bslice b i j @ drop j b = b"
proof -
  assume "i \<le> j"
  then have "drop j b = drop (j - i) (drop i b)"
    by simp
  then have "bslice b i j @ drop j b = drop i b"
    by (simp only: bslice_def append_take_drop_id)
  then show ?thesis
    by simp
qed

end
