(* ===== verification/Effects.thy ===== *)
theory Effects
  imports Prelude
begin

text \<open>
  Stateful Python code: a handler that reads and changes objects and may raise is a function from
  the state to its result or exception and the state it leaves behind. An exception does not undo what
  was assigned before it was raised. The locale \<open>effect_relation\<close> lifts a reflexive and transitive
  relation between states (something every primitive step does) to whole handlers.
\<close>

type_synonym ('s, 'a) py = "'s \<Rightarrow> 'a res \<times> 's"

definition pret :: "'a \<Rightarrow> ('s, 'a) py" where
  "pret x s = (Inr x, s)"

definition praise :: "py_error \<Rightarrow> ('s, 'a) py" where
  "praise e s = (Inl e, s)"

definition pbind :: "('s, 'a) py \<Rightarrow> ('a \<Rightarrow> ('s, 'b) py) \<Rightarrow> ('s, 'b) py" where
  "pbind m f s = (case m s of (Inl e, s') \<Rightarrow> (Inl e, s') | (Inr x, s') \<Rightarrow> f x s')"

definition pseq :: "('s, 'a) py \<Rightarrow> ('s, 'b) py \<Rightarrow> ('s, 'b) py" where
  "pseq m k = pbind m (\<lambda>_. k)"

definition pget :: "('s \<Rightarrow> 'a) \<Rightarrow> ('s, 'a) py" where
  "pget f s = (Inr (f s), s)"

definition pmod :: "('s \<Rightarrow> 's) \<Rightarrow> ('s, unit) py" where
  "pmod f s = (Inr (), f s)"

definition plift :: "'a res \<Rightarrow> ('s, 'a) py" where
  "plift r s = (r, s)"

text \<open>\<open>try: m except Exception as e: h e\<close>.\<close>

definition ptry :: "('s, 'a) py \<Rightarrow> (py_error \<Rightarrow> ('s, 'a) py) \<Rightarrow> ('s, 'a) py" where
  "ptry m h s = (case m s of (Inl e, s') \<Rightarrow> h e s' | (Inr x, s') \<Rightarrow> (Inr x, s'))"

text \<open>\<open>if c: m\<close> without an else.\<close>

definition pwhen :: "bool \<Rightarrow> ('s, unit) py \<Rightarrow> ('s, unit) py" where
  "pwhen c m = (if c then m else pret ())"

text \<open>\<open>for x in xs: f(x)\<close>.\<close>

primrec pfor :: "('a \<Rightarrow> ('s, unit) py) \<Rightarrow> 'a list \<Rightarrow> ('s, unit) py" where
  "pfor f [] = pret ()"
| "pfor f (x # xs) = pseq (f x) (pfor f xs)"

named_theorems py_simps "evaluation of the effect combinators"

lemma py_eval [py_simps]:
  "pret x s = (Inr x, s)"
  "praise e s = (Inl e, s)"
  "pget f s = (Inr (f s), s)"
  "pmod g s = (Inr (), g s)"
  "plift r s = (r, s)"
  by (simp_all add: pret_def praise_def pget_def pmod_def plift_def)

lemma pbind_eval [py_simps]:
  "m s = (Inr x, s') \<Longrightarrow> pbind m f s = f x s'"
  "m s = (Inl e, s') \<Longrightarrow> pbind m f s = (Inl e, s')"
  by (simp_all add: pbind_def)

lemma pseq_eval [py_simps]:
  "m s = (Inr x, s') \<Longrightarrow> pseq m k s = k s'"
  "m s = (Inl e, s') \<Longrightarrow> pseq m k s = (Inl e, s')"
  by (simp_all add: pseq_def pbind_def)

lemma ptry_eval [py_simps]:
  "m s = (Inr x, s') \<Longrightarrow> ptry m h s = (Inr x, s')"
  "m s = (Inl e, s') \<Longrightarrow> ptry m h s = h e s'"
  by (simp_all add: ptry_def)

lemma pwhen_eval [py_simps]:
  "pwhen True m = m"
  "pwhen False m = pret ()"
  by (simp_all add: pwhen_def)

lemma pfor_pmod: "pfor (\<lambda>x. pmod (g x)) xs s = (Inr (), fold g xs s)"
  by (induction xs arbitrary: s) (simp_all add: py_simps)

text \<open>Runs that return.\<close>

named_theorems run_simps "runs that return, by their steps"

lemma run_returns [run_simps]:
  "pbind m f s = (Inr y, u) \<longleftrightarrow> (\<exists>x t. m s = (Inr x, t) \<and> f x t = (Inr y, u))"
  "pseq m k s = (Inr y, u) \<longleftrightarrow> (\<exists>x t. m s = (Inr x, t) \<and> k t = (Inr y, u))"
  "pret x s = (Inr y, u) \<longleftrightarrow> y = x \<and> u = s"
  "pget g s = (Inr z, u) \<longleftrightarrow> z = g s \<and> u = s"
  "pmod h s = (Inr v, u) \<longleftrightarrow> u = h s"
  "plift r s = (Inr y, u) \<longleftrightarrow> r = Inr y \<and> u = s"
  "praise e s = (Inr y, u) \<longleftrightarrow> False"
  by (auto simp: pbind_def pseq_def pret_def pget_def pmod_def plift_def praise_def split: prod.splits sum.splits)

lemma pwhen_returns [run_simps]: "pwhen c m' s = (Inr v, u) \<longleftrightarrow> (if c then m' s = (Inr v, u) else u = s)"
  by (auto simp: pwhen_def pret_def)

text \<open>What holds of the state after a handler, whether it returned or raised.\<close>

definition steps :: "('s \<Rightarrow> 's \<Rightarrow> bool) \<Rightarrow> ('s, 'a) py \<Rightarrow> bool" where
  "steps R m \<longleftrightarrow> (\<forall>s. R s (snd (m s)))"

lemma stepsD: "steps R m \<Longrightarrow> m s = (r, s') \<Longrightarrow> R s s'"
  unfolding steps_def by (metis snd_conv)

text \<open>The same for one run, from the state it starts in.\<close>

definition steps_at :: "('s \<Rightarrow> 's \<Rightarrow> bool) \<Rightarrow> ('s, 'a) py \<Rightarrow> 's \<Rightarrow> bool" where
  "steps_at R m s \<longleftrightarrow> R s (snd (m s))"

lemma steps_at_run: "steps_at R m s \<Longrightarrow> m s = (r, s') \<Longrightarrow> R s s'"
  by (simp add: steps_at_def)

lemma steps_at_steps: "steps R m \<Longrightarrow> steps_at R m s"
  by (simp add: steps_def steps_at_def)

lemma steps_at_pget: "steps_at R (f (g s)) s \<Longrightarrow> steps_at R (pbind (pget g) f) s"
  by (simp add: steps_at_def pbind_def pget_def)

lemma stepsI: "(\<And>s r s'. m s = (r, s') \<Longrightarrow> R s s') \<Longrightarrow> steps R m"
  unfolding steps_def by (metis prod.collapse)

locale effect_relation =
  fixes R :: "'s \<Rightarrow> 's \<Rightarrow> bool"
  assumes refl: "R s s"
    and trans: "R s t \<Longrightarrow> R t u \<Longrightarrow> R s u"
begin

lemma steps_pret [intro!, simp]: "steps R (pret x)"
  by (simp add: steps_def pret_def refl)

lemma steps_praise [intro!, simp]: "steps R (praise e)"
  by (simp add: steps_def praise_def refl)

lemma steps_pget [intro!, simp]: "steps R (pget f)"
  by (simp add: steps_def pget_def refl)

lemma steps_plift [intro!, simp]: "steps R (plift r)"
  by (simp add: steps_def plift_def refl)

lemma steps_pbind [intro!]:
  assumes "steps R m" and "\<And>x. steps R (f x)"
  shows "steps R (pbind m f)"
  using assms unfolding steps_def pbind_def
  by (auto split: prod.splits sum.splits) (metis snd_conv, metis snd_conv trans)

text \<open>The continuation may use how its argument was computed.\<close>

lemma steps_pbind_run:
  assumes "steps R m" and "\<And>s x s'. m s = (Inr x, s') \<Longrightarrow> steps R (f x)"
  shows "steps R (pbind m f)"
proof (rule stepsI)
  fix s r s'
  assume run: "pbind m f s = (r, s')"
  obtain x t where m: "m s = (x, t)"
    by fastforce
  then have "R s t"
    by (rule stepsD [OF assms(1)])
  moreover have "R t s'"
  proof (cases x)
    case (Inl e)
    then show ?thesis
      using run m by (simp add: pbind_def refl)
  next
    case (Inr y)
    then have "f y t = (r, s')"
      using run m by (simp add: pbind_def)
    then show ?thesis
      by (rule stepsD [OF assms(2) [OF m [unfolded Inr]]])
  qed
  ultimately show "R s s'"
    by (rule trans)
qed

text \<open>A value the environment answered: the continuation may use what it is.\<close>

lemma steps_pbind_plift [intro!]: "(\<And>x. r = Inr x \<Longrightarrow> steps R (f x)) \<Longrightarrow> steps R (pbind (plift r) f)"
  using refl by (cases r) (auto simp: steps_def pbind_def plift_def)

lemma steps_pseq [intro!]: "steps R m \<Longrightarrow> steps R k \<Longrightarrow> steps R (pseq m k)"
  unfolding pseq_def by (rule steps_pbind)

lemma steps_ptry [intro!]:
  assumes "steps R m" and "\<And>e. steps R (h e)"
  shows "steps R (ptry m h)"
  using assms unfolding steps_def ptry_def
  by (auto split: prod.splits sum.splits) (metis snd_conv trans, metis snd_conv)

lemma steps_at_pbind:
  assumes "steps_at R m s" and "\<And>x s'. m s = (Inr x, s') \<Longrightarrow> R s s' \<Longrightarrow> steps_at R (f x) s'"
  shows "steps_at R (pbind m f) s"
  using assms unfolding steps_at_def pbind_def
  by (auto split: prod.splits sum.splits) (metis snd_conv trans)

lemma steps_at_pseq:
  "steps_at R m s \<Longrightarrow> (\<And>x s'. m s = (Inr x, s') \<Longrightarrow> R s s' \<Longrightarrow> steps_at R k s') \<Longrightarrow> steps_at R (pseq m k) s"
  unfolding pseq_def by (rule steps_at_pbind)

lemma steps_pwhen [intro!]: "(c \<Longrightarrow> steps R m) \<Longrightarrow> steps R (pwhen c m)"
  by (simp add: pwhen_def)

lemma steps_if [intro!]: "(c \<Longrightarrow> steps R m) \<Longrightarrow> (\<not> c \<Longrightarrow> steps R k) \<Longrightarrow> steps R (if c then m else k)"
  by simp

lemma steps_case_option [intro!]:
  "(x = None \<Longrightarrow> steps R m) \<Longrightarrow> (\<And>y. x = Some y \<Longrightarrow> steps R (f y)) \<Longrightarrow> steps R (case x of None \<Rightarrow> m | Some y \<Rightarrow> f y)"
  by (cases x) auto

lemma steps_case_sum [intro!]:
  "(\<And>e. x = Inl e \<Longrightarrow> steps R (g e)) \<Longrightarrow> (\<And>y. x = Inr y \<Longrightarrow> steps R (f y)) \<Longrightarrow> steps R (case x of Inl e \<Rightarrow> g e | Inr y \<Rightarrow> f y)"
  by (cases x) auto

lemma steps_case_prod [intro!]: "(\<And>a b. x = (a, b) \<Longrightarrow> steps R (f a b)) \<Longrightarrow> steps R (case x of (a, b) \<Rightarrow> f a b)"
  by (cases x) auto

lemma steps_let [intro!]: "steps R (f x) \<Longrightarrow> steps R (let y = x in f y)"
  by simp

lemma steps_pfor [intro!]: "(\<And>x. x \<in> set xs \<Longrightarrow> steps R (f x)) \<Longrightarrow> steps R (pfor f xs)"
  by (induction xs) auto

end

end
