(* ===== verification/Chainparams.thy ===== *)
theory Chainparams
  imports Prelude
begin

text \<open>
  The coins and their parameters: \<open>src/basicswap/chainparams.py\<close> and the \<open>params\<close> dictionaries of
  \<open>src/basicswap/interface/*/chainparams.py\<close>. A dictionary is a record; a key that only some coins
  have is an option. The lookup maps are built by the loops the module runs when it is loaded.
\<close>

section \<open>Definitions\<close>

datatype Coins =
    PART | BTC | LTC | DCR | NMC | XMR | PART_BLIND | PART_ANON | WOW | PIVX | DASH | FIRO | NAV | LTC_MWEB | BCH | DOGE

primrec Coins_val :: "Coins \<Rightarrow> int" where
  "Coins_val PART = 1"
| "Coins_val BTC = 2"
| "Coins_val LTC = 3"
| "Coins_val DCR = 4"
| "Coins_val NMC = 5"
| "Coins_val XMR = 6"
| "Coins_val PART_BLIND = 7"
| "Coins_val PART_ANON = 8"
| "Coins_val WOW = 9"
| "Coins_val PIVX = 11"
| "Coins_val DASH = 12"
| "Coins_val FIRO = 13"
| "Coins_val NAV = 14"
| "Coins_val LTC_MWEB = 15"
| "Coins_val BCH = 17"
| "Coins_val DOGE = 18"

definition Coins_all :: "Coins list" where
  "Coins_all = [PART, BTC, LTC, DCR, NMC, XMR, PART_BLIND, PART_ANON, WOW, PIVX, DASH, FIRO, NAV, LTC_MWEB, BCH, DOGE]"

definition Coins_of :: "int \<Rightarrow> Coins option" where
  "Coins_of v = find (\<lambda>c. Coins_val c = v) Coins_all"

text \<open>\<open>c.name\<close> of an enumeration member.\<close>

primrec Coins_name :: "Coins \<Rightarrow> string" where
  "Coins_name PART = ''PART''"
| "Coins_name BTC = ''BTC''"
| "Coins_name LTC = ''LTC''"
| "Coins_name DCR = ''DCR''"
| "Coins_name NMC = ''NMC''"
| "Coins_name XMR = ''XMR''"
| "Coins_name PART_BLIND = ''PART_BLIND''"
| "Coins_name PART_ANON = ''PART_ANON''"
| "Coins_name WOW = ''WOW''"
| "Coins_name PIVX = ''PIVX''"
| "Coins_name DASH = ''DASH''"
| "Coins_name FIRO = ''FIRO''"
| "Coins_name NAV = ''NAV''"
| "Coins_name LTC_MWEB = ''LTC_MWEB''"
| "Coins_name BCH = ''BCH''"
| "Coins_name DOGE = ''DOGE''"

definition coins_without_segwit :: "Coins list" where
  "coins_without_segwit = [PIVX, DASH]"

definition scriptless_coins :: "Coins list" where
  "scriptless_coins = [XMR, WOW, PART_ANON, FIRO, DOGE]"

definition xmr_based_coins :: "Coins list" where
  "xmr_based_coins = [XMR, WOW]"

record network_params =
  rpcport :: int
  pubkey_address :: "int option"
  script_address :: "int option"
  key_prefix :: "int option"
  stealth_key_prefix :: "int option"
  hrp :: "string option"
  bip44 :: "int option"
  net_min_amount :: int
  net_max_amount :: int
  ext_public_key_prefix :: "int option"
  ext_secret_key_prefix :: "int option"
  net_name :: "string option"
  script_address2 :: "int option"
  walletrpcport :: "int option"
  address_prefix :: "int option"
  subaddress_prefix :: "int option"

record coin_params =
  coin_name :: string
  coin_ticker :: string
  message_magic :: "string option"
  blocks_target :: int
  decimal_places :: int
  has_multiwallet :: "bool option"
  client :: "string option"
  display_name :: "string option"
  has_cltv :: "bool option"
  has_csv :: "bool option"
  has_segwit :: "bool option"
  cli_binname :: "string option"
  core_binname :: "string option"
  mainnet :: network_params
  testnet :: network_params
  regtest :: network_params

text \<open>Records with every optional key absent.\<close>

definition no_network :: network_params where
  "no_network = \<lparr>rpcport = 0, pubkey_address = None, script_address = None, key_prefix = None, stealth_key_prefix = None, hrp = None, bip44 = None, net_min_amount = 0, net_max_amount = 0, ext_public_key_prefix = None, ext_secret_key_prefix = None, net_name = None, script_address2 = None, walletrpcport = None, address_prefix = None, subaddress_prefix = None\<rparr>"

definition no_params :: coin_params where
  "no_params = \<lparr>coin_name = '''', coin_ticker = '''', message_magic = None, blocks_target = 0, decimal_places = 0, has_multiwallet = None, client = None, display_name = None, has_cltv = None, has_csv = None, has_segwit = None, cli_binname = None, core_binname = None,
     mainnet = no_network, testnet = no_network, regtest = no_network\<rparr>"

definition part_params :: coin_params where
  "part_params = no_params\<lparr>
     coin_name := ''particl'', coin_ticker := ''PART'',
     message_magic := Some (''Bitcoin Signed Message:'' @ [CHR 0x0A]), blocks_target := 120,
     decimal_places := 8,
     mainnet :=
       no_network\<lparr>rpcport := 51735, pubkey_address := Some 56, script_address := Some 60, key_prefix := Some 108,
       stealth_key_prefix := Some 20, hrp := Some ''pw'', bip44 := Some 44, net_min_amount := 100000,
       net_max_amount := 1000000000000000, ext_public_key_prefix := Some 1768850129,
       ext_secret_key_prefix := Some 2401087160\<rparr>,
     testnet :=
       no_network\<lparr>rpcport := 51935, pubkey_address := Some 118, script_address := Some 122, key_prefix := Some 46,
       stealth_key_prefix := Some 21, hrp := Some ''tpw'', bip44 := Some 1, net_min_amount := 100000,
       net_max_amount := 1000000000000000, ext_public_key_prefix := Some 3779229696,
       ext_secret_key_prefix := Some 76059768\<rparr>,
     regtest :=
       no_network\<lparr>rpcport := 51936, pubkey_address := Some 118, script_address := Some 122, key_prefix := Some 46,
       stealth_key_prefix := Some 21, hrp := Some ''rtpw'', bip44 := Some 1, net_min_amount := 100000,
       net_max_amount := 1000000000000000, ext_public_key_prefix := Some 3779229696,
       ext_secret_key_prefix := Some 76059768\<rparr>\<rparr>"

definition btc_params :: coin_params where
  "btc_params = no_params\<lparr>
     coin_name := ''bitcoin'', coin_ticker := ''BTC'',
     message_magic := Some (''Bitcoin Signed Message:'' @ [CHR 0x0A]), blocks_target := 600,
     decimal_places := 8,
     mainnet :=
       no_network\<lparr>rpcport := 8332, pubkey_address := Some 0, script_address := Some 5, key_prefix := Some 128,
       hrp := Some ''bc'', bip44 := Some 0, net_min_amount := 100000, net_max_amount := 1000000000000000,
       ext_public_key_prefix := Some 76067358, ext_secret_key_prefix := Some 76066276\<rparr>,
     testnet :=
       no_network\<lparr>rpcport := 18332, pubkey_address := Some 111, script_address := Some 196, key_prefix := Some 239,
       hrp := Some ''tb'', bip44 := Some 1, net_min_amount := 100000, net_max_amount := 1000000000000000,
       net_name := Some ''testnet3'', ext_public_key_prefix := Some 70617039,
       ext_secret_key_prefix := Some 70615956\<rparr>,
     regtest :=
       no_network\<lparr>rpcport := 18443, pubkey_address := Some 111, script_address := Some 196, key_prefix := Some 239,
       hrp := Some ''bcrt'', bip44 := Some 1, net_min_amount := 100000,
       net_max_amount := 1000000000000000, ext_public_key_prefix := Some 70617039,
       ext_secret_key_prefix := Some 70615956\<rparr>\<rparr>"

definition ltc_params :: coin_params where
  "ltc_params = no_params\<lparr>
     coin_name := ''litecoin'', coin_ticker := ''LTC'',
     message_magic := Some (''Litecoin Signed Message:'' @ [CHR 0x0A]), blocks_target := 150,
     decimal_places := 8,
     mainnet :=
       no_network\<lparr>rpcport := 9332, pubkey_address := Some 48, script_address := Some 5, script_address2 := Some 50,
       key_prefix := Some 176, hrp := Some ''ltc'', bip44 := Some 2, net_min_amount := 100000,
       net_max_amount := 1000000000000000\<rparr>,
     testnet :=
       no_network\<lparr>rpcport := 19332, pubkey_address := Some 111, script_address := Some 196,
       script_address2 := Some 58, key_prefix := Some 239, hrp := Some ''tltc'', bip44 := Some 1,
       net_min_amount := 100000, net_max_amount := 1000000000000000, net_name := Some ''testnet4''\<rparr>,
     regtest :=
       no_network\<lparr>rpcport := 19443, pubkey_address := Some 111, script_address := Some 196,
       script_address2 := Some 58, key_prefix := Some 239, hrp := Some ''rltc'', bip44 := Some 1,
       net_min_amount := 100000, net_max_amount := 1000000000000000\<rparr>\<rparr>"

definition dcr_params :: coin_params where
  "dcr_params = no_params\<lparr>
     coin_name := ''decred'', coin_ticker := ''DCR'',
     message_magic := Some (''Decred Signed Message:'' @ [CHR 0x0A]), blocks_target := 300,
     decimal_places := 8, has_multiwallet := Some False,
     mainnet :=
       no_network\<lparr>rpcport := 9109, pubkey_address := Some 1855, script_address := Some 1818, key_prefix := Some 8926,
       bip44 := Some 42, net_min_amount := 100000, net_max_amount := 1000000000000000\<rparr>,
     testnet :=
       no_network\<lparr>rpcport := 19109, pubkey_address := Some 3873, script_address := Some 3836,
       key_prefix := Some 8974, bip44 := Some 1, net_min_amount := 100000,
       net_max_amount := 1000000000000000, net_name := Some ''testnet3''\<rparr>,
     regtest :=
       no_network\<lparr>rpcport := 18656, pubkey_address := Some 3729, script_address := Some 3692,
       key_prefix := Some 8967, bip44 := Some 115, net_min_amount := 100000,
       net_max_amount := 1000000000000000\<rparr>\<rparr>"

definition nmc_params :: coin_params where
  "nmc_params = no_params\<lparr>
     coin_name := ''namecoin'', coin_ticker := ''NMC'',
     message_magic := Some (''Namecoin Signed Message:'' @ [CHR 0x0A]), blocks_target := 600,
     decimal_places := 8,
     mainnet :=
       no_network\<lparr>rpcport := 8336, pubkey_address := Some 52, script_address := Some 13, key_prefix := Some 180,
       hrp := Some ''nc'', bip44 := Some 7, net_min_amount := 100000, net_max_amount := 1000000000000000,
       ext_public_key_prefix := Some 76067358, ext_secret_key_prefix := Some 76066276\<rparr>,
     testnet :=
       no_network\<lparr>rpcport := 18336, pubkey_address := Some 111, script_address := Some 196, key_prefix := Some 239,
       hrp := Some ''tn'', bip44 := Some 1, net_min_amount := 100000, net_max_amount := 1000000000000000,
       net_name := Some ''testnet3'', ext_public_key_prefix := Some 70617039,
       ext_secret_key_prefix := Some 70615956\<rparr>,
     regtest :=
       no_network\<lparr>rpcport := 18443, pubkey_address := Some 111, script_address := Some 196, key_prefix := Some 239,
       hrp := Some ''ncrt'', bip44 := Some 1, net_min_amount := 100000,
       net_max_amount := 1000000000000000, ext_public_key_prefix := Some 70617039,
       ext_secret_key_prefix := Some 70615956\<rparr>\<rparr>"

definition xmr_params :: coin_params where
  "xmr_params = no_params\<lparr>
     coin_name := ''monero'', coin_ticker := ''XMR'', client := Some ''xmr'', blocks_target := 120,
     decimal_places := 12,
     mainnet :=
       no_network\<lparr>rpcport := 18081, walletrpcport := Some 18082, net_min_amount := 1000000000,
       net_max_amount := 10000000000000000000, address_prefix := Some 18, subaddress_prefix := Some 42\<rparr>,
     testnet :=
       no_network\<lparr>rpcport := 28081, walletrpcport := Some 28082, net_min_amount := 1000000000,
       net_max_amount := 10000000000000000000, address_prefix := Some 18, subaddress_prefix := Some 42\<rparr>,
     regtest :=
       no_network\<lparr>rpcport := 18081, walletrpcport := Some 18082, net_min_amount := 1000000000,
       net_max_amount := 10000000000000000000, address_prefix := Some 18, subaddress_prefix := Some 42\<rparr>\<rparr>"

definition wow_params :: coin_params where
  "wow_params = no_params\<lparr>
     coin_name := ''wownero'', coin_ticker := ''WOW'', client := Some ''wow'', blocks_target := 300,
     decimal_places := 11,
     mainnet :=
       no_network\<lparr>rpcport := 34568, walletrpcport := Some 34572, net_min_amount := 100000000,
       net_max_amount := 1000000000000000000, address_prefix := Some 4146, subaddress_prefix := Some 12208\<rparr>,
     testnet :=
       no_network\<lparr>rpcport := 44568, walletrpcport := Some 44572, net_min_amount := 100000000,
       net_max_amount := 1000000000000000000, address_prefix := Some 4146, subaddress_prefix := Some 12208\<rparr>,
     regtest :=
       no_network\<lparr>rpcport := 54568, walletrpcport := Some 54572, net_min_amount := 100000000,
       net_max_amount := 1000000000000000000, address_prefix := Some 4146, subaddress_prefix := Some 12208\<rparr>\<rparr>"

definition pivx_params :: coin_params where
  "pivx_params = no_params\<lparr>
     coin_name := ''pivx'', coin_ticker := ''PIVX'', display_name := Some ''PIVX'',
     message_magic := Some (''DarkNet Signed Message:'' @ [CHR 0x0A]), blocks_target := 60,
     decimal_places := 8, has_cltv := Some True, has_csv := Some False, has_segwit := Some False,
     mainnet :=
       no_network\<lparr>rpcport := 51473, pubkey_address := Some 30, script_address := Some 13, key_prefix := Some 212,
       bip44 := Some 119, net_min_amount := 100000, net_max_amount := 1000000000000000\<rparr>,
     testnet :=
       no_network\<lparr>rpcport := 51475, pubkey_address := Some 139, script_address := Some 19, key_prefix := Some 239,
       bip44 := Some 1, net_min_amount := 100000, net_max_amount := 1000000000000000,
       net_name := Some ''testnet4''\<rparr>,
     regtest :=
       no_network\<lparr>rpcport := 51477, pubkey_address := Some 139, script_address := Some 19, key_prefix := Some 239,
       bip44 := Some 1, net_min_amount := 100000, net_max_amount := 1000000000000000\<rparr>\<rparr>"

definition dash_params :: coin_params where
  "dash_params = no_params\<lparr>
     coin_name := ''dash'', coin_ticker := ''DASH'',
     message_magic := Some (''DarkCoin Signed Message:'' @ [CHR 0x0A]), blocks_target := 150,
     decimal_places := 8, has_csv := Some True, has_segwit := Some False,
     mainnet :=
       no_network\<lparr>rpcport := 9998, pubkey_address := Some 76, script_address := Some 16, key_prefix := Some 204,
       hrp := Some '''', bip44 := Some 5, net_min_amount := 100000, net_max_amount := 1000000000000000\<rparr>,
     testnet :=
       no_network\<lparr>rpcport := 19998, pubkey_address := Some 140, script_address := Some 19, key_prefix := Some 239,
       hrp := Some '''', bip44 := Some 1, net_min_amount := 100000, net_max_amount := 1000000000000000\<rparr>,
     regtest :=
       no_network\<lparr>rpcport := 18332, pubkey_address := Some 140, script_address := Some 19, key_prefix := Some 239,
       hrp := Some '''', bip44 := Some 1, net_min_amount := 100000, net_max_amount := 1000000000000000\<rparr>\<rparr>"

definition firo_params :: coin_params where
  "firo_params = no_params\<lparr>
     coin_name := ''firo'', coin_ticker := ''FIRO'',
     message_magic := Some (''Zcoin Signed Message:'' @ [CHR 0x0A]), blocks_target := 150,
     decimal_places := 8, has_cltv := Some False, has_csv := Some False, has_segwit := Some False,
     has_multiwallet := Some False,
     mainnet :=
       no_network\<lparr>rpcport := 8888, pubkey_address := Some 82, script_address := Some 7, key_prefix := Some 210,
       hrp := Some '''', bip44 := Some 136, net_min_amount := 100000, net_max_amount := 1000000000000000\<rparr>,
     testnet :=
       no_network\<lparr>rpcport := 18888, pubkey_address := Some 65, script_address := Some 178, key_prefix := Some 185,
       hrp := Some '''', bip44 := Some 1, net_min_amount := 100000, net_max_amount := 1000000000000000\<rparr>,
     regtest :=
       no_network\<lparr>rpcport := 28888, pubkey_address := Some 65, script_address := Some 178, key_prefix := Some 239,
       hrp := Some '''', bip44 := Some 1, net_min_amount := 100000, net_max_amount := 1000000000000000\<rparr>\<rparr>"

definition nav_params :: coin_params where
  "nav_params = no_params\<lparr>
     coin_name := ''navcoin'', coin_ticker := ''NAV'',
     message_magic := Some (''Navcoin Signed Message:'' @ [CHR 0x0A]), blocks_target := 30,
     decimal_places := 8, has_csv := Some True, has_segwit := Some True, has_multiwallet := Some False,
     mainnet :=
       no_network\<lparr>rpcport := 44444, pubkey_address := Some 53, script_address := Some 85, key_prefix := Some 150,
       hrp := Some '''', bip44 := Some 130, net_min_amount := 100000, net_max_amount := 1000000000000000\<rparr>,
     testnet :=
       no_network\<lparr>rpcport := 44445, pubkey_address := Some 111, script_address := Some 196, key_prefix := Some 239,
       hrp := Some '''', bip44 := Some 1, net_min_amount := 100000, net_max_amount := 1000000000000000\<rparr>,
     regtest :=
       no_network\<lparr>rpcport := 44446, pubkey_address := Some 111, script_address := Some 196, key_prefix := Some 239,
       hrp := Some '''', bip44 := Some 1, net_min_amount := 100000, net_max_amount := 1000000000000000\<rparr>\<rparr>"

definition bch_params :: coin_params where
  "bch_params = no_params\<lparr>
     coin_name := ''bitcoincash'', coin_ticker := ''BCH'', display_name := Some ''Bitcoin Cash'',
     message_magic := Some (''Bitcoin Signed Message:'' @ [CHR 0x0A]), blocks_target := 600,
     decimal_places := 8, has_cltv := Some True, has_csv := Some True, has_segwit := Some False,
     cli_binname := Some ''bitcoin-cli'', core_binname := Some ''bitcoind'',
     mainnet :=
       no_network\<lparr>rpcport := 8332, pubkey_address := Some 0, script_address := Some 5, key_prefix := Some 128,
       hrp := Some ''bitcoincash'', bip44 := Some 0, net_min_amount := 100000,
       net_max_amount := 1000000000000000\<rparr>,
     testnet :=
       no_network\<lparr>rpcport := 18332, pubkey_address := Some 111, script_address := Some 196, key_prefix := Some 239,
       hrp := Some ''bchtest'', bip44 := Some 1, net_min_amount := 100000,
       net_max_amount := 1000000000000000, net_name := Some ''testnet3''\<rparr>,
     regtest :=
       no_network\<lparr>rpcport := 18443, pubkey_address := Some 111, script_address := Some 196, key_prefix := Some 239,
       hrp := Some ''bchreg'', bip44 := Some 1, net_min_amount := 100000,
       net_max_amount := 1000000000000000\<rparr>\<rparr>"

definition doge_params :: coin_params where
  "doge_params = no_params\<lparr>
     coin_name := ''dogecoin'', coin_ticker := ''DOGE'',
     message_magic := Some (''Dogecoin Signed Message:'' @ [CHR 0x0A]), blocks_target := 60,
     decimal_places := 8,
     mainnet :=
       no_network\<lparr>rpcport := 22555, pubkey_address := Some 30, script_address := Some 22, key_prefix := Some 158,
       hrp := Some ''doge'', bip44 := Some 3, net_min_amount := 100000, net_max_amount := 1000000000000000\<rparr>,
     testnet :=
       no_network\<lparr>rpcport := 44555, pubkey_address := Some 113, script_address := Some 196, key_prefix := Some 241,
       hrp := Some ''tdge'', bip44 := Some 1, net_min_amount := 100000,
       net_max_amount := 1000000000000000, net_name := Some ''testnet4''\<rparr>,
     regtest :=
       no_network\<lparr>rpcport := 18332, pubkey_address := Some 111, script_address := Some 196, key_prefix := Some 239,
       hrp := Some ''rdge'', bip44 := Some 1, net_min_amount := 100000, net_max_amount := 1000000000000000\<rparr>\<rparr>"

text \<open>The dictionary in its order.\<close>

definition chainparams :: "(Coins \<times> coin_params) list" where
  "chainparams =
    [(PART, part_params), (BTC, btc_params), (LTC, ltc_params), (DCR, dcr_params), (NMC, nmc_params),
     (XMR, xmr_params), (WOW, wow_params), (PIVX, pivx_params), (DASH, dash_params),
     (FIRO, firo_params), (NAV, nav_params), (BCH, bch_params), (DOGE, doge_params)]"

definition lower :: "string \<Rightarrow> string" where
  "lower s = map (\<lambda>c. let n = (of_char c :: nat) in if 65 \<le> n \<and> n \<le> 90 then char_of (n + 32) else c) s"

text \<open>A dictionary filled in a loop: later entries replace earlier ones.\<close>

definition name_map :: "string \<Rightarrow> Coins option" where
  "name_map = map_of (rev (map (\<lambda>(c, params). (lower (coin_name params), c)) chainparams))"

definition ticker_map :: "string \<Rightarrow> Coins option" where
  "ticker_map = map_of (rev (map (\<lambda>(c, params). (lower (coin_ticker params), c)) chainparams))"

definition variant_ticker_map :: "string \<Rightarrow> Coins option" where
  "variant_ticker_map =
     map_of (rev (map (\<lambda>c. (lower (Coins_name c), c))
       (filter (\<lambda>c. ticker_map (lower (Coins_name c)) = None) Coins_all)))"

definition getCoinIdFromTicker :: "string \<Rightarrow> bool \<Rightarrow> Coins res" where
  "getCoinIdFromTicker ticker inc_variant =
     (let lc_ticker = lower ticker
      in case (if inc_variant \<and> variant_ticker_map lc_ticker \<noteq> None then variant_ticker_map lc_ticker
               else ticker_map lc_ticker) of
           Some c \<Rightarrow> Inr c
         | None \<Rightarrow> Inl (ValueError ''Unknown coin''))"

definition getCoinIdFromName :: "string \<Rightarrow> bool \<Rightarrow> Coins res" where
  "getCoinIdFromName name inc_variant =
     (let lc_name = lower name
      in if inc_variant \<and> lc_name = ''particl blind'' then Inr PART_BLIND
         else if inc_variant \<and> lc_name = ''particl anon'' then Inr PART_ANON
         else case name_map lc_name of
                Some c \<Rightarrow> Inr c
              | None \<Rightarrow> Inl (ValueError ''Unknown coin''))"

definition isKnownCoinName :: "string \<Rightarrow> bool" where
  "isKnownCoinName name \<longleftrightarrow> name_map (lower name) \<noteq> None"

text \<open>\<open>chainparams[coin][network]\<close> for the three networks.\<close>

definition networks :: "coin_params \<Rightarrow> network_params list" where
  "networks p = [mainnet p, testnet p, regtest p]"

section \<open>Specification vocabulary\<close>

definition sane_network :: "coin_params \<Rightarrow> network_params \<Rightarrow> bool" where
  "sane_network p n \<longleftrightarrow>
     0 < net_min_amount n \<and> net_min_amount n < net_max_amount n
     \<and> 10 ^ nat (decimal_places p) \<le> net_max_amount n \<and> net_min_amount n \<le> 10 ^ nat (decimal_places p)
     \<and> (case (pubkey_address n, script_address n) of
          (Some a, Some b) \<Rightarrow> a \<noteq> b \<and> 0 \<le> a \<and> a < 2 ^ 16 \<and> 0 \<le> b \<and> b < 2 ^ 16
        | (None, None) \<Rightarrow> address_prefix n \<noteq> None
        | _ \<Rightarrow> False)"

section \<open>Facts\<close>

lemma Coins_all_complete: "c \<in> set Coins_all"
  by (cases c) (simp_all add: Coins_all_def)

lemma Coins_of_val [simp]: "Coins_of (Coins_val c) = Some c"
  by (cases c) (simp_all add: Coins_of_def Coins_all_def)

lemma lower_idem [simp]: "lower (lower s) = lower s"
proof -
  have "(of_char (char_of (n + 32) :: char) :: nat) = n + 32" if "n \<le> 90" for n :: nat
    using that by (simp add: of_char_of)
  then show ?thesis
    by (auto simp: lower_def Let_def)
qed

lemma coin_tickers:
  "map (\<lambda>(c, params). (lower (coin_ticker params), c)) chainparams =
    [(''part'', PART), (''btc'', BTC), (''ltc'', LTC), (''dcr'', DCR), (''nmc'', NMC), (''xmr'', XMR), (''wow'', WOW),
     (''pivx'', PIVX), (''dash'', DASH), (''firo'', FIRO), (''nav'', NAV), (''bch'', BCH), (''doge'', DOGE)]"
  by code_simp

lemma coin_names:
  "map (\<lambda>c. lower (Coins_name c)) Coins_all =
    [''part'', ''btc'', ''ltc'', ''dcr'', ''nmc'', ''xmr'', ''part_blind'', ''part_anon'', ''wow'', ''pivx'', ''dash'', ''firo'',
     ''nav'', ''ltc_mweb'', ''bch'', ''doge'']"
  by code_simp

lemma lower_Coins_name [simp]:
  "lower (Coins_name PART) = ''part''" "lower (Coins_name BTC) = ''btc''" "lower (Coins_name LTC) = ''ltc''"
  "lower (Coins_name DCR) = ''dcr''" "lower (Coins_name NMC) = ''nmc''" "lower (Coins_name XMR) = ''xmr''"
  "lower (Coins_name PART_BLIND) = ''part_blind''" "lower (Coins_name PART_ANON) = ''part_anon''"
  "lower (Coins_name WOW) = ''wow''" "lower (Coins_name PIVX) = ''pivx''" "lower (Coins_name DASH) = ''dash''"
  "lower (Coins_name FIRO) = ''firo''" "lower (Coins_name NAV) = ''nav''" "lower (Coins_name LTC_MWEB) = ''ltc_mweb''"
  "lower (Coins_name BCH) = ''bch''" "lower (Coins_name DOGE) = ''doge''"
  using coin_names by (simp_all add: Coins_all_def del: Coins_name.simps)

lemma ticker_lookup:
  "ticker_map (lower (Coins_name c)) = (if c \<in> set (map fst chainparams) then Some c else None)"
  unfolding ticker_map_def coin_tickers
  by (cases c) (simp_all add: chainparams_def del: Coins_name.simps)

lemma variant_ticker_lookup:
  "variant_ticker_map (lower (Coins_name c)) = (if c \<in> set (map fst chainparams) then None else Some c)"
  unfolding variant_ticker_map_def ticker_lookup
  by (cases c) (simp_all add: Coins_all_def chainparams_def del: Coins_name.simps)

lemma name_lookup_all: "list_all (\<lambda>(c, p). name_map (lower (coin_name p)) = Some c \<and> coin_ticker p = Coins_name c) chainparams"
  by code_simp

text \<open>The coin lookups invert the coin table. Any spelling, in upper or lower case, of a coin's name
  in \<open>Coins\<close> is resolved by \<open>getCoinIdFromTicker\<close> to that coin when variants are included; without
  variants this holds exactly for the coins that have chain parameters, and the lookup raises for the
  others. For a coin with parameters that name is its ticker, and its name resolves to it too.\<close>

theorem coin_lookup_correct:
  assumes "lower t = lower (Coins_name c)"
  shows "getCoinIdFromTicker t True = Inr c
    \<and> getCoinIdFromTicker t False = (if c \<in> set (map fst chainparams) then Inr c else Inl (ValueError ''Unknown coin''))
    \<and> (\<forall>p. (c, p) \<in> set chainparams \<longrightarrow> coin_ticker p = Coins_name c \<and>
          (\<forall>s. lower s = lower (coin_name p) \<longrightarrow> isKnownCoinName s \<and> getCoinIdFromName s False = Inr c))"
proof -
  have "coin_ticker p = Coins_name c" "name_map (lower (coin_name p)) = Some c" if "(c, p) \<in> set chainparams" for p
    using name_lookup_all that by (auto simp: list_all_iff)
  then show ?thesis
    using assms ticker_lookup [of c] variant_ticker_lookup [of c] by (auto simp: getCoinIdFromTicker_def getCoinIdFromName_def isKnownCoinName_def Let_def)
qed

theorem coin_lookup_correct_witness:
  "getCoinIdFromTicker ''Part_Anon'' True = Inr PART_ANON
    \<and> getCoinIdFromTicker ''Part_Anon'' False = Inl (ValueError ''Unknown coin'')"
proof -
  have "lower ''Part_Anon'' = lower (Coins_name PART_ANON)" "PART_ANON \<notin> set (map fst chainparams)"
    by code_simp+
  then show ?thesis
    using coin_lookup_correct [of "''Part_Anon''" PART_ANON] by simp
qed

text \<open>The chain parameters are sane: on each network of each coin the least amount is positive and
  below the greatest, one coin lies between them, and where there are base58 prefixes the ones for key
  and script addresses differ, so that an address tells which it is. No two coins share a mainnet
  bech32 prefix.\<close>

theorem chainparams_sane:
  "list_all (\<lambda>(c, p). list_all (sane_network p) (networks p)) chainparams
   \<and> distinct (filter (\<lambda>s. s \<noteq> '''') (List.map_filter (\<lambda>(c, p). hrp (mainnet p)) chainparams))"
  by code_simp

end
