(* ===== verification/Amounts.thy ===== *)
theory Amounts
  imports Prelude
begin

text \<open>
  Coin amounts as text, \<open>src/basicswap/util/__init__.py\<close>: \<open>make_int\<close> turns a decimal string into an
  integer number of the smallest units, \<open>format_amount\<close> prints it and \<open>validate_amount\<close> checks a
  string. Strings are ASCII. Floats, which the code converts to text with \<open>float_to_str\<close> first, are
  not modelled.
\<close>

section \<open>Definitions\<close>

definition digit_char :: "nat \<Rightarrow> char" where
  "digit_char d = char_of (48 + d)"

definition isdigit :: "char \<Rightarrow> bool" where
  "isdigit c \<longleftrightarrow> 48 \<le> (of_char c :: nat) \<and> (of_char c :: nat) \<le> 57"

definition digit_val :: "char \<Rightarrow> int" where
  "digit_val c = int ((of_char c :: nat) - 48)"

text \<open>\<open>str(n)\<close> for a non-negative \<open>n\<close>.\<close>

fun str_nat :: "nat \<Rightarrow> string" where
  "str_nat n = (if n < 10 then [digit_char n] else str_nat (n div 10) @ [digit_char (n mod 10)])"

text \<open>The loop of \<open>make_int\<close> over the characters, with the running \<open>ep\<close>, \<open>have_dp\<close> and \<open>rv\<close>; the
  result is the final \<open>have_dp\<close> and \<open>rv\<close> (\<open>ep\<close> is the initial one when there was no point).\<close>

fun make_int_loop :: "int \<Rightarrow> string \<Rightarrow> int \<Rightarrow> bool \<Rightarrow> int \<Rightarrow> (bool \<times> int) res" where
  "make_int_loop r [] ep have_dp rv = Inr (have_dp, rv)"
| "make_int_loop r (c # v) ep have_dp rv =
     (if c = CHR ''.'' then make_int_loop r v ep True (rv * ep)
      else if \<not> isdigit c then Inl (ValueError ''Invalid char: '')
      else if have_dp then
        (let ep = ep div 10 in
         if ep \<le> 0 then
           (if r = 0 then Inl (ValueError ''Mantissa too long'')
            else if r > 0 then Inr (have_dp, if digit_val c > 4 then rv + 1 else rv)
            else Inr (have_dp, rv))
         else make_int_loop r v ep have_dp (rv + ep * digit_val c))
      else make_int_loop r v ep have_dp (rv * 10 + digit_val c))"

definition make_int_str :: "string \<Rightarrow> nat \<Rightarrow> int \<Rightarrow> int res" where
  "make_int_str v scale r =
     (case v of
        [] \<Rightarrow> Inl IndexError
      | c # rest \<Rightarrow>
          let (v', sign) = (if c = CHR ''-'' then (rest, -1) else (v, 1));
              ep = 10 ^ scale
          in rbind (make_int_loop r v' ep False 0) (\<lambda>(have_dp, rv).
               Inr ((if have_dp then rv else rv * ep) * sign)))"

definition make_int_int :: "int \<Rightarrow> nat \<Rightarrow> int" where
  "make_int_int v scale = v * 10 ^ scale"

fun amount_chars_ok :: "string \<Rightarrow> bool \<Rightarrow> bool" where
  "amount_chars_ok [] has_decimal = True"
| "amount_chars_ok (c # cs) has_decimal =
     (if c = CHR ''.'' \<and> \<not> has_decimal then amount_chars_ok cs True
      else if \<not> isdigit c then False
      else amount_chars_ok cs has_decimal)"

text \<open>\<open>len(str_amount.split(".")[1])\<close> when there is a second part: the characters between the first
  and the second point.\<close>

definition decimals_len :: "string \<Rightarrow> nat option" where
  "decimals_len s =
     (case dropWhile (\<lambda>c. c \<noteq> CHR ''.'') s of
        [] \<Rightarrow> None
      | _ # rest \<Rightarrow> Some (length (takeWhile (\<lambda>c. c \<noteq> CHR ''.'') rest)))"

definition validate_amount :: "string \<Rightarrow> nat \<Rightarrow> bool res" where
  "validate_amount str_amount scale =
     (if \<not> amount_chars_ok str_amount False then Inl (ValueError ''Invalid amount'')
      else case decimals_len str_amount of
             None \<Rightarrow> Inr True
           | Some n \<Rightarrow> if n > scale then Inl (ValueError ''Too many decimal places in amount'')
                       else Inr True)"

definition pad_left :: "nat \<Rightarrow> string \<Rightarrow> string" where
  "pad_left w s = replicate (w - length s) (CHR ''0'') @ s"

definition format_amount :: "int \<Rightarrow> nat \<Rightarrow> nat option \<Rightarrow> string" where
  "format_amount i display_scale scale_opt =
     (let scale = (case scale_opt of None \<Rightarrow> display_scale | Some s \<Rightarrow> s);
          ep = 10 ^ scale;
          n = nat \<bar>i\<bar>;
          quotient = n div ep;
          remainder = n mod ep;
          remainder = (if display_scale < scale then remainder div 10 ^ (scale - display_scale)
                       else if display_scale > scale then remainder * 10 ^ (display_scale - scale)
                       else remainder);
          rv = str_nat quotient @ CHR ''.'' # pad_left display_scale (str_nat remainder)
      in if i < 0 then CHR ''-'' # rv else rv)"

section \<open>Specification vocabulary\<close>

definition digits_value :: "string \<Rightarrow> int" where
  "digits_value s = foldl (\<lambda>a c. a * 10 + digit_val c) 0 s"

definition all_digits :: "string \<Rightarrow> bool" where
  "all_digits s \<longleftrightarrow> list_all isdigit s"

text \<open>The value an amount string denotes in units of \<open>10^-scale\<close>.\<close>

definition whole_part :: "string \<Rightarrow> string" where
  "whole_part s = takeWhile (\<lambda>c. c \<noteq> CHR ''.'') s"

definition decimal_part :: "string \<Rightarrow> string" where
  "decimal_part s = tl (dropWhile (\<lambda>c. c \<noteq> CHR ''.'') s)"

definition amount_value :: "string \<Rightarrow> nat \<Rightarrow> int" where
  "amount_value s scale = digits_value (whole_part s) * 10 ^ scale
     + digits_value (decimal_part s) * 10 ^ (scale - length (decimal_part s))"

section \<open>Facts\<close>

declare str_nat.simps [simp del]

lemma int_div_mod_split: "int n = int (n div m) * int m + int (n mod m)"
  by (metis div_mult_mod_eq of_nat_add of_nat_mult)

lemma digit_char_facts:
  assumes "d < 10"
  shows "isdigit (digit_char d)" "digit_val (digit_char d) = int d" "digit_char d \<noteq> CHR ''.''" "digit_char d \<noteq> CHR ''-''"
proof -
  have o: "(of_char (digit_char d) :: nat) = 48 + d"
    using assms by (simp add: digit_char_def of_char_of)
  then show "isdigit (digit_char d)" "digit_val (digit_char d) = int d"
    using assms by (simp_all add: isdigit_def digit_val_def)
  show "digit_char d \<noteq> CHR ''.''" "digit_char d \<noteq> CHR ''-''"
    using o assms by auto
qed

lemma isdigit_not_point [simp]: "isdigit c \<Longrightarrow> c \<noteq> CHR ''.''" "isdigit c \<Longrightarrow> c \<noteq> CHR ''-''"
  by (auto simp: isdigit_def)

lemma isdigit_point [simp]: "isdigit (CHR ''.'') = False" "isdigit (CHR ''-'') = False"
  by (simp_all add: isdigit_def)

lemma digits_value_snoc: "digits_value (s @ [c]) = digits_value s * 10 + digit_val c"
  by (simp add: digits_value_def)

lemma digits_value_append: "digits_value (a @ b) = digits_value a * 10 ^ length b + digits_value b"
  by (induction b rule: rev_induct) (simp_all add: digits_value_snoc algebra_simps flip: append_assoc, simp add: digits_value_def)

lemma digits_value_Cons: "digits_value (c # s) = digit_val c * 10 ^ length s + digits_value s"
  using digits_value_append [of "[c]" s] by (simp add: digits_value_def)

lemma str_nat_facts: "all_digits (str_nat n) \<and> digits_value (str_nat n) = int n \<and> str_nat n \<noteq> []"
proof (induction n rule: str_nat.induct)
  case (1 n)
  show ?case
  proof (cases "n < 10")
    case True
    then show ?thesis
      by (subst (1 2 3) str_nat.simps) (simp add: digit_char_facts all_digits_def digits_value_def)
  next
    case False
    have "int n = int (n div 10) * 10 + int (n mod 10)"
      using int_div_mod_split [of n 10] by simp
    then show ?thesis
      using 1 False digit_char_facts [of "n mod 10"]
      by (subst (1 2 3) str_nat.simps) (auto simp: digits_value_snoc all_digits_def)
  qed
qed

lemma str_nat_length: "0 < k \<Longrightarrow> length (str_nat n) \<le> k \<longleftrightarrow> n < 10 ^ k"
proof (induction n arbitrary: k rule: str_nat.induct)
  case (1 n)
  show ?case
  proof (cases "n < 10")
    case True
    moreover have "(10::nat) ^ 1 \<le> 10 ^ k" using 1 by (intro power_increasing) auto
    ultimately show ?thesis using 1 by (subst str_nat.simps) auto
  next
    case False
    show ?thesis
    proof (cases k)
      case (Suc j)
      show ?thesis
      proof (cases "j = 0")
        case True
        with False Suc str_nat_facts [of "n div 10"] show ?thesis by (subst str_nat.simps) (simp add: not_le Suc_le_eq)
      next
        case j: False
        have "n div 10 < 10 ^ j \<longleftrightarrow> n < 10 * 10 ^ j" by (simp add: div_less_iff_less_mult mult.commute)
        with 1 False Suc j show ?thesis by (subst str_nat.simps) simp
      qed
    qed (use 1 in simp)
  qed
qed

lemma pad_left_facts:
  assumes "all_digits s" "length s \<le> w"
  shows "all_digits (pad_left w s)" "digits_value (pad_left w s) = digits_value s" "length (pad_left w s) = w"
proof -
  have "digits_value (replicate k (CHR ''0'')) = 0" for k
    by (induction k) (simp_all add: digits_value_Cons digit_val_def, simp add: digits_value_def)
  then show "digits_value (pad_left w s) = digits_value s"
    by (simp add: pad_left_def digits_value_append)
  show "all_digits (pad_left w s)"
    using assms by (auto simp: pad_left_def all_digits_def list_all_iff isdigit_def)
  show "length (pad_left w s) = w"
    using assms by (simp add: pad_left_def)
qed

lemma make_int_loop_whole:
  "all_digits q \<Longrightarrow> make_int_loop r (q @ v) ep False rv = make_int_loop r v ep False (rv * 10 ^ length q + digits_value q)"
  by (induction q arbitrary: rv) (auto simp: all_digits_def digits_value_Cons algebra_simps, simp add: digits_value_def)

declare make_int_loop.simps(2) [simp del]

lemma make_int_loop_digit [simp]:
  assumes "isdigit c"
  shows "make_int_loop r (c # v) ep False rv = make_int_loop r v ep False (rv * 10 + digit_val c)"
    "make_int_loop r (c # v) (10 * 10 ^ k) True rv = make_int_loop r v (10 ^ k) True (rv + 10 ^ k * digit_val c)"
    "make_int_loop r (c # v) 1 True rv = (if r = 0 then Inl (ValueError ''Mantissa too long'')
       else Inr (True, if r > 0 \<and> digit_val c > 4 then rv + 1 else rv))"
proof -
  have "\<not> (10::int) ^ k \<le> 0"
    by (simp add: not_le)
  with assms isdigit_not_point [OF assms]
  show "make_int_loop r (c # v) ep False rv = make_int_loop r v ep False (rv * 10 + digit_val c)"
    "make_int_loop r (c # v) (10 * 10 ^ k) True rv = make_int_loop r v (10 ^ k) True (rv + 10 ^ k * digit_val c)"
    "make_int_loop r (c # v) 1 True rv = (if r = 0 then Inl (ValueError ''Mantissa too long'')
       else Inr (True, if r > 0 \<and> digit_val c > 4 then rv + 1 else rv))"
    by (simp_all add: make_int_loop.simps(2) Let_def)
qed

lemma make_int_loop_point [simp]: "make_int_loop r (CHR ''.'' # v) ep b rv = make_int_loop r v ep True (rv * ep)"
  by (simp add: make_int_loop.simps(2))

lemma make_int_loop_decimals:
  "all_digits d \<Longrightarrow> length d \<le> k \<Longrightarrow> make_int_loop r (d @ v) (10 ^ k) True rv
    = make_int_loop r v (10 ^ (k - length d)) True (rv + 10 ^ (k - length d) * digits_value d)"
proof (induction d arbitrary: k rv)
  case (Cons c d)
  then obtain j where k: "k = Suc j" by (cases k) auto
  have j: "(10::int) ^ j = 10 ^ (j - length d) * 10 ^ length d"
    using Cons.prems k by (simp flip: power_add)
  have c: "c \<noteq> CHR ''.''" "isdigit c"
    using Cons.prems by (auto simp: all_digits_def)
  have "make_int_loop r ((c # d) @ v) (10 ^ k) True rv = make_int_loop r (d @ v) (10 ^ j) True (rv + 10 ^ j * digit_val c)"
    using c by (simp add: k Let_def)
  also have "\<dots> = make_int_loop r v (10 ^ (j - length d)) True (rv + 10 ^ j * digit_val c + 10 ^ (j - length d) * digits_value d)"
    using Cons.prems k by (intro Cons.IH) (auto simp: all_digits_def)
  also have "rv + 10 ^ j * digit_val c + 10 ^ (j - length d) * digits_value d
      = rv + 10 ^ (j - length d) * digits_value (c # d)"
    unfolding digits_value_Cons distrib_left j by (simp add: mult_ac)
  finally show ?case
    using k by simp
qed (simp add: digits_value_def)

lemma make_int_decimal:
  assumes q: "all_digits q" "q \<noteq> []" and d: "all_digits d" "length d = s"
  shows "make_int_str (q @ CHR ''.'' # d) s r = Inr (digits_value q * 10 ^ s + digits_value d)"
    "make_int_str (CHR ''-'' # q @ CHR ''.'' # d) s r = Inr (- (digits_value q * 10 ^ s + digits_value d))"
proof -
  have loop: "make_int_loop r (q @ CHR ''.'' # d) (10 ^ s) False 0 = Inr (True, digits_value q * 10 ^ s + digits_value d)"
    using make_int_loop_decimals [OF d(1), of s r "[]"] d(2) by (simp add: make_int_loop_whole [OF q(1)])
  obtain c q' where "q = c # q'" "c \<noteq> CHR ''-''"
    using q by (cases q) (auto simp: all_digits_def)
  with loop show "make_int_str (q @ CHR ''.'' # d) s r = Inr (digits_value q * 10 ^ s + digits_value d)"
    by (simp add: make_int_str_def)
  show "make_int_str (CHR ''-'' # q @ CHR ''.'' # d) s r = Inr (- (digits_value q * 10 ^ s + digits_value d))"
    using loop by (simp add: make_int_str_def)
qed

text \<open>Printing an amount with \<open>format_amount\<close> and reading it back with \<open>make_int\<close> at the same
  positive scale returns the amount, for every integer and every rounding mode.\<close>

theorem format_make_int:
  assumes "0 < scale"
  shows "make_int_str (format_amount i scale None) scale r = Inr i"
proof -
  let ?n = "nat \<bar>i\<bar>"
  let ?q = "str_nat (?n div 10 ^ scale)" and ?d = "pad_left scale (str_nat (?n mod 10 ^ scale))"
  have f: "format_amount i scale None = (if i < 0 then CHR ''-'' # ?q @ CHR ''.'' # ?d else ?q @ CHR ''.'' # ?d)"
    by (simp add: format_amount_def Let_def)
  have "length (str_nat (?n mod 10 ^ scale)) \<le> scale"
    using str_nat_length [OF assms] by simp
  then have d: "all_digits ?d" "length ?d = scale" "digits_value ?d = int (?n mod 10 ^ scale)"
    using pad_left_facts str_nat_facts by auto
  have "int (?n div 10 ^ scale) * 10 ^ scale + int (?n mod 10 ^ scale) = \<bar>i\<bar>"
    using int_div_mod_split [of ?n "10 ^ scale"] by simp
  then show ?thesis
    using make_int_decimal [of ?q ?d scale r] str_nat_facts d unfolding f by (cases "i < 0") simp_all
qed

theorem format_make_int_witness:
  "(0::nat) < 8 \<and> make_int_str (format_amount (- 123456) 8 None) 8 0 = Inr (- 123456)"
  using format_make_int [of 8 "- 123456" 0] by simp

lemma amount_chars_ok_True: "amount_chars_ok s True \<longleftrightarrow> all_digits s"
  by (induction s) (auto simp: all_digits_def isdigit_def)

lemma amount_chars_ok_False:
  "amount_chars_ok s False \<longleftrightarrow> all_digits s \<or> (\<exists>q d. s = q @ CHR ''.'' # d \<and> all_digits q \<and> all_digits d)"
proof (induction s)
  case (Cons c s)
  consider "c = CHR ''.''" | "c \<noteq> CHR ''.''" "isdigit c" | "c \<noteq> CHR ''.''" "\<not> isdigit c"
    by blast
  then show ?case
  proof cases
    case 1
    have "(\<exists>q d. CHR ''.'' # s = q @ CHR ''.'' # d \<and> all_digits q \<and> all_digits d) \<longleftrightarrow> all_digits s"
      by (metis all_digits_def append_Nil append_eq_Cons_conv isdigit_not_point(1) list.inject list.pred_inject(1,2))
    then show ?thesis using 1 by (simp add: amount_chars_ok_True all_digits_def)
  next
    case 2
    then show ?thesis
      using Cons by (auto simp: all_digits_def Cons_eq_append_conv) (metis list.pred_inject(2))
  next
    case 3
    then show ?thesis by (auto simp: all_digits_def Cons_eq_append_conv)
  qed
qed (simp add: all_digits_def)

lemma parts_point:
  assumes "all_digits q"
  shows "whole_part (q @ CHR ''.'' # d) = q" "decimal_part (q @ CHR ''.'' # d) = d" "whole_part q = q" "decimal_part q = []"
    "decimals_len q = None" "all_digits d \<Longrightarrow> decimals_len (q @ CHR ''.'' # d) = Some (length d)"
proof -
  have q: "\<forall>c\<in>set q. c \<noteq> CHR ''.''"
    using assms by (auto simp: all_digits_def list_all_iff)
  then show "whole_part (q @ CHR ''.'' # d) = q" "decimal_part (q @ CHR ''.'' # d) = d" "whole_part q = q"
    "decimal_part q = []" "decimals_len q = None"
    by (simp_all add: whole_part_def decimal_part_def decimals_len_def takeWhile_append2 dropWhile_append2
        dropWhile_eq_Nil_conv [THEN iffD2] takeWhile_eq_all_conv [THEN iffD2])
  assume "all_digits d"
  then have "\<forall>c\<in>set d. c \<noteq> CHR ''.''"
    by (auto simp: all_digits_def list_all_iff)
  then show "decimals_len (q @ CHR ''.'' # d) = Some (length d)"
    using q by (simp add: decimals_len_def dropWhile_append2 takeWhile_eq_all_conv [THEN iffD2])
qed

lemma validate_amount_cases:
  "validate_amount s scale = Inr b \<longleftrightarrow> b \<and> (all_digits s \<or>
     (\<exists>q d. s = q @ CHR ''.'' # d \<and> all_digits q \<and> all_digits d \<and> length d \<le> scale))"
proof -
  have "validate_amount (q @ CHR ''.'' # d) scale = (if length d \<le> scale then Inr True else Inl (ValueError ''Too many decimal places in amount''))"
    if "all_digits q" "all_digits d" for q d
    using that by (auto simp: validate_amount_def amount_chars_ok_False parts_point)
  moreover have "validate_amount s scale = Inr True" if "all_digits s"
    using that by (simp add: validate_amount_def amount_chars_ok_False parts_point)
  moreover have "validate_amount s scale = Inl (ValueError ''Invalid amount'')" if "\<not> amount_chars_ok s False"
    using that by (simp add: validate_amount_def)
  ultimately show ?thesis
    by (cases "amount_chars_ok s False") (auto simp: amount_chars_ok_False split: if_splits)
qed

lemma make_int_str_unsigned:
  assumes "s \<noteq> []" "s ! 0 \<noteq> CHR ''-''"
  shows "make_int_str s scale r = rbind (make_int_loop r s (10 ^ scale) False 0) (\<lambda>(have_dp, rv).
               Inr (if have_dp then rv else rv * 10 ^ scale))"
  using assms by (cases s) (auto simp: make_int_str_def rbind_def split: sum.splits)

text \<open>On every non-empty string that \<open>validate_amount\<close> accepts, \<open>make_int\<close> returns the value the
  string denotes, whatever the rounding mode: no accepted amount is rounded or refused.\<close>

theorem make_int_of_valid_amount:
  assumes "validate_amount s scale = Inr True" "s \<noteq> []"
  shows "make_int_str s scale r = Inr (amount_value s scale)"
proof -
  consider "all_digits s" | q d where "s = q @ CHR ''.'' # d" "all_digits q" "all_digits d" "length d \<le> scale"
    using assms(1) by (auto simp: validate_amount_cases)
  then show ?thesis
  proof cases
    case 1
    then have "s ! 0 \<noteq> CHR ''-''" using assms(2) by (cases s) (auto simp: all_digits_def)
    with 1 show ?thesis using make_int_loop_whole [OF 1, of r "[]"]
      by (simp add: make_int_str_unsigned [OF assms(2)] amount_value_def parts_point) (simp add: digits_value_def)
  next
    case 2
    then have "s ! 0 \<noteq> CHR ''-''" by (cases q) (auto simp: all_digits_def)
    then show ?thesis using 2 make_int_loop_decimals [OF 2(3,4), of r "[]"]
      by (simp add: make_int_str_unsigned make_int_loop_whole amount_value_def parts_point mult.commute)
  qed
qed

theorem make_int_of_valid_amount_witness:
  "make_int_str ''12.5'' 8 0 = Inr (amount_value ''12.5'' 8) \<and> amount_value ''12.5'' 8 = 1250000000"
proof
  show "make_int_str ''12.5'' 8 0 = Inr (amount_value ''12.5'' 8)"
    by (rule make_int_of_valid_amount) code_simp+
  show "amount_value ''12.5'' 8 = 1250000000"
    by code_simp
qed

text \<open>The first digit past the scale: \<open>make_int\<close> refuses it with \<open>r = 0\<close>, rounds half up with
  \<open>r > 0\<close> and truncates with \<open>r < 0\<close>; the digits after it have no influence.\<close>

theorem make_int_excess_digit:
  assumes "all_digits q" "q \<noteq> []" "all_digits d" "length d = scale" "isdigit c" "all_digits rest"
  shows "make_int_str (q @ CHR ''.'' # d @ c # rest) scale r =
    (if r = 0 then Inl (ValueError ''Mantissa too long'')
     else Inr (amount_value (q @ CHR ''.'' # d) scale + (if r > 0 \<and> digit_val c > 4 then 1 else 0)))"
proof -
  have "(q @ CHR ''.'' # d @ c # rest) ! 0 \<noteq> CHR ''-''" using assms by (cases q) (auto simp: all_digits_def)
  then show ?thesis
    using make_int_loop_decimals [of d scale r "c # rest"] assms
    by (simp add: make_int_str_unsigned make_int_loop_whole amount_value_def parts_point)
qed

theorem make_int_excess_digit_witness:
  "make_int_str (''1'' @ CHR ''.'' # ''00'' @ CHR ''5'' # ''1'') 2 1 = Inr 101"
proof -
  have "amount_value (''1'' @ CHR ''.'' # ''00'') 2 = 100" "digit_val (CHR ''5'') = 5"
    by code_simp+
  moreover have "all_digits ''1''" "all_digits ''00''" "isdigit (CHR ''5'')"
    by code_simp+
  ultimately show ?thesis
    using make_int_excess_digit [of "''1''" "''00''" 2 "CHR ''5''" "''1''" 1] by simp
qed

text \<open>\<open>make_int\<close> accepts a string with a second decimal point and multiplies what it has read so
  far by the remaining scale again; \<open>validate_amount\<close> refuses every such string.\<close>

theorem make_int_second_point:
  assumes "all_digits q" "q \<noteq> []" "all_digits d" "all_digits e" "length d + length e \<le> scale"
  shows "make_int_str (q @ CHR ''.'' # d @ CHR ''.'' # e) scale r =
     Inr (amount_value (q @ CHR ''.'' # d) scale * 10 ^ (scale - length d)
          + digits_value e * 10 ^ (scale - length d - length e))
     \<and> validate_amount (q @ CHR ''.'' # d @ CHR ''.'' # e) scale' = Inl (ValueError ''Invalid amount'')"
proof -
  have "(q @ CHR ''.'' # d @ CHR ''.'' # e) ! 0 \<noteq> CHR ''-''" using assms by (cases q) (auto simp: all_digits_def)
  then have "make_int_str (q @ CHR ''.'' # d @ CHR ''.'' # e) scale r =
     Inr (amount_value (q @ CHR ''.'' # d) scale * 10 ^ (scale - length d)
          + digits_value e * 10 ^ (scale - length d - length e))"
    using make_int_loop_decimals [of d scale r "CHR ''.'' # e"] make_int_loop_decimals [of e "scale - length d" r "[]"] assms
    by (simp add: make_int_str_unsigned make_int_loop_whole amount_value_def parts_point mult.commute)
  moreover have "\<not> amount_chars_ok (q @ CHR ''.'' # d @ CHR ''.'' # e) False"
  proof -
    have "amount_chars_ok (q @ v) False = amount_chars_ok v False" for v
      using assms(1) by (induction q) (auto simp: all_digits_def)
    then show ?thesis by (simp add: amount_chars_ok_True all_digits_def)
  qed
  ultimately show ?thesis
    by (simp add: validate_amount_def)
qed

theorem make_int_second_point_witness:
  "make_int_str (''1'' @ CHR ''.'' # ''2'' @ CHR ''.'' # ''3'') 2 0 = Inr 1203"
proof -
  have "amount_value (''1'' @ CHR ''.'' # ''2'') 2 = 120" "digits_value ''3'' = 3"
    by code_simp+
  moreover have "all_digits ''1''" "all_digits ''2''" "all_digits ''3''"
    by code_simp+
  ultimately show ?thesis
    using make_int_second_point [of "''1''" "''2''" "''3''" 2 0] by simp
qed

end
