(* ===== verification/Swap_Types.thy ===== *)
theory Swap_Types
  imports Amounts
begin

text \<open>
  The enumerations of \<open>src/basicswap/basicswap_util.py\<close> with the values the database and the wire
  format use, their descriptions and the classification of bid states. Each \<open>IntEnum\<close> is a datatype
  with its value function \<open>_val\<close>; \<open>_of\<close> is the call \<open>BidStates(v)\<close>, which fails for a value that is
  no member. Constructors that several enumerations share carry a prefix (\<open>MT_\<close> for \<open>MessageTypes\<close>,
  \<open>EV_\<close> for \<open>EventLogTypes\<close> and so on). The describing functions take the integer, as the code may
  pass a value read from the database.
\<close>

section \<open>Definitions\<close>

definition str_int :: "int \<Rightarrow> string" where
  "str_int i = (if i < 0 then CHR ''-'' # str_nat (nat (- i)) else str_nat (nat i))"

datatype TxLockTypes =
    SEQUENCE_LOCK_BLOCKS | SEQUENCE_LOCK_TIME | ABS_LOCK_BLOCKS | ABS_LOCK_TIME

primrec TxLockTypes_val :: "TxLockTypes \<Rightarrow> int" where
  "TxLockTypes_val SEQUENCE_LOCK_BLOCKS = 1"
| "TxLockTypes_val SEQUENCE_LOCK_TIME = 2"
| "TxLockTypes_val ABS_LOCK_BLOCKS = 3"
| "TxLockTypes_val ABS_LOCK_TIME = 4"

definition TxLockTypes_all :: "TxLockTypes list" where
  "TxLockTypes_all = [SEQUENCE_LOCK_BLOCKS, SEQUENCE_LOCK_TIME, ABS_LOCK_BLOCKS, ABS_LOCK_TIME]"

definition TxLockTypes_of :: "int \<Rightarrow> TxLockTypes option" where
  "TxLockTypes_of v = find (\<lambda>s. TxLockTypes_val s = v) TxLockTypes_all"

datatype KeyTypes =
    KBVL | KBSL | KAL | KBVF | KBSF | KAF | KA_SWIPE

primrec KeyTypes_val :: "KeyTypes \<Rightarrow> int" where
  "KeyTypes_val KBVL = 1"
| "KeyTypes_val KBSL = 2"
| "KeyTypes_val KAL = 3"
| "KeyTypes_val KBVF = 4"
| "KeyTypes_val KBSF = 5"
| "KeyTypes_val KAF = 6"
| "KeyTypes_val KA_SWIPE = 7"

definition KeyTypes_all :: "KeyTypes list" where
  "KeyTypes_all = [KBVL, KBSL, KAL, KBVF, KBSF, KAF, KA_SWIPE]"

definition KeyTypes_of :: "int \<Rightarrow> KeyTypes option" where
  "KeyTypes_of v = find (\<lambda>s. KeyTypes_val s = v) KeyTypes_all"

datatype MessageTypes =
    MT_OFFER | MT_BID | MT_BID_ACCEPT | MT_XMR_OFFER | MT_XMR_BID_FL | MT_XMR_BID_SPLIT
    | MT_XMR_BID_ACCEPT_LF | MT_XMR_BID_TXN_SIGS_FL | MT_XMR_BID_LOCK_SPEND_TX_LF
    | MT_XMR_BID_LOCK_RELEASE_LF | MT_OFFER_REVOKE | MT_ADS_BID_LF | MT_ADS_BID_ACCEPT_FL
    | MT_CONNECT_REQ | MT_PORTAL_OFFER | MT_PORTAL_SEND

primrec MessageTypes_val :: "MessageTypes \<Rightarrow> int" where
  "MessageTypes_val MT_OFFER = 1"
| "MessageTypes_val MT_BID = 2"
| "MessageTypes_val MT_BID_ACCEPT = 3"
| "MessageTypes_val MT_XMR_OFFER = 4"
| "MessageTypes_val MT_XMR_BID_FL = 5"
| "MessageTypes_val MT_XMR_BID_SPLIT = 6"
| "MessageTypes_val MT_XMR_BID_ACCEPT_LF = 7"
| "MessageTypes_val MT_XMR_BID_TXN_SIGS_FL = 8"
| "MessageTypes_val MT_XMR_BID_LOCK_SPEND_TX_LF = 9"
| "MessageTypes_val MT_XMR_BID_LOCK_RELEASE_LF = 10"
| "MessageTypes_val MT_OFFER_REVOKE = 11"
| "MessageTypes_val MT_ADS_BID_LF = 12"
| "MessageTypes_val MT_ADS_BID_ACCEPT_FL = 13"
| "MessageTypes_val MT_CONNECT_REQ = 14"
| "MessageTypes_val MT_PORTAL_OFFER = 15"
| "MessageTypes_val MT_PORTAL_SEND = 16"

definition MessageTypes_all :: "MessageTypes list" where
  "MessageTypes_all = [MT_OFFER, MT_BID, MT_BID_ACCEPT, MT_XMR_OFFER, MT_XMR_BID_FL, MT_XMR_BID_SPLIT,
    MT_XMR_BID_ACCEPT_LF, MT_XMR_BID_TXN_SIGS_FL, MT_XMR_BID_LOCK_SPEND_TX_LF,
    MT_XMR_BID_LOCK_RELEASE_LF, MT_OFFER_REVOKE, MT_ADS_BID_LF, MT_ADS_BID_ACCEPT_FL,
    MT_CONNECT_REQ, MT_PORTAL_OFFER, MT_PORTAL_SEND]"

definition MessageTypes_of :: "int \<Rightarrow> MessageTypes option" where
  "MessageTypes_of v = find (\<lambda>s. MessageTypes_val s = v) MessageTypes_all"

datatype AddressTypes =
    AT_OFFER | AT_BID | AT_RECV_OFFER | AT_SEND_OFFER | AT_PORTAL_LOCAL | AT_PORTAL

primrec AddressTypes_val :: "AddressTypes \<Rightarrow> int" where
  "AddressTypes_val AT_OFFER = 1"
| "AddressTypes_val AT_BID = 2"
| "AddressTypes_val AT_RECV_OFFER = 3"
| "AddressTypes_val AT_SEND_OFFER = 4"
| "AddressTypes_val AT_PORTAL_LOCAL = 5"
| "AddressTypes_val AT_PORTAL = 6"

definition AddressTypes_all :: "AddressTypes list" where
  "AddressTypes_all = [AT_OFFER, AT_BID, AT_RECV_OFFER, AT_SEND_OFFER, AT_PORTAL_LOCAL, AT_PORTAL]"

definition AddressTypes_of :: "int \<Rightarrow> AddressTypes option" where
  "AddressTypes_of v = find (\<lambda>s. AddressTypes_val s = v) AddressTypes_all"

datatype SwapTypes =
    SELLER_FIRST | BUYER_FIRST | SELLER_FIRST_2MSG | BUYER_FIRST_2MSG | XMR_SWAP | XMR_BCH_SWAP

primrec SwapTypes_val :: "SwapTypes \<Rightarrow> int" where
  "SwapTypes_val SELLER_FIRST = 1"
| "SwapTypes_val BUYER_FIRST = 2"
| "SwapTypes_val SELLER_FIRST_2MSG = 3"
| "SwapTypes_val BUYER_FIRST_2MSG = 4"
| "SwapTypes_val XMR_SWAP = 5"
| "SwapTypes_val XMR_BCH_SWAP = 6"

definition SwapTypes_all :: "SwapTypes list" where
  "SwapTypes_all = [SELLER_FIRST, BUYER_FIRST, SELLER_FIRST_2MSG, BUYER_FIRST_2MSG, XMR_SWAP, XMR_BCH_SWAP]"

definition SwapTypes_of :: "int \<Rightarrow> SwapTypes option" where
  "SwapTypes_of v = find (\<lambda>s. SwapTypes_val s = v) SwapTypes_all"

datatype OfferStates =
    OFFER_SENT | OFFER_RECEIVED | OFFER_ABANDONED | OFFER_EXPIRED

primrec OfferStates_val :: "OfferStates \<Rightarrow> int" where
  "OfferStates_val OFFER_SENT = 1"
| "OfferStates_val OFFER_RECEIVED = 2"
| "OfferStates_val OFFER_ABANDONED = 3"
| "OfferStates_val OFFER_EXPIRED = 4"

definition OfferStates_all :: "OfferStates list" where
  "OfferStates_all = [OFFER_SENT, OFFER_RECEIVED, OFFER_ABANDONED, OFFER_EXPIRED]"

definition OfferStates_of :: "int \<Rightarrow> OfferStates option" where
  "OfferStates_of v = find (\<lambda>s. OfferStates_val s = v) OfferStates_all"

datatype BidStates =
    BID_SENT | BID_RECEIVING | BID_RECEIVED | BID_RECEIVING_ACC | BID_ACCEPTED | SWAP_INITIATED
    | SWAP_PARTICIPATING | SWAP_COMPLETED | XMR_SWAP_SCRIPT_COIN_LOCKED
    | XMR_SWAP_HAVE_SCRIPT_COIN_SPEND_TX | XMR_SWAP_NOSCRIPT_COIN_LOCKED | XMR_SWAP_LOCK_RELEASED
    | XMR_SWAP_SCRIPT_TX_REDEEMED | XMR_SWAP_SCRIPT_TX_PREREFUND | XMR_SWAP_NOSCRIPT_TX_REDEEMED
    | XMR_SWAP_NOSCRIPT_TX_RECOVERED | XMR_SWAP_FAILED_REFUNDED | XMR_SWAP_FAILED_SWIPED
    | XMR_SWAP_FAILED | SWAP_DELAYING | SWAP_TIMEDOUT | BID_ABANDONED | BID_ERROR
    | BID_STALLED_FOR_TEST | BID_REJECTED | BID_STATE_UNKNOWN | XMR_SWAP_MSG_SCRIPT_LOCK_TX_SIGS
    | XMR_SWAP_MSG_SCRIPT_LOCK_SPEND_TX | BID_REQUEST_SENT | BID_REQUEST_ACCEPTED | BID_EXPIRED
    | BID_AACCEPT_DELAY | BID_AACCEPT_FAIL | CONNECT_REQ_SENT | XMR_SWAP_FAILED_SWIPED_USED_MERCY
    | XMR_SWAP_FAILED_SWIPED_USING_MERCY | XMR_SWAP_FAILED_SWIPED_MERCY_UNUSED
    | XMR_SWAP_FAILED_SWIPED_SENDING_MERCY

primrec BidStates_val :: "BidStates \<Rightarrow> int" where
  "BidStates_val BID_SENT = 1"
| "BidStates_val BID_RECEIVING = 2"
| "BidStates_val BID_RECEIVED = 3"
| "BidStates_val BID_RECEIVING_ACC = 4"
| "BidStates_val BID_ACCEPTED = 5"
| "BidStates_val SWAP_INITIATED = 6"
| "BidStates_val SWAP_PARTICIPATING = 7"
| "BidStates_val SWAP_COMPLETED = 8"
| "BidStates_val XMR_SWAP_SCRIPT_COIN_LOCKED = 9"
| "BidStates_val XMR_SWAP_HAVE_SCRIPT_COIN_SPEND_TX = 10"
| "BidStates_val XMR_SWAP_NOSCRIPT_COIN_LOCKED = 11"
| "BidStates_val XMR_SWAP_LOCK_RELEASED = 12"
| "BidStates_val XMR_SWAP_SCRIPT_TX_REDEEMED = 13"
| "BidStates_val XMR_SWAP_SCRIPT_TX_PREREFUND = 14"
| "BidStates_val XMR_SWAP_NOSCRIPT_TX_REDEEMED = 15"
| "BidStates_val XMR_SWAP_NOSCRIPT_TX_RECOVERED = 16"
| "BidStates_val XMR_SWAP_FAILED_REFUNDED = 17"
| "BidStates_val XMR_SWAP_FAILED_SWIPED = 18"
| "BidStates_val XMR_SWAP_FAILED = 19"
| "BidStates_val SWAP_DELAYING = 20"
| "BidStates_val SWAP_TIMEDOUT = 21"
| "BidStates_val BID_ABANDONED = 22"
| "BidStates_val BID_ERROR = 23"
| "BidStates_val BID_STALLED_FOR_TEST = 24"
| "BidStates_val BID_REJECTED = 25"
| "BidStates_val BID_STATE_UNKNOWN = 26"
| "BidStates_val XMR_SWAP_MSG_SCRIPT_LOCK_TX_SIGS = 27"
| "BidStates_val XMR_SWAP_MSG_SCRIPT_LOCK_SPEND_TX = 28"
| "BidStates_val BID_REQUEST_SENT = 29"
| "BidStates_val BID_REQUEST_ACCEPTED = 30"
| "BidStates_val BID_EXPIRED = 31"
| "BidStates_val BID_AACCEPT_DELAY = 32"
| "BidStates_val BID_AACCEPT_FAIL = 33"
| "BidStates_val CONNECT_REQ_SENT = 34"
| "BidStates_val XMR_SWAP_FAILED_SWIPED_USED_MERCY = 36"
| "BidStates_val XMR_SWAP_FAILED_SWIPED_USING_MERCY = 37"
| "BidStates_val XMR_SWAP_FAILED_SWIPED_MERCY_UNUSED = 38"
| "BidStates_val XMR_SWAP_FAILED_SWIPED_SENDING_MERCY = 39"

definition BidStates_all :: "BidStates list" where
  "BidStates_all = [BID_SENT, BID_RECEIVING, BID_RECEIVED, BID_RECEIVING_ACC, BID_ACCEPTED, SWAP_INITIATED,
    SWAP_PARTICIPATING, SWAP_COMPLETED, XMR_SWAP_SCRIPT_COIN_LOCKED,
    XMR_SWAP_HAVE_SCRIPT_COIN_SPEND_TX, XMR_SWAP_NOSCRIPT_COIN_LOCKED, XMR_SWAP_LOCK_RELEASED,
    XMR_SWAP_SCRIPT_TX_REDEEMED, XMR_SWAP_SCRIPT_TX_PREREFUND, XMR_SWAP_NOSCRIPT_TX_REDEEMED,
    XMR_SWAP_NOSCRIPT_TX_RECOVERED, XMR_SWAP_FAILED_REFUNDED, XMR_SWAP_FAILED_SWIPED,
    XMR_SWAP_FAILED, SWAP_DELAYING, SWAP_TIMEDOUT, BID_ABANDONED, BID_ERROR, BID_STALLED_FOR_TEST,
    BID_REJECTED, BID_STATE_UNKNOWN, XMR_SWAP_MSG_SCRIPT_LOCK_TX_SIGS,
    XMR_SWAP_MSG_SCRIPT_LOCK_SPEND_TX, BID_REQUEST_SENT, BID_REQUEST_ACCEPTED, BID_EXPIRED,
    BID_AACCEPT_DELAY, BID_AACCEPT_FAIL, CONNECT_REQ_SENT, XMR_SWAP_FAILED_SWIPED_USED_MERCY,
    XMR_SWAP_FAILED_SWIPED_USING_MERCY, XMR_SWAP_FAILED_SWIPED_MERCY_UNUSED,
    XMR_SWAP_FAILED_SWIPED_SENDING_MERCY]"

definition BidStates_of :: "int \<Rightarrow> BidStates option" where
  "BidStates_of v = find (\<lambda>s. BidStates_val s = v) BidStates_all"

lemma BidStates_of_val [simp]: "BidStates_of (BidStates_val s) = Some s"
  by (cases s) (simp_all add: BidStates_of_def BidStates_all_def)

lemma BidStates_val_inject [simp]: "BidStates_val a = BidStates_val b \<longleftrightarrow> a = b"
  by (metis BidStates_of_val option.inject)

text \<open>The members of an \<open>IntEnum\<close> compare as their values.\<close>

instantiation BidStates :: linorder
begin

definition less_eq_BidStates :: "BidStates \<Rightarrow> BidStates \<Rightarrow> bool" where
  "a \<le> b \<longleftrightarrow> BidStates_val a \<le> BidStates_val b"

definition less_BidStates :: "BidStates \<Rightarrow> BidStates \<Rightarrow> bool" where
  "a < b \<longleftrightarrow> BidStates_val a < BidStates_val b"

instance
  by standard (auto simp: less_eq_BidStates_def less_BidStates_def)

end

datatype TxStates =
    TX_NONE | TX_SENT | TX_CONFIRMED | TX_REDEEMED | TX_REFUNDED | TX_IN_MEMPOOL | TX_IN_CHAIN

primrec TxStates_val :: "TxStates \<Rightarrow> int" where
  "TxStates_val TX_NONE = 1"
| "TxStates_val TX_SENT = 2"
| "TxStates_val TX_CONFIRMED = 3"
| "TxStates_val TX_REDEEMED = 4"
| "TxStates_val TX_REFUNDED = 5"
| "TxStates_val TX_IN_MEMPOOL = 6"
| "TxStates_val TX_IN_CHAIN = 7"

definition TxStates_all :: "TxStates list" where
  "TxStates_all = [TX_NONE, TX_SENT, TX_CONFIRMED, TX_REDEEMED, TX_REFUNDED, TX_IN_MEMPOOL, TX_IN_CHAIN]"

definition TxStates_of :: "int \<Rightarrow> TxStates option" where
  "TxStates_of v = find (\<lambda>s. TxStates_val s = v) TxStates_all"

datatype TxTypes =
    ITX | PTX | ITX_REDEEM | ITX_REFUND | PTX_REDEEM | PTX_REFUND | XMR_SWAP_A_LOCK
    | XMR_SWAP_A_LOCK_SPEND | XMR_SWAP_A_LOCK_REFUND | XMR_SWAP_A_LOCK_REFUND_SPEND
    | XMR_SWAP_A_LOCK_REFUND_SWIPE | XMR_SWAP_B_LOCK | XMR_SWAP_B_LOCK_SPEND
    | XMR_SWAP_B_LOCK_REFUND | ITX_PRE_FUNDED | MERCY | PTX_PRE_FUNDED | SWIPE_SWEEP

primrec TxTypes_val :: "TxTypes \<Rightarrow> int" where
  "TxTypes_val ITX = 1"
| "TxTypes_val PTX = 2"
| "TxTypes_val ITX_REDEEM = 3"
| "TxTypes_val ITX_REFUND = 4"
| "TxTypes_val PTX_REDEEM = 5"
| "TxTypes_val PTX_REFUND = 6"
| "TxTypes_val XMR_SWAP_A_LOCK = 7"
| "TxTypes_val XMR_SWAP_A_LOCK_SPEND = 8"
| "TxTypes_val XMR_SWAP_A_LOCK_REFUND = 9"
| "TxTypes_val XMR_SWAP_A_LOCK_REFUND_SPEND = 10"
| "TxTypes_val XMR_SWAP_A_LOCK_REFUND_SWIPE = 11"
| "TxTypes_val XMR_SWAP_B_LOCK = 12"
| "TxTypes_val XMR_SWAP_B_LOCK_SPEND = 13"
| "TxTypes_val XMR_SWAP_B_LOCK_REFUND = 14"
| "TxTypes_val ITX_PRE_FUNDED = 15"
| "TxTypes_val MERCY = 16"
| "TxTypes_val PTX_PRE_FUNDED = 17"
| "TxTypes_val SWIPE_SWEEP = 18"

definition TxTypes_all :: "TxTypes list" where
  "TxTypes_all = [ITX, PTX, ITX_REDEEM, ITX_REFUND, PTX_REDEEM, PTX_REFUND, XMR_SWAP_A_LOCK,
    XMR_SWAP_A_LOCK_SPEND, XMR_SWAP_A_LOCK_REFUND, XMR_SWAP_A_LOCK_REFUND_SPEND,
    XMR_SWAP_A_LOCK_REFUND_SWIPE, XMR_SWAP_B_LOCK, XMR_SWAP_B_LOCK_SPEND, XMR_SWAP_B_LOCK_REFUND,
    ITX_PRE_FUNDED, MERCY, PTX_PRE_FUNDED, SWIPE_SWEEP]"

definition TxTypes_of :: "int \<Rightarrow> TxTypes option" where
  "TxTypes_of v = find (\<lambda>s. TxTypes_val s = v) TxTypes_all"

datatype ActionTypes =
    ACCEPT_BID | ACCEPT_XMR_BID | SIGN_XMR_SWAP_LOCK_TX_A | SEND_XMR_SWAP_LOCK_TX_A
    | SEND_XMR_SWAP_LOCK_TX_B | SEND_XMR_LOCK_RELEASE | REDEEM_XMR_SWAP_LOCK_TX_A
    | REDEEM_XMR_SWAP_LOCK_TX_B | RECOVER_XMR_SWAP_LOCK_TX_B | SEND_XMR_SWAP_LOCK_SPEND_MSG
    | REDEEM_ITX | ACCEPT_AS_REV_BID | SEND_MERCY_TX

primrec ActionTypes_val :: "ActionTypes \<Rightarrow> int" where
  "ActionTypes_val ACCEPT_BID = 1"
| "ActionTypes_val ACCEPT_XMR_BID = 2"
| "ActionTypes_val SIGN_XMR_SWAP_LOCK_TX_A = 3"
| "ActionTypes_val SEND_XMR_SWAP_LOCK_TX_A = 4"
| "ActionTypes_val SEND_XMR_SWAP_LOCK_TX_B = 5"
| "ActionTypes_val SEND_XMR_LOCK_RELEASE = 6"
| "ActionTypes_val REDEEM_XMR_SWAP_LOCK_TX_A = 7"
| "ActionTypes_val REDEEM_XMR_SWAP_LOCK_TX_B = 8"
| "ActionTypes_val RECOVER_XMR_SWAP_LOCK_TX_B = 9"
| "ActionTypes_val SEND_XMR_SWAP_LOCK_SPEND_MSG = 10"
| "ActionTypes_val REDEEM_ITX = 11"
| "ActionTypes_val ACCEPT_AS_REV_BID = 12"
| "ActionTypes_val SEND_MERCY_TX = 13"

definition ActionTypes_all :: "ActionTypes list" where
  "ActionTypes_all = [ACCEPT_BID, ACCEPT_XMR_BID, SIGN_XMR_SWAP_LOCK_TX_A, SEND_XMR_SWAP_LOCK_TX_A,
    SEND_XMR_SWAP_LOCK_TX_B, SEND_XMR_LOCK_RELEASE, REDEEM_XMR_SWAP_LOCK_TX_A,
    REDEEM_XMR_SWAP_LOCK_TX_B, RECOVER_XMR_SWAP_LOCK_TX_B, SEND_XMR_SWAP_LOCK_SPEND_MSG,
    REDEEM_ITX, ACCEPT_AS_REV_BID, SEND_MERCY_TX]"

definition ActionTypes_of :: "int \<Rightarrow> ActionTypes option" where
  "ActionTypes_of v = find (\<lambda>s. ActionTypes_val s = v) ActionTypes_all"

datatype EventLogTypes =
    EV_FAILED_TX_B_LOCK_PUBLISH | EV_LOCK_TX_A_PUBLISHED | EV_LOCK_TX_B_PUBLISHED
    | EV_FAILED_TX_B_SPEND | EV_LOCK_TX_A_SEEN | EV_LOCK_TX_A_CONFIRMED | EV_LOCK_TX_B_SEEN
    | EV_LOCK_TX_B_CONFIRMED | EV_DEBUG_TWEAK_APPLIED | EV_FAILED_TX_B_REFUND
    | EV_LOCK_TX_B_INVALID | EV_LOCK_TX_A_REFUND_TX_PUBLISHED
    | EV_LOCK_TX_A_REFUND_SPEND_TX_PUBLISHED | EV_LOCK_TX_A_REFUND_SWIPE_TX_PUBLISHED
    | EV_LOCK_TX_B_REFUND_TX_PUBLISHED | EV_SYSTEM_WARNING | EV_LOCK_TX_A_SPEND_TX_PUBLISHED
    | EV_LOCK_TX_B_SPEND_TX_PUBLISHED | EV_LOCK_TX_A_REFUND_TX_SEEN
    | EV_LOCK_TX_A_REFUND_SPEND_TX_SEEN | EV_ERROR | EV_AUTOMATION_CONSTRAINT
    | EV_AUTOMATION_ACCEPTING_BID | EV_ITX_PUBLISHED | EV_ITX_REDEEM_PUBLISHED
    | EV_ITX_REFUND_PUBLISHED | EV_PTX_PUBLISHED | EV_PTX_REDEEM_PUBLISHED
    | EV_PTX_REFUND_PUBLISHED | EV_LOCK_TX_B_IN_MEMPOOL | EV_MERCY_TX_PUBLISHED | EV_MERCY_TX_FOUND
    | EV_LOCK_TX_A_IN_MEMPOOL | EV_LOCK_TX_A_CONFLICTS | EV_LOCK_TX_B_RPC_ERROR
    | EV_LOCK_TX_A_SPEND_TX_SEEN | EV_LOCK_TX_B_SPEND_TX_SEEN | EV_LOCK_TX_B_REFUND_TX_SEEN
    | EV_LOCK_TX_A_INVALID | EV_LOCK_TX_A_REFUND_TX_CONFIRMED
    | EV_LOCK_RELEASE_ABANDONED_LOCK_CLOSE | EV_LOCK_SPEND_ABANDONED_LOCK_CLOSE
    | EV_MERCY_TX_NOT_FOUND | EV_MERCY_TX_NOT_SENT | EV_MERCY_TX_UNUSABLE | EV_SWIPE_PAYOUT_SWEPT

primrec EventLogTypes_val :: "EventLogTypes \<Rightarrow> int" where
  "EventLogTypes_val EV_FAILED_TX_B_LOCK_PUBLISH = 1"
| "EventLogTypes_val EV_LOCK_TX_A_PUBLISHED = 2"
| "EventLogTypes_val EV_LOCK_TX_B_PUBLISHED = 3"
| "EventLogTypes_val EV_FAILED_TX_B_SPEND = 4"
| "EventLogTypes_val EV_LOCK_TX_A_SEEN = 5"
| "EventLogTypes_val EV_LOCK_TX_A_CONFIRMED = 6"
| "EventLogTypes_val EV_LOCK_TX_B_SEEN = 7"
| "EventLogTypes_val EV_LOCK_TX_B_CONFIRMED = 8"
| "EventLogTypes_val EV_DEBUG_TWEAK_APPLIED = 9"
| "EventLogTypes_val EV_FAILED_TX_B_REFUND = 10"
| "EventLogTypes_val EV_LOCK_TX_B_INVALID = 11"
| "EventLogTypes_val EV_LOCK_TX_A_REFUND_TX_PUBLISHED = 12"
| "EventLogTypes_val EV_LOCK_TX_A_REFUND_SPEND_TX_PUBLISHED = 13"
| "EventLogTypes_val EV_LOCK_TX_A_REFUND_SWIPE_TX_PUBLISHED = 14"
| "EventLogTypes_val EV_LOCK_TX_B_REFUND_TX_PUBLISHED = 15"
| "EventLogTypes_val EV_SYSTEM_WARNING = 16"
| "EventLogTypes_val EV_LOCK_TX_A_SPEND_TX_PUBLISHED = 17"
| "EventLogTypes_val EV_LOCK_TX_B_SPEND_TX_PUBLISHED = 18"
| "EventLogTypes_val EV_LOCK_TX_A_REFUND_TX_SEEN = 19"
| "EventLogTypes_val EV_LOCK_TX_A_REFUND_SPEND_TX_SEEN = 20"
| "EventLogTypes_val EV_ERROR = 21"
| "EventLogTypes_val EV_AUTOMATION_CONSTRAINT = 22"
| "EventLogTypes_val EV_AUTOMATION_ACCEPTING_BID = 23"
| "EventLogTypes_val EV_ITX_PUBLISHED = 24"
| "EventLogTypes_val EV_ITX_REDEEM_PUBLISHED = 25"
| "EventLogTypes_val EV_ITX_REFUND_PUBLISHED = 26"
| "EventLogTypes_val EV_PTX_PUBLISHED = 27"
| "EventLogTypes_val EV_PTX_REDEEM_PUBLISHED = 28"
| "EventLogTypes_val EV_PTX_REFUND_PUBLISHED = 29"
| "EventLogTypes_val EV_LOCK_TX_B_IN_MEMPOOL = 30"
| "EventLogTypes_val EV_MERCY_TX_PUBLISHED = 31"
| "EventLogTypes_val EV_MERCY_TX_FOUND = 32"
| "EventLogTypes_val EV_LOCK_TX_A_IN_MEMPOOL = 33"
| "EventLogTypes_val EV_LOCK_TX_A_CONFLICTS = 34"
| "EventLogTypes_val EV_LOCK_TX_B_RPC_ERROR = 35"
| "EventLogTypes_val EV_LOCK_TX_A_SPEND_TX_SEEN = 36"
| "EventLogTypes_val EV_LOCK_TX_B_SPEND_TX_SEEN = 37"
| "EventLogTypes_val EV_LOCK_TX_B_REFUND_TX_SEEN = 38"
| "EventLogTypes_val EV_LOCK_TX_A_INVALID = 39"
| "EventLogTypes_val EV_LOCK_TX_A_REFUND_TX_CONFIRMED = 40"
| "EventLogTypes_val EV_LOCK_RELEASE_ABANDONED_LOCK_CLOSE = 41"
| "EventLogTypes_val EV_LOCK_SPEND_ABANDONED_LOCK_CLOSE = 42"
| "EventLogTypes_val EV_MERCY_TX_NOT_FOUND = 43"
| "EventLogTypes_val EV_MERCY_TX_NOT_SENT = 44"
| "EventLogTypes_val EV_MERCY_TX_UNUSABLE = 45"
| "EventLogTypes_val EV_SWIPE_PAYOUT_SWEPT = 46"

definition EventLogTypes_all :: "EventLogTypes list" where
  "EventLogTypes_all = [EV_FAILED_TX_B_LOCK_PUBLISH, EV_LOCK_TX_A_PUBLISHED, EV_LOCK_TX_B_PUBLISHED,
    EV_FAILED_TX_B_SPEND, EV_LOCK_TX_A_SEEN, EV_LOCK_TX_A_CONFIRMED, EV_LOCK_TX_B_SEEN,
    EV_LOCK_TX_B_CONFIRMED, EV_DEBUG_TWEAK_APPLIED, EV_FAILED_TX_B_REFUND, EV_LOCK_TX_B_INVALID,
    EV_LOCK_TX_A_REFUND_TX_PUBLISHED, EV_LOCK_TX_A_REFUND_SPEND_TX_PUBLISHED,
    EV_LOCK_TX_A_REFUND_SWIPE_TX_PUBLISHED, EV_LOCK_TX_B_REFUND_TX_PUBLISHED, EV_SYSTEM_WARNING,
    EV_LOCK_TX_A_SPEND_TX_PUBLISHED, EV_LOCK_TX_B_SPEND_TX_PUBLISHED, EV_LOCK_TX_A_REFUND_TX_SEEN,
    EV_LOCK_TX_A_REFUND_SPEND_TX_SEEN, EV_ERROR, EV_AUTOMATION_CONSTRAINT,
    EV_AUTOMATION_ACCEPTING_BID, EV_ITX_PUBLISHED, EV_ITX_REDEEM_PUBLISHED,
    EV_ITX_REFUND_PUBLISHED, EV_PTX_PUBLISHED, EV_PTX_REDEEM_PUBLISHED, EV_PTX_REFUND_PUBLISHED,
    EV_LOCK_TX_B_IN_MEMPOOL, EV_MERCY_TX_PUBLISHED, EV_MERCY_TX_FOUND, EV_LOCK_TX_A_IN_MEMPOOL,
    EV_LOCK_TX_A_CONFLICTS, EV_LOCK_TX_B_RPC_ERROR, EV_LOCK_TX_A_SPEND_TX_SEEN,
    EV_LOCK_TX_B_SPEND_TX_SEEN, EV_LOCK_TX_B_REFUND_TX_SEEN, EV_LOCK_TX_A_INVALID,
    EV_LOCK_TX_A_REFUND_TX_CONFIRMED, EV_LOCK_RELEASE_ABANDONED_LOCK_CLOSE,
    EV_LOCK_SPEND_ABANDONED_LOCK_CLOSE, EV_MERCY_TX_NOT_FOUND, EV_MERCY_TX_NOT_SENT,
    EV_MERCY_TX_UNUSABLE, EV_SWIPE_PAYOUT_SWEPT]"

definition EventLogTypes_of :: "int \<Rightarrow> EventLogTypes option" where
  "EventLogTypes_of v = find (\<lambda>s. EventLogTypes_val s = v) EventLogTypes_all"

datatype XmrSplitMsgTypes =
    XSM_BID | XSM_BID_ACCEPT

primrec XmrSplitMsgTypes_val :: "XmrSplitMsgTypes \<Rightarrow> int" where
  "XmrSplitMsgTypes_val XSM_BID = 1"
| "XmrSplitMsgTypes_val XSM_BID_ACCEPT = 2"

definition XmrSplitMsgTypes_all :: "XmrSplitMsgTypes list" where
  "XmrSplitMsgTypes_all = [XSM_BID, XSM_BID_ACCEPT]"

definition XmrSplitMsgTypes_of :: "int \<Rightarrow> XmrSplitMsgTypes option" where
  "XmrSplitMsgTypes_of v = find (\<lambda>s. XmrSplitMsgTypes_val s = v) XmrSplitMsgTypes_all"

datatype DebugTypes =
    DBG_NONE | DBG_BID_STOP_AFTER_COIN_A_LOCK | DBG_BID_DONT_SPEND_COIN_A_LOCK_REFUND
    | DBG_BID_DONT_SPEND_COIN_A_LOCK_REFUND2 | DBG_CREATE_INVALID_COIN_A_LOCK
    | DBG_CREATE_INVALID_COIN_B_LOCK | DBG_BUYER_STOP_AFTER_ITX | DBG_MAKE_INVALID_ITX
    | DBG_MAKE_INVALID_PTX | DBG_DONT_SPEND_ITX | DBG_SKIP_LOCK_TX_REFUND | DBG_SEND_LOCKED_XMR
    | DBG_B_LOCK_TX_MISSED_SEND | DBG_DUPLICATE_ACTIONS | DBG_DONT_CONFIRM_PTX
    | DBG_OFFER_LOCK_2_VALUE_INC | DBG_BID_STOP_AFTER_COIN_B_LOCK | DBG_BID_DONT_SPEND_COIN_B_LOCK
    | DBG_WAIT_FOR_COIN_B_LOCK_BEFORE_PREREFUND | DBG_WAIT_FOR_COIN_B_LOCK_BEFORE_REFUND
    | DBG_BID_DONT_SPEND_COIN_A_LOCK | DBG_DONT_SEND_COIN_B_LOCK | DBG_DONT_RELEASE_COIN_A_LOCK
    | DBG_MAKE_INVALID_MERCY_TX

primrec DebugTypes_val :: "DebugTypes \<Rightarrow> int" where
  "DebugTypes_val DBG_NONE = 0"
| "DebugTypes_val DBG_BID_STOP_AFTER_COIN_A_LOCK = 1"
| "DebugTypes_val DBG_BID_DONT_SPEND_COIN_A_LOCK_REFUND = 2"
| "DebugTypes_val DBG_BID_DONT_SPEND_COIN_A_LOCK_REFUND2 = 3"
| "DebugTypes_val DBG_CREATE_INVALID_COIN_A_LOCK = 4"
| "DebugTypes_val DBG_CREATE_INVALID_COIN_B_LOCK = 5"
| "DebugTypes_val DBG_BUYER_STOP_AFTER_ITX = 6"
| "DebugTypes_val DBG_MAKE_INVALID_ITX = 7"
| "DebugTypes_val DBG_MAKE_INVALID_PTX = 8"
| "DebugTypes_val DBG_DONT_SPEND_ITX = 9"
| "DebugTypes_val DBG_SKIP_LOCK_TX_REFUND = 10"
| "DebugTypes_val DBG_SEND_LOCKED_XMR = 11"
| "DebugTypes_val DBG_B_LOCK_TX_MISSED_SEND = 12"
| "DebugTypes_val DBG_DUPLICATE_ACTIONS = 13"
| "DebugTypes_val DBG_DONT_CONFIRM_PTX = 14"
| "DebugTypes_val DBG_OFFER_LOCK_2_VALUE_INC = 15"
| "DebugTypes_val DBG_BID_STOP_AFTER_COIN_B_LOCK = 16"
| "DebugTypes_val DBG_BID_DONT_SPEND_COIN_B_LOCK = 17"
| "DebugTypes_val DBG_WAIT_FOR_COIN_B_LOCK_BEFORE_PREREFUND = 18"
| "DebugTypes_val DBG_WAIT_FOR_COIN_B_LOCK_BEFORE_REFUND = 19"
| "DebugTypes_val DBG_BID_DONT_SPEND_COIN_A_LOCK = 20"
| "DebugTypes_val DBG_DONT_SEND_COIN_B_LOCK = 21"
| "DebugTypes_val DBG_DONT_RELEASE_COIN_A_LOCK = 22"
| "DebugTypes_val DBG_MAKE_INVALID_MERCY_TX = 23"

definition DebugTypes_all :: "DebugTypes list" where
  "DebugTypes_all = [DBG_NONE, DBG_BID_STOP_AFTER_COIN_A_LOCK, DBG_BID_DONT_SPEND_COIN_A_LOCK_REFUND,
    DBG_BID_DONT_SPEND_COIN_A_LOCK_REFUND2, DBG_CREATE_INVALID_COIN_A_LOCK,
    DBG_CREATE_INVALID_COIN_B_LOCK, DBG_BUYER_STOP_AFTER_ITX, DBG_MAKE_INVALID_ITX,
    DBG_MAKE_INVALID_PTX, DBG_DONT_SPEND_ITX, DBG_SKIP_LOCK_TX_REFUND, DBG_SEND_LOCKED_XMR,
    DBG_B_LOCK_TX_MISSED_SEND, DBG_DUPLICATE_ACTIONS, DBG_DONT_CONFIRM_PTX,
    DBG_OFFER_LOCK_2_VALUE_INC, DBG_BID_STOP_AFTER_COIN_B_LOCK, DBG_BID_DONT_SPEND_COIN_B_LOCK,
    DBG_WAIT_FOR_COIN_B_LOCK_BEFORE_PREREFUND, DBG_WAIT_FOR_COIN_B_LOCK_BEFORE_REFUND,
    DBG_BID_DONT_SPEND_COIN_A_LOCK, DBG_DONT_SEND_COIN_B_LOCK, DBG_DONT_RELEASE_COIN_A_LOCK,
    DBG_MAKE_INVALID_MERCY_TX]"

definition DebugTypes_of :: "int \<Rightarrow> DebugTypes option" where
  "DebugTypes_of v = find (\<lambda>s. DebugTypes_val s = v) DebugTypes_all"

datatype NotificationTypes =
    NT_NONE | NT_OFFER_RECEIVED | NT_BID_RECEIVED | NT_BID_ACCEPTED | NT_SWAP_COMPLETED
    | NT_UPDATE_AVAILABLE | NT_SWEEP_COMPLETED

primrec NotificationTypes_val :: "NotificationTypes \<Rightarrow> int" where
  "NotificationTypes_val NT_NONE = 0"
| "NotificationTypes_val NT_OFFER_RECEIVED = 1"
| "NotificationTypes_val NT_BID_RECEIVED = 2"
| "NotificationTypes_val NT_BID_ACCEPTED = 3"
| "NotificationTypes_val NT_SWAP_COMPLETED = 4"
| "NotificationTypes_val NT_UPDATE_AVAILABLE = 5"
| "NotificationTypes_val NT_SWEEP_COMPLETED = 6"

definition NotificationTypes_all :: "NotificationTypes list" where
  "NotificationTypes_all = [NT_NONE, NT_OFFER_RECEIVED, NT_BID_RECEIVED, NT_BID_ACCEPTED, NT_SWAP_COMPLETED,
    NT_UPDATE_AVAILABLE, NT_SWEEP_COMPLETED]"

definition NotificationTypes_of :: "int \<Rightarrow> NotificationTypes option" where
  "NotificationTypes_of v = find (\<lambda>s. NotificationTypes_val s = v) NotificationTypes_all"

datatype AutomationOverrideOptions =
    AOO_DEFAULT | AOO_ALWAYS_ACCEPT | AOO_NEVER_ACCEPT

primrec AutomationOverrideOptions_val :: "AutomationOverrideOptions \<Rightarrow> int" where
  "AutomationOverrideOptions_val AOO_DEFAULT = 0"
| "AutomationOverrideOptions_val AOO_ALWAYS_ACCEPT = 1"
| "AutomationOverrideOptions_val AOO_NEVER_ACCEPT = 2"

definition AutomationOverrideOptions_all :: "AutomationOverrideOptions list" where
  "AutomationOverrideOptions_all = [AOO_DEFAULT, AOO_ALWAYS_ACCEPT, AOO_NEVER_ACCEPT]"

definition AutomationOverrideOptions_of :: "int \<Rightarrow> AutomationOverrideOptions option" where
  "AutomationOverrideOptions_of v = find (\<lambda>s. AutomationOverrideOptions_val s = v) AutomationOverrideOptions_all"

datatype VisibilityOverrideOptions =
    VOO_DEFAULT | VOO_HIDE | VOO_BLOCK

primrec VisibilityOverrideOptions_val :: "VisibilityOverrideOptions \<Rightarrow> int" where
  "VisibilityOverrideOptions_val VOO_DEFAULT = 0"
| "VisibilityOverrideOptions_val VOO_HIDE = 1"
| "VisibilityOverrideOptions_val VOO_BLOCK = 2"

definition VisibilityOverrideOptions_all :: "VisibilityOverrideOptions list" where
  "VisibilityOverrideOptions_all = [VOO_DEFAULT, VOO_HIDE, VOO_BLOCK]"

definition VisibilityOverrideOptions_of :: "int \<Rightarrow> VisibilityOverrideOptions option" where
  "VisibilityOverrideOptions_of v = find (\<lambda>s. VisibilityOverrideOptions_val s = v) VisibilityOverrideOptions_all"

definition strAutomationOverrideOption :: "int \<Rightarrow> string" where
  "strAutomationOverrideOption option =
     (if option = AutomationOverrideOptions_val AOO_DEFAULT then ''Default''
      else if option = AutomationOverrideOptions_val AOO_ALWAYS_ACCEPT then ''Always Accept''
      else if option = AutomationOverrideOptions_val AOO_NEVER_ACCEPT then ''Never Accept''
      else ''Unknown'')"

definition strVisibilityOverrideOption :: "int \<Rightarrow> string" where
  "strVisibilityOverrideOption option =
     (if option = VisibilityOverrideOptions_val VOO_DEFAULT then ''Default''
      else if option = VisibilityOverrideOptions_val VOO_HIDE then ''Hide''
      else if option = VisibilityOverrideOptions_val VOO_BLOCK then ''Block''
      else ''Unknown'')"

definition strOfferState :: "int \<Rightarrow> string" where
  "strOfferState state =
     (if state = OfferStates_val OFFER_SENT then ''Sent''
      else if state = OfferStates_val OFFER_RECEIVED then ''Received''
      else if state = OfferStates_val OFFER_ABANDONED then ''Abandoned''
      else if state = OfferStates_val OFFER_EXPIRED then ''Expired''
      else ''Unknown'')"

definition strBidState :: "int \<Rightarrow> string" where
  "strBidState state =
     (if state = BidStates_val BID_SENT then ''Sent''
      else if state = BidStates_val BID_RECEIVING then ''Receiving''
      else if state = BidStates_val BID_RECEIVING_ACC then ''Receiving accept''
      else if state = BidStates_val BID_RECEIVED then ''Received''
      else if state = BidStates_val BID_ACCEPTED then ''Accepted''
      else if state = BidStates_val SWAP_INITIATED then ''Initiated''
      else if state = BidStates_val SWAP_PARTICIPATING then ''Participating''
      else if state = BidStates_val SWAP_COMPLETED then ''Completed''
      else if state = BidStates_val SWAP_TIMEDOUT then ''Timed-out''
      else if state = BidStates_val BID_ABANDONED then ''Abandoned''
      else if state = BidStates_val BID_STALLED_FOR_TEST then ''Stalled (debug)''
      else if state = BidStates_val BID_ERROR then ''Error''
      else if state = BidStates_val BID_REJECTED then ''Rejected''
      else if state = BidStates_val XMR_SWAP_SCRIPT_COIN_LOCKED then ''Script coin locked''
      else if state = BidStates_val XMR_SWAP_HAVE_SCRIPT_COIN_SPEND_TX then ''Script coin spend tx valid''
      else if state = BidStates_val XMR_SWAP_NOSCRIPT_COIN_LOCKED then ''Scriptless coin locked''
      else if state = BidStates_val XMR_SWAP_LOCK_RELEASED then ''Script coin lock released''
      else if state = BidStates_val XMR_SWAP_SCRIPT_TX_REDEEMED then ''Script tx redeemed''
      else if state = BidStates_val XMR_SWAP_SCRIPT_TX_PREREFUND then ''Script pre-refund tx in chain''
      else if state = BidStates_val XMR_SWAP_NOSCRIPT_TX_REDEEMED then ''Scriptless tx redeemed''
      else if state = BidStates_val XMR_SWAP_NOSCRIPT_TX_RECOVERED then ''Scriptless tx recovered''
      else if state = BidStates_val XMR_SWAP_FAILED_REFUNDED then ''Failed, refunded''
      else if state = BidStates_val XMR_SWAP_FAILED_SWIPED then ''Failed, swiped''
      else if state = BidStates_val XMR_SWAP_FAILED_SWIPED_SENDING_MERCY then ''Failed, swiped, sending mercy''
      else if state = BidStates_val XMR_SWAP_FAILED_SWIPED_USING_MERCY then ''Failed, swiped, recovering''
      else if state = BidStates_val XMR_SWAP_FAILED_SWIPED_USED_MERCY then ''Failed, swiped, recovered''
      else if state = BidStates_val XMR_SWAP_FAILED_SWIPED_MERCY_UNUSED then ''Failed, swiped, mercy unused''
      else if state = BidStates_val XMR_SWAP_FAILED then ''Failed''
      else if state = BidStates_val SWAP_DELAYING then ''Delaying''
      else if state = BidStates_val XMR_SWAP_MSG_SCRIPT_LOCK_TX_SIGS then ''Exchanged script lock tx sigs msg''
      else if state = BidStates_val XMR_SWAP_MSG_SCRIPT_LOCK_SPEND_TX then ''Exchanged script lock spend tx msg''
      else if state = BidStates_val BID_REQUEST_SENT then ''Request sent''
      else if state = BidStates_val BID_REQUEST_ACCEPTED then ''Request accepted''
      else if state = BidStates_val BID_STATE_UNKNOWN then ''Unknown bid state''
      else if state = BidStates_val BID_EXPIRED then ''Expired''
      else if state = BidStates_val BID_AACCEPT_DELAY then ''Auto accept delay''
      else if state = BidStates_val BID_AACCEPT_FAIL then ''Auto accept failed''
      else if state = BidStates_val CONNECT_REQ_SENT then ''Connect request sent''
      else ''Unknown'' @ '' '' @ str_int state)"

definition strTxState :: "int \<Rightarrow> string" where
  "strTxState state =
     (if state = TxStates_val TX_NONE then ''None''
      else if state = TxStates_val TX_SENT then ''Sent''
      else if state = TxStates_val TX_CONFIRMED then ''Confirmed''
      else if state = TxStates_val TX_REDEEMED then ''Redeemed''
      else if state = TxStates_val TX_REFUNDED then ''Refunded''
      else if state = TxStates_val TX_IN_MEMPOOL then ''In Mempool''
      else if state = TxStates_val TX_IN_CHAIN then ''In Chain''
      else ''Unknown'')"

definition strTxType :: "int \<Rightarrow> string" where
  "strTxType tx_type =
     (if tx_type = TxTypes_val XMR_SWAP_A_LOCK then ''Chain A Lock Tx''
      else if tx_type = TxTypes_val XMR_SWAP_A_LOCK_SPEND then ''Chain A Lock Spend Tx''
      else if tx_type = TxTypes_val XMR_SWAP_A_LOCK_REFUND then ''Chain A Lock Refund Tx''
      else if tx_type = TxTypes_val XMR_SWAP_A_LOCK_REFUND_SPEND then ''Chain A Lock Refund Spend Tx''
      else if tx_type = TxTypes_val XMR_SWAP_A_LOCK_REFUND_SWIPE then ''Chain A Lock Refund Swipe Tx''
      else if tx_type = TxTypes_val XMR_SWAP_B_LOCK then ''Chain B Lock Tx''
      else if tx_type = TxTypes_val ITX_PRE_FUNDED then ''Funded mock initiate Tx''
      else if tx_type = TxTypes_val MERCY then ''Mercy Tx''
      else if tx_type = TxTypes_val SWIPE_SWEEP then ''Swipe Payout Sweep Tx''
      else ''Unknown'')"

definition getLockName :: "int \<Rightarrow> string option" where
  "getLockName lock_type =
     (if lock_type = TxLockTypes_val SEQUENCE_LOCK_BLOCKS then Some ''Sequence lock, blocks''
      else if lock_type = TxLockTypes_val SEQUENCE_LOCK_TIME then Some ''Sequence lock, time''
      else if lock_type = TxLockTypes_val ABS_LOCK_BLOCKS then Some ''blocks''
      else if lock_type = TxLockTypes_val ABS_LOCK_TIME then Some ''time''
      else None)"

definition describeEventEntry :: "int \<Rightarrow> string \<Rightarrow> string option" where
  "describeEventEntry event_type event_msg =
     (if event_type = EventLogTypes_val EV_FAILED_TX_B_LOCK_PUBLISH then Some ''Failed to publish lock tx B''
      else if event_type = EventLogTypes_val EV_LOCK_TX_A_PUBLISHED then Some ''Lock tx A published''
      else if event_type = EventLogTypes_val EV_LOCK_TX_B_PUBLISHED then Some ''Lock tx B published''
      else if event_type = EventLogTypes_val EV_FAILED_TX_B_SPEND then Some (''Failed to publish lock tx B spend: '' @ event_msg)
      else if event_type = EventLogTypes_val EV_LOCK_TX_A_IN_MEMPOOL then Some ''Lock tx A seen in mempool''
      else if event_type = EventLogTypes_val EV_LOCK_TX_A_CONFLICTS then Some ''Lock tx A conflicting txn/s''
      else if event_type = EventLogTypes_val EV_LOCK_TX_A_SEEN then Some ''Lock tx A seen in chain''
      else if event_type = EventLogTypes_val EV_LOCK_TX_A_CONFIRMED then Some ''Lock tx A confirmed in chain''
      else if event_type = EventLogTypes_val EV_LOCK_TX_B_SEEN then Some ''Lock tx B seen in chain''
      else if event_type = EventLogTypes_val EV_LOCK_TX_B_CONFIRMED then Some ''Lock tx B confirmed in chain''
      else if event_type = EventLogTypes_val EV_LOCK_TX_B_IN_MEMPOOL then Some ''Lock tx B seen in mempool''
      else if event_type = EventLogTypes_val EV_DEBUG_TWEAK_APPLIED then Some (''Debug tweak applied '' @ event_msg)
      else if event_type = EventLogTypes_val EV_FAILED_TX_B_REFUND then Some ''Failed to publish lock tx B refund''
      else if event_type = EventLogTypes_val EV_LOCK_TX_B_INVALID then Some ''Detected invalid lock Tx B''
      else if event_type = EventLogTypes_val EV_LOCK_TX_B_RPC_ERROR then Some (''Temporary RPC error checking lock tx B: '' @ event_msg)
      else if event_type = EventLogTypes_val EV_LOCK_TX_A_REFUND_TX_PUBLISHED then Some ''Lock tx A pre-refund tx published''
      else if event_type = EventLogTypes_val EV_LOCK_TX_A_REFUND_SPEND_TX_PUBLISHED then Some ''Lock tx A refund spend tx published''
      else if event_type = EventLogTypes_val EV_LOCK_TX_A_REFUND_SWIPE_TX_PUBLISHED then Some ''Lock tx A refund swipe tx published''
      else if event_type = EventLogTypes_val EV_LOCK_TX_B_REFUND_TX_PUBLISHED then Some ''Lock tx B refund tx published''
      else if event_type = EventLogTypes_val EV_LOCK_TX_A_SPEND_TX_PUBLISHED then Some ''Lock tx A spend tx published''
      else if event_type = EventLogTypes_val EV_LOCK_TX_B_SPEND_TX_PUBLISHED then Some ''Lock tx B spend tx published''
      else if event_type = EventLogTypes_val EV_LOCK_TX_A_REFUND_TX_SEEN then Some ''Lock tx A pre-refund tx seen in chain''
      else if event_type = EventLogTypes_val EV_LOCK_TX_A_REFUND_TX_CONFIRMED then Some ''Lock tx A pre-refund tx confirmed in chain''
      else if event_type = EventLogTypes_val EV_LOCK_RELEASE_ABANDONED_LOCK_CLOSE then Some ''Lock tx A release abandoned, refund timelock too close''
      else if event_type = EventLogTypes_val EV_LOCK_SPEND_ABANDONED_LOCK_CLOSE then Some ''Lock tx A spend abandoned, refund timelock too close''
      else if event_type = EventLogTypes_val EV_LOCK_TX_A_REFUND_SPEND_TX_SEEN then Some ''Lock tx A refund spend tx seen in chain''
      else if event_type = EventLogTypes_val EV_SYSTEM_WARNING then Some (''Warning: '' @ event_msg)
      else if event_type = EventLogTypes_val EV_ERROR then Some (''Error: '' @ event_msg)
      else if event_type = EventLogTypes_val EV_AUTOMATION_CONSTRAINT then Some ''Failed auto accepting''
      else if event_type = EventLogTypes_val EV_AUTOMATION_ACCEPTING_BID then Some ''Auto accepting''
      else if event_type = EventLogTypes_val EV_ITX_PUBLISHED then Some ''Initiate tx published''
      else if event_type = EventLogTypes_val EV_ITX_REDEEM_PUBLISHED then Some ''Initiate tx redeem tx published''
      else if event_type = EventLogTypes_val EV_ITX_REFUND_PUBLISHED then Some ''Initiate tx refund tx published''
      else if event_type = EventLogTypes_val EV_PTX_PUBLISHED then Some ''Participate tx published''
      else if event_type = EventLogTypes_val EV_PTX_REDEEM_PUBLISHED then Some ''Participate tx redeem tx published''
      else if event_type = EventLogTypes_val EV_PTX_REFUND_PUBLISHED then Some ''Participate tx refund tx published''
      else if event_type = EventLogTypes_val EV_MERCY_TX_FOUND then Some ''Mercy tx found''
      else if event_type = EventLogTypes_val EV_MERCY_TX_PUBLISHED then Some ''Mercy tx published''
      else if event_type = EventLogTypes_val EV_MERCY_TX_NOT_FOUND then Some ''Gave up waiting for a mercy tx''
      else if event_type = EventLogTypes_val EV_MERCY_TX_NOT_SENT then Some ''Mercy tx not sent''
      else if event_type = EventLogTypes_val EV_MERCY_TX_UNUSABLE then Some ''Mercy tx can't be used''
      else if event_type = EventLogTypes_val EV_SWIPE_PAYOUT_SWEPT then Some (''Swipe payout swept to the wallet '' @ event_msg)
      else if event_type = EventLogTypes_val EV_LOCK_TX_A_SPEND_TX_SEEN then Some ''Lock tx A spend tx seen in chain''
      else if event_type = EventLogTypes_val EV_LOCK_TX_B_SPEND_TX_SEEN then Some ''Lock tx B spend tx seen in chain''
      else if event_type = EventLogTypes_val EV_LOCK_TX_B_REFUND_TX_SEEN then Some ''Lock tx B refund tx seen in chain''
      else None)"

definition strSwapType :: "int \<Rightarrow> string option" where
  "strSwapType swap_type =
     (if swap_type = SwapTypes_val SELLER_FIRST then Some ''seller_first''
      else if swap_type = SwapTypes_val XMR_SWAP then Some ''xmr_swap''
      else None)"

definition strSwapDesc :: "int \<Rightarrow> string option" where
  "strSwapDesc swap_type =
     (if swap_type = SwapTypes_val SELLER_FIRST then Some ''Secret Hash''
      else if swap_type = SwapTypes_val XMR_SWAP then Some ''Adaptor Sig''
      else None)"

definition strAddressType :: "int \<Rightarrow> string" where
  "strAddressType addr_type =
     (case map_of [(AddressTypes_val AT_OFFER, ''Offer''),
        (AddressTypes_val AT_BID, ''Bid''),
        (AddressTypes_val AT_RECV_OFFER, ''Offer recv''),
        (AddressTypes_val AT_SEND_OFFER, ''Offer send''),
        (AddressTypes_val AT_PORTAL_LOCAL, ''Portal (local)''),
        (AddressTypes_val AT_PORTAL, ''Portal'')] addr_type of
        Some s \<Rightarrow> s | None \<Rightarrow> ''Unknown'')"

definition inactive_states :: "BidStates list" where
  "inactive_states =
    [SWAP_COMPLETED, BID_ERROR, BID_REJECTED, SWAP_TIMEDOUT, BID_ABANDONED, BID_EXPIRED,
     XMR_SWAP_FAILED_SWIPED_USED_MERCY, XMR_SWAP_FAILED_SWIPED_MERCY_UNUSED]"

definition canAcceptBidState :: "BidStates \<Rightarrow> bool" where
  "canAcceptBidState state \<longleftrightarrow> state \<in> set
    [BID_RECEIVED, BID_AACCEPT_DELAY, BID_AACCEPT_FAIL]"

definition canExpireBidState :: "BidStates \<Rightarrow> bool" where
  "canExpireBidState state \<longleftrightarrow> state \<in> set
    [BID_SENT, BID_RECEIVING, BID_RECEIVED, BID_AACCEPT_DELAY, BID_AACCEPT_FAIL, BID_REQUEST_SENT]"

definition canTimeoutBidState :: "BidStates \<Rightarrow> bool" where
  "canTimeoutBidState state \<longleftrightarrow> state \<in> set
    [BID_ACCEPTED, XMR_SWAP_MSG_SCRIPT_LOCK_TX_SIGS, XMR_SWAP_HAVE_SCRIPT_COIN_SPEND_TX,
     XMR_SWAP_MSG_SCRIPT_LOCK_SPEND_TX, BID_REQUEST_ACCEPTED]"

definition isErrorBidState :: "BidStates \<Rightarrow> bool" where
  "isErrorBidState state \<longleftrightarrow> state \<in> set
    [BID_STALLED_FOR_TEST, BID_ERROR, XMR_SWAP_FAILED_SWIPED_MERCY_UNUSED]"

definition isFailingBidState :: "BidStates \<Rightarrow> bool" where
  "isFailingBidState state \<longleftrightarrow> state \<in> set
    [BID_STALLED_FOR_TEST, BID_ERROR, XMR_SWAP_SCRIPT_TX_PREREFUND, XMR_SWAP_NOSCRIPT_TX_RECOVERED,
     XMR_SWAP_FAILED_REFUNDED, XMR_SWAP_FAILED_SWIPED, XMR_SWAP_FAILED_SWIPED_SENDING_MERCY,
     XMR_SWAP_FAILED_SWIPED_USED_MERCY, XMR_SWAP_FAILED_SWIPED_USING_MERCY,
     XMR_SWAP_FAILED_SWIPED_MERCY_UNUSED, XMR_SWAP_FAILED]"

definition isActiveBidState :: "BidStates \<Rightarrow> bool" where
  "isActiveBidState state \<longleftrightarrow> (if BID_ACCEPTED \<le> state \<and> state < SWAP_COMPLETED then True else state \<in> set
    [SWAP_DELAYING, XMR_SWAP_HAVE_SCRIPT_COIN_SPEND_TX, XMR_SWAP_SCRIPT_COIN_LOCKED,
     XMR_SWAP_NOSCRIPT_COIN_LOCKED, XMR_SWAP_LOCK_RELEASED, XMR_SWAP_NOSCRIPT_TX_REDEEMED,
     XMR_SWAP_SCRIPT_TX_REDEEMED, XMR_SWAP_SCRIPT_TX_PREREFUND, XMR_SWAP_MSG_SCRIPT_LOCK_TX_SIGS,
     XMR_SWAP_MSG_SCRIPT_LOCK_SPEND_TX, XMR_SWAP_FAILED, XMR_SWAP_FAILED_SWIPED_SENDING_MERCY,
     XMR_SWAP_FAILED_SWIPED_USING_MERCY, BID_REQUEST_ACCEPTED])"

definition isFinalBidState :: "BidStates \<Rightarrow> bool" where
  "isFinalBidState state \<longleftrightarrow> state \<in> set inactive_states"

section \<open>Facts\<close>

lemma BidStates_all_complete: "s \<in> set BidStates_all"
  by (cases s) (simp_all add: BidStates_all_def)

lemma EventLogTypes_all_complete: "s \<in> set EventLogTypes_all"
  by (cases s) (simp_all add: EventLogTypes_all_def)

lemma strBidState_distinct: "distinct (map (strBidState \<circ> BidStates_val) BidStates_all)"
  by code_simp

text \<open>Every bid state has a description of its own: distinct states of \<open>BidStates\<close> are described
  by distinct texts, and a value that is no member is described as unknown together with the value.\<close>

theorem strBidState_faithful:
  "(strBidState (BidStates_val a) = strBidState (BidStates_val b) \<longleftrightarrow> a = b)
   \<and> (BidStates_of v = None \<longleftrightarrow> strBidState v = ''Unknown'' @ '' '' @ str_int v)"
proof
  show "strBidState (BidStates_val a) = strBidState (BidStates_val b) \<longleftrightarrow> a = b"
    using strBidState_distinct BidStates_all_complete [of a] BidStates_all_complete [of b]
    by (auto simp: distinct_map inj_on_def)
  have "strBidState v \<noteq> ''Unknown'' @ '' '' @ str_int v" if "BidStates_of v = Some s" for s
  proof -
    have v: "v = BidStates_val s"
      using that by (auto simp: BidStates_of_def find_Some_iff)
    have "list_all (\<lambda>s. strBidState (BidStates_val s) \<noteq> ''Unknown'' @ '' '' @ str_int (BidStates_val s)) BidStates_all"
      by code_simp
    then show ?thesis
      using BidStates_all_complete [of s] by (simp add: v list_all_iff)
  qed
  moreover have "strBidState v = ''Unknown'' @ '' '' @ str_int v" if "BidStates_of v = None"
  proof -
    have "v \<noteq> BidStates_val s" for s
      using that by auto
    then show ?thesis
      unfolding strBidState_def by (simp only: if_False simp_thms append_Cons append_Nil)
  qed
  ultimately show "BidStates_of v = None \<longleftrightarrow> strBidState v = ''Unknown'' @ '' '' @ str_int v"
    by (cases "BidStates_of v") auto
qed

lemma bid_state_classes_all:
  "list_all (\<lambda>s. (isFinalBidState s \<longrightarrow> \<not> isActiveBidState s \<and> \<not> canAcceptBidState s \<and> \<not> canExpireBidState s \<and> \<not> canTimeoutBidState s)
    \<and> (canAcceptBidState s \<longrightarrow> canExpireBidState s)
    \<and> (canExpireBidState s \<longrightarrow> \<not> isActiveBidState s)
    \<and> (canTimeoutBidState s \<longrightarrow> isActiveBidState s)
    \<and> (isErrorBidState s \<longrightarrow> isFailingBidState s)
    \<and> (isErrorBidState s \<and> \<not> isFinalBidState s \<longleftrightarrow> s = BID_STALLED_FOR_TEST)) BidStates_all"
  by code_simp

text \<open>The classification of bid states is coherent: a final state is never active and can neither
  be accepted, expire nor time out; every acceptable state can expire; a state that can expire is not
  active and one that can time out is; every error state is a failing one, and final unless it is the
  debug stall.\<close>

theorem bid_state_classes:
  "(isFinalBidState s \<longrightarrow> \<not> isActiveBidState s \<and> \<not> canAcceptBidState s \<and> \<not> canExpireBidState s \<and> \<not> canTimeoutBidState s)
    \<and> (canAcceptBidState s \<longrightarrow> canExpireBidState s)
    \<and> (canExpireBidState s \<longrightarrow> \<not> isActiveBidState s)
    \<and> (canTimeoutBidState s \<longrightarrow> isActiveBidState s)
    \<and> (isErrorBidState s \<longrightarrow> isFailingBidState s)
    \<and> (isErrorBidState s \<and> \<not> isFinalBidState s \<longleftrightarrow> s = BID_STALLED_FOR_TEST)"
  using bid_state_classes_all BidStates_all_complete [of s] by (simp add: list_all_iff)

theorem bid_state_classes_witness:
  "isFinalBidState BID_ERROR \<and> \<not> isActiveBidState BID_ERROR"
proof -
  have "isFinalBidState BID_ERROR"
    by code_simp
  then show ?thesis
    using bid_state_classes [of BID_ERROR] by blast
qed

text \<open>Every logged event but \<open>LOCK_TX_A_INVALID\<close> has a description: for that one
  \<open>describeEventEntry\<close> falls through and returns None.\<close>

theorem describeEventEntry_complete:
  "describeEventEntry (EventLogTypes_val e) msg = None \<longleftrightarrow> e = EV_LOCK_TX_A_INVALID"
proof -
  have "list_all (\<lambda>e. describeEventEntry (EventLogTypes_val e) msg = None \<longleftrightarrow> e = EV_LOCK_TX_A_INVALID) EventLogTypes_all"
    by (simp add: EventLogTypes_all_def describeEventEntry_def)
  then show ?thesis
    using EventLogTypes_all_complete [of e] by (simp add: list_all_iff)
qed

end
