(* ===== verification/Database.thy ===== *)
theory Database
  imports Swap_Types
begin

text \<open>
  Rows of \<open>src/basicswap/db.py\<close>: \<open>StateRows\<close> with its packed history of states, the tables
  \<open>SwapTx\<close>, \<open>Bid\<close> and \<open>Offer\<close>, the accessors of \<open>Bid\<close>, and the column name check of \<open>getOrderByStr\<close>; with
  \<open>getLastBidState\<close> of \<open>basicswap_util.py\<close>, which reads the history. A column that may be None is an
  option. A table that inherits from \<open>StateRows\<close> extends its record. A method that can raise returns
  the exception together with the object as it was left. Columns the modelled code neither reads nor writes are left out.
\<close>

section \<open>Definitions\<close>

record StateRows =
  state :: "int option"
  state_time :: "int option"
  states :: "bytes option"

record SwapTx = StateRows +
  tx_bid_id :: bytes
  tx_type :: TxTypes
  txid :: "bytes option"
  vout :: "int option"
  tx_data :: "bytes option"
  script :: "bytes option"
  tx_fee :: "int option"
  chain_height :: "int option"
  conf :: "int option"
  spend_txid :: "bytes option"
  spend_n :: "int option"
  block_hash :: "bytes option"
  block_height :: "int option"
  block_time :: "int option"

record Offer = StateRows +
  offer_id :: bytes
  offer_active_ind :: int
  offer_protocol_version :: int
  coin_from :: int
  coin_to :: int
  amount_from :: int
  offer_amount_to :: int
  offer_rate :: int
  min_bid_amount :: int
  time_valid :: int
  lock_type :: int
  lock_value :: int
  swap_type :: int
  offer_pkhash_seller :: "bytes option"
  offer_secret_hash :: "bytes option"
  addr_from :: string
  addr_to :: string
  offer_created_at :: int
  offer_expire_at :: int
  from_feerate :: int
  to_feerate :: int
  amount_negotiable :: bool
  rate_negotiable :: bool
  auto_accept_type :: "int option"
  offer_was_sent :: bool
  bid_reversed :: bool

record Bid = StateRows +
  bid_id :: bytes
  bid_offer_id :: bytes
  active_ind :: int
  protocol_version :: int
  created_at :: int
  expire_at :: int
  bid_addr :: string
  recovered_secret :: "bytes option"
  amount_to :: int
  pkhash_buyer :: "bytes option"
  pkhash_buyer_to :: "bytes option"
  amount :: int
  rate :: int
  pkhash_seller :: "bytes option"
  initiate_txn_redeem :: "bytes option"
  initiate_txn_refund :: "bytes option"
  participate_txn_redeem :: "bytes option"
  participate_txn_refund :: "bytes option"
  in_progress :: int
  was_sent :: bool
  was_received :: bool
  contract_count :: "int option"
  debug_ind :: "int option"
  chain_a_height_start :: "int option"
  chain_b_height_start :: "int option"
  reject_code :: "int option"
  initiate_tx :: "SwapTx option"
  participate_tx :: "SwapTx option"
  xmr_a_lock_tx :: "SwapTx option"
  xmr_a_lock_spend_tx :: "SwapTx option"
  xmr_b_lock_tx :: "SwapTx option"
  txns :: "TxTypes \<Rightarrow> SwapTx option"

text \<open>The rows of an adaptor signature swap: the terms of the offer, and the transactions and key material the
  two parties have exchanged.\<close>

record XmrOffer =
  a_fee_rate :: int
  b_fee_rate :: int
  lock_time_1 :: int
  lock_time_2 :: int

record XmrSwap =
  swap_contract_count :: "int option"
  dest_af :: "bytes option"
  dest_bl :: "string option"
  pkal :: "bytes option"
  pkasl :: "bytes option"
  pkaf :: "bytes option"
  pkasf :: "bytes option"
  vkbvl :: "bytes option"
  pkbvl :: "bytes option"
  pkbsl :: "bytes option"
  vkbvf :: "bytes option"
  pkbvf :: "bytes option"
  pkbsf :: "bytes option"
  kbsl_dleag :: "bytes option"
  kbsf_dleag :: "bytes option"
  vkbv :: "bytes option"
  pkbv :: "bytes option"
  pkbs :: "bytes option"
  a_lock_tx :: "bytes option"
  a_lock_tx_script :: "bytes option"
  a_lock_tx_id :: "bytes option"
  a_lock_tx_vout :: "int option"
  a_lock_refund_tx :: "bytes option"
  a_lock_refund_tx_script :: "bytes option"
  a_lock_refund_tx_id :: "bytes option"
  a_swap_refund_value :: "int option"
  al_lock_refund_tx_sig :: "bytes option"
  af_lock_refund_tx_sig :: "bytes option"
  a_lock_refund_spend_tx :: "bytes option"
  a_lock_refund_spend_tx_id :: "bytes option"
  af_lock_refund_spend_tx_esig :: "bytes option"
  af_lock_refund_spend_tx_sig :: "bytes option"
  a_lock_spend_tx :: "bytes option"
  a_lock_spend_tx_id :: "bytes option"
  al_lock_spend_tx_esig :: "bytes option"
  kal_sig :: "bytes option"
  a_lock_refund_swipe_tx :: "bytes option"
  b_lock_tx_id :: "bytes option"

text \<open>A part of a proof that is too long for one message.\<close>

record XmrSplitData =
  sd_addr_from :: string
  sd_addr_to :: string
  sd_bid_id :: bytes
  sd_msg_type :: int
  sd_msg_sequence :: int
  sd_dleag :: bytes
  sd_created_at :: int

text \<open>What is known of a peer by its address: the counts of its bids by outcome.\<close>

record KnownIdentity =
  num_sent_bids_successful :: "int option"
  num_recv_bids_successful :: "int option"
  num_sent_bids_rejected :: "int option"
  num_recv_bids_rejected :: "int option"
  num_sent_bids_failed :: "int option"
  num_recv_bids_failed :: "int option"

definition pack_state :: "int \<Rightarrow> int \<Rightarrow> bytes res" where
  "pack_state new_state now =
     rbind (to_bytes_le 4 new_state) (\<lambda>a. rbind (to_bytes_le 8 now) (\<lambda>b. Inr (a @ b)))"

text \<open>\<open>now\<close> is the clock, or the time the caller gives. The state and its time are assigned before
  the history is extended, so they are kept when packing them fails.\<close>

definition setState :: "int \<Rightarrow> int \<Rightarrow> 'a StateRows_scheme \<Rightarrow> unit res \<times> 'a StateRows_scheme" where
  "setState new_state now self =
     (let self = self\<lparr>state := Some new_state, state_time := Some now\<rparr>
      in case pack_state new_state now of
           Inl e \<Rightarrow> (Inl e, self)
         | Inr p \<Rightarrow> (Inr (), self\<lparr>states := Some (case states self of None \<Rightarrow> p | Some ss \<Rightarrow> ss @ p)\<rparr>))"

definition getITxState :: "Bid \<Rightarrow> int option" where
  "getITxState self = (case initiate_tx self of None \<Rightarrow> None | Some tx \<Rightarrow> state tx)"

definition setITxState :: "int \<Rightarrow> int \<Rightarrow> Bid \<Rightarrow> unit res \<times> Bid" where
  "setITxState new_state now self =
     (case initiate_tx self of
        None \<Rightarrow> (Inr (), self)
      | Some tx \<Rightarrow> (let (r, tx') = setState new_state now tx in (r, self\<lparr>initiate_tx := Some tx'\<rparr>)))"

definition getPTxState :: "Bid \<Rightarrow> int option" where
  "getPTxState self = (case participate_tx self of None \<Rightarrow> None | Some tx \<Rightarrow> state tx)"

definition setPTxState :: "int \<Rightarrow> int \<Rightarrow> Bid \<Rightarrow> unit res \<times> Bid" where
  "setPTxState new_state now self =
     (case participate_tx self of
        None \<Rightarrow> (Inr (), self)
      | Some tx \<Rightarrow> (let (r, tx') = setState new_state now tx in (r, self\<lparr>participate_tx := Some tx'\<rparr>)))"

definition getLockTXBVout :: "Bid \<Rightarrow> int option" where
  "getLockTXBVout self = (case xmr_b_lock_tx self of None \<Rightarrow> None | Some tx \<Rightarrow> vout tx)"

text \<open>\<open>struct.unpack_from("<i", b)[0]\<close>: four bytes, two's complement.\<close>

definition unpack_i32 :: "bytes \<Rightarrow> int res" where
  "unpack_i32 b =
     (if length b < 4 then Inl StructError
      else let v = from_le (take 4 b) in Inr (if v < 2 ^ 31 then v else v - 2 ^ 32))"

definition getLastBidState :: "bytes \<Rightarrow> int res" where
  "getLastBidState packed_states =
     (let num_states = length packed_states div 12
      in if num_states < 2 then Inr (BidStates_val BID_STATE_UNKNOWN)
         else unpack_i32 (drop ((num_states - 2) * 12) packed_states))"

definition isalpha :: "char \<Rightarrow> bool" where
  "isalpha c \<longleftrightarrow> (let n = (of_char c :: nat) in (65 \<le> n \<and> n \<le> 90) \<or> (97 \<le> n \<and> n \<le> 122))"

definition isalnum :: "char \<Rightarrow> bool" where
  "isalnum c \<longleftrightarrow> isalpha c \<or> isdigit c"

definition upper :: "string \<Rightarrow> string" where
  "upper s = map (\<lambda>c. let n = (of_char c :: nat) in if 97 \<le> n \<and> n \<le> 122 then char_of (n - 32) else c) s"

definition validColumnName :: "string \<Rightarrow> bool" where
  "validColumnName name =
     (case name of
        [] \<Rightarrow> False
      | c # cs \<Rightarrow> isalpha c \<and> list_all (\<lambda>c. isalnum c \<or> c = CHR ''_'') cs)"

text \<open>\<open>filters\<close> is a dict; \<open>default_sort_by\<close> and \<open>table_name\<close> are given by the calling code.\<close>

definition getOrderByStr :: "(string \<Rightarrow> string option) \<Rightarrow> string \<Rightarrow> string \<Rightarrow> string res" where
  "getOrderByStr filters default_sort_by table_name =
     (let sort_by = (case filters ''sort_by'' of None \<Rightarrow> default_sort_by | Some s \<Rightarrow> s)
      in if \<not> validColumnName sort_by then Inl (ValueError ''Invalid sort by'')
         else let sort_by = (if table_name \<noteq> [] then table_name @ ''.'' @ sort_by else sort_by);
                  sort_dir = upper (case filters ''sort_dir'' of None \<Rightarrow> ''DESC'' | Some s \<Rightarrow> s)
              in if sort_dir \<notin> {''ASC'', ''DESC''} then Inl (ValueError ''Invalid sort dir'')
                 else Inr ('' ORDER BY '' @ sort_by @ '' '' @ sort_dir))"

section \<open>Specification vocabulary\<close>

text \<open>The history a packed blob stands for: twelve bytes a state and its time.\<close>

fun unpack_states :: "bytes \<Rightarrow> (int \<times> int) list" where
  "unpack_states b = (if length b < 12 then []
     else (from_le (take 4 b), from_le (bslice b 4 12)) # unpack_states (drop 12 b))"

definition state_log :: "'a StateRows_scheme \<Rightarrow> (int \<times> int) list" where
  "state_log r = (case states r of None \<Rightarrow> [] | Some b \<Rightarrow> unpack_states b)"

definition rows_ok :: "'a StateRows_scheme \<Rightarrow> bool" where
  "rows_ok r \<longleftrightarrow> (case states r of
      None \<Rightarrow> True
    | Some b \<Rightarrow> 12 dvd length b \<and> b \<noteq> [] \<and> (case last (unpack_states b) of (s, t) \<Rightarrow> state r = Some s \<and> state_time r = Some t))"

section \<open>Facts\<close>

declare unpack_states.simps [simp del]

lemma pack_state_ok: "0 \<le> s \<Longrightarrow> s < 2 ^ 32 \<Longrightarrow> 0 \<le> t \<Longrightarrow> t < 2 ^ 64 \<Longrightarrow> pack_state s t = Inr (le_bytes 4 s @ le_bytes 8 t)"
  by (simp add: pack_state_def to_bytes_le_def)

lemma unpack_pack:
  assumes "pack_state s t = Inr p"
  shows "length p = 12" "unpack_states p = [(s, t)]"
proof -
  obtain a b where p: "p = a @ b" and a: "length a = 4" "from_le a = s" and b: "length b = 8" "from_le b = t"
    using assms by (auto simp: pack_state_def to_bytes_le_Inr_iff)
  then show "length p = 12" by simp
  show "unpack_states p = [(s, t)]"
    using a b by (subst unpack_states.simps) (simp add: p bslice_def unpack_states.simps)
qed

lemma unpack_append: "12 dvd length a \<Longrightarrow> unpack_states (a @ b) = unpack_states a @ unpack_states b"
proof (induction a rule: unpack_states.induct)
  case (1 a)
  show ?case
  proof (cases "length a < 12")
    case True
    with 1(2) have "a = []"
      by (cases "length a = 0") (auto dest: dvd_imp_le)
    then show ?thesis by (simp add: unpack_states.simps)
  next
    case False
    then have "12 dvd length (drop 12 a)"
      using 1(2) by (simp add: dvd_diff_nat)
    with False 1(1) have IH: "unpack_states (drop 12 a @ b) = unpack_states (drop 12 a) @ unpack_states b" by simp
    show ?thesis
      using False IH by (subst (1 2) unpack_states.simps) (simp add: bslice_def)
  qed
qed

lemma setState_log:
  assumes "rows_ok r" "pack_state s t = Inr p" "setState s t r = (x, r')"
  shows "x = Inr ()" "rows_ok r'" "state_log r' = state_log r @ [(s, t)]" "state r' = Some s" "state_time r' = Some t"
    "states r' = Some (case states r of None \<Rightarrow> p | Some ss \<Rightarrow> ss @ p)"
proof -
  have r': "x = Inr ()" "r' = r\<lparr>state := Some s, state_time := Some t, states := Some (case states r of None \<Rightarrow> p | Some ss \<Rightarrow> ss @ p)\<rparr>"
    using assms by (auto simp: setState_def)
  then show "x = Inr ()" "state r' = Some s" "state_time r' = Some t"
    "states r' = Some (case states r of None \<Rightarrow> p | Some ss \<Rightarrow> ss @ p)"
    by simp_all
  show "state_log r' = state_log r @ [(s, t)]" "rows_ok r'"
    using assms(1) unpack_pack [OF assms(2)]
    by (auto simp: r' state_log_def rows_ok_def unpack_append split: option.splits)
qed

text \<open>C33. \<open>setState\<close> implements an append-only log of states: on a row whose history is well formed, and
  for a state and time that fit their fields, it succeeds, the history is the old one with the new
  entry at the end, the row's state and time are the new ones and the row stays well formed; on any
  other values it raises OverflowError and leaves the history alone.\<close>

theorem setState_appends:
  assumes "rows_ok r" and "setState s t r = (x, r')"
  shows "if 0 \<le> s \<and> s < 2 ^ 32 \<and> 0 \<le> t \<and> t < 2 ^ 64
    then x = Inr () \<and> rows_ok r' \<and> state_log r' = state_log r @ [(s, t)] \<and> state r' = Some s \<and> state_time r' = Some t
    else x = Inl OverflowError \<and> state_log r' = state_log r \<and> state r' = Some s"
proof (cases "0 \<le> s \<and> s < 2 ^ 32 \<and> 0 \<le> t \<and> t < 2 ^ 64")
  case True
  then show ?thesis
    using setState_log [OF assms(1) pack_state_ok assms(2)] by simp
next
  case False
  then have "pack_state s t = Inl OverflowError"
    by (auto simp: pack_state_def to_bytes_le_def)
  then have "x = Inl OverflowError" "r' = r\<lparr>state := Some s, state_time := Some t\<rparr>"
    using assms(2) by (simp_all add: setState_def)
  then show ?thesis using False by (auto simp: state_log_def)
qed

theorem setState_appends_witness:
  "\<exists>r'. setState (5::int) 1700000000 \<lparr>state = None, state_time = None, states = None\<rparr> = (Inr (), r') \<and> state_log r' = [(5, 1700000000)]"
proof -
  obtain x r' where s: "setState (5::int) 1700000000 \<lparr>state = None, state_time = None, states = None\<rparr> = (x, r')"
    by fastforce
  show ?thesis
    using setState_appends [OF _ s] s by (simp add: rows_ok_def) (simp add: state_log_def)
qed

text \<open>\<open>getLastBidState\<close> is the state before the current one: after two changes of state of any row
  whose history is well formed it returns the first of the two new states, and before a second
  change \<open>BID_STATE_UNKNOWN\<close>.\<close>

theorem getLastBidState_previous:
  assumes "rows_ok r" "setState s t r = (Inr (), r')" "setState s' t' r' = (Inr (), r'')" "s < 2 ^ 31"
  shows "(\<exists>b. states r'' = Some b \<and> getLastBidState b = Inr s)
    \<and> (states r = None \<longrightarrow> (\<exists>b. states r' = Some b \<and> getLastBidState b = Inr (BidStates_val BID_STATE_UNKNOWN)))"
proof -
  obtain p where p: "pack_state s t = Inr p"
    using assms(2) by (auto simp: setState_def Let_def split: sum.splits)
  obtain p' where p': "pack_state s' t' = Inr p'"
    using assms(3) by (auto simp: setState_def Let_def split: sum.splits)
  note r' = setState_log [OF assms(1) p assms(2)] and r'' = setState_log [OF setState_log(2) [OF assms(1) p assms(2)] p' assms(3)]
  let ?b = "(case states r of None \<Rightarrow> p | Some ss \<Rightarrow> ss @ p)"
  have b: "states r'' = Some (?b @ p')" using r'(6) r''(6) by simp
  have l: "length p = 12" "length p' = 12" using unpack_pack p p' by blast+
  have d: "12 dvd length ?b" using assms(1) l by (auto simp: rows_ok_def split: option.splits)
  let ?n = "length (?b @ p') div 12 - 2"
  have n: "?n * 12 = length ?b - 12" "\<not> length (?b @ p') div 12 < 2"
    using d l by (auto elim!: dvdE split: option.splits)
  have "drop (length ?b - 12) (?b @ p') = p @ p'"
    using l by (auto split: option.splits)
  then have "getLastBidState (?b @ p') = unpack_i32 (p @ p')"
    using n by (simp add: getLastBidState_def)
  moreover obtain a q where "p = a @ q" "length a = 4" "from_le a = s"
    using p by (auto simp: pack_state_def to_bytes_le_Inr_iff)
  ultimately have "getLastBidState (?b @ p') = Inr s"
    using assms(4) l by (simp add: unpack_i32_def)
  with b r'(6) l show ?thesis
    by (auto simp: getLastBidState_def)
qed

theorem getLastBidState_previous_witness:
  "\<exists>b. states (snd (setState 6 20 (snd (setState 5 10 \<lparr>state = None, state_time = None, states = None\<rparr>)))) = Some b
     \<and> getLastBidState b = Inr 5"
proof -
  let ?r = "\<lparr>state = None, state_time = None, states = None\<rparr> :: StateRows"
  have "setState 5 10 ?r = (Inr (), snd (setState 5 10 ?r))"
    "setState 6 20 (snd (setState 5 10 ?r)) = (Inr (), snd (setState 6 20 (snd (setState 5 10 ?r))))"
    by (simp_all add: setState_def Let_def pack_state_ok)
  then show ?thesis
    using getLastBidState_previous [of ?r 5 10 "snd (setState 5 10 ?r)" 6 20] by (simp add: rows_ok_def)
qed

text \<open>The sort clause cannot smuggle SQL: whatever the filters hold, when \<open>getOrderByStr\<close> does not
  raise its result is \<open>ORDER BY\<close>, the table's prefix, one word of letters, digits and underscores
  that starts with a letter, and \<open>ASC\<close> or \<open>DESC\<close>.\<close>

theorem getOrderByStr_safe:
  assumes "getOrderByStr filters default_sort_by table_name = Inr s"
  shows "\<exists>c cs d. s = '' ORDER BY '' @ (if table_name \<noteq> [] then table_name @ ''.'' else []) @ (c # cs) @ '' '' @ d
    \<and> isalpha c \<and> (\<forall>x\<in>set cs. isalnum x \<or> x = CHR ''_'') \<and> d \<in> {''ASC'', ''DESC''}"
  using assms
  by (auto simp: getOrderByStr_def Let_def validColumnName_def list_all_iff split: if_splits list.splits)

theorem getOrderByStr_safe_witness:
  "\<exists>c cs d. '' ORDER BY b.rate ASC'' = '' ORDER BY '' @ (if ''b'' \<noteq> [] then ''b'' @ ''.'' else []) @ (c # cs) @ '' '' @ d
    \<and> isalpha c \<and> (\<forall>x\<in>set cs. isalnum x \<or> x = CHR ''_'') \<and> d \<in> {''ASC'', ''DESC''}"
proof (rule getOrderByStr_safe)
  show "getOrderByStr (map_of [(''sort_by'', ''rate''), (''sort_dir'', ''asc'')]) ''created_at'' ''b'' = Inr '' ORDER BY b.rate ASC''"
    by code_simp
qed

end
