(* ===== verification/Node.thy ===== *)
theory Node
  imports Effects Chainparams Database
begin

text \<open>
  The state a running node keeps for its swaps, and the operations of \<open>src/basicswap/basicswap.py\<close> on
  it that every swap handler uses: the watch lists of \<open>src/basicswap/types.py\<close>, the height from which a
  chain is checked, the event log, queued actions and saved bids.

  Bid objects live in a store indexed by bid id, so that a handler changes the object the
  in-progress table refers to; \<open>bid_rows\<close>, \<open>offer_rows\<close> and \<open>actions\<close> are the tables of the database, where a saved
  bid is found again after a restart. \<open>coin_clients\<close> holds one entry per chain: the entries for
  \<open>PART_ANON\<close>, \<open>PART_BLIND\<close> and \<open>LTC_MWEB\<close> are the same object as the entry of their parent chain.
  Transaction ids are kept as bytes where the code converts them to hex, and texts of events without
  the values formatted into them.
\<close>

section \<open>Definitions\<close>

record WatchedOutput =
  wo_bid_id :: bytes
  wo_txid :: bytes
  wo_vout :: "int option"
  wo_tx_type :: int
  wo_swap_type :: "SwapTypes option"

record WatchedScript =
  ws_bid_id :: bytes
  ws_script :: bytes
  ws_tx_type :: TxTypes
  ws_swap_type :: "SwapTypes option"

record WatchedTransaction =
  wt_bid_id :: bytes
  wt_coin_type :: Coins
  wt_txid :: bytes
  wt_tx_type :: TxTypes
  wt_swap_type :: "SwapTypes option"
  wt_block_hash :: "bytes option"
  wt_depth :: int

record coin_client =
  connection_type :: string
  blocks_confirmed :: int
  use_segwit :: bool
  watched_transactions :: "WatchedTransaction list"
  watched_outputs :: "WatchedOutput list"
  watched_scripts :: "WatchedScript list"
  last_height_checked :: int
  block_check_min_time :: int

record Action =
  action_id :: int
  action_active_ind :: int
  action_created_at :: int
  action_trigger_at :: int
  action_type :: int
  action_linked_id :: bytes

text \<open>What the node asks of a wallet and does not wait for: its failures are logged and ignored.\<close>

datatype wallet_call =
    LockOutput Coins bytes
  | UnlockOutput Coins bytes
  | UnlockInputs Coins bytes
  | UnlockUTXOs Coins bytes
  | UnlockPrefunded Coins bytes

record node =
  bids :: "bytes \<Rightarrow> Bid"
  swaps_in_progress :: "(bytes \<times> Offer) list"
  coin_clients :: "Coins \<Rightarrow> coin_client"
  events :: "(bytes \<times> EventLogTypes \<times> string) list"
  actions :: "Action list"
  bid_rows :: "bytes \<Rightarrow> Bid option"
  offer_rows :: "bytes \<Rightarrow> Offer option"
  xmr_swaps :: "bytes \<Rightarrow> XmrSwap option"
  xmr_offers :: "bytes \<Rightarrow> XmrOffer option"
  identities :: "string \<Rightarrow> KnownIdentity option"
  split_data :: "XmrSplitData list"
  message_links :: "(bytes \<times> MessageTypes \<times> bytes) list"
  published :: "(Coins \<times> bytes) list"
  sent_messages :: "(string \<times> string \<times> bytes) list"
  wallet_calls :: "wallet_call list"
  pool_returns :: "(bytes \<times> TxTypes) list"
  min_time_kv :: "(Coins \<times> int) list"
  notified :: "(NotificationTypes \<times> bytes) list"

definition client_key :: "Coins \<Rightarrow> Coins" where
  "client_key c = (if c = PART_ANON \<or> c = PART_BLIND then PART else if c = LTC_MWEB then LTC else c)"

abbreviation cc :: "node \<Rightarrow> Coins \<Rightarrow> coin_client" where
  "cc n c \<equiv> coin_clients n (client_key c)"

definition upd_cc :: "Coins \<Rightarrow> (coin_client \<Rightarrow> coin_client) \<Rightarrow> node \<Rightarrow> node" where
  "upd_cc c f n = n\<lparr>coin_clients := (coin_clients n)(client_key c := f (cc n c))\<rparr>"

definition upd_bid :: "bytes \<Rightarrow> (Bid \<Rightarrow> Bid) \<Rightarrow> node \<Rightarrow> node" where
  "upd_bid b f n = n\<lparr>bids := (bids n)(b := f (bids n b))\<rparr>"

subsection \<open>Watch lists\<close>

text \<open>The loops that delete from the end of a list by index.\<close>

fun delete_from_end :: "('a \<Rightarrow> bool) \<Rightarrow> nat \<Rightarrow> 'a list \<Rightarrow> 'a list" where
  "delete_from_end p 0 watched = watched"
| "delete_from_end p (Suc i) watched =
     delete_from_end p i (if p (watched ! i) then take i watched @ drop (Suc i) watched else watched)"

definition add_output :: "WatchedOutput \<Rightarrow> WatchedOutput list \<Rightarrow> WatchedOutput list" where
  "add_output w watched =
     (if list_ex (\<lambda>wo. wo_bid_id wo = wo_bid_id w \<and> wo_txid wo = wo_txid w \<and> wo_vout wo = wo_vout w) watched
      then watched else watched @ [w])"

definition addWatchedOutput ::
  "Coins \<Rightarrow> bytes \<Rightarrow> bytes \<Rightarrow> int option \<Rightarrow> int \<Rightarrow> SwapTypes option \<Rightarrow> (node, unit) py" where
  "addWatchedOutput coin_type b txid_hex n_out typ swap_typ =
     pmod (upd_cc coin_type (\<lambda>c. c\<lparr>watched_outputs :=
       add_output \<lparr>wo_bid_id = b, wo_txid = txid_hex, wo_vout = n_out, wo_tx_type = typ, wo_swap_type = swap_typ\<rparr>
         (watched_outputs c)\<rparr>))"

definition output_matches :: "bytes \<Rightarrow> bytes option \<Rightarrow> int option \<Rightarrow> WatchedOutput \<Rightarrow> bool" where
  "output_matches b txid_hex n_out wo \<longleftrightarrow>
     wo_bid_id wo = b \<and> (txid_hex = None \<or> Some (wo_txid wo) = txid_hex) \<and> (n_out = None \<or> wo_vout wo = n_out)"

definition removeWatchedOutput :: "Coins \<Rightarrow> bytes \<Rightarrow> bytes option \<Rightarrow> int option \<Rightarrow> (node, unit) py" where
  "removeWatchedOutput coin_type b txid_hex n_out =
     pmod (upd_cc coin_type (\<lambda>c. c\<lparr>watched_outputs :=
       delete_from_end (output_matches b txid_hex n_out) (length (watched_outputs c)) (watched_outputs c)\<rparr>))"

definition add_transaction :: "WatchedTransaction \<Rightarrow> WatchedTransaction list \<Rightarrow> WatchedTransaction list" where
  "add_transaction w watched =
     (if list_ex (\<lambda>wt. wt_bid_id wt = wt_bid_id w \<and> wt_txid wt = wt_txid w) watched
      then watched else watched @ [w])"

definition addWatchedTransaction ::
  "Coins \<Rightarrow> bytes \<Rightarrow> bytes \<Rightarrow> TxTypes \<Rightarrow> SwapTypes option \<Rightarrow> (node, unit) py" where
  "addWatchedTransaction coin_type b txid_hex typ swap_typ =
     pmod (upd_cc coin_type (\<lambda>c. c\<lparr>watched_transactions :=
       add_transaction \<lparr>wt_bid_id = b, wt_coin_type = coin_type, wt_txid = txid_hex, wt_tx_type = typ,
           wt_swap_type = swap_typ, wt_block_hash = None, wt_depth = -1\<rparr>
         (watched_transactions c)\<rparr>))"

definition transaction_matches :: "bytes \<Rightarrow> bytes option \<Rightarrow> WatchedTransaction \<Rightarrow> bool" where
  "transaction_matches b txid_hex wt \<longleftrightarrow> wt_bid_id wt = b \<and> (txid_hex = None \<or> Some (wt_txid wt) = txid_hex)"

definition removeWatchedTransaction :: "Coins \<Rightarrow> bytes \<Rightarrow> bytes option \<Rightarrow> (node, unit) py" where
  "removeWatchedTransaction coin_type b txid_hex =
     pmod (upd_cc coin_type (\<lambda>c. c\<lparr>watched_transactions :=
       delete_from_end (transaction_matches b txid_hex) (length (watched_transactions c)) (watched_transactions c)\<rparr>))"

definition add_script :: "WatchedScript \<Rightarrow> WatchedScript list \<Rightarrow> WatchedScript list" where
  "add_script w watched =
     (if list_ex (\<lambda>ws. ws_bid_id ws = ws_bid_id w \<and> ws_tx_type ws = ws_tx_type w \<and> ws_script ws = ws_script w) watched
      then watched else watched @ [w])"

definition addWatchedScript :: "Coins \<Rightarrow> bytes \<Rightarrow> bytes \<Rightarrow> TxTypes \<Rightarrow> SwapTypes option \<Rightarrow> (node, unit) py" where
  "addWatchedScript coin_type b dest typ swap_typ =
     pmod (upd_cc coin_type (\<lambda>c. c\<lparr>watched_scripts :=
       add_script \<lparr>ws_bid_id = b, ws_script = dest, ws_tx_type = typ, ws_swap_type = swap_typ\<rparr>
         (watched_scripts c)\<rparr>))"

definition script_matches :: "bytes \<Rightarrow> bytes option \<Rightarrow> TxTypes option \<Rightarrow> WatchedScript \<Rightarrow> bool" where
  "script_matches b dest typ ws \<longleftrightarrow>
     ws_bid_id ws = b \<and> (dest = None \<or> Some (ws_script ws) = dest) \<and> (typ = None \<or> Some (ws_tx_type ws) = typ)"

definition removeWatchedScript :: "Coins \<Rightarrow> bytes \<Rightarrow> bytes option \<Rightarrow> TxTypes option \<Rightarrow> (node, unit) py" where
  "removeWatchedScript coin_type b dest typ =
     pmod (upd_cc coin_type (\<lambda>c. c\<lparr>watched_scripts :=
       delete_from_end (script_matches b dest typ) (length (watched_scripts c)) (watched_scripts c)\<rparr>))"

subsection \<open>Where a chain is checked from\<close>

text \<open>What the node asks of a chain: the interface's block headers and height, answered by the coin's
  daemon.\<close>

record block_header =
  bh_hash :: bytes
  bh_height :: int
  bh_time :: int

definition setLastHeightCheckedStart ::
  "int res \<Rightarrow> (int \<Rightarrow> block_header res) \<Rightarrow> Coins \<Rightarrow> int \<Rightarrow> (node, int) py" where
  "setLastHeightCheckedStart getChainHeight getBlockHeaderFromHeight coin_type tx_height =
     pbind (if tx_height < 1 then plift getChainHeight else pret tx_height) (\<lambda>tx_height.
     pbind (plift (getBlockHeaderFromHeight tx_height)) (\<lambda>block_header.
     let block_time = bh_time block_header;
         set_height = pmod (\<lambda>n. (upd_cc coin_type (\<lambda>c. c\<lparr>last_height_checked := tx_height,
             block_check_min_time := block_time\<rparr>) n)\<lparr>min_time_kv := (coin_type, block_time) # min_time_kv n\<rparr>)
     in pbind (pget (\<lambda>n. cc n coin_type)) (\<lambda>c.
        pseq (if watched_outputs c = [] \<and> watched_transactions c = [] \<and> watched_scripts c = [] then set_height
              else if last_height_checked c > tx_height then set_height
              else pret ())
          (pret tx_height))))"

subsection \<open>Event log, actions and saved bids\<close>

definition logEvent :: "bytes \<Rightarrow> EventLogTypes \<Rightarrow> string \<Rightarrow> (node, unit) py" where
  "logEvent linked_id event_type event_msg =
     pmod (\<lambda>n. n\<lparr>events := events n @ [(linked_id, event_type, event_msg)]\<rparr>)"

definition countBidEvents :: "bytes \<Rightarrow> EventLogTypes \<Rightarrow> (node, nat) py" where
  "countBidEvents b event_type =
     pget (\<lambda>n. length (filter (\<lambda>(i, t, _). i = b \<and> t = event_type) (events n)))"

text \<open>Inserting a row: the column \<open>action_id\<close> is an integer primary key, for which SQLite takes the
  number after the largest one.\<close>

definition next_action_id :: "Action list \<Rightarrow> int" where
  "next_action_id rows = foldr max (map action_id rows) 0 + 1"

definition insert_action :: "int \<Rightarrow> int \<Rightarrow> ActionTypes \<Rightarrow> bytes \<Rightarrow> Action list \<Rightarrow> Action list" where
  "insert_action created trigger t linked_id rows =
     rows @ [\<lparr>action_id = next_action_id rows, action_active_ind = 1, action_created_at = created, action_trigger_at = trigger,
       action_type = ActionTypes_val t, action_linked_id = linked_id\<rparr>]"

text \<open>\<open>duplicates\<close>: how often the bid is listed in \<open>_debug_cases\<close> with \<open>DUPLICATE_ACTIONS\<close>.\<close>

definition createAction :: "int \<Rightarrow> nat \<Rightarrow> int \<Rightarrow> ActionTypes \<Rightarrow> bytes \<Rightarrow> (node, unit) py" where
  "createAction now duplicates delay t linked_id =
     pseq (pmod (\<lambda>n. n\<lparr>actions := insert_action now (now + delay) t linked_id (actions n)\<rparr>))
          (pfor (\<lambda>_. pmod (\<lambda>n. n\<lparr>actions := insert_action now (now + delay + 3) t linked_id (actions n)\<rparr>)) [0..<duplicates])"

text \<open>The row a bid is saved as, over the one it replaces: the columns of the object, and the rows of the
  transactions it has; a transaction the object does not have keeps its row.\<close>

definition or_else :: "'a option \<Rightarrow> 'a option \<Rightarrow> 'a option" where
  "or_else x y = (case x of None \<Rightarrow> y | Some _ \<Rightarrow> x)"

definition saved_row :: "Bid option \<Rightarrow> Bid \<Rightarrow> Bid" where
  "saved_row old bid =
     (case old of
        None \<Rightarrow> bid
      | Some row \<Rightarrow> bid\<lparr>initiate_tx := or_else (initiate_tx bid) (initiate_tx row),
          participate_tx := or_else (participate_tx bid) (participate_tx row),
          xmr_a_lock_tx := or_else (xmr_a_lock_tx bid) (xmr_a_lock_tx row),
          xmr_a_lock_spend_tx := or_else (xmr_a_lock_spend_tx bid) (xmr_a_lock_spend_tx row),
          xmr_b_lock_tx := or_else (xmr_b_lock_tx bid) (xmr_b_lock_tx row),
          txns := \<lambda>t. or_else (txns bid t) (txns row t)\<rparr>)"

definition saveBidInSession :: "bytes \<Rightarrow> Bid \<Rightarrow> (node, unit) py" where
  "saveBidInSession b bid = pmod (\<lambda>n. n\<lparr>bid_rows := (bid_rows n)(b \<mapsto> saved_row (bid_rows n b) bid)\<rparr>)"

text \<open>\<open>saveBid\<close> of the object in memory.\<close>

definition saveBid :: "bytes \<Rightarrow> (node, unit) py" where
  "saveBid b = pbind (pget (\<lambda>n. bids n b)) (saveBidInSession b)"

definition returnAddressToPool :: "bytes \<Rightarrow> TxTypes \<Rightarrow> (node, unit) py" where
  "returnAddressToPool b t = pmod (\<lambda>n. n\<lparr>pool_returns := pool_returns n @ [(b, t)]\<rparr>)"

text \<open>\<open>bid.setState(s)\<close>, \<open>bid.setITxState(s)\<close> and \<open>bid.setPTxState(s)\<close> on the stored object.\<close>

definition bid_call :: "bytes \<Rightarrow> (Bid \<Rightarrow> unit res \<times> Bid) \<Rightarrow> (node, unit) py" where
  "bid_call b f n = (case f (bids n b) of (r, bid) \<Rightarrow> (r, upd_bid b (\<lambda>_. bid) n))"

definition set_bid_state :: "bytes \<Rightarrow> int \<Rightarrow> BidStates \<Rightarrow> (node, unit) py" where
  "set_bid_state b now s = bid_call b (setState (BidStates_val s) now)"

definition set_itx_state :: "bytes \<Rightarrow> int \<Rightarrow> TxStates \<Rightarrow> (node, unit) py" where
  "set_itx_state b now s = bid_call b (setITxState (TxStates_val s) now)"

definition set_ptx_state :: "bytes \<Rightarrow> int \<Rightarrow> TxStates \<Rightarrow> (node, unit) py" where
  "set_ptx_state b now s = bid_call b (setPTxState (TxStates_val s) now)"

definition setBidError :: "bytes \<Rightarrow> int \<Rightarrow> string \<Rightarrow> (node, unit) py" where
  "setBidError b now error_str =
     pseq (logEvent b EV_ERROR error_str)
    (pseq (set_bid_state b now BID_ERROR)
          (saveBid b))"

section \<open>Specification vocabulary\<close>

text \<open>What the handlers rely on in a list of watched things: adding watches the thing once, removing
  by owner removes exactly that owner's.\<close>

datatype 'w watch_op = Watch 'w | Unwatch bytes

text \<open>Starting points for concrete runs: a node without swaps, a bid and an offer with nothing filled in.\<close>

definition blank_tx :: "bytes \<Rightarrow> TxTypes \<Rightarrow> SwapTx" where
  "blank_tx b t = \<lparr>state = None, state_time = None, states = None, tx_bid_id = b, tx_type = t, txid = None,
     vout = None, tx_data = None, script = None, tx_fee = None, chain_height = None, conf = None,
     spend_txid = None, spend_n = None, block_hash = None, block_height = None, block_time = None\<rparr>"

definition blank_offer :: Offer where
  "blank_offer = \<lparr>state = None, state_time = None, states = None, offer_id = [], offer_active_ind = 1,
     offer_protocol_version = 0, coin_from = 2, coin_to = 3, amount_from = 0, offer_amount_to = 0, offer_rate = 0,
     min_bid_amount = 0, time_valid = 0, lock_type = 1, lock_value = 0, swap_type = 1, offer_pkhash_seller = None,
     offer_secret_hash = None, addr_from = [], addr_to = [], offer_created_at = 0, offer_expire_at = 0,
     from_feerate = 0, to_feerate = 0, amount_negotiable = False, rate_negotiable = False, auto_accept_type = None,
     offer_was_sent = False, bid_reversed = False\<rparr>"

definition blank_bid :: "bytes \<Rightarrow> Bid" where
  "blank_bid b = \<lparr>state = None, state_time = None, states = None, bid_id = b, bid_offer_id = [], active_ind = 1,
     protocol_version = 0, created_at = 0, expire_at = 0, bid_addr = [], recovered_secret = None, amount_to = 0,
     pkhash_buyer = None, pkhash_buyer_to = None, amount = 0, rate = 0, pkhash_seller = None,
     initiate_txn_redeem = None, initiate_txn_refund = None, participate_txn_redeem = None,
     participate_txn_refund = None, in_progress = 0, was_sent = False, was_received = False, contract_count = None,
     debug_ind = None, chain_a_height_start = None, chain_b_height_start = None, reject_code = None,
     initiate_tx = None, participate_tx = None, xmr_a_lock_tx = None, xmr_a_lock_spend_tx = None,
     xmr_b_lock_tx = None, txns = \<lambda>_. None\<rparr>"

definition blank_client :: coin_client where
  "blank_client = \<lparr>connection_type = ''rpc'', blocks_confirmed = 6, use_segwit = True, watched_transactions = [],
     watched_outputs = [], watched_scripts = [], last_height_checked = 0, block_check_min_time = 0\<rparr>"

definition blank_node :: node where
  "blank_node = \<lparr>bids = blank_bid, swaps_in_progress = [], coin_clients = \<lambda>_. blank_client, events = [], actions = [],
     bid_rows = \<lambda>_. None, offer_rows = \<lambda>_. None, xmr_swaps = \<lambda>_. None, xmr_offers = \<lambda>_. None,
     identities = \<lambda>_. None, split_data = [], message_links = [], published = [], sent_messages = [], wallet_calls = [], pool_returns = [], min_time_kv = [], notified = []\<rparr>"

definition output_key :: "WatchedOutput \<Rightarrow> bytes \<times> bytes \<times> int option" where
  "output_key w = (wo_bid_id w, wo_txid w, wo_vout w)"

definition transaction_key :: "WatchedTransaction \<Rightarrow> bytes \<times> bytes" where
  "transaction_key w = (wt_bid_id w, wt_txid w)"

definition script_key :: "WatchedScript \<Rightarrow> bytes \<times> TxTypes \<times> bytes" where
  "script_key w = (ws_bid_id w, ws_tx_type w, ws_script w)"

text \<open>Watch operations of a node on its outputs, in sequence.\<close>

fun run_watch :: "Coins \<Rightarrow> WatchedOutput watch_op list \<Rightarrow> node \<Rightarrow> node" where
  "run_watch c [] n = n"
| "run_watch c (Watch w # xs) n =
     run_watch c xs (snd (addWatchedOutput c (wo_bid_id w) (wo_txid w) (wo_vout w) (wo_tx_type w) (wo_swap_type w) n))"
| "run_watch c (Unwatch b # xs) n = run_watch c xs (snd (removeWatchedOutput c b None None n))"

section \<open>Facts\<close>

lemma insert_actions:
  "\<exists>as. fold (\<lambda>_ :: nat. insert_action t u ty b) xs rows = rows @ as \<and> (\<forall>a\<in>set as. action_linked_id a = b \<and> action_type a = ActionTypes_val ty)"
proof (induction xs arbitrary: rows)
  case (Cons x xs)
  then obtain as where "fold (\<lambda>_ :: nat. insert_action t u ty b) xs (insert_action t u ty b rows) = insert_action t u ty b rows @ as"
      "\<forall>a\<in>set as. action_linked_id a = b \<and> action_type a = ActionTypes_val ty"
    by blast
  moreover obtain a where "insert_action t u ty b rows = rows @ [a]" "action_linked_id a = b" "action_type a = ActionTypes_val ty"
    by (simp add: insert_action_def)
  ultimately show ?case
    by (intro exI [of _ "a # as"]) simp
qed simp

lemma fold_actions:
  "fold (\<lambda>_ n. n\<lparr>actions := f (actions n)\<rparr>) xs n = n\<lparr>actions := fold (\<lambda>_. f) xs (actions n)\<rparr>"
  by (induction xs arbitrary: n) simp_all

lemma createAction_run:
  "\<exists>as. createAction t k d ty b n = (Inr (), n\<lparr>actions := actions n @ as\<rparr>) \<and> (\<forall>a\<in>set as. action_linked_id a = b \<and> action_type a = ActionTypes_val ty)
     \<and> (\<exists>a\<in>set as. action_active_ind a = 1 \<and> action_type a = ActionTypes_val ty \<and> action_trigger_at a = t + d)"
proof -
  obtain as where as: "fold (\<lambda>_ :: nat. insert_action t (t + d + 3) ty b) [0..<k] (insert_action t (t + d) ty b (actions n))
      = insert_action t (t + d) ty b (actions n) @ as" "\<forall>a\<in>set as. action_linked_id a = b \<and> action_type a = ActionTypes_val ty"
    using insert_actions by blast
  have "createAction t k d ty b n = (Inr (), n\<lparr>actions := insert_action t (t + d) ty b (actions n) @ as\<rparr>)"
    using as(1) by (simp add: createAction_def pseq_eval(1) [OF py_eval(4)] pfor_pmod fold_actions)
  then show ?thesis
    using as(2) by (intro exI [of _ "drop (length (actions n)) (insert_action t (t + d) ty b (actions n)) @ as"]) (simp add: insert_action_def)
qed

lemma saveBid_run [py_simps]:
  "saveBid b n = (Inr (), n\<lparr>bid_rows := (bid_rows n)(b \<mapsto> saved_row (bid_rows n b) (bids n b))\<rparr>)"
  by (simp add: saveBid_def saveBidInSession_def py_simps)

lemma saved_row_simps [simp]:
  "state (saved_row r bid) = state bid" "states (saved_row r bid) = states bid" "state_time (saved_row r bid) = state_time bid"
  "recovered_secret (saved_row r bid) = recovered_secret bid"
  "participate_tx bid = Some tx \<Longrightarrow> participate_tx (saved_row r bid) = Some tx"
  "initiate_tx bid = Some tx \<Longrightarrow> initiate_tx (saved_row r bid) = Some tx"
  by (simp_all add: saved_row_def or_else_def split: option.split)


locale watch_list =
  fixes owner :: "'w \<Rightarrow> bytes"
    and key :: "'w \<Rightarrow> 'k"
    and add :: "'w \<Rightarrow> 'w list \<Rightarrow> 'w list"
    and remove :: "bytes \<Rightarrow> 'w list \<Rightarrow> 'w list"
  assumes owner_of_key: "key v = key w \<Longrightarrow> owner v = owner w"
    and add_set: "set (add w ws) = (if key w \<in> key ` set ws then set ws else insert w (set ws))"
    and add_distinct: "distinct (map key ws) \<Longrightarrow> distinct (map key (add w ws))"
    and remove_set: "set (remove b ws) = {w \<in> set ws. owner w \<noteq> b}"
    and remove_distinct: "distinct (map key ws) \<Longrightarrow> distinct (map key (remove b ws))"
begin

definition apply_op :: "'w watch_op \<Rightarrow> 'w list \<Rightarrow> 'w list" where
  "apply_op x ws = (case x of Watch w \<Rightarrow> add w ws | Unwatch b \<Rightarrow> remove b ws)"

lemma run_distinct: "distinct (map key ws) \<Longrightarrow> distinct (map key (fold apply_op xs ws))"
  by (induction xs arbitrary: ws) (auto simp: apply_op_def add_distinct remove_distinct split: watch_op.splits)

lemma add_watched: "key w \<in> key ` set (add w ws)"
  by (simp add: add_set)

lemma op_keeps: "k \<in> key ` {v \<in> set ws. owner v = b} \<Longrightarrow> x \<noteq> Unwatch b \<Longrightarrow> k \<in> key ` {v \<in> set (apply_op x ws). owner v = b}"
  by (auto simp: apply_op_def add_set remove_set split: watch_op.splits)

lemma run_keeps:
  "k \<in> key ` {v \<in> set ws. owner v = b} \<Longrightarrow> Unwatch b \<notin> set xs \<Longrightarrow> k \<in> key ` {v \<in> set (fold apply_op xs ws). owner v = b}"
  by (induction xs arbitrary: ws) (auto simp: op_keeps)

lemma watched_until_removed:
  assumes "Unwatch (owner w) \<notin> set ys"
  shows "key w \<in> key ` set (fold apply_op (xs @ Watch w # ys) ws)"
proof -
  let ?a = "fold apply_op xs ws"
  obtain v where "v \<in> set (add w ?a)" "key v = key w"
    using add_watched [of w ?a] by (metis imageE)
  then have "key w \<in> key ` {v \<in> set (add w ?a). owner v = owner w}"
    using owner_of_key [of v w] by (intro image_eqI [of _ _ v]) simp_all
  then have "key w \<in> key ` {v \<in> set (fold apply_op ys (add w ?a)). owner v = owner w}"
    using assms by (rule run_keeps)
  then show ?thesis
    by (auto simp: apply_op_def)
qed

lemma op_avoids:
  "\<forall>v\<in>set ws. owner v \<noteq> b \<Longrightarrow> \<forall>v. x = Watch v \<longrightarrow> owner v \<noteq> b \<Longrightarrow> \<forall>v\<in>set (apply_op x ws). owner v \<noteq> b"
  by (auto simp: apply_op_def add_set remove_set split: watch_op.splits if_splits)

lemma run_avoids:
  "\<forall>v\<in>set ws. owner v \<noteq> b \<Longrightarrow> \<forall>v. Watch v \<in> set ys \<longrightarrow> owner v \<noteq> b \<Longrightarrow> \<forall>v\<in>set (fold apply_op ys ws). owner v \<noteq> b"
proof (induction ys arbitrary: ws)
  case (Cons y ys)
  have "\<forall>v\<in>set (apply_op y ws). owner v \<noteq> b"
    using Cons.prems by (intro op_avoids) auto
  with Cons show ?case
    by simp
qed simp

lemma not_watched_after_removal:
  assumes "\<forall>w. Watch w \<in> set ys \<longrightarrow> owner w \<noteq> b"
  shows "w \<in> set (fold apply_op (xs @ Unwatch b # ys) ws) \<Longrightarrow> owner w \<noteq> b"
  using run_avoids [OF _ assms, of "remove b (fold apply_op xs ws)"] by (auto simp: apply_op_def remove_set)

end

lemma delete_from_end_eq: "i \<le> length xs \<Longrightarrow> delete_from_end p i xs = filter (Not \<circ> p) (take i xs) @ drop i xs"
proof (induction p i xs rule: delete_from_end.induct)
  case (2 p i xs)
  let ?ys = "if p (xs ! i) then take i xs @ drop (Suc i) xs else xs"
  have "drop i xs = xs ! i # drop (Suc i) xs" "take (Suc i) xs = take i xs @ [xs ! i]"
    using 2(2) by (simp_all add: Cons_nth_drop_Suc take_Suc_conv_app_nth)
  moreover have "i \<le> length ?ys" "take i ?ys = take i xs"
    using 2(2) by auto
  moreover have "min (length xs) i = i"
    using 2(2) by simp
  ultimately show ?case
    using 2(1) by simp
qed simp

lemma delete_from_end_filter: "delete_from_end p (length xs) xs = filter (Not \<circ> p) xs"
  by (simp add: delete_from_end_eq)

lemma output_watched:
  "list_ex (\<lambda>wo. wo_bid_id wo = wo_bid_id w \<and> wo_txid wo = wo_txid w \<and> wo_vout wo = wo_vout w) ws \<longleftrightarrow> output_key w \<in> output_key ` set ws"
  by (auto simp: list_ex_iff output_key_def image_iff eq_commute)

lemma transaction_watched:
  "list_ex (\<lambda>wt. wt_bid_id wt = wt_bid_id w \<and> wt_txid wt = wt_txid w) ws \<longleftrightarrow> transaction_key w \<in> transaction_key ` set ws"
  by (auto simp: list_ex_iff transaction_key_def image_iff eq_commute)

lemma script_watched:
  "list_ex (\<lambda>ws. ws_bid_id ws = ws_bid_id w \<and> ws_tx_type ws = ws_tx_type w \<and> ws_script ws = ws_script w) ss \<longleftrightarrow> script_key w \<in> script_key ` set ss"
  by (auto simp: list_ex_iff script_key_def image_iff eq_commute)

interpretation wouts: watch_list wo_bid_id output_key add_output
  "\<lambda>b ws. delete_from_end (output_matches b None None) (length ws) ws"
  by unfold_locales (auto simp: add_output_def output_watched delete_from_end_filter output_matches_def distinct_map_filter, simp add: output_key_def)

interpretation wtxns: watch_list wt_bid_id transaction_key add_transaction
  "\<lambda>b ws. delete_from_end (transaction_matches b None) (length ws) ws"
  by unfold_locales (auto simp: add_transaction_def transaction_watched delete_from_end_filter transaction_matches_def distinct_map_filter, simp add: transaction_key_def)

interpretation wscripts: watch_list ws_bid_id script_key add_script
  "\<lambda>b ws. delete_from_end (script_matches b None None) (length ws) ws"
  by unfold_locales (auto simp: add_script_def script_watched delete_from_end_filter script_matches_def distinct_map_filter, simp add: script_key_def)

lemma cc_upd [simp]: "cc (upd_cc c f n) c = f (cc n c)"
  by (simp add: upd_cc_def)

lemma run_watch_list:
  "watched_outputs (cc (run_watch c xs n) c) = fold wouts.apply_op xs (watched_outputs (cc n c))"
proof (induction c xs n rule: run_watch.induct)
  case (2 c w xs n)
  then show ?case
    by (cases w) (simp add: addWatchedOutput_def py_simps wouts.apply_op_def)
qed (simp_all add: removeWatchedOutput_def py_simps wouts.apply_op_def)

text \<open>The watched outputs of a chain, over any sequence of \<open>addWatchedOutput\<close> and of
  \<open>removeWatchedOutput\<close> for all of a bid's outputs: no output is watched twice for a bid; an output
  that was added is watched until its bid's outputs are removed; after they are removed, and until it adds
  one again, the bid has none.\<close>

theorem watched_outputs_history:
  assumes "distinct (map output_key (watched_outputs (cc n c)))"
  shows "distinct (map output_key (watched_outputs (cc (run_watch c xs n) c)))
    \<and> (Unwatch (wo_bid_id w) \<notin> set ys \<longrightarrow>
        output_key w \<in> output_key ` set (watched_outputs (cc (run_watch c (xs @ Watch w # ys) n) c)))
    \<and> ((\<forall>v. Watch v \<in> set ys \<longrightarrow> wo_bid_id v \<noteq> b) \<longrightarrow>
        (\<forall>v\<in>set (watched_outputs (cc (run_watch c (xs @ Unwatch b # ys) n) c)). wo_bid_id v \<noteq> b))"
  unfolding run_watch_list
  using wouts.run_distinct [OF assms] wouts.watched_until_removed wouts.not_watched_after_removal by blast

theorem watched_outputs_history_witness:
  "\<exists>n. distinct (map output_key (watched_outputs (cc n BTC))) \<and>
    output_key \<lparr>wo_bid_id = [1], wo_txid = [2], wo_vout = Some 0, wo_tx_type = 6, wo_swap_type = None\<rparr>
      \<in> output_key ` set (watched_outputs (cc (run_watch BTC
         ([] @ Watch \<lparr>wo_bid_id = [1], wo_txid = [2], wo_vout = Some 0, wo_tx_type = 6, wo_swap_type = None\<rparr> # [Unwatch [7]]) n) BTC))"
proof -
  let ?n = blank_node
  have d: "distinct (map output_key (watched_outputs (cc ?n BTC)))"
    by (simp add: blank_node_def blank_client_def)
  show ?thesis
    by (rule exI [of _ ?n], intro conjI d, rule watched_outputs_history [OF d, THEN conjunct2, THEN conjunct1, rule_format]) simp
qed

text \<open>After \<open>setLastHeightCheckedStart\<close> the chain is checked from no later than the height it
  returns, which is the given one or, when that is not positive, the chain's height; while anything is
  watched on the chain it never moves the start forward, and it changes no watch list.\<close>

theorem setLastHeightCheckedStart_covers:
  assumes "setLastHeightCheckedStart height header c tx_height n = (Inr h, n')"
  shows "last_height_checked (cc n' c) \<le> h
    \<and> (if tx_height < 1 then height = Inr h else h = tx_height)
    \<and> (watched_outputs (cc n c) \<noteq> [] \<longrightarrow> last_height_checked (cc n' c) \<le> last_height_checked (cc n c))
    \<and> (\<forall>d. watched_outputs (cc n' d) = watched_outputs (cc n d)
         \<and> watched_scripts (cc n' d) = watched_scripts (cc n d)
         \<and> watched_transactions (cc n' d) = watched_transactions (cc n d))"
proof -
  obtain hd where h: "(if tx_height < 1 then height = Inr h else h = tx_height)" "header h = Inr hd"
    and n': "n' = (let c' = cc n c; m = (upd_cc c (\<lambda>c. c\<lparr>last_height_checked := h, block_check_min_time := bh_time hd\<rparr>) n)
          \<lparr>min_time_kv := (c, bh_time hd) # min_time_kv n\<rparr>
        in if watched_outputs c' = [] \<and> watched_transactions c' = [] \<and> watched_scripts c' = [] then m
           else if last_height_checked c' > h then m else n)"
    using assms
    by (auto simp: setLastHeightCheckedStart_def pbind_def pseq_def py_simps Let_def split: sum.splits if_splits)
  show ?thesis
    using h by (auto simp: n' Let_def upd_cc_def)
qed

theorem setLastHeightCheckedStart_covers_witness:
  "last_height_checked (cc (snd (setLastHeightCheckedStart (Inr 900) (\<lambda>h. Inr \<lparr>bh_hash = [], bh_height = h, bh_time = 5\<rparr>) BTC 800 blank_node)) BTC) \<le> 800"
proof -
  have "setLastHeightCheckedStart (Inr 900) (\<lambda>h. Inr \<lparr>bh_hash = [], bh_height = h, bh_time = 5\<rparr>) BTC 800 blank_node
    = (Inr 800, snd (setLastHeightCheckedStart (Inr 900) (\<lambda>h. Inr \<lparr>bh_hash = [], bh_height = h, bh_time = 5\<rparr>) BTC 800 blank_node))"
    by (simp add: setLastHeightCheckedStart_def pbind_def pseq_def py_simps Let_def blank_node_def blank_client_def)
  from setLastHeightCheckedStart_covers [OF this] show ?thesis
    by blast
qed

end
