(* ===== verification/Codec.thy ===== *)
theory Codec
  imports Prelude
begin

text \<open>
  Integer encodings: \<open>src/basicswap/util/integer.py\<close> (variable length integers of the message
  format and Bitcoin's compact sizes), the script number functions of
  \<open>src/basicswap/util/__init__.py\<close> (\<open>SerialiseNum\<close>, \<open>DeserialiseNum\<close>, \<open>b2i\<close>, \<open>i2b\<close>) and
  \<open>src/basicswap/util/script.py\<close> (\<open>decodeScriptNum\<close>, \<open>decodePushData\<close>, compact size lengths).

  The interface \<open>prefix_codec\<close> states what the clients of such an encoding rely on: decoding at
  the place where an encoding starts returns the value and the number of bytes it took, whatever
  follows. It is interpreted for \<open>encode_varint\<close>/\<open>decode_varint\<close> and for
  \<open>encode_compactsize\<close>/\<open>decode_compactsize\<close>.
\<close>

section \<open>Definitions\<close>

subsection \<open>Variable length integers\<close>

function decode_varint_from :: "bytes \<Rightarrow> nat \<Rightarrow> int \<Rightarrow> nat \<Rightarrow> (int \<times> nat) res" where
  "decode_varint_from b offset i num_bytes =
     (case bget b (offset + num_bytes) of
        Inl e \<Rightarrow> Inl e
      | Inr c \<Rightarrow>
          let i' = i + push_bit (num_bytes * 7) (c AND 0x7F);
              num_bytes' = num_bytes + 1
          in if c AND 0x80 = 0 then Inr (i', num_bytes')
             else if num_bytes' > 8 then Inl (ValueError ''Too many bytes'')
             else decode_varint_from b offset i' num_bytes')"
  by pat_completeness auto
termination
  by (relation "measure (\<lambda>(b, offset, i, num_bytes). 9 - num_bytes)") auto

definition decode_varint :: "bytes \<Rightarrow> nat \<Rightarrow> (int \<times> nat) res" where
  "decode_varint b offset = decode_varint_from b offset 0 0"

function encode_varint :: "int \<Rightarrow> bytes res" where
  "encode_varint i =
     (if i > 0x7F
      then rbind (encode_varint (drop_bit 7 i)) (\<lambda>bs. Inr (word_of_int ((i AND 0x7F) OR 0x80) # bs))
      else rbind (mk_byte i) (\<lambda>c. Inr [c]))"
  by pat_completeness auto
termination
  by (relation "measure nat") (auto simp: drop_bit_eq_div)

subsection \<open>Compact sizes\<close>

definition decode_compactsize :: "bytes \<Rightarrow> nat \<Rightarrow> (int \<times> nat) res" where
  "decode_compactsize b offset =
     rbind (bget b offset) (\<lambda>i.
       if i < 0xFD then Inr (i, 1)
       else let offset = offset + 1 in
         if i = 0xFD then Inr (from_le (bslice b offset (offset + 2)), 3)
         else if i = 0xFE then Inr (from_le (bslice b offset (offset + 4)), 5)
         else Inr (from_le (bslice b offset (offset + 8)), 9))"

definition encode_compactsize :: "int \<Rightarrow> bytes res" where
  "encode_compactsize i =
     (if i < 0xFD then rbind (mk_byte i) (\<lambda>c. Inr [c])
      else if i \<le> 0xFFFF then rbind (to_bytes_le 2 i) (\<lambda>t. Inr (0xFD # t))
      else if i \<le> 0xFFFFFFFF then rbind (to_bytes_le 4 i) (\<lambda>t. Inr (0xFE # t))
      else rbind (to_bytes_le 8 i) (\<lambda>t. Inr (0xFF # t)))"

definition SerialiseNumCompact :: "int \<Rightarrow> bytes res" where
  "SerialiseNumCompact v =
     (if v < 253 then rbind (mk_byte v) (\<lambda>c. Inr [c])
      else if v \<le> 0xFFFF then Inr (253 # le_bytes 2 v)
      else if v \<le> 0xFFFFFFFF then Inr (254 # le_bytes 4 v)
      else if v \<le> 0xFFFFFFFFFFFFFFFF then Inr (255 # le_bytes 8 v)
      else Inl (ValueError ''Value too large''))"

definition getCompactSizeLen :: "int \<Rightarrow> int res" where
  "getCompactSizeLen v =
     (if v < 253 then Inr 1
      else if v \<le> 0xFFFF then Inr 3
      else if v \<le> 0xFFFFFFFF then Inr 5
      else if v \<le> 0xFFFFFFFFFFFFFFFF then Inr 9
      else Inl (ValueError ''Value too large''))"

definition getWitnessElementLen :: "int \<Rightarrow> int res" where
  "getWitnessElementLen v = rbind (getCompactSizeLen v) (\<lambda>l. Inr (l + v))"

subsection \<open>Script numbers\<close>

text \<open>The loop of \<open>SerialiseNum\<close> over the magnitude, which is never negative.\<close>

function abs_bytes :: "int \<Rightarrow> bytes" where
  "abs_bytes absvalue =
     (if absvalue \<le> 0 then [] else word_of_int (absvalue AND 0xFF) # abs_bytes (drop_bit 8 absvalue))"
  by pat_completeness auto
termination
  by (relation "measure nat") (auto simp: drop_bit_eq_div)

definition scriptnum_body :: "int \<Rightarrow> bytes" where
  "scriptnum_body n =
     (let neg = (n < 0);
          absvalue = (if neg then - n else n);
          rv = abs_bytes absvalue
      in if uint (last rv) AND 0x80 \<noteq> 0 then rv @ [if neg then 0x80 else 0]
         else if neg then butlast rv @ [last rv OR 0x80]
         else rv)"

definition SerialiseNum :: "int \<Rightarrow> bytes res" where
  "SerialiseNum n =
     (if n = 0 then Inr [0]
      else if n > 0 \<and> n \<le> 16 then rbind (mk_byte (0x50 + n)) (\<lambda>c. Inr [c])
      else let rv = scriptnum_body n
           in rbind (mk_byte (int (length rv))) (\<lambda>c. Inr (c # rv)))"

primrec DeserialiseNum_loop :: "bytes \<Rightarrow> nat \<Rightarrow> nat \<Rightarrow> int res" where
  "DeserialiseNum_loop b off 0 = Inr 0"
| "DeserialiseNum_loop b off (Suc i) =
     rbind (DeserialiseNum_loop b off i) (\<lambda>v.
       rbind (bget b (off + i)) (\<lambda>c. Inr (v OR push_bit (8 * i) c)))"

definition DeserialiseNum :: "bytes \<Rightarrow> nat \<Rightarrow> int res" where
  "DeserialiseNum b off =
     rbind (bget b off) (\<lambda>c.
       if c = 0 then Inr 0
       else if c > 0x50 \<and> c \<le> 0x50 + 16 then Inr (c - 0x50)
       else let nb = nat c; off = off + 1 in
         rbind (DeserialiseNum_loop b off nb) (\<lambda>v.
           rbind (bget b (off + nb - 1)) (\<lambda>top.
             if top AND 0x80 \<noteq> 0
             then Inr (- (v AND NOT (push_bit (8 * (nb - 1)) 0x80)))
             else Inr v)))"

primrec decodeScriptNum_loop :: "bytes \<Rightarrow> nat \<Rightarrow> nat \<Rightarrow> nat \<Rightarrow> int res" where
  "decodeScriptNum_loop script_bytes off num_len 0 = Inr 0"
| "decodeScriptNum_loop script_bytes off num_len (Suc i) =
     rbind (decodeScriptNum_loop script_bytes off num_len i) (\<lambda>v.
       rbind (bget script_bytes (off + i)) (\<lambda>b.
         if i = num_len - 1 \<and> b AND 0x80 \<noteq> 0
         then Inr ((v + push_bit (8 * i) (b AND 0x7F)) * -1)
         else Inr (v + push_bit (8 * i) b)))"

definition decodeScriptNum :: "bytes \<Rightarrow> nat \<Rightarrow> (int \<times> nat) res" where
  "decodeScriptNum script_bytes off =
     rbind (bget script_bytes off) (\<lambda>num_len.
       if num_len \<ge> 0x51 \<and> num_len \<le> 0x60 then Inr ((num_len - 0x51) + 1, 1)
       else if num_len > 4 then Inl (ValueError ''Bad scriptnum length'')
       else if num_len + int off \<ge> int (length script_bytes)
       then Inl (ValueError ''Bad script length'')
       else rbind (decodeScriptNum_loop script_bytes (off + 1) (nat num_len) (nat num_len)) (\<lambda>v.
              Inr (v, 1 + nat num_len)))"

text \<open>What both decoders compute: the number a sign-magnitude byte string stands for.\<close>

definition scriptnum_value :: "bytes \<Rightarrow> int" where
  "scriptnum_value rv =
     (if uint (last rv) < 128 then from_le rv
      else - (from_le (butlast rv) + 256 ^ (length rv - 1) * (uint (last rv) - 128)))"

subsection \<open>Pushed data\<close>

definition decodePushData :: "bytes \<Rightarrow> nat \<Rightarrow> (bytes \<times> nat) res" where
  "decodePushData script_bytes off =
     rbind (bget script_bytes off) (\<lambda>opcode.
       let i = off + 1;
           finish = (\<lambda>i datasize.
             let data = bslice script_bytes i (i + datasize)
             in if length data < datasize then Inl (OtherError ''truncated data'')
                else Inr (data, i + datasize - off))
       in if opcode < 0x4C then finish i (nat opcode)
          else if opcode = 0x4C then
            (if i \<ge> length script_bytes then Inl (OtherError ''PUSHDATA1: missing data length'')
             else rbind (bget script_bytes i) (\<lambda>d. finish (i + 1) (nat d)))
          else if opcode = 0x4D then
            (if i + 1 \<ge> length script_bytes then Inl (OtherError ''PUSHDATA2: missing data length'')
             else rbind (bget script_bytes i) (\<lambda>d0.
                  rbind (bget script_bytes (i + 1)) (\<lambda>d1.
                    finish (i + 2) (nat (d0 + push_bit 8 d1)))))
          else if opcode = 0x4E then
            (if i + 3 \<ge> length script_bytes then Inl (OtherError ''PUSHDATA4: missing data length'')
             else rbind (bget script_bytes i) (\<lambda>d0.
                  rbind (bget script_bytes (i + 1)) (\<lambda>d1.
                  rbind (bget script_bytes (i + 2)) (\<lambda>d2.
                  rbind (bget script_bytes (i + 3)) (\<lambda>d3.
                    finish (i + 4)
                      (nat (d0 + push_bit 8 d1 + push_bit 16 d2 + push_bit 24 d3)))))))
          else Inl AssertionError)"

subsection \<open>Fixed width conversions\<close>

definition b2i :: "bytes \<Rightarrow> int" where
  "b2i b = from_be b"

definition i2b :: "int \<Rightarrow> bytes res" where
  "i2b i = to_bytes_be 32 i"

section \<open>The codec interface\<close>

locale prefix_codec =
  fixes enc :: "'a \<Rightarrow> bytes res"
    and dec :: "bytes \<Rightarrow> nat \<Rightarrow> ('a \<times> nat) res"
    and ok :: "'a \<Rightarrow> bool"
  assumes enc_total: "ok x \<Longrightarrow> \<exists>b. enc x = Inr b"
    and dec_enc: "ok x \<Longrightarrow> enc x = Inr b \<Longrightarrow> dec (p @ b @ s) (length p) = Inr (x, length b)"
begin

lemma enc_nonempty:
  assumes "ok x" and "enc x = Inr b" and "dec [] 0 = Inl e"
  shows "b \<noteq> []"
  using dec_enc [OF assms(1,2), of "[]" "[]"] assms(3) by auto

lemma enc_prefix_free:
  assumes "ok x" and "ok y" and "enc x = Inr b" and "enc y = Inr (b @ s)"
  shows "x = y \<and> s = []"
proof -
  have "dec (b @ s) 0 = Inr (x, length b)"
    using dec_enc [OF assms(1,3), of "[]" s] by simp
  moreover have "dec (b @ s) 0 = Inr (y, length (b @ s))"
    using dec_enc [OF assms(2,4), of "[]" "[]"] by simp
  ultimately show ?thesis
    by simp
qed

lemma enc_inject: "ok x \<Longrightarrow> ok y \<Longrightarrow> enc x = enc y \<Longrightarrow> x = y"
  using enc_total [of x] enc_prefix_free [of x y _ "[]"] by auto

end

section \<open>Facts about the encodings\<close>

subsection \<open>Variable length integers\<close>

declare decode_varint_from.simps [simp del] encode_varint.simps [simp del] abs_bytes.simps [simp del]

lemma encode_varint_small: "0 \<le> i \<Longrightarrow> i \<le> 127 \<Longrightarrow> encode_varint i = Inr [word_of_int i]"
  by (subst encode_varint.simps) simp

lemma encode_varint_step:
  "i > 127 \<Longrightarrow> encode_varint i =
     rbind (encode_varint (i div 128)) (\<lambda>bs. Inr (word_of_int (i mod 128 + 128) # bs))"
  by (subst encode_varint.simps) (simp add: drop_bit_eq_div int_and_127 int_or_128)

lemma encode_varint_total: "0 \<le> i \<Longrightarrow> \<exists>b. encode_varint i = Inr b \<and> b \<noteq> []"
proof (induction i rule: encode_varint.induct)
  case (1 i)
  show ?case
  proof (cases "i > 127")
    case True
    then have "0 \<le> i div 128" by linarith
    with True "1.IH" obtain b where "encode_varint (i div 128) = Inr b"
      by (auto simp: drop_bit_eq_div)
    with True show ?thesis by (simp add: encode_varint_step)
  next
    case False
    with "1.prems" show ?thesis by (simp add: encode_varint_small)
  qed
qed

lemma encode_varint_neg: "i < 0 \<Longrightarrow> \<exists>s. encode_varint i = Inl (ValueError s)"
  by (subst encode_varint.simps) (simp add: mk_byte_def)

lemma encode_varint_length:
  "0 \<le> i \<Longrightarrow> encode_varint i = Inr b \<Longrightarrow> length b \<le> Suc k \<longleftrightarrow> i < 128 ^ Suc k"
proof (induction i arbitrary: b k rule: encode_varint.induct)
  case (1 i)
  show ?case
  proof (cases "i > 127")
    case True
    with "1.prems" obtain c b' where b': "encode_varint (i div 128) = Inr b'" "b = c # b'"
      by (auto simp: encode_varint_step)
    from True encode_varint_total [of "i div 128"] b' have ne: "b' \<noteq> []" by auto
    have div128: "i div 128 < m \<longleftrightarrow> i < 128 * m" for m by linarith
    show ?thesis
    proof (cases k)
      case 0
      with True b' ne show ?thesis by simp
    next
      case (Suc k')
      have "length b' \<le> Suc k' \<longleftrightarrow> i div 128 < 128 ^ Suc k'"
        using "1.IH" [of b' k'] True b' by (simp add: drop_bit_eq_div)
      also have "\<dots> \<longleftrightarrow> i < 128 * 128 ^ Suc k'"
        by (rule div128)
      finally show ?thesis using b' Suc by simp
    qed
  next
    case False
    have "i < 128 * 128 ^ k"
    proof -
      have "(1::int) \<le> 128 ^ k" by simp
      with False show ?thesis by linarith
    qed
    with False "1.prems" show ?thesis by (auto simp: encode_varint_small)
  qed
qed

lemma decode_varint_from_step:
  "bget b (offset + n) = Inr c \<Longrightarrow> decode_varint_from b offset i n =
     (if c AND 128 = 0 then Inr (i + push_bit (n * 7) (c AND 127), n + 1)
      else if n + 1 > 8 then Inl (ValueError ''Too many bytes'')
      else decode_varint_from b offset (i + push_bit (n * 7) (c AND 127)) (n + 1))"
  by (subst decode_varint_from.simps) (simp add: Let_def)

lemma decode_varint_from_encode:
  assumes "0 \<le> i" and "encode_varint i = Inr b" and "length pre \<le> 8"
  shows "decode_varint_from (p @ pre @ b @ s) (length p) acc (length pre) =
     (if length pre + length b \<le> 9 then Inr (acc + 128 ^ length pre * i, length pre + length b)
      else Inl (ValueError ''Too many bytes''))"
  using assms
proof (induction i arbitrary: b pre acc rule: encode_varint.induct)
  case (1 i)
  have pow: "(2::int) ^ (length pre * 7) = 128 ^ length pre"
    by (simp add: power_mult mult.commute [of _ 7])
  show ?case
  proof (cases "i > 127")
    case False
    with "1.prems" have b: "b = [word_of_int i]" by (simp add: encode_varint_small)
    have u: "uint (word_of_int i :: byte) = i" using False "1.prems" by (simp add: byte_simps)
    have hb: "i AND 128 = 0" using False "1.prems" byte_high_bit [of "word_of_int i"] u by simp
    have get: "bget (p @ pre @ b @ s) (length p + length pre) = Inr i"
      using b u by (simp add: bget_def nth_append)
    show ?thesis
      unfolding decode_varint_from_step [OF get]
      using b False "1.prems" hb pow by (simp add: int_and_127 push_bit_eq_mult mult.commute)
  next
    case True
    then obtain b' where b': "encode_varint (i div 128) = Inr b'"
        and b: "b = word_of_int (i mod 128 + 128) # b'"
      using "1.prems" by (auto simp: encode_varint_step)
    let ?c = "word_of_int (i mod 128 + 128) :: byte"
    have u: "uint ?c = i mod 128 + 128" by (simp only: uint_word_of_int_byte) simp
    have hb: "(i mod 128 + 128) AND 128 \<noteq> 0" using byte_high_bit [of ?c] u by simp
    have ne: "b' \<noteq> []" using encode_varint_total [of "i div 128"] b' True by auto
    have get: "bget (p @ pre @ b @ s) (length p + length pre) = Inr (uint ?c)"
      using b by (simp add: bget_def nth_append)
    show ?thesis
    proof (cases "length pre = 8")
      case True
      show ?thesis
        unfolding decode_varint_from_step [OF get] u using hb True ne b by simp
    next
      case False
      have split: "acc + 128 ^ length pre * (i mod 128) + 128 ^ (length pre + 1) * (i div 128)
          = acc + 128 ^ length pre * i"
      proof -
        have "i = i mod 128 + 128 * (i div 128)" by simp
        then have "128 ^ length pre * i = 128 ^ length pre * (i mod 128 + 128 * (i div 128))" by metis
        then show ?thesis by (simp only: distrib_left power_add power_one_right mult.assoc add.assoc)
      qed
      have IH: "decode_varint_from (p @ (pre @ [?c]) @ b' @ s) (length p) acc' (length (pre @ [?c])) =
          (if length (pre @ [?c]) + length b' \<le> 9
           then Inr (acc' + 128 ^ length (pre @ [?c]) * (i div 128), length (pre @ [?c]) + length b')
           else Inl (ValueError ''Too many bytes''))" for acc'
        using "1.IH" [of b' "pre @ [?c]" acc'] \<open>i > 127\<close> b' False "1.prems" by (simp add: drop_bit_eq_div)
      have m: "(i mod 128 + 128) mod 128 = i mod 128" by simp
      have "decode_varint_from (p @ pre @ b @ s) (length p) acc (length pre) =
          decode_varint_from (p @ pre @ b @ s) (length p) (acc + 128 ^ length pre * (i mod 128)) (length pre + 1)"
        unfolding decode_varint_from_step [OF get] u
        using hb False "1.prems" by (simp add: int_and_127 m push_bit_eq_mult pow mult.commute)
      also have "\<dots> = (if length pre + length b \<le> 9
          then Inr (acc + 128 ^ length pre * (i mod 128) + 128 ^ (length pre + 1) * (i div 128), length pre + length b)
          else Inl (ValueError ''Too many bytes''))"
        using IH [of "acc + 128 ^ length pre * (i mod 128)"] b by simp
      finally show ?thesis by (simp only: split)
    qed
  qed
qed

lemma decode_encode_varint:
  assumes "0 \<le> i" and "encode_varint i = Inr b"
  shows "decode_varint (p @ b @ s) (length p) =
     (if i < 2 ^ 63 then Inr (i, length b) else Inl (ValueError ''Too many bytes''))"
  using decode_varint_from_encode [OF assms, of "[]" p s 0] encode_varint_length [OF assms, of 8]
  by (simp add: decode_varint_def)

subsection \<open>Compact sizes\<close>

lemma encode_compactsize_ok:
  assumes "0 \<le> i" and "i < 2 ^ 64"
  shows "encode_compactsize i =
    Inr (if i < 0xFD then [word_of_int i] else if i \<le> 0xFFFF then 0xFD # le_bytes 2 i
         else if i \<le> 0xFFFFFFFF then 0xFE # le_bytes 4 i else 0xFF # le_bytes 8 i)"
  using assms by (auto simp: encode_compactsize_def to_bytes_le_def)

lemma decode_encode_compactsize:
  assumes i: "0 \<le> i" "i < 2 ^ 64" and e: "encode_compactsize i = Inr b"
  shows "decode_compactsize (p @ b @ s) (length p) = Inr (i, length b)"
  using assms
  by (auto simp: encode_compactsize_ok decode_compactsize_def bslice_def from_le_le_bytes Let_def byte_simps
      split: if_splits)

subsection \<open>Script numbers\<close>

lemma abs_bytes_0 [simp]: "v \<le> 0 \<Longrightarrow> abs_bytes v = []"
  by (subst abs_bytes.simps) simp

lemma abs_bytes_step: "v > 0 \<Longrightarrow> abs_bytes v = word_of_int (v mod 256) # abs_bytes (v div 256)"
  by (subst abs_bytes.simps) (simp add: int_and_255 drop_bit_eq_div)

lemma from_le_abs_bytes: "0 \<le> v \<Longrightarrow> from_le (abs_bytes v) = v"
proof (induction v rule: abs_bytes.induct)
  case (1 v)
  show ?case
  proof (cases "v = 0")
    case False
    with "1.prems" have "0 \<le> v div 256" by linarith
    with False 1 have "from_le (abs_bytes (v div 256)) = v div 256"
      by (simp add: drop_bit_eq_div)
    with False "1.prems" show ?thesis
      by (simp add: abs_bytes_step byte_simps)
  qed simp
qed

lemma abs_bytes_ne [simp]: "v > 0 \<Longrightarrow> abs_bytes v \<noteq> []"
  by (simp add: abs_bytes_step)

lemma abs_bytes_length: "0 \<le> v \<Longrightarrow> length (abs_bytes v) \<le> k \<longleftrightarrow> v < 256 ^ k"
proof (induction v arbitrary: k rule: abs_bytes.induct)
  case (1 v)
  show ?case
  proof (cases "v = 0")
    case False
    with "1.prems" have v: "v > 0" "0 \<le> v div 256" by linarith+
    have d: "v div 256 < m \<longleftrightarrow> v < 256 * m" for m by linarith
    show ?thesis
    proof (cases k)
      case 0
      with v show ?thesis by simp
    next
      case (Suc k')
      have "length (abs_bytes (v div 256)) \<le> k' \<longleftrightarrow> v div 256 < 256 ^ k'"
        using "1.IH" [of k'] v by (simp add: drop_bit_eq_div)
      then show ?thesis using v Suc d by (simp add: abs_bytes_step)
    qed
  qed simp
qed

lemma from_le_snoc: "from_le (xs @ [x]) = from_le xs + 256 ^ length xs * uint x"
  by (simp add: from_le_append)

lemma uint_or_128: "uint (b::byte) < 128 \<Longrightarrow> uint (b OR 128) = uint b + 128"
proof -
  assume "uint b < 128"
  moreover have "0 \<le> uint b" by simp
  ultimately have "uint b mod 128 = uint b" by simp
  then have "uint b OR 128 = uint b + 128" using int_or_128 [of "uint b"] by simp
  then show ?thesis by (simp add: uint_or)
qed

lemma scriptnum_body_ne: "n \<noteq> 0 \<Longrightarrow> scriptnum_body n \<noteq> []"
  by (auto simp: scriptnum_body_def Let_def)

lemma scriptnum_value_body: "n \<noteq> 0 \<Longrightarrow> scriptnum_value (scriptnum_body n) = n"
proof -
  assume n: "n \<noteq> 0"
  let ?rv = "abs_bytes \<bar>n\<bar>"
  have rv: "from_le ?rv = \<bar>n\<bar>" "?rv \<noteq> []"
    using n by (simp_all add: from_le_abs_bytes)
  have split: "from_le ?rv = from_le (butlast ?rv) + 256 ^ (length ?rv - 1) * uint (last ?rv)"
    using from_le_snoc [of "butlast ?rv" "last ?rv"] rv(2) by simp
  have a: "(if n < 0 then - n else n) = \<bar>n\<bar>" by simp
  show ?thesis
  proof (cases "uint (last ?rv) < 128")
    case True
    then have nh: "uint (last ?rv) AND 128 = 0" by (simp add: byte_high_bit)
    show ?thesis
    proof (cases "n < 0")
      case True
      have "scriptnum_body n = butlast ?rv @ [last ?rv OR 128]"
        using nh True a by (simp add: scriptnum_body_def Let_def)
      with split rv True show ?thesis
        using uint_or_128 [OF \<open>uint (last ?rv) < 128\<close>] by (simp add: scriptnum_value_def)
    next
      case False
      with nh a have "scriptnum_body n = ?rv"
        by (simp add: scriptnum_body_def Let_def)
      with True rv False show ?thesis by (simp add: scriptnum_value_def)
    qed
  next
    case False
    then have h: "uint (last ?rv) AND 128 \<noteq> 0" by (simp add: byte_high_bit)
    then have "scriptnum_body n = ?rv @ [if n < 0 then 128 else 0]"
      using a by (simp add: scriptnum_body_def Let_def)
    with rv show ?thesis
      by (simp add: scriptnum_value_def from_le_snoc)
  qed
qed

lemma scriptnum_body_length:
  assumes "n \<noteq> 0" and "0 < k"
  shows "length (scriptnum_body n) \<le> k \<longleftrightarrow> \<bar>n\<bar> < 2 ^ (8 * k - 1)"
proof -
  let ?rv = "abs_bytes \<bar>n\<bar>"
  obtain j where k: "k = Suc j" using assms(2) by (cases k) auto
  have pow: "(2::int) ^ (8 * k - 1) = 128 * 256 ^ j"
    using k by (simp add: power_add power_mult)
  have rv: "from_le ?rv = \<bar>n\<bar>" "?rv \<noteq> []"
    using assms by (simp_all add: from_le_abs_bytes)
  have split: "\<bar>n\<bar> = from_le (butlast ?rv) + 256 ^ (length ?rv - 1) * uint (last ?rv)"
    using from_le_snoc [of "butlast ?rv" "last ?rv"] rv by simp
  have lo: "0 \<le> from_le (butlast ?rv)" "from_le (butlast ?rv) < 256 ^ (length ?rv - 1)"
    using from_le_range [of "butlast ?rv"] by simp_all
  have len: "length (scriptnum_body n) = (if uint (last ?rv) < 128 then length ?rv else length ?rv + 1)"
    using rv(2) by (auto simp: scriptnum_body_def Let_def byte_high_bit)
  have ub: "length ?rv \<le> m \<longleftrightarrow> \<bar>n\<bar> < 256 ^ m" for m
    by (rule abs_bytes_length) simp
  show ?thesis
  proof (cases "length ?rv = k")
    case True
    show ?thesis
    proof (cases "uint (last ?rv) < 128")
      case t: True
      have "256 ^ j * uint (last ?rv) \<le> 256 ^ j * (127::int)"
        using t by (intro mult_left_mono) auto
      with split lo have "\<bar>n\<bar> < 128 * 256 ^ j" unfolding True k diff_Suc_1 by linarith
      with t len True pow show ?thesis by simp
    next
      case False
      have "256 ^ j * (128::int) \<le> 256 ^ j * uint (last ?rv)"
        using False by (intro mult_left_mono) auto
      with split lo have "128 * 256 ^ j \<le> \<bar>n\<bar>" unfolding True k diff_Suc_1 by linarith
      with False len True pow show ?thesis by simp
    qed
  next
    case False
    have mono: "(256::int) ^ j \<le> 128 * 256 ^ j" by simp
    show ?thesis
    proof (cases "length ?rv < k")
      case True
      then have "\<bar>n\<bar> < 256 ^ j" using ub [of j] k by simp
      with mono True len pow show ?thesis by auto
    next
      case f: False
      with False have "\<not> length ?rv \<le> k" by simp
      then have "256 ^ k \<le> \<bar>n\<bar>" using ub [of k] by simp
      moreover have "(128::int) * 256 ^ j \<le> 256 ^ k" using k by simp
      ultimately show ?thesis using \<open>\<not> length ?rv \<le> k\<close> len pow by auto
    qed
  qed
qed

lemma SerialiseNum_Inr:
  assumes "SerialiseNum n = Inr b"
  shows "(n = 0 \<and> b = [0]) \<or> (0 < n \<and> n \<le> 16 \<and> b = [word_of_int (80 + n)])
    \<or> (n \<noteq> 0 \<and> \<not> (0 < n \<and> n \<le> 16) \<and> length (scriptnum_body n) < 256
       \<and> b = word_of_int (int (length (scriptnum_body n))) # scriptnum_body n)"
  using assms by (auto simp: SerialiseNum_def Let_def mk_byte_Inr_iff split: if_splits)

lemma decodeScriptNum_loop_prefix:
  assumes "i < num_len" and "length body = num_len"
  shows "decodeScriptNum_loop (p @ body @ s) (length p) num_len i = Inr (from_le (take i body))"
  using assms
proof (induction i)
  case (Suc i)
  have "take (Suc i) body = take i body @ [body ! i]"
    using Suc.prems by (simp add: take_Suc_conv_app_nth)
  moreover have "bget (p @ body @ s) (length p + i) = Inr (uint (body ! i))"
    using Suc.prems by (simp add: bget_def nth_append)
  moreover have "i \<noteq> num_len - 1"
    using Suc.prems by simp
  ultimately show ?case
    using Suc by (simp add: from_le_snoc push_bit_bytes del: bget_append_right)
qed simp

lemma decodeScriptNum_loop_value:
  assumes "body \<noteq> []"
  shows "decodeScriptNum_loop (p @ body @ s) (length p) (length body) (length body) = Inr (scriptnum_value body)"
proof -
  obtain i where i: "length body = Suc i" using assms by (cases body) auto
  have g: "bget (p @ body @ s) (length p + i) = Inr (uint (last body))"
    using i assms by (simp add: bget_def nth_append last_conv_nth)
  have pre: "decodeScriptNum_loop (p @ body @ s) (length p) (length body) i = Inr (from_le (butlast body))"
    using decodeScriptNum_loop_prefix [of i "length body" body p s] i by (simp add: butlast_conv_take)
  have b: "body = butlast body @ [last body]" using assms by simp
  have full: "from_le body = from_le (butlast body) + 256 ^ i * uint (last body)"
    using from_le_snoc [of "butlast body" "last body"] i b by simp
  show ?thesis
    using pre g full byte_mod_128 [of "last body"] i
    by (simp add: scriptnum_value_def byte_high_bit int_and_127 push_bit_bytes del: bget_append_right)
qed

lemma decodeScriptNum_SerialiseNum:
  assumes b: "SerialiseNum n = Inr b" and small: "\<bar>n\<bar> < 2 ^ 31"
  shows "decodeScriptNum (p @ b @ s) (length p) = Inr (n, length b)"
  using SerialiseNum_Inr [OF b]
proof (elim disjE conjE)
  assume "n = 0" "b = [0]"
  then show ?thesis by (simp add: decodeScriptNum_def)
next
  assume "0 < n" "n \<le> 16" "b = [word_of_int (80 + n)]"
  moreover from this have "uint (word_of_int (80 + n) :: byte) = 80 + n" by (simp only: uint_word_of_int_byte) simp
  ultimately show ?thesis by (simp add: decodeScriptNum_def)
next
  let ?body = "scriptnum_body n"
  assume n: "n \<noteq> 0" and bb: "b = word_of_int (int (length ?body)) # ?body"
  have l: "length ?body \<le> 4" using scriptnum_body_length [of n 4] n small by simp
  have u: "uint (word_of_int (int (length ?body)) :: byte) = int (length ?body)"
    using l by (simp only: uint_word_of_int_byte) simp
  let ?p = "p @ [word_of_int (int (length ?body))]"
  have "decodeScriptNum_loop (?p @ ?body @ s) (length ?p) (length ?body) (length ?body) = Inr n"
    using decodeScriptNum_loop_value [of ?body ?p s] scriptnum_body_ne scriptnum_value_body n by simp
  then show ?thesis
    using l u bb by (simp add: decodeScriptNum_def)
qed

lemma DeserialiseNum_loop_value:
  assumes "i \<le> length body"
  shows "DeserialiseNum_loop (p @ body @ s) (length p) i = Inr (from_le (take i body))"
  using assms
proof (induction i)
  case (Suc i)
  have "take (Suc i) body = take i body @ [body ! i]"
    using Suc.prems by (simp add: take_Suc_conv_app_nth)
  moreover have "bget (p @ body @ s) (length p + i) = Inr (uint (body ! i))"
    using Suc.prems by (simp add: bget_def nth_append)
  moreover have "from_le (take i body) OR push_bit (8 * i) (uint (body ! i))
      = from_le (take i body) + 256 ^ i * uint (body ! i)"
    using from_le_range [of "take i body"] Suc.prems int_or_push_bit [of "from_le (take i body)" "8 * i" "uint (body ! i)"]
    by (simp add: power_mult)
  ultimately show ?case
    using Suc by (simp add: from_le_snoc del: bget_append_right)
qed simp

lemma clear_sign_bit:
  assumes "0 \<le> lo" "lo < 256 ^ k" "128 \<le> h" "h < 256"
  shows "(lo + 256 ^ k * h) AND NOT (push_bit (8 * k) 128) = lo + 256 ^ k * (h - 128 :: int)"
proof -
  let ?v = "lo + 256 ^ k * h"
  have p: "push_bit (8 * k) (128::int) = push_bit (8 * k + 7) 1"
    by (simp add: push_bit_eq_mult power_add)
  have e: "(2::int) ^ (8 * k + 7) = 128 * 256 ^ k"
    by (simp add: power_add power_mult)
  have "?v div (128 * 256 ^ k) = 1"
  proof (rule int_div_pos_eq)
    have h: "256 ^ k * 128 \<le> 256 ^ k * h" "256 ^ k * h \<le> 256 ^ k * (255::int)"
      using assms by (auto intro!: mult_left_mono)
    show "?v = 128 * 256 ^ k * 1 + (?v - 128 * 256 ^ k)"
      by simp
    show "0 \<le> ?v - 128 * 256 ^ k" "?v - 128 * 256 ^ k < 128 * 256 ^ k"
      using h assms by linarith+
  qed
  then have "bit ?v (8 * k + 7)" by (simp only: bit_iff_odd e) simp
  moreover have "?v AND NOT (push_bit (8 * k) 128) = unset_bit (8 * k + 7) ?v"
    by (simp only: p unset_bit_eq_and_not)
  moreover have "256 ^ k * (h - 128) = 256 ^ k * h - 128 * 256 ^ k"
    by (simp add: right_diff_distrib)
  ultimately show ?thesis
    by (simp only: unset_bit_eq e of_bool_eq_1_iff) simp
qed

lemma DeserialiseNum_SerialiseNum:
  assumes b: "SerialiseNum n = Inr b" and small: "\<bar>n\<bar> < 2 ^ 639"
  shows "DeserialiseNum (p @ b @ s) (length p) = Inr n"
  using SerialiseNum_Inr [OF b]
proof (elim disjE conjE)
  assume "n = 0" "b = [0]"
  then show ?thesis by (simp add: DeserialiseNum_def)
next
  assume "0 < n" "n \<le> 16" "b = [word_of_int (80 + n)]"
  moreover from this have "uint (word_of_int (80 + n) :: byte) = 80 + n"
    by (simp only: uint_word_of_int_byte) simp
  ultimately show ?thesis by (simp add: DeserialiseNum_def)
next
  let ?body = "scriptnum_body n"
  let ?l = "length ?body"
  assume n: "n \<noteq> 0" and bb: "b = word_of_int (int ?l) # ?body"
  have l: "?l \<le> 80" using scriptnum_body_length [of n 80] n small by simp
  have ne: "?body \<noteq> []" using n by (rule scriptnum_body_ne)
  then have l0: "0 < ?l" by simp
  have u: "uint (word_of_int (int ?l) :: byte) = int ?l"
    using l by (simp only: uint_word_of_int_byte) simp
  let ?p = "p @ [word_of_int (int ?l)]"
  have all: "p @ b @ s = ?p @ ?body @ s" using bb by simp
  have lp: "length ?p = length p + 1" by simp
  have loop: "DeserialiseNum_loop (p @ b @ s) (length p + 1) ?l = Inr (from_le ?body)"
    using DeserialiseNum_loop_value [of ?l ?body ?p s] unfolding all lp by simp
  have top: "bget (p @ b @ s) (length p + 1 + ?l - 1) = Inr (uint (last ?body))"
    using bb ne by (simp add: bget_def nth_append last_conv_nth)
  have first: "bget (p @ b @ s) (length p) = Inr (int ?l)"
    using bb u by simp
  have body: "from_le ?body = from_le (butlast ?body) + 256 ^ (?l - 1) * uint (last ?body)"
    using from_le_snoc [of "butlast ?body" "last ?body"] ne by simp
  have r: "0 \<le> from_le (butlast ?body)" "from_le (butlast ?body) < 256 ^ (?l - 1)"
    using from_le_range [of "butlast ?body"] by simp_all
  have v: "(if uint (last ?body) < 128 then from_le ?body
      else - (from_le (butlast ?body) + 256 ^ (?l - 1) * (uint (last ?body) - 128))) = n"
    using scriptnum_value_body [OF n] by (simp add: scriptnum_value_def)
  have clr: "\<not> uint (last ?body) < 128 \<Longrightarrow> from_le ?body AND NOT (push_bit (8 * (?l - 1)) 128)
      = from_le (butlast ?body) + 256 ^ (?l - 1) * (uint (last ?body) - 128)"
    unfolding body using clear_sign_bit [OF r, of "uint (last ?body)"] by (simp add: byte_simps)
  show ?thesis
    unfolding DeserialiseNum_def first rbind_simps Let_def
    using l l0 loop top v clr by (auto simp: byte_high_bit split: if_splits)
qed

lemma decodeScriptNum_too_long:
  assumes b: "SerialiseNum n = Inr b" and n: "\<not> \<bar>n\<bar> < 2 ^ 31" "\<bar>n\<bar> < 2 ^ 639"
  shows "decodeScriptNum (p @ b @ s) (length p) = Inl (ValueError ''Bad scriptnum length'')"
proof -
  let ?body = "scriptnum_body n"
  have n0: "n \<noteq> 0" "\<not> (0 < n \<and> n \<le> 16)"
    using n by auto
  then have bb: "b = word_of_int (int (length ?body)) # ?body"
    using SerialiseNum_Inr [OF b] by auto
  have l: "\<not> length ?body \<le> 4" "length ?body \<le> 80"
    using scriptnum_body_length [of n 4] scriptnum_body_length [of n 80] n n0 by simp_all
  then have "uint (word_of_int (int (length ?body)) :: byte) = int (length ?body)"
    by (simp only: uint_word_of_int_byte) simp
  with l bb show ?thesis
    by (simp add: decodeScriptNum_def)
qed

lemma getCompactSizeLen_correct:
  "0 \<le> v \<Longrightarrow> v < 2 ^ 64 \<Longrightarrow> encode_compactsize v = Inr b \<Longrightarrow> getCompactSizeLen v = Inr (int (length b))"
  by (auto simp: encode_compactsize_ok getCompactSizeLen_def split: if_splits)

lemma SerialiseNumCompact_eq: "v < 2 ^ 64 \<Longrightarrow> SerialiseNumCompact v = encode_compactsize v"
  by (simp add: SerialiseNumCompact_def encode_compactsize_def to_bytes_le_def)

lemma b2i_i2b: "i2b i = Inr b \<longleftrightarrow> length b = 32 \<and> b2i b = i"
  by (simp add: i2b_def b2i_def to_bytes_be_Inr_iff)


section \<open>The interface holds for both integer codecs\<close>

interpretation varint: prefix_codec encode_varint decode_varint "\<lambda>i. 0 \<le> i \<and> i < 2 ^ 63"
proof unfold_locales
  show "\<exists>b. encode_varint i = Inr b" if "0 \<le> i \<and> i < 2 ^ 63" for i
    using encode_varint_total [of i] that by auto
  show "decode_varint (p @ b @ s) (length p) = Inr (i, length b)"
    if "0 \<le> i \<and> i < 2 ^ 63" and "encode_varint i = Inr b" for i b p s
    using decode_encode_varint [of i b p s] that by simp
qed

interpretation compactsize: prefix_codec encode_compactsize decode_compactsize "\<lambda>i. 0 \<le> i \<and> i < 2 ^ 64"
  by unfold_locales (auto simp: encode_compactsize_ok decode_encode_compactsize simp del: One_nat_def split del: if_split)

section \<open>Properties\<close>

text \<open>\<open>encode_varint\<close> fails exactly on negative values. What it writes is read back by
  \<open>decode_varint\<close> at any offset and with anything behind it, with the right length, exactly for
  the values below \<open>2 ^ 63\<close>; a larger value is refused with "Too many bytes".\<close>

theorem varint_roundtrip:
  "case encode_varint i of
     Inl e \<Rightarrow> i < 0
   | Inr b \<Rightarrow> 0 \<le> i \<and>
       decode_varint (p @ b @ s) (length p) =
         (if i < 2 ^ 63 then Inr (i, length b) else Inl (ValueError ''Too many bytes''))"
proof (cases "0 \<le> i")
  case True
  then obtain b where "encode_varint i = Inr b"
    using encode_varint_total by blast
  with True show ?thesis
    by (simp add: decode_encode_varint)
next
  case False
  then show ?thesis
    using encode_varint_neg [of i] by auto
qed

text \<open>Script numbers: what \<open>SerialiseNum\<close> writes into a script, \<open>DeserialiseNum\<close> reads back, and
  \<open>decodeScriptNum\<close> reads it back with its length when the number fits the four bytes a script
  number may have, and refuses it otherwise.\<close>

theorem scriptnum_roundtrip:
  assumes "SerialiseNum n = Inr b" and "\<bar>n\<bar> < 2 ^ 639"
  shows "DeserialiseNum (p @ b @ s) (length p) = Inr n
    \<and> decodeScriptNum (p @ b @ s) (length p) =
        (if \<bar>n\<bar> < 2 ^ 31 then Inr (n, length b) else Inl (ValueError ''Bad scriptnum length''))"
proof (cases "\<bar>n\<bar> < 2 ^ 31")
  case True
  with assms show ?thesis
    by (simp add: DeserialiseNum_SerialiseNum decodeScriptNum_SerialiseNum)
next
  case False
  with assms show ?thesis
    by (simp add: DeserialiseNum_SerialiseNum decodeScriptNum_too_long)
qed

theorem scriptnum_roundtrip_witness:
  "SerialiseNum (- 70000) = Inr [3, 0x70, 0x11, 0x81]
    \<and> decodeScriptNum ([7] @ [3, 0x70, 0x11, 0x81] @ [9]) (length [7 :: byte]) = Inr (- 70000, 4)"
proof -
  have s: "SerialiseNum (- 70000) = Inr [3, 0x70, 0x11, 0x81]"
    by code_simp
  show ?thesis
    using s scriptnum_roundtrip [OF s, of "[7]" "[9]"] by simp
qed

text \<open>Compact sizes: for every value a 64-bit length can have, \<open>encode_compactsize\<close> is read back
  by \<open>decode_compactsize\<close>, \<open>SerialiseNumCompact\<close> writes the same bytes and \<open>getCompactSizeLen\<close> is
  their number.\<close>

theorem compactsize_roundtrip:
  assumes "0 \<le> v" and "v < 2 ^ 64"
  shows "\<exists>b. encode_compactsize v = Inr b \<and> SerialiseNumCompact v = Inr b
    \<and> getCompactSizeLen v = Inr (int (length b))
    \<and> decode_compactsize (p @ b @ s) (length p) = Inr (v, length b)"
proof -
  obtain b where b: "encode_compactsize v = Inr b"
    using compactsize.enc_total assms by blast
  then show ?thesis
    using assms SerialiseNumCompact_eq getCompactSizeLen_correct compactsize.dec_enc by auto
qed

theorem compactsize_roundtrip_witness:
  "getCompactSizeLen 70000 = Inr 5
    \<and> decode_compactsize ([] @ [0xFE, 0x70, 0x11, 1, 0] @ [8]) 0 = Inr (70000, 5)"
proof -
  have e: "encode_compactsize 70000 = Inr [0xFE, 0x70, 0x11, 1, 0]"
    by code_simp
  show ?thesis
    using e compactsize_roundtrip [of 70000 "[]" "[8]"] by simp
qed

end
