(* ===== verification/Contract_Script.thy ===== *)
theory Contract_Script
  imports Codec
begin

text \<open>
  The hash time-locked contract of the secret hash swaps, \<open>src/basicswap/protocols/atomic_swap_1.py\<close>:
  \<open>buildContractScript\<close>, \<open>verifyContractScript\<close> and \<open>extractScriptSecretHash\<close>. Opcodes are the values of
  \<open>src/basicswap/script.py\<close>. A comparison chain \<open>script[0] != a or script[1] != b or ...\<close> is
  \<open>match_at\<close>: it stops at the first difference and raises IndexError when it runs past the end.
\<close>

section \<open>Definitions\<close>

datatype OpCodes =
    OP_0 | OP_PUSHDATA1 | OP_1 | OP_16 | OP_IF | OP_ELSE | OP_ENDIF | OP_RETURN | OP_DROP | OP_DUP
  | OP_SIZE | OP_EQUAL | OP_EQUALVERIFY | OP_SHA256 | OP_HASH160 | OP_CHECKSIG
  | OP_CHECKLOCKTIMEVERIFY | OP_CHECKSEQUENCEVERIFY | OP_SHA256_DECRED

primrec op :: "OpCodes \<Rightarrow> int" where
  "op OP_0 = 0x00"
| "op OP_PUSHDATA1 = 0x4C"
| "op OP_1 = 0x51"
| "op OP_16 = 0x60"
| "op OP_IF = 0x63"
| "op OP_ELSE = 0x67"
| "op OP_ENDIF = 0x68"
| "op OP_RETURN = 0x6A"
| "op OP_DROP = 0x75"
| "op OP_DUP = 0x76"
| "op OP_SIZE = 0x82"
| "op OP_EQUAL = 0x87"
| "op OP_EQUALVERIFY = 0x88"
| "op OP_SHA256 = 0xA8"
| "op OP_HASH160 = 0xA9"
| "op OP_CHECKSIG = 0xAC"
| "op OP_CHECKLOCKTIMEVERIFY = 0xB1"
| "op OP_CHECKSEQUENCEVERIFY = 0xB2"
| "op OP_SHA256_DECRED = 0xC0"

definition buildContractScript :: "int \<Rightarrow> bytes \<Rightarrow> bytes \<Rightarrow> bytes \<Rightarrow> int \<Rightarrow> int \<Rightarrow> bytes res" where
  "buildContractScript lock_val secret_hash pkh_redeem pkh_refund op_lock op_hash =
     rbind (mk_bytes [op OP_IF, op OP_SIZE, 0x01, 0x20, op OP_EQUALVERIFY, op_hash, 0x20]) (\<lambda>a.
     rbind (mk_bytes [op OP_EQUALVERIFY, op OP_DUP, op OP_HASH160, 0x14]) (\<lambda>b.
     rbind (mk_bytes [op OP_ELSE]) (\<lambda>c.
     rbind (SerialiseNum lock_val) (\<lambda>n.
     rbind (mk_bytes [op_lock, op OP_DROP, op OP_DUP, op OP_HASH160, 0x14]) (\<lambda>d.
     rbind (mk_bytes [op OP_ENDIF, op OP_EQUALVERIFY, op OP_CHECKSIG]) (\<lambda>e.
       Inr (a @ secret_hash @ b @ pkh_redeem @ c @ n @ d @ pkh_refund @ e)))))))"

fun match_at :: "bytes \<Rightarrow> nat \<Rightarrow> int list \<Rightarrow> bool res" where
  "match_at script off [] = Inr True"
| "match_at script off (c # cs) =
     rbind (bget script off) (\<lambda>b. if b \<noteq> c then Inr False else match_at script (off + 1) cs)"

type_synonym contract_values = "bool \<times> bytes option \<times> bytes option \<times> int option \<times> bytes option"

definition verifyContractScript :: "bytes \<Rightarrow> int \<Rightarrow> int \<Rightarrow> contract_values res" where
  "verifyContractScript script op_lock op_hash =
     rbind (match_at script 0 [op OP_IF, op OP_SIZE, 0x01, 0x20, op OP_EQUALVERIFY, op_hash, 0x20]) (\<lambda>m.
     if \<not> m then Inr (False, None, None, None, None)
     else let off = 7; script_hash = bslice script off (off + 32); off = off + 32
     in rbind (match_at script off [op OP_EQUALVERIFY, op OP_DUP, op OP_HASH160, 0x14]) (\<lambda>m.
     if \<not> m then Inr (False, Some script_hash, None, None, None)
     else let off = off + 4; pkh_redeem = bslice script off (off + 20); off = off + 20
     in rbind (match_at script off [op OP_ELSE]) (\<lambda>m.
     if \<not> m then Inr (False, Some script_hash, Some pkh_redeem, None, None)
     else let off = off + 1
     in rbind (decodeScriptNum script off) (\<lambda>(lock_val, nb).
     let off = off + nb
     in rbind (match_at script off [op_lock, op OP_DROP, op OP_DUP, op OP_HASH160, 0x14]) (\<lambda>m.
     if \<not> m then Inr (False, Some script_hash, Some pkh_redeem, Some lock_val, None)
     else let off = off + 5; pkh_refund = bslice script off (off + 20); off = off + 20
     in rbind (if length script \<noteq> off + 3 then Inr False
               else match_at script off [op OP_ENDIF, op OP_EQUALVERIFY, op OP_CHECKSIG]) (\<lambda>m.
     if \<not> m then Inr (False, Some script_hash, Some pkh_redeem, Some lock_val, Some pkh_refund)
     else Inr (True, Some script_hash, Some pkh_redeem, Some lock_val, Some pkh_refund)))))))"

definition extractScriptSecretHash :: "bytes \<Rightarrow> bytes" where
  "extractScriptSecretHash script = bslice script 7 39"

section \<open>Specification vocabulary\<close>

text \<open>The script with the number's encoding given.\<close>

definition contract_shape :: "bytes \<Rightarrow> bytes \<Rightarrow> bytes \<Rightarrow> bytes \<Rightarrow> int \<Rightarrow> int \<Rightarrow> bytes" where
  "contract_shape n secret_hash pkh_redeem pkh_refund op_lock op_hash =
     map word_of_int [op OP_IF, op OP_SIZE, 0x01, 0x20, op OP_EQUALVERIFY, op_hash, 0x20] @ secret_hash
     @ map word_of_int [op OP_EQUALVERIFY, op OP_DUP, op OP_HASH160, 0x14] @ pkh_redeem
     @ map word_of_int [op OP_ELSE] @ n
     @ map word_of_int [op_lock, op OP_DROP, op OP_DUP, op OP_HASH160, 0x14] @ pkh_refund
     @ map word_of_int [op OP_ENDIF, op OP_EQUALVERIFY, op OP_CHECKSIG]"

section \<open>Facts\<close>

lemma match_at_append:
  "match_at (p @ map word_of_int cs @ s) (length p) cs = Inr True" if "\<forall>c\<in>set cs. 0 \<le> c \<and> c < 256"
  using that
proof (induction cs arbitrary: p)
  case (Cons c cs)
  then show ?case
    using Cons.IH [of "p @ [word_of_int c]"] by (simp add: byte_simps)
qed simp

lemma match_at_TrueD:
  assumes "match_at s k cs = Inr True" "cs \<noteq> []"
  shows "k + length cs \<le> length s \<and> take (length cs) (drop k s) = map word_of_int cs \<and> (\<forall>c\<in>set cs. 0 \<le> c \<and> c < 256)"
  using assms
proof (induction cs arbitrary: k)
  case (Cons c cs)
  then have k: "k < length s" "c = uint (s ! k)" and rest: "match_at s (k + 1) cs = Inr True"
    by (auto simp: bget_Inr_iff split: if_splits)
  have "drop k s = s ! k # drop (Suc k) s"
    using k by (simp add: Cons_nth_drop_Suc)
  then show ?case
    using Cons.IH [of "k + 1"] rest k by (cases "cs = []") (auto simp: byte_simps)
qed simp

lemma drop_bslice: "i \<le> j \<Longrightarrow> drop i s = bslice s i j @ drop j s"
  using take_drop_bslice [of i j s] by (metis append_take_drop_id same_append_eq)

lemma drop_match:
  assumes "match_at s k cs = Inr True" "cs \<noteq> []"
  shows "drop k s = map word_of_int cs @ drop (k + length cs) s"
  using match_at_TrueD [OF assms] by (metis add.commute append_take_drop_id drop_drop)

lemma buildContractScript_shape:
  assumes "0 \<le> op_lock" "op_lock < 256" "0 \<le> op_hash" "op_hash < 256"
  shows "buildContractScript v h r f op_lock op_hash = rbind (SerialiseNum v) (\<lambda>n. Inr (contract_shape n h r f op_lock op_hash))"
  using assms by (simp add: buildContractScript_def contract_shape_def)

lemma verify_shape:
  assumes ops: "0 \<le> op_lock" "op_lock < 256" "0 \<le> op_hash" "op_hash < 256"
    and len: "length h = 32" "length r = 20" "length f = 20"
    and n: "\<And>p s. decodeScriptNum (p @ n @ s) (length p) = Inr (v, length n)"
  shows "verifyContractScript (contract_shape n h r f op_lock op_hash) op_lock op_hash = Inr (True, Some h, Some r, Some v, Some f)"
proof -
  let ?A = "[op OP_IF, op OP_SIZE, 0x01, 0x20, op OP_EQUALVERIFY, op_hash, 0x20]"
  let ?B = "[op OP_EQUALVERIFY, op OP_DUP, op OP_HASH160, 0x14]"
  let ?C = "[op OP_ELSE]"
  let ?D = "[op_lock, op OP_DROP, op OP_DUP, op OP_HASH160, 0x14]"
  let ?E = "[op OP_ENDIF, op OP_EQUALVERIFY, op OP_CHECKSIG]"
  let ?w = "map word_of_int :: int list \<Rightarrow> bytes"
  define s where "s = contract_shape n h r f op_lock op_hash"
  have s: "s = ?w ?A @ h @ ?w ?B @ r @ ?w ?C @ n @ ?w ?D @ f @ ?w ?E"
    by (simp only: s_def contract_shape_def)
  have a: "match_at s 0 ?A = Inr True"
    using match_at_append [of ?A "[]"] ops unfolding s by (simp del: match_at.simps list.map)
  have h: "bslice s 7 39 = h"
    using len unfolding s by (intro bslice_append_exact) simp_all
  have b: "match_at s 39 ?B = Inr True"
    using match_at_append [of ?B "?w ?A @ h"] len unfolding s by (simp del: match_at.simps list.map)
  have r: "bslice s 43 63 = r"
    using len bslice_append_exact [of 43 "?w ?A @ h @ ?w ?B" 63 r] unfolding s by simp
  have c: "match_at s 63 ?C = Inr True"
    using match_at_append [of ?C "?w ?A @ h @ ?w ?B @ r"] len unfolding s by (simp del: match_at.simps list.map)
  have num: "decodeScriptNum s 64 = Inr (v, length n)"
    using n [of "?w ?A @ h @ ?w ?B @ r @ ?w ?C"] len unfolding s by simp
  have d: "match_at s (64 + length n) ?D = Inr True"
    using match_at_append [of ?D "?w ?A @ h @ ?w ?B @ r @ ?w ?C @ n"] len ops unfolding s by (simp del: match_at.simps list.map add: ac_simps)
  have f: "bslice s (69 + length n) (89 + length n) = f"
    using len bslice_append_exact [of "69 + length n" "?w ?A @ h @ ?w ?B @ r @ ?w ?C @ n @ ?w ?D" "89 + length n" f] unfolding s by simp
  have e: "match_at s (89 + length n) ?E = Inr True"
    using match_at_append [of ?E "?w ?A @ h @ ?w ?B @ r @ ?w ?C @ n @ ?w ?D @ f" "[]"] len unfolding s by (simp del: match_at.simps list.map add: ac_simps)
  have "length s = 92 + length n"
    using len by (simp add: s)
  with a h b r c num d f e show ?thesis
    unfolding s_def [symmetric] verifyContractScript_def by (simp add: Let_def del: match_at.simps)
qed

lemma decodeScriptNum_loop_local:
  assumes "\<And>i. i < k \<Longrightarrow> bget s (a + i) = bget t (b + i)"
  shows "decodeScriptNum_loop s a n k = decodeScriptNum_loop t b n k"
  using assms by (induction k) auto

lemma decodeScriptNum_local:
  assumes "decodeScriptNum s k = Inr (v, nb)"
  shows "1 \<le> nb" "k + nb \<le> length s"
    and "\<And>p t. decodeScriptNum (p @ bslice s k (k + nb) @ t) (length p) = Inr (v, nb)"
proof -
  obtain m where m: "bget s k = Inr m" and k: "k < length s" "m = uint (s ! k)"
    using assms by (cases "bget s k") (auto simp: decodeScriptNum_def bget_Inr_iff)
  have nb: "if 81 \<le> m \<and> m \<le> 96 then nb = 1 else 0 \<le> m \<and> m \<le> 4 \<and> m + int k < int (length s) \<and> nb = 1 + nat m"
    using assms m k by (auto simp: decodeScriptNum_def byte_simps not_le split: if_splits)
  then show nb1: "1 \<le> nb" "k + nb \<le> length s"
    using k(1) by (simp split: if_splits, simp split: if_splits, linarith)
  fix p t
  let ?w = "bslice s k (k + nb)"
  have wl: "length ?w = nb" using nb1 by simp
  have get: "bget (p @ ?w @ t) (length p + i) = bget s (k + i)" if "i < nb" for i
    using that nb1 wl by (simp add: bget_def bslice_def nth_append)
  show "decodeScriptNum (p @ ?w @ t) (length p) = Inr (v, nb)"
  proof (cases "81 \<le> m \<and> m \<le> 96")
    case True
    then show ?thesis using assms m get [of 0] nb1 by (simp add: decodeScriptNum_def)
  next
    case False
    with nb have n: "m \<le> 4" "0 \<le> m" "m + int k < int (length s)" "nb = 1 + nat m" by auto
    have "decodeScriptNum_loop (p @ ?w @ t) (length p + 1) (nat m) (nat m) = decodeScriptNum_loop s (k + 1) (nat m) (nat m)"
    proof (rule decodeScriptNum_loop_local)
      fix i
      assume "i < nat m"
      then show "bget (p @ ?w @ t) (length p + 1 + i) = bget s (k + 1 + i)"
        using get [of "1 + i"] n(4) by (simp only: add.assoc)
    qed
    moreover have "m + int (length p) < int (length (p @ ?w @ t))"
      using wl n by simp
    ultimately show ?thesis
      using assms m get [of 0] n nb1 False by (simp add: decodeScriptNum_def rbind_Inr_iff)
  qed
qed

theorem verify_sound:
  assumes "verifyContractScript s op_lock op_hash = Inr (True, x)"
  obtains n h r v f where "x = (Some h, Some r, Some v, Some f)" "s = contract_shape n h r f op_lock op_hash"
    "length h = 32" "length r = 20" "length f = 20" "\<And>p t. decodeScriptNum (p @ n @ t) (length p) = Inr (v, length n)"
proof -
  let ?A = "[op OP_IF, op OP_SIZE, 0x01, 0x20, op OP_EQUALVERIFY, op_hash, 0x20]"
  let ?B = "[op OP_EQUALVERIFY, op OP_DUP, op OP_HASH160, 0x14]"
  let ?C = "[op OP_ELSE]"
  let ?D = "[op_lock, op OP_DROP, op OP_DUP, op OP_HASH160, 0x14]"
  let ?E = "[op OP_ENDIF, op OP_EQUALVERIFY, op OP_CHECKSIG]"
  obtain v nb where a: "match_at s 0 ?A = Inr True" and b: "match_at s 39 ?B = Inr True" and c: "match_at s 63 ?C = Inr True"
    and n: "decodeScriptNum s 64 = Inr (v, nb)" and d: "match_at s (64 + nb) ?D = Inr True"
    and l: "length s = 92 + nb" and e: "match_at s (89 + nb) ?E = Inr True"
    and x: "x = (Some (bslice s 7 39), Some (bslice s 43 63), Some v, Some (bslice s (69 + nb) (89 + nb)))"
    using assms unfolding verifyContractScript_def Let_def
    by (auto split: if_splits prod.splits simp: add.commute simp del: match_at.simps)
  let ?n = "bslice s 64 (64 + nb)"
  have "s = map word_of_int ?A @ drop 7 s"
    using drop_match [OF a] by (simp add: numeral_eq_Suc)
  also have "drop 7 s = bslice s 7 39 @ drop 39 s"
    by (rule drop_bslice) simp
  also have "drop 39 s = map word_of_int ?B @ drop 43 s"
    using drop_match [OF b] by simp
  also have "drop 43 s = bslice s 43 63 @ drop 63 s"
    by (rule drop_bslice) simp
  also have "drop 63 s = map word_of_int ?C @ drop 64 s"
    using drop_match [OF c] by simp
  also have "drop 64 s = ?n @ drop (64 + nb) s"
    by (rule drop_bslice) simp
  also have "drop (64 + nb) s = map word_of_int ?D @ drop (69 + nb) s"
    using drop_match [OF d] by (simp add: add.commute)
  also have "drop (69 + nb) s = bslice s (69 + nb) (89 + nb) @ drop (89 + nb) s"
    by (rule drop_bslice) simp
  also have "drop (89 + nb) s = map word_of_int ?E @ drop (92 + nb) s"
    using drop_match [OF e] by (simp add: add.commute)
  finally have "s = contract_shape ?n (bslice s 7 39) (bslice s 43 63) (bslice s (69 + nb) (89 + nb)) op_lock op_hash"
    using l by (simp add: contract_shape_def)
  then show ?thesis
    using x l decodeScriptNum_local [OF n] by (intro that [of "bslice s 7 39" "bslice s 43 63" v "bslice s (69 + nb) (89 + nb)" ?n]) simp_all
qed

lemma SerialiseNum_small:
  assumes "\<bar>n\<bar> < 2 ^ 31"
  shows "\<exists>b. SerialiseNum n = Inr b"
proof (cases "n = 0")
  case False
  then have "length (scriptnum_body n) \<le> 4"
    using scriptnum_body_length [of n 4] assms by simp
  then show ?thesis
    by (simp add: SerialiseNum_def Let_def)
qed (simp add: SerialiseNum_def)

text \<open>The contract script round trip: the script \<open>buildContractScript\<close> writes for a 32 byte secret
  hash and 20 byte key hashes is verified by \<open>verifyContractScript\<close> under the same opcodes, which
  returns the hash, both key hashes and the lock value it was built with; \<open>extractScriptSecretHash\<close>
  agrees. This holds for every lock value of at most four bytes.\<close>

theorem contract_script_roundtrip:
  assumes "length secret_hash = 32" "length pkh_redeem = 20" "length pkh_refund = 20"
    and "\<bar>lock_val\<bar> < 2 ^ 31"
  shows "\<exists>script. buildContractScript lock_val secret_hash pkh_redeem pkh_refund (op ol) (op oh) = Inr script
    \<and> verifyContractScript script (op ol) (op oh) = Inr (True, Some secret_hash, Some pkh_redeem, Some lock_val, Some pkh_refund)
    \<and> extractScriptSecretHash script = secret_hash"
proof -
  have ops: "0 \<le> op c \<and> op c < 256" for c
    by (cases c) simp_all
  obtain n where n: "SerialiseNum lock_val = Inr n"
    using SerialiseNum_small [OF assms(4)] by blast
  let ?s = "contract_shape n secret_hash pkh_redeem pkh_refund (op ol) (op oh)"
  have "verifyContractScript ?s (op ol) (op oh) = Inr (True, Some secret_hash, Some pkh_redeem, Some lock_val, Some pkh_refund)"
    using assms ops decodeScriptNum_SerialiseNum [OF n assms(4)] by (intro verify_shape) simp_all
  moreover have "extractScriptSecretHash ?s = secret_hash"
    unfolding extractScriptSecretHash_def contract_shape_def using assms by (intro bslice_append_exact) simp_all
  ultimately show ?thesis
    using n ops by (simp add: buildContractScript_shape)
qed

theorem contract_script_roundtrip_witness:
  "\<exists>script. buildContractScript 34 (replicate 32 1) (replicate 20 2) (replicate 20 3) (op OP_CHECKSEQUENCEVERIFY) (op OP_SHA256) = Inr script
    \<and> verifyContractScript script (op OP_CHECKSEQUENCEVERIFY) (op OP_SHA256)
        = Inr (True, Some (replicate 32 1), Some (replicate 20 2), Some 34, Some (replicate 20 3))
    \<and> extractScriptSecretHash script = replicate 32 1"
  by (rule contract_script_roundtrip) simp_all

text \<open>C22. \<open>verifyContractScript\<close> is sound: whatever bytes a counterparty sends, if it answers True then
  the bytes are the contract template with the returned hash, key hashes and lock value in their places,
  under the expected opcodes. Only the encoding of the lock value is left open, and it is one that
  decodes to the returned value; with the encoding \<open>SerialiseNum\<close> writes, the script is the one
  \<open>buildContractScript\<close> builds.\<close>

theorem contract_script_sound:
  assumes "verifyContractScript script (op ol) (op oh) = Inr (True, values)"
  shows "\<exists>n secret_hash pkh_redeem lock_val pkh_refund.
      values = (Some secret_hash, Some pkh_redeem, Some lock_val, Some pkh_refund)
    \<and> length secret_hash = 32 \<and> length pkh_redeem = 20 \<and> length pkh_refund = 20
    \<and> script = contract_shape n secret_hash pkh_redeem pkh_refund (op ol) (op oh)
    \<and> decodeScriptNum n 0 = Inr (lock_val, length n)
    \<and> (SerialiseNum lock_val = Inr n \<longrightarrow>
         buildContractScript lock_val secret_hash pkh_redeem pkh_refund (op ol) (op oh) = Inr script)"
proof -
  have ops: "0 \<le> op c \<and> op c < 256" for c
    by (cases c) simp_all
  obtain n h r v f where "values = (Some h, Some r, Some v, Some f)" "script = contract_shape n h r f (op ol) (op oh)"
    "length h = 32" "length r = 20" "length f = 20" and n: "\<And>p t. decodeScriptNum (p @ n @ t) (length p) = Inr (v, length n)"
    using verify_sound [OF assms] by metis
  moreover have "decodeScriptNum n 0 = Inr (v, length n)"
    using n [of "[]" "[]"] by simp
  ultimately show ?thesis
    using ops by (intro exI [of _ n] exI [of _ h] exI [of _ r] exI [of _ v] exI [of _ f]) (simp add: buildContractScript_shape)
qed

theorem contract_script_sound_witness:
  "\<exists>n h r v f. (Some (replicate 32 1), Some (replicate 20 2), Some 34, Some (replicate 20 3)) = (Some h, Some r, Some v, Some f)
    \<and> contract_shape [1, 34] (replicate 32 1) (replicate 20 2) (replicate 20 3) (op OP_CHECKSEQUENCEVERIFY) (op OP_SHA256)
      = contract_shape n h r f (op OP_CHECKSEQUENCEVERIFY) (op OP_SHA256)"
proof -
  have "verifyContractScript (contract_shape [1, 34] (replicate 32 1) (replicate 20 2) (replicate 20 3) (op OP_CHECKSEQUENCEVERIFY) (op OP_SHA256))
      (op OP_CHECKSEQUENCEVERIFY) (op OP_SHA256) = Inr (True, Some (replicate 32 1), Some (replicate 20 2), Some 34, Some (replicate 20 3))"
    by code_simp
  from contract_script_sound [OF this] show ?thesis
    by blast
qed

end
