(* ===== verification/Timelocks.thy ===== *)
theory Timelocks
  imports Swap_Types
begin

text \<open>
  Relative and absolute time locks: \<open>getExpectedSequence\<close>, \<open>decodeSequence\<close>, \<open>isCsvLockMature\<close> and
  \<open>isAbsLockTimeMature\<close> of \<open>src/basicswap/interface/btc/btc.py\<close> and \<open>csvLockRemaining\<close> of
  \<open>src/basicswap/interface/base.py\<close>. The chain's height and median times come from the coin's daemon:
  they are the fields of \<open>chain_view\<close>, and an argument of the code that overrides one of them is the
  option that is asked first.
\<close>

section \<open>Definitions\<close>

definition SEQUENCE_LOCKTIME_GRANULARITY :: nat where
  "SEQUENCE_LOCKTIME_GRANULARITY = 9"

definition SEQUENCE_LOCKTIME_TYPE_FLAG :: int where
  "SEQUENCE_LOCKTIME_TYPE_FLAG = push_bit 22 1"

definition SEQUENCE_LOCKTIME_MASK :: int where
  "SEQUENCE_LOCKTIME_MASK = 0x0000FFFF"

definition getExpectedSequence :: "int \<Rightarrow> int \<Rightarrow> int res" where
  "getExpectedSequence lockType lockVal =
     rbind (ensure (lockVal \<ge> 1) ''Bad lockVal'') (\<lambda>_.
     if lockType = TxLockTypes_val SEQUENCE_LOCK_BLOCKS then Inr lockVal
     else if lockType = TxLockTypes_val SEQUENCE_LOCK_TIME then
       (let secondsLocked = lockVal;
            secondsLocked = (if secondsLocked mod push_bit SEQUENCE_LOCKTIME_GRANULARITY 1 \<noteq> 0
                             then secondsLocked + push_bit SEQUENCE_LOCKTIME_GRANULARITY 1 else secondsLocked);
            secondsLocked = drop_bit SEQUENCE_LOCKTIME_GRANULARITY secondsLocked
        in Inr (secondsLocked OR SEQUENCE_LOCKTIME_TYPE_FLAG))
     else Inl (ValueError ''Unknown lock type''))"

definition decodeSequence :: "int \<Rightarrow> int" where
  "decodeSequence v =
     (if v AND SEQUENCE_LOCKTIME_TYPE_FLAG \<noteq> 0
      then push_bit SEQUENCE_LOCKTIME_GRANULARITY (v AND SEQUENCE_LOCKTIME_MASK)
      else v AND SEQUENCE_LOCKTIME_MASK)"

record chain_view =
  cv_height :: "int res"
  cv_median_time :: "int option res"
  cv_median_time_at :: "int \<Rightarrow> int option res"

text \<open>\<open>if x is None: x = call()\<close>.\<close>

definition or_ask :: "'a option \<Rightarrow> 'a option res \<Rightarrow> 'a option res" where
  "or_ask x ask = (case x of None \<Rightarrow> ask | Some y \<Rightarrow> Inr (Some y))"

definition ask_height :: "chain_view \<Rightarrow> int option \<Rightarrow> int res" where
  "ask_height cv x = (case x of None \<Rightarrow> cv_height cv | Some y \<Rightarrow> Inr y)"

definition isCsvLockMature ::
  "chain_view \<Rightarrow> int \<Rightarrow> int \<Rightarrow> int option \<Rightarrow> int option \<Rightarrow> int option \<Rightarrow> int option \<Rightarrow> int option \<Rightarrow> bool res" where
  "isCsvLockMature cv lockType encoded_sequence parent_block_height parent_block_time h chain_mtp coin_mtp =
     (case parent_block_height of
        None \<Rightarrow> Inr False
      | Some ph \<Rightarrow>
          if ph < 1 then Inr False
          else let lock_value = decodeSequence encoded_sequence
          in if lockType = TxLockTypes_val SEQUENCE_LOCK_BLOCKS then
               rbind (ask_height cv h) (\<lambda>chain_height. Inr (chain_height + 1 \<ge> ph + lock_value))
             else if lockType = TxLockTypes_val SEQUENCE_LOCK_TIME then
               (case parent_block_time of
                  None \<Rightarrow> Inr False
                | Some pt \<Rightarrow>
                    if pt < 1 then Inr False
                    else rbind (or_ask coin_mtp (cv_median_time_at cv (max (ph - 1) 0))) (\<lambda>coin_mtp.
                         case coin_mtp of
                           None \<Rightarrow> Inr False
                         | Some coin_mtp \<Rightarrow>
                             rbind (or_ask chain_mtp (cv_median_time cv)) (\<lambda>chain_mtp.
                             case chain_mtp of
                               None \<Rightarrow> Inr False
                             | Some chain_mtp \<Rightarrow> Inr (chain_mtp \<ge> coin_mtp + lock_value))))
             else Inl (ValueError ''Unknown lock type''))"

definition csvLockRemaining ::
  "chain_view \<Rightarrow> int \<Rightarrow> int \<Rightarrow> int option \<Rightarrow> int option \<Rightarrow> int option \<Rightarrow> int option \<Rightarrow> int option \<Rightarrow> int option res" where
  "csvLockRemaining cv lockType encoded_sequence parent_block_height parent_block_time h chain_mtp coin_mtp =
     (case parent_block_height of
        None \<Rightarrow> Inr None
      | Some ph \<Rightarrow>
          if ph < 1 then Inr None
          else let lock_value = decodeSequence encoded_sequence
          in if lockType = TxLockTypes_val SEQUENCE_LOCK_BLOCKS then
               rbind (ask_height cv h) (\<lambda>chain_height. Inr (Some ((ph + lock_value) - (chain_height + 1))))
             else if lockType = TxLockTypes_val SEQUENCE_LOCK_TIME then
               (case parent_block_time of
                  None \<Rightarrow> Inr None
                | Some pt \<Rightarrow>
                    if pt < 1 then Inr None
                    else rbind (or_ask coin_mtp (cv_median_time_at cv (max (ph - 1) 0))) (\<lambda>coin_mtp.
                         case coin_mtp of
                           None \<Rightarrow> Inr None
                         | Some coin_mtp \<Rightarrow>
                             rbind (or_ask chain_mtp (cv_median_time cv)) (\<lambda>chain_mtp.
                             case chain_mtp of
                               None \<Rightarrow> Inr None
                             | Some chain_mtp \<Rightarrow> Inr (Some ((coin_mtp + lock_value) - chain_mtp)))))
             else Inl (ValueError ''Unknown lock type''))"

definition isAbsLockTimeMature :: "chain_view \<Rightarrow> int \<Rightarrow> int option \<Rightarrow> int option \<Rightarrow> bool res" where
  "isAbsLockTimeMature cv nlocktime h chain_mtp =
     (if nlocktime = 0 then Inr True
      else if nlocktime < 500000000 then
        rbind (ask_height cv h) (\<lambda>chain_height. Inr (chain_height + 1 \<ge> nlocktime))
      else rbind (or_ask chain_mtp (cv_median_time cv)) (\<lambda>chain_mtp.
        case chain_mtp of None \<Rightarrow> Inr False | Some chain_mtp \<Rightarrow> Inr (chain_mtp \<ge> nlocktime)))"

section \<open>Facts\<close>

lemma int_and_mask_16: "(v::int) AND 0xFFFF = v mod 2 ^ 16"
  using int_and_mask [of v 16] by (simp add: mask_eq_exp_minus_1)

lemma sequence_time:
  assumes "1 \<le> v" "v \<le> 0xFFFF * 512"
  shows "\<exists>q. getExpectedSequence (TxLockTypes_val SEQUENCE_LOCK_TIME) v = Inr (q + 2 ^ 22)
    \<and> decodeSequence (q + 2 ^ 22) = 512 * q \<and> v \<le> 512 * q \<and> 512 * q < v + 512 \<and> 1 \<le> q \<and> q \<le> 0xFFFF"
proof -
  define q where "q = (if v mod 512 \<noteq> 0 then (v + 512) div 512 else v div 512)"
  have q: "v \<le> 512 * q" "512 * q < v + 512" "1 \<le> q" "q \<le> 0xFFFF"
  proof -
    obtain k r where v: "v = 512 * k + r" "0 \<le> r" "r < 512"
      by (metis mult_div_mod_eq pos_mod_bound pos_mod_sign zero_less_numeral)
    have "v mod 512 = r" "v div 512 = k" "(v + 512) div 512 = k + 1"
      using v by simp_all
    then have "q = (if r \<noteq> 0 then k + 1 else k)"
      by (simp add: q_def)
    then show "v \<le> 512 * q" "512 * q < v + 512" "1 \<le> q" "q \<le> 0xFFFF"
      using v assms by (auto split: if_splits)
  qed
  have or: "q OR push_bit 22 1 = q + 2 ^ 22"
    using q int_or_push_bit [of q 22 1] by simp
  have "getExpectedSequence (TxLockTypes_val SEQUENCE_LOCK_TIME) v = Inr (q + 2 ^ 22)"
    using assms or by (simp add: getExpectedSequence_def Let_def SEQUENCE_LOCKTIME_GRANULARITY_def
        SEQUENCE_LOCKTIME_TYPE_FLAG_def drop_bit_eq_div push_bit_eq_mult q_def split: if_splits)
  moreover have "bit (q + 2 ^ 22) 22"
  proof -
    have "(q + 2 ^ 22) div 2 ^ 22 = 1" using q by simp
    then show ?thesis by (simp add: bit_iff_odd)
  qed
  then have "(q + 2 ^ 22) AND push_bit 22 1 \<noteq> 0"
    using and_exp_eq_0_iff_not_bit [of "q + 2 ^ 22" 22] by (simp add: push_bit_eq_mult)
  moreover have "(q + 2 ^ 22) mod 2 ^ 16 = q"
  proof -
    have "(q + 64 * 2 ^ 16) mod 2 ^ 16 = q mod 2 ^ 16"
      by (rule mod_mult_self1)
    then show ?thesis using q by simp
  qed
  ultimately have "decodeSequence (q + 2 ^ 22) = 512 * q"
    by (simp add: decodeSequence_def SEQUENCE_LOCKTIME_GRANULARITY_def SEQUENCE_LOCKTIME_TYPE_FLAG_def
        SEQUENCE_LOCKTIME_MASK_def int_and_mask_16 push_bit_eq_mult)
  with \<open>getExpectedSequence _ _ = _\<close> q show ?thesis by blast
qed

lemma sequence_blocks:
  assumes "1 \<le> v" "v \<le> 0xFFFF"
  shows "getExpectedSequence (TxLockTypes_val SEQUENCE_LOCK_BLOCKS) v = Inr v \<and> decodeSequence v = v"
proof -
  have "\<not> bit v 22"
    using assms by (simp add: bit_iff_odd)
  then have "v AND push_bit 22 1 = 0"
    using and_exp_eq_0_iff_not_bit [of v 22] by (simp add: push_bit_eq_mult)
  then show ?thesis
    using assms by (simp add: getExpectedSequence_def decodeSequence_def SEQUENCE_LOCKTIME_TYPE_FLAG_def
        SEQUENCE_LOCKTIME_MASK_def int_and_mask_16)
qed

text \<open>C35. The sequence number a lock value is encoded as never locks for less than the value: decoding it
  gives back a block count exactly, and a time rounded up to the next multiple of 512 seconds, for every
  value the sixteen bits of the field can hold.\<close>

theorem sequence_lock_not_shorter:
  assumes "1 \<le> v"
  shows "(v \<le> 0xFFFF \<longrightarrow> (\<exists>s. getExpectedSequence (TxLockTypes_val SEQUENCE_LOCK_BLOCKS) v = Inr s \<and> decodeSequence s = v))
    \<and> (v \<le> 0xFFFF * 512 \<longrightarrow> (\<exists>s. getExpectedSequence (TxLockTypes_val SEQUENCE_LOCK_TIME) v = Inr s
          \<and> v \<le> decodeSequence s \<and> decodeSequence s < v + 512 \<and> 512 dvd decodeSequence s))"
  using sequence_time [OF assms] sequence_blocks [OF assms] by force

theorem sequence_lock_not_shorter_witness:
  "\<exists>s. getExpectedSequence (TxLockTypes_val SEQUENCE_LOCK_TIME) 7201 = Inr s
      \<and> 7201 \<le> decodeSequence s \<and> decodeSequence s < 7201 + 512 \<and> 512 dvd decodeSequence s"
  using sequence_lock_not_shorter [of 7201] by simp

text \<open>\<open>isCsvLockMature\<close> and \<open>csvLockRemaining\<close> agree: on the same arguments and the same answers of
  the chain they raise the same exception, and otherwise the lock is mature exactly when a remaining
  count is known and not positive.\<close>

theorem csv_remaining_mature:
  "isCsvLockMature cv lt s ph pt h m c =
     rbind (csvLockRemaining cv lt s ph pt h m c) (\<lambda>r. Inr (case r of None \<Rightarrow> False | Some d \<Rightarrow> d \<le> 0))"
  unfolding isCsvLockMature_def csvLockRemaining_def Let_def
  by (auto simp: rbind_def split: option.splits sum.splits)

text \<open>A lock that has matured stays mature: as the chain grows and its median time advances, neither
  a relative nor an absolute lock that was spendable stops being so.\<close>

theorem locks_stay_mature:
  assumes "ch \<le> ch'" and "m \<le> m'"
  shows "(isCsvLockMature cv lt s ph pt (Some ch) (Some m) c = Inr True \<longrightarrow>
       isCsvLockMature cv lt s ph pt (Some ch') (Some m') c = Inr True)
    \<and> (isAbsLockTimeMature cv lock (Some ch) (Some m) = Inr True \<longrightarrow>
       isAbsLockTimeMature cv lock (Some ch') (Some m') = Inr True)"
  using assms unfolding isCsvLockMature_def isAbsLockTimeMature_def Let_def
  by (auto simp: rbind_def ask_height_def or_ask_def split: option.splits sum.splits if_splits)

theorem locks_stay_mature_witness:
  "isAbsLockTimeMature \<lparr>cv_height = Inr 5, cv_median_time = Inr None, cv_median_time_at = \<lambda>_. Inr None\<rparr> 1000 (Some 1005) (Some 9) = Inr True"
proof -
  let ?cv = "\<lparr>cv_height = Inr 5, cv_median_time = Inr None, cv_median_time_at = \<lambda>_. Inr None\<rparr> :: chain_view"
  have "isAbsLockTimeMature ?cv 1000 (Some 999) (Some 9) = Inr True"
    by (simp add: isAbsLockTimeMature_def ask_height_def)
  then show ?thesis
    using locks_stay_mature [of 999 1005 9 9 ?cv _ _ _ _ _ 1000] by simp
qed

end
