(* ===== verification/Seller_First.thy ===== *)
theory Seller_First
  imports Node Contract_Script Timelocks
begin

text \<open>
  The secret hash swap (\<open>SwapTypes.SELLER_FIRST\<close>), as \<open>src/basicswap/basicswap.py\<close> drives it:
  \<open>checkBidState\<close> with the handlers it calls (\<open>initiateTxnConfirmed\<close>, \<open>participateTxnConfirmed\<close>,
  \<open>createParticipateTxn\<close>, \<open>deriveParticipateScript\<close>, \<open>addParticipateTxn\<close>), the spend handlers
  \<open>initiateTxnSpent\<close> and \<open>participateTxnSpent\<close> behind \<open>processSpentOutput\<close>, \<open>extractSecret\<close>, and \<open>redeemITx\<close>.

  \<open>checkBidState\<close> is split at its comments: \<open>find_initiate\<close> and \<open>check_accepted\<close> for a bid that waits for the
  initiate transaction, \<open>check_initiated\<close> for one that waits for the participate transaction,
  \<open>check_completed\<close>, \<open>try_itx_refund\<close> and \<open>try_ptx_refund\<close>. What the coin daemons and the wallet answer is the
  record \<open>coin_interface\<close> and the other fields of \<open>env\<close>; a call that fails is an \<open>Inl\<close>. The clock is
  read once per run. Published transactions are recorded when they are handed to the daemon.
  Logging is left out.
\<close>

section \<open>Definitions\<close>

record lock_found =
  lf_txid :: "bytes option"
  lf_depth :: int
  lf_index :: "int option"
  lf_height :: int
  lf_value :: "int option"
  lf_conflicts :: bool

datatype lock_search = InvalidTxids | LockFound lock_found

record coin_interface =
  using_segwit :: bool
  watch_blocks_for_scripts :: bool
  getScriptDest :: "bytes \<Rightarrow> bytes"
  encodeScriptDest :: "bytes \<Rightarrow> string"
  encode_p2sh :: "bytes \<Rightarrow> string"
  getLockTxHeight :: "bytes option \<Rightarrow> string \<Rightarrow> int \<Rightarrow> int option \<Rightarrow> int option \<Rightarrow> bool \<Rightarrow> lock_search option res"
  getBlockHeaderFromHeight :: "int \<Rightarrow> block_header res"
  getBlockHeaderAt :: "int \<Rightarrow> bool \<Rightarrow> block_header res"
  chain :: chain_view
  publishTx :: "bytes \<Rightarrow> bytes res"
  getTxLocktime :: "bytes \<Rightarrow> int res"
  getTxInSequence :: "bytes \<Rightarrow> nat \<Rightarrow> int res"
  getTxOutInfo :: "bytes option \<Rightarrow> int option \<Rightarrow> block_header option res"
  createRawSignedTransaction :: "string \<Rightarrow> int \<Rightarrow> bytes res"
  decoded_vout :: "bytes \<Rightarrow> bytes \<Rightarrow> string \<Rightarrow> (bytes \<times> int) res"

record raw_output =
  ro_address :: "string option"
  ro_addresses :: "string list option"
  ro_n :: nat
  ro_value :: "int res"

record raw_tx =
  rt_vout :: "raw_output list"
  rt_confirmations :: "int option"
  rt_height :: "int option"

record env =
  ci :: "Coins \<Rightarrow> coin_interface"
  now :: int
  part_rawtx :: "bytes \<Rightarrow> raw_tx res"
  createRefundTxn :: "Coins \<Rightarrow> bytes \<Rightarrow> Offer \<Rightarrow> Bid \<Rightarrow> bytes \<Rightarrow> bytes option res"
  createRedeemTxn :: "Coins \<Rightarrow> Bid \<Rightarrow> TxTypes \<Rightarrow> bytes option res"
  short_delay :: int
  duplicate_actions :: nat

subsection \<open>The transactions of a bid\<close>

definition get_itx :: "bytes \<Rightarrow> (node, SwapTx) py" where
  "get_itx b = pbind (pget (\<lambda>n. initiate_tx (bids n b))) (\<lambda>t. plift (of_option AttributeError t))"

definition get_ptx :: "bytes \<Rightarrow> (node, SwapTx) py" where
  "get_ptx b = pbind (pget (\<lambda>n. participate_tx (bids n b))) (\<lambda>t. plift (of_option AttributeError t))"

definition upd_itx :: "bytes \<Rightarrow> (SwapTx \<Rightarrow> SwapTx) \<Rightarrow> (node, unit) py" where
  "upd_itx b f = pbind (get_itx b) (\<lambda>t. pmod (upd_bid b (\<lambda>bid. bid\<lparr>initiate_tx := Some (f t)\<rparr>)))"

definition upd_ptx :: "bytes \<Rightarrow> (SwapTx \<Rightarrow> SwapTx) \<Rightarrow> (node, unit) py" where
  "upd_ptx b f = pbind (get_ptx b) (\<lambda>t. pmod (upd_bid b (\<lambda>bid. bid\<lparr>participate_tx := Some (f t)\<rparr>)))"

text \<open>\<open>SwapTx(bid_id=..., tx_type=..., script=...)\<close>: every other column is None.\<close>

definition new_tx :: "bytes \<Rightarrow> TxTypes \<Rightarrow> bytes option \<Rightarrow> SwapTx" where
  "new_tx b t s = \<lparr>state = None, state_time = None, states = None, tx_bid_id = b, tx_type = t, txid = None,
     vout = None, tx_data = None, script = s, tx_fee = None, chain_height = None, conf = None,
     spend_txid = None, spend_n = None, block_hash = None, block_height = None, block_time = None\<rparr>"

definition need :: "'a option \<Rightarrow> (node, 'a) py" where
  "need x = plift (of_option TypeError x)"

definition publish :: "env \<Rightarrow> Coins \<Rightarrow> bytes \<Rightarrow> (node, bytes) py" where
  "publish E c tx =
     pseq (pmod (\<lambda>n. n\<lparr>published := published n @ [(c, tx)]\<rparr>)) (plift (publishTx (ci E c) tx))"

definition setTxBlockInfoFromHeight ::
  "((SwapTx \<Rightarrow> SwapTx) \<Rightarrow> (node, unit) py) \<Rightarrow> coin_interface \<Rightarrow> int \<Rightarrow> (node, unit) py" where
  "setTxBlockInfoFromHeight upd i height =
     ptry (pseq (upd (\<lambda>t. t\<lparr>block_height := Some height\<rparr>))
          (pbind (plift (getBlockHeaderFromHeight i height)) (\<lambda>h.
           upd (\<lambda>t. t\<lparr>block_hash := Some (bh_hash h), block_time := Some (bh_time h)\<rparr>))))
       (\<lambda>_. pret ())"

definition start_height :: "env \<Rightarrow> Coins \<Rightarrow> int \<Rightarrow> (node, int) py" where
  "start_height E c h =
     setLastHeightCheckedStart (cv_height (chain (ci E c))) (getBlockHeaderFromHeight (ci E c)) c h"

text \<open>The address of a contract: \<open>encodeScriptDest(getScriptDest(script))\<close> or \<open>encode_p2sh(script)\<close>.\<close>

definition contract_addr :: "coin_interface \<Rightarrow> bytes \<Rightarrow> string" where
  "contract_addr i s = (if using_segwit i then encodeScriptDest i (getScriptDest i s) else encode_p2sh i s)"

definition getVoutByAddress :: "raw_output list \<Rightarrow> string \<Rightarrow> nat res" where
  "getVoutByAddress outs p2sh =
     (case find (\<lambda>x. ro_address x = Some p2sh
                   \<or> (case ro_addresses x of None \<Rightarrow> False | Some l \<Rightarrow> p2sh \<in> set l)) outs of
        Some x \<Rightarrow> Inr (ro_n x)
      | None \<Rightarrow> Inl (ValueError ''Address output not found in txn''))"

subsection \<open>The participate transaction\<close>

definition deriveParticipateScript :: "env \<Rightarrow> bytes \<Rightarrow> Offer \<Rightarrow> (node, bytes) py" where
  "deriveParticipateScript E b offer =
     pbind (plift (of_option (ValueError ''Coins'') (Coins_of (coin_to offer)))) (\<lambda>cto.
     pbind (get_itx b) (\<lambda>tx.
     pbind (need (script tx)) (\<lambda>itx_script.
     pbind (pget (\<lambda>n. bids n b)) (\<lambda>bid.
     let secret_hash = extractScriptSecretHash itx_script;
         buyer_refund = (case pkhash_buyer_to bid of
                     Some x \<Rightarrow> if x \<noteq> [] then Some x else pkhash_buyer bid
                   | None \<Rightarrow> pkhash_buyer bid);
         op_hash = (if cto = DCR then op OP_SHA256_DECRED else op OP_SHA256);
         lv = lock_value offer div 2;
         build = (\<lambda>lock_val op_lock.
           pbind (need (pkhash_seller bid)) (\<lambda>seller.
           pbind (need buyer_refund) (\<lambda>refund.
           plift (buildContractScript lock_val secret_hash seller refund op_lock op_hash))))
     in if lock_type offer < TxLockTypes_val ABS_LOCK_BLOCKS then
          pbind (plift (getExpectedSequence (lock_type offer) lv)) (\<lambda>sequence.
          build sequence (op OP_CHECKSEQUENCEVERIFY))
        else
          pbind (plift (of_option KeyError (Coins_of (coin_from offer)))) (\<lambda>cfrom.
          pbind (need (chain_height tx)) (\<lambda>h.
          pbind (plift (getBlockHeaderFromHeight (ci E cfrom) h)) (\<lambda>hdr.
          pbind (if lock_type offer = TxLockTypes_val ABS_LOCK_BLOCKS
                 then pbind (plift (getBlockHeaderAt (ci E cto) (bh_time hdr) True)) (\<lambda>at. pret (bh_height at + lv))
                 else pret (bh_time hdr + lv)) (\<lambda>contract_lock_value.
          build contract_lock_value (op OP_CHECKLOCKTIMEVERIFY)))))))))"

text \<open>\<open>bytes.fromhex(None)\<close> raises TypeError.\<close>

definition addParticipateTxn :: "env \<Rightarrow> bytes \<Rightarrow> Coins \<Rightarrow> bytes option \<Rightarrow> int option \<Rightarrow> int \<Rightarrow> (node, unit) py" where
  "addParticipateTxn E b c txid_hex v tx_height =
     pbind (start_height E c tx_height) (\<lambda>h.
     pseq (pmod (upd_bid b (\<lambda>bid. bid\<lparr>participate_tx :=
            Some (case participate_tx bid of None \<Rightarrow> new_tx b PTX None | Some tx \<Rightarrow> tx)\<rparr>)))
    (pbind (need txid_hex) (\<lambda>t.
     pseq (upd_ptx b (\<lambda>tx. tx\<lparr>txid := Some t, vout := v, chain_height := Some h\<rparr>))
          (addWatchedOutput c b t v (BidStates_val SWAP_PARTICIPATING) None))))"

definition createParticipateTxn :: "env \<Rightarrow> bytes \<Rightarrow> Offer \<Rightarrow> bytes \<Rightarrow> (node, bytes option) py" where
  "createParticipateTxn E b offer participate_script =
     pbind (plift (of_option (ValueError ''Coins'') (Coins_of (coin_to offer)))) (\<lambda>cto.
     pbind (pget (\<lambda>n. connection_type (cc n cto))) (\<lambda>conn.
     if conn \<noteq> ''rpc'' \<and> conn \<noteq> ''electrum'' then pret None
     else let i = ci E cto; addr = contract_addr i participate_script in
     pbind (pget (\<lambda>n. bids n b)) (\<lambda>bid.
     let invalid = (debug_ind bid = Some (DebugTypes_val DBG_MAKE_INVALID_PTX));
         amt = (if invalid then amount_to bid - 1 else amount_to bid) in
     pseq (pwhen invalid (logEvent b EV_DEBUG_TWEAK_APPLIED ''Make invalid PTx for testing: ''))
    (pbind (plift (createRawSignedTransaction i addr amt)) (\<lambda>txn_signed.
     pbind (plift (createRefundTxn E cto txn_signed offer bid participate_script)) (\<lambda>r.
     pbind (need r) (\<lambda>refund_txn.
     pseq (pmod (upd_bid b (\<lambda>bid. bid\<lparr>participate_txn_refund := Some refund_txn\<rparr>)))
    (pbind (plift (cv_height (chain i))) (\<lambda>h.
     pbind (plift (decoded_vout i txn_signed participate_script addr)) (\<lambda>(t, v).
     pseq (addParticipateTxn E b cto (Some t) (Some v) h)
    (pseq (upd_ptx b (\<lambda>tx. tx\<lparr>script := Some participate_script, tx_data := Some txn_signed\<rparr>))
          (pret (Some txn_signed)))))))))))))"

definition initiateTxnConfirmed :: "env \<Rightarrow> bytes \<Rightarrow> Offer \<Rightarrow> (node, unit) py" where
  "initiateTxnConfirmed E b offer =
     pseq (set_bid_state b (now E) SWAP_INITIATED)
    (pseq (set_itx_state b (now E) TX_CONFIRMED)
    (pbind (pget (\<lambda>n. bids n b)) (\<lambda>bid.
     if debug_ind bid = Some (DebugTypes_val DBG_BUYER_STOP_AFTER_ITX) then
       pseq (set_bid_state b (now E) BID_ABANDONED) (logEvent b EV_DEBUG_TWEAK_APPLIED ''ind '')
     else
     pbind (deriveParticipateScript E b offer) (\<lambda>participate_script.
     pbind (plift (of_option (ValueError ''Coins'') (Coins_of (coin_to offer)))) (\<lambda>cto.
     pbind (plift (of_option (ValueError ''Coins'') (Coins_of (coin_from offer)))) (\<lambda>cfrom.
     if was_sent bid then
       (if participate_tx bid \<noteq> None then pret ()
        else pbind (createParticipateTxn E b offer participate_script) (\<lambda>t.
             pbind (need t) (\<lambda>txn.
             pbind (publish E cto txn) (\<lambda>_.
             pseq (set_ptx_state b (now E) TX_SENT)
                  (logEvent b EV_PTX_PUBLISHED '''')))))
     else
       pseq (pmod (upd_bid b (\<lambda>bid. bid\<lparr>participate_tx := Some (new_tx b PTX (Some participate_script))\<rparr>)))
      (pwhen (watch_blocks_for_scripts (ci E cto))
        (pbind (get_itx b) (\<lambda>tx.
         pbind (need (chain_height tx)) (\<lambda>h.
         pbind (plift (getBlockHeaderFromHeight (ci E cfrom) h)) (\<lambda>ha.
         pbind (plift (getBlockHeaderAt (ci E cto) (bh_time ha) False)) (\<lambda>hb.
         pbind (start_height E cto (bh_height hb)) (\<lambda>_.
         addWatchedScript cto b (getScriptDest (ci E cto) participate_script) PTX None)))))))))))))"

definition participateTxnConfirmed :: "env \<Rightarrow> bytes \<Rightarrow> Offer \<Rightarrow> (node, unit) py" where
  "participateTxnConfirmed E b offer =
     pbind (pget (\<lambda>n. bids n b)) (\<lambda>bid.
     if debug_ind bid = Some (DebugTypes_val DBG_DONT_CONFIRM_PTX) then pret ()
     else
     pseq (set_bid_state b (now E) SWAP_PARTICIPATING)
    (pseq (set_ptx_state b (now E) TX_CONFIRMED)
    (pwhen (was_received bid)
      (pbind (plift (of_option (ValueError ''Coins'') (Coins_of (coin_to offer)))) (\<lambda>cto.
       pbind (pget (\<lambda>n. bids n b)) (\<lambda>bid.
       pbind (plift (createRedeemTxn E cto bid PTX_REDEEM)) (\<lambda>t.
       pbind (need t) (\<lambda>txn.
       pbind (publish E cto txn) (\<lambda>_.
       logEvent b EV_PTX_REDEEM_PUBLISHED '''')))))))))"

subsection \<open>checkBidState\<close>

text \<open>Looking for the initiate transaction. The result is None when the handler returns True at once, and
  otherwise the values of \<open>index\<close> and \<open>tx_height\<close>.\<close>

definition find_initiate :: "env \<Rightarrow> bytes \<Rightarrow> Coins \<Rightarrow> (node, (int option \<times> int option) option) py" where
  "find_initiate E b cfrom =
     pbind (get_itx b) (\<lambda>tx.
     pbind (pget (\<lambda>n. bids n b)) (\<lambda>bid.
     let i = ci E cfrom in
     if cfrom = PART then
       ptry
         (pbind (need (script tx)) (\<lambda>s.
          pbind (need (txid tx)) (\<lambda>t.
          pbind (plift (part_rawtx E t)) (\<lambda>raw.
          pbind (plift (getVoutByAddress (rt_vout raw) (encode_p2sh i s))) (\<lambda>v.
          pbind (plift (if v < length (rt_vout raw) then ro_value (rt_vout raw ! v) else Inl IndexError)) (\<lambda>out_value.
          pbind (plift (ensure (out_value = amount bid) ''Incorrect output amount in initiate txn'')) (\<lambda>_.
          pbind (plift (of_option KeyError (rt_confirmations raw))) (\<lambda>c.
          pseq (upd_itx b (\<lambda>tx. tx\<lparr>conf := Some c\<rparr>))
               (pret (Some (Some (int v), Some (case rt_height raw of Some h \<Rightarrow> h | None \<Rightarrow> -1))))))))))))
         (\<lambda>_. pret (Some (None, None)))
     else
       pbind (need (script tx)) (\<lambda>s.
       pbind (plift (getLockTxHeight i (txid tx) (contract_addr i s) (amount bid)
          (chain_a_height_start bid) (vout tx) False)) (\<lambda>found.
       case found of
         None \<Rightarrow> pret (Some (None, None))
       | Some InvalidTxids \<Rightarrow>
           pseq (setBidError b (now E) ''Swap output index not found for initiate txn'') (pret None)
       | Some (LockFound f) \<Rightarrow>
           (case lf_index f of
              None \<Rightarrow> pseq (setBidError b (now E) ''Swap output index not found for initiate txn'') (pret None)
            | Some ix \<Rightarrow>
                if lf_value f \<noteq> Some (amount bid)
                then pseq (setBidError b (now E) ''Incorrect output amount in initiate txn'') (pret None)
                else pseq (upd_itx b (\<lambda>tx. tx\<lparr>conf := Some (lf_depth f)\<rparr>))
                          (pret (Some (Some ix, Some (lf_height f)))))))))"

text \<open>\<open>a is None or a < v\<close>.\<close>

definition none_or_less :: "int option \<Rightarrow> int \<Rightarrow> bool" where
  "none_or_less x v = (case x of None \<Rightarrow> True | Some y \<Rightarrow> y < v)"

definition INITIATE_TX_TIMEOUT :: int where
  "INITIATE_TX_TIMEOUT = 40 * 60"

text \<open>The rest of the \<open>BID_ACCEPTED\<close> branch. The result is None when the handler returns True, and
  otherwise \<open>save_bid\<close>.\<close>

definition watch_initiate :: "env \<Rightarrow> bytes \<Rightarrow> Coins \<Rightarrow> int \<Rightarrow> (node, unit) py" where
  "watch_initiate E b cfrom tx_height =
     pbind (start_height E cfrom tx_height) (\<lambda>h.
     pseq (upd_itx b (\<lambda>tx. tx\<lparr>chain_height := Some h\<rparr>))
    (pseq (setTxBlockInfoFromHeight (upd_itx b) (ci E cfrom) tx_height)
    (pbind (get_itx b) (\<lambda>tx.
     pbind (need (txid tx)) (\<lambda>t.
     pseq (addWatchedOutput cfrom b t (vout tx) (BidStates_val SWAP_INITIATED) None)
    (pbind (pget (\<lambda>n. getITxState (bids n b))) (\<lambda>st.
     pwhen (none_or_less st (TxStates_val TX_SENT)) (set_itx_state b (now E) TX_SENT))))))))"

definition confirm_initiate ::
  "env \<Rightarrow> bytes \<Rightarrow> Offer \<Rightarrow> Coins \<Rightarrow> int option \<Rightarrow> int option \<Rightarrow> SwapTx \<Rightarrow> (node, bool) py" where
  "confirm_initiate E b offer cfrom last_conf tx_height tx =
     (case conf tx of
        None \<Rightarrow> pret False
      | Some c \<Rightarrow>
          pbind (if none_or_less last_conf 1
                 then pbind (need tx_height) (\<lambda>h.
                      if h > 0 then pseq (watch_initiate E b cfrom h) (pret True) else pret False)
                 else pret False) (\<lambda>save2.
          pbind (pget (\<lambda>n. blocks_confirmed (cc n cfrom))) (\<lambda>k.
          if c \<ge> k then pseq (initiateTxnConfirmed E b offer) (pret True) else pret save2)))"

definition initiate_timeout :: "env \<Rightarrow> bytes \<Rightarrow> bool \<Rightarrow> (node, bool option) py" where
  "initiate_timeout E b save_bid =
     pbind (pget (\<lambda>n. bids n b)) (\<lambda>bid.
     pbind (if initiate_tx bid = None
            then pbind (need (state_time bid)) (\<lambda>t. pret (t + INITIATE_TX_TIMEOUT < now E))
            else pret False) (\<lambda>timed_out.
     if timed_out then
       pseq (set_bid_state b (now E) SWAP_TIMEDOUT) (pseq (saveBid b) (pret None))
     else pret (Some save_bid)))"

definition check_accepted :: "env \<Rightarrow> bytes \<Rightarrow> Offer \<Rightarrow> Coins \<Rightarrow> (node, bool option) py" where
  "check_accepted E b offer cfrom =
     pbind (get_itx b) (\<lambda>tx0.
     pbind (plift (of_option AttributeError (txid tx0))) (\<lambda>_.
     pbind (find_initiate E b cfrom) (\<lambda>r.
     case r of
       None \<Rightarrow> pret None
     | Some (index, tx_height) \<Rightarrow>
     pbind (get_itx b) (\<lambda>tx.
     let set_vout = (vout tx = None \<and> index \<noteq> None) in
     pseq (pwhen set_vout (upd_itx b (\<lambda>tx. tx\<lparr>vout := index\<rparr>)))
    (pbind (confirm_initiate E b offer cfrom (conf tx0) tx_height tx) (\<lambda>save_conf.
     initiate_timeout E b (conf tx \<noteq> conf tx0 \<or> set_vout \<or> save_conf)))))))"

definition found_participate :: "env \<Rightarrow> bytes \<Rightarrow> Coins \<Rightarrow> lock_found \<Rightarrow> SwapTx \<Rightarrow> (node, bool option) py" where
  "found_participate E b cto f ptx0 =
     pbind (pget (\<lambda>n. bids n b)) (\<lambda>bid.
     if lf_value f \<noteq> Some (amount_to bid) \<and> debug_ind bid \<noteq> Some (DebugTypes_val DBG_MAKE_INVALID_PTX) then
       pseq (setBidError b (now E) ''Incorrect output amount in participate txn'') (pret None)
     else
     let index = (case lf_index f of Some ix \<Rightarrow> Some ix | None \<Rightarrow> vout ptx0) in
     pseq (pwhen (conf ptx0 = None \<and> state ptx0 \<noteq> Some (TxStates_val TX_SENT))
       (pseq (addParticipateTxn E b cto (case lf_txid f of Some t \<Rightarrow> Some t | None \<Rightarrow> txid ptx0) index (lf_height f))
       (pbind (get_ptx b) (\<lambda>tx.
        pwhen (none_or_less (state tx) (TxStates_val TX_SENT)) (set_ptx_state b (now E) TX_SENT)))))
    (pseq (upd_ptx b (\<lambda>tx. tx\<lparr>conf := Some (lf_depth f)\<rparr>))
    (pbind (get_ptx b) (\<lambda>tx.
     pseq (pwhen (lf_height f > 0 \<and> block_height tx = None)
            (setTxBlockInfoFromHeight (upd_ptx b) (ci E cto) (lf_height f)))
          (pret (Some (conf ptx0 \<noteq> Some (lf_depth f))))))))"

definition look_participate :: "env \<Rightarrow> bytes \<Rightarrow> Coins \<Rightarrow> SwapTx \<Rightarrow> lock_search option \<Rightarrow> (node, bool option) py" where
  "look_participate E b cto ptx0 found =
     (case found of
        Some InvalidTxids \<Rightarrow>
          pbind (countBidEvents b EV_LOCK_TX_B_INVALID) (\<lambda>k.
          pseq (pwhen (k < 1) (logEvent b EV_LOCK_TX_B_INVALID ''Detected invalid lock tx B'')) (pret (Some False)))
      | Some (LockFound f) \<Rightarrow> found_participate E b cto f ptx0
      | None \<Rightarrow> pret (Some False))"

definition confirm_participate :: "env \<Rightarrow> bytes \<Rightarrow> Offer \<Rightarrow> Coins \<Rightarrow> bool \<Rightarrow> (node, bool) py" where
  "confirm_participate E b offer cto save_bid =
     pbind (get_ptx b) (\<lambda>tx.
     case conf tx of
       None \<Rightarrow> pret save_bid
     | Some c \<Rightarrow>
         pbind (pget (\<lambda>n. blocks_confirmed (cc n cto))) (\<lambda>k.
         if c \<ge> k then pseq (participateTxnConfirmed E b offer) (pret True) else pret save_bid))"

definition check_initiated :: "env \<Rightarrow> bytes \<Rightarrow> Offer \<Rightarrow> Coins \<Rightarrow> (node, bool option) py" where
  "check_initiated E b offer cto =
     pbind (get_ptx b) (\<lambda>ptx0.
     pbind (need (script ptx0)) (\<lambda>s.
     pbind (pget (\<lambda>n. bids n b)) (\<lambda>bid.
     pbind (plift (getLockTxHeight (ci E cto) (txid ptx0) (contract_addr (ci E cto) s) (amount_to bid)
        (chain_b_height_start bid) (vout ptx0) True)) (\<lambda>found.
     pbind (look_participate E b cto ptx0 found) (\<lambda>r.
     case r of
       None \<Rightarrow> pret None
     | Some save_bid \<Rightarrow> pbind (confirm_participate E b offer cto save_bid) (\<lambda>save_bid. pret (Some save_bid)))))))"

text \<open>\<open>x is None or x >= v\<close>.\<close>

definition none_or_at_least :: "int option \<Rightarrow> int \<Rightarrow> bool" where
  "none_or_at_least x v = (case x of None \<Rightarrow> True | Some y \<Rightarrow> y \<ge> v)"

definition check_completed :: "env \<Rightarrow> bytes \<Rightarrow> BidStates \<Rightarrow> (node, bool) py" where
  "check_completed E b st =
     (if st > BID_ACCEPTED then
        pbind (pget (\<lambda>n. bids n b)) (\<lambda>bid.
        let itx_state = getITxState bid; ptx_state = getPTxState bid in
        if none_or_at_least itx_state (TxStates_val TX_REDEEMED) \<and> none_or_at_least ptx_state (TxStates_val TX_REDEEMED)
        then pseq (returnAddressToPool b (if itx_state = Some (TxStates_val TX_REDEEMED) then ITX_REFUND else PTX_REDEEM))
            (pseq (returnAddressToPool b (if ptx_state = Some (TxStates_val TX_REDEEMED) then ITX_REFUND else PTX_REDEEM))
            (pseq (set_bid_state b (now E) SWAP_COMPLETED)
            (pseq (saveBid b)
            (pseq (pmod (\<lambda>n. n\<lparr>notified := notified n @ [(NT_SWAP_COMPLETED, b)]\<rparr>))
                  (pret True)))))
        else pret False)
      else pret False)"

definition isScriptRefundMature :: "coin_interface \<Rightarrow> Offer \<Rightarrow> bytes \<Rightarrow> SwapTx option \<Rightarrow> bool res" where
  "isScriptRefundMature i offer refund_tx parent_tx =
     (if lock_type offer = TxLockTypes_val ABS_LOCK_BLOCKS \<or> lock_type offer = TxLockTypes_val ABS_LOCK_TIME then
        rbind (getTxLocktime i refund_tx) (\<lambda>tx_locktime. isAbsLockTimeMature (chain i) tx_locktime None None)
      else case parent_tx of
        None \<Rightarrow> Inr False
      | Some p \<Rightarrow>
          if block_height p = None then Inr False
          else rbind (getTxInSequence i refund_tx 0) (\<lambda>txi_sequence.
               isCsvLockMature (chain i) (lock_type offer) txi_sequence (block_height p) (block_time p) None None None))"

definition sent_or_confirmed :: "int option \<Rightarrow> bool" where
  "sent_or_confirmed x \<longleftrightarrow> x = Some (TxStates_val TX_SENT) \<or> x = Some (TxStates_val TX_CONFIRMED)"

definition try_itx_refund :: "env \<Rightarrow> bytes \<Rightarrow> Offer \<Rightarrow> Coins \<Rightarrow> (node, unit) py" where
  "try_itx_refund E b offer cfrom =
     pbind (pget (\<lambda>n. bids n b)) (\<lambda>bid.
     case initiate_txn_refund bid of
       None \<Rightarrow> pret ()
     | Some refund \<Rightarrow>
         if sent_or_confirmed (getITxState bid) then
           pbind (plift (isScriptRefundMature (ci E cfrom) offer refund (initiate_tx bid))) (\<lambda>m.
           pwhen m (ptry (pbind (publish E cfrom refund) (\<lambda>_. logEvent b EV_ITX_REFUND_PUBLISHED ''''))
                         (\<lambda>_. pret ())))
         else pret ())"

definition try_ptx_refund :: "env \<Rightarrow> bytes \<Rightarrow> Offer \<Rightarrow> Coins \<Rightarrow> (node, unit) py" where
  "try_ptx_refund E b offer cto =
     pbind (pget (\<lambda>n. bids n b)) (\<lambda>bid.
     case participate_txn_refund bid of
       None \<Rightarrow> pret ()
     | Some refund \<Rightarrow>
         if sent_or_confirmed (getPTxState bid) then
           pseq (case participate_tx bid of
               None \<Rightarrow> pret ()
             | Some tx \<Rightarrow> pwhen (block_height tx = None)
                 (pbind (plift (getTxOutInfo (ci E cto) (txid tx) (vout tx))) (\<lambda>info.
                  case info of
                    None \<Rightarrow> pret ()
                  | Some h \<Rightarrow>
                      pseq (upd_ptx b (\<lambda>tx. tx\<lparr>block_hash := Some (bh_hash h), block_height := Some (bh_height h),
                             block_time := Some (bh_time h)\<rparr>))
                           (saveBid b))))
          (pbind (pget (\<lambda>n. participate_tx (bids n b))) (\<lambda>ptx.
           pbind (plift (isScriptRefundMature (ci E cto) offer refund ptx)) (\<lambda>m.
           pwhen m (ptry (pbind (publish E cto refund) (\<lambda>_. logEvent b EV_PTX_REFUND_PUBLISHED ''''))
                         (\<lambda>_. pret ())))))
         else pret ())"

definition check_branch :: "env \<Rightarrow> bytes \<Rightarrow> Offer \<Rightarrow> Coins \<Rightarrow> Coins \<Rightarrow> BidStates \<Rightarrow> (node, bool option) py" where
  "check_branch E b offer cfrom cto st =
     (if st = BID_ACCEPTED then check_accepted E b offer cfrom
      else if st = SWAP_INITIATED then check_initiated E b offer cto
      else pret (Some False))"

definition finish_check ::
  "env \<Rightarrow> bytes \<Rightarrow> Offer \<Rightarrow> Coins \<Rightarrow> Coins \<Rightarrow> BidStates \<Rightarrow> bool option \<Rightarrow> (node, bool) py" where
  "finish_check E b offer cfrom cto st r =
     (case r of
        None \<Rightarrow> pret True
      | Some save_bid \<Rightarrow>
          pbind (check_completed E b st) (\<lambda>done.
          if done then pret True
          else
          pseq (pwhen save_bid (saveBid b))
         (pbind (pget (\<lambda>n. debug_ind (bids n b))) (\<lambda>dbg.
          if dbg = Some (DebugTypes_val DBG_SKIP_LOCK_TX_REFUND) then pret False
          else pseq (try_itx_refund E b offer cfrom)
              (pseq (try_ptx_refund E b offer cto)
                    (pret False))))))"

text \<open>\<open>xmr\<close> stands for \<open>checkXmrBidState\<close>.\<close>

definition checkBidState :: "(node, bool) py \<Rightarrow> env \<Rightarrow> bytes \<Rightarrow> Offer \<Rightarrow> (node, bool) py" where
  "checkBidState xmr E b offer =
     pbind (pget (\<lambda>n. state (bids n b))) (\<lambda>s.
     pbind (plift (of_option (ValueError ''BidStates'') (Option.bind s BidStates_of))) (\<lambda>st.
     if swap_type offer = SwapTypes_val XMR_SWAP then xmr
     else
     pbind (plift (of_option (ValueError ''Coins'') (Coins_of (coin_from offer)))) (\<lambda>cfrom.
     pbind (plift (of_option (ValueError ''Coins'') (Coins_of (coin_to offer)))) (\<lambda>cto.
     if st = BID_ABANDONED then pret True
     else pbind (check_branch E b offer cfrom cto st) (finish_check E b offer cfrom cto st)))))"

subsection \<open>Spends of the two transactions\<close>

text \<open>A transaction input as the daemon reports it: the pushes of its witness or of its script, an element
  None where it is no hex string, and None for the list where the key is missing.\<close>

record spend_input =
  si_txinwitness :: "bytes option list option"
  si_asm :: "bytes option list option"

definition extractSecret :: "bool \<Rightarrow> Coins \<Rightarrow> spend_input \<Rightarrow> bytes option" where
  "extractSecret segwit c spend_in =
     (let pushes = (if c = DCR then si_asm spend_in
                    else if c = PART \<or> segwit then si_txinwitness spend_in
                    else si_asm spend_in)
      in case pushes of
           None \<Rightarrow> None
         | Some l \<Rightarrow> if length l = 5 then l ! 2 else None)"

definition initiateTxnSpent :: "env \<Rightarrow> bytes \<Rightarrow> bytes \<Rightarrow> nat \<Rightarrow> spend_input list \<Rightarrow> (node, unit) py" where
  "initiateTxnSpent E b spend_id sn vin =
     pbind (pget (\<lambda>n. map_of (swaps_in_progress n) b)) (\<lambda>entry.
     case entry of
       None \<Rightarrow> pret ()
     | Some offer \<Rightarrow>
     pseq (upd_itx b (\<lambda>tx. tx\<lparr>spend_txid := Some spend_id\<rparr>))
    (pseq (upd_itx b (\<lambda>tx. tx\<lparr>spend_n := Some (int sn)\<rparr>))
    (pbind (plift (if sn < length vin then Inr (vin ! sn) else Inl IndexError)) (\<lambda>spend_in.
     pbind (plift (of_option (ValueError ''Coins'') (Coins_of (coin_from offer)))) (\<lambda>cfrom.
     pbind (pget (\<lambda>n. use_segwit (cc n cfrom))) (\<lambda>segwit.
     pseq (case extractSecret segwit cfrom spend_in of
             None \<Rightarrow> pseq (set_itx_state b (now E) TX_REFUNDED) (logEvent b EV_ITX_REFUND_PUBLISHED '''')
           | Some secret \<Rightarrow> pseq (set_itx_state b (now E) TX_REDEEMED) (logEvent b EV_ITX_REDEEM_PUBLISHED ''''))
    (pbind (get_itx b) (\<lambda>tx.
     pbind (plift (of_option AttributeError (txid tx))) (\<lambda>t.
     pseq (removeWatchedOutput cfrom b (Some t) None)
          (saveBid b))))))))))"

definition participateTxnSpent :: "env \<Rightarrow> bytes \<Rightarrow> bytes \<Rightarrow> nat \<Rightarrow> spend_input list \<Rightarrow> (node, unit) py" where
  "participateTxnSpent E b spend_id sn vin =
     pbind (pget (\<lambda>n. map_of (swaps_in_progress n) b)) (\<lambda>entry.
     case entry of
       None \<Rightarrow> pret ()
     | Some offer \<Rightarrow>
     pseq (upd_ptx b (\<lambda>tx. tx\<lparr>spend_txid := Some spend_id\<rparr>))
    (pseq (upd_ptx b (\<lambda>tx. tx\<lparr>spend_n := Some (int sn)\<rparr>))
    (pbind (plift (if sn < length vin then Inr (vin ! sn) else Inl IndexError)) (\<lambda>spend_in.
     pbind (plift (of_option (ValueError ''Coins'') (Coins_of (coin_to offer)))) (\<lambda>cto.
     pbind (pget (\<lambda>n. use_segwit (cc n cto))) (\<lambda>segwit.
     pseq (case extractSecret segwit cto spend_in of
             None \<Rightarrow> pseq (set_ptx_state b (now E) TX_REFUNDED) (logEvent b EV_PTX_REFUND_PUBLISHED '''')
           | Some secret \<Rightarrow>
               pseq (pmod (upd_bid b (\<lambda>bid. bid\<lparr>recovered_secret := Some secret\<rparr>)))
              (pseq (set_ptx_state b (now E) TX_REDEEMED)
              (pbind (pget (\<lambda>n. bids n b)) (\<lambda>bid.
               pwhen (was_sent bid)
                 (if debug_ind bid = Some (DebugTypes_val DBG_DONT_SPEND_ITX) then
                    pseq (set_bid_state b (now E) BID_ABANDONED) (logEvent b EV_DEBUG_TWEAK_APPLIED ''ind '')
                  else createAction (now E) (duplicate_actions E) (short_delay E) REDEEM_ITX b)))))
    (pbind (get_ptx b) (\<lambda>tx.
     pbind (plift (of_option AttributeError (txid tx))) (\<lambda>t.
     pseq (removeWatchedOutput cto b (Some t) None)
          (saveBid b))))))))))"

text \<open>\<open>xmr\<close> is the branch of \<open>processSpentOutput\<close> for adaptor signature swaps.\<close>

definition processSpentOutput ::
  "(node, unit) py \<Rightarrow> env \<Rightarrow> WatchedOutput \<Rightarrow> bytes \<Rightarrow> nat \<Rightarrow> spend_input list \<Rightarrow> (node, unit) py" where
  "processSpentOutput xmr E w spend_id sn vin =
     (if wo_swap_type w = Some XMR_SWAP then xmr
      else if wo_tx_type w = BidStates_val SWAP_PARTICIPATING
      then participateTxnSpent E (wo_bid_id w) spend_id sn vin
      else initiateTxnSpent E (wo_bid_id w) spend_id sn vin)"

text \<open>\<open>getBidAndOffer\<close> reads fresh objects from the database.\<close>

definition getBidAndOffer :: "bytes \<Rightarrow> (node, Bid option \<times> Offer option) py" where
  "getBidAndOffer b =
     pget (\<lambda>n. case bid_rows n b of
                 None \<Rightarrow> (None, None)
               | Some bid \<Rightarrow> (Some bid, offer_rows n (bid_offer_id bid)))"

text \<open>The object \<open>redeemITx\<close> sets the spend id in is not saved: of the assignment it remains that the
  bid must have an initiate transaction.\<close>

definition redeemITx :: "env \<Rightarrow> bytes \<Rightarrow> (node, unit) py" where
  "redeemITx E b =
     pbind (getBidAndOffer b) (\<lambda>(bid, offer).
     pbind (plift (of_option AttributeError offer)) (\<lambda>offer.
     pbind (plift (of_option KeyError (Coins_of (coin_from offer)))) (\<lambda>cfrom.
     pbind (plift (of_option AttributeError bid)) (\<lambda>bid.
     pbind (plift (createRedeemTxn E cfrom bid ITX_REDEEM)) (\<lambda>r.
     pbind (need r) (\<lambda>txn.
     pbind (publish E cfrom txn) (\<lambda>t.
     pseq (plift (of_option AttributeError (initiate_tx bid)))
          (logEvent b EV_ITX_REDEEM_PUBLISHED ''''))))))))"

end
