(* ===== verification/Seller_First_Props.thy ===== *)
theory Seller_First_Props
  imports Seller_First
begin

text \<open>
  What the secret hash swap guarantees. Each primitive step of a handler is ordinary for its bid: it touches
  that bid only, publishes nothing and keeps the terms (relation \<open>ordinary\<close>, an \<open>effect_relation\<close>). Handlers
  that publish are shown to stay within a permitted set of transactions, from which follows what
  \<open>checkBidState\<close> can hand to a daemon. Then completion, the recovery of the secret, the link between the two
  contracts and a run that raises.
\<close>

section \<open>Specification vocabulary\<close>

text \<open>What a handler of bid \<open>b\<close> may touch: the object of that bid, and entries about that bid in the logs.\<close>

definition only_bid :: "bytes \<Rightarrow> node \<Rightarrow> node \<Rightarrow> bool" where
  "only_bid b n n' \<longleftrightarrow>
     (\<forall>x. x \<noteq> b \<longrightarrow> bids n' x = bids n x) \<and> swaps_in_progress n' = swaps_in_progress n
     \<and> (\<exists>es. events n' = events n @ es \<and> (\<forall>e\<in>set es. fst e = b))
     \<and> (\<forall>x. x \<noteq> b \<longrightarrow> bid_rows n' x = bid_rows n x) \<and> offer_rows n' = offer_rows n
     \<and> (\<exists>ps. pool_returns n' = pool_returns n @ ps \<and> (\<forall>x\<in>set ps. fst x = b))
     \<and> (\<exists>as. actions n' = actions n @ as \<and> (\<forall>a\<in>set as. action_linked_id a = b))
     \<and> (\<forall>c w. wo_bid_id w \<noteq> b \<longrightarrow> (w \<in> set (watched_outputs (coin_clients n' c)) \<longleftrightarrow> w \<in> set (watched_outputs (coin_clients n c))))
     \<and> (\<forall>c w. ws_bid_id w \<noteq> b \<longrightarrow> (w \<in> set (watched_scripts (coin_clients n' c)) \<longleftrightarrow> w \<in> set (watched_scripts (coin_clients n c))))"

text \<open>What stays the same unless a transaction is published: the published transactions, the settings and
  the terms of the bid.\<close>

definition same_terms :: "bytes \<Rightarrow> node \<Rightarrow> node \<Rightarrow> bool" where
  "same_terms b n n' \<longleftrightarrow>
     (\<forall>c. blocks_confirmed (coin_clients n' c) = blocks_confirmed (coin_clients n c))
     \<and> was_sent (bids n' b) = was_sent (bids n b) \<and> was_received (bids n' b) = was_received (bids n b)
     \<and> amount (bids n' b) = amount (bids n b) \<and> amount_to (bids n' b) = amount_to (bids n b)
     \<and> debug_ind (bids n' b) = debug_ind (bids n b)"

definition quiet :: "bytes \<Rightarrow> node \<Rightarrow> node \<Rightarrow> bool" where
  "quiet b n n' \<longleftrightarrow> published n' = published n \<and> same_terms b n n'"

text \<open>Both relations hold of every primitive step but publishing.\<close>

definition ordinary :: "bytes \<Rightarrow> node \<Rightarrow> node \<Rightarrow> bool" where
  "ordinary b n n' \<longleftrightarrow> only_bid b n n' \<and> quiet b n n'"

definition permitted :: "bytes \<Rightarrow> (Coins \<times> bytes) set \<Rightarrow> node \<Rightarrow> node \<Rightarrow> bool" where
  "permitted b A n n' \<longleftrightarrow> only_bid b n n' \<and> same_terms b n n'
     \<and> (\<exists>ps. published n' = published n @ ps \<and> (\<forall>p\<in>set ps. p \<in> A))"

text \<open>The chain shows \<open>c\<close> confirmations of the initiate (participate) transaction: they were recorded
  before, or it reports them now for an output of exactly the amount the bid is for.\<close>

definition itx_seen :: "env \<Rightarrow> bytes \<Rightarrow> Coins \<Rightarrow> node \<Rightarrow> int \<Rightarrow> bool" where
  "itx_seen E b cfrom n c \<longleftrightarrow> (\<exists>tx. initiate_tx (bids n b) = Some tx \<and> (conf tx = Some c
     \<or> (if cfrom = PART
        then \<exists>t raw v. txid tx = Some t \<and> part_rawtx E t = Inr raw \<and> v < length (rt_vout raw)
               \<and> ro_value (rt_vout raw ! v) = Inr (amount (bids n b)) \<and> rt_confirmations raw = Some c
        else \<exists>s f. script tx = Some s \<and> getLockTxHeight (ci E cfrom) (txid tx) (contract_addr (ci E cfrom) s)
                 (amount (bids n b)) (chain_a_height_start (bids n b)) (vout tx) False = Inr (Some (LockFound f))
               \<and> lf_value f = Some (amount (bids n b)) \<and> lf_depth f = c)))"

definition ptx_seen :: "env \<Rightarrow> bytes \<Rightarrow> Coins \<Rightarrow> node \<Rightarrow> int \<Rightarrow> bool" where
  "ptx_seen E b cto n c \<longleftrightarrow> (\<exists>tx. participate_tx (bids n b) = Some tx \<and> (conf tx = Some c
     \<or> (\<exists>s f. script tx = Some s \<and> getLockTxHeight (ci E cto) (txid tx) (contract_addr (ci E cto) s)
           (amount_to (bids n b)) (chain_b_height_start (bids n b)) (vout tx) True = Inr (Some (LockFound f))
         \<and> (lf_value f = Some (amount_to (bids n b)) \<or> debug_ind (bids n b) = Some (DebugTypes_val DBG_MAKE_INVALID_PTX))
         \<and> lf_depth f = c)))"

text \<open>What a run of \<open>checkBidState\<close> may publish.\<close>

definition may_publish :: "env \<Rightarrow> bytes \<Rightarrow> Offer \<Rightarrow> node \<Rightarrow> BidStates \<Rightarrow> (Coins \<times> bytes) set" where
  "may_publish E b offer n st = {(c, tx).
     (\<exists>p. isScriptRefundMature (ci E c) offer tx p = Inr True)
     \<or> (st = BID_ACCEPTED \<and> was_sent (bids n b) \<and> Coins_of (coin_to offer) = Some c
         \<and> (\<exists>cfrom k. Coins_of (coin_from offer) = Some cfrom \<and> blocks_confirmed (cc n cfrom) \<le> k \<and> itx_seen E b cfrom n k))
     \<or> (st = SWAP_INITIATED \<and> was_received (bids n b) \<and> Coins_of (coin_to offer) = Some c
         \<and> (\<exists>k. blocks_confirmed (cc n c) \<le> k \<and> ptx_seen E b c n k))}"

text \<open>Relations that only keep the state of the bid.\<close>

definition keeps_state :: "bytes \<Rightarrow> node \<Rightarrow> node \<Rightarrow> bool" where
  "keeps_state b n n' \<longleftrightarrow> state (bids n' b) = state (bids n b)"

definition both_spent :: "Bid \<Rightarrow> bool" where
  "both_spent bid \<longleftrightarrow> none_or_at_least (getITxState bid) (TxStates_val TX_REDEEMED)
     \<and> none_or_at_least (getPTxState bid) (TxStates_val TX_REDEEMED)"

text \<open>Concrete runs: an interface that finds nothing, and the environment made of it.\<close>

definition idle_interface :: coin_interface where
  "idle_interface = \<lparr>using_segwit = True, watch_blocks_for_scripts = False, getScriptDest = \<lambda>s. s,
     encodeScriptDest = \<lambda>_. ''addr'', encode_p2sh = \<lambda>_. ''addr'', getLockTxHeight = \<lambda>_ _ _ _ _ _. Inr None,
     getBlockHeaderFromHeight = \<lambda>h. Inr \<lparr>bh_hash = [], bh_height = h, bh_time = 1\<rparr>,
     getBlockHeaderAt = \<lambda>t _. Inr \<lparr>bh_hash = [], bh_height = 1, bh_time = t\<rparr>,
     chain = \<lparr>cv_height = Inr 2000, cv_median_time = Inr (Some 1700000000), cv_median_time_at = \<lambda>_. Inr (Some 1600000000)\<rparr>,
     publishTx = \<lambda>t. Inr t, getTxLocktime = \<lambda>_. Inr 0, getTxInSequence = \<lambda>_ _. Inr 10,
     getTxOutInfo = \<lambda>_ _. Inr None, createRawSignedTransaction = \<lambda>_ _. Inr [1],
     decoded_vout = \<lambda>_ _ _. Inr ([2], 0)\<rparr>"

definition idle_env :: env where
  "idle_env = \<lparr>ci = \<lambda>_. idle_interface, now = 1700000000, part_rawtx = \<lambda>_. Inl IndexError,
     createRefundTxn = \<lambda>_ _ _ _ _. Inr (Some [3]), createRedeemTxn = \<lambda>_ _ _. Inr (Some [4]),
     short_delay = 10, duplicate_actions = 0\<rparr>"

definition example_bid :: "BidStates \<Rightarrow> SwapTx option \<Rightarrow> SwapTx option \<Rightarrow> Bid" where
  "example_bid st itx ptx = (blank_bid [7])\<lparr>state := Some (BidStates_val st), initiate_tx := itx, participate_tx := ptx,
     was_sent := True, amount := 1000, pkhash_seller := Some (replicate 20 1), pkhash_buyer := Some (replicate 20 2)\<rparr>"

definition example_node :: "Bid \<Rightarrow> node" where
  "example_node bid = blank_node\<lparr>bids := \<lambda>_. bid, swaps_in_progress := [([7], blank_offer)]\<rparr>"

text \<open>A bid whose initiate transaction was sent and whose refund has matured.\<close>

definition refund_node :: node where
  "refund_node = example_node ((example_bid SWAP_PARTICIPATING
     (Some ((blank_tx [7] ITX)\<lparr>state := Some (TxStates_val TX_CONFIRMED), txid := Some [9], block_height := Some 100, block_time := Some 5\<rparr>))
     None)\<lparr>initiate_txn_refund := Some [5]\<rparr>)"

definition contract_node :: node where
  "contract_node = example_node (example_bid SWAP_INITIATED
     (Some ((blank_tx [7] ITX)\<lparr>script := Some (contract_shape [1, 34] (replicate 32 9) (replicate 20 1) (replicate 20 2)
        (op OP_CHECKSEQUENCEVERIFY) (op OP_SHA256))\<rparr>)) None)"

section \<open>Facts\<close>

lemma only_bid_refl: "only_bid b n n"
  by (simp add: only_bid_def)

lemma append_ex_trans:
  "(\<exists>es. y = x @ es \<and> (\<forall>e\<in>set es. P e)) \<Longrightarrow> (\<exists>es. z = y @ es \<and> (\<forall>e\<in>set es. P e)) \<Longrightarrow> (\<exists>es. z = x @ es \<and> (\<forall>e\<in>set es. P e))"
  by (metis Un_iff append.assoc set_append)

lemma only_bid_trans: "only_bid b n m \<Longrightarrow> only_bid b m k \<Longrightarrow> only_bid b n k"
  unfolding only_bid_def by (elim conjE, intro conjI) (simp, simp, erule (1) append_ex_trans, simp, simp, (erule (1) append_ex_trans)+, simp, simp)

interpretation frame: effect_relation "only_bid b" for b
  by unfold_locales (auto intro: only_bid_refl only_bid_trans)

lemmas quiet_defs = quiet_def same_terms_def

interpretation quiet: effect_relation "quiet b" for b
  by unfold_locales (auto simp: quiet_defs)

interpretation ordinary: effect_relation "ordinary b" for b
  by unfold_locales (auto simp: ordinary_def intro: only_bid_refl only_bid_trans quiet.refl quiet.trans)

lemma ordinary_bid_call:
  assumes "\<And>x. let y = snd (f x) in was_sent y = was_sent x \<and> was_received y = was_received x
      \<and> amount y = amount x \<and> amount_to y = amount_to x \<and> debug_ind y = debug_ind x"
  shows "steps (ordinary b) (bid_call b f)"
  using assms by (auto intro!: stepsI simp: bid_call_def ordinary_def only_bid_def quiet_defs upd_bid_def Let_def split: prod.splits)
    (metis snd_conv)+

lemma ordinary_set_states [intro!]:
  "steps (ordinary b) (set_bid_state b t s)"
  "steps (ordinary b) (set_itx_state b t ts)"
  "steps (ordinary b) (set_ptx_state b t ts)"
  unfolding set_bid_state_def set_itx_state_def set_ptx_state_def
  by (rule ordinary_bid_call; simp add: setState_def setITxState_def setPTxState_def Let_def split: sum.splits option.splits prod.splits)+

lemma ordinary_upd_bid:
  assumes "\<And>x. was_sent (f x) = was_sent x \<and> was_received (f x) = was_received x
      \<and> amount (f x) = amount x \<and> amount_to (f x) = amount_to x \<and> debug_ind (f x) = debug_ind x"
  shows "steps (ordinary b) (pmod (upd_bid b f))"
  using assms by (auto intro!: stepsI simp: py_simps ordinary_def only_bid_def quiet_defs upd_bid_def)

lemma ordinary_upd_tx [intro!]:
  "steps (ordinary b) (upd_itx b g)" "steps (ordinary b) (upd_ptx b g)" "steps (ordinary b) (get_itx b)" "steps (ordinary b) (get_ptx b)"
  unfolding upd_itx_def upd_ptx_def get_itx_def get_ptx_def by (auto intro!: ordinary_upd_bid)

lemma ordinary_upd_cc:
  assumes "\<And>x. blocks_confirmed (f x) = blocks_confirmed x"
    and "\<And>x w. wo_bid_id w \<noteq> b \<Longrightarrow> w \<in> set (watched_outputs (f x)) \<longleftrightarrow> w \<in> set (watched_outputs x)"
    and "\<And>x w. ws_bid_id w \<noteq> b \<Longrightarrow> w \<in> set (watched_scripts (f x)) \<longleftrightarrow> w \<in> set (watched_scripts x)"
  shows "steps (ordinary b) (pmod (upd_cc c f))"
  using assms by (auto intro!: stepsI simp: py_simps ordinary_def only_bid_def quiet_defs upd_cc_def)

lemma ordinary_watch [intro!]:
  "steps (ordinary b) (addWatchedOutput c b t v ty st)"
  "steps (ordinary b) (removeWatchedOutput c b t' v')"
  "steps (ordinary b) (addWatchedScript c b sc tt st)"
  unfolding addWatchedOutput_def removeWatchedOutput_def addWatchedScript_def
  by (rule ordinary_upd_cc; auto simp: add_output_def add_script_def delete_from_end_filter output_matches_def)+

lemma ordinary_logs [intro!]:
  "steps (ordinary b) (logEvent b e s)" "steps (ordinary b) (saveBid b)" "steps (ordinary b) (returnAddressToPool b ty)"
  "steps (ordinary b) (createAction t d dl a b)" "steps (ordinary b) (countBidEvents b e)"
  "steps (ordinary b) (pmod (\<lambda>n. n\<lparr>notified := g n\<rparr>))"
proof -
  show "steps (ordinary b) (createAction t d dl a b)"
  proof (rule stepsI)
    fix s r s'
    assume "createAction t d dl a b s = (r, s')"
    then show "ordinary b s s'"
      using createAction_run [of t d dl a b s] by (auto simp: ordinary_def only_bid_def quiet_defs)
  qed
qed (auto intro!: stepsI simp: logEvent_def returnAddressToPool_def countBidEvents_def Let_def py_simps ordinary_def only_bid_def quiet_defs)

lemma ordinary_start_height [intro!]: "steps (ordinary b) (start_height E c h)"
proof -
  have "steps (ordinary b) (pmod (\<lambda>n. (upd_cc c (\<lambda>c. c\<lparr>last_height_checked := h, block_check_min_time := t\<rparr>) n)\<lparr>min_time_kv := (c, t) # min_time_kv n\<rparr>))" for h t
    by (auto intro!: stepsI simp: py_simps ordinary_def only_bid_def quiet_defs upd_cc_def)
  then show ?thesis
    unfolding start_height_def setLastHeightCheckedStart_def Let_def by auto
qed

lemma ordinary_handlers [intro!]:
  "steps (ordinary b) (setBidError b t s)"
  "steps (ordinary b) (need x)"
  "steps (ordinary b) (setTxBlockInfoFromHeight (upd_itx b) i h)"
  "steps (ordinary b) (setTxBlockInfoFromHeight (upd_ptx b) i h)"
  "steps (ordinary b) (addParticipateTxn E b c tx v h)"
  "steps (ordinary b) (deriveParticipateScript E b offer)"
  "steps (ordinary b) (watch_initiate E b c h)"
  unfolding setBidError_def need_def setTxBlockInfoFromHeight_def addParticipateTxn_def deriveParticipateScript_def watch_initiate_def Let_def
  by (auto intro!: ordinary_upd_bid)

lemma ordinary_createParticipateTxn [intro!]: "steps (ordinary b) (createParticipateTxn E b offer s)"
  unfolding createParticipateTxn_def Let_def by (auto intro!: ordinary_upd_bid)

lemma ordinary_find_initiate [intro!]: "steps (ordinary b) (find_initiate E b c)"
  unfolding find_initiate_def Let_def by (auto intro!: ordinary_upd_bid split: lock_search.split)

lemma ordinary_found_participate [intro!]: "steps (ordinary b) (found_participate E b c f p)"
  unfolding found_participate_def Let_def by (auto intro!: ordinary_upd_bid)

lemma permitted_trans: "permitted b A n m \<Longrightarrow> permitted b A m k \<Longrightarrow> permitted b A n k"
  unfolding permitted_def
  by (elim conjE, intro conjI) (erule (1) only_bid_trans, simp add: same_terms_def, erule (1) append_ex_trans)

interpretation permitted: effect_relation "permitted b A" for b A
proof
  show "permitted b A s s" for s
    by (simp add: permitted_def only_bid_refl same_terms_def)
qed (rule permitted_trans)

lemma ordinary_permitted: "ordinary b n n' \<Longrightarrow> permitted b A n n'"
  by (simp add: ordinary_def permitted_def quiet_def)

lemma steps_permitted: "steps (ordinary b) m \<Longrightarrow> steps (permitted b A) m"
  unfolding steps_def by (simp add: ordinary_permitted)

lemma permitted_mono: "permitted b A n n' \<Longrightarrow> A \<subseteq> B \<Longrightarrow> permitted b B n n'"
  unfolding permitted_def by blast

lemma permitted_terms: "permitted b A n n' \<Longrightarrow> same_terms b n n'"
  by (simp add: permitted_def)

lemmas ordinary_steps = ordinary_set_states ordinary_upd_tx ordinary_watch ordinary_logs ordinary_start_height
  ordinary_handlers ordinary_createParticipateTxn ordinary_find_initiate ordinary_found_participate

lemmas permitted_steps [intro!] = ordinary_steps [THEN steps_permitted]

lemma permitted_publish:
  assumes "(c, tx) \<in> A"
  shows "steps (permitted b A) (publish E c tx)"
proof -
  have "steps (permitted b A) (pmod (\<lambda>n. n\<lparr>published := published n @ [(c, tx)]\<rparr>))"
    using assms by (auto intro!: stepsI simp: py_simps permitted_def only_bid_def same_terms_def)
  then show ?thesis
    unfolding publish_def by auto
qed

lemma permitted_upd_bid:
  assumes "\<And>x. was_sent (f x) = was_sent x \<and> was_received (f x) = was_received x
      \<and> amount (f x) = amount x \<and> amount_to (f x) = amount_to x \<and> debug_ind (f x) = debug_ind x"
  shows "steps (permitted b A) (pmod (upd_bid b f))"
  using assms by (rule ordinary_upd_bid [THEN steps_permitted])

lemma initiateTxnConfirmed_permitted:
  assumes "\<And>c tx. was_sent (bids n b) \<Longrightarrow> Coins_of (coin_to offer) = Some c \<Longrightarrow> (c, tx) \<in> A"
  shows "steps_at (permitted b A) (initiateTxnConfirmed E b offer) n"
  unfolding initiateTxnConfirmed_def
  apply (rule permitted.steps_at_pseq [OF steps_at_steps [OF permitted_steps(1)]])
  apply (rule permitted.steps_at_pseq [OF steps_at_steps [OF permitted_steps(2)]])
  apply (rule steps_at_pget, rule steps_at_steps)
  apply (drule permitted_terms)+
  apply (auto simp: same_terms_def intro!: permitted_publish permitted_upd_bid assms)
  done

lemma participateTxnConfirmed_permitted:
  assumes "\<And>c tx. was_received (bids n b) \<Longrightarrow> Coins_of (coin_to offer) = Some c \<Longrightarrow> (c, tx) \<in> A"
  shows "steps_at (permitted b A) (participateTxnConfirmed E b offer) n"
  unfolding participateTxnConfirmed_def
  apply (rule steps_at_pget, rule steps_at_steps)
  apply (auto intro!: permitted_publish assms)
  done

lemma check_completed_ordinary [intro!]: "steps (ordinary b) (check_completed E b st)"
  unfolding check_completed_def Let_def by auto

lemma try_refunds_permitted [intro!]:
  assumes "\<And>c tx p. isScriptRefundMature (ci E c) offer tx p = Inr True \<Longrightarrow> (c, tx) \<in> A"
  shows "steps (permitted b A) (try_itx_refund E b offer c)" "steps (permitted b A) (try_ptx_refund E b offer c)"
  unfolding try_itx_refund_def try_ptx_refund_def
  by (auto intro!: permitted_publish intro: assms split: option.split)

lemmas run_defs = pbind_def pseq_def ptry_def pwhen_def pret_def praise_def pget_def pmod_def plift_def
  get_itx_def get_ptx_def upd_itx_def upd_ptx_def need_def upd_bid_def

lemma find_initiate_seen:
  assumes "find_initiate E b cfrom n = (Inr (Some x), n')" "initiate_tx (bids n' b) = Some tx'" "conf tx' = Some c"
  shows "itx_seen E b cfrom n c"
proof -
  obtain tx where tx: "initiate_tx (bids n b) = Some tx"
    using assms(1) by (cases "initiate_tx (bids n b)") (auto simp: find_initiate_def run_defs)
  show ?thesis
  proof (cases "cfrom = PART")
    case True
    with assms tx show ?thesis
      by (auto simp: find_initiate_def run_defs Let_def itx_seen_def of_option_def split: sum.splits option.splits if_splits)
  next
    case False
    with assms tx show ?thesis
      by (auto simp: find_initiate_def run_defs Let_def itx_seen_def of_option_def setBidError_def
          split: sum.splits option.splits if_splits lock_search.splits prod.splits)
  qed
qed

lemma get_itx_run [run_simps]: "get_itx b n = (Inr tx, n') \<longleftrightarrow> n' = n \<and> initiate_tx (bids n b) = Some tx"
  by (auto simp: get_itx_def run_simps)

lemma get_ptx_run [run_simps]: "get_ptx b n = (Inr tx, n') \<longleftrightarrow> n' = n \<and> participate_tx (bids n b) = Some tx"
  by (auto simp: get_ptx_def run_simps)

lemma upd_ptx_run [run_simps]: "upd_ptx b f n = (Inr x, n') \<longleftrightarrow>
  (\<exists>tx. participate_tx (bids n b) = Some tx \<and> n' = upd_bid b (\<lambda>bid. bid\<lparr>participate_tx := Some (f tx)\<rparr>) n)"
  by (auto simp: upd_ptx_def run_simps)

lemma confirm_initiate_permitted:
  assumes A: "\<And>c cf tx. was_sent (bids n b) \<Longrightarrow> Coins_of (coin_to offer) = Some c \<Longrightarrow>
      blocks_confirmed (cc n cfrom) \<le> cf \<Longrightarrow> itx_seen E b cfrom n cf \<Longrightarrow> (c, tx) \<in> A"
    and m: "same_terms b n m" and tx: "\<And>c. conf tx = Some c \<Longrightarrow> itx_seen E b cfrom n c"
  shows "steps_at (permitted b A) (confirm_initiate E b offer cfrom last_conf h tx) m"
proof (cases "conf tx")
  case (Some c)
  have "steps_at (permitted b A) (if blocks_confirmed (cc s cfrom) \<le> c
      then pseq (initiateTxnConfirmed E b offer) (pret True) else pret save2) s"
    if "permitted b A m s" for s save2
  proof -
    have t: "same_terms b n s"
      using m permitted_terms [OF that] by (auto simp: same_terms_def)
    show ?thesis
    proof (cases "blocks_confirmed (cc s cfrom) \<le> c")
      case True
      then have "steps_at (permitted b A) (initiateTxnConfirmed E b offer) s"
        using t tx [OF Some] by (intro initiateTxnConfirmed_permitted A) (auto simp: same_terms_def)
      then show ?thesis
        unfolding if_P [OF True] by (rule permitted.steps_at_pseq) (rule steps_at_steps, blast)
    next
      case False
      show ?thesis
        unfolding if_not_P [OF False] by (rule steps_at_steps) blast
    qed
  qed
  note conf_step = this
  show ?thesis
    unfolding confirm_initiate_def Some option.case
    by (rule permitted.steps_at_pbind, rule steps_at_steps, blast, rule steps_at_pget, rule conf_step)
qed (auto simp: confirm_initiate_def intro!: steps_at_steps)

lemma initiate_timeout_permitted [intro!]: "steps (permitted b A) (initiate_timeout E b s)"
  unfolding initiate_timeout_def by auto

lemma check_accepted_permitted:
  assumes A: "\<And>c cf tx. was_sent (bids n b) \<Longrightarrow> Coins_of (coin_to offer) = Some c \<Longrightarrow>
      blocks_confirmed (cc n cfrom) \<le> cf \<Longrightarrow> itx_seen E b cfrom n cf \<Longrightarrow> (c, tx) \<in> A"
  shows "steps_at (permitted b A) (check_accepted E b offer cfrom) n"
  unfolding check_accepted_def Let_def
  apply (rule permitted.steps_at_pbind)
   apply (rule steps_at_steps, blast)
  apply (rule permitted.steps_at_pbind)
   apply (rule steps_at_steps, blast)
  apply (rule permitted.steps_at_pbind)
   apply (rule steps_at_steps, blast)
  subgoal for tx0 n0 u n1 r n2
    apply (cases r)
     apply (auto intro!: steps_at_steps)[1]
    apply (simp only: option.case split: prod.split)
    apply (intro allI impI)
    apply (rule permitted.steps_at_pbind)
     apply (rule steps_at_steps, blast)
    apply (rule permitted.steps_at_pseq)
     apply (rule steps_at_steps, blast)
    apply (rule permitted.steps_at_pbind)
     apply (rule confirm_initiate_permitted [OF A], assumption+)
      apply (auto simp: run_simps same_terms_def dest!: permitted_terms intro: find_initiate_seen)[2]
    apply (rule steps_at_steps, blast)
    done
  done

lemma setTxBlockInfo_conf:
  assumes "setTxBlockInfoFromHeight (upd_ptx b) i h n = (r, n')" "participate_tx (bids n b) = Some tx" "conf tx = c"
  shows "\<exists>tx'. participate_tx (bids n' b) = Some tx' \<and> conf tx' = c"
  using assms by (auto simp: setTxBlockInfoFromHeight_def run_defs of_option_def split: sum.splits option.splits)

lemma conf_recorded:
  assumes "pseq m (pseq (upd_ptx b (\<lambda>tx. tx\<lparr>conf := Some d\<rparr>)) (pbind (get_ptx b) (\<lambda>tx.
      pseq (pwhen (P tx) (setTxBlockInfoFromHeight (upd_ptx b) i h)) (pret y)))) n = (Inr z, n')"
  shows "\<exists>tx. participate_tx (bids n' b) = Some tx \<and> conf tx = Some d"
proof -
  obtain u n1 tx n2 where "pseq m (pret u) n = (Inr u, n1)"
    and n2: "n2 = upd_bid b (\<lambda>bid. bid\<lparr>participate_tx := Some (tx\<lparr>conf := Some d\<rparr>)\<rparr>) n1"
    and r: "pwhen (P (tx\<lparr>conf := Some d\<rparr>)) (setTxBlockInfoFromHeight (upd_ptx b) i h) n2 = (Inr (), n')"
    using assms by (auto simp: run_simps upd_bid_def simp del: pwhen_returns)
  have "participate_tx (bids n2 b) = Some (tx\<lparr>conf := Some d\<rparr>)"
    by (simp add: n2 upd_bid_def)
  then show ?thesis
    using r setTxBlockInfo_conf [of b i h n2 "Inr ()" n'] by (auto simp: pwhen_returns split: if_splits)
qed

lemma found_participate_seen:
  assumes "found_participate E b cto f p n = (Inr (Some s), n')"
  shows "(lf_value f = Some (amount_to (bids n b)) \<or> debug_ind (bids n b) = Some (DebugTypes_val DBG_MAKE_INVALID_PTX))
    \<and> (\<exists>tx. participate_tx (bids n' b) = Some tx \<and> conf tx = Some (lf_depth f))"
proof (cases "lf_value f \<noteq> Some (amount_to (bids n b)) \<and> debug_ind (bids n b) \<noteq> Some (DebugTypes_val DBG_MAKE_INVALID_PTX)")
  case True
  with assms show ?thesis
    by (simp add: found_participate_def pbind_def pget_def) (simp add: run_simps)
next
  case False
  then show ?thesis
    using assms unfolding found_participate_def pbind_def [of "pget _"] pget_def
    by (auto simp: Let_def simp del: DebugTypes_val.simps dest!: conf_recorded)
qed

lemma confirm_participate_permitted:
  assumes A: "\<And>c cf tx. was_received (bids n b) \<Longrightarrow> Coins_of (coin_to offer) = Some c \<Longrightarrow>
      blocks_confirmed (cc n cto) \<le> cf \<Longrightarrow> ptx_seen E b cto n cf \<Longrightarrow> (c, tx) \<in> A"
    and m: "same_terms b n m"
    and tx: "\<And>tx c. participate_tx (bids m b) = Some tx \<Longrightarrow> conf tx = Some c \<Longrightarrow> ptx_seen E b cto n c"
  shows "steps_at (permitted b A) (confirm_participate E b offer cto save) m"
  unfolding confirm_participate_def
proof (rule permitted.steps_at_pbind, rule steps_at_steps, blast)
  fix t s
  assume "get_ptx b m = (Inr t, s)"
  then have t: "participate_tx (bids m b) = Some t" and s: "s = m"
    by (auto simp: run_simps)
  show "steps_at (permitted b A) (case conf t of None \<Rightarrow> pret save | Some c \<Rightarrow>
      pbind (pget (\<lambda>n. blocks_confirmed (cc n cto))) (\<lambda>k.
      if k \<le> c then pseq (participateTxnConfirmed E b offer) (pret True) else pret save)) s"
  proof (cases "conf t")
    case (Some c)
    have "steps_at (permitted b A) (participateTxnConfirmed E b offer) m" if "blocks_confirmed (cc m cto) \<le> c"
      using that m tx [OF t Some] by (intro participateTxnConfirmed_permitted A) (auto simp: same_terms_def)
    then have "steps_at (permitted b A) (if blocks_confirmed (cc m cto) \<le> c
        then pseq (participateTxnConfirmed E b offer) (pret True) else pret save) m"
      by (cases "blocks_confirmed (cc m cto) \<le> c") (auto intro: permitted.steps_at_pseq steps_at_steps)
    then show ?thesis
      unfolding Some option.case s by (rule steps_at_pget)
  qed (auto intro: steps_at_steps)
qed

lemma look_participate_permitted [intro!]: "steps (permitted b A) (look_participate E b cto p found)"
  unfolding look_participate_def by (auto split: option.split lock_search.split)

lemma look_participate_seen:
  assumes p: "participate_tx (bids n b) = Some p" "script p = Some s"
    and found: "getLockTxHeight (ci E cto) (txid p) (contract_addr (ci E cto) s) (amount_to (bids n b))
          (chain_b_height_start (bids n b)) (vout p) True = Inr found"
    and look: "look_participate E b cto p found n = (Inr (Some sv), m)"
    and tx: "participate_tx (bids m b) = Some tx" "conf tx = Some c"
  shows "ptx_seen E b cto n c"
proof (cases "\<exists>f. found = Some (LockFound f)")
  case True
  then obtain f where "found = Some (LockFound f)" by blast
  with assms show ?thesis
    using found_participate_seen [of E b cto f p n sv m] by (auto simp: ptx_seen_def look_participate_def)
next
  case False
  then have "participate_tx (bids m b) = participate_tx (bids n b)"
    using look by (auto simp: look_participate_def run_simps logEvent_def countBidEvents_def
        split: option.splits lock_search.splits if_splits)
  with tx p show ?thesis
    by (auto simp: ptx_seen_def)
qed

lemma check_initiated_permitted:
  assumes A: "\<And>c cf tx. was_received (bids n b) \<Longrightarrow> Coins_of (coin_to offer) = Some c \<Longrightarrow>
      blocks_confirmed (cc n cto) \<le> cf \<Longrightarrow> ptx_seen E b cto n cf \<Longrightarrow> (c, tx) \<in> A"
  shows "steps_at (permitted b A) (check_initiated E b offer cto) n"
  unfolding check_initiated_def
proof (rule permitted.steps_at_pbind, rule steps_at_steps, blast,
    rule permitted.steps_at_pbind, rule steps_at_steps, blast, rule steps_at_pget,
    rule permitted.steps_at_pbind, rule steps_at_steps, blast,
    rule permitted.steps_at_pbind, rule steps_at_steps, blast)
  fix p n0 s n1 found n2 r m
  assume "get_ptx b n = (Inr p, n0)" "need (script p) n0 = (Inr s, n1)"
    and "plift (getLockTxHeight (ci E cto) (txid p) (contract_addr (ci E cto) s) (amount_to (bids n1 b))
          (chain_b_height_start (bids n1 b)) (vout p) True) n1 = (Inr found, n2)"
    and look: "look_participate E b cto p found n2 = (Inr r, m)" "permitted b A n2 m"
  then have n2: "n2 = n" and p: "participate_tx (bids n b) = Some p" "script p = Some s"
    and found: "getLockTxHeight (ci E cto) (txid p) (contract_addr (ci E cto) s) (amount_to (bids n b))
          (chain_b_height_start (bids n b)) (vout p) True = Inr found"
    by (auto simp: run_simps need_def)
  show "steps_at (permitted b A) (case r of None \<Rightarrow> pret None
      | Some sv \<Rightarrow> pbind (confirm_participate E b offer cto sv) (\<lambda>sv. pret (Some sv))) m"
  proof (cases r)
    case (Some sv)
    have "steps_at (permitted b A) (confirm_participate E b offer cto sv) m"
    proof (rule confirm_participate_permitted [OF A])
      show "same_terms b n m"
        using permitted_terms [OF look(2)] by (simp add: n2)
      show "ptx_seen E b cto n c" if "participate_tx (bids m b) = Some tx" "conf tx = Some c" for tx c
        using look_participate_seen [OF p found _ that] look(1) Some by (simp add: n2)
    qed
    then show ?thesis
      unfolding Some option.case by (rule permitted.steps_at_pbind) (rule steps_at_steps, blast)
  qed (auto intro: steps_at_steps)
qed

lemma may_publish_refund: "isScriptRefundMature (ci E c) offer tx p = Inr True \<Longrightarrow> (c, tx) \<in> may_publish E b offer n st"
  by (auto simp: may_publish_def)

lemma check_branch_permitted:
  assumes "Coins_of (coin_from offer) = Some cfrom" "Coins_of (coin_to offer) = Some cto"
  shows "steps_at (permitted b (may_publish E b offer n st)) (check_branch E b offer cfrom cto st) n"
proof -
  consider "st = BID_ACCEPTED" | "st = SWAP_INITIATED" | "st \<noteq> BID_ACCEPTED" "st \<noteq> SWAP_INITIATED"
    by blast
  then show ?thesis
  proof cases
    case 1
    then show ?thesis
      using assms unfolding check_branch_def by simp (rule check_accepted_permitted, auto simp: may_publish_def)
  next
    case 2
    then show ?thesis
      using assms unfolding check_branch_def by simp (rule check_initiated_permitted, auto simp: may_publish_def)
  qed (auto simp: check_branch_def intro: steps_at_steps)
qed

lemma finish_check_permitted:
  assumes "\<And>c tx p. isScriptRefundMature (ci E c) offer tx p = Inr True \<Longrightarrow> (c, tx) \<in> A"
  shows "steps (permitted b A) (finish_check E b offer cfrom cto st r)"
  unfolding finish_check_def
  by (auto intro!: check_completed_ordinary [THEN steps_permitted] assms split: option.split)

lemma checkBidState_eval:
  assumes "swap_type offer \<noteq> SwapTypes_val XMR_SWAP" "state (bids n b) = Some (BidStates_val st)"
    and "Coins_of (coin_from offer) = Some cfrom" "Coins_of (coin_to offer) = Some cto"
  shows "checkBidState xmr E b offer n = (if st = BID_ABANDONED then (Inr True, n)
    else pbind (check_branch E b offer cfrom cto st) (finish_check E b offer cfrom cto st) n)"
  using assms unfolding checkBidState_def
  by (simp add: pbind_def [of "pget _"] pbind_def [of "plift _"] py_simps)

lemma checkBidState_bad_coin:
  assumes "swap_type offer \<noteq> SwapTypes_val XMR_SWAP" "state (bids n b) = Some (BidStates_val st)"
    and "Coins_of (coin_from offer) = None \<or> Coins_of (coin_to offer) = None"
  shows "checkBidState xmr E b offer n = (Inl (ValueError ''Coins''), n)"
  using assms by (cases "Coins_of (coin_from offer)") (auto simp: checkBidState_def pbind_def py_simps)

lemma checkBidState_permitted:
  assumes "swap_type offer \<noteq> SwapTypes_val XMR_SWAP" "state (bids n b) = Some (BidStates_val st)"
  shows "steps_at (permitted b (may_publish E b offer n st)) (checkBidState xmr E b offer) n"
proof (cases "\<exists>cfrom cto. Coins_of (coin_from offer) = Some cfrom \<and> Coins_of (coin_to offer) = Some cto")
  case True
  then obtain cfrom cto where c: "Coins_of (coin_from offer) = Some cfrom" "Coins_of (coin_to offer) = Some cto"
    by blast
  have "steps_at (permitted b (may_publish E b offer n st))
      (pbind (check_branch E b offer cfrom cto st) (finish_check E b offer cfrom cto st)) n"
    by (rule permitted.steps_at_pbind [OF check_branch_permitted [OF c]])
      (intro steps_at_steps finish_check_permitted may_publish_refund)
  then show ?thesis
    unfolding steps_at_def checkBidState_eval [OF assms c] by (simp add: permitted.refl)
next
  case False
  then show ?thesis
    using checkBidState_bad_coin [OF assms] unfolding steps_at_def by (simp add: permitted.refl)
qed


text \<open>\<open>checkBidState\<close> for one bid leaves every other swap alone: the objects of other bids, the table of swaps
  in progress and the watches of other bids are unchanged, and every event, saved row, queued action and
  returned address it adds is about its own bid.\<close>

theorem checkBidState_frame:
  assumes "swap_type offer \<noteq> SwapTypes_val XMR_SWAP" "checkBidState xmr E b offer n = (r, n')"
  shows "only_bid b n n'"
proof (cases "Option.bind (state (bids n b)) BidStates_of")
  case None
  then show ?thesis
    using assms by (auto simp: checkBidState_def pbind_def py_simps only_bid_refl)
next
  case (Some st)
  then have "state (bids n b) = Some (BidStates_val st)"
    by (auto simp: Option.bind_eq_Some_conv BidStates_of_def find_Some_iff)
  from steps_at_run [OF checkBidState_permitted [OF assms(1) this] assms(2)] show ?thesis
    by (simp add: permitted_def)
qed

text \<open>A transaction that was seen and is not found again. When the initiate transaction was recorded with no
  confirmations and the search for it finds nothing, as it does when the daemon cannot be asked,
  \<open>checkBidState\<close> compares the missing height with 0 and raises TypeError.\<close>

theorem lost_initiate_tx_raises:
  assumes "swap_type offer \<noteq> SwapTypes_val XMR_SWAP" "state (bids n b) = Some (BidStates_val BID_ACCEPTED)"
    and "Coins_of (coin_from offer) = Some cfrom" "Coins_of (coin_to offer) = Some cto" "cfrom \<noteq> PART"
    and "initiate_tx (bids n b) = Some tx" "txid tx = Some t" "script tx = Some s" "conf tx = Some 0"
    and "getLockTxHeight (ci E cfrom) (Some t) (contract_addr (ci E cfrom) s) (amount (bids n b))
          (chain_a_height_start (bids n b)) (vout tx) False = Inr None"
  shows "checkBidState xmr E b offer n = (Inl TypeError, n)"
proof -
  have i: "get_itx b n = (Inr tx, n)"
    using assms by (simp add: run_simps)
  have f: "find_initiate E b cfrom n = (Inr (Some (None, None)), n)"
    using assms i by (simp add: find_initiate_def pbind_def py_simps need_def Let_def)
  have "check_accepted E b offer cfrom n = (Inl TypeError, n)"
    using assms i f unfolding check_accepted_def
    by (simp add: pbind_def pseq_def py_simps Let_def confirm_initiate_def none_or_less_def need_def)
  then show ?thesis
    using checkBidState_eval [OF assms(1-4)] by (simp add: check_branch_def pbind_def)
qed

interpretation keeps_state: effect_relation "keeps_state b" for b
  by unfold_locales (auto simp: keeps_state_def)

lemma keeps_state_steps [intro!]:
  "steps (keeps_state b) (upd_ptx b g)" "steps (keeps_state b) (saveBid b)" "steps (keeps_state b) (logEvent b e s)"
  "steps (keeps_state b) (publish E c tx)"
proof -
  have m: "steps (keeps_state b) (pmod h)" if "\<And>n. state (bids (h n) b) = state (bids n b)" for h
    using that by (auto intro!: stepsI simp: py_simps keeps_state_def)
  show "steps (keeps_state b) (upd_ptx b g)" "steps (keeps_state b) (saveBid b)" "steps (keeps_state b) (logEvent b e s)"
    "steps (keeps_state b) (publish E c tx)"
    unfolding upd_ptx_def get_ptx_def saveBid_def saveBidInSession_def logEvent_def publish_def by (auto intro!: m simp: upd_bid_def)
qed

lemma try_refunds_keep_state [intro!]:
  "steps (keeps_state b) (try_itx_refund E b offer c)" "steps (keeps_state b) (try_ptx_refund E b offer c)"
  unfolding try_itx_refund_def try_ptx_refund_def by (auto split: option.split)

lemma set_bid_state_ok:
  assumes "0 \<le> t" "t < 2 ^ 64"
  shows "\<exists>n'. set_bid_state b t s n = (Inr (), n') \<and> state (bids n' b) = Some (BidStates_val s)"
proof -
  have "0 \<le> BidStates_val s \<and> BidStates_val s < 2 ^ 32"
    by (cases s) simp_all
  then show ?thesis
    using assms by (simp add: set_bid_state_def bid_call_def setState_def Let_def pack_state_ok upd_bid_def)
qed

lemma check_completed_spent:
  assumes "BID_ACCEPTED < st" "both_spent (bids n b)" "0 \<le> now E" "now E < 2 ^ 64"
  shows "\<exists>n'. check_completed E b st n = (Inr True, n') \<and> state (bids n' b) = Some (BidStates_val SWAP_COMPLETED)
    \<and> (\<exists>row. bid_rows n' b = Some row \<and> state row = Some (BidStates_val SWAP_COMPLETED))"
proof -
  have "\<exists>n'. pseq (set_bid_state b (now E) SWAP_COMPLETED) (pseq (saveBid b)
      (pseq (pmod (\<lambda>n. n\<lparr>notified := notified n @ [(NT_SWAP_COMPLETED, b)]\<rparr>)) (pret True))) m = (Inr True, n')
      \<and> state (bids n' b) = Some (BidStates_val SWAP_COMPLETED) \<and> (\<exists>row. bid_rows n' b = Some row \<and> state row = Some (BidStates_val SWAP_COMPLETED))" for m
    using set_bid_state_ok [OF assms(3,4), of b SWAP_COMPLETED m] by (auto simp: pseq_def pbind_def py_simps)
  then show ?thesis
    using assms(1,2) unfolding check_completed_def both_spent_def
    by (simp add: pbind_def [of "pget _"] py_simps Let_def pseq_def [of "returnAddressToPool _ _"] pbind_def [of "returnAddressToPool _ _"] returnAddressToPool_def)
qed

text \<open>Completion. For a bid past acceptance that waits for nothing else, \<open>checkBidState\<close> returns True (the swap
  is archived) exactly when each of the two transactions is absent or spent, and then the bid is saved
  as completed; otherwise the state of the bid does not change. This includes bids in the state
  \<open>BID_ERROR\<close>: one without transactions is completed.\<close>

theorem checkBidState_completes:
  assumes "swap_type offer \<noteq> SwapTypes_val XMR_SWAP" "state (bids n b) = Some (BidStates_val st)"
    and "Coins_of (coin_from offer) = Some cfrom" "Coins_of (coin_to offer) = Some cto"
    and "BID_ACCEPTED < st" "st \<noteq> SWAP_INITIATED" "st \<noteq> BID_ABANDONED" "0 \<le> now E" "now E < 2 ^ 64"
    and "checkBidState xmr E b offer n = (r, n')"
  shows "if none_or_at_least (getITxState (bids n b)) (TxStates_val TX_REDEEMED)
            \<and> none_or_at_least (getPTxState (bids n b)) (TxStates_val TX_REDEEMED)
    then r = Inr True \<and> state (bids n' b) = Some (BidStates_val SWAP_COMPLETED) \<and> (\<exists>row. bid_rows n' b = Some row \<and> state row = Some (BidStates_val SWAP_COMPLETED))
    else r \<noteq> Inr True \<and> state (bids n' b) = state (bids n b)"
proof -
  have "st \<noteq> BID_ACCEPTED"
    using assms(5) by auto
  then have run: "pbind (check_completed E b st) (\<lambda>done. if done then pret True else
      pseq (pwhen False (saveBid b)) (pbind (pget (\<lambda>n. debug_ind (bids n b))) (\<lambda>dbg.
        if dbg = Some (DebugTypes_val DBG_SKIP_LOCK_TX_REFUND) then pret False
        else pseq (try_itx_refund E b offer cfrom) (pseq (try_ptx_refund E b offer cto) (pret False))))) n = (r, n')"
    using assms(6,7,10) checkBidState_eval [OF assms(1-4)]
    by (simp add: check_branch_def finish_check_def pbind_def [of "pret _"] py_simps)
  show ?thesis
  proof (cases "both_spent (bids n b)")
    case True
    then show ?thesis
      using check_completed_spent [OF assms(5) True assms(8,9)] run unfolding both_spent_def
      by (auto simp: pbind_def py_simps)
  next
    case False
    have "check_completed E b st n = (Inr False, n)"
      using assms(5) False unfolding check_completed_def both_spent_def by (auto simp: pbind_def py_simps Let_def)
    then have run': "pbind (pget (\<lambda>n. debug_ind (bids n b))) (\<lambda>dbg.
        if dbg = Some (DebugTypes_val DBG_SKIP_LOCK_TX_REFUND) then pret False
        else pseq (try_itx_refund E b offer cfrom) (pseq (try_ptx_refund E b offer cto) (pret False))) n = (r, n')"
      using run by (simp add: pbind_def [of "check_completed _ _ _"] pseq_def py_simps pbind_def [of "pret _"])
    have "steps (keeps_state b) (pbind (pget (\<lambda>n. debug_ind (bids n b))) (\<lambda>dbg.
        if dbg = Some (DebugTypes_val DBG_SKIP_LOCK_TX_REFUND) then pret False
        else pseq (try_itx_refund E b offer cfrom) (pseq (try_ptx_refund E b offer cto) (pret False))))"
      by auto
    from stepsD [OF this run'] have "state (bids n' b) = state (bids n b)"
      by (simp add: keeps_state_def)
    moreover have "r \<noteq> Inr True"
      using run' by (auto simp: run_simps split: if_splits)
    ultimately show ?thesis
      using False unfolding both_spent_def by simp
  qed
qed

lemma set_ptx_state_ok:
  assumes "0 \<le> t" "t < 2 ^ 64" "participate_tx (bids n b) = Some tx"
  shows "\<exists>n' tx'. set_ptx_state b t s n = (Inr (), n') \<and> participate_tx (bids n' b) = Some tx'
    \<and> state tx' = Some (TxStates_val s) \<and> txid tx' = txid tx
    \<and> n' = upd_bid b (\<lambda>bid. bid\<lparr>participate_tx := Some tx'\<rparr>) n"
proof -
  have "0 \<le> TxStates_val s \<and> TxStates_val s < 2 ^ 32"
    by (cases s) simp_all
  then show ?thesis
    using assms by (simp add: set_ptx_state_def bid_call_def setPTxState_def setState_def Let_def pack_state_ok upd_bid_def fun_upd_def)
qed


lemma contract_shape_hash: "length h = 32 \<Longrightarrow> extractScriptSecretHash (contract_shape n h r f op_lock op_hash) = h"
  unfolding extractScriptSecretHash_def contract_shape_def by (intro bslice_append_exact) simp_all

lemma verified_secret_hash:
  assumes "verifyContractScript s op_lock op_hash = Inr (True, Some h, v)"
  shows "extractScriptSecretHash s = h" "length h = 32"
proof -
  obtain n h' r k f where "(Some h, v) = (Some h', Some r, Some k, Some f)" "s = contract_shape n h' r f op_lock op_hash" "length h' = 32"
    using verify_sound [OF assms] by metis
  then show "extractScriptSecretHash s = h" "length h = 32"
    using contract_shape_hash by auto
qed

lemma build_verifies:
  assumes "length h = 32" "length r = 20" "length f = 20" "\<bar>v\<bar> < 2 ^ 31"
    and "buildContractScript v h r f (op ol) (op oh) = Inr s"
  shows "verifyContractScript s (op ol) (op oh) = Inr (True, Some h, Some r, Some v, Some f)"
proof -
  have ops: "0 \<le> op c \<and> op c < 256" for c
    by (cases c) simp_all
  obtain n where n: "SerialiseNum v = Inr n" "s = contract_shape n h r f (op ol) (op oh)"
    using assms(5) ops by (auto simp: buildContractScript_shape)
  show ?thesis
    unfolding n(2) using assms ops decodeScriptNum_SerialiseNum [OF n(1) assms(4)] by (intro verify_shape) simp_all
qed

lemma derive_builds:
  assumes "initiate_tx (bids n b) = Some tx" "script tx = Some itx_script"
    and "pkhash_seller (bids n b) = Some seller"
    and "pkhash_buyer (bids n b) = Some buyer" "pkhash_buyer_to (bids n b) = None"
    and "lock_type offer < TxLockTypes_val ABS_LOCK_BLOCKS" "Coins_of (coin_to offer) = Some cto"
    and "deriveParticipateScript E b offer n = (Inr s, n')"
  shows "\<exists>sq. getExpectedSequence (lock_type offer) (lock_value offer div 2) = Inr sq
    \<and> buildContractScript sq (extractScriptSecretHash itx_script) seller buyer (op OP_CHECKSEQUENCEVERIFY)
         (op (if cto = DCR then OP_SHA256_DECRED else OP_SHA256)) = Inr s"
  using assms by (cases "cto = DCR") (auto simp: deriveParticipateScript_def run_simps need_def Let_def)

text \<open>The two contracts are bound to one secret. If the initiate contract of a bid verifies, the participate
  contract \<open>deriveParticipateScript\<close> makes for a sequence lock verifies too, with the same secret hash, the
  offerer's key hash for the redeem, the bidder's key hash for the refund, and the sequence of half the
  offer's lock value: spending the one with the secret discloses what redeems the other.\<close>

theorem participate_contract_same_secret:
  assumes "initiate_tx (bids n b) = Some tx" "script tx = Some itx_script"
    and "verifyContractScript itx_script (op ol) (op oh) = Inr (True, Some h, v)"
    and "pkhash_seller (bids n b) = Some seller" "length seller = 20"
    and "pkhash_buyer (bids n b) = Some buyer" "length buyer = 20" "pkhash_buyer_to (bids n b) = None"
    and "lock_type offer < TxLockTypes_val ABS_LOCK_BLOCKS" "Coins_of (coin_to offer) = Some cto"
    and "deriveParticipateScript E b offer n = (Inr s, n')"
  shows "\<exists>sq. getExpectedSequence (lock_type offer) (lock_value offer div 2) = Inr sq
    \<and> (\<bar>sq\<bar> < 2 ^ 31 \<longrightarrow> verifyContractScript s (op OP_CHECKSEQUENCEVERIFY) (op (if cto = DCR then OP_SHA256_DECRED else OP_SHA256))
         = Inr (True, Some h, Some seller, Some sq, Some buyer))"
proof -
  have h: "extractScriptSecretHash itx_script = h" "length h = 32"
    using verified_secret_hash [OF assms(3)] by simp_all
  obtain sq where sq: "getExpectedSequence (lock_type offer) (lock_value offer div 2) = Inr sq"
    and s: "buildContractScript sq h seller buyer (op OP_CHECKSEQUENCEVERIFY) (op (if cto = DCR then OP_SHA256_DECRED else OP_SHA256)) = Inr s"
    using derive_builds [OF assms(1,2,4,6,8-11)] h by auto
  from sq build_verifies [OF h(2) assms(5,7) _ s] show ?thesis
    by auto
qed

lemmas example_defs = example_node_def example_bid_def blank_node_def blank_bid_def blank_offer_def

lemma example_coins: "Coins_of (coin_from blank_offer) = Some BTC" "Coins_of (coin_to blank_offer) = Some LTC"
  by (simp_all add: blank_offer_def Coins_of_def Coins_all_def)

theorem lost_initiate_tx_raises_witness:
  "checkBidState (pret False) idle_env [7] blank_offer
     (example_node (example_bid BID_ACCEPTED (Some ((blank_tx [7] ITX)\<lparr>txid := Some [9], script := Some [8], conf := Some 0\<rparr>)) None))
   = (Inl TypeError, example_node (example_bid BID_ACCEPTED (Some ((blank_tx [7] ITX)\<lparr>txid := Some [9], script := Some [8], conf := Some 0\<rparr>)) None))"
  by (rule lost_initiate_tx_raises [where t = "[9]" and s = "[8]"
        and tx = "(blank_tx [7] ITX)\<lparr>txid := Some [9], script := Some [8], conf := Some 0\<rparr>", OF _ _ example_coins])
    (simp_all add: example_defs blank_tx_def idle_env_def idle_interface_def)

theorem checkBidState_completes_witness:
  "\<exists>n'. checkBidState (pret False) idle_env [7] blank_offer (example_node (example_bid BID_ERROR None None)) = (Inr True, n')
     \<and> state (bids n' [7]) = Some (BidStates_val SWAP_COMPLETED)"
proof -
  let ?n = "example_node (example_bid BID_ERROR None None)"
  obtain r n' where run: "checkBidState (pret False) idle_env [7] blank_offer ?n = (r, n')"
    by fastforce
  have "r = Inr True \<and> state (bids n' [7]) = Some (BidStates_val SWAP_COMPLETED) \<and> (\<exists>row. bid_rows n' [7] = Some row \<and> state row = Some (BidStates_val SWAP_COMPLETED))"
    using checkBidState_completes [OF _ _ example_coins _ _ _ _ _ run, of BID_ERROR]
    by (simp add: example_defs idle_env_def less_BidStates_def none_or_at_least_def getITxState_def getPTxState_def)
  with run show ?thesis
    by blast
qed


theorem checkBidState_frame_witness:
  "only_bid [7] refund_node (snd (checkBidState (pret False) idle_env [7] blank_offer refund_node))"
proof -
  have "swap_type blank_offer \<noteq> SwapTypes_val XMR_SWAP"
    by (simp add: blank_offer_def)
  from checkBidState_frame [OF this prod.collapse [symmetric]] show ?thesis .
qed


theorem participate_contract_same_secret_witness:
  "\<exists>s n' sq. deriveParticipateScript idle_env [7] (blank_offer\<lparr>lock_value := 20\<rparr>) contract_node = (Inr s, n')
    \<and> getExpectedSequence 1 10 = Inr sq
    \<and> (\<bar>sq\<bar> < 2 ^ 31 \<longrightarrow> verifyContractScript s (op OP_CHECKSEQUENCEVERIFY) (op OP_SHA256)
         = Inr (True, Some (replicate 32 9), Some (replicate 20 1), Some sq, Some (replicate 20 2)))"
proof -
  let ?itx = "contract_shape [1, 34] (replicate 32 9) (replicate 20 1) (replicate 20 2) (op OP_CHECKSEQUENCEVERIFY) (op OP_SHA256)"
  have v: "verifyContractScript ?itx (op OP_CHECKSEQUENCEVERIFY) (op OP_SHA256)
      = Inr (True, Some (replicate 32 9), Some (replicate 20 1), Some 34, Some (replicate 20 2))"
    by code_simp
  have ok: "isl (fst (deriveParticipateScript idle_env [7] (blank_offer\<lparr>lock_value := 20\<rparr>) contract_node)) = False"
    by code_simp
  then obtain s n' where run: "deriveParticipateScript idle_env [7] (blank_offer\<lparr>lock_value := 20\<rparr>) contract_node = (Inr s, n')"
    by (cases "deriveParticipateScript idle_env [7] (blank_offer\<lparr>lock_value := 20\<rparr>) contract_node") (metis fst_conv isl_def sum.exhaust)
  have "\<exists>sq. getExpectedSequence (lock_type (blank_offer\<lparr>lock_value := 20\<rparr>)) (lock_value (blank_offer\<lparr>lock_value := 20\<rparr>) div 2) = Inr sq
    \<and> (\<bar>sq\<bar> < 2 ^ 31 \<longrightarrow> verifyContractScript s (op OP_CHECKSEQUENCEVERIFY) (op (if LTC = DCR then OP_SHA256_DECRED else OP_SHA256))
         = Inr (True, Some (replicate 32 9), Some (replicate 20 1), Some sq, Some (replicate 20 2)))"
    by (rule participate_contract_same_secret [where tx = "(blank_tx [7] ITX)\<lparr>script := Some ?itx\<rparr>", OF _ _ v _ _ _ _ _ _ _ run])
      (simp_all add: contract_node_def example_defs blank_tx_def Coins_of_def Coins_all_def)
  with run show ?thesis
    by (auto simp: blank_offer_def)
qed

end
