(* ===== verification/Action_Queue.thy ===== *)
theory Action_Queue
  imports Seller_First_Props
begin

text \<open>
  The queue of delayed actions of \<open>src/basicswap/basicswap.py\<close>: \<open>checkQueuedActions\<close>, \<open>countQueuedActions\<close>,
  \<open>removeQueuedActions\<close> and \<open>isBidTransientError\<close>. \<open>checkQueuedActions\<close> is split into the dispatch of one action,
  what is done when its handler raises (\<open>action_failed\<close>, with \<open>failed_accept\<close> and \<open>failed_step\<close>), the loop over the due
  rows (\<open>run_actions\<close>) and the statement that drops them (\<open>queue_pass\<close>). The handlers act on the database rows, so a
  bid that is in progress in memory keeps its object. The handlers of other swap types are a parameter; \<open>redeemITx\<close> is
  the one of the secret hash swap. The text of the logged error is kept without the exception formatted into it.
\<close>

section \<open>Definitions\<close>

text \<open>What a pass over the queue depends on: whether the wallets are unlocked, the handlers of the other
  swap types, the classification of errors by their texts, what SQLite restores on a rollback (from the state
  before the pass and the present one, as handlers may commit on their own) and the reload from the database.\<close>

record queue_env =
  q_env :: env
  q_unlocked :: "bool res"
  q_debug :: bool
  q_handler :: "ActionTypes \<Rightarrow> bytes \<Rightarrow> (node, unit) py"
  q_transient :: "py_error \<Rightarrow> bool"
  q_coin_transient :: "Coins \<Rightarrow> py_error \<Rightarrow> bool res"
  q_rollback :: "node \<Rightarrow> node \<Rightarrow> node"
  q_loadFromDB :: "(node, unit) py"

definition countQueuedActions :: "bytes \<Rightarrow> ActionTypes option \<Rightarrow> (node, nat) py" where
  "countQueuedActions b typ =
     pget (\<lambda>n. length (filter (\<lambda>a. action_active_ind a = 1 \<and> action_linked_id a = b
       \<and> (case typ of None \<Rightarrow> True | Some t \<Rightarrow> action_type a = ActionTypes_val t)) (actions n)))"

text \<open>\<open>DELETE FROM actions WHERE p\<close>, or with the debug setting \<open>UPDATE actions SET active_ind = 2 WHERE p\<close>.\<close>

definition drop_actions :: "bool \<Rightarrow> (Action \<Rightarrow> bool) \<Rightarrow> (node, unit) py" where
  "drop_actions debug p =
     pmod (\<lambda>n. n\<lparr>actions := if debug then map (\<lambda>a. if p a then a\<lparr>action_active_ind := 2\<rparr> else a) (actions n)
                             else filter (\<lambda>a. \<not> p a) (actions n)\<rparr>)"

definition removeQueuedActions :: "bool \<Rightarrow> bytes \<Rightarrow> ActionTypes \<Rightarrow> (node, unit) py" where
  "removeQueuedActions debug b typ =
     drop_actions debug (\<lambda>a. action_linked_id a = b \<and> action_type a = ActionTypes_val typ)"

definition isBidTransientError :: "queue_env \<Rightarrow> bytes \<Rightarrow> py_error \<Rightarrow> (node, bool) py" where
  "isBidTransientError Q b e =
     (if q_transient Q e then pret True
      else ptry
        (pbind (getBidAndOffer b) (\<lambda>(bid, offer).
         case offer of
           None \<Rightarrow> pret False
         | Some offer \<Rightarrow>
             pbind (plift (of_option (ValueError ''Coins'') (Coins_of (coin_from offer)))) (\<lambda>cfrom.
             pbind (plift (of_option (ValueError ''Coins'') (Coins_of (coin_to offer)))) (\<lambda>cto.
             pbind (plift (q_coin_transient Q cfrom e)) (\<lambda>from_transient.
             if from_transient then pret True else plift (q_coin_transient Q cto e))))))
        (\<lambda>_. pret False))"

definition ActionTypes_of :: "int \<Rightarrow> ActionTypes option" where
  "ActionTypes_of i = find (\<lambda>t. ActionTypes_val t = i)
     [ACCEPT_BID, ACCEPT_XMR_BID, SIGN_XMR_SWAP_LOCK_TX_A, SEND_XMR_SWAP_LOCK_TX_A, SEND_XMR_SWAP_LOCK_TX_B,
      SEND_XMR_LOCK_RELEASE, REDEEM_XMR_SWAP_LOCK_TX_A, REDEEM_XMR_SWAP_LOCK_TX_B, RECOVER_XMR_SWAP_LOCK_TX_B,
      SEND_XMR_SWAP_LOCK_SPEND_MSG, REDEEM_ITX, ACCEPT_AS_REV_BID, SEND_MERCY_TX]"

definition accepting_action :: "int \<Rightarrow> bool" where
  "accepting_action i \<longleftrightarrow> ActionTypes_of i \<in> {Some ACCEPT_BID, Some ACCEPT_XMR_BID, Some ACCEPT_AS_REV_BID}"

definition dispatch_action :: "queue_env \<Rightarrow> Action \<Rightarrow> (node, unit) py" where
  "dispatch_action Q a =
     (case ActionTypes_of (action_type a) of
        None \<Rightarrow> pret ()
      | Some t \<Rightarrow> if t = REDEEM_ITX then redeemITx (q_env Q) (action_linked_id a) else q_handler Q t (action_linked_id a))"

text \<open>\<open>bid.setState(s); saveBidInSession(bid_id, bid, cursor)\<close> on an object read from the database.\<close>

definition save_row_state :: "int \<Rightarrow> bytes \<Rightarrow> Bid \<Rightarrow> int \<Rightarrow> (node, unit) py" where
  "save_row_state t b bid s =
     (case setState s t bid of
        (Inl e, _) \<Rightarrow> praise e
      | (Inr _, bid') \<Rightarrow> saveBidInSession b bid')"

definition can_accept_value :: "int \<Rightarrow> bool" where
  "can_accept_value s \<longleftrightarrow> (case BidStates_of s of None \<Rightarrow> False | Some st \<Rightarrow> canAcceptBidState st)"

text \<open>A bid that could not be accepted goes back to the state before the delay.\<close>

definition failed_accept :: "queue_env \<Rightarrow> bytes \<Rightarrow> (node, unit) py" where
  "failed_accept Q b =
     pbind (countQueuedActions b None) (\<lambda>k.
     if k < 2 then
       pbind (getBidAndOffer b) (\<lambda>(bid, offer).
       pbind (plift (of_option AttributeError bid)) (\<lambda>bid.
       pbind (plift (of_option TypeError (states bid))) (\<lambda>packed.
       pbind (plift (getLastBidState packed)) (\<lambda>last_state.
       if state bid = Some (BidStates_val SWAP_DELAYING) \<and> can_accept_value last_state
       then pbind (plift (of_option AttributeError offer)) (\<lambda>offer.
            save_row_state (now (q_env Q)) b bid (if bid_reversed offer then BidStates_val BID_ERROR else last_state))
       else pret ()))))
     else pret ())"

definition failed_step :: "queue_env \<Rightarrow> bytes \<Rightarrow> (node, unit) py" where
  "failed_step Q b =
     pbind (pget (\<lambda>n. bid_rows n b)) (\<lambda>bid.
     case bid of
       None \<Rightarrow> pret ()
     | Some bid \<Rightarrow> save_row_state (now (q_env Q)) b bid (BidStates_val BID_ERROR))"

text \<open>The body of the loop; True when the action is to be retried.\<close>

definition action_failed :: "queue_env \<Rightarrow> Action \<Rightarrow> py_error \<Rightarrow> (node, bool) py" where
  "action_failed Q a e =
     (case e of
        TemporaryError _ \<Rightarrow> pret True
      | _ \<Rightarrow>
          pseq (logEvent (action_linked_id a) EV_ERROR ''checkQueuedActions failed: '')
         (pbind (isBidTransientError Q (action_linked_id a) e) (\<lambda>transient.
          if transient then pret True
          else if accepting_action (action_type a) then pseq (failed_accept Q (action_linked_id a)) (pret False)
          else pseq (failed_step Q (action_linked_id a)) (pret False))))"

definition run_action :: "queue_env \<Rightarrow> Action \<Rightarrow> (node, bool) py" where
  "run_action Q a = ptry (pseq (dispatch_action Q a) (pret False)) (action_failed Q a)"

primrec run_actions :: "queue_env \<Rightarrow> Action list \<Rightarrow> (node, int list) py" where
  "run_actions Q [] = pret []"
| "run_actions Q (a # as) =
     pbind (run_action Q a) (\<lambda>again.
     pbind (run_actions Q as) (\<lambda>retry_action_ids.
     pret (if again then action_id a # retry_action_ids else retry_action_ids)))"

definition due :: "int \<Rightarrow> Action \<Rightarrow> bool" where
  "due t a \<longleftrightarrow> action_active_ind a = 1 \<and> action_trigger_at a \<le> t"

definition queue_pass :: "queue_env \<Rightarrow> (node, unit) py" where
  "queue_pass Q =
     pbind (pget (\<lambda>n. filter (due (now (q_env Q))) (actions n))) (\<lambda>rows.
     pbind (run_actions Q rows) (\<lambda>retry_action_ids.
     drop_actions (q_debug Q) (\<lambda>a. action_trigger_at a \<le> now (q_env Q) \<and> action_id a \<notin> set retry_action_ids)))"

definition checkQueuedActions :: "queue_env \<Rightarrow> (node, unit) py" where
  "checkQueuedActions Q =
     pbind (plift (q_unlocked Q)) (\<lambda>unlocked.
     if \<not> unlocked then pret ()
     else pbind (pget (\<lambda>n. n)) (\<lambda>before.
          ptry (queue_pass Q) (\<lambda>_.
            pseq (pmod (q_rollback Q before)) (q_loadFromDB Q))))"

section \<open>Specification vocabulary\<close>

text \<open>The errors after which an action is tried again.\<close>

definition retriable :: "queue_env \<Rightarrow> Action \<Rightarrow> py_error \<Rightarrow> node \<Rightarrow> bool" where
  "retriable Q a e n \<longleftrightarrow>
     (\<exists>m. e = TemporaryError m) \<or> fst (isBidTransientError Q (action_linked_id a) e n) = Inr True"


text \<open>What a failed accept changes: nothing, or the row of the bid.\<close>

definition restored :: "bytes \<Rightarrow> node \<Rightarrow> Bid \<Rightarrow> bool" where
  "restored b n row \<longleftrightarrow> (\<exists>bid packed s offer. bid_rows n b = Some bid \<and> state bid = Some (BidStates_val SWAP_DELAYING)
     \<and> states bid = Some packed \<and> getLastBidState packed = Inr s \<and> can_accept_value s \<and> offer_rows n (bid_offer_id bid) = Some offer
     \<and> state row = Some (if bid_reversed offer then BidStates_val BID_ERROR else s))"

text \<open>A queue with one action for the bid 7, whose handler fails for good, or temporarily for the second lock transaction.\<close>

definition idle_queue :: queue_env where
  "idle_queue = \<lparr>q_env = idle_env, q_unlocked = Inr True, q_debug = False,
     q_handler = \<lambda>t _. if t = SEND_XMR_SWAP_LOCK_TX_B then praise (TemporaryError ''busy'') else praise (ValueError ''failed''),
     q_transient = \<lambda>e. case e of TemporaryError _ \<Rightarrow> True | _ \<Rightarrow> False, q_coin_transient = \<lambda>_ _. Inr False,
     q_rollback = \<lambda>before _. before, q_loadFromDB = pret ()\<rparr>"

definition queued_node :: "ActionTypes \<Rightarrow> node" where
  "queued_node t = blank_node\<lparr>bid_rows := [[7] \<mapsto> snd (setState (BidStates_val SWAP_DELAYING) 9
       (snd (setState (BidStates_val BID_RECEIVED) 8 (blank_bid [7]))))],
     offer_rows := \<lambda>_. Some blank_offer, actions := insert_action 0 5 t [7] []\<rparr>"

abbreviation "queued_action t \<equiv> hd (actions (queued_node t))"

section \<open>Facts\<close>

lemma transient_state [simp]: "snd (isBidTransientError Q b e n) = n"
  unfolding isBidTransientError_def getBidAndOffer_def
  by (auto simp: py_simps pbind_def ptry_def plift_def split: option.split sum.split)

lemma transient_returns: "\<exists>v. isBidTransientError Q b e n = (Inr v, n)"
  unfolding isBidTransientError_def getBidAndOffer_def
  by (auto simp: py_simps pbind_def ptry_def plift_def split: option.split sum.split)

lemma transient_events [simp]:
  "fst (isBidTransientError Q b e (n\<lparr>events := x\<rparr>)) = fst (isBidTransientError Q b e n)"
  unfolding isBidTransientError_def getBidAndOffer_def
  by (auto simp: py_simps pbind_def ptry_def plift_def split: option.split sum.split)

lemma action_failed_eval:
  assumes "\<nexists>m. e = TemporaryError m"
  shows "action_failed Q a e n =
     (let n1 = n\<lparr>events := events n @ [(action_linked_id a, EV_ERROR, ''checkQueuedActions failed: '')]\<rparr>
      in if retriable Q a e n then (Inr True, n1)
         else if accepting_action (action_type a) then pseq (failed_accept Q (action_linked_id a)) (pret False) n1
         else pseq (failed_step Q (action_linked_id a)) (pret False) n1)"
proof -
  let ?n1 = "n\<lparr>events := events n @ [(action_linked_id a, EV_ERROR, ''checkQueuedActions failed: '')]\<rparr>"
  obtain v where v: "isBidTransientError Q (action_linked_id a) e ?n1 = (Inr v, ?n1)"
    using transient_returns by blast
  then have "fst (isBidTransientError Q (action_linked_id a) e n) = Inr v"
    using transient_events by (metis fst_conv)
  then have "v = retriable Q a e n"
    using assms by (auto simp: retriable_def)
  then show ?thesis
    using v assms unfolding action_failed_def
    by (cases e) (simp_all add: pseq_def pbind_def logEvent_def py_simps Let_def)
qed

lemma action_failed_retries:
  assumes "action_failed Q a e n = (Inr True, n')"
  shows "retriable Q a e n"
proof (cases "\<exists>m. e = TemporaryError m")
  case True
  then show ?thesis
    by (auto simp: retriable_def)
next
  case False
  then show ?thesis
    using assms by (auto simp: action_failed_eval Let_def run_simps split: if_splits)
qed

lemma run_action_retries:
  assumes "run_action Q a n = (Inr True, n')"
  shows "\<exists>e m. dispatch_action Q a n = (Inl e, m) \<and> retriable Q a e m"
  using assms action_failed_retries
  by (auto simp: run_action_def ptry_def pseq_def pbind_def py_simps split: prod.splits sum.splits)

lemma run_actions_retries:
  assumes "run_actions Q as n = (Inr ids, n')" "i \<in> set ids"
  shows "\<exists>a\<in>set as. action_id a = i \<and> (\<exists>s e m. dispatch_action Q a s = (Inl e, m) \<and> retriable Q a e m)"
  using assms
proof (induction as arbitrary: n ids)
  case (Cons a as)
  then obtain again ids' m where "run_action Q a n = (Inr again, m)" "run_actions Q as m = (Inr ids', n')"
      "ids = (if again then action_id a # ids' else ids')"
    by (auto simp: run_simps)
  with Cons.IH [OF this(2)] Cons.prems(2) show ?case
    using run_action_retries by (cases again) (auto, blast+)
qed (simp add: run_simps)

text \<open>C24. What a pass over the queue leaves. When the wallets are unlocked and no error escapes the loop, an
  action that is due after the pass was due before it, and its handler raised a temporary error or one
  classified as transient. So no action runs again after it succeeded or failed for good; and an
  action a handler queued for at once, without a delay, is dropped without having run.\<close>

theorem queue_pass_leaves_retries:
  assumes "q_unlocked Q = Inr True" "queue_pass Q n = (Inr (), n')"
  shows "checkQueuedActions Q n = (Inr (), n')
    \<and> (\<forall>a\<in>set (actions n'). due (now (q_env Q)) a \<longrightarrow>
         (\<exists>a0\<in>set (actions n). due (now (q_env Q)) a0 \<and> action_id a0 = action_id a
            \<and> (\<exists>s e m. dispatch_action Q a0 s = (Inl e, m) \<and> retriable Q a0 e m)))"
proof -
  obtain ids m where run: "run_actions Q (filter (due (now (q_env Q))) (actions n)) n = (Inr ids, m)"
    and n': "n' = snd (drop_actions (q_debug Q) (\<lambda>a. action_trigger_at a \<le> now (q_env Q) \<and> action_id a \<notin> set ids) m)"
    using assms(2) by (auto simp: queue_pass_def run_simps drop_actions_def py_simps)
  have "action_id a \<in> set ids" if "a \<in> set (actions n')" "due (now (q_env Q)) a" for a
    using that by (auto simp: n' drop_actions_def py_simps due_def split: if_splits)
  moreover have "checkQueuedActions Q n = (Inr (), n')"
    using assms by (simp add: checkQueuedActions_def pbind_def ptry_def py_simps)
  ultimately show ?thesis
    using run_actions_retries [OF run] by fastforce
qed


lemma save_row_state_run:
  assumes "0 \<le> s" "s < 2 ^ 32" "0 \<le> t" "t < 2 ^ 64"
  shows "\<exists>row. save_row_state t b bid s n = (Inr (), n\<lparr>bid_rows := (bid_rows n)(b \<mapsto> row)\<rparr>) \<and> state row = Some s"
proof -
  obtain bid' where "setState s t bid = (Inr (), bid')" "state bid' = Some s"
    using assms by (simp add: setState_def Let_def pack_state_ok)
  then show ?thesis
    by (intro exI [of _ "saved_row (bid_rows n b) bid'"]) (simp add: save_row_state_def saveBidInSession_def py_simps)
qed

lemma dispatch_failed: "dispatch_action Q a n = (Inl e, m) \<Longrightarrow> run_action Q a n = action_failed Q a e m"
  by (simp add: run_action_def ptry_def pseq_def pbind_def)

text \<open>A step of a swap that fails for good. When the handler of an action other than accepting a bid raises an
  error that is neither temporary nor transient, the bid's row in the database is in the state \<open>BID_ERROR\<close> and the
  error is logged, no other row changes, and the action is not retried.\<close>

theorem failed_action_sets_error:
  assumes "dispatch_action Q a n = (Inl e, m)" "\<not> retriable Q a e m" "\<not> accepting_action (action_type a)"
    and "bid_rows m (action_linked_id a) = Some bid" "0 \<le> now (q_env Q)" "now (q_env Q) < 2 ^ 64"
  shows "\<exists>n' row. run_action Q a n = (Inr False, n') \<and> bid_rows n' = (bid_rows m)(action_linked_id a \<mapsto> row)
    \<and> state row = Some (BidStates_val BID_ERROR) \<and> bids n' = bids m
    \<and> events n' = events m @ [(action_linked_id a, EV_ERROR, ''checkQueuedActions failed: '')]"
proof -
  have "\<nexists>m. e = TemporaryError m"
    using assms(2) by (auto simp: retriable_def)
  moreover define n1 where "n1 = m\<lparr>events := events m @ [(action_linked_id a, EV_ERROR, ''checkQueuedActions failed: '')]\<rparr>"
  ultimately have "run_action Q a n = pseq (failed_step Q (action_linked_id a)) (pret False) n1"
    using assms(2,3) by (simp add: dispatch_failed [OF assms(1)] action_failed_eval Let_def)
  moreover obtain row where "save_row_state (now (q_env Q)) (action_linked_id a) bid (BidStates_val BID_ERROR) n1
      = (Inr (), n1\<lparr>bid_rows := (bid_rows n1)(action_linked_id a \<mapsto> row)\<rparr>)" "state row = Some (BidStates_val BID_ERROR)"
    using save_row_state_run [of "BidStates_val BID_ERROR" "now (q_env Q)"] assms(5,6) by fastforce
  ultimately show ?thesis
    using assms(4) by (intro exI [of _ "n1\<lparr>bid_rows := (bid_rows n1)(action_linked_id a \<mapsto> row)\<rparr>"] exI [of _ row])
      (simp add: failed_step_def pseq_def pbind_def py_simps n1_def)
qed

lemma save_row_state_cases:
  assumes "save_row_state t b bid s n = (r, n')"
  shows "n' = n \<or> (\<exists>row. n' = n\<lparr>bid_rows := (bid_rows n)(b \<mapsto> row)\<rparr> \<and> state row = Some s)"
proof (cases "setState s t bid")
  case (Pair r' bid')
  then show ?thesis
  proof (cases r')
    case (Inl e)
    then show ?thesis
      using assms Pair by (simp add: save_row_state_def py_simps)
  next
    case (Inr u)
    then have "n' = n\<lparr>bid_rows := (bid_rows n)(b \<mapsto> saved_row (bid_rows n b) bid')\<rparr>"
      using assms Pair by (simp add: save_row_state_def saveBidInSession_def py_simps)
    moreover have "state bid' = Some s"
      using Pair Inr by (auto simp: setState_def Let_def split: sum.splits)
    ultimately show ?thesis
      by (intro disjI2 exI [of _ "saved_row (bid_rows n b) bid'"]) simp
  qed
qed

lemma restored_events [simp]: "restored b (n\<lparr>events := x\<rparr>) = restored b n"
  by (simp add: restored_def fun_eq_iff)

lemma failed_accept_row:
  assumes "failed_accept Q b n = (r, n')"
  shows "n' = n \<or> (\<exists>row. n' = n\<lparr>bid_rows := (bid_rows n)(b \<mapsto> row)\<rparr> \<and> restored b n row)"
proof (cases "bid_rows n b")
  case None
  then show ?thesis
    using assms by (simp add: failed_accept_def countQueuedActions_def getBidAndOffer_def pbind_def py_simps of_option_def split: if_splits)
next
  case (Some bid)
  note eval = failed_accept_def countQueuedActions_def getBidAndOffer_def pbind_def py_simps of_option_def
  show ?thesis
  proof (cases "states bid")
    case None
    then show ?thesis
      using assms Some by (simp add: eval split: if_splits)
  next
    case (Some packed)
    note packed = Some
    show ?thesis
    proof (cases "getLastBidState packed")
      case (Inl e)
      then show ?thesis
        using assms packed \<open>bid_rows n b = Some bid\<close> by (simp add: eval split: if_splits)
    next
      case (Inr s)
      show ?thesis
      proof (cases "offer_rows n (bid_offer_id bid)")
        case None
        then show ?thesis
          using assms packed Inr \<open>bid_rows n b = Some bid\<close> by (simp add: eval split: if_splits)
      next
        case (Some offer)
        then have "n' = n \<or> save_row_state (now (q_env Q)) b bid (if bid_reversed offer then BidStates_val BID_ERROR else s) n = (r, n')
            \<and> state bid = Some (BidStates_val SWAP_DELAYING) \<and> can_accept_value s"
          using assms packed Inr \<open>bid_rows n b = Some bid\<close> by (auto simp: eval split: if_splits)
        then show ?thesis
          using Some packed Inr \<open>bid_rows n b = Some bid\<close> unfolding restored_def
          by (auto dest!: save_row_state_cases)
      qed
    qed
  qed
qed

text \<open>A bid that could not be accepted. When accepting a bid fails for good, its row either stays as it was or, if it was
  delayed, goes back to the state before the delay, from which it can be accepted again; it is put into
  \<open>BID_ERROR\<close> only for a reversed offer. Bids in memory and the queue are not touched.\<close>

theorem failed_accept_restores:
  assumes "dispatch_action Q a n = (Inl e, m)" "\<not> retriable Q a e m" "accepting_action (action_type a)"
    and "run_action Q a n = (r, n')"
  shows "bids n' = bids m \<and> actions n' = actions m \<and> (\<forall>b. b \<noteq> action_linked_id a \<longrightarrow> bid_rows n' b = bid_rows m b)
    \<and> (bid_rows n' (action_linked_id a) = bid_rows m (action_linked_id a)
       \<or> (\<exists>row. bid_rows n' (action_linked_id a) = Some row \<and> restored (action_linked_id a) m row))"
proof -
  define n1 where "n1 = m\<lparr>events := events m @ [(action_linked_id a, EV_ERROR, ''checkQueuedActions failed: '')]\<rparr>"
  have "\<nexists>m. e = TemporaryError m"
    using assms(2) by (auto simp: retriable_def)
  then have "run_action Q a n = pseq (failed_accept Q (action_linked_id a)) (pret False) n1"
    using assms(2,3) by (simp add: dispatch_failed [OF assms(1)] action_failed_eval Let_def n1_def)
  then obtain r' where "failed_accept Q (action_linked_id a) n1 = (r', n')"
    using assms(4) by (auto simp: pseq_def pbind_def py_simps split: prod.splits sum.splits)
  from failed_accept_row [OF this] show ?thesis
    by (auto simp: n1_def)
qed


theorem queue_pass_leaves_retries_witness:
  "checkQueuedActions idle_queue (queued_node SEND_XMR_SWAP_LOCK_TX_B) = queue_pass idle_queue (queued_node SEND_XMR_SWAP_LOCK_TX_B)
   \<and> map action_id (actions (snd (queue_pass idle_queue (queued_node SEND_XMR_SWAP_LOCK_TX_B)))) = [1]
   \<and> actions (snd (queue_pass idle_queue (queued_node ACCEPT_BID))) = []"
proof -
  have ok: "fst (queue_pass idle_queue (queued_node SEND_XMR_SWAP_LOCK_TX_B)) = Inr ()"
    by code_simp
  have unlocked: "q_unlocked idle_queue = Inr True"
    by (simp add: idle_queue_def)
  have "queue_pass idle_queue (queued_node SEND_XMR_SWAP_LOCK_TX_B)
      = (Inr (), snd (queue_pass idle_queue (queued_node SEND_XMR_SWAP_LOCK_TX_B)))"
    using ok by (metis prod.collapse)
  from queue_pass_leaves_retries [OF unlocked this] this
  have "checkQueuedActions idle_queue (queued_node SEND_XMR_SWAP_LOCK_TX_B) = queue_pass idle_queue (queued_node SEND_XMR_SWAP_LOCK_TX_B)"
    by simp
  moreover have "map action_id (actions (snd (queue_pass idle_queue (queued_node SEND_XMR_SWAP_LOCK_TX_B)))) = [1]"
    by code_simp
  moreover have "actions (snd (queue_pass idle_queue (queued_node ACCEPT_BID))) = []"
    by code_simp
  ultimately show ?thesis
    by blast
qed

lemma idle_dispatch:
  assumes "t \<in> {ACCEPT_BID, SEND_XMR_LOCK_RELEASE}"
  shows "dispatch_action idle_queue (queued_action t) (queued_node t) = (Inl (ValueError ''failed''), queued_node t)"
    "\<not> retriable idle_queue (queued_action t) (ValueError ''failed'') (queued_node t)"
    "action_linked_id (queued_action t) = [7]" "action_type (queued_action t) = ActionTypes_val t"
  using assms
  by (auto simp: dispatch_action_def queued_node_def insert_action_def ActionTypes_of_def idle_queue_def py_simps
      retriable_def isBidTransientError_def getBidAndOffer_def pbind_def ptry_def of_option_def blank_offer_def Coins_of_def Coins_all_def)

theorem failed_action_sets_error_witness:
  "\<exists>n' row. run_action idle_queue (queued_action SEND_XMR_LOCK_RELEASE) (queued_node SEND_XMR_LOCK_RELEASE) = (Inr False, n')
     \<and> bid_rows n' [7] = Some row \<and> state row = Some (BidStates_val BID_ERROR)"
proof -
  obtain bid where "bid_rows (queued_node SEND_XMR_LOCK_RELEASE) (action_linked_id (queued_action SEND_XMR_LOCK_RELEASE)) = Some bid"
    by (simp add: queued_node_def insert_action_def)
  moreover have "\<not> accepting_action (action_type (queued_action SEND_XMR_LOCK_RELEASE))"
    by code_simp
  ultimately show ?thesis
    using failed_action_sets_error [OF idle_dispatch(1,2) [of SEND_XMR_LOCK_RELEASE], of bid]
    by (auto simp: idle_dispatch(3) idle_queue_def idle_env_def)
qed

theorem failed_accept_restores_witness:
  "\<exists>n'. run_action idle_queue (queued_action ACCEPT_BID) (queued_node ACCEPT_BID) = (Inr False, n')
     \<and> map_option state (bid_rows n' [7]) = Some (Some (BidStates_val BID_RECEIVED)) \<and> bids n' = bids (queued_node ACCEPT_BID)"
proof -
  have r: "fst (run_action idle_queue (queued_action ACCEPT_BID) (queued_node ACCEPT_BID)) = Inr False"
    by code_simp
  have s: "map_option state (bid_rows (snd (run_action idle_queue (queued_action ACCEPT_BID) (queued_node ACCEPT_BID))) [7])
      = Some (Some (BidStates_val BID_RECEIVED))"
    by code_simp
  have a: "accepting_action (action_type (queued_action ACCEPT_BID))"
    by code_simp
  have "bids (snd (run_action idle_queue (queued_action ACCEPT_BID) (queued_node ACCEPT_BID))) = bids (queued_node ACCEPT_BID)"
    using failed_accept_restores [OF idle_dispatch(1,2) [of ACCEPT_BID] a prod.collapse [symmetric]] by simp
  with r s show ?thesis
    by (metis prod.collapse)
qed

end
