(* ===== verification/Offer_Validation.thy ===== *)
theory Offer_Validation
  imports Chainparams Database Timelocks
begin

text \<open>
  The checks an offer and a bid pass before the node sends or accepts them, from
  \<open>src/basicswap/basicswap.py\<close>: \<open>validateSwapType\<close>, \<open>validateOfferAmounts\<close>, \<open>validateOfferLockValue\<close>, the
  valid times, \<open>validateBidAmount\<close> with \<open>ratesMatch\<close>, \<open>is_reverse_ads_bid\<close> and
  \<open>getAcceptBidMsgValidTime\<close>. Settings the code reads (\<open>strict_swap_type\<close>, the chain, the bounds on
  sequence locks, whether a coin has CSV) are arguments. Texts of errors are kept without the values formatted into them.
\<close>

section \<open>Definitions\<close>

definition balance_only_coins :: "Coins list" where
  "balance_only_coins = [LTC_MWEB]"

definition adaptor_swap_only_coins :: "Coins list" where
  "adaptor_swap_only_coins = scriptless_coins @ [PART_BLIND, BCH]"

definition validOfferStateToReceiveBid :: "int \<Rightarrow> bool" where
  "validOfferStateToReceiveBid offer_state =
     (if offer_state = OfferStates_val OFFER_RECEIVED then True
      else if offer_state = OfferStates_val OFFER_SENT then True
      else False)"

definition SMSG_SECONDS_IN_HOUR :: int where
  "SMSG_SECONDS_IN_HOUR = 60 * 60"

definition getActiveBidMsgValidTime :: int where
  "getActiveBidMsgValidTime = SMSG_SECONDS_IN_HOUR * 48"

definition getAcceptBidMsgValidTime :: "int \<Rightarrow> Bid \<Rightarrow> int" where
  "getAcceptBidMsgValidTime now bid =
     (let smsg_max_valid = SMSG_SECONDS_IN_HOUR * 48;
          smsg_min_valid = SMSG_SECONDS_IN_HOUR * 1;
          bid_valid = (expire_at bid - now) + 10 * 60
      in max smsg_min_valid (min smsg_max_valid bid_valid))"

definition is_reverse_ads_bid :: "Coins \<Rightarrow> Coins \<Rightarrow> bool" where
  "is_reverse_ads_bid cfrom cto \<longleftrightarrow> cfrom \<in> set (scriptless_coins @ coins_without_segwit)"

definition validateSwapType :: "bool \<Rightarrow> Coins \<Rightarrow> Coins \<Rightarrow> int \<Rightarrow> unit res" where
  "validateSwapType strict_swap_type cfrom cto swap =
     (if cfrom \<in> set balance_only_coins \<or> cto \<in> set balance_only_coins then Inl (ValueError ''Invalid coin'')
      else if swap = SwapTypes_val XMR_SWAP then
        (let reverse_bid = is_reverse_ads_bid cfrom cto;
             itx_coin = (if reverse_bid then cto else cfrom);
             ptx_coin = (if reverse_bid then cfrom else cto)
         in if itx_coin \<in> set (coins_without_segwit @ scriptless_coins) then
              (if ptx_coin \<in> set (coins_without_segwit @ scriptless_coins)
               then Inl (ValueError ''not currently supported'')
               else Inl (ValueError ''Invalid swap type''))
            else Inr ())
      else if cfrom \<in> set adaptor_swap_only_coins \<or> cto \<in> set adaptor_swap_only_coins
      then Inl (ValueError ''Invalid swap type'')
      else if strict_swap_type \<and> (cfrom \<notin> set coins_without_segwit \<or> cto \<notin> set coins_without_segwit)
      then Inl (ValueError ''Coin pair should use adaptor sig swap type'')
      else Inr ())"

text \<open>\<open>min_from\<close> and so on are \<open>min_amount()\<close> and \<open>max_amount()\<close> of the two coin interfaces.\<close>

definition validateOfferAmounts :: "int \<Rightarrow> int \<Rightarrow> int \<Rightarrow> int \<Rightarrow> int \<Rightarrow> int \<Rightarrow> int \<Rightarrow> unit res" where
  "validateOfferAmounts min_from max_from min_to max_to amt amt_to min_bid =
     rbind (ensure (amt \<ge> min_bid) ''amount < min_bid_amount'') (\<lambda>_.
     rbind (ensure (amt > min_from) ''From amount below min value for chain'') (\<lambda>_.
     rbind (ensure (amt < max_from) ''From amount above max value for chain'') (\<lambda>_.
     rbind (ensure (amt_to > min_to) ''To amount below min value for chain'') (\<lambda>_.
     ensure (amt_to < max_to) ''To amount above max value for chain''))))"

record lock_settings =
  use_csv :: "Coins \<Rightarrow> bool"
  is_regtest :: bool
  min_sequence_lock_seconds :: int
  max_sequence_lock_seconds :: int

definition csv_activated :: "lock_settings \<Rightarrow> int \<Rightarrow> Coins \<Rightarrow> Coins \<Rightarrow> unit res" where
  "csv_activated cfg swap cfrom cto =
     (if swap = SwapTypes_val XMR_SWAP
      then ensure (if is_reverse_ads_bid cfrom cto then use_csv cfg cto else use_csv cfg cfrom) ''ITX coin needs CSV activated''
      else ensure (use_csv cfg cfrom \<and> use_csv cfg cto) ''Both coins need CSV activated'')"

definition validateOfferLockValue :: "lock_settings \<Rightarrow> int \<Rightarrow> Coins \<Rightarrow> Coins \<Rightarrow> int \<Rightarrow> int \<Rightarrow> unit res" where
  "validateOfferLockValue cfg swap cfrom cto ltype lvalue =
     (if ltype = TxLockTypes_val SEQUENCE_LOCK_TIME then
        rbind (ensure (lvalue \<ge> min_sequence_lock_seconds cfg \<and> lvalue \<le> max_sequence_lock_seconds cfg)
          ''Invalid lock_value time'') (\<lambda>_.
        csv_activated cfg swap cfrom cto)
      else if ltype = TxLockTypes_val SEQUENCE_LOCK_BLOCKS then
        rbind (ensure (is_regtest cfg) ''SEQUENCE_LOCK_BLOCKS is for testing only'') (\<lambda>_.
        rbind (ensure (lvalue \<ge> 5 \<and> lvalue \<le> 1000) ''Invalid lock_value blocks'') (\<lambda>_.
        csv_activated cfg swap cfrom cto))
      else if ltype = TxLockTypes_val ABS_LOCK_TIME then
        rbind (ensure (\<not> use_csv cfg cfrom \<or> \<not> use_csv cfg cto) ''Should use CSV'') (\<lambda>_.
        ensure (lvalue \<ge> 4 * 60 * 60 \<and> lvalue \<le> 96 * 60 * 60) ''Invalid lock_value time'')
      else if ltype = TxLockTypes_val ABS_LOCK_BLOCKS then
        rbind (ensure (is_regtest cfg) ''ABS_LOCK_BLOCKS is for testing only'') (\<lambda>_.
        rbind (ensure (\<not> use_csv cfg cfrom \<or> \<not> use_csv cfg cto) ''Should use CSV'') (\<lambda>_.
        ensure (lvalue \<ge> 10 \<and> lvalue \<le> 1000) ''Invalid lock_value blocks''))
      else Inl (ValueError ''Unknown locktype''))"

definition validateOfferValidTime :: "int \<Rightarrow> unit res" where
  "validateOfferValidTime valid_for_seconds =
     (if valid_for_seconds < 10 * 60 then Inl (ValueError ''Offer TTL too low'')
      else if valid_for_seconds > 48 * 60 * 60 then Inl (ValueError ''Offer TTL too high'')
      else Inr ())"

definition validateBidValidTime :: "int \<Rightarrow> unit res" where
  "validateBidValidTime valid_for_seconds =
     (if valid_for_seconds < 10 * 60 then Inl (ValueError ''Bid TTL too low'')
      else if valid_for_seconds > 24 * 60 * 60 then Inl (ValueError ''Bid TTL too high'')
      else Inr ())"

definition calculateRateTolerance :: "int \<Rightarrow> int" where
  "calculateRateTolerance r = max 1 (r div 10000)"

definition ratesMatch :: "int \<Rightarrow> int \<Rightarrow> int \<Rightarrow> bool" where
  "ratesMatch rate1 rate2 r = (let tolerance = calculateRateTolerance r in \<bar>rate1 - rate2\<bar> \<le> tolerance)"

definition validateBidAmount :: "Offer \<Rightarrow> int \<Rightarrow> int \<Rightarrow> unit res" where
  "validateBidAmount offer bid_amount bid_rate =
     rbind (ensure (bid_rate > 0) ''Bid rate must be greater than zero'') (\<lambda>_.
     rbind (ensure (bid_amount \<ge> min_bid_amount offer) ''Bid amount below minimum'') (\<lambda>_.
     rbind (ensure (bid_amount \<le> amount_from offer) ''Bid amount above offer amount'') (\<lambda>_.
     rbind (if \<not> amount_negotiable offer then ensure (amount_from offer = bid_amount) ''Bid amount must match offer amount.''
            else Inr ()) (\<lambda>_.
     if \<not> rate_negotiable offer then ensure (ratesMatch bid_rate (offer_rate offer) (offer_rate offer)) ''Rate mismatch.''
     else Inr ()))))"

section \<open>Facts\<close>

lemmas validation_defs = validateOfferLockValue_def csv_activated_def

text \<open>In strict mode every ordered pair of coins has at most one swap type: of the secret hash swap and
  the adaptor signature swap \<open>validateSwapType\<close> accepts at most one, and it accepts one exactly when no
  coin is balance-only and either one coin of the pair can carry the script or both are coins without
  segwit that can do a secret hash swap.\<close>

theorem strict_swap_type_unique:
  "\<not> (validateSwapType True a b (SwapTypes_val SELLER_FIRST) = Inr () \<and> validateSwapType True a b (SwapTypes_val XMR_SWAP) = Inr ())
   \<and> ((\<exists>s\<in>{SELLER_FIRST, XMR_SWAP}. validateSwapType True a b (SwapTypes_val s) = Inr ()) \<longleftrightarrow>
       a \<noteq> LTC_MWEB \<and> b \<noteq> LTC_MWEB \<and>
       (\<not> {a, b} \<subseteq> set (coins_without_segwit @ scriptless_coins) \<or> {a, b} \<subseteq> set coins_without_segwit))"
proof -
  have "a \<in> set balance_only_coins \<longleftrightarrow> a = LTC_MWEB" "b \<in> set balance_only_coins \<longleftrightarrow> b = LTC_MWEB"
    by (simp_all add: balance_only_coins_def)
  moreover have "c \<in> set coins_without_segwit \<Longrightarrow> c \<notin> set adaptor_swap_only_coins" for c
    by (auto simp: coins_without_segwit_def adaptor_swap_only_coins_def scriptless_coins_def)
  ultimately show ?thesis
    by (auto simp: validateSwapType_def is_reverse_ads_bid_def Let_def)
qed

theorem strict_swap_type_unique_witness:
  "validateSwapType True BTC XMR (SwapTypes_val XMR_SWAP) = Inr () \<and> validateSwapType True BTC XMR (SwapTypes_val SELLER_FIRST) \<noteq> Inr ()"
proof -
  have x: "validateSwapType True BTC XMR (SwapTypes_val XMR_SWAP) = Inr ()"
    by code_simp
  with strict_swap_type_unique [of BTC XMR] show ?thesis
    by blast
qed

lemma lock_order:
  assumes "validateOfferLockValue cfg swap cfrom cto lt lv = Inr ()"
    and "lt = TxLockTypes_val SEQUENCE_LOCK_TIME \<or> lt = TxLockTypes_val SEQUENCE_LOCK_BLOCKS"
    and "1024 \<le> min_sequence_lock_seconds cfg" and "max_sequence_lock_seconds cfg \<le> 0xFFFF * 512"
  shows "\<exists>si sp. getExpectedSequence lt lv = Inr si \<and> getExpectedSequence lt (lv div 2) = Inr sp
    \<and> lv div 2 \<le> decodeSequence sp \<and> decodeSequence sp < decodeSequence si \<and> lv \<le> decodeSequence si
    \<and> 0 \<le> sp \<and> sp < 2 ^ 31"
proof (cases "lt = TxLockTypes_val SEQUENCE_LOCK_TIME")
  case True
  then have lv: "1024 \<le> lv" "lv \<le> 0xFFFF * 512"
    using assms by (auto simp: validation_defs)
  obtain qi where qi: "getExpectedSequence lt lv = Inr (qi + 2 ^ 22)" "decodeSequence (qi + 2 ^ 22) = 512 * qi" "lv \<le> 512 * qi"
    using sequence_time [of lv] lv True by auto
  have half: "1 \<le> lv div 2" "lv div 2 \<le> 0xFFFF * 512"
    using lv by linarith+
  obtain qp where qp: "getExpectedSequence lt (lv div 2) = Inr (qp + 2 ^ 22)" "decodeSequence (qp + 2 ^ 22) = 512 * qp"
      "lv div 2 \<le> 512 * qp" "512 * qp < lv div 2 + 512" "1 \<le> qp" "qp \<le> 0xFFFF"
    using sequence_time [OF half] True by auto
  have "lv div 2 + 512 \<le> lv"
    using lv by linarith
  with qi qp show ?thesis
    by (intro exI [of _ "qi + 2 ^ 22"] exI [of _ "qp + 2 ^ 22"]) simp
next
  case False
  then have lt: "lt = TxLockTypes_val SEQUENCE_LOCK_BLOCKS" and lv: "5 \<le> lv" "lv \<le> 1000"
    using assms by (auto simp: validation_defs)
  then show ?thesis
    using sequence_blocks [of lv] sequence_blocks [of "lv div 2"] by auto
qed

text \<open>The order of the two time locks of a secret hash swap. For every lock value \<open>validateOfferLockValue\<close>
  accepts for a sequence lock, with the configured bounds inside what a sequence field can hold and above
  1024 seconds, the participate transaction, locked for half the value, can be refunded strictly before the
  initiate transaction, and not before half the value; the initiate transaction is locked for at least the
  whole value.\<close>

theorem participate_lock_shorter:
  assumes "validateOfferLockValue cfg swap cfrom cto lt lv = Inr ()"
    and "lt = TxLockTypes_val SEQUENCE_LOCK_TIME \<or> lt = TxLockTypes_val SEQUENCE_LOCK_BLOCKS"
    and "1024 \<le> min_sequence_lock_seconds cfg" and "max_sequence_lock_seconds cfg \<le> 0xFFFF * 512"
  shows "\<exists>si sp. getExpectedSequence lt lv = Inr si \<and> getExpectedSequence lt (lv div 2) = Inr sp
    \<and> lv div 2 \<le> decodeSequence sp \<and> decodeSequence sp < decodeSequence si \<and> lv \<le> decodeSequence si"
  using lock_order [OF assms] by blast

theorem participate_lock_shorter_witness:
  "\<exists>si sp. getExpectedSequence 2 172800 = Inr si \<and> getExpectedSequence 2 (172800 div 2) = Inr sp
    \<and> 172800 div 2 \<le> decodeSequence sp \<and> decodeSequence sp < decodeSequence si \<and> 172800 \<le> decodeSequence si"
proof (rule participate_lock_shorter)
  show "validateOfferLockValue \<lparr>use_csv = \<lambda>_. True, is_regtest = False, min_sequence_lock_seconds = 7200,
      max_sequence_lock_seconds = 345600\<rparr> 1 BTC LTC 2 172800 = Inr ()"
    by (simp add: validation_defs)
qed simp_all

text \<open>\<open>validateBidAmount\<close> accepts exactly the bids the offer's terms allow: a positive rate, an amount
  between the minimum and the offered amount, the whole amount unless it is negotiable, and unless the rate is
  negotiable one within a ten-thousandth of the offered rate (or one unit). In particular a bid for a
  non-negotiable offer at a positive rate is worth at most a ten-thousandth, or one unit a coin, less than offered.\<close>

theorem validateBidAmount_terms:
  "validateBidAmount offer a r = Inr () \<longleftrightarrow>
     0 < r \<and> min_bid_amount offer \<le> a \<and> a \<le> amount_from offer
     \<and> (amount_negotiable offer \<or> a = amount_from offer)
     \<and> (rate_negotiable offer \<or> (offer_rate offer - max 1 (offer_rate offer div 10000) \<le> r
            \<and> r \<le> offer_rate offer + max 1 (offer_rate offer div 10000)))"
  by (auto simp: validateBidAmount_def ratesMatch_def calculateRateTolerance_def Let_def rbind_Inr_iff)

text \<open>The time an accept message stays valid lies between one hour and 48 hours and, within these
  bounds, covers the time left until the bid expires with ten minutes to spare.\<close>

theorem accept_msg_valid_time:
  "SMSG_SECONDS_IN_HOUR \<le> getAcceptBidMsgValidTime now bid \<and> getAcceptBidMsgValidTime now bid \<le> getActiveBidMsgValidTime
   \<and> (expire_at bid - now + 600 \<le> getActiveBidMsgValidTime \<longleftrightarrow> expire_at bid + 600 \<le> now + getAcceptBidMsgValidTime now bid)"
  by (auto simp: getAcceptBidMsgValidTime_def getActiveBidMsgValidTime_def SMSG_SECONDS_IN_HOUR_def Let_def)

end
