(* ===== verification/Adaptor_Swap.thy ===== *)
theory Adaptor_Swap
  imports Action_Queue Offer_Validation "HOL-Library.AList"
begin

text \<open>
  The adaptor signature swap (\<open>SwapTypes.XMR_SWAP\<close>), as \<open>src/basicswap/basicswap.py\<close> drives it: \<open>checkXmrBidState\<close>
  with what it calls (\<open>watchXmrSwap\<close>, \<open>findTxB\<close>, the mercy helpers) and the handlers of spends of the lock transaction of
  coin A and of its refund. \<open>checkXmrBidState\<close> is split at its branches: \<open>track_refund\<close>, \<open>leader_refund\<close>,
  \<open>follower_refund\<close> and \<open>check_recovered\<close> for a swap whose lock is being refunded (\<open>refund_branch\<close>), \<open>prerefund_branch\<close>
  otherwise, and one definition for each state in \<open>dispatch_state\<close>.

  \<open>checkXmrBidState\<close> works on the bid in memory; the row of the swap is read at its start and passed along as a value,
  as are the objects the spend handlers read from the database. A handler that raises in the middle leaves the
  object in memory changed, which the model keeps; the objects read from the database are lost. Keys, signatures,
  wallets and daemons are the fields of \<open>ads_interface\<close> and \<open>xenv\<close>. The clock is read once per run, and committing
  the database is not visible.
\<close>

section \<open>Definitions\<close>

subsection \<open>What the swap asks of the two chains\<close>

text \<open>A lock transaction found on the second chain; \<open>BInvalid\<close> stands for the answers -1 and \<open>{"invalid": ...}\<close>.\<close>

record found_b =
  fb_txid :: "bytes option"
  fb_height :: int
  fb_value :: "int option"
  fb_index :: "int option"

datatype b_search = BInvalid | BFound found_b

text \<open>The methods of a coin's interface the adaptor signature swap uses besides those in \<open>coin_interface\<close>.
  \<open>spend_from tx txid\<close> is \<open>tx\<close> with the id of its first input replaced and its witness dropped. \<open>createSwipeTx\<close> is
  \<open>createCoinALockRefundSwipeTx\<close> with its keys, \<open>swipePaysKey\<close> includes the derivation of the key and \<open>createMercyTx\<close> the
  address taken from the pool. \<open>receive_address main tx_type\<close> is the main wallet address, a cached stealth address or one
  from the pool, \<open>promotePTx\<close> completes and signs a prefunded transaction, and \<open>with_script_sig tx txid script sig\<close> spends
  \<open>txid\<close> with the signature in the input's script.\<close>

record ads_interface =
  ads_blocks_confirmed :: int
  ads_transient :: "py_error \<Rightarrow> bool"
  getSCLockScriptAddress :: "bytes option \<Rightarrow> string"
  getLockRefundTxSwapOutput :: "XmrSwap \<Rightarrow> int res"
  getLockRefundTxSwapOutputValue :: "Bid \<Rightarrow> XmrSwap \<Rightarrow> int res"
  getLockRefundVout :: "bytes option \<Rightarrow> bytes option \<Rightarrow> int option res"
  haveSignedLockRefundTx :: "XmrSwap \<Rightarrow> bool"
  isTxExistsError :: "py_error \<Rightarrow> bool"
  getTxid :: "bytes option \<Rightarrow> bytes res"
  spend_from :: "bytes option \<Rightarrow> bytes option \<Rightarrow> bytes res"
  altruistic :: bool
  canSendMercyTx :: bool
  swipePaysKey :: "Bid \<Rightarrow> XmrSwap \<Rightarrow> bytes \<Rightarrow> bool res"
  createSwipeTx :: "Bid \<Rightarrow> Offer \<Rightarrow> XmrSwap \<Rightarrow> XmrOffer \<Rightarrow> bytes res"
  findConfirmedTxnByHash :: "bytes \<Rightarrow> bool res"
  getMempoolTx :: "bytes option \<Rightarrow> bytes option res"
  getMercyWatchVouts :: "bytes \<Rightarrow> int list res"
  getMercyPrevout :: "bytes \<Rightarrow> int res"
  pk_address :: "bytes option \<Rightarrow> string res"
  getPkDest :: "bytes option \<Rightarrow> bytes res"
  scanTxB :: "bytes option \<Rightarrow> bytes option \<Rightarrow> int \<Rightarrow> int \<Rightarrow> int option \<Rightarrow> bool \<Rightarrow> bool \<Rightarrow> b_search option res"
  spent_prevout :: "bytes \<Rightarrow> bytes res"
  isSpendingLockTx :: "bytes \<Rightarrow> bool res"
  isSpendingLockRefundTx :: "bytes \<Rightarrow> bool res"
  getPathKey :: "KeyTypes \<Rightarrow> Bid \<Rightarrow> XmrSwap \<Rightarrow> bytes res"
  decryptOtVES :: "bytes \<Rightarrow> bytes option \<Rightarrow> bytes res"
  verifyTxSig :: "bytes option \<Rightarrow> bytes \<Rightarrow> bytes option \<Rightarrow> bytes option \<Rightarrow> int \<Rightarrow> bool res"
  signTx :: "bytes \<Rightarrow> bytes option \<Rightarrow> bytes option \<Rightarrow> int \<Rightarrow> bytes res"
  setTxSignature :: "bytes option \<Rightarrow> bytes option list \<Rightarrow> bytes res"
  getLockTxSwapOutputValue :: "Bid \<Rightarrow> XmrSwap \<Rightarrow> int res"
  first_output_script :: "bytes option \<Rightarrow> bytes res"
  verifyDataSig :: "bytes \<Rightarrow> bytes \<Rightarrow> bytes option \<Rightarrow> bool res"
  with_script_sig :: "bytes option \<Rightarrow> bytes option \<Rightarrow> bytes option \<Rightarrow> bytes \<Rightarrow> bytes res"
  depth_spendable :: int
  getPubkey :: "bytes \<Rightarrow> bytes res"
  verifyKey :: "bytes \<Rightarrow> bool res"
  extractLeaderSig :: "bytes option \<Rightarrow> bytes res"
  extractFollowerSig :: "bytes option \<Rightarrow> bytes res"
  recoverEncKey :: "bytes option \<Rightarrow> bytes \<Rightarrow> bytes option \<Rightarrow> bytes res"
  sumKeys :: "bytes \<Rightarrow> bytes \<Rightarrow> bytes res"
  isAddressMine :: "string \<Rightarrow> bool res"
  receive_address :: "bool \<Rightarrow> TxTypes \<Rightarrow> string res"
  spendBLockTx :: "bytes option \<Rightarrow> string \<Rightarrow> bytes option \<Rightarrow> bytes \<Rightarrow> int \<Rightarrow> int \<Rightarrow> int option \<Rightarrow> int option \<Rightarrow> bool \<Rightarrow> bytes res"
  publishBLockTx :: "XmrSwap \<Rightarrow> int \<Rightarrow> int \<Rightarrow> int \<Rightarrow> (bytes \<times> int option) res"
  promotePTx :: "bytes \<Rightarrow> XmrSwap \<Rightarrow> bytes res"
  extractMercyKeyshare :: "bytes \<Rightarrow> bytes option res"
  prepareMercySpend :: "unit res"
  mercySpendImportsKey :: bool
  createMercyTx :: "XmrSwap \<Rightarrow> bytes option \<Rightarrow> bytes option \<Rightarrow> int \<Rightarrow> bool \<Rightarrow> bytes res"

text \<open>Besides the coins: the debug cases set for bids, the delays drawn for actions and retries, settings, the
  classification of errors by the node, \<open>int(x * 0.1)\<close> of a floating point product, prefunded transactions,
  a random key and the message network, which answers with the id of a message.\<close>

record xenv =
  x_env :: env
  x_ads :: "Coins \<Rightarrow> ads_interface"
  x_debug_cases :: "(bytes \<times> DebugTypes) list"
  x_debug :: bool
  x_delay :: int
  x_mercy_watch_timeout_blocks :: int
  x_transient :: "py_error \<Rightarrow> bool"
  x_max_transient_errors :: nat
  x_retry_delay :: int
  x_sc_lock_release_min_margin :: int
  x_sc_lock_spend_min_margin :: int
  x_tenth :: "int \<Rightarrow> int"
  x_prefunded :: "bytes \<Rightarrow> TxTypes \<Rightarrow> bytes option"
  x_random_key :: bytes
  x_send :: "string \<Rightarrow> string \<Rightarrow> bytes \<Rightarrow> bytes res"

text \<open>A message handed to the network; it may be on its way even when sending raises.\<close>

definition sendMessage :: "xenv \<Rightarrow> string \<Rightarrow> string \<Rightarrow> bytes \<Rightarrow> (node, bytes) py" where
  "sendMessage X source dest payload =
     pseq (pmod (\<lambda>n. n\<lparr>sent_messages := sent_messages n @ [(source, dest, payload)]\<rparr>)) (plift (x_send X source dest payload))"

definition haveDebugInd :: "xenv \<Rightarrow> bytes \<Rightarrow> DebugTypes \<Rightarrow> bool" where
  "haveDebugInd X b d \<longleftrightarrow> (b, d) \<in> set (x_debug_cases X)"

text \<open>Coin A holds the script, coin B is locked by a key; the offer's coins are exchanged when the coin it gives has
  no scripts. The leader locks coin A first, the follower coin B.\<close>

definition reverse_offer :: "Offer \<Rightarrow> bool" where
  "reverse_offer offer \<longleftrightarrow> list_ex (\<lambda>c. Coins_val c = coin_from offer) (scriptless_coins @ coins_without_segwit)"

definition coin_a :: "Offer \<Rightarrow> Coins res" where
  "coin_a offer = of_option KeyError (Coins_of (if reverse_offer offer then coin_to offer else coin_from offer))"

definition coin_b :: "Offer \<Rightarrow> Coins res" where
  "coin_b offer = of_option KeyError (Coins_of (if reverse_offer offer then coin_from offer else coin_to offer))"

definition is_follower :: "Offer \<Rightarrow> Bid \<Rightarrow> bool" where
  "is_follower offer bid = (if reverse_offer offer then was_received bid else was_sent bid)"

definition is_leader :: "Offer \<Rightarrow> Bid \<Rightarrow> bool" where
  "is_leader offer bid = (if reverse_offer offer then was_sent bid else was_received bid)"

definition isBchXmrSwap :: "Offer \<Rightarrow> bool" where
  "isBchXmrSwap offer =
     (if swap_type offer \<noteq> SwapTypes_val XMR_SWAP then False
      else if reverse_offer offer then coin_to offer = Coins_val BCH
      else coin_from offer = Coins_val BCH)"

subsection \<open>Objects and rows\<close>

text \<open>The truth value of a field that is None or bytes.\<close>

definition given :: "bytes option \<Rightarrow> bytes option" where
  "given x = (if x = Some [] then None else x)"

text \<open>\<open>saveBidInSession\<close> with the swap's row, and with \<open>save_in_progress\<close>, which makes the object the one in memory.\<close>

definition save_swap :: "bytes \<Rightarrow> Bid \<Rightarrow> XmrSwap \<Rightarrow> (node, unit) py" where
  "save_swap b bid xs =
     pseq (saveBidInSession b bid) (pmod (\<lambda>n. n\<lparr>xmr_swaps := (xmr_swaps n)(b \<mapsto> xs)\<rparr>))"

definition save_in_progress :: "bytes \<Rightarrow> Bid \<Rightarrow> XmrSwap \<Rightarrow> Offer \<Rightarrow> (node, unit) py" where
  "save_in_progress b bid xs offer =
     pseq (save_swap b bid xs)
          (pmod (\<lambda>n. n\<lparr>bids := (bids n)(b := bid), swaps_in_progress := AList.update b offer (swaps_in_progress n)\<rparr>))"

text \<open>Saving the object in memory.\<close>

definition save_xmr :: "bytes \<Rightarrow> XmrSwap \<Rightarrow> (node, unit) py" where
  "save_xmr b xs = pbind (pget (\<lambda>n. bids n b)) (\<lambda>bid. save_swap b bid xs)"

text \<open>A transaction of the bid in memory: reading it, changing it, setting its state, and writing its row.\<close>

definition get_txn :: "bytes \<Rightarrow> TxTypes \<Rightarrow> (node, SwapTx) py" where
  "get_txn b t = pbind (pget (\<lambda>n. txns (bids n b) t)) (\<lambda>tx. plift (of_option KeyError tx))"

definition put_txn :: "bytes \<Rightarrow> TxTypes \<Rightarrow> SwapTx \<Rightarrow> (node, unit) py" where
  "put_txn b t tx = pmod (upd_bid b (\<lambda>bid. bid\<lparr>txns := (txns bid)(t \<mapsto> tx)\<rparr>))"

definition upd_txn :: "bytes \<Rightarrow> TxTypes \<Rightarrow> (SwapTx \<Rightarrow> SwapTx) \<Rightarrow> (node, unit) py" where
  "upd_txn b t f = pbind (get_txn b t) (\<lambda>tx. put_txn b t (f tx))"

definition set_txn_state :: "bytes \<Rightarrow> TxTypes \<Rightarrow> int \<Rightarrow> TxStates \<Rightarrow> (node, unit) py" where
  "set_txn_state b t time s =
     pbind (get_txn b t) (\<lambda>tx.
     case setState (TxStates_val s) time tx of (r, tx') \<Rightarrow> pseq (put_txn b t tx') (plift r))"

definition save_txn :: "bytes \<Rightarrow> TxTypes \<Rightarrow> (node, unit) py" where
  "save_txn b t =
     pbind (get_txn b t) (\<lambda>tx.
     pmod (\<lambda>n. n\<lparr>bid_rows := (bid_rows n)(b := map_option (\<lambda>row. row\<lparr>txns := (txns row)(t \<mapsto> tx)\<rparr>) (bid_rows n b))\<rparr>))"

text \<open>The same for the two lock transactions.\<close>

definition upd_alock :: "bytes \<Rightarrow> (SwapTx \<Rightarrow> SwapTx) \<Rightarrow> (node, unit) py" where
  "upd_alock b f =
     pbind (pget (\<lambda>n. xmr_a_lock_tx (bids n b))) (\<lambda>tx.
     pbind (plift (of_option AttributeError tx)) (\<lambda>tx.
     pmod (upd_bid b (\<lambda>bid. bid\<lparr>xmr_a_lock_tx := Some (f tx)\<rparr>))))"

definition set_alock_state :: "bytes \<Rightarrow> int \<Rightarrow> TxStates \<Rightarrow> (node, unit) py" where
  "set_alock_state b time s =
     pbind (pget (\<lambda>n. xmr_a_lock_tx (bids n b))) (\<lambda>tx.
     pbind (plift (of_option AttributeError tx)) (\<lambda>tx.
     case setState (TxStates_val s) time tx of
       (r, tx') \<Rightarrow> pseq (pmod (upd_bid b (\<lambda>bid. bid\<lparr>xmr_a_lock_tx := Some tx'\<rparr>))) (plift r)))"

definition set_block_state :: "bytes \<Rightarrow> int \<Rightarrow> TxStates \<Rightarrow> (node, unit) py" where
  "set_block_state b time s =
     pbind (pget (\<lambda>n. xmr_b_lock_tx (bids n b))) (\<lambda>tx.
     pbind (plift (of_option AttributeError tx)) (\<lambda>tx.
     case setState (TxStates_val s) time tx of
       (r, tx') \<Rightarrow> pseq (pmod (upd_bid b (\<lambda>bid. bid\<lparr>xmr_b_lock_tx := Some tx'\<rparr>))) (plift r)))"

definition wallet_call :: "wallet_call \<Rightarrow> (node, unit) py" where
  "wallet_call c = pmod (\<lambda>n. n\<lparr>wallet_calls := wallet_calls n @ [c]\<rparr>)"

subsection \<open>Watching the swap\<close>

definition watch_mercy :: "xenv \<Rightarrow> bytes \<Rightarrow> Coins \<Rightarrow> Offer \<Rightarrow> (node, unit) py" where
  "watch_mercy X b ca offer =
     pbind (pget (\<lambda>n. bids n b)) (\<lambda>bid.
     case txns bid XMR_SWAP_A_LOCK_REFUND_SWIPE of
       None \<Rightarrow> pret ()
     | Some swipe_tx \<Rightarrow>
         pwhen (is_leader offer bid \<and> txns bid MERCY = None \<and> txns bid XMR_SWAP_A_LOCK_REFUND_SPEND = None
                \<and> canSendMercyTx (x_ads X ca))
          (pbind (ptry (pbind (plift (of_option AttributeError (txid swipe_tx))) (\<lambda>t.
                        pbind (plift (getMercyWatchVouts (x_ads X ca) t)) (\<lambda>vs. pret (t, vs))))
                       (\<lambda>_. pret ([], []))) (\<lambda>(t, vouts).
           pfor (\<lambda>v. addWatchedOutput ca b t (Some v) (TxTypes_val MERCY) (Some XMR_SWAP)) vouts)))"

definition watchXmrSwap :: "xenv \<Rightarrow> bytes \<Rightarrow> Offer \<Rightarrow> XmrSwap \<Rightarrow> (node, unit) py" where
  "watchXmrSwap X b offer xs =
     pseq (pmod (\<lambda>n. n\<lparr>swaps_in_progress := AList.update b offer (swaps_in_progress n)\<rparr>))
    (pbind (plift (coin_a offer)) (\<lambda>ca.
     pbind (pget (\<lambda>n. chain_a_height_start (bids n b))) (\<lambda>h.
     pbind (need h) (\<lambda>h.
     pseq (start_height (x_env X) ca h)
    (pbind (pget (\<lambda>n. xmr_a_lock_tx (bids n b))) (\<lambda>atx.
     pseq (case atx of
             None \<Rightarrow> pret ()
           | Some tx \<Rightarrow> (case given (txid tx) of
               None \<Rightarrow> pret ()
             | Some t \<Rightarrow> addWatchedOutput ca b t (vout tx) (TxTypes_val XMR_SWAP_A_LOCK) (Some XMR_SWAP)))
    (pseq (case given (a_lock_refund_tx_id xs) of
             None \<Rightarrow> pret ()
           | Some t \<Rightarrow> pbind (plift (getLockRefundTxSwapOutput (x_ads X ca) xs)) (\<lambda>v.
               addWatchedOutput ca b t (Some v) (TxTypes_val XMR_SWAP_A_LOCK_REFUND) (Some XMR_SWAP)))
    (pseq (pmod (upd_bid b (\<lambda>bid. bid\<lparr>in_progress := 1\<rparr>)))
    (pseq (case atx of
             None \<Rightarrow> pret ()
           | Some tx \<Rightarrow>
               if txid tx = None
               then pbind (need (a_lock_tx_script xs)) (\<lambda>s.
                    addWatchedScript ca b (getScriptDest (ci (x_env X) ca) s) XMR_SWAP_A_LOCK None)
               else pret ())
          (watch_mercy X b ca offer))))))))))"

subsection \<open>Looking for the lock transaction of coin B\<close>

definition search_b :: "xenv \<Rightarrow> Coins \<Rightarrow> bool \<Rightarrow> bool \<Rightarrow> Bid \<Rightarrow> XmrSwap \<Rightarrow> b_search option res" where
  "search_b X cb bid_sender check_amount bid xs =
     (let i = ci (x_env X) cb; a = x_ads X cb in
      if watch_blocks_for_scripts i then
        (case xmr_b_lock_tx bid of
           None \<Rightarrow> Inr None
         | Some tx \<Rightarrow>
             if txid tx = None then Inr None
             else rbind (pk_address a (pkbs xs)) (\<lambda>dest_address.
                  rbind (getLockTxHeight i (txid tx) dest_address (amount_to bid) (chain_b_height_start bid) (vout tx) True) (\<lambda>found.
                  Inr (case found of
                         None \<Rightarrow> None
                       | Some InvalidTxids \<Rightarrow> Some BInvalid
                       | Some (LockFound f) \<Rightarrow> Some (BFound \<lparr>fb_txid = lf_txid f, fb_height = lf_height f,
                           fb_value = lf_value f, fb_index = lf_index f\<rparr>)))))
      else scanTxB a (vkbv xs) (pkbs xs) (amount_to bid) (ads_blocks_confirmed a) (chain_b_height_start bid) bid_sender check_amount)"

definition b_invalid :: "bool \<Rightarrow> Bid \<Rightarrow> b_search option \<Rightarrow> bool" where
  "b_invalid check_amount bid found =
     (case found of
        None \<Rightarrow> False
      | Some BInvalid \<Rightarrow> True
      | Some (BFound f) \<Rightarrow> check_amount \<and> fb_value f \<noteq> Some (amount_to bid))"

text \<open>What a found transaction does to the bid and the swap.\<close>

definition record_b :: "bytes \<Rightarrow> found_b \<Rightarrow> bytes \<Rightarrow> Bid \<Rightarrow> XmrSwap \<Rightarrow> Bid \<times> XmrSwap" where
  "record_b b f found_txid bid xs =
     (let xs = (if (case xmr_b_lock_tx bid of None \<Rightarrow> True | Some tx \<Rightarrow> chain_height tx = None) \<or> b_lock_tx_id xs \<noteq> Some found_txid
                then xs\<lparr>b_lock_tx_id := Some found_txid\<rparr> else xs);
          tx = (case xmr_b_lock_tx bid of
                  None \<Rightarrow> (new_tx b XMR_SWAP_B_LOCK None)\<lparr>txid := b_lock_tx_id xs, vout := fb_index f\<rparr>
                | Some tx \<Rightarrow> tx);
          tx = (if txid tx \<noteq> Some found_txid then tx\<lparr>txid := Some found_txid\<rparr> else tx)
      in (bid\<lparr>xmr_b_lock_tx := Some (tx\<lparr>chain_height := Some (fb_height f)\<rparr>)\<rparr>, xs))"

definition unseen_b :: "Bid \<Rightarrow> bool" where
  "unseen_b bid = (case xmr_b_lock_tx bid of None \<Rightarrow> True | Some tx \<Rightarrow> chain_height tx = None \<or> chain_height tx = Some 0)"

definition findTxB :: "xenv \<Rightarrow> bytes \<Rightarrow> Coins \<Rightarrow> bool \<Rightarrow> Bid \<Rightarrow> XmrSwap \<Rightarrow> (node, bool \<times> Bid \<times> XmrSwap) py" where
  "findTxB X b cb bid_sender bid xs =
     (let check_amount = (debug_ind bid \<noteq> Some (DebugTypes_val DBG_B_LOCK_TX_MISSED_SEND)) in
      pbind (plift (search_b X cb bid_sender check_amount bid xs)) (\<lambda>found.
      if b_invalid check_amount bid found then
        pbind (countBidEvents b EV_LOCK_TX_B_INVALID) (\<lambda>k.
        if k < 1 then pseq (logEvent b EV_LOCK_TX_B_INVALID ''Detected invalid lock tx B'') (pret (True, bid, xs))
        else pret (False, bid, xs))
      else case found of
        Some (BFound f) \<Rightarrow>
          pseq (pwhen (fb_height f \<noteq> 0 \<and> unseen_b bid) (logEvent b EV_LOCK_TX_B_SEEN ''''))
         (pbind (plift (of_option KeyError (fb_txid f))) (\<lambda>found_txid.
          pret (True, record_b b f found_txid bid xs)))
      | _ \<Rightarrow> pret (False, bid, xs)))"

subsection \<open>Mercy: the follower that swiped hands over its key share\<close>

definition removeMercyWatch :: "bytes \<Rightarrow> Coins \<Rightarrow> (node, unit) py" where
  "removeMercyWatch b ca =
     pbind (pget (\<lambda>n. txns (bids n b) XMR_SWAP_A_LOCK_REFUND_SWIPE)) (\<lambda>swipe_tx.
     case swipe_tx of
       None \<Rightarrow> pret ()
     | Some tx \<Rightarrow> pbind (plift (of_option AttributeError (txid tx))) (\<lambda>t. removeWatchedOutput ca b (Some t) None))"

definition checkMercyWatch :: "xenv \<Rightarrow> bytes \<Rightarrow> Coins \<Rightarrow> (node, bool) py" where
  "checkMercyWatch X b ca =
     pbind (pget (\<lambda>n. txns (bids n b) XMR_SWAP_A_LOCK_REFUND_SWIPE)) (\<lambda>swipe_tx.
     case Option.bind swipe_tx chain_height of
       None \<Rightarrow> pret False
     | Some swipe_height \<Rightarrow>
         pbind (plift (cv_height (chain (ci (x_env X) ca)))) (\<lambda>h.
         if h - swipe_height \<ge> x_mercy_watch_timeout_blocks X then
           pseq (logEvent b EV_MERCY_TX_NOT_FOUND '' blocks passed'')
          (pseq (removeMercyWatch b ca)
          (pseq (set_bid_state b (now (x_env X)) XMR_SWAP_FAILED_SWIPED)
                (pret True)))
         else pret False))"

text \<open>\<open>_lockMercyPrevout\<close> and \<open>_unlockMercyPrevout\<close>: what fails in them is only logged.\<close>

definition mercy_prevout :: "xenv \<Rightarrow> Coins \<Rightarrow> Bid \<Rightarrow> (Coins \<Rightarrow> bytes \<Rightarrow> wallet_call) \<Rightarrow> (node, unit) py" where
  "mercy_prevout X ca bid call =
     (case txns bid XMR_SWAP_A_LOCK_REFUND_SWIPE of
        None \<Rightarrow> pret ()
      | Some tx \<Rightarrow>
          ptry (pbind (plift (of_option AttributeError (txid tx))) (\<lambda>t.
                pbind (plift (getMercyPrevout (x_ads X ca) t)) (\<lambda>_. wallet_call (call ca t))))
               (\<lambda>_. pret ()))"

text \<open>The output the swipe pays to, as the chain reports it, and whether it pays to the key derived for the swap.\<close>

definition getSwipePayout :: "xenv \<Rightarrow> Coins \<Rightarrow> Bid \<Rightarrow> XmrSwap \<Rightarrow> (node, block_header option \<times> bool) py" where
  "getSwipePayout X ca bid xs =
     pbind (plift (of_option (ValueError ''Swipe tx not found'') (txns bid XMR_SWAP_A_LOCK_REFUND_SWIPE))) (\<lambda>swipe_tx.
     pbind (plift (of_option AttributeError (txid swipe_tx))) (\<lambda>t.
     pbind (plift (swipePaysKey (x_ads X ca) bid xs t)) (\<lambda>pays_key.
     pbind (plift (getMercyWatchVouts (x_ads X ca) t)) (\<lambda>vouts.
     pbind (plift (case vouts of [] \<Rightarrow> Inl IndexError | v # _ \<Rightarrow> Inr v)) (\<lambda>swipe_n.
     pbind (plift (getTxOutInfo (ci (x_env X) ca) (Some t) (Some swipe_n))) (\<lambda>swipe_out.
     pret (swipe_out, pays_key)))))))"

definition spendSwipePayout ::
  "xenv \<Rightarrow> Coins \<Rightarrow> Offer \<Rightarrow> XmrOffer \<Rightarrow> Bid \<Rightarrow> XmrSwap \<Rightarrow> bool \<Rightarrow> bytes option \<Rightarrow> (node, bytes option) py" where
  "spendSwipePayout X ca offer xo bid xs pays_key keyshare =
     pbind (if pays_key then plift (prepareMercySpend (x_ads X ca)) else pret ()) (\<lambda>_.
     if pays_key \<and> keyshare = None \<and> mercySpendImportsKey (x_ads X ca) then pret None
     else pbind (plift (of_option KeyError (txns bid XMR_SWAP_A_LOCK_REFUND_SWIPE))) (\<lambda>swipe_tx.
          pbind (plift (createMercyTx (x_ads X ca) xs (txid swipe_tx) keyshare
                          (if reverse_offer offer then b_fee_rate xo else a_fee_rate xo) pays_key)) (\<lambda>spend_tx.
          pbind (publish (x_env X) ca spend_tx) (\<lambda>t. pret (Some t)))))"

definition sweepSwipePayout :: "xenv \<Rightarrow> bytes \<Rightarrow> Coins \<Rightarrow> Offer \<Rightarrow> Bid \<Rightarrow> XmrSwap \<Rightarrow> (node, Bid) py" where
  "sweepSwipePayout X b ca offer bid xs =
     (if \<not> canSendMercyTx (x_ads X ca) then pret bid
      else pbind (getSwipePayout X ca bid xs) (\<lambda>(swipe_out, pays_key).
      if \<not> pays_key then pret bid
      else pseq (plift (ensure (swipe_out \<noteq> None) ''The swipe payout is unconfirmed or already spent''))
     (pbind (pget (\<lambda>n. xmr_offers n (offer_id offer))) (\<lambda>xo.
      pbind (plift (of_option (ValueError ''Adaptor-sig offer not found'') xo)) (\<lambda>xo.
      pbind (spendSwipePayout X ca offer xo bid xs True None) (\<lambda>t.
      case t of
        None \<Rightarrow> pseq (logEvent b EV_SWIPE_PAYOUT_SWEPT ''by importing its key'') (pret bid)
      | Some t \<Rightarrow>
          pseq (logEvent b EV_SWIPE_PAYOUT_SWEPT ''in tx '')
               (pret (bid\<lparr>txns := (txns bid)(SWIPE_SWEEP \<mapsto> (new_tx b SWIPE_SWEEP None)\<lparr>txid := Some t\<rparr>)\<rparr>))))))))"

definition recoverSwipePayout :: "xenv \<Rightarrow> bytes \<Rightarrow> Coins \<Rightarrow> Offer \<Rightarrow> Bid \<Rightarrow> XmrSwap \<Rightarrow> (node, Bid) py" where
  "recoverSwipePayout X b ca offer bid xs =
     (if txns bid XMR_SWAP_A_LOCK_REFUND_SWIPE = None then pret bid
      else ptry (sweepSwipePayout X b ca offer bid xs)
             (\<lambda>_. pseq (logEvent b EV_SYSTEM_WARNING ''Swipe payout not swept, sweep it from the debug page: '') (pret bid)))"

definition checkMercySend :: "xenv \<Rightarrow> bytes \<Rightarrow> Coins \<Rightarrow> Offer \<Rightarrow> XmrSwap \<Rightarrow> (node, bool) py" where
  "checkMercySend X b ca offer xs =
     pbind (pget (\<lambda>n. bids n b)) (\<lambda>bid.
     pbind (case Option.bind (txns bid XMR_SWAP_A_LOCK_REFUND_SWIPE) chain_height of
              None \<Rightarrow> pret ''the swipe tx height is unknown''
            | Some swipe_height \<Rightarrow>
                pbind (plift (cv_height (chain (ci (x_env X) ca)))) (\<lambda>h.
                pret (if h - swipe_height \<ge> x_mercy_watch_timeout_blocks X then '' blocks passed'' else ''''))) (\<lambda>give_up_reason.
     if give_up_reason \<noteq> '''' then
       pseq (logEvent b EV_MERCY_TX_NOT_SENT give_up_reason)
      (pseq (mercy_prevout X ca bid UnlockOutput)
      (pseq (removeQueuedActions (x_debug X) b SEND_MERCY_TX)
      (pseq (pbind (recoverSwipePayout X b ca offer bid xs) (\<lambda>bid. pmod (upd_bid b (\<lambda>_. bid))))
      (pseq (set_bid_state b (now (x_env X)) XMR_SWAP_FAILED_SWIPED)
            (pret True)))))
     else pbind (countQueuedActions b (Some SEND_MERCY_TX)) (\<lambda>k.
          pseq (pwhen (k < 1) (createAction (now (x_env X)) (duplicate_actions (x_env X)) (x_delay X) SEND_MERCY_TX b))
               (pret False))))"

subsection \<open>Spends of the lock transaction of coin A and of its refund\<close>

text \<open>Objects read from the database and changed before they are saved: setting a state gives the new object.\<close>

definition with_state :: "int \<Rightarrow> BidStates \<Rightarrow> Bid \<Rightarrow> (node, Bid) py" where
  "with_state time s bid = (case setState (BidStates_val s) time bid of (Inl e, _) \<Rightarrow> praise e | (Inr _, bid') \<Rightarrow> pret bid')"

definition with_tx_state :: "int \<Rightarrow> TxStates \<Rightarrow> SwapTx \<Rightarrow> (node, SwapTx) py" where
  "with_tx_state time s tx = (case setState (TxStates_val s) time tx of (Inl e, _) \<Rightarrow> praise e | (Inr _, tx') \<Rightarrow> pret tx')"

definition getXmrBidFromSession :: "bytes \<Rightarrow> (node, Bid option \<times> XmrSwap option) py" where
  "getXmrBidFromSession b =
     pget (\<lambda>n. case bid_rows n b of None \<Rightarrow> (None, None) | Some bid \<Rightarrow> (Some bid, xmr_swaps n b))"

definition getXmrOfferFromSession :: "bytes \<Rightarrow> (node, Offer option \<times> XmrOffer option) py" where
  "getXmrOfferFromSession oid =
     pget (\<lambda>n. case offer_rows n oid of None \<Rightarrow> (None, None) | Some offer \<Rightarrow> (Some offer, xmr_offers n oid))"

definition load_swap :: "bytes \<Rightarrow> (node, Bid \<times> XmrSwap) py" where
  "load_swap b =
     pbind (getXmrBidFromSession b) (\<lambda>(bid, xs).
     pbind (plift (of_option (ValueError ''Bid not found'') bid)) (\<lambda>bid.
     pbind (plift (of_option (ValueError ''Adaptor-sig swap not found'') xs)) (\<lambda>xs.
     pret (bid, xs))))"

definition load_offer :: "bytes \<Rightarrow> (node, Offer \<times> XmrOffer) py" where
  "load_offer oid =
     pbind (getXmrOfferFromSession oid) (\<lambda>(offer, xo).
     pbind (plift (of_option (ValueError ''Offer not found'') offer)) (\<lambda>offer.
     pbind (plift (of_option (ValueError ''Adaptor-sig offer not found'') xo)) (\<lambda>xo.
     pret (offer, xo))))"

definition add_txn :: "TxTypes \<Rightarrow> SwapTx \<Rightarrow> Bid \<Rightarrow> Bid" where
  "add_txn t tx bid = bid\<lparr>txns := (txns bid)(t \<mapsto> tx)\<rparr>"

definition swap_completed_note :: "bytes \<Rightarrow> (node, unit) py" where
  "swap_completed_note b = pmod (\<lambda>n. n\<lparr>notified := notified n @ [(NT_SWAP_COMPLETED, b)]\<rparr>)"

text \<open>The lock transaction was spent by the follower's redeem.\<close>

definition a_lock_redeemed ::
  "xenv \<Rightarrow> bytes \<Rightarrow> Offer \<Rightarrow> BidStates \<Rightarrow> bytes \<Rightarrow> bytes \<Rightarrow> Bid \<Rightarrow> XmrSwap \<Rightarrow> (node, Bid \<times> XmrSwap) py" where
  "a_lock_redeemed X b offer st spending_txid spend_txn bid xs =
     (let time = now (x_env X);
          xs = (if isBchXmrSwap offer then xs\<lparr>a_lock_spend_tx_id := Some spending_txid, a_lock_spend_tx := Some spend_txn\<rparr> else xs)
      in if st = XMR_SWAP_LOCK_RELEASED then
           pbind (with_state time XMR_SWAP_SCRIPT_TX_REDEEMED bid) (\<lambda>bid.
           pbind (case xmr_a_lock_tx bid of
                    None \<Rightarrow> pret bid
                  | Some tx \<Rightarrow> pbind (with_tx_state time TX_REDEEMED tx) (\<lambda>tx. pret (bid\<lparr>xmr_a_lock_tx := Some tx\<rparr>))) (\<lambda>bid.
           pseq (logEvent b EV_LOCK_TX_A_SPEND_TX_SEEN '''')
          (pbind (if is_leader offer bid then pret bid
                  else pbind (with_state time SWAP_COMPLETED bid) (\<lambda>bid. pseq (swap_completed_note b) (pret bid))) (\<lambda>bid.
           pret (bid, xs\<lparr>a_lock_spend_tx := Some spend_txn\<rparr>)))))
         else pret (bid, xs))"

text \<open>The lock transaction was spent by its refund.\<close>

definition a_lock_refunded ::
  "xenv \<Rightarrow> bytes \<Rightarrow> Offer \<Rightarrow> Coins \<Rightarrow> bytes \<Rightarrow> bytes \<Rightarrow> Bid \<Rightarrow> XmrSwap \<Rightarrow> (node, Bid \<times> XmrSwap) py" where
  "a_lock_refunded X b offer ca spending_txid spend_txn bid xs =
     pbind (if isBchXmrSwap offer
            then let xs = xs\<lparr>a_lock_refund_tx_id := Some spending_txid, a_lock_refund_tx := Some spend_txn\<rparr> in
                 pbind (plift (spend_from (x_ads X ca) (a_lock_refund_spend_tx xs) (a_lock_refund_tx_id xs))) (\<lambda>tx.
                 pbind (plift (getTxid (x_ads X ca) (Some tx))) (\<lambda>t.
                 pret (xs\<lparr>a_lock_refund_spend_tx := Some tx, a_lock_refund_spend_tx_id := Some t\<rparr>)))
            else pret xs) (\<lambda>xs.
     pbind (with_state (now (x_env X)) XMR_SWAP_SCRIPT_TX_PREREFUND bid) (\<lambda>bid.
     pseq (logEvent b EV_LOCK_TX_A_REFUND_TX_SEEN '''')
    (if txns bid XMR_SWAP_A_LOCK_REFUND = None
     then pbind (plift (getLockRefundVout (x_ads X ca) (Some spend_txn) (vkbv xs))) (\<lambda>refund_vout.
          pret (add_txn XMR_SWAP_A_LOCK_REFUND
                  ((new_tx (bid_id bid) XMR_SWAP_A_LOCK_REFUND None)\<lparr>txid := a_lock_refund_tx_id xs, vout := refund_vout\<rparr>) bid, xs))
     else pret (bid, xs))))"

definition a_lock_spent :: "xenv \<Rightarrow> bytes \<Rightarrow> bytes \<Rightarrow> bytes \<Rightarrow> (node, unit) py" where
  "a_lock_spent X b spending_txid spend_txn =
     pbind (load_swap b) (\<lambda>(bid, xs).
     pbind (plift (of_option (ValueError ''BidStates'') (Option.bind (state bid) BidStates_of))) (\<lambda>st.
     if st = BID_STALLED_FOR_TEST then pret ()
     else
       pbind (load_offer (bid_offer_id bid)) (\<lambda>(offer, xo).
       pbind (plift (coin_a offer)) (\<lambda>ca.
       pbind (plift (spent_prevout (x_ads X ca) spend_txn)) (\<lambda>prevout.
       pbind (plift (of_option AttributeError (xmr_a_lock_tx bid))) (\<lambda>atx.
       let bid = bid\<lparr>xmr_a_lock_tx := Some (atx\<lparr>spend_txid := Some spending_txid\<rparr>)\<rparr> in
       pbind (if isBchXmrSwap offer then plift (isSpendingLockTx (x_ads X ca) spend_txn) else pret False) (\<lambda>is_spending_lock_tx.
       pbind (if Some spending_txid = a_lock_spend_tx_id xs
                 \<or> (isBchXmrSwap offer \<and> Some prevout = a_lock_tx_id xs \<and> is_spending_lock_tx)
              then a_lock_redeemed X b offer st spending_txid spend_txn bid xs
              else if Some spending_txid = a_lock_refund_tx_id xs
                 \<or> (isBchXmrSwap offer \<and> Some prevout = a_lock_tx_id xs \<and> \<not> is_spending_lock_tx)
              then a_lock_refunded X b offer ca spending_txid spend_txn bid xs
              else pseq (logEvent b EV_ERROR ''Unexpected txn spent coin a lock tx: '')
                  (pbind (with_state (now (x_env X)) BID_ERROR bid) (\<lambda>bid. pret (bid, xs)))) (\<lambda>(bid, xs).
       save_in_progress b bid xs offer))))))))"

text \<open>What is raised in the handler of a spend is only logged.\<close>

definition process_XMR_SWAP_A_LOCK_tx_spend :: "xenv \<Rightarrow> bytes \<Rightarrow> bytes \<Rightarrow> bytes \<Rightarrow> (node, unit) py" where
  "process_XMR_SWAP_A_LOCK_tx_spend X b spending_txid spend_txn =
     ptry (a_lock_spent X b spending_txid spend_txn) (\<lambda>_. pret ())"

text \<open>The refund was spent by the leader's refund spend, which discloses the follower's way to coin B.\<close>

definition refund_spend_seen ::
  "xenv \<Rightarrow> bytes \<Rightarrow> Offer \<Rightarrow> Coins \<Rightarrow> bytes \<Rightarrow> bytes \<Rightarrow> Bid \<Rightarrow> XmrSwap \<Rightarrow> (node, Bid \<times> XmrSwap) py" where
  "refund_spend_seen X b offer ca spending_txid spend_txn bid xs =
     (let time = now (x_env X); sender = is_follower offer bid; receiver = is_leader offer bid in
     pbind (if isBchXmrSwap offer
            then let xs = xs\<lparr>a_lock_refund_spend_tx_id := Some spending_txid, a_lock_refund_spend_tx := Some spend_txn\<rparr> in
                 if receiver \<and> txns bid XMR_SWAP_A_LOCK_REFUND_SPEND = None
                 then pbind (plift (cv_height (chain (ci (x_env X) ca)))) (\<lambda>h.
                      pret (add_txn XMR_SWAP_A_LOCK_REFUND_SPEND ((new_tx b XMR_SWAP_A_LOCK_REFUND_SPEND None)
                              \<lparr>txid := Some spending_txid, chain_height := Some h\<rparr>) bid, xs))
                 else pret (bid, xs)
            else pret (bid, xs)) (\<lambda>(bid, xs).
     pseq (logEvent b EV_LOCK_TX_A_REFUND_SPEND_TX_SEEN '''')
    (pbind (case xmr_a_lock_tx bid of
              None \<Rightarrow> pret bid
            | Some tx \<Rightarrow> pbind (with_tx_state time TX_REFUNDED tx) (\<lambda>tx. pret (bid\<lparr>xmr_a_lock_tx := Some tx\<rparr>))) (\<lambda>bid.
     pbind (if sender
            then let xs = xs\<lparr>a_lock_refund_spend_tx := Some spend_txn\<rparr>;
                     bid = (if txns bid XMR_SWAP_A_LOCK_REFUND_SPEND = None
                            then add_txn XMR_SWAP_A_LOCK_REFUND_SPEND
                                   ((new_tx b XMR_SWAP_A_LOCK_REFUND_SPEND None)\<lparr>txid := a_lock_refund_spend_tx_id xs\<rparr>) bid
                            else bid)
                 in if xmr_b_lock_tx bid \<noteq> None
                    then pseq (createAction time (duplicate_actions (x_env X)) (x_delay X) RECOVER_XMR_SWAP_LOCK_TX_B b) (pret (bid, xs))
                    else pbind (with_state time XMR_SWAP_FAILED bid) (\<lambda>bid. pret (bid, xs))
            else pret (bid, xs)) (\<lambda>(bid, xs).
     if receiver \<and> \<not> sender then pbind (with_state time XMR_SWAP_FAILED_REFUNDED bid) (\<lambda>bid. pret (bid, xs))
     else pret (bid, xs))))))"

text \<open>The refund was spent by something else: the follower's swipe.\<close>

definition refund_swiped :: "xenv \<Rightarrow> bytes \<Rightarrow> Offer \<Rightarrow> Coins \<Rightarrow> bytes \<Rightarrow> Bid \<Rightarrow> (node, Bid) py" where
  "refund_swiped X b offer ca spending_txid bid =
     (let time = now (x_env X) in
     pbind (if is_leader offer bid
            then if canSendMercyTx (x_ads X ca)
                 then pbind (plift (getMercyWatchVouts (x_ads X ca) spending_txid)) (\<lambda>vouts.
                      pseq (pfor (\<lambda>v. addWatchedOutput ca b spending_txid (Some v) (TxTypes_val MERCY) (Some XMR_SWAP)) vouts) (pret bid))
                 else with_state time XMR_SWAP_FAILED_SWIPED bid
            else pbind (countQueuedActions b (Some SEND_MERCY_TX)) (\<lambda>k.
                 with_state time (if k > 0 then XMR_SWAP_FAILED_SWIPED_SENDING_MERCY else XMR_SWAP_FAILED_SWIPED) bid)) (\<lambda>bid.
     if txns bid XMR_SWAP_A_LOCK_REFUND_SWIPE = None
     then pbind (plift (cv_height (chain (ci (x_env X) ca)))) (\<lambda>h.
          pret (add_txn XMR_SWAP_A_LOCK_REFUND_SWIPE ((new_tx b XMR_SWAP_A_LOCK_REFUND_SWIPE None)
                  \<lparr>txid := Some spending_txid, chain_height := Some h\<rparr>) bid))
     else pret bid))"

definition a_lock_refund_spent :: "xenv \<Rightarrow> bytes \<Rightarrow> bytes \<Rightarrow> bytes \<Rightarrow> (node, unit) py" where
  "a_lock_refund_spent X b spending_txid spend_txn =
     pbind (load_swap b) (\<lambda>(bid, xs).
     pbind (load_offer (bid_offer_id bid)) (\<lambda>(offer, xo).
     pbind (plift (coin_a offer)) (\<lambda>ca.
     pbind (plift (spent_prevout (x_ads X ca) spend_txn)) (\<lambda>prevout.
     pbind (if isBchXmrSwap offer then plift (isSpendingLockRefundTx (x_ads X ca) spend_txn) else pret False) (\<lambda>is_spending.
     pbind (if Some spending_txid = a_lock_refund_spend_tx_id xs \<or> (Some prevout = a_lock_refund_tx_id xs \<and> is_spending)
            then refund_spend_seen X b offer ca spending_txid spend_txn bid xs
            else pbind (refund_swiped X b offer ca spending_txid bid) (\<lambda>bid. pret (bid, xs))) (\<lambda>(bid, xs).
     save_in_progress b bid xs offer))))))"

definition process_XMR_SWAP_A_LOCK_REFUND_tx_spend :: "xenv \<Rightarrow> bytes \<Rightarrow> bytes \<Rightarrow> bytes \<Rightarrow> (node, unit) py" where
  "process_XMR_SWAP_A_LOCK_REFUND_tx_spend X b spending_txid spend_txn =
     ptry (a_lock_refund_spent X b spending_txid spend_txn) (\<lambda>_. pret ())"

subsection \<open>Refunding coin A\<close>

definition no_height :: "int option \<Rightarrow> bool" where
  "no_height h \<longleftrightarrow> h = None \<or> h = Some 0"

text \<open>Tracks the depth of the refund of the lock transaction.\<close>

definition track_refund :: "xenv \<Rightarrow> bytes \<Rightarrow> Coins \<Rightarrow> XmrSwap \<Rightarrow> (node, int) py" where
  "track_refund X b ca xs =
     (let E = x_env X; a = x_ads X ca; t = XMR_SWAP_A_LOCK_REFUND in
     pbind (get_txn b t) (\<lambda>tx.
     if state tx = Some (TxStates_val TX_CONFIRMED) then pret (ads_blocks_confirmed a)
     else
       pbind (pget (\<lambda>n. bids n b)) (\<lambda>bid.
       pbind (plift (getLockRefundTxSwapOutputValue a bid xs)) (\<lambda>val.
       pbind (plift (getLockTxHeight (ci E ca) (txid tx) (getSCLockScriptAddress a (a_lock_refund_tx_script xs)) val
                       (chain_a_height_start bid) (vout tx) False)) (\<lambda>found.
       case found of
         None \<Rightarrow> pret 0
       | Some InvalidTxids \<Rightarrow> praise KeyError
       | Some (LockFound f) \<Rightarrow>
           (let to_mempool = (state tx \<in> {None, Some (TxStates_val TX_NONE), Some (TxStates_val TX_SENT)} \<and> lf_height f = 0);
                to_chain = (no_height (block_height tx) \<and> lf_height f \<noteq> 0);
                to_confirmed = (lf_depth f \<ge> ads_blocks_confirmed a)
            in pseq (pwhen to_mempool (set_txn_state b t (now E) TX_IN_MEMPOOL))
              (pseq (pwhen to_chain (pseq (setTxBlockInfoFromHeight (upd_txn b t) (ci E ca) (lf_height f))
                                          (set_txn_state b t (now E) TX_IN_CHAIN)))
              (pseq (pwhen to_confirmed (pseq (logEvent b EV_LOCK_TX_A_REFUND_TX_CONFIRMED '''')
                                              (set_txn_state b t (now E) TX_CONFIRMED)))
              (pseq (pwhen (to_mempool \<or> to_chain \<or> to_confirmed) (save_txn b t))
                    (pret (lf_depth f)))))))))))"

text \<open>The leader spends the refund once it is confirmed. None: go on; otherwise the result of the handler.\<close>

definition publish_refund_spend :: "xenv \<Rightarrow> bytes \<Rightarrow> Coins \<Rightarrow> XmrSwap \<Rightarrow> int \<Rightarrow> (node, unit) py" where
  "publish_refund_spend X b ca xs refund_tx_depth =
     (if refund_tx_depth < max (ads_blocks_confirmed (x_ads X ca)) 1
      then praise (TemporaryError ''Waiting for lock refund tx to reach depth '')
      else if haveDebugInd X b DBG_BID_DONT_SPEND_COIN_A_LOCK_REFUND2
      then praise (TemporaryError ''Debug: BID_DONT_SPEND_COIN_A_LOCK_REFUND2'')
      else pbind (pget (\<lambda>n. xmr_b_lock_tx (bids n b))) (\<lambda>btx.
      if btx = None \<and> haveDebugInd X b DBG_WAIT_FOR_COIN_B_LOCK_BEFORE_REFUND
      then praise (TemporaryError ''Debug: Waiting for Coin B Lock Tx'')
      else pbind (need (a_lock_refund_spend_tx xs)) (\<lambda>tx.
      pbind (publish (x_env X) ca tx) (\<lambda>t.
      pseq (logEvent b EV_LOCK_TX_A_REFUND_SPEND_TX_PUBLISHED '''')
     (pseq (put_txn b XMR_SWAP_A_LOCK_REFUND_SPEND ((new_tx b XMR_SWAP_A_LOCK_REFUND_SPEND None)\<lparr>txid := Some t\<rparr>))
           (save_xmr b xs))))))"

definition leader_refund :: "xenv \<Rightarrow> bytes \<Rightarrow> Coins \<Rightarrow> XmrSwap \<Rightarrow> int \<Rightarrow> (node, bool option) py" where
  "leader_refund X b ca xs refund_tx_depth =
     pbind (pget (\<lambda>n. bids n b)) (\<lambda>bid.
     if debug_ind bid = Some (DebugTypes_val DBG_BID_DONT_SPEND_COIN_A_LOCK_REFUND) then
       pseq (set_bid_state b (now (x_env X)) BID_STALLED_FOR_TEST)
      (pseq (save_xmr b xs)
      (pseq (logEvent b EV_DEBUG_TWEAK_APPLIED ''ind '')
            (pret (Some True))))
     else
       pseq (pwhen (txns bid XMR_SWAP_A_LOCK_REFUND_SPEND = None)
              (ptry (publish_refund_spend X b ca xs refund_tx_depth) (\<lambda>_. pret ())))
            (pret None))"

text \<open>The follower swipes the refund when the leader did not spend it in time.\<close>

definition publish_swipe :: "xenv \<Rightarrow> bytes \<Rightarrow> Coins \<Rightarrow> XmrSwap \<Rightarrow> (node, unit) py" where
  "publish_swipe X b ca xs =
     (let E = x_env X; a = x_ads X ca in
      if haveDebugInd X b DBG_BID_DONT_SPEND_COIN_A_LOCK_REFUND2
      then praise (TemporaryError ''Debug: BID_DONT_SPEND_COIN_A_LOCK_REFUND2'')
      else pbind (need (a_lock_refund_swipe_tx xs)) (\<lambda>tx.
      pbind (publish E ca tx) (\<lambda>t.
      pseq (logEvent b EV_LOCK_TX_A_REFUND_SWIPE_TX_PUBLISHED '''')
     (pbind (plift (cv_height (chain (ci E ca)))) (\<lambda>h.
      pseq (put_txn b XMR_SWAP_A_LOCK_REFUND_SWIPE
             ((new_tx b XMR_SWAP_A_LOCK_REFUND_SWIPE None)\<lparr>txid := Some t, chain_height := Some h\<rparr>))
     (pseq (if altruistic a \<and> canSendMercyTx a
            then pbind (pget (\<lambda>n. bids n b)) (\<lambda>bid.
                 pbind (plift (swipePaysKey a bid xs t)) (\<lambda>pays_key.
                 pseq (pwhen (\<not> pays_key) (mercy_prevout X ca bid LockOutput))
                      (createAction (now E) (duplicate_actions E) (x_delay X) SEND_MERCY_TX b)))
            else pret ())
           (save_xmr b xs)))))))"

definition follower_refund :: "xenv \<Rightarrow> bytes \<Rightarrow> Offer \<Rightarrow> Coins \<Rightarrow> XmrOffer \<Rightarrow> XmrSwap \<Rightarrow> (node, XmrSwap) py" where
  "follower_refund X b offer ca xo xs =
     (let E = x_env X; t = XMR_SWAP_A_LOCK_REFUND in
     pbind (if a_lock_refund_swipe_tx xs = None
            then pbind (pget (\<lambda>n. bids n b)) (\<lambda>bid.
                 pbind (plift (createSwipeTx (x_ads X ca) bid offer xs xo)) (\<lambda>tx.
                 let xs = xs\<lparr>a_lock_refund_swipe_tx := Some tx\<rparr> in pseq (save_xmr b xs) (pret xs)))
            else pret xs) (\<lambda>xs.
     pbind (get_txn b t) (\<lambda>tx.
     pseq (if block_height tx = None
           then pbind (plift (getTxOutInfo (ci E ca) (txid tx) (vout tx))) (\<lambda>info.
                case info of
                  None \<Rightarrow> pret ()
                | Some out \<Rightarrow>
                    pseq (upd_txn b t (\<lambda>tx. tx\<lparr>block_hash := Some (bh_hash out), block_height := Some (bh_height out),
                            block_time := Some (bh_time out)\<rparr>))
                         (save_txn b t))
           else pret ())
    (pbind (pget (\<lambda>n. txns (bids n b) XMR_SWAP_A_LOCK_REFUND_SWIPE)) (\<lambda>swipe.
     pbind (get_txn b t) (\<lambda>tx.
     pbind (if swipe = None \<and> block_height tx \<noteq> None
            then plift (isCsvLockMature (chain (ci E ca)) (lock_type offer) (lock_time_2 xo) (block_height tx) (block_time tx) None None None)
            else pret False) (\<lambda>mature.
     pseq (pwhen mature (ptry (publish_swipe X b ca xs) (\<lambda>_. pret ())))
          (pret xs))))))))"

text \<open>The coin B lock transaction was recovered.\<close>

definition check_recovered :: "xenv \<Rightarrow> bytes \<Rightarrow> Coins \<Rightarrow> XmrSwap \<Rightarrow> (node, bool) py" where
  "check_recovered X b cb xs =
     pbind (pget (\<lambda>n. Option.bind (xmr_b_lock_tx (bids n b)) spend_txid)) (\<lambda>t.
     pbind (plift (of_option AttributeError t)) (\<lambda>t.
     pbind (plift (findConfirmedTxnByHash (x_ads X cb) t)) (\<lambda>found.
     if found then
       pseq (logEvent b EV_LOCK_TX_B_REFUND_TX_SEEN '''')
      (pseq (set_bid_state b (now (x_env X)) XMR_SWAP_FAILED_REFUNDED)
      (pseq (save_xmr b xs)
            (pret True)))
     else pret False)))"

definition get_state :: "bytes \<Rightarrow> (node, BidStates) py" where
  "get_state b =
     pbind (pget (\<lambda>n. Option.bind (state (bids n b)) BidStates_of)) (\<lambda>st.
     plift (of_option (ValueError ''BidStates'') st))"

definition refund_branch :: "xenv \<Rightarrow> bytes \<Rightarrow> Offer \<Rightarrow> Coins \<Rightarrow> Coins \<Rightarrow> XmrOffer \<Rightarrow> XmrSwap \<Rightarrow> (node, bool option \<times> XmrSwap) py" where
  "refund_branch X b offer ca cb xo xs =
     pbind (track_refund X b ca xs) (\<lambda>refund_tx_depth.
     pbind (pget (\<lambda>n. bids n b)) (\<lambda>bid.
     pbind (if is_leader offer bid then leader_refund X b ca xs refund_tx_depth else pret None) (\<lambda>rv.
     if rv \<noteq> None then pret (rv, xs)
     else
       pbind (if is_follower offer bid then follower_refund X b offer ca xo xs else pret xs) (\<lambda>xs.
       pbind (get_state b) (\<lambda>st.
       if st = XMR_SWAP_NOSCRIPT_TX_RECOVERED
       then pbind (check_recovered X b cb xs) (\<lambda>rv. pret (Some rv, xs))
       else pret (None, xs))))))"

text \<open>The refund of the lock transaction is published once the first time lock has passed.\<close>

definition record_refund :: "xenv \<Rightarrow> bytes \<Rightarrow> Coins \<Rightarrow> XmrSwap \<Rightarrow> bytes \<Rightarrow> (node, bool option \<times> XmrSwap) py" where
  "record_refund X b ca xs t =
     pbind (plift (getLockRefundVout (x_ads X ca) (a_lock_refund_tx xs) (vkbv xs))) (\<lambda>refund_vout.
     pseq (put_txn b XMR_SWAP_A_LOCK_REFUND ((new_tx b XMR_SWAP_A_LOCK_REFUND None)\<lparr>txid := Some t, vout := refund_vout\<rparr>))
    (pseq (save_xmr b xs)
          (pret (Some False, xs))))"

definition refund_failed :: "xenv \<Rightarrow> bytes \<Rightarrow> Coins \<Rightarrow> XmrSwap \<Rightarrow> py_error \<Rightarrow> (node, bool option \<times> XmrSwap) py" where
  "refund_failed X b ca xs e =
     (if isTxExistsError (x_ads X ca) e then
        pbind (plift (getTxid (x_ads X ca) (a_lock_refund_tx xs))) (\<lambda>t.
        pbind (pget (\<lambda>n. txns (bids n b) XMR_SWAP_A_LOCK_REFUND)) (\<lambda>refund_tx.
        if refund_tx = None then record_refund X b ca xs t
        else pseq (save_xmr b xs) (pret (Some False, xs))))
      else pret (None, xs))"

definition respend_refund :: "xenv \<Rightarrow> Offer \<Rightarrow> Coins \<Rightarrow> XmrSwap \<Rightarrow> XmrSwap res" where
  "respend_refund X offer ca xs =
     (if isBchXmrSwap offer
      then rbind (spend_from (x_ads X ca) (a_lock_refund_spend_tx xs) (a_lock_refund_tx_id xs)) (\<lambda>tx.
           rbind (getTxid (x_ads X ca) (Some tx)) (\<lambda>t.
           Inr (xs\<lparr>a_lock_refund_spend_tx := Some tx, a_lock_refund_spend_tx_id := Some t\<rparr>)))
      else Inr xs)"

definition publish_refund :: "xenv \<Rightarrow> bytes \<Rightarrow> Coins \<Rightarrow> XmrSwap \<Rightarrow> (node, bytes) py" where
  "publish_refund X b ca xs =
     pbind (pget (\<lambda>n. xmr_b_lock_tx (bids n b))) (\<lambda>btx.
     if btx = None \<and> haveDebugInd X b DBG_WAIT_FOR_COIN_B_LOCK_BEFORE_PREREFUND
     then praise (TemporaryError ''Debug: Waiting for Coin B Lock Tx'')
     else pbind (need (a_lock_refund_tx xs)) (\<lambda>tx. publish (x_env X) ca tx))"

definition prerefund_branch :: "xenv \<Rightarrow> bytes \<Rightarrow> Offer \<Rightarrow> Coins \<Rightarrow> XmrOffer \<Rightarrow> XmrSwap \<Rightarrow> (node, bool option \<times> XmrSwap) py" where
  "prerefund_branch X b offer ca xo xs =
     pbind (pget (\<lambda>n. xmr_a_lock_tx (bids n b))) (\<lambda>atx.
     pbind (case atx of
              None \<Rightarrow> pret False
            | Some tx \<Rightarrow>
                if haveSignedLockRefundTx (x_ads X ca) xs
                then plift (isCsvLockMature (chain (ci (x_env X) ca)) (lock_type offer) (lock_time_1 xo) (block_height tx) (block_time tx) None None None)
                else pret False) (\<lambda>mature.
     if \<not> mature then pret (None, xs)
     else
       pbind (ptry (pbind (publish_refund X b ca xs) (\<lambda>t. pret (Inr t))) (\<lambda>e. pret (Inl e))) (\<lambda>r.
       case r of
         Inl e \<Rightarrow> refund_failed X b ca xs e
       | Inr t \<Rightarrow> (case respend_refund X offer ca xs of
           Inl e \<Rightarrow> refund_failed X b ca xs e
         | Inr xs \<Rightarrow> ptry (pseq (logEvent b EV_LOCK_TX_A_REFUND_TX_PUBLISHED '''') (record_refund X b ca xs t))
                         (refund_failed X b ca xs)))))"

subsection \<open>The states of a swap\<close>

definition queue_action :: "xenv \<Rightarrow> ActionTypes \<Rightarrow> bytes \<Rightarrow> (node, unit) py" where
  "queue_action X t b = createAction (now (x_env X)) (duplicate_actions (x_env X)) (x_delay X) t b"

definition failed_branch :: "xenv \<Rightarrow> bytes \<Rightarrow> Offer \<Rightarrow> (node, bool) py" where
  "failed_branch X b offer =
     pbind (pget (\<lambda>n. bids n b)) (\<lambda>bid.
     if xmr_b_lock_tx bid = None then pret True
     else if is_follower offer bid then
       pbind (countQueuedActions b (Some RECOVER_XMR_SWAP_LOCK_TX_B)) (\<lambda>k.
       pseq (pwhen (k < 1) (queue_action X RECOVER_XMR_SWAP_LOCK_TX_B b)) (pret False))
     else pret False)"

text \<open>Waiting for the lock transaction of coin A. Its id may change when it is funded: then what spends it is rebuilt
  and the watches are renewed.\<close>

definition rebuild_a_lock :: "xenv \<Rightarrow> bytes \<Rightarrow> Offer \<Rightarrow> Coins \<Rightarrow> Coins \<Rightarrow> bytes \<Rightarrow> XmrSwap \<Rightarrow> (node, XmrSwap) py" where
  "rebuild_a_lock X b offer ca cb t xs =
     (let a = x_ads X ca; xs = xs\<lparr>a_lock_tx_id := Some t\<rparr> in
     pbind (plift (spend_from a (a_lock_refund_tx xs) (Some t))) (\<lambda>tx.
     pbind (plift (getTxid a (Some tx))) (\<lambda>i.
     let xs = xs\<lparr>a_lock_refund_tx := Some tx, a_lock_refund_tx_id := Some i\<rparr> in
     pbind (plift (spend_from a (a_lock_spend_tx xs) (Some t))) (\<lambda>tx.
     pbind (plift (getTxid a (Some tx))) (\<lambda>i.
     let xs = xs\<lparr>a_lock_spend_tx := Some tx, a_lock_spend_tx_id := Some i\<rparr> in
     pseq (upd_alock b (\<lambda>tx. tx\<lparr>txid := Some t, tx_data := a_lock_tx xs, spend_txid := a_lock_spend_tx_id xs\<rparr>))
    (pseq (removeWatchedOutput (client_key ca) b None None)
    (pseq (removeWatchedOutput (client_key cb) b None None)
    (pseq (watchXmrSwap X b offer xs)
          (pret xs)))))))))"

definition a_lock_confirmed :: "xenv \<Rightarrow> bytes \<Rightarrow> Offer \<Rightarrow> Coins \<Rightarrow> Coins \<Rightarrow> XmrSwap \<Rightarrow> (node, unit) py" where
  "a_lock_confirmed X b offer ca cb xs =
     (let E = x_env X in
     pseq (logEvent b EV_LOCK_TX_A_CONFIRMED '''')
    (pseq (set_alock_state b (now E) TX_CONFIRMED)
    (pseq (set_bid_state b (now E) XMR_SWAP_SCRIPT_COIN_LOCKED)
    (pbind (pget (\<lambda>n. bids n b)) (\<lambda>bid.
     if is_follower offer bid then queue_action X SEND_XMR_SWAP_LOCK_TX_B b
     else pwhen (watch_blocks_for_scripts (ci E cb))
       (pbind (need (Option.bind (xmr_a_lock_tx bid) chain_height)) (\<lambda>h.
        pbind (plift (getBlockHeaderFromHeight (ci E ca) h)) (\<lambda>chain_a_block_header.
        pbind (plift (getBlockHeaderAt (ci E cb) (bh_time chain_a_block_header) False)) (\<lambda>chain_b_block_header.
        pbind (plift (getPkDest (x_ads X cb) (pkbs xs))) (\<lambda>dest_script.
        pbind (start_height E (client_key cb) (bh_height chain_b_block_header)) (\<lambda>_.
        addWatchedScript (client_key cb) b dest_script XMR_SWAP_B_LOCK None)))))))))))"

text \<open>What is recorded of the lock transaction the chain reports; True when the bid changed.\<close>

definition a_lock_progress :: "xenv \<Rightarrow> bytes \<Rightarrow> Coins \<Rightarrow> lock_found \<Rightarrow> (node, bool) py" where
  "a_lock_progress X b ca f =
     (let E = x_env X in
     pbind (pget (\<lambda>n. xmr_a_lock_tx (bids n b))) (\<lambda>atx.
     pbind (plift (of_option AttributeError atx)) (\<lambda>tx.
     pseq (pwhen (state tx = Some (TxStates_val TX_NONE) \<and> lf_height f = 0)
            (pseq (set_alock_state b (now E) TX_IN_MEMPOOL) (logEvent b EV_LOCK_TX_A_IN_MEMPOOL '''')))
    (pseq (pwhen (lf_conflicts f)
            (pbind (countBidEvents b EV_LOCK_TX_A_CONFLICTS) (\<lambda>k. pwhen (k < 1) (logEvent b EV_LOCK_TX_A_CONFLICTS ''''))))
    (pseq (pwhen (no_height (chain_height tx) \<and> lf_height f \<noteq> 0)
            (pseq (logEvent b EV_LOCK_TX_A_SEEN '''')
            (pseq (setTxBlockInfoFromHeight (upd_alock b) (ci E ca) (lf_height f))
                  (set_alock_state b (now E) TX_IN_CHAIN))))
    (pseq (pwhen (chain_height tx \<noteq> Some (lf_height f) \<and> lf_height f \<noteq> 0)
            (upd_alock b (\<lambda>tx. tx\<lparr>chain_height := Some (lf_height f)\<rparr>)))
          (pret (lf_height f \<noteq> 0 \<and> (no_height (chain_height tx) \<or> chain_height tx \<noteq> Some (lf_height f))))))))))"

definition lock_a_branch :: "xenv \<Rightarrow> bytes \<Rightarrow> Offer \<Rightarrow> Coins \<Rightarrow> Coins \<Rightarrow> XmrSwap \<Rightarrow> (node, unit) py" where
  "lock_a_branch X b offer ca cb xs =
     (let E = x_env X; a = x_ads X ca in
     pbind (pget (\<lambda>n. bids n b)) (\<lambda>bid.
     pbind (pget (\<lambda>n. connection_type (cc n ca))) (\<lambda>connection.
     case xmr_a_lock_tx bid of
       None \<Rightarrow> pret ()
     | Some tx \<Rightarrow>
       if txid tx = None then pret ()
       else if (case vout tx of None \<Rightarrow> True | Some v \<Rightarrow> v < 0) then praise (ValueError ''Lock TX A details missing.'')
       else let double_check_value = (connection = ''rpc'' \<and> ca \<noteq> PART_BLIND) in
         pbind (plift (getLockTxHeight (ci E ca) (txid tx) (getSCLockScriptAddress a (a_lock_tx_script xs)) (amount bid)
                         (chain_a_height_start bid) (vout tx) double_check_value)) (\<lambda>found.
         case found of
           None \<Rightarrow> pret ()
         | Some InvalidTxids \<Rightarrow> praise KeyError
         | Some (LockFound f) \<Rightarrow>
             if double_check_value \<and> lf_value f \<noteq> Some (amount bid) then praise (ValueError ''Invalid chain a lock tx value!'')
             else if double_check_value \<and> lf_index f \<noteq> vout tx then praise (ValueError ''Chain a lock tx index mismatch!'')
             else
               pbind (case lf_txid f of
                        None \<Rightarrow> pret (False, xs)
                      | Some t \<Rightarrow> if a_lock_tx_id xs \<noteq> Some t
                                then pbind (rebuild_a_lock X b offer ca cb t xs) (\<lambda>xs. pret (True, xs))
                                else pret (False, xs)) (\<lambda>(rebuilt, xs).
               pbind (a_lock_progress X b ca f) (\<lambda>progressed.
               let confirmed = (lf_depth f \<ge> ads_blocks_confirmed a) in
               pseq (pwhen confirmed (a_lock_confirmed X b offer ca cb xs))
                    (pwhen (rebuilt \<or> progressed \<or> confirmed) (save_xmr b xs))))))))"

text \<open>Waiting for the lock transaction of coin B. Ten temporary errors are tolerated.\<close>

definition look_for_b :: "xenv \<Rightarrow> bytes \<Rightarrow> Offer \<Rightarrow> Coins \<Rightarrow> XmrSwap \<Rightarrow> (node, bool \<times> XmrSwap) py" where
  "look_for_b X b offer cb xs =
     pbind (pget (\<lambda>n. bids n b)) (\<lambda>bid.
     ptry (pbind (findTxB X b cb (is_follower offer bid) bid xs) (\<lambda>(changed, bid', xs').
           pseq (pmod (upd_bid b (\<lambda>_. bid'))) (pret (changed, xs'))))
       (\<lambda>e. if ads_transient (x_ads X cb) e then
              pbind (countBidEvents b EV_LOCK_TX_B_RPC_ERROR) (\<lambda>k.
              if k < 10 then pseq (logEvent b EV_LOCK_TX_B_RPC_ERROR '''') (pret (False, xs))
              else pseq (set_bid_state b (now (x_env X)) BID_ERROR)
                  (pseq (logEvent b EV_ERROR ''Persistent RPC error after '') (pret (True, xs))))
            else praise e))"

definition requeue_b :: "xenv \<Rightarrow> bytes \<Rightarrow> Offer \<Rightarrow> BidStates \<Rightarrow> (node, unit) py" where
  "requeue_b X b offer st =
     pbind (pget (\<lambda>n. bids n b)) (\<lambda>bid.
     pbind (countQueuedActions b (Some SEND_XMR_SWAP_LOCK_TX_B)) (\<lambda>k.
     pwhen (is_follower offer bid \<and> st = XMR_SWAP_SCRIPT_COIN_LOCKED \<and> xmr_b_lock_tx bid = None \<and> k < 1)
       (queue_action X SEND_XMR_SWAP_LOCK_TX_B b)))"

definition b_lock_confirmed :: "xenv \<Rightarrow> bytes \<Rightarrow> Offer \<Rightarrow> (node, unit) py" where
  "b_lock_confirmed X b offer =
     (let time = now (x_env X) in
     pseq (logEvent b EV_LOCK_TX_B_CONFIRMED '''')
    (pseq (set_block_state b time TX_CONFIRMED)
    (pbind (pget (\<lambda>n. bids n b)) (\<lambda>bid.
     pseq (pwhen (txns bid XMR_SWAP_A_LOCK_REFUND = None) (set_bid_state b time XMR_SWAP_NOSCRIPT_COIN_LOCKED))
          (pwhen (is_leader offer bid \<and> txns bid XMR_SWAP_A_LOCK_REFUND = None)
             (if haveDebugInd X b DBG_DONT_RELEASE_COIN_A_LOCK
              then logEvent b EV_DEBUG_TWEAK_APPLIED ''ind ''
              else queue_action X SEND_XMR_LOCK_RELEASE b))))))"

definition check_b_depth :: "xenv \<Rightarrow> bytes \<Rightarrow> Offer \<Rightarrow> Coins \<Rightarrow> (node, unit) py" where
  "check_b_depth X b offer cb =
     pbind (pget (\<lambda>n. bids n b)) (\<lambda>bid.
     case xmr_b_lock_tx bid of
       None \<Rightarrow> pret ()
     | Some tx \<Rightarrow> (case chain_height tx of
         None \<Rightarrow> pret ()
       | Some seen_height \<Rightarrow>
           if seen_height > 0 then
             pbind (ptry (pbind (plift (cv_height (chain (ci (x_env X) cb)))) (\<lambda>h. pret (Some h)))
                         (\<lambda>e. if ads_transient (x_ads X cb) e then pret None else praise e)) (\<lambda>chain_h.
             case chain_h of
               None \<Rightarrow> pret ()
             | Some h \<Rightarrow>
                 if debug_ind bid = Some (DebugTypes_val DBG_BID_STOP_AFTER_COIN_B_LOCK)
                 then pseq (set_bid_state b (now (x_env X)) BID_STALLED_FOR_TEST) (logEvent b EV_DEBUG_TWEAK_APPLIED ''ind '')
                 else pwhen (state tx \<noteq> Some (TxStates_val TX_CONFIRMED) \<and> h - seen_height \<ge> ads_blocks_confirmed (x_ads X cb))
                        (b_lock_confirmed X b offer))
           else pret ()))"

text \<open>While coin A is being refunded: the time of the refund, and waiting for the follower's mercy.\<close>

definition watch_refund :: "xenv \<Rightarrow> bytes \<Rightarrow> Offer \<Rightarrow> Coins \<Rightarrow> XmrSwap \<Rightarrow> (node, unit) py" where
  "watch_refund X b offer ca xs =
     (let E = x_env X; t = XMR_SWAP_A_LOCK_REFUND in
     pbind (pget (\<lambda>n. bids n b)) (\<lambda>bid.
     pseq (case txns bid t of
             None \<Rightarrow> pret ()
           | Some tx \<Rightarrow>
               if block_time tx = None
               then pbind (plift (getLockTxHeight (ci E ca) (txid tx) (getSCLockScriptAddress (x_ads X ca) (a_lock_refund_tx_script xs))
                                    0 (chain_a_height_start bid) (vout tx) False)) (\<lambda>found.
                    case found of
                      Some (LockFound f) \<Rightarrow>
                        pwhen (lf_height f > 0)
                          (pseq (setTxBlockInfoFromHeight (upd_txn b t) (ci E ca) (lf_height f)) (save_xmr b xs))
                    | _ \<Rightarrow> pret ())
               else pret ())
          (pwhen (is_leader offer bid \<and> txns bid MERCY = None)
             (pbind (checkMercyWatch X b ca) (\<lambda>changed. pwhen changed (save_xmr b xs))))))"

definition lock_b_branch :: "xenv \<Rightarrow> bytes \<Rightarrow> Offer \<Rightarrow> Coins \<Rightarrow> Coins \<Rightarrow> BidStates \<Rightarrow> XmrSwap \<Rightarrow> (node, unit) py" where
  "lock_b_branch X b offer ca cb st xs =
     pbind (look_for_b X b offer cb xs) (\<lambda>(changed, xs).
     pseq (requeue_b X b offer st)
    (pseq (check_b_depth X b offer cb)
    (pseq (pwhen changed (save_xmr b xs))
          (pwhen (st = XMR_SWAP_SCRIPT_TX_PREREFUND) (watch_refund X b offer ca xs)))))"

text \<open>The spend of coin A may be seen in the mempool first.\<close>

definition released_branch :: "xenv \<Rightarrow> bytes \<Rightarrow> Offer \<Rightarrow> Coins \<Rightarrow> XmrSwap \<Rightarrow> (node, unit) py" where
  "released_branch X b offer ca xs =
     pbind (pget (\<lambda>n. bids n b)) (\<lambda>bid.
     pwhen (is_leader offer bid)
       (ptry (pbind (plift (getMempoolTx (x_ads X ca) (a_lock_spend_tx_id xs))) (\<lambda>txn.
              case given txn of
                None \<Rightarrow> pret ()
              | Some txn \<Rightarrow> pbind (plift (of_option AttributeError (a_lock_spend_tx_id xs))) (\<lambda>t.
                  process_XMR_SWAP_A_LOCK_tx_spend X b t txn)))
         (\<lambda>_. pret ())))"

definition redeemed_branch :: "xenv \<Rightarrow> bytes \<Rightarrow> Offer \<Rightarrow> XmrSwap \<Rightarrow> (node, unit) py" where
  "redeemed_branch X b offer xs =
     pbind (pget (\<lambda>n. bids n b)) (\<lambda>bid.
     pbind (countQueuedActions b (Some REDEEM_XMR_SWAP_LOCK_TX_B)) (\<lambda>k.
     pwhen (is_leader offer bid \<and> k < 1)
       (pseq (if haveDebugInd X b DBG_BID_DONT_SPEND_COIN_B_LOCK
              then logEvent b EV_DEBUG_TWEAK_APPLIED ''ind ''
              else pseq (set_bid_state b (now (x_env X)) SWAP_DELAYING) (queue_action X REDEEM_XMR_SWAP_LOCK_TX_B b))
             (save_xmr b xs))))"

text \<open>The spend of coin B is waited for: in \<open>st\<close>, with the final state \<open>final_st\<close>.\<close>

definition spend_b_confirmed :: "xenv \<Rightarrow> bytes \<Rightarrow> Coins \<Rightarrow> bytes \<Rightarrow> BidStates \<Rightarrow> XmrSwap \<Rightarrow> (node, bool) py" where
  "spend_b_confirmed X b cb t final_st xs =
     pbind (plift (findConfirmedTxnByHash (x_ads X cb) t)) (\<lambda>found.
     if found then
       pseq (logEvent b EV_LOCK_TX_B_SPEND_TX_SEEN '''')
      (pseq (set_bid_state b (now (x_env X)) final_st)
      (pseq (save_xmr b xs)
      (pseq (pwhen (final_st = SWAP_COMPLETED) (swap_completed_note b))
            (pret True))))
     else pret False)"

definition spend_b_txid :: "bytes \<Rightarrow> (node, bytes option) py" where
  "spend_b_txid b = pget (\<lambda>n. Option.bind (xmr_b_lock_tx (bids n b)) spend_txid)"

definition dispatch_state :: "xenv \<Rightarrow> bytes \<Rightarrow> Offer \<Rightarrow> Coins \<Rightarrow> Coins \<Rightarrow> BidStates \<Rightarrow> XmrSwap \<Rightarrow> (node, bool) py" where
  "dispatch_state X b offer ca cb st xs =
     (if st \<in> {SWAP_COMPLETED, XMR_SWAP_FAILED_REFUNDED, XMR_SWAP_FAILED_SWIPED, XMR_SWAP_FAILED_SWIPED_USED_MERCY,
               XMR_SWAP_FAILED_SWIPED_MERCY_UNUSED} then pret True
      else if st = XMR_SWAP_FAILED then failed_branch X b offer
      else if st = XMR_SWAP_MSG_SCRIPT_LOCK_SPEND_TX then pseq (lock_a_branch X b offer ca cb xs) (pret False)
      else if st \<in> {XMR_SWAP_SCRIPT_COIN_LOCKED, XMR_SWAP_SCRIPT_TX_PREREFUND}
      then pseq (lock_b_branch X b offer ca cb st xs) (pret False)
      else if st = XMR_SWAP_LOCK_RELEASED then pseq (released_branch X b offer ca xs) (pret False)
      else if st = XMR_SWAP_SCRIPT_TX_REDEEMED then pseq (redeemed_branch X b offer xs) (pret False)
      else if st = XMR_SWAP_NOSCRIPT_TX_REDEEMED then
        pbind (spend_b_txid b) (\<lambda>t. pbind (plift (of_option AttributeError t)) (\<lambda>t. spend_b_confirmed X b cb t SWAP_COMPLETED xs))
      else if st = XMR_SWAP_FAILED_SWIPED_USING_MERCY then
        pbind (spend_b_txid b) (\<lambda>t. case t of
          None \<Rightarrow> pret False
        | Some t \<Rightarrow> spend_b_confirmed X b cb t XMR_SWAP_FAILED_SWIPED_USED_MERCY xs)
      else if st = XMR_SWAP_FAILED_SWIPED_SENDING_MERCY then
        pbind (checkMercySend X b ca offer xs) (\<lambda>changed. pseq (pwhen changed (save_xmr b xs)) (pret False))
      else pret False)"

definition checkXmrBidState :: "xenv \<Rightarrow> bytes \<Rightarrow> Offer \<Rightarrow> (node, bool) py" where
  "checkXmrBidState X b offer =
     pbind (get_state b) (\<lambda>_.
     pbind (plift (coin_a offer)) (\<lambda>ca.
     pbind (plift (coin_b offer)) (\<lambda>cb.
     pbind (pget (\<lambda>n. xmr_offers n (offer_id offer))) (\<lambda>xo.
     pbind (plift (of_option (ValueError ''Adaptor-sig offer not found'') xo)) (\<lambda>xo.
     pbind (pget (\<lambda>n. xmr_swaps n (bid_id (bids n b)))) (\<lambda>xs.
     pbind (plift (of_option (ValueError ''Adaptor-sig swap not found'') xs)) (\<lambda>xs.
     pbind (pget (\<lambda>n. txns (bids n b) XMR_SWAP_A_LOCK_REFUND)) (\<lambda>refund_tx.
     pbind (if refund_tx \<noteq> None then refund_branch X b offer ca cb xo xs
            else prerefund_branch X b offer ca xo xs) (\<lambda>(rv, xs).
     case rv of
       Some rv \<Rightarrow> pret rv
     | None \<Rightarrow> pbind (get_state b) (\<lambda>st. dispatch_state X b offer ca cb st xs))))))))))"

end
