(* ===== verification/Messages.thy ===== *)
theory Messages
  imports Codec
begin

text \<open>
  The wire format of the swap messages, \<open>src/basicswap/messages_npb.py\<close>: a message class is its
  field table \<open>_map\<close> (field number, name, wire type, field type), a message object is the partial
  map from attribute names to the attributes set on it, and \<open>NonProtobufClass\<close>'s methods are
  \<open>npb_init\<close>, \<open>init_fields\<close>, \<open>npb_to_bytes\<close> and \<open>npb_from_bytes\<close>. All sixteen message classes of
  the file are listed. A Python \<open>str\<close> is a list of code points, with Python's strict UTF-8
  encoder and decoder written out.
\<close>

section \<open>Definitions\<close>

subsection \<open>UTF-8\<close>

definition utf8_encode_cp :: "nat \<Rightarrow> bytes res" where
  "utf8_encode_cp c =
     (if c < 0x80 then Inr [of_nat c]
      else if c < 0x800 then Inr [of_nat (0xC0 + c div 64), of_nat (0x80 + c mod 64)]
      else if 0xD800 \<le> c \<and> c \<le> 0xDFFF then Inl UnicodeError
      else if c < 0x10000 then
        Inr [of_nat (0xE0 + c div 4096), of_nat (0x80 + c div 64 mod 64), of_nat (0x80 + c mod 64)]
      else if c < 0x110000 then
        Inr [of_nat (0xF0 + c div 262144), of_nat (0x80 + c div 4096 mod 64),
             of_nat (0x80 + c div 64 mod 64), of_nat (0x80 + c mod 64)]
      else Inl UnicodeError)"

primrec utf8_encode :: "nat list \<Rightarrow> bytes res" where
  "utf8_encode [] = Inr []"
| "utf8_encode (c # cs) =
     rbind (utf8_encode_cp c) (\<lambda>b. rbind (utf8_encode cs) (\<lambda>bs. Inr (b @ bs)))"

definition cont_byte :: "byte \<Rightarrow> bool" where
  "cont_byte b \<longleftrightarrow> 0x80 \<le> unat b \<and> unat b < 0xC0"

definition cont_val :: "byte \<Rightarrow> nat" where
  "cont_val b = unat b - 0x80"

definition cons_res :: "'a \<Rightarrow> 'a list res \<Rightarrow> 'a list res" where
  "cons_res c m = rbind m (\<lambda>cs. Inr (c # cs))"

fun utf8_decode :: "bytes \<Rightarrow> nat list res" where
  "utf8_decode [] = Inr []"
| "utf8_decode (b0 # bs) =
     (if unat b0 < 0x80 then cons_res (unat b0) (utf8_decode bs)
      else if 0xC0 \<le> unat b0 \<and> unat b0 < 0xE0 then
        (case bs of
           b1 # rest \<Rightarrow>
             let c = (unat b0 - 0xC0) * 64 + cont_val b1
             in if cont_byte b1 \<and> 0x80 \<le> c then cons_res c (utf8_decode rest) else Inl UnicodeError
         | _ \<Rightarrow> Inl UnicodeError)
      else if 0xE0 \<le> unat b0 \<and> unat b0 < 0xF0 then
        (case bs of
           b1 # b2 # rest \<Rightarrow>
             let c = (unat b0 - 0xE0) * 4096 + cont_val b1 * 64 + cont_val b2
             in if cont_byte b1 \<and> cont_byte b2 \<and> 0x800 \<le> c \<and> \<not> (0xD800 \<le> c \<and> c \<le> 0xDFFF)
                then cons_res c (utf8_decode rest) else Inl UnicodeError
         | _ \<Rightarrow> Inl UnicodeError)
      else if 0xF0 \<le> unat b0 \<and> unat b0 < 0xF8 then
        (case bs of
           b1 # b2 # b3 # rest \<Rightarrow>
             let c = (unat b0 - 0xF0) * 262144 + cont_val b1 * 4096 + cont_val b2 * 64 + cont_val b3
             in if cont_byte b1 \<and> cont_byte b2 \<and> cont_byte b3 \<and> 0x10000 \<le> c \<and> c < 0x110000
                then cons_res c (utf8_decode rest) else Inl UnicodeError
         | _ \<Rightarrow> Inl UnicodeError)
      else Inl UnicodeError)"

subsection \<open>Message objects\<close>

text \<open>An attribute value: \<open>int\<close> (and \<open>bool\<close>), \<open>bytes\<close> or \<open>str\<close>.\<close>

datatype pyval = PInt int | PBytes bytes | PStr "nat list"

type_synonym field_spec = "string \<times> nat \<times> nat"
type_synonym field_map = "(int \<times> field_spec) list"
type_synonym attrs = "string \<rightharpoonup> pyval"

definition NPBW_INT :: nat where "NPBW_INT = 0"
definition NPBW_BYTES :: nat where "NPBW_BYTES = 2"
definition NPBF_STR :: nat where "NPBF_STR = 1"
definition NPBF_BOOL :: nat where "NPBF_BOOL = 2"

definition default_value :: "nat \<Rightarrow> nat \<Rightarrow> pyval res" where
  "default_value wire_type field_type =
     (if wire_type = 0 then Inr (PInt 0)
      else if wire_type = 2 then Inr (if field_type = 1 then PStr [] else PBytes [])
      else Inl (ValueError ''Unknown wire_type''))"

fun init_fields :: "field_map \<Rightarrow> attrs \<Rightarrow> attrs res" where
  "init_fields [] a = Inr a"
| "init_fields ((field_num, field_name, wire_type, field_type) # fm) a =
     (if a field_name \<noteq> None then init_fields fm a
      else rbind (default_value wire_type field_type) (\<lambda>v.
             init_fields fm (a(field_name \<mapsto> v))))"

fun set_kwargs :: "field_map \<Rightarrow> (string \<times> pyval) list \<Rightarrow> attrs \<Rightarrow> attrs res" where
  "set_kwargs fm [] a = Inr a"
| "set_kwargs fm ((key, value) # kwargs) a =
     (if key \<in> set (map (fst \<circ> snd) fm) then set_kwargs fm kwargs (a(key \<mapsto> value))
      else Inl (ValueError ''Got an unexpected keyword argument''))"

definition npb_init :: "field_map \<Rightarrow> bool \<Rightarrow> (string \<times> pyval) list \<Rightarrow> attrs res" where
  "npb_init fm init_all kwargs =
     rbind (set_kwargs fm kwargs Map.empty) (\<lambda>a. if init_all then init_fields fm a else Inr a)"

text \<open>\<open>len(field_value)\<close> and the bytes that are written for it.\<close>

definition value_len :: "pyval \<Rightarrow> nat res" where
  "value_len v = (case v of PInt _ \<Rightarrow> Inl TypeError | PBytes b \<Rightarrow> Inr (length b)
                  | PStr s \<Rightarrow> Inr (length s))"

definition value_bytes :: "pyval \<Rightarrow> bytes res" where
  "value_bytes v = (case v of PInt _ \<Rightarrow> Inl TypeError | PBytes b \<Rightarrow> Inr b
                    | PStr s \<Rightarrow> utf8_encode s)"

definition value_varint :: "pyval \<Rightarrow> bytes res" where
  "value_varint v = (case v of PInt i \<Rightarrow> encode_varint i | _ \<Rightarrow> Inl TypeError)"

text \<open>One pass of the loop of \<open>to_bytes\<close>: what a field appends.\<close>

fun field_to_bytes :: "attrs \<Rightarrow> int \<times> field_spec \<Rightarrow> bytes res" where
  "field_to_bytes a (field_num, field_name, wire_type, field_type) =
     (case a field_name of
        None \<Rightarrow> Inr []
      | Some field_value \<Rightarrow>
          let tag = push_bit 3 field_num OR int wire_type in
          if wire_type = 0 then
            (if field_value = PInt 0 then Inr []
             else rbind (encode_varint tag) (\<lambda>t.
                  rbind (value_varint field_value) (\<lambda>v. Inr (t @ v))))
          else if wire_type = 2 then
            rbind (value_len field_value) (\<lambda>n.
              if n = 0 then Inr []
              else rbind (encode_varint tag) (\<lambda>t.
                   rbind (value_bytes field_value) (\<lambda>v.
                   rbind (encode_varint (int (length v))) (\<lambda>l. Inr (t @ l @ v)))))
          else Inl (ValueError ''Unknown wire_type''))"

fun npb_to_bytes :: "field_map \<Rightarrow> attrs \<Rightarrow> bytes res" where
  "npb_to_bytes [] a = Inr []"
| "npb_to_bytes (f # fm) a =
     rbind (field_to_bytes a f) (\<lambda>b. rbind (npb_to_bytes fm a) (\<lambda>bs. Inr (b @ bs)))"

text \<open>One pass of the loop of \<open>from_bytes\<close> at offset \<open>off\<close>: the attribute it sets and the offset
  behind the field.\<close>

definition parse_field :: "field_map \<Rightarrow> bytes \<Rightarrow> nat \<Rightarrow> (string \<times> pyval \<times> nat) res" where
  "parse_field fm b off =
     rbind (decode_varint b off) (\<lambda>(tag, lv).
       let off = off + lv;
           wire_type = tag AND 7;
           field_num = drop_bit 3 tag
       in rbind (of_option KeyError (map_of fm field_num)) (\<lambda>(field_name, wire_type_expect, field_type).
            if wire_type \<noteq> int wire_type_expect then Inl (ValueError ''Unexpected wire_type'')
            else if wire_type = 0 then
              rbind (decode_varint b off) (\<lambda>(field_value, lv).
                Inr (field_name, PInt field_value, off + lv))
            else if wire_type = 2 then
              rbind (decode_varint b off) (\<lambda>(field_len, lv).
                let off = off + lv;
                    field_value = bslice b off (off + nat field_len);
                    off = off + nat field_len
                in if field_type = 1
                   then rbind (utf8_decode field_value) (\<lambda>s. Inr (field_name, PStr s, off))
                   else Inr (field_name, PBytes field_value, off))
            else Inl (ValueError ''Unknown wire_type'')))"

lemma decode_varint_from_pos:
  "decode_varint_from b off i n = Inr (v, lv) \<Longrightarrow> n < lv \<and> (0 \<le> i \<longrightarrow> 0 \<le> v)"
proof (induction b off i n rule: decode_varint_from.induct)
  case (1 b off i n)
  then show ?case
    by (subst (asm) (2) decode_varint_from.simps)
      (force simp: Let_def split: sum.splits if_splits)
qed

lemma decode_varint_pos: "decode_varint b off = Inr (v, lv) \<Longrightarrow> 0 < lv"
  using decode_varint_from_pos [of b off 0 0] by (auto simp: decode_varint_def)

lemma parse_field_progress: "parse_field fm b off = Inr (n, v, off') \<Longrightarrow> off < off'"
  by (auto simp: parse_field_def Let_def split: if_splits dest!: decode_varint_pos)

function from_bytes_loop :: "field_map \<Rightarrow> bytes \<Rightarrow> nat \<Rightarrow> attrs \<Rightarrow> attrs res" where
  "from_bytes_loop fm b off a =
     (if off < length b
      then (case parse_field fm b off of
              Inl e \<Rightarrow> Inl e
            | Inr (field_name, field_value, off') \<Rightarrow>
                from_bytes_loop fm b off' (a(field_name \<mapsto> field_value)))
      else Inr a)"
  by pat_completeness auto
termination
  by (relation "measure (\<lambda>(fm, b, off, a). length b - off)") (auto dest: parse_field_progress)

definition npb_from_bytes :: "field_map \<Rightarrow> attrs \<Rightarrow> bytes \<Rightarrow> bool \<Rightarrow> attrs res" where
  "npb_from_bytes fm a b init_all =
     rbind (from_bytes_loop fm b 0 a) (\<lambda>a'. if init_all then init_fields fm a' else Inr a')"

subsection \<open>The message classes\<close>

definition OfferMessage :: field_map where
  "OfferMessage =
    [(1, ''protocol_version'', NPBW_INT, 0),
     (2, ''coin_from'', NPBW_INT, 0),
     (3, ''coin_to'', NPBW_INT, 0),
     (4, ''amount_from'', NPBW_INT, 0),
     (5, ''amount_to'', NPBW_INT, 0),
     (6, ''min_bid_amount'', NPBW_INT, 0),
     (7, ''time_valid'', NPBW_INT, 0),
     (8, ''lock_type'', NPBW_INT, 0),
     (9, ''lock_value'', NPBW_INT, 0),
     (10, ''swap_type'', NPBW_INT, 0),
     (11, ''proof_address'', NPBW_BYTES, NPBF_STR),
     (12, ''proof_signature'', NPBW_BYTES, NPBF_STR),
     (13, ''pkhash_seller'', NPBW_BYTES, 0),
     (14, ''secret_hash'', NPBW_BYTES, 0),
     (15, ''fee_rate_from'', NPBW_INT, 0),
     (16, ''fee_rate_to'', NPBW_INT, 0),
     (17, ''amount_negotiable'', NPBW_INT, NPBF_BOOL),
     (18, ''rate_negotiable'', NPBW_INT, NPBF_BOOL),
     (19, ''proof_utxos'', NPBW_BYTES, 0),
     (20, ''auto_accept_type'', NPBW_INT, 0),
     (21, ''message_nets'', NPBW_BYTES, NPBF_STR)]"

definition BidMessage :: field_map where
  "BidMessage =
    [(1, ''protocol_version'', NPBW_INT, 0),
     (2, ''offer_msg_id'', NPBW_BYTES, 0),
     (3, ''time_valid'', NPBW_INT, 0),
     (4, ''amount'', NPBW_INT, 0),
     (5, ''amount_to'', NPBW_INT, 0),
     (6, ''pkhash_buyer'', NPBW_BYTES, 0),
     (7, ''proof_address'', NPBW_BYTES, NPBF_STR),
     (8, ''proof_signature'', NPBW_BYTES, NPBF_STR),
     (9, ''proof_utxos'', NPBW_BYTES, 0),
     (10, ''pkhash_buyer_to'', NPBW_BYTES, 0),
     (11, ''message_nets'', NPBW_BYTES, NPBF_STR)]"

definition BidAcceptMessage :: field_map where
  "BidAcceptMessage =
    [(1, ''bid_msg_id'', NPBW_BYTES, 0),
     (2, ''initiate_txid'', NPBW_BYTES, 0),
     (3, ''contract_script'', NPBW_BYTES, 0),
     (4, ''pkhash_seller'', NPBW_BYTES, 0)]"

definition OfferRevokeMessage :: field_map where
  "OfferRevokeMessage =
    [(1, ''offer_msg_id'', NPBW_BYTES, 0),
     (2, ''signature'', NPBW_BYTES, 0)]"

definition BidRejectMessage :: field_map where
  "BidRejectMessage =
    [(1, ''bid_msg_id'', NPBW_BYTES, 0),
     (2, ''reject_code'', NPBW_INT, 0)]"

definition XmrBidMessage :: field_map where
  "XmrBidMessage =
    [(1, ''protocol_version'', NPBW_INT, 0),
     (2, ''offer_msg_id'', NPBW_BYTES, 0),
     (3, ''time_valid'', NPBW_INT, 0),
     (4, ''amount'', NPBW_INT, 0),
     (5, ''amount_to'', NPBW_INT, 0),
     (6, ''pkaf'', NPBW_BYTES, 0),
     (7, ''kbvf'', NPBW_BYTES, 0),
     (8, ''kbsf_dleag'', NPBW_BYTES, 0),
     (9, ''dest_af'', NPBW_BYTES, 0),
     (10, ''message_nets'', NPBW_BYTES, NPBF_STR)]"

definition XmrSplitMessage :: field_map where
  "XmrSplitMessage =
    [(1, ''msg_id'', NPBW_BYTES, 0),
     (2, ''msg_type'', NPBW_INT, 0),
     (3, ''sequence'', NPBW_INT, 0),
     (4, ''dleag'', NPBW_BYTES, 0)]"

definition XmrBidAcceptMessage :: field_map where
  "XmrBidAcceptMessage =
    [(1, ''bid_msg_id'', NPBW_BYTES, 0),
     (2, ''pkal'', NPBW_BYTES, 0),
     (3, ''kbvl'', NPBW_BYTES, 0),
     (4, ''kbsl_dleag'', NPBW_BYTES, 0),
     (5, ''a_lock_tx'', NPBW_BYTES, 0),
     (6, ''a_lock_tx_script'', NPBW_BYTES, 0),
     (7, ''a_lock_refund_tx'', NPBW_BYTES, 0),
     (8, ''a_lock_refund_tx_script'', NPBW_BYTES, 0),
     (9, ''a_lock_refund_spend_tx'', NPBW_BYTES, 0),
     (10, ''al_lock_refund_tx_sig'', NPBW_BYTES, 0)]"

definition XmrBidLockTxSigsMessage :: field_map where
  "XmrBidLockTxSigsMessage =
    [(1, ''bid_msg_id'', NPBW_BYTES, 0),
     (2, ''af_lock_refund_spend_tx_esig'', NPBW_BYTES, 0),
     (3, ''af_lock_refund_tx_sig'', NPBW_BYTES, 0)]"

definition XmrBidLockSpendTxMessage :: field_map where
  "XmrBidLockSpendTxMessage =
    [(1, ''bid_msg_id'', NPBW_BYTES, 0),
     (2, ''a_lock_spend_tx'', NPBW_BYTES, 0),
     (3, ''kal_sig'', NPBW_BYTES, 0)]"

definition XmrBidLockReleaseMessage :: field_map where
  "XmrBidLockReleaseMessage =
    [(1, ''bid_msg_id'', NPBW_BYTES, 0),
     (2, ''al_lock_spend_tx_esig'', NPBW_BYTES, 0)]"

definition ADSBidIntentMessage :: field_map where
  "ADSBidIntentMessage =
    [(1, ''protocol_version'', NPBW_INT, 0),
     (2, ''offer_msg_id'', NPBW_BYTES, 0),
     (3, ''time_valid'', NPBW_INT, 0),
     (4, ''amount_from'', NPBW_INT, 0),
     (5, ''amount_to'', NPBW_INT, 0),
     (6, ''message_nets'', NPBW_BYTES, NPBF_STR)]"

definition ADSBidIntentAcceptMessage :: field_map where
  "ADSBidIntentAcceptMessage =
    [(1, ''bid_msg_id'', NPBW_BYTES, 0),
     (2, ''pkaf'', NPBW_BYTES, 0),
     (3, ''kbvf'', NPBW_BYTES, 0),
     (4, ''kbsf_dleag'', NPBW_BYTES, 0),
     (5, ''dest_af'', NPBW_BYTES, 0)]"

definition ConnectReqMessage :: field_map where
  "ConnectReqMessage =
    [(1, ''network_type'', NPBW_INT, 0),
     (2, ''network_data'', NPBW_BYTES, 0),
     (3, ''request_type'', NPBW_INT, 0),
     (4, ''request_data'', NPBW_BYTES, 0)]"

definition MessagePortalOffer :: field_map where
  "MessagePortalOffer =
    [(1, ''network_type_from'', NPBW_INT, 0),
     (2, ''network_type_to'', NPBW_INT, 0),
     (3, ''portal_address_from'', NPBW_BYTES, 0),
     (4, ''portal_address_to'', NPBW_BYTES, 0),
     (5, ''time_valid'', NPBW_INT, 0),
     (6, ''smsg_difficulty'', NPBW_INT, 0)]"

definition MessagePortalSend :: field_map where
  "MessagePortalSend =
    [(1, ''forward_address'', NPBW_BYTES, 0),
     (2, ''message_bytes'', NPBW_BYTES, 0)]"

text \<open>Every message class of the file.\<close>

definition message_classes :: "field_map list" where
  "message_classes =
    [OfferMessage, BidMessage, BidAcceptMessage, OfferRevokeMessage, BidRejectMessage, XmrBidMessage,
     XmrSplitMessage, XmrBidAcceptMessage, XmrBidLockTxSigsMessage, XmrBidLockSpendTxMessage, XmrBidLockReleaseMessage,
     ADSBidIntentMessage, ADSBidIntentAcceptMessage, ConnectReqMessage, MessagePortalOffer, MessagePortalSend]"

section \<open>Specification vocabulary\<close>

definition wf_fields :: "field_map \<Rightarrow> bool" where
  "wf_fields fm \<longleftrightarrow> distinct (map fst fm) \<and> distinct (map (fst \<circ> snd) fm)
     \<and> list_all (\<lambda>(n, nm, w, t). 0 < n \<and> n < 2 ^ 59 \<and> (w = 0 \<or> w = 2)) fm"

definition value_ok :: "nat \<Rightarrow> nat \<Rightarrow> pyval \<Rightarrow> bool" where
  "value_ok w t v =
     (case v of
        PInt i \<Rightarrow> w = 0 \<and> 0 \<le> i \<and> i < 2 ^ 63
      | PBytes b \<Rightarrow> w = 2 \<and> t \<noteq> 1 \<and> int (length b) < 2 ^ 63
      | PStr s \<Rightarrow> w = 2 \<and> t = 1 \<and> (case utf8_encode s of Inl e \<Rightarrow> False | Inr b \<Rightarrow> int (length b) < 2 ^ 63))"

definition message_ok :: "field_map \<Rightarrow> attrs \<Rightarrow> bool" where
  "message_ok fm a \<longleftrightarrow> dom a = set (map (fst \<circ> snd) fm)
     \<and> list_all (\<lambda>(n, nm, w, t). case a nm of None \<Rightarrow> False | Some v \<Rightarrow> value_ok w t v) fm"

definition the_default :: "nat \<Rightarrow> nat \<Rightarrow> pyval" where
  "the_default w t = (if w = 0 then PInt 0 else if t = 1 then PStr [] else PBytes [])"

text \<open>What the decoding loop leaves: the fields whose value is not the default.\<close>

fun set_fields :: "field_map \<Rightarrow> attrs \<Rightarrow> attrs \<Rightarrow> attrs" where
  "set_fields [] a a0 = a0"
| "set_fields ((n, nm, w, t) # fs) a a0 =
     set_fields fs a (if a nm = Some (the_default w t) then a0 else a0(nm := a nm))"

definition value_typed :: "nat \<Rightarrow> nat \<Rightarrow> pyval \<Rightarrow> bool" where
  "value_typed w t v =
     (case v of PInt i \<Rightarrow> w = 0 \<and> 0 \<le> i | PBytes b \<Rightarrow> w = 2 \<and> t \<noteq> 1 | PStr s \<Rightarrow> w = 2 \<and> t = 1)"

definition attrs_typed :: "field_map \<Rightarrow> attrs \<Rightarrow> bool" where
  "attrs_typed fm a \<longleftrightarrow>
     (\<forall>x v. a x = Some v \<longrightarrow> (\<exists>n w t. (n, x, w, t) \<in> set fm \<and> value_typed w t v))"

definition message_typed :: "field_map \<Rightarrow> attrs \<Rightarrow> bool" where
  "message_typed fm a \<longleftrightarrow> dom a = set (map (fst \<circ> snd) fm)
     \<and> list_all (\<lambda>(n, nm, w, t). case a nm of None \<Rightarrow> False | Some v \<Rightarrow> value_typed w t v) fm"

section \<open>Facts\<close>

lemma unat_byte: "n < 256 \<Longrightarrow> unat (of_nat n :: byte) = n"
  by (simp add: unat_of_nat)

lemma cont_of_nat:
  "cont_byte (of_nat (128 + x mod 64))" "cont_val (of_nat (128 + x mod 64)) = x mod 64"
proof -
  have "x mod 64 < 64" by simp
  then have "unat (of_nat (128 + x mod 64) :: byte) = 128 + x mod 64"
    by (intro unat_byte) linarith
  then show "cont_byte (of_nat (128 + x mod 64))" "cont_val (of_nat (128 + x mod 64)) = x mod 64"
    unfolding cont_byte_def cont_val_def by simp_all
qed

lemmas cont_of_nat_simps [simp] = cont_of_nat [simplified]

lemma base64_digits:
  "(c::nat) div 4096 * 4096 + c div 64 mod 64 * 64 + c mod 64 = c"
  "(c::nat) div 262144 * 262144 + c div 4096 mod 64 * 4096 + c div 64 mod 64 * 64 + c mod 64 = c"
proof -
  have d: "c div 4096 = c div 64 div 64" "c div 262144 = c div 64 div 64 div 64"
    by (simp_all flip: div_mult2_eq)
  have digits: "q2 * 4096 + r2 * 64 + r1 = c" "q3 * 262144 + r3 * 4096 + r2 * 64 + r1 = c"
    if "q1 * 64 + r1 = c" "q2 * 64 + r2 = q1" "q3 * 64 + r3 = q2" for q1 q2 q3 r1 r2 r3 :: nat
    using that by simp_all
  show "c div 4096 * 4096 + c div 64 mod 64 * 64 + c mod 64 = c"
    "c div 262144 * 262144 + c div 4096 mod 64 * 4096 + c div 64 mod 64 * 64 + c mod 64 = c"
    unfolding d by (rule digits; rule div_mult_mod_eq)+
qed

declare utf8_decode.simps(2) [simp del]

lemma utf8_decode_2:
  assumes "0xC0 \<le> n" "n < 0xE0" "cont_byte b1" "(n - 0xC0) * 64 + cont_val b1 = c" "0x80 \<le> c"
  shows "utf8_decode (of_nat n # b1 # rest) = cons_res c (utf8_decode rest)"
  using assms unat_byte [of n] by (simp add: utf8_decode.simps)

lemma utf8_decode_3:
  assumes "0xE0 \<le> n" "n < 0xF0" "cont_byte b1" "cont_byte b2"
    "(n - 0xE0) * 4096 + cont_val b1 * 64 + cont_val b2 = c" "0x800 \<le> c" "\<not> (0xD800 \<le> c \<and> c \<le> 0xDFFF)"
  shows "utf8_decode (of_nat n # b1 # b2 # rest) = cons_res c (utf8_decode rest)"
  using assms unat_byte [of n] by (simp add: utf8_decode.simps)

lemma utf8_decode_4:
  assumes "0xF0 \<le> n" "n < 0xF8" "cont_byte b1" "cont_byte b2" "cont_byte b3"
    "(n - 0xF0) * 262144 + cont_val b1 * 4096 + cont_val b2 * 64 + cont_val b3 = c"
    "0x10000 \<le> c" "c < 0x110000"
  shows "utf8_decode (of_nat n # b1 # b2 # b3 # rest) = cons_res c (utf8_decode rest)"
  using assms unat_byte [of n] by (simp add: utf8_decode.simps)

lemma utf8_decode_encode_cp:
  assumes "utf8_encode_cp c = Inr b"
  shows "utf8_decode (b @ rest) = cons_res c (utf8_decode rest)"
proof -
  consider "c < 0x80" | "0x80 \<le> c" "c < 0x800" | "0x800 \<le> c" "c < 0x10000" "\<not> (0xD800 \<le> c \<and> c \<le> 0xDFFF)"
    | "0x10000 \<le> c" "c < 0x110000"
    using assms by (fastforce simp: utf8_encode_cp_def split: if_splits)
  then show ?thesis
  proof cases
    case 1
    then show ?thesis
      using assms by (auto simp: utf8_encode_cp_def utf8_decode.simps unat_byte)
  next
    case 2
    then have "b = [of_nat (0xC0 + c div 64), of_nat (0x80 + c mod 64)]"
      using assms unfolding utf8_encode_cp_def by simp
    then show ?thesis
      using 2 utf8_decode_2 [of "0xC0 + c div 64" "of_nat (0x80 + c mod 64)" c rest] by simp
  next
    case 3
    then have "b = [of_nat (0xE0 + c div 4096), of_nat (0x80 + c div 64 mod 64), of_nat (0x80 + c mod 64)]"
      using assms unfolding utf8_encode_cp_def by (auto split: if_splits)
    then show ?thesis
      using 3 base64_digits(1) [of c]
        utf8_decode_3 [of "0xE0 + c div 4096" "of_nat (0x80 + c div 64 mod 64)" "of_nat (0x80 + c mod 64)" c rest]
      by simp
  next
    case 4
    then have "b = [of_nat (0xF0 + c div 262144), of_nat (0x80 + c div 4096 mod 64),
        of_nat (0x80 + c div 64 mod 64), of_nat (0x80 + c mod 64)]"
      using assms unfolding utf8_encode_cp_def by (auto split: if_splits)
    then show ?thesis
      using 4 base64_digits(2) [of c]
        utf8_decode_4 [of "0xF0 + c div 262144" "of_nat (0x80 + c div 4096 mod 64)"
          "of_nat (0x80 + c div 64 mod 64)" "of_nat (0x80 + c mod 64)" c rest]
      by simp
  qed
qed

lemma utf8_roundtrip: "utf8_encode s = Inr b \<Longrightarrow> utf8_decode b = Inr s"
  by (induction s arbitrary: b) (auto simp: utf8_decode_encode_cp cons_res_def)

lemma default_value_ok: "w = 0 \<or> w = 2 \<Longrightarrow> default_value w t = Inr (the_default w t)"
  by (auto simp: default_value_def the_default_def)

lemma tag_split:
  assumes "w < 8"
  shows "push_bit 3 n OR int w = 8 * n + int w"
    "(8 * n + int w) AND 7 = int w" "drop_bit 3 (8 * n + int w) = n"
  using assms int_or_push_bit [of "int w" 3 n]
  by (simp_all add: or.commute int_and_7 drop_bit_eq_div)

lemma utf8_encode_eq_Nil: "utf8_encode s = Inr [] \<longleftrightarrow> s = []"
  by (cases s) (auto simp: utf8_encode_cp_def split: if_splits)

lemma parse_value_int:
  assumes tag: "decode_varint (p @ t @ v @ s) (length p) = Inr (8 * n, length t)"
    and val: "decode_varint (p @ t @ v @ s) (length p + length t) = Inr (i, length v)"
    and fm: "map_of fm n = Some (nm, 0, ft)"
  shows "parse_field fm (p @ t @ v @ s) (length p) = Inr (nm, PInt i, length p + length (t @ v))"
  using tag val fm tag_split [of 0 n] by (simp add: parse_field_def ac_simps)

lemma parse_value_bytes:
  assumes tag: "decode_varint (p @ t @ l @ v @ s) (length p) = Inr (8 * n + 2, length t)"
    and len: "decode_varint (p @ t @ l @ v @ s) (length p + length t) = Inr (int (length v), length l)"
    and fm: "map_of fm n = Some (nm, 2, ft)"
  shows "parse_field fm (p @ t @ l @ v @ s) (length p) =
    (if ft = 1 then rbind (utf8_decode v) (\<lambda>str. Inr (nm, PStr str, length p + length (t @ l @ v)))
     else Inr (nm, PBytes v, length p + length (t @ l @ v)))"
proof -
  have "bslice (p @ t @ l @ v @ s) (length p + length t + length l)
      (length p + length t + length l + length v) = v"
    using bslice_append_exact [OF refl refl, of "p @ t @ l" v s] by (simp add: ac_simps)
  with tag len fm tag_split [of 2 n] show ?thesis
    by (simp add: parse_field_def Let_def ac_simps)
qed

lemma varint_at:
  "0 \<le> i \<Longrightarrow> i < 2 ^ 63 \<Longrightarrow> encode_varint i = Inr b \<Longrightarrow> length p = off \<Longrightarrow>
    decode_varint (p @ b @ s) off = Inr (i, length b)"
  using varint.dec_enc by blast

lemma varint_total: "0 \<le> i \<Longrightarrow> \<exists>b. encode_varint i = Inr b \<and> b \<noteq> []"
  by (rule encode_varint_total)

lemma field_roundtrip:
  assumes a: "a nm = Some val" and ok: "value_ok w ft val" and w: "w = 0 \<or> w = 2"
    and n: "0 < n" "n < 2 ^ 59" and fm: "map_of fm n = Some (nm, w, ft)"
  shows "\<exists>b. field_to_bytes a (n, nm, w, ft) = Inr b
    \<and> (if val = the_default w ft then b = []
       else b \<noteq> [] \<and> parse_field fm (p @ b @ s) (length p) = Inr (nm, val, length p + length b))"
proof -
  have tag: "push_bit 3 n OR int w = 8 * n + int w"
    using w tag_split(1) [of w n] by auto
  have tr: "0 \<le> 8 * n + int w" "8 * n + int w < 2 ^ 63"
    using n w by auto
  obtain t where t: "encode_varint (8 * n + int w) = Inr t" "t \<noteq> []"
    using varint_total [OF tr(1)] by blast
  have tag_at: "decode_varint (p @ t @ x) (length p) = Inr (8 * n + int w, length t)" for x
    using varint_at [OF tr t(1)] by blast
  show ?thesis
  proof (cases val)
    case (PInt i)
    then have i: "w = 0" "0 \<le> i" "i < 2 ^ 63"
      using ok by (auto simp: value_ok_def)
    obtain v where v: "encode_varint i = Inr v"
      using varint_total [OF i(2)] by blast
    have "decode_varint (p @ t @ v @ s) (length p + length t) = Inr (i, length v)"
      using varint_at [OF i(2,3) v, of "p @ t" _ s] by simp
    then show ?thesis
      using a PInt i t tag v fm tag_at [of "v @ s"] parse_value_int [of p t v s n i fm nm ft]
      by (auto simp: the_default_def value_varint_def)
  next
    case (PBytes b)
    then have b: "w = 2" "ft \<noteq> 1" "int (length b) < 2 ^ 63"
      using ok by (auto simp: value_ok_def)
    obtain l where l: "encode_varint (int (length b)) = Inr l"
      using varint_total [of "int (length b)"] by auto
    have "decode_varint (p @ t @ l @ b @ s) (length p + length t) = Inr (int (length b), length l)"
      using varint_at [OF _ b(3) l, of "p @ t" _ "b @ s"] by simp
    then show ?thesis
      using a PBytes b t tag l fm tag_at [of "l @ b @ s"] parse_value_bytes [of p t l b s n fm nm ft]
      by (auto simp: the_default_def value_len_def value_bytes_def)
  next
    case (PStr str)
    then obtain b where b: "w = 2" "ft = 1" "utf8_encode str = Inr b" "int (length b) < 2 ^ 63"
      using ok by (auto simp: value_ok_def split: sum.splits)
    obtain l where l: "encode_varint (int (length b)) = Inr l"
      using varint_total [of "int (length b)"] by auto
    have "decode_varint (p @ t @ l @ b @ s) (length p + length t) = Inr (int (length b), length l)"
      using varint_at [OF _ b(4) l, of "p @ t" _ "b @ s"] by simp
    then show ?thesis
      using a PStr b t tag l fm tag_at [of "l @ b @ s"] parse_value_bytes [of p t l b s n fm nm ft]
        utf8_roundtrip [OF b(3)]
      by (auto simp: the_default_def value_len_def value_bytes_def)
  qed
qed

lemma from_bytes_loop_step:
  "off < length b \<Longrightarrow> parse_field fm b off = Inr (nm, v, off') \<Longrightarrow>
     from_bytes_loop fm b off a = from_bytes_loop fm b off' (a(nm \<mapsto> v))"
  by (subst from_bytes_loop.simps) simp

lemma from_bytes_loop_done: "off = length b \<Longrightarrow> from_bytes_loop fm b off a = Inr a"
  by (subst from_bytes_loop.simps) simp

lemma from_bytes_loop_to_bytes:
  assumes "list_all (\<lambda>(n, nm, w, t). map_of fm n = Some (nm, w, t) \<and> 0 < n \<and> n < 2 ^ 59
      \<and> (w = 0 \<or> w = 2) \<and> (case a nm of None \<Rightarrow> False | Some v \<Rightarrow> value_ok w t v)) fs"
  shows "\<exists>b. npb_to_bytes fs a = Inr b
    \<and> (\<forall>p a0. from_bytes_loop fm (p @ b) (length p) a0 = Inr (set_fields fs a a0))"
  using assms
proof (induction fs)
  case Nil
  then show ?case by (simp add: from_bytes_loop_done)
next
  case (Cons f fs)
  obtain n nm w t where f: "f = (n, nm, w, t)" by (cases f) auto
  with Cons.prems obtain v where v: "a nm = Some v" "value_ok w t v" "w = 0 \<or> w = 2"
      "0 < n" "n < 2 ^ 59" "map_of fm n = Some (nm, w, t)"
    by (auto split: option.splits)
  obtain bs where bs: "npb_to_bytes fs a = Inr bs"
      "\<And>p a0. from_bytes_loop fm (p @ bs) (length p) a0 = Inr (set_fields fs a a0)"
    using Cons by auto
  obtain b where b: "field_to_bytes a f = Inr b"
    using field_roundtrip [of a nm v w t n fm] v f by blast
  have field: "if v = the_default w t then b = []
      else b \<noteq> [] \<and> parse_field fm (p @ b @ bs) (length p) = Inr (nm, v, length p + length b)" for p
    using field_roundtrip [of a nm v w t n fm p bs] v b f by auto
  have "from_bytes_loop fm (p @ b @ bs) (length p) a0 = Inr (set_fields (f # fs) a a0)" for p a0
  proof (cases "v = the_default w t")
    case True
    then show ?thesis
      using field bs(2) [of p a0] f v(1) by simp
  next
    case False
    with field have b: "b \<noteq> []" "parse_field fm (p @ b @ bs) (length p) = Inr (nm, v, length p + length b)"
      by auto
    then have "from_bytes_loop fm (p @ b @ bs) (length p) a0
        = from_bytes_loop fm (p @ b @ bs) (length p + length b) (a0(nm \<mapsto> v))"
      by (intro from_bytes_loop_step) auto
    also have "\<dots> = Inr (set_fields fs a (a0(nm \<mapsto> v)))"
      using bs(2) [of "p @ b" "a0(nm \<mapsto> v)"] by simp
    finally show ?thesis
      using False f v(1) by simp
  qed
  then show ?case
    using b bs(1) by auto
qed

lemma set_fields_other: "x \<notin> set (map (fst \<circ> snd) fs) \<Longrightarrow> set_fields fs a a0 x = a0 x"
  by (induction fs a a0 rule: set_fields.induct) auto

lemma set_fields_field:
  assumes "distinct (map (fst \<circ> snd) fs)" and "(n, nm, w, t) \<in> set fs" and "a0 nm = None"
  shows "set_fields fs a a0 nm = (if a nm = Some (the_default w t) then None else a nm)"
  using assms
proof (induction fs a a0 rule: set_fields.induct)
  case (2 n' nm' w' t' fs a a0)
  show ?case
  proof (cases "nm' = nm")
    case True
    with "2.prems" have "(n', w', t') = (n, w, t)" "nm \<notin> set (map (fst \<circ> snd) fs)"
      by (force)+
    then show ?thesis
      using True "2.prems"(3) by (simp add: set_fields_other)
  next
    case False
    then show ?thesis
      using 2 by auto
  qed
qed simp

lemma init_fields_spec:
  assumes "list_all (\<lambda>(n, nm, w, t). w = 0 \<or> w = 2) fs"
  shows "init_fields fs a = Inr (\<lambda>x. case a x of Some v \<Rightarrow> Some v
    | None \<Rightarrow> map_of (map (\<lambda>(n, nm, w, t). (nm, the_default w t)) fs) x)"
  using assms
proof (induction fs a rule: init_fields.induct)
  case (2 n nm w t fs a)
  then have w: "w = 0 \<or> w = 2" "list_all (\<lambda>(n, nm, w, t). w = 0 \<or> w = 2) fs"
    by auto
  show ?case
  proof (cases "a nm")
    case None
    let ?d = "\<lambda>fs. map_of (map (\<lambda>(n, nm, w, t). (nm, the_default w t)) fs)"
    have "init_fields fs (a(nm \<mapsto> the_default w t)) =
        Inr (\<lambda>x. case (a(nm \<mapsto> the_default w t)) x of Some v \<Rightarrow> Some v | None \<Rightarrow> ?d fs x)"
      by (rule "2.IH"(2) [OF _ default_value_ok [OF w(1)] w(2)]) (simp add: None)
    moreover have "(\<lambda>x. case (a(nm \<mapsto> the_default w t)) x of Some v \<Rightarrow> Some v | None \<Rightarrow> ?d fs x)
        = (\<lambda>x. case a x of Some v \<Rightarrow> Some v | None \<Rightarrow> ?d ((n, nm, w, t) # fs) x)"
      using None by (auto simp: fun_eq_iff split: option.splits)
    ultimately show ?thesis
      using None w(1) by (simp add: default_value_ok)
  next
    case (Some v)
    then show ?thesis
      using "2.IH"(1) [OF _ w(2)] by (simp add: fun_eq_iff split: option.splits)
  qed
qed (simp add: fun_eq_iff split: option.splits)

lemma map_of_distinct:
  "distinct (map fst xs) \<Longrightarrow> (k, v) \<in> set xs \<Longrightarrow> map_of xs k = Some v"
  by simp

lemma message_roundtrip_generic:
  assumes wf: "wf_fields fm" and ok: "message_ok fm a"
  shows "\<exists>b. npb_to_bytes fm a = Inr b \<and> npb_from_bytes fm Map.empty b True = Inr a"
proof -
  have names: "distinct (map (fst \<circ> snd) fm)" and nums: "distinct (map fst fm)"
    and kinds: "list_all (\<lambda>(n, nm, w, t). 0 < n \<and> n < 2 ^ 59 \<and> (w = 0 \<or> w = 2)) fm"
    using wf by (simp_all add: wf_fields_def)
  have "list_all (\<lambda>(n, nm, w, t). map_of fm n = Some (nm, w, t) \<and> 0 < n \<and> n < 2 ^ 59
      \<and> (w = 0 \<or> w = 2) \<and> (case a nm of None \<Rightarrow> False | Some v \<Rightarrow> value_ok w t v)) fm"
    using ok kinds nums by (fastforce simp: message_ok_def list_all_iff)
  then obtain b where b: "npb_to_bytes fm a = Inr b"
      "\<And>p a0. from_bytes_loop fm (p @ b) (length p) a0 = Inr (set_fields fm a a0)"
    using from_bytes_loop_to_bytes by blast
  have init: "init_fields fm (set_fields fm a Map.empty) = Inr (\<lambda>x. case set_fields fm a Map.empty x of
      Some v \<Rightarrow> Some v | None \<Rightarrow> map_of (map (\<lambda>(n, nm, w, t). (nm, the_default w t)) fm) x)"
    using kinds by (intro init_fields_spec) (auto simp: list_all_iff)
  have "(case set_fields fm a Map.empty x of Some v \<Rightarrow> Some v
      | None \<Rightarrow> map_of (map (\<lambda>(n, nm, w, t). (nm, the_default w t)) fm) x) = a x" for x
  proof (cases "x \<in> set (map (fst \<circ> snd) fm)")
    case True
    then obtain n w t where f: "(n, x, w, t) \<in> set fm" by auto
    have "map_of (map (\<lambda>(n, nm, w, t). (nm, the_default w t)) fm) x = Some (the_default w t)"
      using f names by (intro map_of_distinct) (force simp: comp_def case_prod_unfold)+
    moreover have "a x \<noteq> None"
      using True ok by (auto simp: message_ok_def)
    ultimately show ?thesis
      using set_fields_field [OF names f, of Map.empty a] by (auto split: option.splits)
  next
    case False
    then have "a x = None" using ok by (auto simp: message_ok_def)
    moreover have "map_of (map (\<lambda>(n, nm, w, t). (nm, the_default w t)) fm) x = None"
      using False by (force simp: map_of_eq_None_iff)
    ultimately show ?thesis
      using False by (simp add: set_fields_other)
  qed
  then show ?thesis
    using b(1) b(2) [of "[]" Map.empty] init by (auto simp: npb_from_bytes_def)
qed

lemma decode_varint_nonneg: "decode_varint b off = Inr (v, lv) \<Longrightarrow> 0 \<le> v"
  using decode_varint_from_pos [of b off 0 0 v lv] by (simp add: decode_varint_def)

lemma parse_field_typed:
  "parse_field fm b off = Inr (x, v, off') \<Longrightarrow> \<exists>n w t. (n, x, w, t) \<in> set fm \<and> value_typed w t v"
  by (fastforce simp: parse_field_def Let_def value_typed_def split: if_splits
      dest: map_of_SomeD decode_varint_nonneg)

lemma from_bytes_loop_typed:
  "from_bytes_loop fm b off a = Inr a' \<Longrightarrow> attrs_typed fm a \<Longrightarrow> attrs_typed fm a'"
proof (induction fm b off a rule: from_bytes_loop.induct)
  case (1 fm b off a)
  show ?case
  proof (cases "off < length b")
    case False
    with "1.prems" show ?thesis
      by (subst (asm) from_bytes_loop.simps) simp
  next
    case True
    then obtain x v off' where p: "parse_field fm b off = Inr (x, v, off')"
      using "1.prems"(1) by (subst (asm) from_bytes_loop.simps) (auto split: sum.splits)
    with True "1.prems"(1) have rest: "from_bytes_loop fm b off' (a(x \<mapsto> v)) = Inr a'"
      by (simp add: from_bytes_loop_step)
    have "attrs_typed fm (a(x \<mapsto> v))"
      using "1.prems"(2) parse_field_typed [OF p] by (auto simp: attrs_typed_def)
    then show ?thesis
      by (rule "1.IH" [OF True p refl refl rest])
  qed
qed

lemma attrs_typed_field:
  assumes "distinct (map (fst \<circ> snd) fm)" "attrs_typed fm a" "(n, x, w, t) \<in> set fm" "a x = Some v"
  shows "value_typed w t v"
proof -
  obtain n' w' t' where f: "(n', x, w', t') \<in> set fm" "value_typed w' t' v"
    using assms(2,4) unfolding attrs_typed_def by blast
  have "(n', x, w', t') = (n, x, w, t)"
    using inj_onD [of "fst \<circ> snd" "set fm" "(n', x, w', t')" "(n, x, w, t)"] assms(1,3) f(1)
    by (simp add: distinct_map)
  with f(2) show ?thesis by simp
qed

lemma init_fields_typed:
  assumes wf: "wf_fields fm" and a: "attrs_typed fm a" and i: "init_fields fm a = Inr a'"
  shows "message_typed fm a'"
proof -
  let ?d = "map_of (map (\<lambda>(n, nm, w, t). (nm, the_default w t)) fm)"
  have names: "distinct (map (fst \<circ> snd) fm)"
    and kinds: "list_all (\<lambda>(n, nm, w, t). w = 0 \<or> w = 2) fm"
    using wf by (auto simp: wf_fields_def list_all_iff)
  have a': "a' x = (case a x of Some v \<Rightarrow> Some v | None \<Rightarrow> ?d x)" for x
    using init_fields_spec [OF kinds, of a] i by simp
  have field: "?d x = Some (the_default w t)" if "(n, x, w, t) \<in> set fm" for n x w t
    using that names by (intro map_of_distinct) (force simp: comp_def case_prod_unfold)+
  have typed: "value_typed w t (the_default w t)" if "(n, x, w, t) \<in> set fm" for n x w t
    using that kinds by (auto simp: list_all_iff value_typed_def the_default_def)
  have "x \<in> dom a' \<longleftrightarrow> x \<in> set (map (fst \<circ> snd) fm)" for x
  proof
    assume "x \<in> dom a'"
    then consider v where "a x = Some v" | "?d x \<noteq> None"
      using a' [of x] by (cases "a x"; cases "?d x") auto
    then show "x \<in> set (map (fst \<circ> snd) fm)"
    proof cases
      case 1
      with a show ?thesis by (force simp: attrs_typed_def)
    next
      case 2
      then obtain d where "?d x = Some d" by blast
      then show ?thesis by (force dest!: map_of_SomeD)
    qed
  next
    assume "x \<in> set (map (fst \<circ> snd) fm)"
    then obtain n w t where "(n, x, w, t) \<in> set fm" by auto
    from field [OF this] show "x \<in> dom a'"
      using a' [of x] by (auto split: option.splits)
  qed
  moreover have "case a' x of None \<Rightarrow> False | Some v \<Rightarrow> value_typed w t v"
    if f: "(n, x, w, t) \<in> set fm" for n x w t
    using field [OF f] typed [OF f] attrs_typed_field [OF names a f] a' [of x]
    by (auto split: option.splits)
  ultimately show ?thesis
    by (auto simp: message_typed_def list_all_iff)
qed

lemma message_classes_wf: "list_all wf_fields message_classes"
  by code_simp

section \<open>Properties\<close>

text \<open>C34. Every message class: serialising a message whose fields have values of their wire types
  (integers below \<open>2 ^ 63\<close>, strings that encode to UTF-8) succeeds, and parsing the bytes into a
  fresh object gives the message back, default values included.\<close>

theorem message_roundtrip:
  assumes "fm \<in> set message_classes" and "message_ok fm a"
  shows "\<exists>b. npb_to_bytes fm a = Inr b \<and> npb_from_bytes fm Map.empty b True = Inr a"
proof -
  have "wf_fields fm"
    using assms(1) message_classes_wf by (simp add: list_all_iff)
  then show ?thesis
    using assms(2) by (rule message_roundtrip_generic)
qed

theorem message_roundtrip_witness:
  "\<exists>b. npb_to_bytes BidRejectMessage [''bid_msg_id'' \<mapsto> PBytes [1, 2, 3], ''reject_code'' \<mapsto> PInt 300] = Inr b
    \<and> npb_from_bytes BidRejectMessage Map.empty b True =
        Inr [''bid_msg_id'' \<mapsto> PBytes [1, 2, 3], ''reject_code'' \<mapsto> PInt 300]"
  by (rule message_roundtrip) (simp_all add: message_classes_def message_ok_def BidRejectMessage_def
      value_ok_def NPBW_BYTES_def NPBW_INT_def insert_commute)

text \<open>C36. Whatever bytes arrive, a message that parses has exactly the attributes of its class, each
  with a value of the field's type: a non-negative integer, a byte string or a text.\<close>

theorem parsed_message_typed:
  assumes "fm \<in> set message_classes" and "npb_from_bytes fm Map.empty b True = Inr a"
  shows "message_typed fm a"
proof -
  have wf: "wf_fields fm"
    using assms(1) message_classes_wf by (simp add: list_all_iff)
  obtain a' where a': "from_bytes_loop fm b 0 Map.empty = Inr a'" "init_fields fm a' = Inr a"
    using assms(2) by (auto simp: npb_from_bytes_def)
  have "attrs_typed fm Map.empty"
    by (simp add: attrs_typed_def)
  with a'(1) have "attrs_typed fm a'"
    by (rule from_bytes_loop_typed)
  with wf show ?thesis
    using a'(2) by (rule init_fields_typed)
qed

theorem parsed_message_typed_witness:
  "message_typed BidRejectMessage [''bid_msg_id'' \<mapsto> PBytes [5], ''reject_code'' \<mapsto> PInt 0]"
proof -
  have "npb_from_bytes BidRejectMessage Map.empty [10, 1, 5] True =
      Inr [''bid_msg_id'' \<mapsto> PBytes [5], ''reject_code'' \<mapsto> PInt 0]"
    by (simp add: npb_from_bytes_def from_bytes_loop.simps parse_field_def decode_varint_def
        decode_varint_from.simps BidRejectMessage_def NPBW_BYTES_def NPBW_INT_def bslice_def
        default_value_def)
  then show ?thesis
    by (intro parsed_message_typed) (simp_all add: message_classes_def)
qed

end
