(* ===== verification/Adaptor_Actions.thy ===== *)
theory Adaptor_Actions
  imports Adaptor_Swap Messages
begin

text \<open>
  The delayed steps of the adaptor signature swap, which the action queue runs on objects read from the database:
  \<open>sendXmrBidCoinBLockTx\<close>, \<open>sendXmrBidLockRelease\<close>, \<open>redeemXmrBidCoinALockTx\<close>, \<open>redeemXmrBidCoinBLockTx\<close>,
  \<open>recoverXmrBidCoinBLockTx\<close> and \<open>sendMercyTx\<close> of \<open>src/basicswap/basicswap.py\<close>; and what the watches find:
  \<open>processSpentOutput\<close> for this swap type, \<open>process_MERCY_tx\<close> and \<open>processFoundScript\<close>.
\<close>

section \<open>Definitions\<close>

subsection \<open>The delayed steps of the swap\<close>

text \<open>Sending the lock transaction of coin B. The warning for a transaction that exists reads \<open>xmr_b_lock_tx.b_lock_tx_id\<close>,
  an attribute \<open>SwapTx\<close> does not have.\<close>

definition publish_b_lock :: "xenv \<Rightarrow> bytes \<Rightarrow> Coins \<Rightarrow> int \<Rightarrow> int \<Rightarrow> Bid \<Rightarrow> XmrSwap \<Rightarrow> (node, bytes \<times> int option) py" where
  "publish_b_lock X b cb fee_rate unlock_time bid xs =
     pbind (case x_prefunded X b PTX_PRE_FUNDED of
              Some prefunded_tx \<Rightarrow>
                pbind (plift (promotePTx (x_ads X cb) prefunded_tx xs)) (\<lambda>tx.
                pbind (publish (x_env X) cb tx) (\<lambda>t. pret (t, None)))
            | None \<Rightarrow>
                pbind (plift (publishBLockTx (x_ads X cb) xs (amount_to bid) fee_rate unlock_time)) (\<lambda>(t, v).
                pseq (pmod (\<lambda>n. n\<lparr>published := published n @ [(cb, t)]\<rparr>)) (pret (t, v)))) (\<lambda>r.
     if debug_ind bid = Some (DebugTypes_val DBG_B_LOCK_TX_MISSED_SEND)
     then pseq (logEvent b EV_DEBUG_TWEAK_APPLIED ''ind '') (praise (TemporaryError ''Fail for debug event''))
     else pret r)"

text \<open>A failed send on chain B is queued again while its errors are transient and not too many.\<close>

definition retry_or_fail ::
  "xenv \<Rightarrow> bytes \<Rightarrow> Coins \<Rightarrow> Offer \<Rightarrow> Bid \<Rightarrow> XmrSwap \<Rightarrow> EventLogTypes \<Rightarrow> ActionTypes \<Rightarrow> string \<Rightarrow> py_error \<Rightarrow> (node, unit) py" where
  "retry_or_fail X b cb offer bid xs ev act msg e =
     pbind (countBidEvents b ev) (\<lambda>num_retries.
     pseq (if num_retries < x_max_transient_errors X \<and> (ads_transient (x_ads X cb) e \<or> x_transient X e)
           then createAction (now (x_env X)) (duplicate_actions (x_env X)) (x_retry_delay X) act b
           else pseq (logEvent b EV_ERROR msg)
               (pbind (with_state (now (x_env X)) BID_ERROR bid) (\<lambda>bid. save_in_progress b bid xs offer)))
          (logEvent b ev ''''))"

definition send_b_lock :: "xenv \<Rightarrow> bytes \<Rightarrow> Coins \<Rightarrow> Offer \<Rightarrow> XmrOffer \<Rightarrow> Bid \<Rightarrow> XmrSwap \<Rightarrow> (node, unit) py" where
  "send_b_lock X b cb offer xo bid xs =
     (let E = x_env X;
          reduced = (debug_ind bid \<in> {Some (DebugTypes_val DBG_CREATE_INVALID_COIN_B_LOCK), Some (DebugTypes_val DBG_B_LOCK_TX_MISSED_SEND)});
          locked = (debug_ind bid = Some (DebugTypes_val DBG_SEND_LOCKED_XMR));
          bid = (if reduced then bid\<lparr>amount_to := amount_to bid - x_tenth X (amount_to bid)\<rparr> else bid)
      in pseq (pwhen reduced (logEvent b EV_DEBUG_TWEAK_APPLIED ''ind ''))
        (pseq (pwhen locked (logEvent b EV_DEBUG_TWEAK_APPLIED ''ind ''))
        (pbind (ptry (pbind (publish_b_lock X b cb (if reverse_offer offer then a_fee_rate xo else b_fee_rate xo)
                               (if locked then 10000 else 0) bid xs) (\<lambda>r. pret (Inr r)))
                     (\<lambda>e. pret (Inl e))) (\<lambda>r.
         case r of
           Inl e \<Rightarrow> retry_or_fail X b cb offer bid xs EV_FAILED_TX_B_LOCK_PUBLISH SEND_XMR_SWAP_LOCK_TX_B ''publishBLockTx failed: '' e
         | Inr (t, v) \<Rightarrow>
             pbind (with_tx_state (now E) TX_SENT ((new_tx b XMR_SWAP_B_LOCK None)\<lparr>txid := Some t, vout := v\<rparr>)) (\<lambda>tx.
             pseq (logEvent b EV_LOCK_TX_B_PUBLISHED '''')
            (pbind (if debug_ind bid = Some (DebugTypes_val DBG_BID_STOP_AFTER_COIN_B_LOCK)
                    then pbind (with_state (now E) BID_STALLED_FOR_TEST bid) (\<lambda>bid.
                         pseq (logEvent b EV_DEBUG_TWEAK_APPLIED ''ind '') (pret bid))
                    else pret bid) (\<lambda>bid.
             save_in_progress b (bid\<lparr>xmr_b_lock_tx := Some tx\<rparr>) (xs\<lparr>b_lock_tx_id := Some t\<rparr>) offer)))))))"

definition sendXmrBidCoinBLockTx :: "xenv \<Rightarrow> bytes \<Rightarrow> (node, unit) py" where
  "sendXmrBidCoinBLockTx X b =
     pbind (load_swap b) (\<lambda>(bid, xs).
     pbind (load_offer (bid_offer_id bid)) (\<lambda>(offer, xo).
     pbind (plift (coin_b offer)) (\<lambda>cb.
     pbind (findTxB X b cb (is_follower offer bid) bid xs) (\<lambda>(changed, bid, xs).
     if changed then save_in_progress b bid xs offer
     else if xmr_b_lock_tx bid \<noteq> None then praise AttributeError
     else if debug_ind bid = Some (DebugTypes_val DBG_BID_STOP_AFTER_COIN_A_LOCK) then
       pbind (with_state (now (x_env X)) BID_STALLED_FOR_TEST bid) (\<lambda>bid.
       pseq (logEvent b EV_DEBUG_TWEAK_APPLIED ''ind '')
            (save_in_progress b bid xs offer))
     else send_b_lock X b cb offer xo bid xs))))"

text \<open>How long until the lock transaction of coin A can be refunded.\<close>

definition lock_margin :: "xenv \<Rightarrow> Coins \<Rightarrow> Offer \<Rightarrow> XmrOffer \<Rightarrow> Bid \<Rightarrow> (node, int) py" where
  "lock_margin X ca offer xo bid =
     pbind (case xmr_a_lock_tx bid of
              None \<Rightarrow> pret None
            | Some tx \<Rightarrow> plift (csvLockRemaining (chain (ci (x_env X) ca)) (lock_type offer) (lock_time_1 xo)
                                (block_height tx) (block_time tx) None None None)) (\<lambda>lock_remaining.
     case lock_remaining of
       None \<Rightarrow> praise (TemporaryError ''Cannot determine the coin a lock refund timelock'')
     | Some r \<Rightarrow> pret r)"

text \<open>The leader releases the secret that lets the follower spend coin A: message 5F with the encrypted signature. Serialising a
  field that is None raises \<open>TypeError\<close>.\<close>

definition message_payload :: "MessageTypes \<Rightarrow> field_map \<Rightarrow> (string \<times> pyval) list \<Rightarrow> bytes res" where
  "message_payload t fm kwargs =
     rbind (npb_init fm True kwargs) (\<lambda>msg_buf.
     rbind (npb_to_bytes fm msg_buf) (\<lambda>msg_bytes.
     Inr (word_of_int (MessageTypes_val t) # msg_bytes)))"

definition release_payload :: "bytes \<Rightarrow> XmrSwap \<Rightarrow> bytes res" where
  "release_payload b xs =
     rbind (of_option TypeError (al_lock_spend_tx_esig xs)) (\<lambda>esig.
     message_payload MT_XMR_BID_LOCK_RELEASE_LF XmrBidLockReleaseMessage
       [(''bid_msg_id'', PBytes b), (''al_lock_spend_tx_esig'', PBytes esig)])"

definition send_release :: "xenv \<Rightarrow> bytes \<Rightarrow> Offer \<Rightarrow> Bid \<Rightarrow> XmrSwap \<Rightarrow> (node, unit) py" where
  "send_release X b offer bid xs =
     pbind (plift (release_payload b xs)) (\<lambda>payload.
     let addr_send_from = (if reverse_offer offer then bid_addr bid else addr_from offer);
         addr_send_to = (if reverse_offer offer then addr_from offer else bid_addr bid) in
     pseq (sendMessage X addr_send_from addr_send_to payload)
    (pbind (with_state (now (x_env X)) XMR_SWAP_LOCK_RELEASED bid) (\<lambda>bid.
     save_in_progress b bid xs offer)))"

definition sendXmrBidLockRelease :: "xenv \<Rightarrow> bytes \<Rightarrow> (node, unit) py" where
  "sendXmrBidLockRelease X b =
     pbind (load_swap b) (\<lambda>(bid, xs).
     pbind (load_offer (bid_offer_id bid)) (\<lambda>(offer, xo).
     if txns bid XMR_SWAP_A_LOCK_REFUND \<noteq> None
     then logEvent b EV_LOCK_RELEASE_ABANDONED_LOCK_CLOSE ''Chain A lock refund tx already exists''
     else if lock_type offer = TxLockTypes_val SEQUENCE_LOCK_TIME then
       pbind (plift (coin_a offer)) (\<lambda>ca.
       pbind (lock_margin X ca offer xo bid) (\<lambda>lock_remaining.
       if lock_remaining < x_sc_lock_release_min_margin X
       then logEvent b EV_LOCK_RELEASE_ABANDONED_LOCK_CLOSE ''''
       else send_release X b offer bid xs))
     else send_release X b offer bid xs))"

text \<open>The follower spends coin A with the decrypted signature of the leader and its own; this discloses its key share of
  coin B to the leader.\<close>

definition sign_lock_spend :: "xenv \<Rightarrow> Coins \<Rightarrow> Bid \<Rightarrow> XmrSwap \<Rightarrow> bytes \<Rightarrow> bytes \<Rightarrow> XmrSwap res" where
  "sign_lock_spend X ca bid xs kbsf kaf =
     (let a = x_ads X ca in
     rbind (decryptOtVES a kbsf (al_lock_spend_tx_esig xs)) (\<lambda>al_sig.
     rbind (getLockTxSwapOutputValue a bid xs) (\<lambda>prevout_amount.
     rbind (verifyTxSig a (a_lock_spend_tx xs) al_sig (pkal xs) (a_lock_tx_script xs) prevout_amount) (\<lambda>v.
     rbind (ensure v ''Invalid coin A lock tx spend tx leader sig'') (\<lambda>_.
     rbind (signTx a kaf (a_lock_spend_tx xs) (a_lock_tx_script xs) prevout_amount) (\<lambda>af_sig.
     rbind (verifyTxSig a (a_lock_spend_tx xs) af_sig (pkaf xs) (a_lock_tx_script xs) prevout_amount) (\<lambda>v.
     rbind (ensure v ''Invalid coin A lock tx spend tx follower sig'') (\<lambda>_.
     rbind (setTxSignature a (a_lock_spend_tx xs)
              ((if ca = DCR then [] else [Some []]) @ [Some al_sig, Some af_sig, a_lock_tx_script xs])) (\<lambda>tx.
     Inr (xs\<lparr>a_lock_spend_tx := Some tx\<rparr>))))))))))"

definition sign_lock_spend_bch :: "xenv \<Rightarrow> Coins \<Rightarrow> XmrSwap \<Rightarrow> bytes \<Rightarrow> XmrSwap res" where
  "sign_lock_spend_bch X ca xs kbsf =
     (let a = x_ads X ca in
     rbind (first_output_script a (a_lock_spend_tx xs)) (\<lambda>out1.
     rbind (decryptOtVES a kbsf (al_lock_spend_tx_esig xs)) (\<lambda>out1_sig.
     rbind (verifyDataSig a out1 out1_sig (pkal xs)) (\<lambda>v.
     rbind (ensure v ''Invalid signature for lock spend txn'') (\<lambda>_.
     rbind (with_script_sig a (a_lock_spend_tx xs) (a_lock_tx_id xs) (a_lock_tx_script xs) out1_sig) (\<lambda>tx.
     rbind (getTxid a (Some tx)) (\<lambda>t.
     Inr (xs\<lparr>a_lock_spend_tx := Some tx, a_lock_spend_tx_id := Some t\<rparr>))))))))"

definition redeem_a :: "xenv \<Rightarrow> bytes \<Rightarrow> Offer \<Rightarrow> Coins \<Rightarrow> Coins \<Rightarrow> Bid \<Rightarrow> XmrSwap \<Rightarrow> (node, unit) py" where
  "redeem_a X b offer ca cb bid xs =
     pbind (plift (getPathKey (x_ads X cb) KBSF bid xs)) (\<lambda>kbsf.
     pbind (plift (getPathKey (x_ads X ca) KAF bid xs)) (\<lambda>kaf.
     pbind (plift (if isBchXmrSwap offer then sign_lock_spend_bch X ca xs kbsf else sign_lock_spend X ca bid xs kbsf kaf)) (\<lambda>xs.
     pbind (need (a_lock_spend_tx xs)) (\<lambda>tx.
     pbind (publish (x_env X) ca tx) (\<lambda>t.
     pseq (logEvent b EV_LOCK_TX_A_SPEND_TX_PUBLISHED '''')
    (pbind (if xmr_a_lock_spend_tx bid = None
            then pbind (with_tx_state (now (x_env X)) TX_NONE ((new_tx b XMR_SWAP_A_LOCK_SPEND None)\<lparr>txid := Some t\<rparr>)) (\<lambda>stx.
                 pret (bid\<lparr>xmr_a_lock_spend_tx := Some stx\<rparr>))
            else pret bid) (\<lambda>bid.
     save_in_progress b bid xs offer)))))))"

definition redeemXmrBidCoinALockTx :: "xenv \<Rightarrow> bytes \<Rightarrow> (node, unit) py" where
  "redeemXmrBidCoinALockTx X b =
     pbind (load_swap b) (\<lambda>(bid, xs).
     pbind (load_offer (bid_offer_id bid)) (\<lambda>(offer, xo).
     if txns bid XMR_SWAP_A_LOCK_REFUND \<noteq> None then pret ()
     else if Option.bind (xmr_a_lock_spend_tx bid) (\<lambda>tx. given (txid tx)) \<noteq> None then pret ()
     else
       pbind (plift (coin_a offer)) (\<lambda>ca.
       pbind (plift (coin_b offer)) (\<lambda>cb.
       if lock_type offer = TxLockTypes_val SEQUENCE_LOCK_TIME then
         pbind (lock_margin X ca offer xo bid) (\<lambda>lock_remaining.
         if lock_remaining < x_sc_lock_spend_min_margin X
         then logEvent b EV_LOCK_SPEND_ABANDONED_LOCK_CLOSE ''''
         else redeem_a X b offer ca cb bid xs)
       else redeem_a X b offer ca cb bid xs))))"

text \<open>Spending coin B needs the lock transaction deep enough in the chain and both key shares.\<close>

definition b_lock_depth :: "xenv \<Rightarrow> Coins \<Rightarrow> Bid \<Rightarrow> unit res" where
  "b_lock_depth X cb bid =
     (case xmr_b_lock_tx bid of
        None \<Rightarrow> Inl (TemporaryError ''Chain B lock tx not found.'')
      | Some tx \<Rightarrow>
          if no_height (chain_height tx) then Inl (TemporaryError ''Chain B lock tx height not known.'')
          else rbind (cv_height (chain (ci (x_env X) cb))) (\<lambda>h.
               if h - the (chain_height tx) < depth_spendable (x_ads X cb)
               then Inl (TemporaryError ''Chain B lock tx still confirming'')
               else Inr ()))"

definition leader_keyshare :: "xenv \<Rightarrow> Coins \<Rightarrow> Coins \<Rightarrow> Bid \<Rightarrow> XmrSwap \<Rightarrow> bytes res" where
  "leader_keyshare X ca cb bid xs =
     (case txns bid MERCY of
        Some tx \<Rightarrow>
          rbind (of_option TypeError (tx_data tx)) (\<lambda>kbsf.
          rbind (getPubkey (x_ads X cb) kbsf) (\<lambda>pk.
          rbind (ensure (Some pk = pkbsf xs) ''Keyshare from mercy tx does not match expected pubkey'') (\<lambda>_.
          Inr kbsf)))
      | None \<Rightarrow>
          rbind (extractLeaderSig (x_ads X ca) (a_lock_spend_tx xs)) (\<lambda>sig.
          rbind (recoverEncKey (x_ads X ca) (al_lock_spend_tx_esig xs) sig (pkasf xs)) (\<lambda>kbsf.
          rbind (getPubkey (x_ads X cb) kbsf) (\<lambda>pk.
          rbind (ensure (Some pk = pkbsf xs) ''Keyshare recovered from lock spend tx does not match expected pubkey'') (\<lambda>_.
          Inr kbsf)))))"

definition spend_b ::
  "xenv \<Rightarrow> bytes \<Rightarrow> Coins \<Rightarrow> Offer \<Rightarrow> XmrOffer \<Rightarrow> Bid \<Rightarrow> XmrSwap \<Rightarrow> string \<Rightarrow> bytes \<Rightarrow> bool \<Rightarrow> EventLogTypes \<Rightarrow> (node, bytes) py" where
  "spend_b X b cb offer xo bid xs address_to vkbs actual_balance ev =
     pbind (plift (spendBLockTx (x_ads X cb) (b_lock_tx_id xs) address_to (vkbv xs) vkbs (amount_to bid)
              (if reverse_offer offer then a_fee_rate xo else b_fee_rate xo) (chain_b_height_start bid) (getLockTXBVout bid) actual_balance)) (\<lambda>t.
     pseq (pmod (\<lambda>n. n\<lparr>published := published n @ [(cb, t)]\<rparr>))
    (pseq (logEvent b ev '''') (pret t)))"

definition redeem_b :: "xenv \<Rightarrow> bytes \<Rightarrow> Offer \<Rightarrow> Coins \<Rightarrow> Coins \<Rightarrow> XmrOffer \<Rightarrow> Bid \<Rightarrow> XmrSwap \<Rightarrow> (node, bytes \<times> bool) py" where
  "redeem_b X b offer ca cb xo bid xs =
     pbind (plift (b_lock_depth X cb bid)) (\<lambda>_.
     pbind (plift (leader_keyshare X ca cb bid xs)) (\<lambda>kbsf.
     pbind (plift (getPathKey (x_ads X cb) KBSL bid xs)) (\<lambda>kbsl.
     pbind (plift (sumKeys (x_ads X cb) kbsl kbsf)) (\<lambda>vkbs.
     pbind (case dest_bl xs of
              Some (c # cs) \<Rightarrow> pbind (plift (isAddressMine (x_ads X cb) (c # cs))) (\<lambda>mine. pret (c # cs, mine))
            | _ \<Rightarrow> pbind (plift (receive_address (x_ads X cb) (cb \<in> set xmr_based_coins) XMR_SWAP_B_LOCK_SPEND)) (\<lambda>addr. pret (addr, True)))
       (\<lambda>(address_to, mine).
     pbind (spend_b X b cb offer xo bid xs address_to vkbs False EV_LOCK_TX_B_SPEND_TX_PUBLISHED) (\<lambda>t.
     pret (t, mine)))))))"

definition redeemed_b :: "xenv \<Rightarrow> bytes \<Rightarrow> Offer \<Rightarrow> Bid \<Rightarrow> XmrSwap \<Rightarrow> bytes \<Rightarrow> bool \<Rightarrow> (node, unit) py" where
  "redeemed_b X b offer bid xs t mine =
     (let time = now (x_env X); using_mercy = (state bid = Some (BidStates_val XMR_SWAP_FAILED_SWIPED_USING_MERCY)) in
     pbind (plift (of_option AttributeError (xmr_b_lock_tx bid))) (\<lambda>btx.
     pbind (if using_mercy then pret bid else with_state time XMR_SWAP_NOSCRIPT_TX_REDEEMED bid) (\<lambda>bid.
     pbind (with_tx_state time TX_REDEEMED (btx\<lparr>spend_txid := Some t\<rparr>)) (\<lambda>btx.
     let bid = bid\<lparr>xmr_b_lock_tx := Some btx\<rparr> in
     pbind (if mine then pret bid
            else if using_mercy then with_state time XMR_SWAP_FAILED_SWIPED_USED_MERCY bid
            else pbind (with_state time SWAP_COMPLETED bid) (\<lambda>bid. pseq (swap_completed_note b) (pret bid))) (\<lambda>bid.
     save_in_progress b bid xs offer)))))"

definition redeemXmrBidCoinBLockTx :: "xenv \<Rightarrow> bytes \<Rightarrow> (node, unit) py" where
  "redeemXmrBidCoinBLockTx X b =
     pbind (load_swap b) (\<lambda>(bid, xs).
     if Option.bind (xmr_b_lock_tx bid) (\<lambda>tx. given (spend_txid tx)) \<noteq> None then pret ()
     else
       pbind (load_offer (bid_offer_id bid)) (\<lambda>(offer, xo).
       pbind (plift (coin_a offer)) (\<lambda>ca.
       pbind (plift (coin_b offer)) (\<lambda>cb.
       pbind (ptry (pbind (redeem_b X b offer ca cb xo bid xs) (\<lambda>r. pret (Inr r))) (\<lambda>e. pret (Inl e))) (\<lambda>r.
       case r of
         Inl e \<Rightarrow> retry_or_fail X b cb offer bid xs EV_FAILED_TX_B_SPEND REDEEM_XMR_SWAP_LOCK_TX_B ''spendBLockTx failed: '' e
       | Inr (t, mine) \<Rightarrow> redeemed_b X b offer bid xs t mine)))))"

text \<open>The follower takes coin B back with the key share the leader's refund spend disclosed. The main wallet address is
  chosen by the offer's \<open>coin_to\<close>, which is coin A of a reversed offer.\<close>

definition follower_keyshare :: "xenv \<Rightarrow> Coins \<Rightarrow> Coins \<Rightarrow> XmrSwap \<Rightarrow> bytes res" where
  "follower_keyshare X ca cb xs =
     rbind (extractFollowerSig (x_ads X ca) (a_lock_refund_spend_tx xs)) (\<lambda>sig.
     rbind (recoverEncKey (x_ads X ca) (af_lock_refund_spend_tx_esig xs) sig (pkasl xs)) (\<lambda>kbsl.
     rbind (getPubkey (x_ads X cb) kbsl) (\<lambda>pk.
     rbind (ensure (Some pk = pkbsl xs) ''Keyshare recovered from lock refund spend tx does not match expected pubkey'') (\<lambda>_.
     Inr kbsl))))"

definition recover_b :: "xenv \<Rightarrow> bytes \<Rightarrow> Offer \<Rightarrow> Coins \<Rightarrow> XmrOffer \<Rightarrow> Bid \<Rightarrow> XmrSwap \<Rightarrow> bytes \<Rightarrow> (node, bytes) py" where
  "recover_b X b offer cb xo bid xs vkbs =
     pbind (plift (b_lock_depth X cb bid)) (\<lambda>_.
     pbind (plift (receive_address (x_ads X cb) (list_ex (\<lambda>c. Coins_val c = coin_to offer) xmr_based_coins) XMR_SWAP_B_LOCK_REFUND)) (\<lambda>address_to.
     spend_b X b cb offer xo bid xs address_to vkbs (debug_ind bid = Some (DebugTypes_val DBG_B_LOCK_TX_MISSED_SEND))
       EV_LOCK_TX_B_REFUND_TX_PUBLISHED))"

definition recoverXmrBidCoinBLockTx :: "xenv \<Rightarrow> bytes \<Rightarrow> (node, unit) py" where
  "recoverXmrBidCoinBLockTx X b =
     pbind (load_swap b) (\<lambda>(bid, xs).
     pbind (load_offer (bid_offer_id bid)) (\<lambda>(offer, xo).
     pbind (plift (coin_a offer)) (\<lambda>ca.
     pbind (plift (coin_b offer)) (\<lambda>cb.
     pbind (plift (follower_keyshare X ca cb xs)) (\<lambda>kbsl.
     pbind (plift (getPathKey (x_ads X cb) KBSF bid xs)) (\<lambda>kbsf.
     pbind (plift (sumKeys (x_ads X cb) kbsl kbsf)) (\<lambda>vkbs.
     pbind (ptry (pbind (recover_b X b offer cb xo bid xs vkbs) (\<lambda>t. pret (Inr t))) (\<lambda>e. pret (Inl e))) (\<lambda>r.
     case r of
       Inl e \<Rightarrow> retry_or_fail X b cb offer bid xs EV_FAILED_TX_B_REFUND RECOVER_XMR_SWAP_LOCK_TX_B ''spendBLockTx for refund failed: '' e
     | Inr t \<Rightarrow>
         pbind (plift (of_option AttributeError (xmr_b_lock_tx bid))) (\<lambda>btx.
         pbind (with_state (now (x_env X)) XMR_SWAP_NOSCRIPT_TX_RECOVERED bid) (\<lambda>bid.
         pbind (with_tx_state (now (x_env X)) TX_REFUNDED (btx\<lparr>spend_txid := Some t\<rparr>)) (\<lambda>btx.
         save_in_progress b (bid\<lparr>xmr_b_lock_tx := Some btx\<rparr>) xs offer)))))))))))"

text \<open>The follower that swiped coin A hands its key share of coin B over in a transaction of its own.\<close>

definition give_up_mercy :: "xenv \<Rightarrow> bytes \<Rightarrow> Coins \<Rightarrow> Offer \<Rightarrow> Bid \<Rightarrow> XmrSwap \<Rightarrow> string \<Rightarrow> (node, unit) py" where
  "give_up_mercy X b ca offer bid xs skip_reason =
     pseq (logEvent b EV_MERCY_TX_NOT_SENT skip_reason)
    (pseq (mercy_prevout X ca bid UnlockOutput)
    (pbind (recoverSwipePayout X b ca offer bid xs) (\<lambda>bid.
     pbind (with_state (now (x_env X)) XMR_SWAP_FAILED_SWIPED bid) (\<lambda>bid.
     save_in_progress b bid xs offer))))"

definition send_mercy :: "xenv \<Rightarrow> bytes \<Rightarrow> Coins \<Rightarrow> Coins \<Rightarrow> Offer \<Rightarrow> XmrOffer option \<Rightarrow> Bid \<Rightarrow> XmrSwap \<Rightarrow> (node, unit) py" where
  "send_mercy X b ca cb offer xo bid xs =
     pbind (getSwipePayout X ca bid xs) (\<lambda>(swipe_out, pays_key).
     pbind (case swipe_out of
              None \<Rightarrow> pret 0
            | Some out \<Rightarrow> pbind (plift (cv_height (chain (ci (x_env X) ca)))) (\<lambda>h. pret (h - bh_height out + 1))) (\<lambda>swipe_depth.
     if swipe_depth < ads_blocks_confirmed (x_ads X ca) then praise (TemporaryError ''Swipe tx not yet confirmed'')
     else
       pbind (plift (getPathKey (x_ads X cb) KBSF bid xs)) (\<lambda>kbsf.
       let kbsf = (if haveDebugInd X b DBG_MAKE_INVALID_MERCY_TX then x_random_key X else kbsf) in
       pseq (pwhen (\<not> pays_key) (mercy_prevout X ca bid LockOutput))
      (pbind (plift (of_option AttributeError xo)) (\<lambda>xo.
       pbind (spendSwipePayout X ca offer xo bid xs pays_key (Some kbsf)) (\<lambda>t.
       pbind (plift (of_option TypeError t)) (\<lambda>t.
       let bid = add_txn MERCY ((new_tx b MERCY None)\<lparr>txid := Some t\<rparr>) bid in
       pseq (logEvent b EV_MERCY_TX_PUBLISHED '''')
      (pbind (if state bid = Some (BidStates_val XMR_SWAP_FAILED_SWIPED_SENDING_MERCY)
              then with_state (now (x_env X)) XMR_SWAP_FAILED_SWIPED bid else pret bid) (\<lambda>bid.
       save_in_progress b bid xs offer)))))))))"

definition sendMercyTx :: "xenv \<Rightarrow> bytes \<Rightarrow> (node, unit) py" where
  "sendMercyTx X b =
     pbind (load_swap b) (\<lambda>(bid, xs).
     pbind (getXmrOfferFromSession (bid_offer_id bid)) (\<lambda>(offer, xo).
     pbind (plift (of_option (ValueError ''Offer not found'') offer)) (\<lambda>offer.
     if txns bid MERCY \<noteq> None then pret ()
     else if txns bid SWIPE_SWEEP \<noteq> None then pret ()
     else
       pbind (plift (coin_a offer)) (\<lambda>ca.
       if \<not> altruistic (x_ads X ca) then give_up_mercy X b ca offer bid xs ''altruistic is disabled''
       else if \<not> canSendMercyTx (x_ads X ca) then give_up_mercy X b ca offer bid xs '' cannot build a mercy tx''
       else
         pbind (plift (coin_b offer)) (\<lambda>cb.
         send_mercy X b ca cb offer xo bid xs)))))"

subsection \<open>What the watches find\<close>

definition mercy_keyshare_valid :: "xenv \<Rightarrow> Coins \<Rightarrow> XmrSwap option \<Rightarrow> bytes \<Rightarrow> bool" where
  "mercy_keyshare_valid X cb xs keyshare =
     (case rbind (verifyKey (x_ads X cb) keyshare) (\<lambda>ok.
           if \<not> ok then Inr False
           else case xs of
                  None \<Rightarrow> Inr False
                | Some xs \<Rightarrow> rbind (getPubkey (x_ads X cb) keyshare) (\<lambda>pk. Inr (Some pk = pkbsf xs))) of
        Inl _ \<Rightarrow> False
      | Inr v \<Rightarrow> v)"

text \<open>False when the spend was no mercy transaction.\<close>

definition process_MERCY_tx :: "xenv \<Rightarrow> bytes \<Rightarrow> bytes \<Rightarrow> bytes \<Rightarrow> (node, bool) py" where
  "process_MERCY_tx X b spend_id spend_txn =
     pbind (pget (\<lambda>n. map_of (swaps_in_progress n) b)) (\<lambda>entry.
     case entry of
       None \<Rightarrow> pret True
     | Some offer \<Rightarrow>
         pbind (plift (coin_a offer)) (\<lambda>ca.
         pbind (plift (coin_b offer)) (\<lambda>cb.
         case extractMercyKeyshare (x_ads X ca) spend_txn of
           Inl _ \<Rightarrow> pret False
         | Inr None \<Rightarrow> pret False
         | Inr (Some keyshare) \<Rightarrow>
             pbind (pget (\<lambda>n. case bid_rows n b of None \<Rightarrow> None | Some _ \<Rightarrow> xmr_swaps n b)) (\<lambda>xs.
             let time = now (x_env X) in
             if \<not> mercy_keyshare_valid X cb xs keyshare then
               pseq (logEvent b EV_MERCY_TX_UNUSABLE ''Keyshare is not kbsf'')
              (pseq (set_bid_state b time XMR_SWAP_FAILED_SWIPED_MERCY_UNUSED)
              (pseq (saveBid b)
                    (pret True)))
             else
               pseq (logEvent b EV_MERCY_TX_FOUND '''')
              (pseq (put_txn b MERCY ((new_tx b MERCY None)\<lparr>txid := Some spend_id, tx_data := Some keyshare\<rparr>))
              (pbind (pget (\<lambda>n. xmr_b_lock_tx (bids n b))) (\<lambda>btx.
               if btx = None then
                 pseq (logEvent b EV_MERCY_TX_UNUSABLE ''No lock tx b to spend'')
                (pseq (set_bid_state b time XMR_SWAP_FAILED_SWIPED_MERCY_UNUSED)
                (pseq (saveBid b)
                      (pret True)))
               else
                 pseq (set_bid_state b time XMR_SWAP_FAILED_SWIPED_USING_MERCY)
                (pseq (saveBid b)
                (pseq (queue_action X REDEEM_XMR_SWAP_LOCK_TX_B b)
                      (pret True))))))))))"

definition processSpentOutputXmr :: "xenv \<Rightarrow> Coins \<Rightarrow> WatchedOutput \<Rightarrow> bytes \<Rightarrow> bytes \<Rightarrow> (node, unit) py" where
  "processSpentOutputXmr X c wo spend_id spend_txn =
     pbind (if wo_tx_type wo = TxTypes_val XMR_SWAP_A_LOCK
            then pseq (process_XMR_SWAP_A_LOCK_tx_spend X (wo_bid_id wo) spend_id spend_txn) (pret True)
            else if wo_tx_type wo = TxTypes_val XMR_SWAP_A_LOCK_REFUND
            then pseq (process_XMR_SWAP_A_LOCK_REFUND_tx_spend X (wo_bid_id wo) spend_id spend_txn) (pret True)
            else if wo_tx_type wo = TxTypes_val MERCY
            then process_MERCY_tx X (wo_bid_id wo) spend_id spend_txn
            else pret True) (\<lambda>used.
     if \<not> used then removeWatchedOutput c (wo_bid_id wo) (Some (wo_txid wo)) (wo_vout wo)
     else removeWatchedOutput c (wo_bid_id wo) (Some (wo_txid wo)) None)"

definition processFoundScript :: "xenv \<Rightarrow> Coins \<Rightarrow> WatchedScript \<Rightarrow> bytes \<Rightarrow> int \<Rightarrow> (node, unit) py" where
  "processFoundScript X c ws t v =
     (let b = ws_bid_id ws; time = now (x_env X) in
     pbind (pget (\<lambda>n. map_of (swaps_in_progress n) b)) (\<lambda>entry.
     if entry = None then removeWatchedScript c b (Some (ws_script ws)) None
     else
       pseq (if ws_tx_type ws = PTX then
               pseq (upd_ptx b (\<lambda>tx. tx\<lparr>txid := Some t\<rparr>))
              (pseq (upd_ptx b (\<lambda>tx. tx\<lparr>vout := Some v\<rparr>))
              (pseq (set_ptx_state b time TX_IN_CHAIN)
                    (saveBid b)))
             else if ws_tx_type ws = XMR_SWAP_A_LOCK then
               pseq (upd_alock b (\<lambda>tx. if txid tx \<noteq> Some t then tx\<lparr>txid := Some t, vout := Some v\<rparr> else tx))
              (pseq (logEvent b EV_LOCK_TX_A_SEEN '''')
                    (saveBid b))
             else if ws_tx_type ws = XMR_SWAP_B_LOCK then
               pseq (pmod (upd_bid b (\<lambda>bid. bid\<lparr>xmr_b_lock_tx := Some ((new_tx b XMR_SWAP_B_LOCK None)\<lparr>txid := Some t, vout := Some v\<rparr>)\<rparr>)))
              (pseq (set_block_state b time TX_IN_CHAIN)
              (pseq (logEvent b EV_LOCK_TX_B_SEEN '''')
                    (saveBid b)))
             else pret ())
            (removeWatchedScript c b (Some (ws_script ws)) None)))"

text \<open>The handlers of the queue that are modelled.\<close>

definition ads_handler :: "xenv \<Rightarrow> (ActionTypes \<Rightarrow> bytes \<Rightarrow> (node, unit) py) \<Rightarrow> ActionTypes \<Rightarrow> bytes \<Rightarrow> (node, unit) py" where
  "ads_handler X other t b =
     (if t = SEND_XMR_SWAP_LOCK_TX_B then sendXmrBidCoinBLockTx X b
      else if t = SEND_XMR_LOCK_RELEASE then sendXmrBidLockRelease X b
      else if t = REDEEM_XMR_SWAP_LOCK_TX_A then redeemXmrBidCoinALockTx X b
      else if t = REDEEM_XMR_SWAP_LOCK_TX_B then redeemXmrBidCoinBLockTx X b
      else if t = RECOVER_XMR_SWAP_LOCK_TX_B then recoverXmrBidCoinBLockTx X b
      else if t = SEND_MERCY_TX then sendMercyTx X b
      else other t b)"

end
