(* ===== verification/Adaptor_Props.thy ===== *)
theory Adaptor_Props
  imports Adaptor_Actions
begin

text \<open>
  What the adaptor signature swap guarantees. Four relations between states, each an \<open>effect_relation\<close>, carry the proofs through the
  handlers: \<open>only_swap\<close> (one swap does not touch another), \<open>publishes\<close> (only permitted transactions are handed to a
  daemon), \<open>guarded\<close> (the same under an invariant that is kept, here \<open>refund_known\<close>, what is known of the refund) and \<open>waits\<close> (what waiting for coin B
  keeps). From these: which transactions \<open>checkXmrBidState\<close> publishes and when, when the leader releases coin A, when the
  follower redeems it and either side spends coin B, that the follower's lock stays queued, and two defects.
\<close>

section \<open>Specification vocabulary\<close>

definition only_swap :: "bytes \<Rightarrow> node \<Rightarrow> node \<Rightarrow> bool" where
  "only_swap b n n' \<longleftrightarrow>
     (\<forall>x. x \<noteq> b \<longrightarrow> bids n' x = bids n x \<and> bid_rows n' x = bid_rows n x \<and> xmr_swaps n' x = xmr_swaps n x
        \<and> map_of (swaps_in_progress n') x = map_of (swaps_in_progress n) x)
     \<and> offer_rows n' = offer_rows n \<and> xmr_offers n' = xmr_offers n \<and> identities n' = identities n
     \<and> (\<exists>es. events n' = events n @ es \<and> (\<forall>e\<in>set es. fst e = b))
     \<and> (\<forall>a. action_linked_id a \<noteq> b \<longrightarrow> (a \<in> set (actions n') \<longleftrightarrow> a \<in> set (actions n)))
     \<and> (\<forall>c w. wo_bid_id w \<noteq> b \<longrightarrow> (w \<in> set (watched_outputs (coin_clients n' c)) \<longleftrightarrow> w \<in> set (watched_outputs (coin_clients n c))))
     \<and> (\<forall>c w. ws_bid_id w \<noteq> b \<longrightarrow> (w \<in> set (watched_scripts (coin_clients n' c)) \<longleftrightarrow> w \<in> set (watched_scripts (coin_clients n c))))"

definition publishes :: "(Coins \<times> bytes \<Rightarrow> bool) \<Rightarrow> node \<Rightarrow> node \<Rightarrow> bool" where
  "publishes P n n' \<longleftrightarrow> (\<exists>ps. published n' = published n @ ps \<and> (\<forall>p\<in>set ps. P p))"

text \<open>A handler that keeps \<open>J\<close> and, where \<open>J\<close> holds, publishes only what \<open>P\<close> permits.\<close>

definition guarded :: "(node \<Rightarrow> bool) \<Rightarrow> (Coins \<times> bytes \<Rightarrow> bool) \<Rightarrow> node \<Rightarrow> node \<Rightarrow> bool" where
  "guarded J P n n' \<longleftrightarrow> (J n \<longrightarrow> J n' \<and> publishes P n n')"

definition sending_mercy :: "Bid \<Rightarrow> bool" where
  "sending_mercy bid \<longleftrightarrow> state bid = Some (BidStates_val XMR_SWAP_FAILED_SWIPED_SENDING_MERCY)"

text \<open>Steps that leave the recorded refund of a bid, its roles and the published transactions alone.\<close>

definition silent :: "bytes \<Rightarrow> node \<Rightarrow> node \<Rightarrow> bool" where
  "silent b n n' \<longleftrightarrow> txns (bids n' b) XMR_SWAP_A_LOCK_REFUND = txns (bids n b) XMR_SWAP_A_LOCK_REFUND
     \<and> was_sent (bids n' b) = was_sent (bids n b) \<and> was_received (bids n' b) = was_received (bids n b)
     \<and> published n' = published n \<and> (sending_mercy (bids n' b) \<longrightarrow> sending_mercy (bids n b))"

text \<open>Heights the chain of coin A reports for a refund with the id \<open>t\<close> and output \<open>v\<close>.\<close>

definition reported_height :: "xenv \<Rightarrow> Coins \<Rightarrow> bytes option \<Rightarrow> int option \<Rightarrow> int \<Rightarrow> bool" where
  "reported_height X ca t v h \<longleftrightarrow>
     (\<exists>addr val start f. getLockTxHeight (ci (x_env X) ca) t addr val start v False = Inr (Some (LockFound f)) \<and> lf_height f = h)
     \<or> (\<exists>out. getTxOutInfo (ci (x_env X) ca) t v = Inr (Some out) \<and> bh_height out = h)"

text \<open>The refund of bid \<open>b\<close> is the one recorded in \<open>tx0\<close>, with the height recorded there or a reported one.\<close>

definition refund_known :: "xenv \<Rightarrow> Coins \<Rightarrow> bytes \<Rightarrow> Bid \<Rightarrow> SwapTx \<Rightarrow> node \<Rightarrow> bool" where
  "refund_known X ca b bid0 tx0 n \<longleftrightarrow>
     (\<exists>tx. txns (bids n b) XMR_SWAP_A_LOCK_REFUND = Some tx \<and> txid tx = txid tx0 \<and> vout tx = vout tx0
        \<and> (\<forall>h. block_height tx = Some h \<longrightarrow> block_height tx0 = Some h \<or> reported_height X ca (txid tx0) (vout tx0) h))
     \<and> was_sent (bids n b) = was_sent bid0 \<and> was_received (bids n b) = was_received bid0
     \<and> (sending_mercy (bids n b) \<longrightarrow> sending_mercy bid0)"

text \<open>A handler that publishes what \<open>P\<close> permits and does not move the bid into sending mercy.\<close>

definition calm :: "(Coins \<times> bytes \<Rightarrow> bool) \<Rightarrow> bytes \<Rightarrow> node \<Rightarrow> node \<Rightarrow> bool" where
  "calm P b n n' \<longleftrightarrow> publishes P n n' \<and> (sending_mercy (bids n' b) \<longrightarrow> sending_mercy (bids n b))"

text \<open>The four transactions \<open>checkXmrBidState\<close> may publish, as conditions on the state it starts in.\<close>

definition refund_due :: "xenv \<Rightarrow> Offer \<Rightarrow> XmrOffer \<Rightarrow> XmrSwap \<Rightarrow> Bid \<Rightarrow> Coins \<times> bytes \<Rightarrow> bool" where
  "refund_due X offer xo xs bid p \<longleftrightarrow>
     txns bid XMR_SWAP_A_LOCK_REFUND = None \<and> a_lock_refund_tx xs = Some (snd p) \<and> haveSignedLockRefundTx (x_ads X (fst p)) xs
     \<and> (\<exists>atx. xmr_a_lock_tx bid = Some atx
          \<and> isCsvLockMature (chain (ci (x_env X) (fst p))) (lock_type offer) (lock_time_1 xo) (block_height atx) (block_time atx) None None None = Inr True)"

definition refund_depth :: "xenv \<Rightarrow> Coins \<Rightarrow> XmrSwap \<Rightarrow> Bid \<Rightarrow> SwapTx \<Rightarrow> int \<Rightarrow> bool" where
  "refund_depth X ca xs bid tx d \<longleftrightarrow>
     (state tx = Some (TxStates_val TX_CONFIRMED) \<and> d = ads_blocks_confirmed (x_ads X ca))
     \<or> (\<exists>val f. getLockTxHeight (ci (x_env X) ca) (txid tx) (getSCLockScriptAddress (x_ads X ca) (a_lock_refund_tx_script xs)) val
              (chain_a_height_start bid) (vout tx) False = Inr (Some (LockFound f)) \<and> d = lf_depth f)"

definition refund_spend_due :: "xenv \<Rightarrow> Offer \<Rightarrow> XmrSwap \<Rightarrow> Bid \<Rightarrow> Coins \<times> bytes \<Rightarrow> bool" where
  "refund_spend_due X offer xs bid p \<longleftrightarrow>
     is_leader offer bid \<and> a_lock_refund_spend_tx xs = Some (snd p)
     \<and> (\<exists>tx d. txns bid XMR_SWAP_A_LOCK_REFUND = Some tx \<and> refund_depth X (fst p) xs bid tx d
          \<and> 1 \<le> d \<and> ads_blocks_confirmed (x_ads X (fst p)) \<le> d)"

definition swipe_due :: "xenv \<Rightarrow> Offer \<Rightarrow> XmrOffer \<Rightarrow> XmrSwap \<Rightarrow> Bid \<Rightarrow> Coins \<times> bytes \<Rightarrow> bool" where
  "swipe_due X offer xo xs bid p \<longleftrightarrow>
     is_follower offer bid
     \<and> (a_lock_refund_swipe_tx xs = Some (snd p) \<or> (\<exists>bid'. createSwipeTx (x_ads X (fst p)) bid' offer xs xo = Inr (snd p)))
     \<and> (\<exists>tx h t. txns bid XMR_SWAP_A_LOCK_REFUND = Some tx
          \<and> (block_height tx = Some h \<or> reported_height X (fst p) (txid tx) (vout tx) h)
          \<and> isCsvLockMature (chain (ci (x_env X) (fst p))) (lock_type offer) (lock_time_2 xo) (Some h) t None None None = Inr True)"

definition sweep_due :: "xenv \<Rightarrow> Bid \<Rightarrow> Coins \<times> bytes \<Rightarrow> bool" where
  "sweep_due X bid p \<longleftrightarrow> sending_mercy bid \<and> (\<exists>xs t fee. createMercyTx (x_ads X (fst p)) xs t None fee True = Inr (snd p))"

definition ads_due :: "xenv \<Rightarrow> Offer \<Rightarrow> XmrOffer \<Rightarrow> XmrSwap \<Rightarrow> Bid \<Rightarrow> Coins \<times> bytes \<Rightarrow> bool" where
  "ads_due X offer xo xs bid p \<longleftrightarrow> coin_a offer = Inr (fst p)
     \<and> (refund_due X offer xo xs bid p \<or> refund_spend_due X offer xs bid p \<or> swipe_due X offer xo xs bid p \<or> sweep_due X bid p)"

definition swipe_mature :: "xenv \<Rightarrow> Offer \<Rightarrow> XmrOffer \<Rightarrow> Coins \<Rightarrow> SwapTx \<Rightarrow> bool" where
  "swipe_mature X offer xo ca tx0 \<longleftrightarrow> (\<exists>h t. (block_height tx0 = Some h \<or> reported_height X ca (txid tx0) (vout tx0) h)
      \<and> isCsvLockMature (chain (ci (x_env X) ca)) (lock_type offer) (lock_time_2 xo) (Some h) t None None None = Inr True)"

text \<open>The rows a delayed step works on.\<close>

definition swap_rows :: "node \<Rightarrow> bytes \<Rightarrow> Bid \<Rightarrow> XmrSwap \<Rightarrow> Offer \<Rightarrow> XmrOffer \<Rightarrow> bool" where
  "swap_rows n b bid xs offer xo \<longleftrightarrow> bid_rows n b = Some bid \<and> xmr_swaps n b = Some xs
     \<and> offer_rows n (bid_offer_id bid) = Some offer \<and> xmr_offers n (bid_offer_id bid) = Some xo"

text \<open>Coin A cannot be refunded for another \<open>margin\<close> seconds, where its lock counts time.\<close>

definition lock_open :: "xenv \<Rightarrow> int \<Rightarrow> Offer \<Rightarrow> XmrOffer \<Rightarrow> Bid \<Rightarrow> bool" where
  "lock_open X margin offer xo bid \<longleftrightarrow>
     txns bid XMR_SWAP_A_LOCK_REFUND = None
     \<and> (lock_type offer = TxLockTypes_val SEQUENCE_LOCK_TIME \<longrightarrow>
         (\<exists>ca atx r. coin_a offer = Inr ca \<and> xmr_a_lock_tx bid = Some atx \<and> margin \<le> r
            \<and> csvLockRemaining (chain (ci (x_env X) ca)) (lock_type offer) (lock_time_1 xo) (block_height atx) (block_time atx) None None None
              = Inr (Some r)))"

definition released :: "bytes \<Rightarrow> node \<Rightarrow> bool" where
  "released b n \<longleftrightarrow> state (bids n b) = Some (BidStates_val XMR_SWAP_LOCK_RELEASED)
     \<and> map_option state (bid_rows n b) = Some (Some (BidStates_val XMR_SWAP_LOCK_RELEASED))"

definition release_message :: "Offer \<Rightarrow> Bid \<Rightarrow> bytes \<Rightarrow> string \<times> string \<times> bytes" where
  "release_message offer bid payload =
     (if reverse_offer offer then (bid_addr bid, addr_from offer, payload) else (addr_from offer, bid_addr bid, payload))"

text \<open>A spend of coin A the follower may publish: signed by both, the leader's signature decrypted from the one released.\<close>

definition follower_spend :: "xenv \<Rightarrow> Offer \<Rightarrow> Coins \<Rightarrow> Coins \<Rightarrow> Bid \<Rightarrow> XmrSwap \<Rightarrow> bytes \<Rightarrow> bool" where
  "follower_spend X offer ca cb bid xs tx \<longleftrightarrow>
     (\<exists>kbsf al_sig. getPathKey (x_ads X cb) KBSF bid xs = Inr kbsf \<and> decryptOtVES (x_ads X ca) kbsf (al_lock_spend_tx_esig xs) = Inr al_sig
        \<and> (if isBchXmrSwap offer
           then \<exists>out. first_output_script (x_ads X ca) (a_lock_spend_tx xs) = Inr out \<and> verifyDataSig (x_ads X ca) out al_sig (pkal xs) = Inr True
                \<and> with_script_sig (x_ads X ca) (a_lock_spend_tx xs) (a_lock_tx_id xs) (a_lock_tx_script xs) al_sig = Inr tx
           else \<exists>af_sig amount.
                verifyTxSig (x_ads X ca) (a_lock_spend_tx xs) al_sig (pkal xs) (a_lock_tx_script xs) amount = Inr True
                \<and> verifyTxSig (x_ads X ca) (a_lock_spend_tx xs) af_sig (pkaf xs) (a_lock_tx_script xs) amount = Inr True
                \<and> setTxSignature (x_ads X ca) (a_lock_spend_tx xs)
                     ((if ca = DCR then [] else [Some []]) @ [Some al_sig, Some af_sig, a_lock_tx_script xs]) = Inr tx))"

definition redeem_due :: "xenv \<Rightarrow> bytes \<Rightarrow> node \<Rightarrow> Coins \<times> bytes \<Rightarrow> bool" where
  "redeem_due X b n p \<longleftrightarrow> (\<exists>bid xs offer xo cb. swap_rows n b bid xs offer xo
    \<and> coin_a offer = Inr (fst p) \<and> coin_b offer = Inr cb
    \<and> lock_open X (x_sc_lock_spend_min_margin X) offer xo bid \<and> Option.bind (xmr_a_lock_spend_tx bid) (\<lambda>tx. given (txid tx)) = None
    \<and> follower_spend X offer (fst p) cb bid xs (snd p))"

text \<open>A spend of the lock of coin B: by a key to which the other side's share, which matches the public key agreed, was added, of a
  lock transaction that is deep enough.\<close>

definition b_lock_deep :: "xenv \<Rightarrow> Coins \<Rightarrow> Bid \<Rightarrow> bool" where
  "b_lock_deep X cb bid \<longleftrightarrow> (\<exists>tx h height. xmr_b_lock_tx bid = Some tx \<and> chain_height tx = Some h \<and> h \<noteq> 0
     \<and> cv_height (chain (ci (x_env X) cb)) = Inr height \<and> depth_spendable (x_ads X cb) \<le> height - h)"

definition spends_b :: "xenv \<Rightarrow> bytes \<Rightarrow> node \<Rightarrow> (XmrSwap \<Rightarrow> bytes option) \<Rightarrow> KeyTypes \<Rightarrow> Coins \<times> bytes \<Rightarrow> bool" where
  "spends_b X b n share_pk own p \<longleftrightarrow>
     (\<exists>bid xs offer xo share key vkbs addr fee v actual.
        swap_rows n b bid xs offer xo \<and> coin_b offer = Inr (fst p) \<and> b_lock_deep X (fst p) bid
        \<and> (\<exists>pk. getPubkey (x_ads X (fst p)) share = Inr pk \<and> share_pk xs = Some pk)
        \<and> getPathKey (x_ads X (fst p)) own bid xs = Inr key
        \<and> (sumKeys (x_ads X (fst p)) key share = Inr vkbs \<or> sumKeys (x_ads X (fst p)) share key = Inr vkbs)
        \<and> spendBLockTx (x_ads X (fst p)) (b_lock_tx_id xs) addr (vkbv xs) vkbs (amount_to bid) fee (chain_b_height_start bid) v actual
          = Inr (snd p))"

text \<open>What waiting for coin B keeps: queued actions, the roles, and that no lock transaction is forgotten.\<close>

definition waits :: "bytes \<Rightarrow> node \<Rightarrow> node \<Rightarrow> bool" where
  "waits b n n' \<longleftrightarrow> set (actions n) \<subseteq> set (actions n') \<and> was_sent (bids n' b) = was_sent (bids n b) \<and> was_received (bids n' b) = was_received (bids n b)
     \<and> (xmr_b_lock_tx (bids n' b) = None \<longrightarrow> xmr_b_lock_tx (bids n b) = None)"

definition queued :: "ActionTypes \<Rightarrow> bytes \<Rightarrow> node \<Rightarrow> bool" where
  "queued t b n \<longleftrightarrow> (\<exists>a\<in>set (actions n). action_active_ind a = 1 \<and> action_linked_id a = b \<and> action_type a = ActionTypes_val t)"

text \<open>A swap of BTC for XMR whose locks count blocks (6 and 4), with wallets and daemons that accept everything.\<close>

definition idle_ads :: ads_interface where
  "idle_ads = \<lparr>ads_blocks_confirmed = 3, ads_transient = \<lambda>_. False, getSCLockScriptAddress = \<lambda>_. [], getLockRefundTxSwapOutput = \<lambda>_. Inr 0,
     getLockRefundTxSwapOutputValue = \<lambda>_ _. Inr 990, getLockRefundVout = \<lambda>_ _. Inr (Some 0), haveSignedLockRefundTx = \<lambda>_. True,
     isTxExistsError = \<lambda>_. False, getTxid = \<lambda>_. Inr [31], spend_from = \<lambda>_ _. Inr [32], altruistic = False, canSendMercyTx = False,
     swipePaysKey = \<lambda>_ _ _. Inr True, createSwipeTx = \<lambda>_ _ _ _. Inr [33], findConfirmedTxnByHash = \<lambda>_. Inr False,
     getMempoolTx = \<lambda>_. Inr None, getMercyWatchVouts = \<lambda>_. Inr [0], getMercyPrevout = \<lambda>_. Inr 0, pk_address = \<lambda>_. Inr [], getPkDest = \<lambda>_. Inr [],
     scanTxB = \<lambda>_ _ _ _ _ _ _. Inr None, spent_prevout = \<lambda>_. Inr [34], isSpendingLockTx = \<lambda>_. Inr False, isSpendingLockRefundTx = \<lambda>_. Inr False,
     getPathKey = \<lambda>_ _ _. Inr [35], decryptOtVES = \<lambda>_ _. Inr [36], verifyTxSig = \<lambda>_ _ _ _ _. Inr True, signTx = \<lambda>_ _ _ _. Inr [37],
     setTxSignature = \<lambda>_ _. Inr [38], getLockTxSwapOutputValue = \<lambda>_ _. Inr 1000, first_output_script = \<lambda>_. Inr [], verifyDataSig = \<lambda>_ _ _. Inr True,
     with_script_sig = \<lambda>_ _ _ _. Inr [39], depth_spendable = 2, getPubkey = \<lambda>k. Inr (0 # k), verifyKey = \<lambda>_. Inr True,
     extractLeaderSig = \<lambda>_. Inr [40], extractFollowerSig = \<lambda>_. Inr [41], recoverEncKey = \<lambda>_ _ _. Inr [42], sumKeys = \<lambda>a b. Inr (a @ b),
     isAddressMine = \<lambda>_. Inr True, receive_address = \<lambda>_ _. Inr [], spendBLockTx = \<lambda>_ _ _ _ _ _ _ _ _. Inr [43],
     publishBLockTx = \<lambda>_ _ _ _. Inr ([44], Some 0), promotePTx = \<lambda>_ _. Inr [45], extractMercyKeyshare = \<lambda>_. Inr None,
     prepareMercySpend = Inr (), mercySpendImportsKey = False, createMercyTx = \<lambda>_ _ _ _ _. Inr [46]\<rparr>"

definition idle_xenv :: xenv where
  "idle_xenv = \<lparr>x_env = idle_env, x_ads = \<lambda>_. idle_ads, x_debug_cases = [], x_debug = False, x_delay = 10, x_mercy_watch_timeout_blocks = 50,
     x_transient = \<lambda>_. False, x_max_transient_errors = 3, x_retry_delay = 5, x_sc_lock_release_min_margin = 100, x_sc_lock_spend_min_margin = 50,
     x_tenth = \<lambda>i. i div 10, x_prefunded = \<lambda>_ _. None, x_random_key = [47], x_send = \<lambda>_ _ _. Inr [48]\<rparr>"

definition ads_offer :: Offer where
  "ads_offer = blank_offer\<lparr>coin_to := 6, swap_type := SwapTypes_val XMR_SWAP, lock_type := 1\<rparr>"

definition ads_bid :: "BidStates \<Rightarrow> bool \<Rightarrow> Bid" where
  "ads_bid st leader = (blank_bid [7])\<lparr>state := Some (BidStates_val st), was_sent := \<not> leader, was_received := leader, amount := 1000, amount_to := 500,
     xmr_a_lock_tx := Some ((blank_tx [7] XMR_SWAP_A_LOCK)\<lparr>txid := Some [9], vout := Some 0, block_height := Some 10, block_time := Some 5\<rparr>)\<rparr>"

definition ads_swap :: XmrSwap where
  "ads_swap = \<lparr>swap_contract_count = Some 1, dest_af = None, dest_bl = None, pkal = Some [1], pkasl = Some [2], pkaf = Some [3], pkasf = Some [4],
     vkbvl = None, pkbvl = None, pkbsl = Some [0, 42], vkbvf = None, pkbvf = None, pkbsf = Some [0, 42], kbsl_dleag = None, kbsf_dleag = None,
     vkbv = Some [5], pkbv = None, pkbs = Some [6], a_lock_tx = Some [11], a_lock_tx_script = Some [12], a_lock_tx_id = Some [9], a_lock_tx_vout = Some 0,
     a_lock_refund_tx = Some [13], a_lock_refund_tx_script = Some [14], a_lock_refund_tx_id = Some [15], a_swap_refund_value = None,
     al_lock_refund_tx_sig = None, af_lock_refund_tx_sig = None, a_lock_refund_spend_tx = Some [16], a_lock_refund_spend_tx_id = Some [17],
     af_lock_refund_spend_tx_esig = Some [18], af_lock_refund_spend_tx_sig = None, a_lock_spend_tx = Some [19], a_lock_spend_tx_id = Some [20],
     al_lock_spend_tx_esig = Some [21], kal_sig = None, a_lock_refund_swipe_tx = None, b_lock_tx_id = Some [22]\<rparr>"

definition ads_xoffer :: XmrOffer where
  "ads_xoffer = \<lparr>a_fee_rate = 1, b_fee_rate = 1, lock_time_1 = 6, lock_time_2 = 4\<rparr>"

definition ads_node :: "Bid \<Rightarrow> node" where
  "ads_node bid = blank_node\<lparr>bids := \<lambda>_. bid, bid_rows := \<lambda>_. Some bid, offer_rows := \<lambda>_. Some ads_offer,
     xmr_offers := \<lambda>_. Some ads_xoffer, xmr_swaps := \<lambda>_. Some ads_swap\<rparr>"

text \<open>A leader's bid whose lock of coin B was seen at height 90.\<close>

definition b_locked_bid :: "BidStates \<Rightarrow> bool \<Rightarrow> Bid" where
  "b_locked_bid st leader = (ads_bid st leader)\<lparr>xmr_b_lock_tx := Some ((blank_tx [7] XMR_SWAP_B_LOCK)\<lparr>txid := Some [22], chain_height := Some 90\<rparr>)\<rparr>"

section \<open>Facts\<close>

lemma only_swap_refl: "only_swap b n n"
  by (simp add: only_swap_def)

lemma only_swap_trans: "only_swap b n m \<Longrightarrow> only_swap b m k \<Longrightarrow> only_swap b n k"
  unfolding only_swap_def by (elim conjE, intro conjI) (simp, simp, simp, simp, erule (1) append_ex_trans, simp, simp, simp)

interpretation swap: effect_relation "only_swap b" for b
  by unfold_locales (auto intro: only_swap_refl only_swap_trans)

lemma swap_upd_bid [intro!]: "steps (only_swap b) (pmod (upd_bid b f))"
  by (rule stepsI) (auto simp: py_simps upd_bid_def only_swap_def)

lemma swap_bid_call: "steps (only_swap b) (bid_call b f)"
  by (rule stepsI) (auto simp: bid_call_def upd_bid_def only_swap_def split: prod.splits)

lemma swap_set_state [intro!]: "steps (only_swap b) (set_bid_state b t s)" "steps (only_swap b) (set_ptx_state b t ts)"
  unfolding set_bid_state_def set_ptx_state_def by (rule swap_bid_call)+

lemma swap_upd_cc:
  assumes "\<And>x w. wo_bid_id w \<noteq> b \<Longrightarrow> w \<in> set (watched_outputs (f x)) \<longleftrightarrow> w \<in> set (watched_outputs x)"
    and "\<And>x w. ws_bid_id w \<noteq> b \<Longrightarrow> w \<in> set (watched_scripts (f x)) \<longleftrightarrow> w \<in> set (watched_scripts x)"
  shows "steps (only_swap b) (pmod (upd_cc c f))"
  using assms by (auto intro!: stepsI simp: py_simps only_swap_def upd_cc_def)

lemma swap_watch [intro!]:
  "steps (only_swap b) (addWatchedOutput c b t v ty st)"
  "steps (only_swap b) (removeWatchedOutput c b t' v')"
  "steps (only_swap b) (addWatchedScript c b sc tt st)"
  "steps (only_swap b) (removeWatchedScript c b d tt')"
  unfolding addWatchedOutput_def removeWatchedOutput_def addWatchedScript_def removeWatchedScript_def
  by (rule swap_upd_cc; auto simp: add_output_def add_script_def delete_from_end_filter output_matches_def script_matches_def)+

lemma swap_createAction [intro!]: "steps (only_swap b) (createAction t d dl a b)"
proof (rule stepsI)
  fix s r s'
  assume "createAction t d dl a b s = (r, s')"
  then show "only_swap b s s'"
    using createAction_run [of t d dl a b s] by (auto simp: only_swap_def)
qed

lemma swap_drop_actions: "(\<And>a. p a \<Longrightarrow> action_linked_id a = b) \<Longrightarrow> steps (only_swap b) (drop_actions debug p)"
  by (rule stepsI) (auto simp: drop_actions_def py_simps only_swap_def image_iff)

lemma swap_logs [intro!]:
  "steps (only_swap b) (logEvent b e s)" "steps (only_swap b) (countBidEvents b e)" "steps (only_swap b) (countQueuedActions b ty)"
  "steps (only_swap b) (pmod (\<lambda>n. n\<lparr>notified := g n\<rparr>))" "steps (only_swap b) (pmod (\<lambda>n. n\<lparr>published := h n\<rparr>))"
  "steps (only_swap b) (pmod (\<lambda>n. n\<lparr>sent_messages := k n\<rparr>))" "steps (only_swap b) (pmod (\<lambda>n. n\<lparr>wallet_calls := l n\<rparr>))"
  "steps (only_swap b) (need x)"
  by (auto intro!: stepsI simp: logEvent_def countBidEvents_def countQueuedActions_def need_def py_simps only_swap_def)

lemma swap_removeQueuedActions [intro!]: "steps (only_swap b) (removeQueuedActions debug b act)"
  unfolding removeQueuedActions_def by (rule swap_drop_actions) simp

lemma swap_saves [intro!]:
  "steps (only_swap b) (saveBidInSession b bid)" "steps (only_swap b) (saveBid b)"
  "steps (only_swap b) (save_swap b bid xs)" "steps (only_swap b) (save_in_progress b bid xs offer)"
  "steps (only_swap b) (save_xmr b xs)" "steps (only_swap b) (save_txn b ty)"
  "steps (only_swap b) (pmod (\<lambda>n. n\<lparr>swaps_in_progress := AList.update b offer (swaps_in_progress n)\<rparr>))"
  unfolding saveBid_def save_swap_def save_in_progress_def save_xmr_def save_txn_def saveBidInSession_def get_txn_def
  by (auto intro!: stepsI simp: py_simps only_swap_def update_conv pbind_def pseq_def of_option_def split: option.splits)

lemma swap_start_height [intro!]: "steps (only_swap b) (start_height E c h)"
proof -
  have "steps (only_swap b) (pmod (\<lambda>n. (upd_cc c (\<lambda>c. c\<lparr>last_height_checked := h, block_check_min_time := t\<rparr>) n)\<lparr>min_time_kv := (c, t) # min_time_kv n\<rparr>))" for h t
    by (auto intro!: stepsI simp: py_simps only_swap_def upd_cc_def)
  then show ?thesis
    unfolding start_height_def setLastHeightCheckedStart_def Let_def by auto
qed

lemma swap_txns [intro!]:
  "steps (only_swap b) (get_txn b t)" "steps (only_swap b) (put_txn b t tx)" "steps (only_swap b) (upd_txn b t f)"
  "steps (only_swap b) (set_txn_state b t time s)" "steps (only_swap b) (upd_alock b f)" "steps (only_swap b) (set_alock_state b time s)"
  "steps (only_swap b) (set_block_state b time s)" "steps (only_swap b) (wallet_call c)" "steps (only_swap b) (publish E ca tx')"
  "steps (only_swap b) (get_state b)" "steps (only_swap b) (upd_ptx b f)"
  unfolding get_txn_def put_txn_def upd_txn_def set_txn_state_def upd_alock_def set_alock_state_def set_block_state_def wallet_call_def publish_def get_state_def
    upd_ptx_def get_ptx_def
  by auto

lemma swap_block_info [intro!]:
  "steps (only_swap b) (setTxBlockInfoFromHeight (upd_txn b t) i h)" "steps (only_swap b) (setTxBlockInfoFromHeight (upd_alock b) i h)"
  unfolding setTxBlockInfoFromHeight_def by auto


lemma swap_objects [intro!]:
  "steps (only_swap b) (with_state time s bid)" "steps (only_swap b) (with_tx_state time ts tx)"
  "steps (only_swap b) (load_swap c)" "steps (only_swap b) (load_offer oid)" "steps (only_swap b) (getXmrOfferFromSession oid)"
  "steps (only_swap b) (swap_completed_note b)" "steps (only_swap b) (queue_action X act b)"
  unfolding with_state_def with_tx_state_def load_swap_def load_offer_def getXmrBidFromSession_def getXmrOfferFromSession_def
    swap_completed_note_def queue_action_def
  by (auto split: prod.split sum.split)

lemma swap_watchXmrSwap [intro!]: "steps (only_swap b) (watchXmrSwap X b offer xs)"
  unfolding watchXmrSwap_def watch_mercy_def by auto

lemma swap_findTxB [intro!]: "steps (only_swap b) (findTxB X b cb s bid xs)"
  unfolding findTxB_def Let_def by (auto split: b_search.split option.split)

lemma swap_mercy [intro!]:
  "steps (only_swap b) (mercy_prevout X ca bid call)" "steps (only_swap b) (recoverSwipePayout X b ca offer bid xs)"
  "steps (only_swap b) (spendSwipePayout X ca offer xo bid xs k ks)" "steps (only_swap b) (getSwipePayout X ca bid xs)"
  unfolding mercy_prevout_def recoverSwipePayout_def sweepSwipePayout_def spendSwipePayout_def getSwipePayout_def
  by (auto split: list.split)

lemma swap_check_mercy [intro!]:
  "steps (only_swap b) (checkMercyWatch X b ca)" "steps (only_swap b) (checkMercySend X b ca offer xs)"
  unfolding checkMercyWatch_def removeMercyWatch_def checkMercySend_def by auto

lemma swap_spends [intro!]:
  "steps (only_swap b) (process_XMR_SWAP_A_LOCK_tx_spend X b t tx)"
  "steps (only_swap b) (process_XMR_SWAP_A_LOCK_REFUND_tx_spend X b t tx)"
  unfolding process_XMR_SWAP_A_LOCK_tx_spend_def a_lock_spent_def a_lock_redeemed_def a_lock_refunded_def
    process_XMR_SWAP_A_LOCK_REFUND_tx_spend_def a_lock_refund_spent_def refund_spend_seen_def refund_swiped_def Let_def
  by auto

lemma swap_refund_branch [intro!]: "steps (only_swap b) (refund_branch X b offer ca cb xo xs)"
  unfolding refund_branch_def track_refund_def leader_refund_def publish_refund_spend_def follower_refund_def publish_swipe_def
    check_recovered_def Let_def
  by (auto split: lock_search.split)

lemma swap_prerefund_branch [intro!]: "steps (only_swap b) (prerefund_branch X b offer ca xo xs)"
  unfolding prerefund_branch_def publish_refund_def refund_failed_def record_refund_def Let_def by auto

lemma swap_lock_a_branch [intro!]: "steps (only_swap b) (lock_a_branch X b offer ca cb xs)"
  unfolding lock_a_branch_def rebuild_a_lock_def a_lock_progress_def a_lock_confirmed_def Let_def by (auto split: lock_search.split)

lemma swap_lock_b_branch [intro!]: "steps (only_swap b) (lock_b_branch X b offer ca cb st xs)"
  unfolding lock_b_branch_def look_for_b_def requeue_b_def check_b_depth_def b_lock_confirmed_def watch_refund_def Let_def
  by (auto split: lock_search.split option.split)

lemma swap_dispatch_state [intro!]: "steps (only_swap b) (dispatch_state X b offer ca cb st xs)"
  unfolding dispatch_state_def failed_branch_def released_branch_def redeemed_branch_def spend_b_confirmed_def spend_b_txid_def by auto

lemma swap_checkXmrBidState [intro!]: "steps (only_swap b) (checkXmrBidState X b offer)"
  unfolding checkXmrBidState_def by auto


lemma swap_retry_or_fail [intro!]: "steps (only_swap b) (retry_or_fail X b cb offer bid xs ev act msg e)"
  unfolding retry_or_fail_def by auto

lemma swap_sends [intro!]:
  "steps (only_swap b) (sendXmrBidCoinBLockTx X b)" "steps (only_swap b) (sendXmrBidLockRelease X b)"
  unfolding sendXmrBidCoinBLockTx_def send_b_lock_def publish_b_lock_def sendXmrBidLockRelease_def lock_margin_def send_release_def sendMessage_def Let_def
  by auto

lemma swap_redeems [intro!]:
  "steps (only_swap b) (redeemXmrBidCoinALockTx X b)" "steps (only_swap b) (redeemXmrBidCoinBLockTx X b)"
  unfolding redeemXmrBidCoinALockTx_def redeem_a_def lock_margin_def redeemXmrBidCoinBLockTx_def redeem_b_def redeemed_b_def spend_b_def Let_def
  by (auto split: list.split option.split)

lemma swap_recovers [intro!]:
  "steps (only_swap b) (recoverXmrBidCoinBLockTx X b)" "steps (only_swap b) (sendMercyTx X b)"
  unfolding recoverXmrBidCoinBLockTx_def recover_b_def spend_b_def sendMercyTx_def give_up_mercy_def send_mercy_def Let_def
  by auto

lemma swap_found [intro!]:
  "steps (only_swap (ws_bid_id ws)) (processFoundScript X c ws t v)"
  "steps (only_swap (wo_bid_id wo)) (processSpentOutputXmr X c wo spend_id spend_txn)"
  unfolding processFoundScript_def processSpentOutputXmr_def process_MERCY_tx_def Let_def by (auto split: option.split sum.split)

text \<open>One adaptor signature swap does not touch another. Whatever chains, wallets and peers answer, and whether they return
  or raise, \<open>checkXmrBidState\<close>, the handlers of its queued actions and what its watches find change, of bids in
  memory, rows, swaps in progress, watches and queued actions, only those of the bid they are called for, and log
  only events of that bid.\<close>

theorem ads_handlers_frame:
  "only_swap b n (snd (checkXmrBidState X b offer n))
   \<and> only_swap b n (snd (sendXmrBidCoinBLockTx X b n))
   \<and> only_swap b n (snd (sendXmrBidLockRelease X b n))
   \<and> only_swap b n (snd (redeemXmrBidCoinALockTx X b n))
   \<and> only_swap b n (snd (redeemXmrBidCoinBLockTx X b n))
   \<and> only_swap b n (snd (recoverXmrBidCoinBLockTx X b n))
   \<and> only_swap b n (snd (sendMercyTx X b n))
   \<and> only_swap (wo_bid_id wo) n (snd (processSpentOutputXmr X c wo spend_id spend_txn n))
   \<and> only_swap (ws_bid_id ws) n (snd (processFoundScript X c ws t v n))"
  using swap_checkXmrBidState swap_found swap_sends swap_redeems swap_recovers
  unfolding steps_def by (intro conjI) simp_all

lemma publishes_trans: "publishes P n m \<Longrightarrow> publishes P m k \<Longrightarrow> publishes P n k"
  unfolding publishes_def by (rule append_ex_trans)

interpretation publishes: effect_relation "publishes P" for P
  by unfold_locales (auto simp: publishes_def [of _ s s for s] intro: publishes_trans)

interpretation guarded: effect_relation "guarded J P" for J P
  by unfold_locales (auto simp: guarded_def intro: publishes.refl publishes_trans)

interpretation calm: effect_relation "calm P b" for P b
  by unfold_locales (auto simp: calm_def intro: publishes.refl publishes_trans)

interpretation silent: effect_relation "silent b" for b
  by unfold_locales (auto simp: silent_def)

lemma steps_mono: "steps R m \<Longrightarrow> (\<And>s t. R s t \<Longrightarrow> S s t) \<Longrightarrow> steps S m"
  by (auto simp: steps_def)

text \<open>A step whose result is used: the guard holds where it runs.\<close>

lemma guarded_pbind:
  assumes "steps (guarded J P) m" "\<And>s x s'. J s \<Longrightarrow> m s = (Inr x, s') \<Longrightarrow> steps (guarded J P) (f x)"
  shows "steps (guarded J P) (pbind m f)"
proof (rule stepsI)
  fix s r s'
  assume run: "pbind m f s = (r, s')"
  show "guarded J P s s'"
  proof (cases "J s")
    case True
    obtain x t where m: "m s = (x, t)"
      by fastforce
    then have "guarded J P s t"
      by (rule stepsD [OF assms(1)])
    moreover have "guarded J P t s'"
    proof (cases x)
      case (Inl e)
      then show ?thesis
        using run m by (simp add: pbind_def guarded.refl)
    next
      case (Inr y)
      then have "f y t = (r, s')"
        using run m by (simp add: pbind_def)
      then show ?thesis
        by (rule stepsD [OF assms(2) [OF True m [unfolded Inr]]])
    qed
    ultimately show ?thesis
      by (rule guarded.trans)
  qed (simp add: guarded_def)
qed

lemma guarded_pget: "(\<And>s. J s \<Longrightarrow> steps (guarded J P) (f (g s))) \<Longrightarrow> steps (guarded J P) (pbind (pget g) f)"
  by (rule guarded_pbind) (auto simp: py_simps)

lemma guarded_publish: "P (c, tx) \<Longrightarrow> (\<And>n ps. J (n\<lparr>published := ps\<rparr>) = J n) \<Longrightarrow> steps (guarded J P) (publish E c tx)"
  unfolding publish_def by (auto intro!: stepsI simp: py_simps guarded_def publishes_def)

lemma silent_guarded: "steps (silent b) m \<Longrightarrow> steps (guarded (refund_known X ca b bid0 tx0) P) m"
  by (erule steps_mono) (auto simp: silent_def guarded_def refund_known_def publishes_def)

lemma silent_publishes: "steps (silent b) m \<Longrightarrow> steps (publishes P) m"
  by (erule steps_mono) (auto simp: silent_def publishes_def)

lemma silent_calm: "steps (silent b) m \<Longrightarrow> steps (calm P b) m"
  by (erule steps_mono) (auto simp: silent_def publishes_def calm_def)

lemma silent_upd_bid:
  "(\<And>x. state (f x) = state x \<and> txns (f x) XMR_SWAP_A_LOCK_REFUND = txns x XMR_SWAP_A_LOCK_REFUND \<and> was_sent (f x) = was_sent x \<and> was_received (f x) = was_received x)
   \<Longrightarrow> steps (silent b) (pmod (upd_bid b f))"
  by (rule stepsI) (auto simp: py_simps upd_bid_def silent_def sending_mercy_def)

lemma silent_set_state [intro!]: "s \<noteq> XMR_SWAP_FAILED_SWIPED_SENDING_MERCY \<Longrightarrow> steps (silent b) (set_bid_state b t s)"
  by (rule stepsI) (auto simp: sending_mercy_def set_bid_state_def bid_call_def setState_def Let_def upd_bid_def silent_def simp del: BidStates_val.simps split: prod.splits sum.splits)

lemma silent_createAction [intro!]: "steps (silent b) (createAction t d dl a c)"
proof (rule stepsI)
  fix s r s'
  assume "createAction t d dl a c s = (r, s')"
  then show "silent b s s'"
    using createAction_run [of t d dl a c s] by (auto simp: silent_def)
qed

lemma silent_simple [intro!]:
  "steps (silent b) (logEvent c e s)" "steps (silent b) (countBidEvents c e)" "steps (silent b) (countQueuedActions c ty)"
  "steps (silent b) (pmod (\<lambda>n. n\<lparr>notified := g n\<rparr>))" "steps (silent b) (pmod (\<lambda>n. n\<lparr>wallet_calls := l n\<rparr>))"
  "steps (silent b) (need x)" "steps (silent b) (saveBidInSession c bid)" "steps (silent b) (save_swap c bid xs)" "steps (silent b) (save_xmr c xs)"
  "steps (silent b) (removeQueuedActions debug c act)" "steps (silent b) (pmod (upd_cc cn f))"
  "steps (silent b) (pmod (\<lambda>n. n\<lparr>bid_rows := r n\<rparr>))"
  by (auto intro!: stepsI simp: logEvent_def countBidEvents_def countQueuedActions_def need_def saveBidInSession_def save_swap_def save_xmr_def
      removeQueuedActions_def drop_actions_def upd_cc_def pbind_def pseq_def py_simps silent_def)

lemma silent_txns [intro!]:
  "steps (silent b) (get_txn c t)" "t \<noteq> XMR_SWAP_A_LOCK_REFUND \<Longrightarrow> steps (silent b) (put_txn b t tx)" "steps (silent b) (get_state c)"
  "steps (silent b) (save_txn c t)" "steps (silent b) (wallet_call w)" "steps (silent b) (queue_action X act c)"
  "steps (silent b) (mercy_prevout X ca bid call)" "steps (silent b) (getSwipePayout X ca bid xs)"
  unfolding get_txn_def put_txn_def get_state_def save_txn_def wallet_call_def queue_action_def mercy_prevout_def getSwipePayout_def
  by (auto intro!: silent_upd_bid)

text \<open>Handlers that publish nothing, or only what is permitted.\<close>

lemma pub_pmod: "(\<And>n. published (f n) = published n) \<Longrightarrow> steps (publishes P) (pmod f)"
  by (rule stepsI) (auto simp: py_simps publishes_def)

lemma pub_createAction [intro!]: "steps (publishes P) (createAction t d dl a b)"
  by (rule silent_publishes) (rule silent_createAction)

lemma pub_publish: "P (c, tx) \<Longrightarrow> steps (publishes P) (publish E c tx)"
  unfolding publish_def by (auto intro!: stepsI simp: py_simps publishes_def)

lemma pub_simple [intro!]:
  "steps (publishes P) (logEvent b e s)" "steps (publishes P) (countBidEvents b e)" "steps (publishes P) (countQueuedActions b ty)"
  "steps (publishes P) (pmod (\<lambda>n. n\<lparr>notified := g n\<rparr>))" "steps (publishes P) (pmod (\<lambda>n. n\<lparr>wallet_calls := l n\<rparr>))"
  "steps (publishes P) (need x)" "steps (publishes P) (saveBidInSession b bid)" "steps (publishes P) (save_swap b bid xs)"
  "steps (publishes P) (save_in_progress b bid xs offer)" "steps (publishes P) (save_xmr b xs)"
  "steps (publishes P) (removeQueuedActions debug b act)" "steps (publishes P) (pmod (upd_cc cn f))"
  "steps (publishes P) (pmod (upd_bid b u))" "steps (publishes P) (bid_call b v)"
  "steps (publishes P) (pmod (\<lambda>n. n\<lparr>bid_rows := r n\<rparr>))" "steps (publishes P) (pmod (\<lambda>n. n\<lparr>swaps_in_progress := w n\<rparr>))"
  by (auto intro!: stepsI simp: logEvent_def countBidEvents_def countQueuedActions_def need_def saveBidInSession_def save_swap_def save_xmr_def
      save_in_progress_def removeQueuedActions_def drop_actions_def upd_cc_def upd_bid_def bid_call_def pbind_def pseq_def py_simps publishes_def
      split: prod.splits)

lemma pub_txns [intro!]:
  "steps (publishes P) (set_bid_state b time st)" "steps (publishes P) (get_txn b t)" "steps (publishes P) (put_txn b t tx)"
  "steps (publishes P) (upd_txn b t f)" "steps (publishes P) (set_txn_state b t time s)" "steps (publishes P) (upd_alock b f)"
  "steps (publishes P) (set_alock_state b time s)" "steps (publishes P) (set_block_state b time s)" "steps (publishes P) (wallet_call c)"
  "steps (publishes P) (get_state b)" "steps (publishes P) (save_txn b t)" "steps (publishes P) (queue_action X act b)"
  unfolding set_bid_state_def get_txn_def put_txn_def upd_txn_def set_txn_state_def upd_alock_def set_alock_state_def set_block_state_def
    wallet_call_def get_state_def save_txn_def queue_action_def
  by (auto intro!: pub_createAction)

lemma pub_watch [intro!]:
  "steps (publishes P) (addWatchedOutput c b t v ty st)" "steps (publishes P) (removeWatchedOutput c b t' v')"
  "steps (publishes P) (addWatchedScript c b sc tt st')" "steps (publishes P) (removeWatchedScript c b d tt')"
  unfolding addWatchedOutput_def removeWatchedOutput_def addWatchedScript_def removeWatchedScript_def by auto

lemma pub_block_info [intro!]:
  "steps (publishes P) (setTxBlockInfoFromHeight (upd_txn b t) i h)" "steps (publishes P) (setTxBlockInfoFromHeight (upd_alock b) i h)"
  unfolding setTxBlockInfoFromHeight_def by auto

lemma pub_start_height [intro!]: "steps (publishes P) (start_height E c h)"
proof -
  have "steps (publishes P) (pmod (\<lambda>n. (upd_cc c (\<lambda>c. c\<lparr>last_height_checked := h, block_check_min_time := t\<rparr>) n)\<lparr>min_time_kv := (c, t) # min_time_kv n\<rparr>))" for h t
    by (rule pub_pmod) (simp add: upd_cc_def)
  then show ?thesis
    unfolding start_height_def setLastHeightCheckedStart_def Let_def by auto
qed

lemma pub_objects [intro!]:
  "steps (publishes P) (with_state time s bid)" "steps (publishes P) (with_tx_state time ts tx)"
  "steps (publishes P) (load_swap c)" "steps (publishes P) (load_offer oid)" "steps (publishes P) (getXmrOfferFromSession oid)"
  "steps (publishes P) (swap_completed_note b)"
  unfolding with_state_def with_tx_state_def load_swap_def load_offer_def getXmrBidFromSession_def getXmrOfferFromSession_def swap_completed_note_def
  by (auto split: prod.split sum.split)

lemma pub_watchXmrSwap [intro!]: "steps (publishes P) (watchXmrSwap X b offer xs)"
  unfolding watchXmrSwap_def watch_mercy_def by auto

lemma pub_findTxB [intro!]: "steps (publishes P) (findTxB X b cb s bid xs)"
  unfolding findTxB_def Let_def by (auto split: b_search.split option.split)

lemma pub_spend [intro!]: "steps (publishes P) (process_XMR_SWAP_A_LOCK_tx_spend X b t tx)"
  unfolding process_XMR_SWAP_A_LOCK_tx_spend_def a_lock_spent_def a_lock_redeemed_def a_lock_refunded_def Let_def by auto

lemma pub_checkMercyWatch [intro!]: "steps (publishes P) (checkMercyWatch X b ca)"
  unfolding checkMercyWatch_def removeMercyWatch_def by auto

lemma pub_sweep:
  assumes "\<And>tx xs t fee. createMercyTx (x_ads X ca) xs t None fee True = Inr tx \<Longrightarrow> P (ca, tx)"
  shows "steps (publishes P) (checkMercySend X b ca offer xs)"
  unfolding checkMercySend_def recoverSwipePayout_def sweepSwipePayout_def spendSwipePayout_def getSwipePayout_def mercy_prevout_def
  by (auto intro!: pub_publish assms split: list.split)

lemma pub_dispatch_state:
  assumes "\<And>tx xs t fee. st = XMR_SWAP_FAILED_SWIPED_SENDING_MERCY \<Longrightarrow> createMercyTx (x_ads X ca) xs t None fee True = Inr tx \<Longrightarrow> P (ca, tx)"
  shows "steps (publishes P) (dispatch_state X b offer ca cb st xs)"
  unfolding dispatch_state_def failed_branch_def released_branch_def redeemed_branch_def spend_b_confirmed_def spend_b_txid_def
    lock_a_branch_def rebuild_a_lock_def a_lock_progress_def a_lock_confirmed_def
    lock_b_branch_def look_for_b_def requeue_b_def check_b_depth_def b_lock_confirmed_def watch_refund_def Let_def
  by (auto intro!: pub_sweep assms split: lock_search.split option.split)

lemma guarded_upd_txn:
  assumes "\<And>tx. txid (f tx) = txid tx \<and> vout (f tx) = vout tx
      \<and> (block_height (f tx) = block_height tx
         \<or> (\<exists>h. block_height (f tx) = Some h \<and> reported_height X ca (txid tx0) (vout tx0) h))"
  shows "steps (guarded (refund_known X ca b bid0 tx0) P) (upd_txn b XMR_SWAP_A_LOCK_REFUND f)"
proof (rule stepsI)
  fix s r s'
  assume run: "upd_txn b XMR_SWAP_A_LOCK_REFUND f s = (r, s')"
  show "guarded (refund_known X ca b bid0 tx0) P s s'"
  proof (cases "txns (bids s b) XMR_SWAP_A_LOCK_REFUND")
    case None
    with run show ?thesis
      by (simp add: guarded_def refund_known_def)
  next
    case (Some tx)
    with run have "s' = upd_bid b (\<lambda>bid. bid\<lparr>txns := (txns bid)(XMR_SWAP_A_LOCK_REFUND \<mapsto> f tx)\<rparr>) s"
      by (auto simp: upd_txn_def get_txn_def put_txn_def py_simps pbind_def of_option_def)
    then show ?thesis
      using assms [of tx] Some
      by (auto simp: guarded_def refund_known_def upd_bid_def publishes_def sending_mercy_def)
  qed
qed

lemma guarded_set_txn_state [intro!]:
  "steps (guarded (refund_known X ca b bid0 tx0) P) (set_txn_state b XMR_SWAP_A_LOCK_REFUND time st)"
proof (rule stepsI)
  fix s r s'
  assume run: "set_txn_state b XMR_SWAP_A_LOCK_REFUND time st s = (r, s')"
  show "guarded (refund_known X ca b bid0 tx0) P s s'"
  proof (cases "txns (bids s b) XMR_SWAP_A_LOCK_REFUND")
    case None
    with run show ?thesis
      by (simp add: guarded_def refund_known_def)
  next
    case (Some tx)
    let ?tx = "snd (setState (TxStates_val st) time tx)"
    have "s' = upd_bid b (\<lambda>bid. bid\<lparr>txns := (txns bid)(XMR_SWAP_A_LOCK_REFUND \<mapsto> ?tx)\<rparr>) s"
      using run Some by (auto simp: set_txn_state_def get_txn_def put_txn_def py_simps pbind_def pseq_def of_option_def split: prod.splits)
    moreover have "txid ?tx = txid tx \<and> vout ?tx = vout tx \<and> block_height ?tx = block_height tx"
      by (simp add: setState_def Let_def split: sum.split)
    ultimately show ?thesis
      using Some by (auto simp: guarded_def refund_known_def upd_bid_def publishes_def sending_mercy_def)
  qed
qed

lemma guarded_block_info:
  "reported_height X ca (txid tx0) (vout tx0) h
   \<Longrightarrow> steps (guarded (refund_known X ca b bid0 tx0) P) (setTxBlockInfoFromHeight (upd_txn b XMR_SWAP_A_LOCK_REFUND) i h)"
  unfolding setTxBlockInfoFromHeight_def by (auto intro!: guarded_upd_txn)

lemma get_refund_run:
  "refund_known X ca b bid0 tx0 s \<Longrightarrow> get_txn b XMR_SWAP_A_LOCK_REFUND s = (Inr tx, s')
   \<Longrightarrow> txid tx = txid tx0 \<and> vout tx = vout tx0
      \<and> (\<forall>h. block_height tx = Some h \<longrightarrow> block_height tx0 = Some h \<or> reported_height X ca (txid tx0) (vout tx0) h)"
  by (auto simp: refund_known_def get_txn_def pbind_def py_simps of_option_def)

lemma need_run: "need x s = (Inr v, s') \<Longrightarrow> x = Some v"
  by (auto simp: need_def py_simps of_option_def split: option.splits)

lemma guarded_silent [intro!]:
  "steps (guarded (refund_known X ca b bid0 tx0) P) (get_txn c t)" "steps (guarded (refund_known X ca b bid0 tx0) P) (logEvent c e s)"
  "steps (guarded (refund_known X ca b bid0 tx0) P) (save_txn c t)" "steps (guarded (refund_known X ca b bid0 tx0) P) (save_xmr c xs)"
  "steps (guarded (refund_known X ca b bid0 tx0) P) (need x)" "steps (guarded (refund_known X ca b bid0 tx0) P) (get_state c)"
  "t \<noteq> XMR_SWAP_A_LOCK_REFUND \<Longrightarrow> steps (guarded (refund_known X ca b bid0 tx0) P) (put_txn b t tx)"
  "st \<noteq> XMR_SWAP_FAILED_SWIPED_SENDING_MERCY \<Longrightarrow> steps (guarded (refund_known X ca b bid0 tx0) P) (set_bid_state b time st)"
  "steps (guarded (refund_known X ca b bid0 tx0) P) (createAction time d dl a c)"
  "steps (guarded (refund_known X ca b bid0 tx0) P) (mercy_prevout X ca' bid call)"
  by (rule silent_guarded; (rule silent_txns silent_simple silent_set_state silent_createAction; assumption?))+

lemma track_refund_guarded [intro!]: "steps (guarded (refund_known X ca b bid0 tx0) P) (track_refund X b ca xs)"
  unfolding track_refund_def Let_def
proof (rule guarded_pbind [OF guarded_silent(1)], goal_cases)
  case (1 s tx s')
  from get_refund_run [OF 1] have "txid tx = txid tx0" "vout tx = vout tx0"
    by simp_all
  then show ?case
    by (auto split: lock_search.split option.split intro!: guarded_block_info simp: reported_height_def) blast
qed

lemma pseq_last: "pseq m k s = (Inr y, u) \<Longrightarrow> (\<And>t. k t = (Inr y, u) \<Longrightarrow> thesis) \<Longrightarrow> thesis"
  by (auto simp: run_simps)

lemma track_refund_depth:
  assumes run: "track_refund X b ca xs n = (Inr d, n')" and tx: "txns (bids n b) XMR_SWAP_A_LOCK_REFUND = Some tx"
  shows "d = 0 \<or> refund_depth X ca xs (bids n b) tx d"
proof (cases "state tx = Some (TxStates_val TX_CONFIRMED)")
  case True
  then show ?thesis
    using run tx by (simp add: track_refund_def get_txn_def of_option_def pbind_def py_simps Let_def refund_depth_def)
next
  case False
  with run tx obtain val found where val: "getLockRefundTxSwapOutputValue (x_ads X ca) (bids n b) xs = Inr val"
    and found: "getLockTxHeight (ci (x_env X) ca) (txid tx)
      (getSCLockScriptAddress (x_ads X ca) (a_lock_refund_tx_script xs)) val (chain_a_height_start (bids n b)) (vout tx) False = Inr found"
    by (auto simp: track_refund_def get_txn_def of_option_def pbind_def py_simps Let_def simp del: TxStates_val.simps
        split: sum.splits)
  have "d = 0 \<or> (\<exists>f. found = Some (LockFound f) \<and> d = lf_depth f)"
    using run tx False val found unfolding track_refund_def Let_def
    by (auto simp: pbind_def get_txn_def of_option_def py_eval simp del: TxStates_val.simps
        split: option.splits lock_search.splits elim!: pseq_last)
  then show ?thesis
    using found by (auto simp: refund_depth_def)
qed

lemma need_guarded:
  "(\<And>v. x = Some v \<Longrightarrow> steps (guarded J P) (f v)) \<Longrightarrow> steps (guarded J P) (pbind (need x) f)"
  unfolding need_def by (rule guarded.steps_pbind_plift) (auto simp: of_option_def split: option.splits)

lemma publish_refund_spend_guarded:
  assumes "\<And>tx. a_lock_refund_spend_tx xs = Some tx \<Longrightarrow> 1 \<le> d \<Longrightarrow> ads_blocks_confirmed (x_ads X ca) \<le> d \<Longrightarrow> P (ca, tx)"
  shows "steps (guarded (refund_known X ca b bid0 tx0) P) (publish_refund_spend X b ca xs d)"
  unfolding publish_refund_spend_def
  by (auto intro!: need_guarded guarded_publish assms simp: refund_known_def)

lemma leader_refund_guarded:
  assumes "\<And>tx. a_lock_refund_spend_tx xs = Some tx \<Longrightarrow> 1 \<le> d \<Longrightarrow> ads_blocks_confirmed (x_ads X ca) \<le> d \<Longrightarrow> P (ca, tx)"
  shows "steps (guarded (refund_known X ca b bid0 tx0) P) (leader_refund X b ca xs d)"
  unfolding leader_refund_def by (auto intro!: publish_refund_spend_guarded assms)

lemma publish_swipe_guarded:
  assumes "\<And>tx. a_lock_refund_swipe_tx xs = Some tx \<Longrightarrow> P (ca, tx)"
  shows "steps (guarded (refund_known X ca b bid0 tx0) P) (publish_swipe X b ca xs)"
  unfolding publish_swipe_def Let_def
  by (auto intro!: need_guarded guarded_publish assms simp: refund_known_def)

lemma swipe_when_mature_guarded:
  assumes "\<And>tx. a_lock_refund_swipe_tx xs = Some tx \<Longrightarrow> swipe_mature X offer xo ca tx0 \<Longrightarrow> P (ca, tx)"
  shows "steps (guarded (refund_known X ca b bid0 tx0) P) (pbind (get_txn b XMR_SWAP_A_LOCK_REFUND) (\<lambda>tx.
     pbind (if sw = None \<and> block_height tx \<noteq> None
            then plift (isCsvLockMature (chain (ci (x_env X) ca)) (lock_type offer) (lock_time_2 xo) (block_height tx) (block_time tx) None None None)
            else pret False) (\<lambda>mature.
     pwhen mature (ptry (publish_swipe X b ca xs) (\<lambda>_. pret ())))))"
proof (rule guarded_pbind [OF guarded_silent(1)], goal_cases)
  case (1 s tx s')
  show ?case
  proof (rule guarded_pbind)
    fix m mature m'
    assume "(if sw = None \<and> block_height tx \<noteq> None
      then plift (isCsvLockMature (chain (ci (x_env X) ca)) (lock_type offer) (lock_time_2 xo) (block_height tx) (block_time tx) None None None)
      else pret False) m = (Inr mature, m')"
    then have "mature \<Longrightarrow> swipe_mature X offer xo ca tx0"
      using get_refund_run [OF 1] unfolding swipe_mature_def by (auto simp: py_simps split: if_splits)
    then show "steps (guarded (refund_known X ca b bid0 tx0) P)
        (pwhen mature (ptry (publish_swipe X b ca xs) (\<lambda>_. pret ())))"
      by (auto intro!: publish_swipe_guarded assms)
  qed auto
qed

lemma refund_info_guarded:
  "steps (guarded (refund_known X ca b bid0 tx0) P) (pbind (get_txn b XMR_SWAP_A_LOCK_REFUND) (\<lambda>tx.
     if block_height tx = None
     then pbind (plift (getTxOutInfo (ci (x_env X) ca) (txid tx) (vout tx))) (\<lambda>info.
          case info of
            None \<Rightarrow> pret ()
          | Some out \<Rightarrow>
              pseq (upd_txn b XMR_SWAP_A_LOCK_REFUND (\<lambda>tx. tx\<lparr>block_hash := Some (bh_hash out), block_height := Some (bh_height out),
                      block_time := Some (bh_time out)\<rparr>))
                   (save_txn b XMR_SWAP_A_LOCK_REFUND))
     else pret ()))"
proof (rule guarded_pbind [OF guarded_silent(1)], goal_cases)
  case (1 s tx s')
  from get_refund_run [OF 1] show ?case
    by (auto intro!: guarded_upd_txn simp: reported_height_def)
qed

lemma pbind_pseq: "pbind m (\<lambda>x. pseq (f x) k) = pseq (pbind m f) k"
  by (auto simp: pbind_def pseq_def fun_eq_iff split: prod.splits sum.splits)

lemma follower_refund_guarded:
  assumes "\<And>tx. a_lock_refund_swipe_tx xs = Some tx \<or> (\<exists>bid'. createSwipeTx (x_ads X ca) bid' offer xs xo = Inr tx)
      \<Longrightarrow> swipe_mature X offer xo ca tx0 \<Longrightarrow> P (ca, tx)"
  shows "steps (guarded (refund_known X ca b bid0 tx0) P) (follower_refund X b offer ca xo xs)"
  unfolding follower_refund_def Let_def pbind_pseq
proof (rule guarded_pbind, goal_cases)
  case (2 s xs' s')
  then have "\<And>tx. a_lock_refund_swipe_tx xs' = Some tx \<Longrightarrow> swipe_mature X offer xo ca tx0 \<Longrightarrow> P (ca, tx)"
    using assms by (auto simp: run_simps split: if_splits) blast
  then show ?case
    by (rule guarded.steps_pseq [OF refund_info_guarded guarded.steps_pseq [OF guarded.steps_pbind [OF guarded.steps_pget swipe_when_mature_guarded] guarded.steps_pret]])
qed auto

lemma is_leader_known: "refund_known X ca b bid0 tx0 n \<Longrightarrow> is_leader offer (bids n b) = is_leader offer bid0"
  "refund_known X ca b bid0 tx0 n \<Longrightarrow> is_follower offer (bids n b) = is_follower offer bid0"
  by (simp_all add: refund_known_def is_leader_def is_follower_def)

lemma refund_branch_guarded:
  assumes bid0: "bids n b = bid0" "txns bid0 XMR_SWAP_A_LOCK_REFUND = Some tx0"
    and spend: "\<And>p. fst p = ca \<Longrightarrow> refund_spend_due X offer xs bid0 p \<Longrightarrow> P p"
    and swipe: "\<And>p. fst p = ca \<Longrightarrow> swipe_due X offer xo xs bid0 p \<Longrightarrow> P p"
  shows "steps_at (guarded (refund_known X ca b bid0 tx0) P) (refund_branch X b offer ca cb xo xs) n"
  unfolding refund_branch_def
proof (rule guarded.steps_at_pbind [OF steps_at_steps [OF track_refund_guarded]], rule steps_at_steps)
  fix d s
  assume run: "track_refund X b ca xs n = (Inr d, s)"
  have depth: "d = 0 \<or> refund_depth X ca xs bid0 tx0 d"
    using track_refund_depth [OF run] bid0 by auto
  have leader: "steps (guarded (refund_known X ca b bid0 tx0) P) (leader_refund X b ca xs d)" if "is_leader offer bid0"
    using depth that bid0(2) by (intro leader_refund_guarded spend) (auto simp: refund_spend_due_def)
  have follower: "steps (guarded (refund_known X ca b bid0 tx0) P) (follower_refund X b offer ca xo xs)" if "is_follower offer bid0"
    using that bid0(2) by (intro follower_refund_guarded swipe) (auto simp: swipe_due_def swipe_mature_def)
  show "steps (guarded (refund_known X ca b bid0 tx0) P) (pbind (pget (\<lambda>n. bids n b)) (\<lambda>bid.
     pbind (if is_leader offer bid then leader_refund X b ca xs d else pret None) (\<lambda>rv.
     if rv \<noteq> None then pret (rv, xs)
     else
       pbind (if is_follower offer bid then follower_refund X b offer ca xo xs else pret xs) (\<lambda>xs.
       pbind (get_state b) (\<lambda>st.
       if st = XMR_SWAP_NOSCRIPT_TX_RECOVERED
       then pbind (check_recovered X b cb xs) (\<lambda>rv. pret (Some rv, xs))
       else pret (None, xs))))))"
    by (rule guarded_pget) (auto simp: is_leader_known check_recovered_def intro!: leader follower)
qed

lemma calm_silent [intro!]:
  "steps (calm P b) (get_txn c t)" "steps (calm P b) (logEvent c e s)"
  "steps (calm P b) (save_xmr c xs)" "steps (calm P b) (need x)" "steps (calm P b) (get_state c)"
  by (rule silent_calm; (rule silent_txns silent_simple; assumption?))+

lemma calm_put_txn [intro!]: "steps (calm P b) (put_txn b t tx)"
  by (rule stepsI) (auto simp: put_txn_def py_simps upd_bid_def calm_def publishes_def sending_mercy_def)

lemma calm_publish: "P (c, tx) \<Longrightarrow> steps (calm P b) (publish E c tx)"
  unfolding publish_def by (auto intro!: stepsI simp: py_simps publishes_def calm_def)

lemma calm_need: "(\<And>v. x = Some v \<Longrightarrow> steps (calm P b) (f v)) \<Longrightarrow> steps (calm P b) (pbind (need x) f)"
  unfolding need_def by (rule calm.steps_pbind_plift) (auto simp: of_option_def split: option.splits)

lemma prerefund_branch_calm:
  assumes no_refund: "txns (bids n b) XMR_SWAP_A_LOCK_REFUND = None"
    and refund: "\<And>p. fst p = ca \<Longrightarrow> refund_due X offer xo xs (bids n b) p \<Longrightarrow> P p"
  shows "steps_at (calm P b) (prerefund_branch X b offer ca xo xs) n"
  unfolding prerefund_branch_def
proof (rule steps_at_pget, cases "xmr_a_lock_tx (bids n b)", goal_cases)
  case 1
  then show ?case
    by (auto intro!: steps_at_steps simp: pbind_def [of "pret x" for x] py_simps steps_at_def calm.refl)
next
  case (2 atx)
  have failed: "steps (calm P b) (refund_failed X b ca ys e)" for ys e
    unfolding refund_failed_def record_refund_def by auto
  have publish: "steps (calm P b) (publish_refund X b ca xs)"
    if "haveSignedLockRefundTx (x_ads X ca) xs" "isCsvLockMature (chain (ci (x_env X) ca)) (lock_type offer) (lock_time_1 xo) (block_height atx) (block_time atx) None None None = Inr True"
    unfolding publish_refund_def using 2 that no_refund
    by (auto intro!: calm_need calm_publish refund simp: refund_due_def)
  show ?case
  proof (cases "haveSignedLockRefundTx (x_ads X ca) xs")
    case True
    then show ?thesis
      unfolding 2 option.case by (intro steps_at_steps) (auto intro!: failed publish simp: record_refund_def split: sum.split)
  next
    case False
    then show ?thesis
      using 2 by (simp add: steps_at_def pbind_def py_simps calm.refl)
  qed
qed

lemma BidStates_of_SomeD: "BidStates_of v = Some s \<Longrightarrow> v = BidStates_val s"
  by (auto simp: BidStates_of_def find_Some_iff)

lemma get_state_run: "get_state b n = (Inr st, n') \<Longrightarrow> n' = n \<and> state (bids n b) = Some (BidStates_val st)"
  by (cases "state (bids n b)") (auto simp: get_state_def run_simps of_option_def BidStates_of_SomeD split: option.splits)

text \<open>A run of \<open>checkXmrBidState\<close> from its branches on.\<close>

lemma checkXmrBidState_run:
  assumes "xmr_offers n (offer_id offer) = Some xo" "xmr_swaps n (bid_id (bids n b)) = Some xs"
  obtains (raised) e where "checkXmrBidState X b offer n = (Inl e, n)"
  | (branches) ca cb where "coin_a offer = Inr ca" "coin_b offer = Inr cb"
      "checkXmrBidState X b offer n =
        pbind (if txns (bids n b) XMR_SWAP_A_LOCK_REFUND \<noteq> None then refund_branch X b offer ca cb xo xs
               else prerefund_branch X b offer ca xo xs) (\<lambda>(rv, xs).
        case rv of
          Some rv \<Rightarrow> pret rv
        | None \<Rightarrow> pbind (get_state b) (\<lambda>st. dispatch_state X b offer ca cb st xs)) n"
proof (cases "get_state b n")
  case (Pair r m)
  have m: "m = n"
    using Pair by (simp add: get_state_def pbind_def py_simps)
  note eval = checkXmrBidState_def pbind_eval [of "get_state b"] pbind_eval [of "plift x" for x] pbind_eval [of "pget x" for x] py_eval of_option_def assms
  show ?thesis
  proof (cases r)
    case (Inl e)
    then show ?thesis
      using raised Pair m by (simp add: eval)
  next
    case (Inr st)
    note st = Inr
    show ?thesis
    proof (cases "coin_a offer")
      case (Inl e)
      then show ?thesis
        using raised [of e] Pair st m by (simp add: eval)
    next
      case (Inr ca)
      note ca = Inr
      show ?thesis
      proof (cases "coin_b offer")
        case (Inl e)
        then show ?thesis
          using raised [of e] Pair st m ca by (simp add: eval)
      next
        case (Inr cb)
        then show ?thesis
          using branches [OF ca Inr] Pair st m ca by (simp add: eval)
      qed
    qed
  qed
qed

lemma branch_calm:
  assumes "coin_a offer = Inr ca" "bids n b = bid0"
    and run: "(if txns bid0 XMR_SWAP_A_LOCK_REFUND \<noteq> None then refund_branch X b offer ca cb xo xs
               else prerefund_branch X b offer ca xo xs) n = (r, n')"
  shows "calm (ads_due X offer xo xs bid0) b n n'"
proof (cases "txns bid0 XMR_SWAP_A_LOCK_REFUND")
  case None
  then have "steps_at (calm (ads_due X offer xo xs bid0) b) (prerefund_branch X b offer ca xo xs) n"
    using assms(1,2) by (intro prerefund_branch_calm) (auto simp: ads_due_def)
  then show ?thesis
    using run None by (auto dest: steps_at_run)
next
  case (Some tx0)
  have "refund_known X ca b bid0 tx0 n"
    using Some assms(2) by (simp add: refund_known_def)
  moreover have "steps_at (guarded (refund_known X ca b bid0 tx0) (ads_due X offer xo xs bid0)) (refund_branch X b offer ca cb xo xs) n"
    using assms(1,2) Some by (intro refund_branch_guarded) (auto simp: ads_due_def)
  ultimately show ?thesis
    using run Some assms(2) by (auto dest!: steps_at_run simp: guarded_def calm_def refund_known_def)
qed

lemma check_published:
  assumes "checkXmrBidState X b offer n = (r, n')"
    and "xmr_offers n (offer_id offer) = Some xo" "xmr_swaps n (bid_id (bids n b)) = Some xs"
  shows "\<exists>ps. published n' = published n @ ps \<and> (\<forall>p\<in>set ps. ads_due X offer xo xs (bids n b) p)"
proof -
  let ?P = "ads_due X offer xo xs (bids n b)"
  have "steps_at (publishes ?P) (checkXmrBidState X b offer) n"
    using assms(2,3)
  proof (cases rule: checkXmrBidState_run [where X = X])
    case (raised e)
    then show ?thesis
      by (simp add: steps_at_def publishes.refl)
  next
    case (branches ca cb)
    have "steps_at (publishes ?P) (pbind (if txns (bids n b) XMR_SWAP_A_LOCK_REFUND \<noteq> None then refund_branch X b offer ca cb xo xs
               else prerefund_branch X b offer ca xo xs) (\<lambda>(rv, xs).
        case rv of
          Some rv \<Rightarrow> pret rv
        | None \<Rightarrow> pbind (get_state b) (\<lambda>st. dispatch_state X b offer ca cb st xs))) n"
    proof (rule publishes.steps_at_pbind, goal_cases)
      case 1
      show ?case
        using branch_calm [OF branches(1) refl prod.collapse [symmetric]] unfolding steps_at_def calm_def by blast
    next
      case (2 y m)
      obtain rv ys where y: "y = (rv, ys)"
        by fastforce
      have calm: "calm ?P b n m"
        by (rule branch_calm [OF branches(1) refl 2(1)])
      have "steps_at (publishes ?P) (pbind (get_state b) (\<lambda>st. dispatch_state X b offer ca cb st ys)) m"
      proof (rule publishes.steps_at_pbind [OF steps_at_steps [OF pub_txns(10)]], drule get_state_run, rule steps_at_steps, rule pub_dispatch_state)
        fix st m' tx zs t fee
        assume "m' = m \<and> state (bids m b) = Some (BidStates_val st)" "st = XMR_SWAP_FAILED_SWIPED_SENDING_MERCY"
          "createMercyTx (x_ads X ca) zs t None fee True = Inr tx"
        then show "?P (ca, tx)"
          using calm branches(1) by (auto simp: ads_due_def sweep_due_def calm_def sending_mercy_def)
      qed
      then show ?case
        by (cases rv) (auto simp: y intro: steps_at_steps)
    qed
    then show ?thesis
      by (simp add: branches(3) steps_at_def)
  qed
  then show ?thesis
    using assms(1) by (auto simp: publishes_def dest: steps_at_run)
qed

text \<open>What \<open>checkXmrBidState\<close> publishes for an adaptor signature swap. Whatever the chains answer, and whether it returns or raises, every
  transaction it publishes is on coin A and is one of four. The refund of the lock transaction, when none is
  recorded and the first time lock has passed for the recorded lock transaction. By the leader only, the spend of
  the refund, once that is confirmed or reported deep enough, and at least one block deep. By the follower only, the
  swipe, once the second time lock has passed for the refund's recorded or reported height. Or, while mercy is being sent,
  a sweep of the swipe's payout, which carries no key share.\<close>

theorem checkXmrBidState_publishes:
  assumes "checkXmrBidState X b offer n = (r, n')"
    and "xmr_offers n (offer_id offer) = Some xo" "xmr_swaps n (bid_id (bids n b)) = Some xs"
  shows "\<exists>ps. published n' = published n @ ps \<and> (\<forall>p\<in>set ps. ads_due X offer xo xs (bids n b) p)"
  using assms by (rule check_published)

lemma load_swap_run:
  "(load_swap b n = (Inr (bid, xs), n) \<longleftrightarrow> bid_rows n b = Some bid \<and> xmr_swaps n b = Some xs)"
  by (auto simp: load_swap_def getXmrBidFromSession_def of_option_def run_simps split: option.splits)

lemma load_offer_run:
  "(load_offer i n = (Inr (offer, xo), n) \<longleftrightarrow> offer_rows n i = Some offer \<and> xmr_offers n i = Some xo)"
  by (auto simp: load_offer_def getXmrOfferFromSession_def of_option_def run_simps split: option.splits)

lemma load_same: "snd (load_swap b n) = n" "snd (load_offer i n) = n"
  by (auto simp: load_swap_def getXmrBidFromSession_def load_offer_def getXmrOfferFromSession_def of_option_def pbind_def py_simps split: option.split)

text \<open>A delayed step raises at once, or goes on with its rows.\<close>

lemma swap_rows_run:
  assumes "pbind (load_swap b) (\<lambda>(bid, xs). pbind (load_offer (bid_offer_id bid)) (\<lambda>(offer, xo). f bid xs offer xo)) n = (r, n')"
  obtains (raised) e where "r = Inl e" "n' = n"
  | (rows) bid xs offer xo where "swap_rows n b bid xs offer xo" "f bid xs offer xo n = (r, n')"
proof (cases "load_swap b n")
  case (Pair q m)
  have m: "m = n"
    using Pair load_same(1) [of b n] by simp
  show ?thesis
  proof (cases q)
    case (Inl e)
    then show ?thesis
      using raised [of e] assms Pair m by (simp add: pbind_def)
  next
    case (Inr y)
    obtain bid xs where y: "y = (bid, xs)"
      by fastforce
    note s = Pair [unfolded Inr y m]
    show ?thesis
    proof (cases "load_offer (bid_offer_id bid) n")
      case (Pair q' m')
      have m': "m' = n"
        using Pair load_same(2) [of "bid_offer_id bid" n] by simp
      show ?thesis
      proof (cases q')
        case (Inl e)
        then show ?thesis
          using raised [of e] assms Pair m' by (simp add: pbind_def s)
      next
        case (Inr z)
        obtain offer xo where z: "z = (offer, xo)"
          by fastforce
        note o = Pair [unfolded Inr z m']
        have "swap_rows n b bid xs offer xo"
          using s o by (simp add: swap_rows_def load_swap_run load_offer_run)
        moreover have "f bid xs offer xo n = (r, n')"
          using assms by (simp add: pbind_def s o)
        ultimately show ?thesis
          by (rule rows)
      qed
    qed
  qed
qed

lemma pub_load_swap:
  assumes "\<And>bid xs. bid_rows n b = Some bid \<Longrightarrow> xmr_swaps n b = Some xs \<Longrightarrow> steps_at (publishes P) (f bid xs) n"
  shows "steps_at (publishes P) (pbind (load_swap b) (\<lambda>(bid, xs). f bid xs)) n"
proof (rule publishes.steps_at_pbind)
  fix y m
  assume run: "load_swap b n = (Inr y, m)"
  then have "m = n"
    using load_same(1) [of b n] by simp
  with run show "steps_at (publishes P) (case y of (bid, xs) \<Rightarrow> f bid xs) m"
    by (cases y) (auto intro: assms simp: load_swap_run)
qed (auto intro: steps_at_steps)

lemma pub_load_offer:
  assumes "\<And>offer xo. offer_rows n i = Some offer \<Longrightarrow> xmr_offers n i = Some xo \<Longrightarrow> steps_at (publishes P) (f offer xo) n"
  shows "steps_at (publishes P) (pbind (load_offer i) (\<lambda>(offer, xo). f offer xo)) n"
proof (rule publishes.steps_at_pbind)
  fix y m
  assume run: "load_offer i n = (Inr y, m)"
  then have "m = n"
    using load_same(2) [of i n] by simp
  with run show "steps_at (publishes P) (case y of (offer, xo) \<Rightarrow> f offer xo) m"
    by (cases y) (auto intro: assms simp: load_offer_run)
qed (auto intro: steps_at_steps)

lemma lock_margin_run:
  "lock_margin X ca offer xo bid n = (Inr r, n') \<longleftrightarrow> n' = n \<and> (\<exists>atx. xmr_a_lock_tx bid = Some atx
     \<and> csvLockRemaining (chain (ci (x_env X) ca)) (lock_type offer) (lock_time_1 xo) (block_height atx) (block_time atx) None None None = Inr (Some r))"
  by (auto simp: lock_margin_def run_simps split: option.splits)

lemma lock_margin_raised: "lock_margin X ca offer xo bid n = (Inl e, n') \<Longrightarrow> n' = n"
  by (auto simp: lock_margin_def pbind_def py_simps split: option.splits sum.splits)

lemma send_release_run:
  assumes "send_release X b offer bid xs n = (r, n')"
  shows "sent_messages n' = sent_messages n \<and> bid_rows n' = bid_rows n \<and> bids n' = bids n
    \<or> (\<exists>payload. release_payload b xs = Inr payload \<and> sent_messages n' = sent_messages n @ [release_message offer bid payload]
        \<and> (r = Inr () \<longrightarrow> released b n'))"
  using assms
  by (auto simp: send_release_def sendMessage_def Let_def release_message_def released_def with_state_def setState_def save_in_progress_def save_swap_def
      saveBidInSession_def pbind_def pseq_def py_simps simp del: BidStates_val.simps split: sum.splits if_splits)

text \<open>C19. The leader's release. Whatever happens in \<open>sendXmrBidLockRelease\<close>, it sends at most one message, only while no refund of coin A is
  recorded for the bid and, where the lock counts time, only while the refund is still at least the configured margin away. The
  message goes from the leader's to the follower's address and carries the encrypted signature of the swap's row; when the step
  then returns, the row and the object in memory are in \<open>XMR_SWAP_LOCK_RELEASED\<close>.\<close>

theorem lock_release_sent:
  assumes run: "sendXmrBidLockRelease X b n = (r, n')"
  shows "(sent_messages n' = sent_messages n \<and> bid_rows n' = bid_rows n \<and> bids n' = bids n)
    \<or> (\<exists>bid xs offer xo payload. swap_rows n b bid xs offer xo \<and> lock_open X (x_sc_lock_release_min_margin X) offer xo bid
        \<and> release_payload b xs = Inr payload \<and> sent_messages n' = sent_messages n @ [release_message offer bid payload]
        \<and> (r = Inr () \<longrightarrow> released b n'))"
proof -
  note run = run [unfolded sendXmrBidLockRelease_def]
  then show ?thesis
  proof (cases rule: swap_rows_run)
    case (raised e)
    then show ?thesis
      by simp
  next
    case (rows bid xs offer xo)
    show ?thesis
    proof (cases "lock_open X (x_sc_lock_release_min_margin X) offer xo bid \<and> send_release X b offer bid xs n = (r, n')")
      case True
      then show ?thesis
        using rows(1) send_release_run by blast
    next
      case False
      have "(\<exists>es. n' = n\<lparr>events := es\<rparr>) \<or> n' = n"
        using rows(2) False
        by (auto simp: lock_open_def logEvent_def pbind_def py_simps lock_margin_run dest: lock_margin_raised
            split: if_splits sum.splits prod.splits) (metis not_less)
      then show ?thesis
        by auto
    qed
  qed
qed

lemma sign_lock_spend_tx:
  assumes "(if isBchXmrSwap offer then sign_lock_spend_bch X ca xs kbsf else sign_lock_spend X ca bid xs kbsf kaf) = Inr ys"
    and "getPathKey (x_ads X cb) KBSF bid xs = Inr kbsf" "a_lock_spend_tx ys = Some tx"
  shows "follower_spend X offer ca cb bid xs tx"
  using assms unfolding follower_spend_def sign_lock_spend_bch_def sign_lock_spend_def Let_def
  by (auto split: if_splits) blast+

lemma pub_need: "(\<And>v. x = Some v \<Longrightarrow> steps (publishes P) (f v)) \<Longrightarrow> steps (publishes P) (pbind (need x) f)"
  unfolding need_def by (rule publishes.steps_pbind_plift) (auto simp: of_option_def split: option.splits)

lemma redeem_a_publishes:
  assumes "\<And>tx. follower_spend X offer ca cb bid xs tx \<Longrightarrow> P (ca, tx)"
  shows "steps (publishes P) (redeem_a X b offer ca cb bid xs)"
  unfolding redeem_a_def
  by (auto intro!: pub_need pub_publish assms sign_lock_spend_tx simp del: if_split_asm)

lemma redeem_due_publishes:
  assumes "swap_rows n b bid xs offer xo" "coin_a offer = Inr ca" "coin_b offer = Inr cb"
    and "lock_open X (x_sc_lock_spend_min_margin X) offer xo bid" "Option.bind (xmr_a_lock_spend_tx bid) (\<lambda>tx. given (txid tx)) = None"
  shows "steps (publishes (redeem_due X b n)) (redeem_a X b offer ca cb bid xs)"
  unfolding redeem_due_def using assms by (intro redeem_a_publishes) (unfold fst_conv snd_conv, blast)

lemma pub_lock_margin [intro!]: "steps (publishes P) (lock_margin X ca offer xo bid)"
  unfolding lock_margin_def by auto

lemma redeem_a_published:
  assumes run: "redeemXmrBidCoinALockTx X b n = (r, n')"
  shows "\<exists>ps. published n' = published n @ ps \<and> (\<forall>p\<in>set ps. redeem_due X b n p)"
proof -
  note run [unfolded redeemXmrBidCoinALockTx_def]
  then have "publishes (redeem_due X b n) n n'"
  proof (cases rule: swap_rows_run)
    case (raised e)
    then show ?thesis
      by (simp add: publishes.refl)
  next
    case (rows bid xs offer xo)
    show ?thesis
    proof (rule stepsD [where s = n, rotated], rule rows(2), intro publishes.steps_if publishes.steps_pret publishes.steps_pbind_plift, goal_cases)
      case (1 ca cb)
      show ?case
      proof (rule publishes.steps_pbind_run [OF pub_lock_margin])
        fix m lock_remaining m'
        assume "lock_margin X ca offer xo bid m = (Inr lock_remaining, m')"
        then show "steps (publishes (redeem_due X b n)) (if lock_remaining < x_sc_lock_spend_min_margin X
            then logEvent b EV_LOCK_SPEND_ABANDONED_LOCK_CLOSE [] else redeem_a X b offer ca cb bid xs)"
          using 1 by (intro publishes.steps_if redeem_due_publishes [OF rows(1) 1(3,4)]) (auto simp: lock_open_def lock_margin_run)
      qed
    next
      case (2 ca cb)
      then show ?case
        by (intro redeem_due_publishes [OF rows(1) 2(3,4)]) (auto simp: lock_open_def)
    qed
  qed
  then show ?thesis
    by (simp add: publishes_def)
qed

text \<open>C20. The follower's redeem of coin A. \<open>redeemXmrBidCoinALockTx\<close> publishes only on coin A, only while no refund is recorded, no
  spend was made before and, where the lock counts time, the refund is at least the configured margin away; and only a transaction
  in which the leader's signature, decrypted from the released one with the follower's key, verified against the
  leader's key, as did the follower's own (for BCH: the leader's signature of the output).\<close>

theorem redeem_a_safe:
  assumes run: "redeemXmrBidCoinALockTx X b n = (r, n')"
  shows "\<exists>ps. published n' = published n @ ps \<and> (\<forall>p\<in>set ps. redeem_due X b n p)"
  using assms by (rule redeem_a_published)

lemma b_lock_depth_deep: "b_lock_depth X cb bid = Inr u \<Longrightarrow> b_lock_deep X cb bid"
  by (auto simp: b_lock_depth_def b_lock_deep_def no_height_def split: option.splits if_splits)

lemma keyshare_matches:
  "leader_keyshare X ca cb bid xs = Inr k \<Longrightarrow> \<exists>pk. getPubkey (x_ads X cb) k = Inr pk \<and> pkbsf xs = Some pk"
  "follower_keyshare X ca cb xs = Inr k \<Longrightarrow> \<exists>pk. getPubkey (x_ads X cb) k = Inr pk \<and> pkbsl xs = Some pk"
  unfolding leader_keyshare_def follower_keyshare_def by (auto split: option.splits)

lemma spend_b_publishes:
  "(\<And>t v fee. spendBLockTx (x_ads X cb) (b_lock_tx_id xs) addr (vkbv xs) vkbs (amount_to bid) fee (chain_b_height_start bid) v actual = Inr t \<Longrightarrow> P (cb, t))
   \<Longrightarrow> steps (publishes P) (spend_b X b cb offer xo bid xs addr vkbs actual ev)"
  unfolding spend_b_def by (auto intro!: stepsI simp: pbind_def pseq_def py_simps logEvent_def publishes_def split: sum.splits)

lemma spends_bI:
  assumes "swap_rows n b bid xs offer xo" "coin_b offer = Inr cb" "b_lock_depth X cb bid = Inr u"
    "\<exists>pk. getPubkey (x_ads X cb) share = Inr pk \<and> share_pk xs = Some pk" "getPathKey (x_ads X cb) own bid xs = Inr key"
    "sumKeys (x_ads X cb) key share = Inr vkbs \<or> sumKeys (x_ads X cb) share key = Inr vkbs"
    "spendBLockTx (x_ads X cb) (b_lock_tx_id xs) addr (vkbv xs) vkbs (amount_to bid) fee (chain_b_height_start bid) v actual = Inr t"
  shows "spends_b X b n share_pk own (cb, t)"
  using assms(1,2,4-) b_lock_depth_deep [OF assms(3)] unfolding spends_b_def fst_conv snd_conv by blast

lemma pub_retry_or_fail [intro!]: "steps (publishes P) (retry_or_fail X b cb offer bid xs ev act msg e)"
  unfolding retry_or_fail_def by auto

lemma redeem_b_publishes:
  assumes "swap_rows n b bid xs offer xo" "coin_b offer = Inr cb"
  shows "steps (publishes (spends_b X b n pkbsf KBSL)) (redeem_b X b offer ca cb xo bid xs)"
  unfolding redeem_b_def
  by (auto intro!: spend_b_publishes spends_bI [OF assms] keyshare_matches split: option.split list.split)

lemma recover_b_publishes:
  assumes "swap_rows n b bid xs offer xo" "coin_b offer = Inr cb" "follower_keyshare X ca cb xs = Inr kbsl"
    "getPathKey (x_ads X cb) KBSF bid xs = Inr kbsf" "sumKeys (x_ads X cb) kbsl kbsf = Inr vkbs"
  shows "steps (publishes (spends_b X b n pkbsl KBSF)) (recover_b X b offer cb xo bid xs vkbs)"
  unfolding recover_b_def
  by (auto intro!: spend_b_publishes spends_bI [OF assms(1,2)] keyshare_matches(2) [OF assms(3)] assms(4) simp: assms(5))

lemma spend_b_published:
  "(\<exists>ps. published (snd (redeemXmrBidCoinBLockTx X b n)) = published n @ ps \<and> (\<forall>p\<in>set ps. spends_b X b n pkbsf KBSL p))
   \<and> (\<exists>ps. published (snd (recoverXmrBidCoinBLockTx X b n)) = published n @ ps \<and> (\<forall>p\<in>set ps. spends_b X b n pkbsl KBSF p))"
proof
  have "steps_at (publishes (spends_b X b n pkbsf KBSL)) (redeemXmrBidCoinBLockTx X b) n"
    unfolding redeemXmrBidCoinBLockTx_def
  proof (rule pub_load_swap, goal_cases)
    case (1 bid xs)
    have "steps_at (publishes (spends_b X b n pkbsf KBSL)) (pbind (load_offer (bid_offer_id bid)) (\<lambda>(offer, xo).
       pbind (plift (coin_a offer)) (\<lambda>ca.
       pbind (plift (coin_b offer)) (\<lambda>cb.
       pbind (ptry (pbind (redeem_b X b offer ca cb xo bid xs) (\<lambda>r. pret (Inr r))) (\<lambda>e. pret (Inl e))) (\<lambda>r.
       case r of
         Inl e \<Rightarrow> retry_or_fail X b cb offer bid xs EV_FAILED_TX_B_SPEND REDEEM_XMR_SWAP_LOCK_TX_B ''spendBLockTx failed: '' e
       | Inr (t, mine) \<Rightarrow> redeemed_b X b offer bid xs t mine))))) n"
      by (rule pub_load_offer, rule steps_at_steps)
        (auto intro!: redeem_b_publishes simp: swap_rows_def 1 redeemed_b_def Let_def split: sum.split)
    then show ?case
      by (simp add: steps_at_def pret_def publishes.refl)
  qed
  then show "\<exists>ps. published (snd (redeemXmrBidCoinBLockTx X b n)) = published n @ ps \<and> (\<forall>p\<in>set ps. spends_b X b n pkbsf KBSL p)"
    by (simp add: steps_at_def publishes_def)
next
  have "steps_at (publishes (spends_b X b n pkbsl KBSF)) (recoverXmrBidCoinBLockTx X b) n"
    unfolding recoverXmrBidCoinBLockTx_def
    by (rule pub_load_swap, rule pub_load_offer, rule steps_at_steps)
      (auto intro!: recover_b_publishes simp: swap_rows_def split: sum.split)
  then show "\<exists>ps. published (snd (recoverXmrBidCoinBLockTx X b n)) = published n @ ps \<and> (\<forall>p\<in>set ps. spends_b X b n pkbsl KBSF p)"
    by (simp add: steps_at_def publishes_def)
qed

text \<open>C21. Spending coin B. \<open>redeemXmrBidCoinBLockTx\<close> (the leader's) and \<open>recoverXmrBidCoinBLockTx\<close> (the follower's refund) publish
  only spends of the lock of coin B by a key that is the sum of the own share and a share recovered from the other side whose public key is the one agreed
  for the swap, and only when the lock transaction has the depth the coin asks for.\<close>

theorem spend_b_safe:
  "(\<exists>ps. published (snd (redeemXmrBidCoinBLockTx X b n)) = published n @ ps \<and> (\<forall>p\<in>set ps. spends_b X b n pkbsf KBSL p))
   \<and> (\<exists>ps. published (snd (recoverXmrBidCoinBLockTx X b n)) = published n @ ps \<and> (\<forall>p\<in>set ps. spends_b X b n pkbsl KBSF p))"
  by (rule spend_b_published)

interpretation waits: effect_relation "waits b" for b
  by unfold_locales (auto simp: waits_def)

lemma waits_upd_bid:
  "(\<And>x. was_sent (f x) = was_sent x \<and> was_received (f x) = was_received x \<and> (xmr_b_lock_tx (f x) = None \<longrightarrow> xmr_b_lock_tx x = None))
   \<Longrightarrow> steps (waits b) (pmod (upd_bid b f))"
  by (rule stepsI) (auto simp: py_simps upd_bid_def waits_def)

lemma waits_createAction [intro!]: "steps (waits b) (createAction t d dl a c)"
proof (rule stepsI)
  fix s r s'
  assume "createAction t d dl a c s = (r, s')"
  then show "waits b s s'"
    using createAction_run [of t d dl a c s] by (auto simp: waits_def)
qed

lemma waits_simple [intro!]:
  "steps (waits b) (logEvent c e s)" "steps (waits b) (countBidEvents c e)" "steps (waits b) (countQueuedActions c ty)"
  "steps (waits b) (save_xmr c xs)" "steps (waits b) (pmod (upd_cc cn f))"
  "steps (waits b) (get_txn c t)"
  by (auto intro!: stepsI simp: logEvent_def countBidEvents_def countQueuedActions_def saveBidInSession_def save_swap_def save_xmr_def
      get_txn_def upd_cc_def pbind_def pseq_def py_simps waits_def)

lemma waits_queue_action [intro!]: "steps (waits b) (queue_action X act c)"
  unfolding queue_action_def by (rule waits_createAction)

lemma waits_set_state [intro!]: "steps (waits b) (set_bid_state b t s)" "steps (waits b) (set_block_state b t ts)"
   apply (auto intro!: stepsI simp: set_bid_state_def bid_call_def setState_def Let_def upd_bid_def waits_def split: prod.splits sum.splits)[1]
  unfolding set_block_state_def by (auto intro!: waits_upd_bid)

lemma waits_upd_txn [intro!]: "steps (waits b) (upd_txn b t f)" "steps (waits b) (setTxBlockInfoFromHeight (upd_txn b t) i h)"
  unfolding setTxBlockInfoFromHeight_def upd_txn_def put_txn_def by (auto intro!: waits_upd_bid)

lemma waits_mercy [intro!]: "steps (waits b) (checkMercyWatch X b ca)"
  unfolding checkMercyWatch_def removeMercyWatch_def removeWatchedOutput_def by auto

lemma waits_rest [intro!]:
  "steps (waits b) (check_b_depth X b offer cb)" "steps (waits b) (watch_refund X b offer ca xs)"
  unfolding check_b_depth_def b_lock_confirmed_def watch_refund_def Let_def by (auto split: lock_search.split option.split)

lemma record_b_roles:
  "was_sent (fst (record_b b f t bid xs)) = was_sent bid" "was_received (fst (record_b b f t bid xs)) = was_received bid"
  "xmr_b_lock_tx (fst (record_b b f t bid xs)) \<noteq> None"
  by (simp_all add: record_b_def Let_def)

lemma findTxB_bid:
  assumes "findTxB X b cb s bid xs n = (Inr (changed, bid', xs'), n')"
  shows "was_sent bid' = was_sent bid" "was_received bid' = was_received bid" "xmr_b_lock_tx bid' = None \<Longrightarrow> xmr_b_lock_tx bid = None"
  using assms record_b_roles [of b _ _ bid xs]
  by (auto simp: findTxB_def Let_def run_simps split: if_splits option.splits b_search.splits) (metis fst_conv option.distinct(1))+

lemma createAction_queues: "createAction t k d ty b n = (Inr u, n') \<Longrightarrow> queued ty b n'"
  using createAction_run [of t k d ty b n] by (auto simp: queued_def)

lemma requeue_b_run:
  assumes "requeue_b X b offer XMR_SWAP_SCRIPT_COIN_LOCKED n = (Inr u, n')" "is_follower offer (bids n b)" "xmr_b_lock_tx (bids n b) = None"
  shows "queued SEND_XMR_SWAP_LOCK_TX_B b n'"
proof (cases "queued SEND_XMR_SWAP_LOCK_TX_B b n")
  case True
  then have "filter (\<lambda>a. action_active_ind a = 1 \<and> action_linked_id a = b \<and> action_type a = ActionTypes_val SEND_XMR_SWAP_LOCK_TX_B) (actions n) \<noteq> []"
    by (auto simp: queued_def filter_empty_conv simp del: ActionTypes_val.simps)
  with True show ?thesis
    using assms by (auto simp: requeue_b_def countQueuedActions_def run_simps simp del: ActionTypes_val.simps)
next
  case False
  then have "filter (\<lambda>a. action_active_ind a = 1 \<and> action_linked_id a = b \<and> action_type a = ActionTypes_val SEND_XMR_SWAP_LOCK_TX_B) (actions n) = []"
    by (auto simp: queued_def filter_empty_conv simp del: ActionTypes_val.simps)
  then show ?thesis
    using assms by (auto simp: requeue_b_def countQueuedActions_def run_simps queue_action_def simp del: ActionTypes_val.simps dest: createAction_queues)
qed

lemma look_for_b_waits [intro!]: "steps (waits b) (look_for_b X b offer cb xs)"
proof (rule stepsI)
  fix s r s'
  assume run: "look_for_b X b offer cb xs s = (r, s')"
  have find: "steps (waits b) (findTxB X b cb sender bid xs)" for sender bid
    unfolding findTxB_def Let_def by (auto split: b_search.split option.split)
  show "waits b s s'"
  proof (cases "findTxB X b cb (is_follower offer (bids s b)) (bids s b) xs s")
    case (Pair q m)
    show ?thesis
    proof (cases q)
      case (Inl e)
      have "steps (waits b) (if ads_transient (x_ads X cb) e then
              pbind (countBidEvents b EV_LOCK_TX_B_RPC_ERROR) (\<lambda>k.
              if k < 10 then pseq (logEvent b EV_LOCK_TX_B_RPC_ERROR []) (pret (False, xs))
              else pseq (set_bid_state b (now (x_env X)) BID_ERROR)
                  (pseq (logEvent b EV_ERROR ''Persistent RPC error after '') (pret (True, xs))))
            else praise e)"
        by auto
      then have "waits b m s'"
        using run by (auto simp: look_for_b_def pbind_def ptry_def py_simps Pair Inl dest: stepsD)
      then show ?thesis
        using stepsD [OF find Pair] waits.trans by blast
    next
      case (Inr y)
      obtain changed bid' xs' where y: "y = (changed, bid', xs')"
        by (metis prod.exhaust)
      have "s' = upd_bid b (\<lambda>_. bid') m"
        using run by (auto simp: look_for_b_def pbind_def ptry_def pseq_def py_simps Pair Inr y)
      moreover have "waits b s m"
        by (rule stepsD [OF find Pair])
      ultimately show ?thesis
        using findTxB_bid [OF Pair [unfolded Inr y]] by (auto simp: waits_def upd_bid_def)
    qed
  qed
qed

text \<open>C25. The follower does not forget to lock coin B. Whenever the handler that waits for the lock of coin B returns for a follower's bid in
  \<open>XMR_SWAP_SCRIPT_COIN_LOCKED\<close>, a lock transaction is recorded or an active action that sends it is queued for
  the bid.\<close>

theorem follower_lock_queued:
  assumes "lock_b_branch X b offer ca cb XMR_SWAP_SCRIPT_COIN_LOCKED xs n = (Inr (), n')" "is_follower offer (bids n b)"
  shows "xmr_b_lock_tx (bids n' b) \<noteq> None \<or> queued SEND_XMR_SWAP_LOCK_TX_B b n'"
proof -
  obtain changed ys m m1 u where look: "look_for_b X b offer cb xs n = (Inr (changed, ys), m)"
    and req: "requeue_b X b offer XMR_SWAP_SCRIPT_COIN_LOCKED m = (Inr u, m1)"
    and rest: "pseq (check_b_depth X b offer cb) (pwhen changed (save_xmr b ys)) m1 = (Inr (), n')"
    using assms(1) by (auto simp: lock_b_branch_def run_simps)
  have "waits b n m"
    by (rule stepsD [OF look_for_b_waits look])
  then have "is_follower offer (bids m b)"
    using assms(2) by (simp add: waits_def is_follower_def)
  moreover have "steps (waits b) (requeue_b X b offer XMR_SWAP_SCRIPT_COIN_LOCKED)"
    unfolding requeue_b_def by auto
  then have "waits b m m1"
    using req by (rule stepsD)
  moreover have "steps (waits b) (pseq (check_b_depth X b offer cb) (pwhen changed (save_xmr b ys)))"
    by auto
  then have "waits b m1 n'"
    using rest by (rule stepsD)
  ultimately show ?thesis
    using requeue_b_run [OF req] by (auto simp: waits_def queued_def)
qed

lemma pseq_assoc: "pseq (pseq m k) l = pseq m (pseq k l)"
  by (auto simp: pseq_def pbind_def fun_eq_iff split: prod.splits sum.splits)

lemma findTxB_nothing:
  "search_b X cb s (debug_ind bid \<noteq> Some (DebugTypes_val DBG_B_LOCK_TX_MISSED_SEND)) bid xs = Inr None
   \<Longrightarrow> findTxB X b cb s bid xs n = (Inr (False, bid, xs), n)"
  by (simp add: findTxB_def Let_def pbind_def py_simps b_invalid_def)

text \<open>A lock of coin B that vanished still releases coin A. When the search for the lock transaction of coin B finds nothing, although one was recorded
  before (its block was reorganised away), nothing resets the recorded height: as soon as enough blocks have
  passed since that height, the leader's bid moves to \<open>XMR_SWAP_NOSCRIPT_COIN_LOCKED\<close> and the release of coin A is queued. The rows
  of the database keep the old state.\<close>

theorem vanished_b_lock_releases:
  assumes "search_b X cb (is_follower offer (bids n b)) (debug_ind (bids n b) \<noteq> Some (DebugTypes_val DBG_B_LOCK_TX_MISSED_SEND)) (bids n b) xs = Inr None"
    and tx: "xmr_b_lock_tx (bids n b) = Some tx" "chain_height tx = Some h" "0 < h" "state tx \<noteq> Some (TxStates_val TX_CONFIRMED)"
    and height: "cv_height (chain (ci (x_env X) cb)) = Inr height" "ads_blocks_confirmed (x_ads X cb) \<le> height - h"
    and bid: "is_leader offer (bids n b)" "txns (bids n b) XMR_SWAP_A_LOCK_REFUND = None"
      "debug_ind (bids n b) \<noteq> Some (DebugTypes_val DBG_BID_STOP_AFTER_COIN_B_LOCK)" "\<not> haveDebugInd X b DBG_DONT_RELEASE_COIN_A_LOCK"
    and time: "0 \<le> now (x_env X)" "now (x_env X) < 2 ^ 64"
  shows "\<exists>n'. lock_b_branch X b offer ca cb XMR_SWAP_SCRIPT_COIN_LOCKED xs n = (Inr (), n')
     \<and> state (bids n' b) = Some (BidStates_val XMR_SWAP_NOSCRIPT_COIN_LOCKED) \<and> queued SEND_XMR_LOCK_RELEASE b n'
     \<and> bid_rows n' = bid_rows n"
proof -
  let ?t = "now (x_env X)"
  have look: "look_for_b X b offer cb xs n = (Inr (False, xs), n)"
    by (simp add: look_for_b_def pbind_def ptry_def pseq_def py_simps findTxB_nothing [OF assms(1)] upd_bid_def)
  have req: "requeue_b X b offer XMR_SWAP_SCRIPT_COIN_LOCKED n = (Inr (), n)"
    using tx by (simp add: requeue_b_def countQueuedActions_def pbind_def py_simps)
  obtain m0 where m0: "pseq (logEvent b EV_LOCK_TX_B_CONFIRMED []) (set_block_state b ?t TX_CONFIRMED) n = (Inr (), m0)"
    "txns (bids m0 b) = txns (bids n b)" "is_leader offer (bids m0 b) = is_leader offer (bids n b)" "bid_rows m0 = bid_rows n"
    using tx time
    by (simp add: logEvent_def set_block_state_def upd_bid_def setState_def Let_def pack_state_ok pbind_def pseq_def py_simps of_option_def is_leader_def)
  obtain m where m: "set_bid_state b ?t XMR_SWAP_NOSCRIPT_COIN_LOCKED m0 = (Inr (), m)"
    "state (bids m b) = Some (BidStates_val XMR_SWAP_NOSCRIPT_COIN_LOCKED)" "bid_rows m = bid_rows n"
    using time m0(4) by (simp add: set_bid_state_def bid_call_def upd_bid_def setState_def Let_def pack_state_ok)
  obtain as where q: "queue_action X SEND_XMR_LOCK_RELEASE b m = (Inr (), m\<lparr>actions := actions m @ as\<rparr>)"
    using createAction_run unfolding queue_action_def by blast
  have conf: "b_lock_confirmed X b offer n = (Inr (), m\<lparr>actions := actions m @ as\<rparr>)"
    using m0 m(1) q bid
    by (simp add: b_lock_confirmed_def Let_def pseq_assoc [symmetric]) (simp add: pseq_def pbind_def py_simps)
  have "check_b_depth X b offer cb n = b_lock_confirmed X b offer n"
    using tx height bid by (simp add: check_b_depth_def pbind_def ptry_def py_simps del: TxStates_val.simps)
  then have "lock_b_branch X b offer ca cb XMR_SWAP_SCRIPT_COIN_LOCKED xs n = (Inr (), m\<lparr>actions := actions m @ as\<rparr>)"
    using look req conf by (simp add: lock_b_branch_def pbind_def pseq_def py_simps)
  moreover have "queued SEND_XMR_LOCK_RELEASE b (m\<lparr>actions := actions m @ as\<rparr>)"
    using createAction_queues q unfolding queue_action_def by blast
  ultimately show ?thesis
    using m by simp
qed

text \<open>Sending the lock of coin B twice. When a lock transaction is already recorded and the search finds nothing, the branch meant to warn and
  return reads an attribute \<open>SwapTx\<close> does not have: \<open>sendXmrBidCoinBLockTx\<close> raises, without changing anything.\<close>

theorem resend_b_lock_raises:
  assumes "swap_rows n b bid xs offer xo" "coin_b offer = Inr cb" "xmr_b_lock_tx bid \<noteq> None"
    and "search_b X cb (is_follower offer bid) (debug_ind bid \<noteq> Some (DebugTypes_val DBG_B_LOCK_TX_MISSED_SEND)) bid xs = Inr None"
  shows "sendXmrBidCoinBLockTx X b n = (Inl AttributeError, n)"
proof -
  have "load_swap b n = (Inr (bid, xs), n)" "load_offer (bid_offer_id bid) n = (Inr (offer, xo), n)"
    using assms(1) by (simp_all add: swap_rows_def load_swap_run load_offer_run)
  then show ?thesis
    using assms(2,3) by (simp add: sendXmrBidCoinBLockTx_def pbind_def py_simps findTxB_nothing [OF assms(4)])
qed

theorem checkXmrBidState_publishes_witness:
  "published (snd (checkXmrBidState idle_xenv [7] ads_offer (ads_node (ads_bid XMR_SWAP_SCRIPT_COIN_LOCKED True)))) = [(BTC, [13])]
   \<and> ads_due idle_xenv ads_offer ads_xoffer ads_swap
       (ads_bid XMR_SWAP_SCRIPT_COIN_LOCKED True) (BTC, [13])"
proof -
  let ?n = "ads_node (ads_bid XMR_SWAP_SCRIPT_COIN_LOCKED True)"
  have run: "published (snd (checkXmrBidState idle_xenv [7] ads_offer ?n)) = [(BTC, [13])]"
    by code_simp
  then show ?thesis
    using checkXmrBidState_publishes [OF prod.collapse [symmetric], of ?n ads_offer ads_xoffer "[7]" ads_swap idle_xenv]
    by (simp add: ads_node_def blank_node_def)
qed

theorem lock_release_sent_witness:
  "sent_messages (snd (sendXmrBidLockRelease idle_xenv [7] (ads_node (b_locked_bid XMR_SWAP_NOSCRIPT_COIN_LOCKED True)))) \<noteq> []
   \<and> released [7] (snd (sendXmrBidLockRelease idle_xenv [7] (ads_node (b_locked_bid XMR_SWAP_NOSCRIPT_COIN_LOCKED True))))"
proof -
  let ?n = "ads_node (b_locked_bid XMR_SWAP_NOSCRIPT_COIN_LOCKED True)"
  have ok: "fst (sendXmrBidLockRelease idle_xenv [7] ?n) = Inr ()"
    by code_simp
  have sent: "sent_messages (snd (sendXmrBidLockRelease idle_xenv [7] ?n)) \<noteq> sent_messages ?n"
    by code_simp
  from lock_release_sent [OF prod.collapse [symmetric], of idle_xenv "[7]" ?n] ok sent show ?thesis
    by auto
qed

theorem redeem_a_safe_witness:
  "published (snd (redeemXmrBidCoinALockTx idle_xenv [7] (ads_node (ads_bid XMR_SWAP_LOCK_RELEASED False)))) = [(BTC, [38])]
   \<and> redeem_due idle_xenv [7] (ads_node (ads_bid XMR_SWAP_LOCK_RELEASED False)) (BTC, [38])"
proof -
  let ?n = "ads_node (ads_bid XMR_SWAP_LOCK_RELEASED False)"
  have run: "published (snd (redeemXmrBidCoinALockTx idle_xenv [7] ?n)) = [(BTC, [38])]"
    by code_simp
  then show ?thesis
    using redeem_a_safe [OF prod.collapse [symmetric], of idle_xenv "[7]" ?n] by (simp add: ads_node_def blank_node_def)
qed

theorem spend_b_safe_witness:
  "published (snd (redeemXmrBidCoinBLockTx idle_xenv [7] (ads_node (b_locked_bid SWAP_DELAYING True)))) = [(XMR, [43])]
   \<and> spends_b idle_xenv [7] (ads_node (b_locked_bid SWAP_DELAYING True)) pkbsf KBSL (XMR, [43])"
proof -
  let ?n = "ads_node (b_locked_bid SWAP_DELAYING True)"
  have run: "published (snd (redeemXmrBidCoinBLockTx idle_xenv [7] ?n)) = [(XMR, [43])]"
    by code_simp
  then show ?thesis
    using spend_b_safe [of idle_xenv "[7]" ?n] by (auto simp: ads_node_def blank_node_def)
qed

theorem follower_lock_queued_witness:
  "queued SEND_XMR_SWAP_LOCK_TX_B [7] (snd (lock_b_branch idle_xenv [7] ads_offer BTC XMR XMR_SWAP_SCRIPT_COIN_LOCKED ads_swap
     (ads_node (ads_bid XMR_SWAP_SCRIPT_COIN_LOCKED False))))"
proof -
  let ?n = "ads_node (ads_bid XMR_SWAP_SCRIPT_COIN_LOCKED False)"
  let ?run = "lock_b_branch idle_xenv [7] ads_offer BTC XMR XMR_SWAP_SCRIPT_COIN_LOCKED ads_swap ?n"
  have ok: "fst ?run = Inr ()"
    by code_simp
  have none: "xmr_b_lock_tx (bids (snd ?run) [7]) = None"
    by code_simp
  have "is_follower ads_offer (bids ?n [7])"
    by code_simp
  from follower_lock_queued [of idle_xenv "[7]" ads_offer BTC XMR ads_swap ?n "snd ?run", OF _ this] ok none show ?thesis
    by (simp add: prod_eq_iff)
qed

theorem vanished_b_lock_releases_witness:
  "queued SEND_XMR_LOCK_RELEASE [7] (snd (lock_b_branch idle_xenv [7] ads_offer BTC XMR XMR_SWAP_SCRIPT_COIN_LOCKED ads_swap
     (ads_node (b_locked_bid XMR_SWAP_SCRIPT_COIN_LOCKED True))))"
proof -
  let ?n = "ads_node (b_locked_bid XMR_SWAP_SCRIPT_COIN_LOCKED True)"
  have "is_leader ads_offer (bids ?n [7])"
    by code_simp
  then have "\<exists>n'. lock_b_branch idle_xenv [7] ads_offer BTC XMR XMR_SWAP_SCRIPT_COIN_LOCKED ads_swap ?n = (Inr (), n')
     \<and> state (bids n' [7]) = Some (BidStates_val XMR_SWAP_NOSCRIPT_COIN_LOCKED) \<and> queued SEND_XMR_LOCK_RELEASE [7] n'
     \<and> bid_rows n' = bid_rows ?n"
    by (intro vanished_b_lock_releases [where tx = "(blank_tx [7] XMR_SWAP_B_LOCK)\<lparr>txid := Some [22], chain_height := Some 90\<rparr>" and h = 90 and height = 2000])
      (simp_all add: search_b_def Let_def ads_node_def b_locked_bid_def ads_bid_def blank_tx_def blank_bid_def idle_xenv_def idle_env_def idle_interface_def
        idle_ads_def haveDebugInd_def)
  then show ?thesis
    by auto
qed

theorem resend_b_lock_raises_witness:
  "fst (sendXmrBidCoinBLockTx idle_xenv [7] (ads_node (b_locked_bid XMR_SWAP_SCRIPT_COIN_LOCKED False))) = Inl AttributeError"
proof -
  let ?n = "ads_node (b_locked_bid XMR_SWAP_SCRIPT_COIN_LOCKED False)"
  have "coin_b ads_offer = Inr XMR"
    by code_simp
  then have "sendXmrBidCoinBLockTx idle_xenv [7] ?n = (Inl AttributeError, ?n)"
    by (intro resend_b_lock_raises [where bid = "b_locked_bid XMR_SWAP_SCRIPT_COIN_LOCKED False" and xs = ads_swap and xo = ads_xoffer])
      (simp_all add: swap_rows_def search_b_def Let_def ads_node_def b_locked_bid_def idle_xenv_def idle_env_def idle_interface_def idle_ads_def)
  then show ?thesis
    by simp
qed

end
