(* ===== verification/Adaptor_Messages.thy ===== *)
theory Adaptor_Messages
  imports Adaptor_Props
begin

text \<open>
  The messages of an adaptor signature swap after it was accepted, and the steps that send them: the follower's signatures of the refunds
  (\<open>sendXmrBidTxnSigsFtoL\<close>, \<open>processXmrBidCoinALockSigs\<close>), the leader's lock of coin A and its spend (\<open>sendXmrBidCoinALockTx\<close>,
  \<open>sendXmrBidCoinALockSpendTxMsg\<close>, \<open>processXmrBidLockSpendTx\<close>), the release (\<open>processXmrLockReleaseMessage\<close>) and the parts of long proofs
  (\<open>processXmrSplitMessage\<close>) of \<open>src/basicswap/basicswap.py\<close>, with \<open>addLockRefundSigs\<close> of \<open>src/basicswap/protocols/xmr_swap_1.py\<close>.

  The handlers work on objects read from the database. Where one of them fails after it changed the object, the error is saved with what was changed.
  Signing and verifying are the fields of \<open>sig_interface\<close>. Columns that only record message ids and networks are left out.
\<close>

section \<open>Definitions\<close>

subsection \<open>Messages\<close>

text \<open>A message as the network delivers it; \<open>msg_payload\<close> is the decoded \<open>hex\<close>, with the byte of the message type in front.\<close>

record message =
  msg_id :: bytes
  msg_source :: string
  msg_dest :: string
  msg_sent :: int
  msg_payload :: bytes
  msg_payload_version :: int
  msg_net :: string

definition getSmsgMsgBytes :: "message \<Rightarrow> bytes" where
  "getSmsgMsgBytes msg = (if msg_payload_version msg < 2 then butlast (tl (msg_payload msg)) else tl (msg_payload msg))"

definition parse_message :: "field_map \<Rightarrow> message \<Rightarrow> attrs res" where
  "parse_message fm msg = npb_from_bytes fm Map.empty (getSmsgMsgBytes msg) True"

text \<open>Attributes of a parsed message.\<close>

definition attr_bytes :: "attrs \<Rightarrow> string \<Rightarrow> bytes res" where
  "attr_bytes a name = (case a name of None \<Rightarrow> Inl AttributeError | Some (PBytes b) \<Rightarrow> Inr b | Some _ \<Rightarrow> Inl TypeError)"

definition attr_int :: "attrs \<Rightarrow> string \<Rightarrow> int res" where
  "attr_int a name = (case a name of None \<Rightarrow> Inl AttributeError | Some (PInt i) \<Rightarrow> Inr i | Some _ \<Rightarrow> Inl TypeError)"

text \<open>What the handlers of messages ask of coin A besides the methods in \<open>ads_interface\<close>. The transactions a method reads are
  those of the swap.\<close>

record sig_interface =
  signTxOtVES :: "bytes \<Rightarrow> bytes option \<Rightarrow> bytes option \<Rightarrow> bytes option \<Rightarrow> int \<Rightarrow> bytes res"
  verifyTxOtVES :: "bytes option \<Rightarrow> bytes \<Rightarrow> bytes option \<Rightarrow> bytes option \<Rightarrow> bytes option \<Rightarrow> int \<Rightarrow> bool res"
  signCompact :: "bytes \<Rightarrow> string \<Rightarrow> bytes res"
  verifyCompactSig :: "bytes option \<Rightarrow> string \<Rightarrow> bytes \<Rightarrow> unit res"
  createSCLockSpendTx :: "XmrSwap \<Rightarrow> int \<Rightarrow> bytes res"
  verifySCLockSpendTx :: "XmrSwap \<Rightarrow> int \<Rightarrow> unit res"
  signTxWithWallet :: "bytes option \<Rightarrow> bytes res"
  getTxOutputPos :: "bytes option \<Rightarrow> bytes option \<Rightarrow> int option res"

type_synonym signing = "Coins \<Rightarrow> sig_interface"

text \<open>\<open>addLockRefundSigs\<close> of \<open>src/basicswap/protocols/xmr_swap_1.py\<close>.\<close>

definition addLockRefundSigs :: "xenv \<Rightarrow> Coins \<Rightarrow> XmrSwap \<Rightarrow> XmrSwap res" where
  "addLockRefundSigs X ca xs =
     rbind (setTxSignature (x_ads X ca) (a_lock_refund_tx xs)
       ((if ca = DCR then [] else [Some []]) @ [al_lock_refund_tx_sig xs, af_lock_refund_tx_sig xs, a_lock_tx_script xs])) (\<lambda>signed_tx.
     rbind (ensure (signed_tx \<noteq> []) ''setTxSignature failed'') (\<lambda>_.
     Inr (xs\<lparr>a_lock_refund_tx := Some signed_tx\<rparr>)))"

text \<open>\<open>setBidError\<close> on an object that was read from the database.\<close>

definition fail_bid :: "xenv \<Rightarrow> bytes \<Rightarrow> Bid \<Rightarrow> (node, Bid) py" where
  "fail_bid X b bid =
     pseq (logEvent b EV_ERROR '''')
    (pbind (with_state (now (x_env X)) BID_ERROR bid) (\<lambda>bid.
     pseq (saveBidInSession b bid) (pret bid)))"

text \<open>The object becomes the one in the in-progress table.\<close>

definition put_in_progress :: "bytes \<Rightarrow> Bid \<Rightarrow> Offer \<Rightarrow> (node, unit) py" where
  "put_in_progress b bid offer = pmod (\<lambda>n. n\<lparr>bids := (bids n)(b := bid), swaps_in_progress := AList.update b offer (swaps_in_progress n)\<rparr>)"

subsection \<open>Follower to leader: the signatures of the refunds\<close>

definition follower_addr :: "Offer \<Rightarrow> Bid \<Rightarrow> string" where
  "follower_addr offer bid = (if reverse_offer offer then addr_from offer else bid_addr bid)"

definition leader_addr :: "Offer \<Rightarrow> Bid \<Rightarrow> string" where
  "leader_addr offer bid = (if reverse_offer offer then bid_addr bid else addr_from offer)"

definition sigs_payload :: "bytes \<Rightarrow> XmrSwap \<Rightarrow> bytes res" where
  "sigs_payload b xs =
     rbind (of_option TypeError (af_lock_refund_spend_tx_esig xs)) (\<lambda>esig.
     rbind (of_option TypeError (af_lock_refund_tx_sig xs)) (\<lambda>sig.
     message_payload MT_XMR_BID_TXN_SIGS_FL XmrBidLockTxSigsMessage
       [(''bid_msg_id'', PBytes b), (''af_lock_refund_spend_tx_esig'', PBytes esig), (''af_lock_refund_tx_sig'', PBytes sig)]))"

definition sign_refunds :: "xenv \<Rightarrow> signing \<Rightarrow> Coins \<Rightarrow> Bid \<Rightarrow> XmrSwap \<Rightarrow> XmrSwap res" where
  "sign_refunds X S ca bid xs =
     (let a = x_ads X ca in
     rbind (getPathKey a KAF bid xs) (\<lambda>kaf.
     rbind (getLockRefundTxSwapOutputValue a bid xs) (\<lambda>prevout_amount.
     rbind (signTxOtVES (S ca) kaf (pkasl xs) (a_lock_refund_spend_tx xs) (a_lock_refund_tx_script xs) prevout_amount) (\<lambda>esig.
     let xs = xs\<lparr>af_lock_refund_spend_tx_esig := Some esig\<rparr> in
     rbind (getLockTxSwapOutputValue a bid xs) (\<lambda>prevout_amount.
     rbind (signTx a kaf (a_lock_refund_tx xs) (a_lock_tx_script xs) prevout_amount) (\<lambda>sig.
     addLockRefundSigs X ca (xs\<lparr>af_lock_refund_tx_sig := Some sig\<rparr>)))))))"

text \<open>What is signed and sent before the bid changes: the swap and the output of the lock transaction to wait for.\<close>

definition send_sigs :: "xenv \<Rightarrow> signing \<Rightarrow> bytes \<Rightarrow> Offer \<Rightarrow> Coins \<Rightarrow> Bid \<Rightarrow> XmrSwap \<Rightarrow> (node, XmrSwap \<times> bytes option \<times> int option) py" where
  "send_sigs X S b offer ca bid xs =
     pbind (plift (sign_refunds X S ca bid xs)) (\<lambda>xs.
     pbind (plift (sigs_payload b xs)) (\<lambda>payload.
     pbind (sendMessage X (follower_addr offer bid) (leader_addr offer bid) payload) (\<lambda>msg_id.
     pseq (pmod (\<lambda>n. n\<lparr>message_links := message_links n @ [(b, MT_XMR_BID_TXN_SIGS_FL, msg_id)]\<rparr>))
    (pbind (if watch_blocks_for_scripts (ci (x_env X) ca) \<and> isBchXmrSwap offer then pret None
            else pbind (plift (getTxid (x_ads X ca) (a_lock_tx xs))) (\<lambda>t. pret (Some t))) (\<lambda>a_lock_tx_id.
     pbind (plift (getTxOutputPos (S ca) (a_lock_tx xs) (a_lock_tx_script xs))) (\<lambda>a_lock_tx_vout.
     pret (xs, a_lock_tx_id, a_lock_tx_vout)))))))"

definition wait_for_a_lock :: "xenv \<Rightarrow> bytes \<Rightarrow> Offer \<Rightarrow> Bid \<Rightarrow> XmrSwap \<Rightarrow> bytes option \<Rightarrow> int option \<Rightarrow> (node, unit) py" where
  "wait_for_a_lock X b offer bid xs t v =
     (let time = now (x_env X);
          tx = (case xmr_a_lock_tx bid of None \<Rightarrow> (new_tx b XMR_SWAP_A_LOCK None)\<lparr>txid := t, vout := v\<rparr> | Some tx \<Rightarrow> tx)
      in case setState (TxStates_val TX_NONE) time tx of
           (Inl e, tx) \<Rightarrow> pseq (fail_bid X b (bid\<lparr>xmr_a_lock_tx := Some tx\<rparr>)) (pret ())
         | (Inr _, tx) \<Rightarrow> (case setState (BidStates_val XMR_SWAP_MSG_SCRIPT_LOCK_TX_SIGS) time (bid\<lparr>xmr_a_lock_tx := Some tx\<rparr>) of
             (Inl e, bid) \<Rightarrow> pseq (fail_bid X b bid) (pret ())
           | (Inr _, bid) \<Rightarrow>
               pseq (put_in_progress b bid offer)
                    (ptry (pseq (watchXmrSwap X b offer xs) (save_xmr b xs)) (\<lambda>_. setBidError b time ''''))))"

definition sendXmrBidTxnSigsFtoL :: "xenv \<Rightarrow> signing \<Rightarrow> bytes \<Rightarrow> (node, unit) py" where
  "sendXmrBidTxnSigsFtoL X S b =
     pbind (load_swap b) (\<lambda>(bid, xs).
     pbind (load_offer (bid_offer_id bid)) (\<lambda>(offer, xo).
     pbind (plift (coin_a offer)) (\<lambda>ca.
     pbind (plift (coin_b offer)) (\<lambda>cb.
     pbind (ptry (pbind (send_sigs X S b offer ca bid xs) (\<lambda>r. pret (Inr r))) (\<lambda>e. pret (Inl e))) (\<lambda>r.
     case r of
       Inl e \<Rightarrow> pseq (fail_bid X b bid) (pret ())
     | Inr (xs, t, v) \<Rightarrow> wait_for_a_lock X b offer bid xs t v)))))"

text \<open>The rows a message is about, and the checks common to its handlers: the length of the id, the addresses.\<close>

definition message_rows :: "attrs \<Rightarrow> (node, bytes \<times> Bid \<times> XmrSwap) py" where
  "message_rows msg_data =
     pbind (plift (attr_bytes msg_data ''bid_msg_id'')) (\<lambda>b.
     pseq (plift (ensure (length b = 28) ''Bad bid_msg_id length''))
    (pbind (load_swap b) (\<lambda>(bid, xs).
     pret (b, bid, xs))))"

definition check_addresses :: "message \<Rightarrow> string \<Rightarrow> string \<Rightarrow> (node, unit) py" where
  "check_addresses msg sent_from sent_to =
     pseq (plift (ensure (msg_dest msg = sent_to) ''Received on incorrect address''))
          (plift (ensure (msg_source msg = sent_from) ''Sent from incorrect address''))"

definition check_state :: "BidStates list \<Rightarrow> Bid \<Rightarrow> (node, unit) py" where
  "check_state allowed bid =
     plift (ensure (list_ex (\<lambda>s. state bid = Some (BidStates_val s)) allowed) ''Invalid state for bid'')"

text \<open>\<open>BidStates(bid.state)\<close>.\<close>

definition bid_state :: "Bid \<Rightarrow> BidStates res" where
  "bid_state bid = of_option (ValueError ''BidStates'') (Option.bind (state bid) BidStates_of)"

text \<open>The leader checks the follower's signatures and completes the refund transactions with them.\<close>

definition complete_refunds :: "xenv \<Rightarrow> Coins \<Rightarrow> Bid \<Rightarrow> XmrSwap \<Rightarrow> bytes \<Rightarrow> bytes \<Rightarrow> XmrSwap res" where
  "complete_refunds X ca bid xs kbsl kal =
     (let a = x_ads X ca in
     rbind (getLockTxSwapOutputValue a bid xs) (\<lambda>prevout_amount.
     rbind (of_option TypeError (af_lock_refund_tx_sig xs)) (\<lambda>sig.
     rbind (verifyTxSig a (a_lock_refund_tx xs) sig (pkaf xs) (a_lock_tx_script xs) prevout_amount) (\<lambda>v.
     rbind (ensure v ''Invalid coin A lock refund tx leader sig'') (\<lambda>_.
     rbind (addLockRefundSigs X ca xs) (\<lambda>xs.
     rbind (decryptOtVES a kbsl (af_lock_refund_spend_tx_esig xs)) (\<lambda>af_sig.
     let xs = xs\<lparr>af_lock_refund_spend_tx_sig := Some af_sig\<rparr> in
     rbind (getLockRefundTxSwapOutputValue a bid xs) (\<lambda>prevout_amount.
     rbind (signTx a kal (a_lock_refund_spend_tx xs) (a_lock_refund_tx_script xs) prevout_amount) (\<lambda>al_sig.
     rbind (verifyTxSig a (a_lock_refund_spend_tx xs) af_sig (pkaf xs) (a_lock_refund_tx_script xs) prevout_amount) (\<lambda>v.
     rbind (ensure v ''Invalid follower signature for lock refund spend txn'') (\<lambda>_.
     rbind (setTxSignature a (a_lock_refund_spend_tx xs)
       ((if ca = DCR then [] else [Some []]) @ [Some al_sig, Some af_sig, Some [1], a_lock_refund_tx_script xs])) (\<lambda>signed_tx.
     rbind (ensure (signed_tx \<noteq> []) ''setTxSignature failed'') (\<lambda>_.
     Inr (xs\<lparr>a_lock_refund_spend_tx := Some signed_tx\<rparr>))))))))))))))"

definition complete_refunds_bch :: "xenv \<Rightarrow> Coins \<Rightarrow> XmrSwap \<Rightarrow> bytes \<Rightarrow> XmrSwap res" where
  "complete_refunds_bch X ca xs kbsl =
     (let a = x_ads X ca in
     rbind (first_output_script a (a_lock_refund_spend_tx xs)) (\<lambda>out1.
     rbind (decryptOtVES a kbsl (af_lock_refund_spend_tx_esig xs)) (\<lambda>out1_sig.
     rbind (verifyDataSig a out1 out1_sig (pkaf xs)) (\<lambda>v.
     rbind (ensure v ''Invalid signature for lock refund spend txn'') (\<lambda>_.
     rbind (with_script_sig a (a_lock_refund_spend_tx xs) (a_lock_tx_id xs) (a_lock_refund_tx_script xs) out1_sig) (\<lambda>tx.
     rbind (getTxid a (Some tx)) (\<lambda>t.
     Inr (xs\<lparr>a_lock_refund_spend_tx := Some tx, a_lock_refund_spend_tx_id := Some t\<rparr>))))))))"

definition accept_sigs :: "xenv \<Rightarrow> bytes \<Rightarrow> Offer \<Rightarrow> Coins \<Rightarrow> Coins \<Rightarrow> attrs \<Rightarrow> Bid \<Rightarrow> XmrSwap \<Rightarrow> (node, unit) py" where
  "accept_sigs X b offer ca cb msg_data bid xs =
     pbind (plift (attr_bytes msg_data ''af_lock_refund_spend_tx_esig'')) (\<lambda>esig.
     pbind (plift (attr_bytes msg_data ''af_lock_refund_tx_sig'')) (\<lambda>sig.
     let xs = xs\<lparr>af_lock_refund_spend_tx_esig := Some esig, af_lock_refund_tx_sig := Some sig\<rparr> in
     pbind (plift (getPathKey (x_ads X cb) KBSL bid xs)) (\<lambda>kbsl.
     pbind (plift (getPathKey (x_ads X ca) KAL bid xs)) (\<lambda>kal.
     pbind (plift (if isBchXmrSwap offer then complete_refunds_bch X ca xs kbsl else complete_refunds X ca bid xs kbsl kal)) (\<lambda>xs.
     pseq (createAction (now (x_env X)) (duplicate_actions (x_env X)) (x_delay X) SEND_XMR_SWAP_LOCK_TX_A b)
    (pbind (with_state (now (x_env X)) XMR_SWAP_MSG_SCRIPT_LOCK_TX_SIGS bid) (\<lambda>bid.
     save_swap b bid xs)))))))"

definition processXmrBidCoinALockSigs :: "xenv \<Rightarrow> message \<Rightarrow> (node, unit) py" where
  "processXmrBidCoinALockSigs X msg =
     pbind (plift (parse_message XmrBidLockTxSigsMessage msg)) (\<lambda>msg_data.
     pbind (message_rows msg_data) (\<lambda>(b, bid, xs).
     pbind (plift (bid_state bid)) (\<lambda>st.
     pseq (plift (ensure (isActiveBidState st) ''not in progress''))
    (pbind (load_offer (bid_offer_id bid)) (\<lambda>(offer, xo).
     pbind (plift (coin_a offer)) (\<lambda>ca.
     pbind (plift (coin_b offer)) (\<lambda>cb.
     pseq (check_addresses msg (follower_addr offer bid) (leader_addr offer bid))
    (pseq (check_state (BID_ACCEPTED # (if was_sent bid \<and> offer_was_sent offer then [XMR_SWAP_MSG_SCRIPT_LOCK_TX_SIGS] else [])) bid)
          (ptry (accept_sigs X b offer ca cb msg_data bid xs) (\<lambda>_. pseq (fail_bid X b bid) (pret ())))))))))))"

subsection \<open>The leader locks coin A and sends its spend\<close>

definition prepare_lock_spend :: "xenv \<Rightarrow> signing \<Rightarrow> Coins \<Rightarrow> Offer \<Rightarrow> XmrOffer \<Rightarrow> Bid \<Rightarrow> XmrSwap \<Rightarrow> (Bid \<times> XmrSwap) res" where
  "prepare_lock_spend X S ca offer xo bid xs =
     (let a = x_ads X ca in
     rbind (getPathKey a KAL bid xs) (\<lambda>kal.
     rbind (signCompact (S ca) kal ''proof key owned for swap'') (\<lambda>sig.
     let xs = xs\<lparr>kal_sig := Some sig\<rparr> in
     rbind (createSCLockSpendTx (S ca) xs (if reverse_offer offer then b_fee_rate xo else a_fee_rate xo)) (\<lambda>tx.
     let xs = xs\<lparr>a_lock_spend_tx := Some tx\<rparr> in
     rbind (getTxid a (Some tx)) (\<lambda>t.
     let xs = xs\<lparr>a_lock_spend_tx_id := Some t\<rparr>;
         bid = (case xmr_a_lock_tx bid of None \<Rightarrow> bid | Some atx \<Rightarrow> bid\<lparr>xmr_a_lock_tx := Some (atx\<lparr>spend_txid := Some t\<rparr>)\<rparr>)
     in rbind (getLockTxSwapOutputValue a bid xs) (\<lambda>prevout_amount.
     rbind (signTxOtVES (S ca) kal (pkasf xs) (a_lock_spend_tx xs) (a_lock_tx_script xs) prevout_amount) (\<lambda>esig.
     Inr (bid, xs\<lparr>al_lock_spend_tx_esig := Some esig\<rparr>))))))))"

text \<open>The id of a BCH transaction changes when it is signed: what spends it is rebuilt.\<close>

definition respend_lock :: "xenv \<Rightarrow> signing \<Rightarrow> bytes \<Rightarrow> Coins \<Rightarrow> bytes \<Rightarrow> bytes \<Rightarrow> Bid \<Rightarrow> XmrSwap \<Rightarrow> (Bid \<times> XmrSwap) res" where
  "respend_lock X S b ca t stx bid xs =
     (let a = x_ads X ca; xs = xs\<lparr>a_lock_tx := Some stx, a_lock_tx_id := Some t\<rparr> in
     rbind (spend_from a (a_lock_refund_tx xs) (Some t)) (\<lambda>tx.
     rbind (getTxid a (Some tx)) (\<lambda>i.
     let xs = xs\<lparr>a_lock_refund_tx := Some tx, a_lock_refund_tx_id := Some i\<rparr> in
     rbind (spend_from a (a_lock_spend_tx xs) (Some t)) (\<lambda>tx.
     rbind (getTxid a (Some tx)) (\<lambda>i.
     let xs = xs\<lparr>a_lock_spend_tx := Some tx, a_lock_spend_tx_id := Some i\<rparr> in
     rbind (getTxOutputPos (S ca) (a_lock_tx xs) (a_lock_tx_script xs)) (\<lambda>v.
     let atx = (case xmr_a_lock_tx bid of None \<Rightarrow> (new_tx b XMR_SWAP_A_LOCK None)\<lparr>txid := Some t, vout := v\<rparr> | Some atx \<Rightarrow> atx)
     in Inr (bid\<lparr>xmr_a_lock_tx := Some (atx\<lparr>txid := Some t, tx_data := Some stx, spend_txid := Some i\<rparr>)\<rparr>, xs)))))))"

definition publish_a_lock :: "xenv \<Rightarrow> signing \<Rightarrow> bytes \<Rightarrow> Coins \<Rightarrow> Offer \<Rightarrow> Bid \<Rightarrow> XmrSwap \<Rightarrow> (node, Bid \<times> XmrSwap) py" where
  "publish_a_lock X S b ca offer bid xs =
     pbind (plift (signTxWithWallet (S ca) (a_lock_tx xs))) (\<lambda>lock_tx_signed.
     pseq (plift (if isBchXmrSwap offer then Inr ()
                  else rbind (getTxid (x_ads X ca) (Some lock_tx_signed)) (\<lambda>t.
                       ensure (Some t = a_lock_tx_id xs) ''Coin A lock tx txid changed after signing!'')))
    (pbind (publish (x_env X) ca lock_tx_signed) (\<lambda>t.
     pbind (plift (of_option AttributeError (a_lock_tx_id xs))) (\<lambda>expected.
     pbind (plift (if t = expected then Inr (bid, xs)
                   else if \<not> isBchXmrSwap offer then Inl (ValueError ''Coin A lock tx txid changed after sending!'')
                   else respend_lock X S b ca t lock_tx_signed bid xs)) (\<lambda>(bid, xs).
     pbind (plift (getTxOutputPos (S ca) (a_lock_tx xs) (a_lock_tx_script xs))) (\<lambda>vout_pos.
     pbind (with_tx_state (now (x_env X)) TX_SENT
              (case xmr_a_lock_tx bid of None \<Rightarrow> (new_tx b XMR_SWAP_A_LOCK None)\<lparr>txid := Some t, vout := vout_pos\<rparr> | Some tx \<Rightarrow> tx)) (\<lambda>tx.
     pseq (logEvent b EV_LOCK_TX_A_PUBLISHED '''')
          (pret (bid\<lparr>xmr_a_lock_tx := Some tx\<rparr>, xs)))))))))"

definition a_lock_sent :: "Bid \<Rightarrow> bool" where
  "a_lock_sent bid = (case Option.bind (xmr_a_lock_tx bid) state of None \<Rightarrow> False | Some s \<Rightarrow> s \<noteq> 0 \<and> s \<ge> TxStates_val TX_SENT)"

definition sendXmrBidCoinALockTx :: "xenv \<Rightarrow> signing \<Rightarrow> bytes \<Rightarrow> (node, unit) py" where
  "sendXmrBidCoinALockTx X S b =
     pbind (load_swap b) (\<lambda>(bid, xs).
     if state bid \<noteq> Some (BidStates_val XMR_SWAP_MSG_SCRIPT_LOCK_TX_SIGS) then pret ()
     else
       pbind (load_offer (bid_offer_id bid)) (\<lambda>(offer, xo).
       pbind (plift (coin_a offer)) (\<lambda>ca.
       pbind (plift (coin_b offer)) (\<lambda>cb.
       pbind (plift (prepare_lock_spend X S ca offer xo bid xs)) (\<lambda>(bid, xs).
       pbind (if a_lock_sent bid then pret (bid, xs) else publish_a_lock X S b ca offer bid xs) (\<lambda>(bid, xs).
       pbind (with_state (now (x_env X)) XMR_SWAP_HAVE_SCRIPT_COIN_SPEND_TX bid) (\<lambda>bid.
       pseq (put_in_progress b bid offer)
      (pseq (watchXmrSwap X b offer xs)
      (pseq (createAction (now (x_env X)) (duplicate_actions (x_env X)) (short_delay (x_env X)) SEND_XMR_SWAP_LOCK_SPEND_MSG b)
            (save_xmr b xs))))))))))"

definition spend_payload :: "bytes \<Rightarrow> XmrSwap \<Rightarrow> bytes res" where
  "spend_payload b xs =
     rbind (of_option TypeError (a_lock_spend_tx xs)) (\<lambda>tx.
     rbind (of_option TypeError (kal_sig xs)) (\<lambda>sig.
     message_payload MT_XMR_BID_LOCK_SPEND_TX_LF XmrBidLockSpendTxMessage
       [(''bid_msg_id'', PBytes b), (''a_lock_spend_tx'', PBytes tx), (''kal_sig'', PBytes sig)]))"

definition sendXmrBidCoinALockSpendTxMsg :: "xenv \<Rightarrow> bytes \<Rightarrow> (node, unit) py" where
  "sendXmrBidCoinALockSpendTxMsg X b =
     pbind (load_swap b) (\<lambda>(bid, xs).
     pbind (load_offer (bid_offer_id bid)) (\<lambda>(offer, xo).
     pbind (plift (spend_payload b xs)) (\<lambda>payload.
     pseq (sendMessage X (leader_addr offer bid) (follower_addr offer bid) payload)
    (pbind (with_state (now (x_env X)) XMR_SWAP_MSG_SCRIPT_LOCK_SPEND_TX bid) (\<lambda>bid.
     save_in_progress b bid xs offer)))))"

subsection \<open>The follower receives the spend and the release\<close>

definition accept_spend :: "xenv \<Rightarrow> signing \<Rightarrow> bytes \<Rightarrow> Coins \<Rightarrow> int \<Rightarrow> bytes \<Rightarrow> attrs \<Rightarrow> Bid \<Rightarrow> XmrSwap \<Rightarrow> (node, Bid) py" where
  "accept_spend X S b ca fee_rate t msg_data bid xs =
     pbind (plift (attr_bytes msg_data ''kal_sig'')) (\<lambda>sig.
     let xs = xs\<lparr>a_lock_spend_tx_id := Some t, kal_sig := Some sig\<rparr> in
     pseq (plift (verifySCLockSpendTx (S ca) xs fee_rate))
    (pseq (plift (verifyCompactSig (S ca) (pkal xs) ''proof key owned for swap'' sig))
    (pbind (with_state (now (x_env X)) XMR_SWAP_HAVE_SCRIPT_COIN_SPEND_TX bid) (\<lambda>bid.
     pbind (with_state (now (x_env X)) XMR_SWAP_MSG_SCRIPT_LOCK_SPEND_TX bid) (\<lambda>bid.
     pseq (save_swap b bid xs) (pret bid))))))"

definition processXmrBidLockSpendTx :: "xenv \<Rightarrow> signing \<Rightarrow> message \<Rightarrow> (node, unit) py" where
  "processXmrBidLockSpendTx X S msg =
     pbind (plift (parse_message XmrBidLockSpendTxMessage msg)) (\<lambda>msg_data.
     pbind (message_rows msg_data) (\<lambda>(b, bid, xs).
     pbind (load_offer (bid_offer_id bid)) (\<lambda>(offer, xo).
     pbind (plift (coin_a offer)) (\<lambda>ca.
     pseq (check_addresses msg (leader_addr offer bid) (follower_addr offer bid))
    (pseq (check_state [XMR_SWAP_MSG_SCRIPT_LOCK_TX_SIGS, XMR_SWAP_MSG_SCRIPT_LOCK_SPEND_TX] bid)
    (if state bid = Some (BidStates_val XMR_SWAP_MSG_SCRIPT_LOCK_SPEND_TX) then pret ()
     else
       pbind (case rbind (attr_bytes msg_data ''a_lock_spend_tx'') (\<lambda>tx. rbind (getTxid (x_ads X ca) (Some tx)) (\<lambda>t. Inr (tx, t))) of
                Inl e \<Rightarrow> fail_bid X b bid
              | Inr (tx, t) \<Rightarrow>
                  let bid = (case xmr_a_lock_tx bid of None \<Rightarrow> bid | Some atx \<Rightarrow> bid\<lparr>xmr_a_lock_tx := Some (atx\<lparr>spend_txid := Some t\<rparr>)\<rparr>)
                  in ptry (accept_spend X S b ca (if reverse_offer offer then b_fee_rate xo else a_fee_rate xo) t msg_data bid
                             (xs\<lparr>a_lock_spend_tx := Some tx\<rparr>))
                          (\<lambda>_. fail_bid X b bid)) (\<lambda>bid.
       put_in_progress b bid offer)))))))"

text \<open>Parts of a proof: at most so many, of at most so many bytes, each taken once from a sender.\<close>

definition split_limits :: "message \<Rightarrow> int \<times> int" where
  "split_limits msg = (if msg_net msg = ''simplex'' then (11000, 9000) else (17000, 16000))"

definition max_chunks :: "message \<Rightarrow> int" where
  "max_chunks msg = (48893 + snd (split_limits msg) - 1) div snd (split_limits msg)"

definition processXmrSplitMessage :: "xenv \<Rightarrow> message \<Rightarrow> (node, unit) py" where
  "processXmrSplitMessage X msg =
     pbind (plift (parse_message XmrSplitMessage msg)) (\<lambda>msg_data.
     pbind (plift (attr_bytes msg_data ''msg_id'')) (\<lambda>b.
     pseq (plift (ensure (length b = 28) ''Bad msg_id length''))
    (pbind (plift (attr_bytes msg_data ''dleag'')) (\<lambda>dleag.
     pbind (plift (attr_int msg_data ''sequence'')) (\<lambda>sequence.
     pbind (plift (attr_int msg_data ''msg_type'')) (\<lambda>msg_type.
     pseq (plift (ensure (int (length dleag) \<le> fst (split_limits msg)) ''Split message data too large''))
    (pseq (plift (ensure (sequence \<le> max_chunks msg) ''Split message sequence too high''))
    (pwhen (msg_type = XmrSplitMsgTypes_val XSM_BID \<or> msg_type = XmrSplitMsgTypes_val XSM_BID_ACCEPT)
      (pbind (pget (\<lambda>n. list_ex (\<lambda>r. sd_bid_id r = b \<and> sd_msg_type r = msg_type \<and> sd_msg_sequence r = sequence
                          \<and> sd_addr_from r = msg_source msg) (split_data n))) (\<lambda>exists.
       pwhen (\<not> exists)
         (pmod (\<lambda>n. n\<lparr>split_data := split_data n @ [\<lparr>sd_addr_from = msg_source msg, sd_addr_to = msg_dest msg, sd_bid_id = b,
            sd_msg_type = msg_type, sd_msg_sequence = sequence, sd_dleag = dleag, sd_created_at = now (x_env X)\<rparr>]\<rparr>))))))))))))"

definition release_states :: "Offer \<Rightarrow> Bid \<Rightarrow> XmrSwap \<Rightarrow> BidStates list \<times> bool" where
  "release_states offer bid xs =
     (let allowed = [XMR_SWAP_SCRIPT_COIN_LOCKED, XMR_SWAP_NOSCRIPT_COIN_LOCKED]
            @ (if was_sent bid \<and> offer_was_sent offer then [XMR_SWAP_LOCK_RELEASED] else []);
          unexpected = (list_ex (\<lambda>s. state bid = Some (BidStates_val s)) [BID_ERROR, BID_STALLED_FOR_TEST]
            \<and> given (al_lock_spend_tx_esig xs) = None)
      in (allowed @ (if unexpected then [BID_ERROR, BID_STALLED_FOR_TEST] else []), unexpected))"

definition verify_release :: "xenv \<Rightarrow> signing \<Rightarrow> Coins \<Rightarrow> bytes \<Rightarrow> Bid \<Rightarrow> XmrSwap \<Rightarrow> unit res" where
  "verify_release X S ca esig bid xs =
     rbind (getLockTxSwapOutputValue (x_ads X ca) bid xs) (\<lambda>prevout_amount.
     rbind (verifyTxOtVES (S ca) (a_lock_spend_tx xs) esig (pkal xs) (pkasf xs) (a_lock_tx_script xs) prevout_amount) (\<lambda>v.
     ensure v ''verifyTxOtVES failed for chain a lock tx leader esig''))"

text \<open>A release that verifies is kept also for a bid in error, but then nothing is redeemed.\<close>

definition released_bid :: "xenv \<Rightarrow> bytes \<Rightarrow> Offer \<Rightarrow> bool \<Rightarrow> Bid \<Rightarrow> XmrSwap \<Rightarrow> (node, unit) py" where
  "released_bid X b offer unexpected bid xs =
     (if unexpected then
        pseq (save_swap b bid xs)
       (pbind (pget (\<lambda>n. map_of (swaps_in_progress n) b)) (\<lambda>entry.
        pwhen (entry \<noteq> None) (put_in_progress b bid offer)))
      else
        pseq (if haveDebugInd X b DBG_BID_DONT_SPEND_COIN_A_LOCK
              then logEvent b EV_DEBUG_TWEAK_APPLIED ''ind ''
              else createAction (now (x_env X)) (duplicate_actions (x_env X)) (x_delay X) REDEEM_XMR_SWAP_LOCK_TX_A b)
       (pbind (with_state (now (x_env X)) XMR_SWAP_LOCK_RELEASED bid) (\<lambda>bid.
        pseq (save_swap b bid xs) (put_in_progress b bid offer))))"

definition processXmrLockReleaseMessage :: "xenv \<Rightarrow> signing \<Rightarrow> message \<Rightarrow> (node, unit) py" where
  "processXmrLockReleaseMessage X S msg =
     pbind (plift (parse_message XmrBidLockReleaseMessage msg)) (\<lambda>msg_data.
     pbind (message_rows msg_data) (\<lambda>(b, bid, xs).
     pbind (plift (bid_state bid)) (\<lambda>st.
     if st = BID_STALLED_FOR_TEST then pret ()
     else
       pbind (load_offer (bid_offer_id bid)) (\<lambda>(offer, xo).
       pbind (plift (coin_a offer)) (\<lambda>ca.
       pseq (check_addresses msg (leader_addr offer bid) (follower_addr offer bid))
      (case release_states offer bid xs of (allowed, unexpected) \<Rightarrow>
       pseq (check_state allowed bid)
      (case rbind (attr_bytes msg_data ''al_lock_spend_tx_esig'') (\<lambda>esig. rbind (verify_release X S ca esig bid xs) (\<lambda>_. Inr esig)) of
         Inl e \<Rightarrow>
           if unexpected then pret ()
           else pbind (fail_bid X b bid) (\<lambda>bid. put_in_progress b bid offer)
       | Inr esig \<Rightarrow> released_bid X b offer unexpected bid (xs\<lparr>al_lock_spend_tx_esig := Some esig\<rparr>))))))))"

text \<open>The handlers of the queue that are modelled, and the messages of a swap by their type.\<close>

definition swap_handler :: "xenv \<Rightarrow> signing \<Rightarrow> (ActionTypes \<Rightarrow> bytes \<Rightarrow> (node, unit) py) \<Rightarrow> ActionTypes \<Rightarrow> bytes \<Rightarrow> (node, unit) py" where
  "swap_handler X S other t b =
     (if t = SIGN_XMR_SWAP_LOCK_TX_A then sendXmrBidTxnSigsFtoL X S b
      else if t = SEND_XMR_SWAP_LOCK_TX_A then sendXmrBidCoinALockTx X S b
      else if t = SEND_XMR_SWAP_LOCK_SPEND_MSG then sendXmrBidCoinALockSpendTxMsg X b
      else ads_handler X other t b)"

section \<open>Specification vocabulary\<close>

text \<open>A payload on its way: version 1 of the network appends a byte.\<close>

definition delivered :: "int \<Rightarrow> bytes \<Rightarrow> bytes" where
  "delivered v payload = (if v < 2 then payload @ [0] else payload)"

text \<open>A message of the other party: between the right addresses, for a bid in one of the states.\<close>

definition from_leader :: "message \<Rightarrow> BidStates set \<Rightarrow> node \<Rightarrow> bytes \<Rightarrow> bool" where
  "from_leader msg sts n b \<longleftrightarrow> (\<exists>bid xs offer xo st. swap_rows n b bid xs offer xo \<and> state bid = Some (BidStates_val st) \<and> st \<in> sts
     \<and> msg_source msg = leader_addr offer bid \<and> msg_dest msg = follower_addr offer bid)"

definition from_follower :: "message \<Rightarrow> BidStates set \<Rightarrow> node \<Rightarrow> bytes \<Rightarrow> bool" where
  "from_follower msg sts n b \<longleftrightarrow> (\<exists>bid xs offer xo st. swap_rows n b bid xs offer xo \<and> state bid = Some (BidStates_val st) \<and> st \<in> sts
     \<and> msg_source msg = follower_addr offer bid \<and> msg_dest msg = leader_addr offer bid)"

text \<open>A handler that leaves the state alone or a state with \<open>C\<close>.\<close>

definition only_if :: "(node \<Rightarrow> bool) \<Rightarrow> (node, 'a) py \<Rightarrow> node \<Rightarrow> bool" where
  "only_if C m n \<longleftrightarrow> snd (m n) = n \<or> C (snd (m n))"

text \<open>What the leader holds before it locks coin A: a refund signed by the follower, whose signature verified (for BCH: of the output of the refund's spend).\<close>

definition refund_verified :: "xenv \<Rightarrow> Offer \<Rightarrow> Coins \<Rightarrow> XmrSwap \<Rightarrow> XmrSwap \<Rightarrow> bool" where
  "refund_verified X offer ca xs ys \<longleftrightarrow>
     (if isBchXmrSwap offer
      then \<exists>out sig. first_output_script (x_ads X ca) (a_lock_refund_spend_tx xs) = Inr out \<and> verifyDataSig (x_ads X ca) out sig (pkaf xs) = Inr True
             \<and> (\<exists>tx. with_script_sig (x_ads X ca) (a_lock_refund_spend_tx xs) (a_lock_tx_id xs) (a_lock_refund_tx_script xs) sig = Inr tx
                \<and> a_lock_refund_spend_tx ys = Some tx)
      else \<exists>sig spend_sig amount1 amount2.
             verifyTxSig (x_ads X ca) (a_lock_refund_tx xs) sig (pkaf xs) (a_lock_tx_script xs) amount1 = Inr True
             \<and> verifyTxSig (x_ads X ca) (a_lock_refund_spend_tx xs) spend_sig (pkaf xs) (a_lock_refund_tx_script xs) amount2 = Inr True
             \<and> (\<exists>stx. setTxSignature (x_ads X ca) (a_lock_refund_tx xs)
                  ((if ca = DCR then [] else [Some []]) @ [al_lock_refund_tx_sig xs, Some sig, a_lock_tx_script xs]) = Inr stx
                \<and> a_lock_refund_tx ys = Some stx \<and> stx \<noteq> []))"

text \<open>The rows of a bid that went on to locking coin A.\<close>

definition locks_with_refund :: "xenv \<Rightarrow> node \<Rightarrow> node \<Rightarrow> bytes \<Rightarrow> bool" where
  "locks_with_refund X n n' b \<longleftrightarrow>
     map_option state (bid_rows n' b) \<noteq> Some (Some (BidStates_val XMR_SWAP_MSG_SCRIPT_LOCK_TX_SIGS))
     \<or> (bid_rows n' b = bid_rows n b \<and> xmr_swaps n' b = xmr_swaps n b)
     \<or> (\<exists>bid xs ys offer xo ca. swap_rows n b bid xs offer xo \<and> coin_a offer = Inr ca \<and> xmr_swaps n' b = Some ys \<and> refund_verified X offer ca xs ys)"

definition keeps_rows :: "node \<Rightarrow> node \<Rightarrow> bool" where
  "keeps_rows n n' \<longleftrightarrow> bid_rows n' = bid_rows n \<and> xmr_swaps n' = xmr_swaps n"

text \<open>The lock transaction of coin A the leader may publish.\<close>

definition a_lock_due :: "xenv \<Rightarrow> signing \<Rightarrow> bytes \<Rightarrow> node \<Rightarrow> Coins \<times> bytes \<Rightarrow> bool" where
  "a_lock_due X S b n p \<longleftrightarrow> (\<exists>bid xs offer xo. swap_rows n b bid xs offer xo \<and> coin_a offer = Inr (fst p)
     \<and> state bid = Some (BidStates_val XMR_SWAP_MSG_SCRIPT_LOCK_TX_SIGS) \<and> \<not> a_lock_sent bid
     \<and> signTxWithWallet (S (fst p)) (a_lock_tx xs) = Inr (snd p)
     \<and> (isBchXmrSwap offer \<or> rbind (getTxid (x_ads X (fst p)) (Some (snd p))) (\<lambda>t. Inr (Some t)) = Inr (a_lock_tx_id xs)))"

definition split_key :: "XmrSplitData \<Rightarrow> bytes \<times> int \<times> int \<times> string" where
  "split_key r = (sd_bid_id r, sd_msg_type r, sd_msg_sequence r, sd_addr_from r)"

definition split_ok :: "XmrSplitData list \<Rightarrow> bool" where
  "split_ok rows \<longleftrightarrow> distinct (map split_key rows)
     \<and> (\<forall>r\<in>set rows. 0 \<le> sd_msg_sequence r \<and> sd_msg_sequence r \<le> 6 \<and> length (sd_dleag r) \<le> 17000)"

text \<open>The parts one sender has stored for a bid.\<close>

definition parts :: "bytes \<Rightarrow> int \<Rightarrow> string \<Rightarrow> XmrSplitData list \<Rightarrow> XmrSplitData list" where
  "parts b t f rows = filter (\<lambda>r. sd_bid_id r = b \<and> sd_msg_type r = t \<and> sd_addr_from r = f) rows"

text \<open>Signatures that always succeed, a swap with an id of 28 bytes and the release delivered for it.\<close>

definition idle_signing :: signing where
  "idle_signing = (\<lambda>_. \<lparr>signTxOtVES = \<lambda>_ _ _ _ _. Inr [50], verifyTxOtVES = \<lambda>_ _ _ _ _ _. Inr True, signCompact = \<lambda>_ _. Inr [51],
     verifyCompactSig = \<lambda>_ _ _. Inr (), createSCLockSpendTx = \<lambda>_ _. Inr [52], verifySCLockSpendTx = \<lambda>_ _. Inr (),
     signTxWithWallet = \<lambda>_. Inr [53], getTxOutputPos = \<lambda>_ _. Inr (Some 0)\<rparr>)"

definition release_message_of :: "bytes \<Rightarrow> message" where
  "release_message_of payload = \<lparr>msg_id = [54], msg_source = [], msg_dest = [], msg_sent = 1, msg_payload = delivered 1 payload,
     msg_payload_version = 1, msg_net = ''smsg''\<rparr>"

definition swap_28 :: bytes where
  "swap_28 = replicate 28 7"

text \<open>A part of a proof.\<close>

definition part_message :: message where
  "part_message = release_message_of (case message_payload MT_XMR_BID_SPLIT XmrSplitMessage
       [(''msg_id'', PBytes swap_28), (''msg_type'', PInt 1), (''sequence'', PInt 2), (''dleag'', PBytes [1, 2, 3])] of
       Inl _ \<Rightarrow> [] | Inr p \<Rightarrow> p)"

section \<open>Facts\<close>

lemma delivered_bytes:
  "msg_payload msg = delivered (msg_payload_version msg) (t # m) \<Longrightarrow> getSmsgMsgBytes msg = m"
  by (simp add: delivered_def getSmsgMsgBytes_def)

lemma release_message_parses:
  assumes "release_payload b ys = Inr payload" "length b < 2 ^ 63" "\<And>sig. al_lock_spend_tx_esig ys = Some sig \<Longrightarrow> length sig < 2 ^ 63"
    and "msg_payload msg = delivered (msg_payload_version msg) payload"
  obtains esig where "al_lock_spend_tx_esig ys = Some esig"
    "parse_message XmrBidLockReleaseMessage msg = Inr [''bid_msg_id'' \<mapsto> PBytes b, ''al_lock_spend_tx_esig'' \<mapsto> PBytes esig]"
proof -
  obtain esig where esig: "al_lock_spend_tx_esig ys = Some esig"
    using assms(1) by (auto simp: release_payload_def of_option_def split: option.splits)
  let ?a = "[''bid_msg_id'' \<mapsto> PBytes b, ''al_lock_spend_tx_esig'' \<mapsto> PBytes esig]"
  have init: "npb_init XmrBidLockReleaseMessage True [(''bid_msg_id'', PBytes b), (''al_lock_spend_tx_esig'', PBytes esig)] = Inr ?a"
    by (simp add: npb_init_def XmrBidLockReleaseMessage_def)
  have "wf_fields XmrBidLockReleaseMessage"
    by code_simp
  moreover have "message_ok XmrBidLockReleaseMessage ?a"
    using assms(2) assms(3) [OF esig] by (auto simp: message_ok_def XmrBidLockReleaseMessage_def value_ok_def NPBW_BYTES_def)
  ultimately obtain m where m: "npb_to_bytes XmrBidLockReleaseMessage ?a = Inr m" "npb_from_bytes XmrBidLockReleaseMessage Map.empty m True = Inr ?a"
    using message_roundtrip_generic by blast
  have "payload = word_of_int (MessageTypes_val MT_XMR_BID_LOCK_RELEASE_LF) # m"
    using assms(1) by (simp add: release_payload_def esig of_option_def message_payload_def init m(1))
  then have "parse_message XmrBidLockReleaseMessage msg = Inr ?a"
    using delivered_bytes [OF assms(4) [unfolded \<open>payload = _\<close>]] m(2) by (simp add: parse_message_def)
  with esig show thesis
    by (rule that)
qed

lemma message_rows_run:
  assumes "msg_data ''bid_msg_id'' = Some (PBytes b)" "length b = 28" "swap_rows n b bid xs offer xo"
  shows "message_rows msg_data n = (Inr (b, bid, xs), n)"
proof -
  have "load_swap b n = (Inr (bid, xs), n)"
    using assms(3) by (simp add: swap_rows_def load_swap_run)
  then show ?thesis
    using assms(1,2) by (simp add: message_rows_def attr_bytes_def pbind_def pseq_def py_simps)
qed

lemma with_state_ok:
  "0 \<le> time \<Longrightarrow> time < 2 ^ 64 \<Longrightarrow> \<exists>bid'. with_state time s bid n = (Inr bid', n) \<and> state bid' = Some (BidStates_val s)"
  by (cases s) (simp_all add: with_state_def setState_def Let_def pack_state_ok py_simps)

text \<open>C16. The release arrives. Let the leader's \<open>sendXmrBidLockRelease\<close> have sent a payload for a bid, and let it be delivered from the leader's
  to the follower's address. If the follower's bid waits for it and the encrypted signature in the leader's row verifies there, \<open>processXmrLockReleaseMessage\<close> returns:
  the follower's row and object are in \<open>XMR_SWAP_LOCK_RELEASED\<close>, its row of the swap holds the leader's encrypted
  signature and the redeem of coin A is queued.\<close>

theorem release_arrives:
  assumes leader: "release_payload b ys = Inr payload" "al_lock_spend_tx_esig ys = Some esig" "length esig < 2 ^ 63" "length b = 28"
    and msg: "msg_payload msg = delivered (msg_payload_version msg) payload"
      "msg_source msg = leader_addr offer bid" "msg_dest msg = follower_addr offer bid"
    and rows: "swap_rows n b bid xs offer xo" "coin_a offer = Inr ca"
      "state bid \<in> {Some (BidStates_val XMR_SWAP_SCRIPT_COIN_LOCKED), Some (BidStates_val XMR_SWAP_NOSCRIPT_COIN_LOCKED)}"
    and ok: "verify_release X S ca esig bid xs = Inr ()" "\<not> haveDebugInd X b DBG_BID_DONT_SPEND_COIN_A_LOCK"
      "0 \<le> now (x_env X)" "now (x_env X) < 2 ^ 64"
  shows "\<exists>n'. processXmrLockReleaseMessage X S msg n = (Inr (), n') \<and> released b n'
     \<and> xmr_swaps n' b = Some (xs\<lparr>al_lock_spend_tx_esig := Some esig\<rparr>) \<and> queued REDEEM_XMR_SWAP_LOCK_TX_A b n'"
proof -
  let ?a = "[''bid_msg_id'' \<mapsto> PBytes b, ''al_lock_spend_tx_esig'' \<mapsto> PBytes esig]"
  have parse: "parse_message XmrBidLockReleaseMessage msg = Inr ?a"
    using release_message_parses [OF leader(1) _ _ msg(1)] leader(2-4) by auto
  have mrows: "message_rows ?a n = (Inr (b, bid, xs), n)"
    by (rule message_rows_run [OF _ leader(4) rows(1)]) simp
  have offer: "load_offer (bid_offer_id bid) n = (Inr (offer, xo), n)"
    using rows(1) by (simp add: swap_rows_def load_offer_run)
  obtain st where st: "bid_state bid = Inr st" "st \<noteq> BID_STALLED_FOR_TEST" "\<not> snd (release_states offer bid xs)"
      "list_ex (\<lambda>s. state bid = Some (BidStates_val s)) (fst (release_states offer bid xs))"
    using rows(3) by (auto simp: bid_state_def of_option_def release_states_def Let_def BidStates_of_def BidStates_all_def)
  let ?xs = "xs\<lparr>al_lock_spend_tx_esig := Some esig\<rparr>"
  have "processXmrLockReleaseMessage X S msg n = released_bid X b offer False bid ?xs n"
    using parse mrows offer st rows(2) msg(2,3) ok(1)
    by (simp add: processXmrLockReleaseMessage_def pbind_def pseq_def py_simps check_addresses_def check_state_def attr_bytes_def case_prod_unfold)
  moreover obtain as where create: "createAction (now (x_env X)) (duplicate_actions (x_env X)) (x_delay X) REDEEM_XMR_SWAP_LOCK_TX_A b n
      = (Inr (), n\<lparr>actions := actions n @ as\<rparr>)"
    using createAction_run by blast
  moreover obtain bid' where "with_state (now (x_env X)) XMR_SWAP_LOCK_RELEASED bid (n\<lparr>actions := actions n @ as\<rparr>) = (Inr bid', n\<lparr>actions := actions n @ as\<rparr>)"
      "state bid' = Some (BidStates_val XMR_SWAP_LOCK_RELEASED)"
    using with_state_ok [OF ok(3,4)] by blast
  moreover have "queued REDEEM_XMR_SWAP_LOCK_TX_A b (n\<lparr>actions := actions n @ as\<rparr>)"
    using createAction_queues [OF create] .
  ultimately show ?thesis
    using ok(2)
    by (auto simp: released_bid_def save_swap_def saveBidInSession_def put_in_progress_def pbind_def pseq_def py_simps released_def queued_def)
qed

lemma only_ifI: "C (snd (m n)) \<Longrightarrow> only_if C m n"
  by (simp add: only_if_def)

lemma only_if_pbind:
  "snd (m n) = n \<Longrightarrow> (\<And>x. m n = (Inr x, n) \<Longrightarrow> only_if C (f x) n) \<Longrightarrow> only_if C (pbind m f) n"
  unfolding only_if_def pbind_def by (cases "m n") (auto split: sum.splits)

lemma only_if_pseq:
  "snd (m n) = n \<Longrightarrow> (\<And>x. m n = (Inr x, n) \<Longrightarrow> only_if C k n) \<Longrightarrow> only_if C (pseq m k) n"
  unfolding pseq_def by (rule only_if_pbind)

lemma only_if_plift: "(\<And>x. r = Inr x \<Longrightarrow> only_if C (f x) n) \<Longrightarrow> only_if C (pbind (plift r) f) n"
  by (rule only_if_pbind) (auto simp: py_simps)

lemma only_if_ensure: "(c \<Longrightarrow> only_if C k n) \<Longrightarrow> only_if C (pseq (plift (ensure c s)) k) n"
  by (rule only_if_pseq) (auto simp: py_simps)

lemma only_if_pret [simp]: "only_if C (pret x) n"
  by (simp add: only_if_def pret_def)

lemma only_if_if: "(c \<Longrightarrow> only_if C m n) \<Longrightarrow> (\<not> c \<Longrightarrow> only_if C k n) \<Longrightarrow> only_if C (if c then m else k) n"
  by simp

lemma only_if_rows:
  assumes "\<And>b bid xs. bid_rows n b = Some bid \<Longrightarrow> xmr_swaps n b = Some xs \<Longrightarrow> only_if C (f b bid xs) n"
  shows "only_if C (pbind (message_rows msg_data) (\<lambda>(b, bid, xs). f b bid xs)) n"
proof (rule only_if_pbind)
  show "snd (message_rows msg_data n) = n"
    using load_same(1) by (auto simp: message_rows_def pbind_def pseq_def py_simps split: sum.splits prod.splits) (metis snd_conv)+
next
  fix y
  assume run: "message_rows msg_data n = (Inr y, n)"
  obtain b bid xs where y: "y = (b, bid, xs)"
    by (metis prod.exhaust)
  have "load_swap b n = (Inr (bid, xs), n)"
    using run y load_same(1) [of _ n] by (auto simp: message_rows_def run_simps) 
  then show "only_if C (case y of (b, bid, xs) \<Rightarrow> f b bid xs) n"
    using assms by (simp add: y load_swap_run)
qed

lemma only_if_offer:
  assumes "\<And>offer xo. offer_rows n i = Some offer \<Longrightarrow> xmr_offers n i = Some xo \<Longrightarrow> only_if C (f offer xo) n"
  shows "only_if C (pbind (load_offer i) (\<lambda>(offer, xo). f offer xo)) n"
proof (rule only_if_pbind)
  fix y
  assume "load_offer i n = (Inr y, n)"
  then show "only_if C (case y of (offer, xo) \<Rightarrow> f offer xo) n"
    by (cases y) (auto intro: assms simp: load_offer_run)
qed (simp add: load_same)

lemma only_if_addresses:
  "(msg_dest msg = t \<Longrightarrow> msg_source msg = f \<Longrightarrow> only_if C k n) \<Longrightarrow> only_if C (pseq (check_addresses msg f t) k) n"
  unfolding check_addresses_def by (rule only_if_pseq) (auto simp: pseq_def pbind_def py_simps split: sum.splits)

lemma only_if_state:
  "(\<And>s. s \<in> set allowed \<Longrightarrow> state bid = Some (BidStates_val s) \<Longrightarrow> only_if C k n) \<Longrightarrow> only_if C (pseq (check_state allowed bid) k) n"
  unfolding check_state_def by (rule only_if_ensure) (auto simp: list_ex_iff)

lemma only_if_case_prod: "(\<And>a b. p = (a, b) \<Longrightarrow> only_if C (f a b) n) \<Longrightarrow> only_if C (case p of (a, b) \<Rightarrow> f a b) n"
  by (cases p) simp

lemma from_leaderI:
  "bid_rows n b = Some bid \<Longrightarrow> xmr_swaps n b = Some xs \<Longrightarrow> offer_rows n (bid_offer_id bid) = Some offer \<Longrightarrow> xmr_offers n (bid_offer_id bid) = Some xo
   \<Longrightarrow> msg_dest msg = follower_addr offer bid \<Longrightarrow> msg_source msg = leader_addr offer bid \<Longrightarrow> state bid = Some (BidStates_val st) \<Longrightarrow> st \<in> sts
   \<Longrightarrow> \<exists>b. from_leader msg sts n b"
  by (auto simp: from_leader_def swap_rows_def)

lemma release_states_in:
  "bid_state bid = Inr st \<Longrightarrow> st \<noteq> BID_STALLED_FOR_TEST \<Longrightarrow> release_states offer bid xs = (allowed, u) \<Longrightarrow> s \<in> set allowed
   \<Longrightarrow> state bid = Some (BidStates_val s) \<Longrightarrow> s \<in> {XMR_SWAP_SCRIPT_COIN_LOCKED, XMR_SWAP_NOSCRIPT_COIN_LOCKED, XMR_SWAP_LOCK_RELEASED, BID_ERROR}"
  by (auto simp: release_states_def Let_def bid_state_def of_option_def simp del: BidStates_val.simps split: if_splits)

lemmas only_if_intros = only_if_plift only_if_ensure only_if_rows only_if_offer only_if_addresses only_if_state only_if_if only_if_case_prod


lemma complete_refunds_verified:
  assumes "(if isBchXmrSwap offer then complete_refunds_bch X ca (xs\<lparr>af_lock_refund_spend_tx_esig := e, af_lock_refund_tx_sig := Some sig\<rparr>) kbsl
      else complete_refunds X ca bid (xs\<lparr>af_lock_refund_spend_tx_esig := e, af_lock_refund_tx_sig := Some sig\<rparr>) kbsl kal) = Inr ys"
  shows "refund_verified X offer ca xs ys"
proof (cases "isBchXmrSwap offer")
  case True
  with assms show ?thesis
    by (auto simp: refund_verified_def complete_refunds_bch_def Let_def)
next
  case False
  with assms show ?thesis
    by (auto simp: refund_verified_def complete_refunds_def addLockRefundSigs_def Let_def of_option_def) blast+
qed

lemma locks_with_refund_same: "bid_rows n' = bid_rows n \<Longrightarrow> xmr_swaps n' = xmr_swaps n \<Longrightarrow> locks_with_refund X n n' b"
  by (simp add: locks_with_refund_def)

lemma locks_with_refundI:
  "swap_rows n b bid xs offer xo \<Longrightarrow> coin_a offer = Inr ca \<Longrightarrow> refund_verified X offer ca xs ys \<Longrightarrow> xmr_swaps n' b = Some ys
   \<Longrightarrow> locks_with_refund X n n' b"
  unfolding locks_with_refund_def by blast

interpretation keeps_rows: effect_relation keeps_rows
  by unfold_locales (auto simp: keeps_rows_def)

lemma keeps_rows_createAction [intro!]: "steps keeps_rows (createAction t d dl a c)"
proof (rule stepsI)
  fix s r s'
  assume "createAction t d dl a c s = (r, s')"
  then show "keeps_rows s s'"
    using createAction_run [of t d dl a c s] by (auto simp: keeps_rows_def)
qed

lemma fail_bid_rows:
  assumes "fail_bid X b bid n = (r, n')"
  shows "xmr_swaps n' = xmr_swaps n" "c \<noteq> b \<Longrightarrow> bid_rows n' c = bid_rows n c"
    "bid_rows n' b = bid_rows n b \<or> map_option state (bid_rows n' b) = Some (Some (BidStates_val BID_ERROR))"
  using assms by (auto simp: fail_bid_def logEvent_def with_state_def setState_def Let_def saveBidInSession_def pseq_def pbind_def py_simps split: sum.splits)

lemma accept_sigs_rows:
  assumes "swap_rows n b bid xs offer xo" "coin_a offer = Inr ca" "accept_sigs X b offer ca cb msg_data bid xs n = (r, n')"
  shows "r = Inr () \<and> (\<forall>c. locks_with_refund X n n' c) \<or> (\<exists>e. r = Inl e) \<and> keeps_rows n n'"
proof -
  obtain as where create: "createAction (now (x_env X)) (duplicate_actions (x_env X)) (x_delay X) SEND_XMR_SWAP_LOCK_TX_A b n
      = (Inr (), n\<lparr>actions := actions n @ as\<rparr>)"
    using createAction_run by blast
  have saved: "locks_with_refund X n (n\<lparr>actions := as', bid_rows := (bid_rows n)(b \<mapsto> row), xmr_swaps := (xmr_swaps n)(b \<mapsto> ys)\<rparr>) c"
    if "refund_verified X offer ca xs ys" for c ys row as'
  proof (cases "c = b")
    case True
    then show ?thesis
      using assms(1,2) that by (auto intro: locks_with_refundI)
  qed (simp add: locks_with_refund_def)
  show ?thesis
    using assms(3)
    by (auto simp: accept_sigs_def Let_def pbind_def pseq_def py_simps create with_state_def save_swap_def saveBidInSession_def keeps_rows_def
        intro!: saved complete_refunds_verified split: sum.splits prod.splits)
qed

lemma sigs_lock_with_refund: "locks_with_refund X n (snd (processXmrBidCoinALockSigs X msg n)) c"
proof -
  have "only_if (\<lambda>n'. locks_with_refund X n n' c) (processXmrBidCoinALockSigs X msg) n"
    unfolding processXmrBidCoinALockSigs_def
  proof (intro only_if_intros, rule only_ifI, goal_cases)
    case (1 msg_data b bid xs st offer xo ca cb s)
    have rows: "swap_rows n b bid xs offer xo"
      using 1 by (simp add: swap_rows_def)
    obtain r m where run: "accept_sigs X b offer ca cb msg_data bid xs n = (r, m)"
      by fastforce
    show ?case
    proof (cases r)
      case (Inr u)
      then show ?thesis
        using accept_sigs_rows [OF rows \<open>coin_a offer = Inr ca\<close> run] run by (simp add: ptry_def)
    next
      case (Inl e)
      then have same: "keeps_rows n m"
        using accept_sigs_rows [OF rows \<open>coin_a offer = Inr ca\<close> run] by simp
      obtain q m' where fail: "fail_bid X b bid m = (q, m')"
        by fastforce
      have "snd (ptry (accept_sigs X b offer ca cb msg_data bid xs) (\<lambda>_. pseq (fail_bid X b bid) (pret ())) n) = m'"
        using run Inl fail by (simp add: ptry_def pseq_def pbind_def py_simps split: sum.splits)
      then show ?thesis
        using fail_bid_rows [OF fail] same by (cases "c = b") (auto simp: locks_with_refund_def keeps_rows_def)
    qed
  qed
  then show ?thesis
    by (auto simp: only_if_def locks_with_refund_same)
qed

lemma prepare_lock_spend_keeps:
  "prepare_lock_spend X S ca offer xo bid xs = Inr (bid', xs') \<Longrightarrow> a_lock_tx xs' = a_lock_tx xs \<and> a_lock_tx_id xs' = a_lock_tx_id xs
     \<and> a_lock_sent bid' = a_lock_sent bid"
  by (auto simp: prepare_lock_spend_def Let_def a_lock_sent_def split: option.splits)

lemma pub_pseq_plift: "(\<And>x. r = Inr x \<Longrightarrow> steps (publishes P) k) \<Longrightarrow> steps (publishes P) (pseq (plift r) k)"
  unfolding pseq_def by (rule publishes.steps_pbind_plift)

lemma publish_a_lock_publishes:
  assumes "\<And>tx. signTxWithWallet (S ca) (a_lock_tx xs) = Inr tx
     \<Longrightarrow> isBchXmrSwap offer \<or> rbind (getTxid (x_ads X ca) (Some tx)) (\<lambda>t. Inr (Some t)) = Inr (a_lock_tx_id xs) \<Longrightarrow> P (ca, tx)"
  shows "steps (publishes P) (publish_a_lock X S b ca offer bid xs)"
  unfolding publish_a_lock_def
  by (rule publishes.steps_pbind_plift, rule pub_pseq_plift) (auto intro!: pub_publish assms split: if_splits)

lemma a_lock_published:
  "locks_with_refund X n (snd (processXmrBidCoinALockSigs X msg n)) c
   \<and> (\<exists>ps. published (snd (sendXmrBidCoinALockTx X S b n)) = published n @ ps \<and> (\<forall>p\<in>set ps. a_lock_due X S b n p))"
proof
  have "steps_at (publishes (a_lock_due X S b n)) (sendXmrBidCoinALockTx X S b) n"
    unfolding sendXmrBidCoinALockTx_def
  proof (rule pub_load_swap, goal_cases)
    case (1 bid xs)
    show ?case
    proof (cases "state bid = Some (BidStates_val XMR_SWAP_MSG_SCRIPT_LOCK_TX_SIGS)")
      case True
      have due: "steps (publishes (a_lock_due X S b n)) (publish_a_lock X S b ca offer bid' xs')"
        if "offer_rows n (bid_offer_id bid) = Some offer" "xmr_offers n (bid_offer_id bid) = Some xo" "coin_a offer = Inr ca"
          "prepare_lock_spend X S ca offer xo bid xs = Inr (bid', xs')" "\<not> a_lock_sent bid'" for offer xo ca bid' xs'
        using that 1 True prepare_lock_spend_keeps [OF that(4)]
        by (intro publish_a_lock_publishes) (auto simp: a_lock_due_def swap_rows_def)
      show ?thesis
        unfolding True not_True_eq_False if_False simp_thms
        by (rule pub_load_offer, rule steps_at_steps) (auto intro!: due simp: put_in_progress_def pub_pmod)
    qed (simp add: steps_at_def pret_def publishes.refl)
  qed
  then show "\<exists>ps. published (snd (sendXmrBidCoinALockTx X S b n)) = published n @ ps \<and> (\<forall>p\<in>set ps. a_lock_due X S b n p)"
    by (simp add: steps_at_def publishes_def)
qed (rule sigs_lock_with_refund)


lemma max_chunks_values: "max_chunks msg \<le> 6" "fst (split_limits msg) \<le> 17000"
  by (simp_all add: max_chunks_def split_limits_def)

lemma parsed_int_nonneg:
  assumes "parse_message XmrSplitMessage msg = Inr a" "attr_int a ''sequence'' = Inr i"
  shows "0 \<le> i"
proof -
  have wf: "wf_fields XmrSplitMessage"
    by code_simp
  obtain a' where a': "from_bytes_loop XmrSplitMessage (getSmsgMsgBytes msg) 0 Map.empty = Inr a'" "init_fields XmrSplitMessage a' = Inr a"
    using assms(1) by (auto simp: parse_message_def npb_from_bytes_def)
  have "attrs_typed XmrSplitMessage Map.empty"
    by (simp add: attrs_typed_def)
  from from_bytes_loop_typed [OF a'(1) this] have "message_typed XmrSplitMessage a"
    using wf a'(2) init_fields_typed by blast
  then show ?thesis
    using assms(2) by (auto simp: message_typed_def XmrSplitMessage_def attr_int_def value_typed_def split: option.splits pyval.splits)
qed

lemma split_ok_append:
  assumes "split_ok rows" "\<not> list_ex (\<lambda>r. split_key r = split_key d) rows"
    and "0 \<le> sd_msg_sequence d" "sd_msg_sequence d \<le> 6" "length (sd_dleag d) \<le> 17000"
  shows "split_ok (rows @ [d])"
  using assms by (auto simp: split_ok_def list_ex_iff)

lemma split_ok_parts:
  assumes "split_ok rows"
  shows "length (parts b t f rows) \<le> 7"
proof -
  have "distinct (map sd_msg_sequence (parts b t f rows))"
    using assms unfolding split_ok_def parts_def
    by (auto simp: distinct_map split_key_def inj_on_def distinct_filter)
  moreover have "set (map sd_msg_sequence (parts b t f rows)) \<subseteq> {0..6}"
    using assms by (auto simp: split_ok_def parts_def)
  ultimately have "length (map sd_msg_sequence (parts b t f rows)) \<le> card {0..6::int}"
    by (metis card_mono distinct_card finite_atLeastAtMost_int)
  then show ?thesis
    by simp
qed

lemma split_message_keeps:
  assumes "split_ok (split_data n)"
  shows "split_ok (split_data (snd (processXmrSplitMessage X msg n)))"
proof -
  have "only_if (\<lambda>n'. split_ok (split_data n')) (processXmrSplitMessage X msg) n"
    unfolding processXmrSplitMessage_def
  proof (intro only_if_intros, rule only_ifI, goal_cases)
    case (1 a b dleag sequence msg_type)
    have seq: "0 \<le> sequence" "sequence \<le> 6" "length dleag \<le> 17000"
      using parsed_int_nonneg [OF 1(1)] 1 max_chunks_values [of msg] by auto
    show ?case
      using assms seq
      by (auto simp: pwhen_def pbind_def py_simps split_key_def list_ex_iff intro!: split_ok_append)
  qed
  then show ?thesis
    using assms by (auto simp: only_if_def)
qed

text \<open>Parts of split messages are bounded. A sender can store at most seven parts of a proof for a bid and message type, each of at most 17000 bytes and
  each sequence number once, whatever messages it sends: \<open>processXmrSplitMessage\<close> keeps this, whether it returns or raises.\<close>

theorem split_parts_bounded:
  assumes "split_ok (split_data n)"
  shows "split_ok (split_data (snd (processXmrSplitMessage X msg n)))
    \<and> length (parts b t f (split_data (snd (processXmrSplitMessage X msg n)))) \<le> 7
    \<and> (\<forall>p\<in>set (parts b t f (split_data (snd (processXmrSplitMessage X msg n)))). length (sd_dleag p) \<le> 17000)"
  using split_message_keeps [OF assms, of X msg] split_ok_parts unfolding split_ok_def parts_def by auto

theorem release_arrives_witness:
  "\<exists>payload n'. release_payload swap_28 ads_swap = Inr payload
     \<and> processXmrLockReleaseMessage idle_xenv idle_signing (release_message_of payload) (ads_node (ads_bid XMR_SWAP_SCRIPT_COIN_LOCKED False)) = (Inr (), n')
     \<and> released swap_28 n' \<and> queued REDEEM_XMR_SWAP_LOCK_TX_A swap_28 n'"
proof -
  let ?bid = "ads_bid XMR_SWAP_SCRIPT_COIN_LOCKED False"
  have "\<not> isl (release_payload swap_28 ads_swap)"
    by code_simp
  then obtain payload where payload: "release_payload swap_28 ads_swap = Inr payload"
    by (cases "release_payload swap_28 ads_swap") auto
  have ca: "coin_a ads_offer = Inr BTC"
    by code_simp
  have addrs: "leader_addr ads_offer ?bid = []" "follower_addr ads_offer ?bid = []"
    by (code_simp, code_simp)
  have st: "state ?bid = Some (BidStates_val XMR_SWAP_SCRIPT_COIN_LOCKED)"
    by (simp add: ads_bid_def)
  have "\<exists>n'. processXmrLockReleaseMessage idle_xenv idle_signing (release_message_of payload) (ads_node ?bid) = (Inr (), n') \<and> released swap_28 n'
     \<and> xmr_swaps n' swap_28 = Some (ads_swap\<lparr>al_lock_spend_tx_esig := Some [21]\<rparr>) \<and> queued REDEEM_XMR_SWAP_LOCK_TX_A swap_28 n'"
    by (rule release_arrives [OF payload, where offer = ads_offer and bid = ?bid and xo = ads_xoffer and ca = BTC])
      (simp_all add: ads_swap_def swap_28_def release_message_of_def addrs swap_rows_def ads_node_def ca st verify_release_def
        idle_xenv_def idle_ads_def idle_signing_def haveDebugInd_def idle_env_def)
  with payload show ?thesis
    by auto
qed


theorem split_parts_bounded_witness:
  "length (parts swap_28 1 [] (split_data (snd (processXmrSplitMessage idle_xenv part_message blank_node)))) = 1
   \<and> split_ok (split_data (snd (processXmrSplitMessage idle_xenv part_message blank_node)))"
proof
  show "length (parts swap_28 1 [] (split_data (snd (processXmrSplitMessage idle_xenv part_message blank_node)))) = 1"
    by code_simp
  show "split_ok (split_data (snd (processXmrSplitMessage idle_xenv part_message blank_node)))"
    using split_parts_bounded [of blank_node idle_xenv part_message swap_28 1 "[]"] by (simp add: blank_node_def split_ok_def)
qed

end
