(* ===== verification/Transactions.thy ===== *)
theory Transactions
  imports Codec
begin

text \<open>
  Transactions and their serialisation: \<open>COutPoint\<close>, \<open>CTxIn\<close>, \<open>CTxOut\<close>, \<open>CTxOutPart\<close>, \<open>CTxInWitness\<close> and \<open>CTransaction\<close> of
  \<open>src/basicswap/contrib/test_framework/messages.py\<close>, which the coin interfaces use to build and to read transactions.

  A stream is the list of the bytes still to be read; a read past its end returns what is left, as \<open>BytesIO.read\<close> does, so that
  most of a truncated transaction reads as zeros. The interface \<open>stream_codec\<close> states what composing readers rely on: reading what was written returns
  the value and leaves the rest of the stream, whatever it is. Vectors of such values are written and read back inside the locale, and it is
  interpreted for strings, inputs, outputs and witness stacks. The hash function \<open>hashlib.sha256\<close> is a parameter.
\<close>

section \<open>Definitions\<close>

subsection \<open>Reading and writing\<close>

type_synonym 'a reader = "bytes \<Rightarrow> ('a \<times> bytes) res"

text \<open>\<open>int.from_bytes(b, "little", signed=True)\<close> and \<open>v.to_bytes(n, "little", signed=True)\<close>.\<close>

definition from_le_signed :: "bytes \<Rightarrow> int" where
  "from_le_signed b = (let v = from_le b in if b \<noteq> [] \<and> uint (last b) \<ge> 128 then v - 256 ^ length b else v)"

definition to_bytes_le_signed :: "nat \<Rightarrow> int \<Rightarrow> bytes res" where
  "to_bytes_le_signed n v = (if - (256 ^ n) \<le> 2 * v \<and> 2 * v < 256 ^ n then Inr (le_bytes n (v mod 256 ^ n)) else Inl OverflowError)"

definition ser_compact_size :: "int \<Rightarrow> bytes res" where
  "ser_compact_size l =
     (if l < 253 then to_bytes_le 1 l
      else if l < 0x10000 then rbind (to_bytes_le 2 l) (\<lambda>r. Inr (253 # r))
      else if l < 0x100000000 then rbind (to_bytes_le 4 l) (\<lambda>r. Inr (254 # r))
      else rbind (to_bytes_le 8 l) (\<lambda>r. Inr (255 # r)))"

definition deser_compact_size :: "int reader" where
  "deser_compact_size f =
     (let nit = from_le (take 1 f); f = drop 1 f in
      if nit = 253 then Inr (from_le (take 2 f), drop 2 f)
      else if nit = 254 then Inr (from_le (take 4 f), drop 4 f)
      else if nit = 255 then Inr (from_le (take 8 f), drop 8 f)
      else Inr (nit, f))"

definition ser_string :: "bytes \<Rightarrow> bytes res" where
  "ser_string s = rbind (ser_compact_size (int (length s))) (\<lambda>r. Inr (r @ s))"

definition deser_string :: "bytes reader" where
  "deser_string f = rbind (deser_compact_size f) (\<lambda>(nit, f). Inr (take (nat nit) f, drop (nat nit) f))"

text \<open>\<open>ser_vector\<close> and \<open>deser_vector\<close> call the elements' own methods, which are arguments here. \<open>ser_string_vector\<close> and
  \<open>deser_string_vector\<close> are their instances for strings.\<close>

primrec ser_items :: "('a \<Rightarrow> bytes res) \<Rightarrow> 'a list \<Rightarrow> bytes res" where
  "ser_items ser [] = Inr []"
| "ser_items ser (x # xs) = rbind (ser x) (\<lambda>r. rbind (ser_items ser xs) (\<lambda>rs. Inr (r @ rs)))"

definition ser_vector :: "('a \<Rightarrow> bytes res) \<Rightarrow> 'a list \<Rightarrow> bytes res" where
  "ser_vector ser l = rbind (ser_compact_size (int (length l))) (\<lambda>r. rbind (ser_items ser l) (\<lambda>rs. Inr (r @ rs)))"

primrec deser_items :: "'a reader \<Rightarrow> nat \<Rightarrow> 'a list reader" where
  "deser_items deser 0 f = Inr ([], f)"
| "deser_items deser (Suc n) f = rbind (deser f) (\<lambda>(t, f). rbind (deser_items deser n f) (\<lambda>(r, f). Inr (t # r, f)))"

definition deser_vector :: "'a reader \<Rightarrow> 'a list reader" where
  "deser_vector deser f = rbind (deser_compact_size f) (\<lambda>(nit, f). deser_items deser (nat nit) f)"

subsection \<open>Inputs and outputs\<close>

record COutPoint =
  outpoint_hash :: int
  outpoint_n :: int

definition COutPoint_deserialize :: "COutPoint reader" where
  "COutPoint_deserialize f = Inr (\<lparr>outpoint_hash = from_le (take 32 f), outpoint_n = from_le (take 4 (drop 32 f))\<rparr>, drop 36 f)"

definition COutPoint_serialize :: "COutPoint \<Rightarrow> bytes res" where
  "COutPoint_serialize p = rbind (to_bytes_le 32 (outpoint_hash p)) (\<lambda>h. rbind (to_bytes_le 4 (outpoint_n p)) (\<lambda>n. Inr (h @ n)))"

record CTxIn =
  prevout :: COutPoint
  scriptSig :: bytes
  nSequence :: int

definition CTxIn_deserialize :: "CTxIn reader" where
  "CTxIn_deserialize f =
     rbind (COutPoint_deserialize f) (\<lambda>(p, f).
     rbind (deser_string f) (\<lambda>(s, f).
     Inr (\<lparr>prevout = p, scriptSig = s, nSequence = from_le (take 4 f)\<rparr>, drop 4 f)))"

definition CTxIn_serialize :: "CTxIn \<Rightarrow> bytes res" where
  "CTxIn_serialize i =
     rbind (COutPoint_serialize (prevout i)) (\<lambda>p.
     rbind (ser_string (scriptSig i)) (\<lambda>s.
     rbind (to_bytes_le 4 (nSequence i)) (\<lambda>q. Inr (p @ s @ q))))"

text \<open>What \<open>CTxOutPart\<close>, an output of a Particl transaction, has besides \<open>CTxOut\<close>.\<close>

record CTxOutPart =
  part_version :: int
  commitment :: bytes
  part_data :: bytes
  rangeproof :: bytes

record CTxOut =
  nValue :: int
  scriptPubKey :: bytes
  out_part :: "CTxOutPart option"

definition CTxOut_deserialize :: "CTxOut reader" where
  "CTxOut_deserialize f =
     rbind (deser_string (drop 8 f)) (\<lambda>(s, g). Inr (\<lparr>nValue = from_le_signed (take 8 f), scriptPubKey = s, out_part = None\<rparr>, g))"

definition CTxOut_serialize :: "CTxOut \<Rightarrow> bytes res" where
  "CTxOut_serialize txo =
     rbind (to_bytes_le_signed 8 (nValue txo)) (\<lambda>v. rbind (ser_string (scriptPubKey txo)) (\<lambda>s. Inr (v @ s)))"

definition OUTPUT_TYPE_STANDARD :: int where "OUTPUT_TYPE_STANDARD = 1"
definition OUTPUT_TYPE_CT :: int where "OUTPUT_TYPE_CT = 2"
definition OUTPUT_TYPE_DATA :: int where "OUTPUT_TYPE_DATA = 4"

text \<open>An output of a Particl transaction with the byte of its type in front, as \<open>CTransaction\<close> reads and writes it.\<close>

definition CTxOutPart_deserialize :: "CTxOut reader" where
  "CTxOutPart_deserialize f =
     (let v = from_le (take 1 f); f = drop 1 f;
          part = \<lparr>part_version = v, commitment = [], part_data = [], rangeproof = []\<rparr>;
          txo = \<lparr>nValue = 0, scriptPubKey = [], out_part = Some part\<rparr> in
      if v = OUTPUT_TYPE_STANDARD then
        rbind (deser_string (drop 8 f)) (\<lambda>(s, g). Inr (txo\<lparr>nValue := from_le (take 8 f), scriptPubKey := s\<rparr>, g))
      else if v = OUTPUT_TYPE_DATA then
        rbind (deser_string f) (\<lambda>(d, g). Inr (txo\<lparr>out_part := Some (part\<lparr>part_data := d\<rparr>)\<rparr>, g))
      else if v = OUTPUT_TYPE_CT then
        rbind (deser_string (drop 33 f)) (\<lambda>(d, g).
        rbind (deser_string g) (\<lambda>(s, g).
        rbind (deser_string g) (\<lambda>(rp, g).
        Inr (txo\<lparr>scriptPubKey := s, out_part := Some (part\<lparr>commitment := take 33 f, part_data := d, rangeproof := rp\<rparr>)\<rparr>, g))))
      else Inl (ValueError ''Unknown output type''))"

definition CTxOutPart_serialize :: "bool \<Rightarrow> CTxOut \<Rightarrow> bytes res" where
  "CTxOutPart_serialize with_witness txo =
     (case out_part txo of
        None \<Rightarrow> Inl AttributeError
      | Some part \<Rightarrow>
          rbind (mk_byte (part_version part)) (\<lambda>v.
          if part_version part = OUTPUT_TYPE_STANDARD then
            rbind (to_bytes_le 8 (nValue txo)) (\<lambda>n. rbind (ser_string (scriptPubKey txo)) (\<lambda>s. Inr (v # n @ s)))
          else if part_version part = OUTPUT_TYPE_DATA then
            rbind (ser_string (part_data part)) (\<lambda>d. Inr (v # d))
          else if part_version part = OUTPUT_TYPE_CT then
            if length (commitment part) \<noteq> 33 then Inl AssertionError
            else
              rbind (ser_string (part_data part)) (\<lambda>d.
              rbind (ser_string (scriptPubKey txo)) (\<lambda>s.
              rbind (if with_witness then ser_string (rangeproof part) else ser_compact_size 0) (\<lambda>rp.
              Inr (v # commitment part @ d @ s @ rp))))
          else Inl (ValueError ''Unknown output type'')))"

subsection \<open>Transactions\<close>

text \<open>\<open>tx_wit\<close> holds the stacks of \<open>wit.vtxinwit\<close>.\<close>

record CTransaction =
  nVersion :: int
  tx_vin :: "CTxIn list"
  tx_vout :: "CTxOut list"
  tx_wit :: "bytes list list"
  nLockTime :: int

definition PARTICL_TX_VERSION :: int where "PARTICL_TX_VERSION = 0xA0"

definition CTransaction_deserialize :: "bool \<Rightarrow> CTransaction reader" where
  "CTransaction_deserialize allow_witness f =
     (let v = from_le (take 1 f); g = drop 1 f in
      if v = PARTICL_TX_VERSION then
        let v = v + push_bit 8 (from_le (take 1 g)); g = drop 1 g; t = from_le (take 4 g) in
        rbind (deser_vector CTxIn_deserialize (drop 4 g)) (\<lambda>(i, g).
        rbind (deser_vector CTxOutPart_deserialize g) (\<lambda>(outs, g).
        rbind (deser_items (deser_vector deser_string) (length i) g) (\<lambda>(w, g).
        Inr (\<lparr>nVersion = v, tx_vin = i, tx_vout = outs, tx_wit = w, nLockTime = t\<rparr>, g))))
      else
        let v = v + push_bit 8 (from_le (take 3 g)) in
        rbind (deser_vector CTxIn_deserialize (drop 3 g)) (\<lambda>(i, g).
        let flags = (if i = [] \<and> allow_witness then from_le (take 1 g) else 0) in
        rbind (if i = [] \<and> allow_witness then
                 if flags \<noteq> 0 then
                   rbind (deser_vector CTxIn_deserialize (drop 1 g)) (\<lambda>(i, g).
                   rbind (deser_vector CTxOut_deserialize g) (\<lambda>(outs, g). Inr ((i, outs), g)))
                 else Inr (([], []), drop 1 g)
               else rbind (deser_vector CTxOut_deserialize g) (\<lambda>(outs, g). Inr ((i, outs), g))) (\<lambda>((i, outs), g).
        rbind (if flags \<noteq> 0 then deser_items (deser_vector deser_string) (length i) g else Inr ([], g)) (\<lambda>(w, g).
        Inr (\<lparr>nVersion = v, tx_vin = i, tx_vout = outs, tx_wit = w, nLockTime = from_le (take 4 g)\<rparr>, drop 4 g)))))"

definition is_particl :: "CTransaction \<Rightarrow> bool" where
  "is_particl tx \<longleftrightarrow> nVersion tx AND 0xFF = PARTICL_TX_VERSION"

definition particl_body :: "bool \<Rightarrow> CTransaction \<Rightarrow> bytes res" where
  "particl_body include_rangeproof tx =
     rbind (to_bytes_le 2 (nVersion tx)) (\<lambda>v.
     rbind (to_bytes_le 4 (nLockTime tx)) (\<lambda>t.
     rbind (ser_vector CTxIn_serialize (tx_vin tx)) (\<lambda>i.
     rbind (ser_vector (CTxOutPart_serialize include_rangeproof) (tx_vout tx)) (\<lambda>outs. Inr (v @ t @ i @ outs)))))"

definition serialize_without_witness :: "CTransaction \<Rightarrow> bytes res" where
  "serialize_without_witness tx =
     (if is_particl tx then particl_body False tx
      else
        rbind (to_bytes_le 4 (nVersion tx)) (\<lambda>v.
        rbind (ser_vector CTxIn_serialize (tx_vin tx)) (\<lambda>i.
        rbind (ser_vector CTxOut_serialize (tx_vout tx)) (\<lambda>outs.
        rbind (to_bytes_le 4 (nLockTime tx)) (\<lambda>t. Inr (v @ i @ outs @ t))))))"

text \<open>The witness stacks are filled up with empty ones to the number of inputs, or cut to it; the particl branch only fills up.\<close>

definition witness_for :: "CTransaction \<Rightarrow> bytes list list" where
  "witness_for tx =
     (let k = length (tx_vin tx); w = tx_wit tx
      in (if is_particl tx then w else take k w) @ replicate (k - length w) [])"

definition wit_is_null :: "CTransaction \<Rightarrow> bool" where
  "wit_is_null tx \<longleftrightarrow> list_all (\<lambda>s. s = []) (tx_wit tx)"

definition serialize_with_witness :: "CTransaction \<Rightarrow> bytes res" where
  "serialize_with_witness tx =
     (if is_particl tx then
        rbind (particl_body True tx) (\<lambda>r. rbind (ser_items (ser_vector ser_string) (witness_for tx)) (\<lambda>w. Inr (r @ w)))
      else
        rbind (to_bytes_le 4 (nVersion tx)) (\<lambda>v.
        rbind (ser_vector CTxIn_serialize (tx_vin tx)) (\<lambda>i.
        rbind (ser_vector CTxOut_serialize (tx_vout tx)) (\<lambda>outs.
        rbind (if wit_is_null tx then Inr [] else ser_items (ser_vector ser_string) (witness_for tx)) (\<lambda>w.
        rbind (to_bytes_le 4 (nLockTime tx)) (\<lambda>t.
        Inr (v @ (if wit_is_null tx then [] else [0, 1]) @ i @ outs @ w @ t)))))))"

definition hash256 :: "(bytes \<Rightarrow> bytes) \<Rightarrow> bytes \<Rightarrow> bytes" where
  "hash256 sha256 s = sha256 (sha256 s)"

text \<open>The attribute \<open>sha256\<close> after \<open>rehash()\<close>: the id of a transaction as a number.\<close>

definition calc_sha256 :: "(bytes \<Rightarrow> bytes) \<Rightarrow> CTransaction \<Rightarrow> int res" where
  "calc_sha256 sha256 tx = rbind (serialize_without_witness tx) (\<lambda>s. Inr (from_le (take 32 (hash256 sha256 s))))"

section \<open>Specification vocabulary\<close>

text \<open>Values the wire format can hold.\<close>

definition string_ok :: "bytes \<Rightarrow> bool" where
  "string_ok s \<longleftrightarrow> length s < 2 ^ 64"

definition outpoint_ok :: "COutPoint \<Rightarrow> bool" where
  "outpoint_ok p \<longleftrightarrow> 0 \<le> outpoint_hash p \<and> outpoint_hash p < 2 ^ 256 \<and> 0 \<le> outpoint_n p \<and> outpoint_n p < 2 ^ 32"

definition txin_ok :: "CTxIn \<Rightarrow> bool" where
  "txin_ok i \<longleftrightarrow> outpoint_ok (prevout i) \<and> string_ok (scriptSig i) \<and> 0 \<le> nSequence i \<and> nSequence i < 2 ^ 32"

definition txout_ok :: "CTxOut \<Rightarrow> bool" where
  "txout_ok txo \<longleftrightarrow> - (2 ^ 63) \<le> nValue txo \<and> nValue txo < 2 ^ 63 \<and> string_ok (scriptPubKey txo) \<and> out_part txo = None"

definition vector_ok :: "('a \<Rightarrow> bool) \<Rightarrow> 'a list \<Rightarrow> bool" where
  "vector_ok ok l \<longleftrightarrow> length l < 2 ^ 64 \<and> list_all ok l"

text \<open>Outputs of a Particl transaction hold in each type only the fields of that type.\<close>

definition part_txout_ok :: "CTxOut \<Rightarrow> bool" where
  "part_txout_ok txo \<longleftrightarrow>
     (case out_part txo of
        None \<Rightarrow> False
      | Some p \<Rightarrow>
          (part_version p = OUTPUT_TYPE_STANDARD \<and> 0 \<le> nValue txo \<and> nValue txo < 2 ^ 64 \<and> string_ok (scriptPubKey txo)
             \<and> commitment p = [] \<and> part_data p = [] \<and> rangeproof p = [])
          \<or> (part_version p = OUTPUT_TYPE_DATA \<and> nValue txo = 0 \<and> scriptPubKey txo = [] \<and> string_ok (part_data p)
             \<and> commitment p = [] \<and> rangeproof p = [])
          \<or> (part_version p = OUTPUT_TYPE_CT \<and> nValue txo = 0 \<and> length (commitment p) = 33 \<and> string_ok (part_data p)
             \<and> string_ok (scriptPubKey txo) \<and> string_ok (rangeproof p)))"

definition tx_ok :: "CTransaction \<Rightarrow> bool" where
  "tx_ok tx \<longleftrightarrow> 0 \<le> nVersion tx \<and> nVersion tx < (if is_particl tx then 2 ^ 16 else 2 ^ 32)
     \<and> vector_ok txin_ok (tx_vin tx) \<and> vector_ok (if is_particl tx then part_txout_ok else txout_ok) (tx_vout tx)
     \<and> list_all (vector_ok string_ok) (tx_wit tx) \<and> (is_particl tx \<longrightarrow> length (tx_wit tx) \<le> length (tx_vin tx))
     \<and> 0 \<le> nLockTime tx \<and> nLockTime tx < 2 ^ 32"

text \<open>The transaction a reader gets: without a witness when all stacks are empty, else with one stack for each input.\<close>

definition normal_wit :: "CTransaction \<Rightarrow> CTransaction" where
  "normal_wit tx = (if \<not> is_particl tx \<and> wit_is_null tx then tx\<lparr>tx_wit := []\<rparr> else tx\<lparr>tx_wit := witness_for tx\<rparr>)"

text \<open>A signed transaction.\<close>

definition signed_example :: CTransaction where
  "signed_example = \<lparr>nVersion = 2, tx_vin = [\<lparr>prevout = \<lparr>outpoint_hash = 77, outpoint_n = 1\<rparr>, scriptSig = [], nSequence = 5\<rparr>],
     tx_vout = [\<lparr>nValue = 100000, scriptPubKey = [0, 1, 9], out_part = None\<rparr>], tx_wit = [[[1, 2], []]], nLockTime = 0\<rparr>"

section \<open>Reading back what was written\<close>

locale stream_codec =
  fixes ser :: "'a \<Rightarrow> bytes res"
    and deser :: "'a reader"
    and ok :: "'a \<Rightarrow> bool"
  assumes ser_total: "ok x \<Longrightarrow> \<exists>b. ser x = Inr b"
    and deser_ser: "ok x \<Longrightarrow> ser x = Inr b \<Longrightarrow> deser (b @ rest) = Inr (x, rest)"
begin

lemma items_total: "list_all ok xs \<Longrightarrow> \<exists>b. ser_items ser xs = Inr b"
  by (induction xs) (auto dest!: ser_total simp: rbind_Inr_iff)

lemma items_read: "list_all ok xs \<Longrightarrow> ser_items ser xs = Inr b \<Longrightarrow> deser_items deser (length xs) (b @ rest) = Inr (xs, rest)"
  by (induction xs arbitrary: b) (auto simp: rbind_Inr_iff deser_ser)

lemma ser_inject: "ok x \<Longrightarrow> ok y \<Longrightarrow> ser x = ser y \<Longrightarrow> x = y"
  using ser_total [of x] deser_ser [of x _ "[]"] deser_ser [of y _ "[]"] by auto

end

lemma to_bytes_le_total: "0 \<le> v \<Longrightarrow> v < 256 ^ n \<Longrightarrow> \<exists>b. to_bytes_le n v = Inr b"
  by (simp add: to_bytes_le_def)

lemma to_bytes_le_length: "to_bytes_le n v = Inr b \<Longrightarrow> length b = n \<and> from_le b = v"
  by (simp add: to_bytes_le_Inr_iff)

lemma from_le_signed_to_bytes:
  assumes "to_bytes_le_signed n v = Inr b" "0 < n"
  shows "length b = n \<and> from_le_signed b = v"
proof -
  have v: "- (256 ^ n) \<le> 2 * v" "2 * v < 256 ^ n" and b: "b = le_bytes n (v mod 256 ^ n)"
    using assms(1) by (auto simp: to_bytes_le_signed_def split: if_splits)
  have len: "length b = n"
    by (simp add: b)
  then have "b \<noteq> []"
    using assms(2) by auto
  note len = len this
  have val: "from_le b = v mod 256 ^ n"
    by (simp add: b from_le_le_bytes)
  have split: "from_le b = from_le (butlast b) + 256 ^ (n - 1) * uint (last b)"
    using from_le_append [of "butlast b" "[last b]"] len by (simp add: append_butlast_last_id)
  have low: "0 \<le> from_le (butlast b)" "from_le (butlast b) < 256 ^ (n - 1)"
    using from_le_range [of "butlast b"] len by auto
  have pow: "256 ^ n = 256 * (256::int) ^ (n - 1)"
    using assms(2) by (simp add: power_eq_if)
  have top: "128 \<le> uint (last b) \<longleftrightarrow> 128 * 256 ^ (n - 1) \<le> from_le b"
  proof
    assume "128 \<le> uint (last b)"
    then have "256 ^ (n - 1) * 128 \<le> 256 ^ (n - 1) * uint (last b)"
      by (rule mult_left_mono) simp
    then show "128 * 256 ^ (n - 1) \<le> from_le b"
      using split low by linarith
  next
    assume le: "128 * 256 ^ (n - 1) \<le> from_le b"
    show "128 \<le> uint (last b)"
    proof (rule ccontr)
      assume "\<not> 128 \<le> uint (last b)"
      then have "256 ^ (n - 1) * uint (last b) \<le> 256 ^ (n - 1) * 127"
        by (intro mult_left_mono) auto
      then show False
        using split low le by linarith
    qed
  qed
  show ?thesis
  proof (cases "0 \<le> v")
    case True
    then have "v mod 256 ^ n = v"
      using v by simp
    then show ?thesis
      using True v top val len pow by (simp add: from_le_signed_def)
  next
    case False
    then have "v mod 256 ^ n = v + 256 ^ n"
      using v mod_pos_pos_trivial [of "v + 256 ^ n" "256 ^ n"] by simp
    then show ?thesis
      using False v top val len pow by (simp add: from_le_signed_def)
  qed
qed

interpretation compact: stream_codec ser_compact_size deser_compact_size "\<lambda>l. 0 \<le> l \<and> l < 2 ^ 64"
proof
  fix l :: int assume "0 \<le> l \<and> l < 2 ^ 64"
  then show "\<exists>b. ser_compact_size l = Inr b"
    by (auto simp: ser_compact_size_def rbind_Inr_iff to_bytes_le_def)
next
  fix l :: int and b rest assume l: "0 \<le> l \<and> l < 2 ^ 64" and b: "ser_compact_size l = Inr b"
  have one: "from_le (take 1 (b @ rest)) = l" "drop 1 (b @ rest) = rest" if "to_bytes_le 1 l = Inr b"
    using to_bytes_le_length [OF that] by simp_all
  show "deser_compact_size (b @ rest) = Inr (l, rest)"
    using b one
    by (auto simp: ser_compact_size_def deser_compact_size_def rbind_Inr_iff Let_def split: if_splits dest!: to_bytes_le_length)
qed

lemma compact_length:
  assumes "n < 2 ^ 64"
  shows "\<exists>b. ser_compact_size (int n) = Inr b" "ser_compact_size (int n) = Inr b \<Longrightarrow> deser_compact_size (b @ rest) = Inr (int n, rest)"
proof -
  have "int n < 2 ^ 64"
    using assms by (metis of_nat_less_iff of_nat_numeral of_nat_power)
  then show "\<exists>b. ser_compact_size (int n) = Inr b" "ser_compact_size (int n) = Inr b \<Longrightarrow> deser_compact_size (b @ rest) = Inr (int n, rest)"
    by (simp_all only: compact.ser_total compact.deser_ser of_nat_0_le_iff simp_thms)
qed

interpretation str: stream_codec ser_string deser_string string_ok
proof
  fix s assume "string_ok s"
  then show "\<exists>b. ser_string s = Inr b"
    using compact_length(1) [of "length s"] by (auto simp: string_ok_def ser_string_def rbind_Inr_iff)
next
  fix s b rest assume "string_ok s" "ser_string s = Inr b"
  then show "deser_string (b @ rest) = Inr (s, rest)"
    by (auto simp: string_ok_def ser_string_def deser_string_def rbind_Inr_iff compact_length(2))
qed

context stream_codec
begin

lemma vector: "stream_codec (ser_vector ser) (deser_vector deser) (vector_ok ok)"
proof
  fix xs assume "vector_ok ok xs"
  then show "\<exists>b. ser_vector ser xs = Inr b"
    using compact_length(1) [of "length xs"] items_total [of xs] by (auto simp: vector_ok_def ser_vector_def rbind_Inr_iff)
next
  fix xs b rest assume "vector_ok ok xs" "ser_vector ser xs = Inr b"
  then show "deser_vector deser (b @ rest) = Inr (xs, rest)"
    by (auto simp: vector_ok_def ser_vector_def deser_vector_def rbind_Inr_iff compact_length(2) items_read)
qed

end

interpretation outpoint: stream_codec COutPoint_serialize COutPoint_deserialize outpoint_ok
proof
  fix p assume "outpoint_ok p"
  then show "\<exists>b. COutPoint_serialize p = Inr b"
    by (simp add: outpoint_ok_def COutPoint_serialize_def rbind_Inr_iff to_bytes_le_def)
next
  fix p b rest assume "outpoint_ok p" "COutPoint_serialize p = Inr b"
  then show "COutPoint_deserialize (b @ rest) = Inr (p, rest)"
    by (auto simp: COutPoint_serialize_def COutPoint_deserialize_def rbind_Inr_iff dest!: to_bytes_le_length)
qed

interpretation txin: stream_codec CTxIn_serialize CTxIn_deserialize txin_ok
proof
  fix i assume "txin_ok i"
  then show "\<exists>b. CTxIn_serialize i = Inr b"
    using outpoint.ser_total [of "prevout i"] str.ser_total [of "scriptSig i"]
    by (auto simp: txin_ok_def CTxIn_serialize_def rbind_Inr_iff to_bytes_le_def)
next
  fix i b rest assume "txin_ok i" "CTxIn_serialize i = Inr b"
  then show "CTxIn_deserialize (b @ rest) = Inr (i, rest)"
    by (auto simp: txin_ok_def CTxIn_serialize_def CTxIn_deserialize_def rbind_Inr_iff outpoint.deser_ser str.deser_ser
      dest!: to_bytes_le_length)
qed

interpretation txout: stream_codec CTxOut_serialize CTxOut_deserialize txout_ok
proof
  fix txo assume "txout_ok txo"
  then show "\<exists>b. CTxOut_serialize txo = Inr b"
    using str.ser_total [of "scriptPubKey txo"]
    by (auto simp: txout_ok_def CTxOut_serialize_def rbind_Inr_iff to_bytes_le_signed_def)
next
  fix txo b rest assume "txout_ok txo" "CTxOut_serialize txo = Inr b"
  then show "CTxOut_deserialize (b @ rest) = Inr (txo, rest)"
    by (auto simp: txout_ok_def CTxOut_serialize_def CTxOut_deserialize_def rbind_Inr_iff str.deser_ser
      dest!: from_le_signed_to_bytes)
qed

lemmas output_types = OUTPUT_TYPE_STANDARD_def OUTPUT_TYPE_CT_def OUTPUT_TYPE_DATA_def

interpretation part_txout: stream_codec "CTxOutPart_serialize True" CTxOutPart_deserialize part_txout_ok
proof
  fix txo assume "part_txout_ok txo"
  then show "\<exists>b. CTxOutPart_serialize True txo = Inr b"
    by (cases "out_part txo") (auto simp: part_txout_ok_def CTxOutPart_serialize_def rbind_Inr_iff to_bytes_le_def output_types dest!: str.ser_total)
next
  fix txo b rest assume "part_txout_ok txo" "CTxOutPart_serialize True txo = Inr b"
  then show "CTxOutPart_deserialize (b @ rest) = Inr (txo, rest)"
    by (cases "out_part txo")
      (auto simp: part_txout_ok_def CTxOutPart_serialize_def CTxOutPart_deserialize_def rbind_Inr_iff output_types Let_def str.deser_ser
        dest!: to_bytes_le_length)
qed

interpretation txins: stream_codec "ser_vector CTxIn_serialize" "deser_vector CTxIn_deserialize" "vector_ok txin_ok"
  by (rule txin.vector)

interpretation txouts: stream_codec "ser_vector CTxOut_serialize" "deser_vector CTxOut_deserialize" "vector_ok txout_ok"
  by (rule txout.vector)

interpretation part_txouts: stream_codec "ser_vector (CTxOutPart_serialize True)" "deser_vector CTxOutPart_deserialize" "vector_ok part_txout_ok"
  by (rule part_txout.vector)

interpretation stack: stream_codec "ser_vector ser_string" "deser_vector deser_string" "vector_ok string_ok"
  by (rule str.vector)

text \<open>A version is read in two steps.\<close>

lemma version_parts:
  assumes "to_bytes_le n v = Inr b" "0 < n"
  obtains x xs where "b = x # xs" "length xs = n - 1" "uint x = v mod 256" "from_le xs = v div 256"
proof -
  obtain x xs where b: "b = x # xs" "length xs = n - 1"
    using to_bytes_le_length [OF assms(1)] assms(2) by (cases b) auto
  have v: "v = uint x + 256 * from_le xs"
    using to_bytes_le_length [OF assms(1)] b by simp
  have "0 \<le> uint x" "uint x < 256"
    by (simp_all add: byte_simps)
  then have "uint x = v mod 256" "from_le xs = v div 256"
    using v by simp_all
  with b that show thesis
    by blast
qed

lemma is_particl_mod: "is_particl tx \<longleftrightarrow> nVersion tx mod 256 = PARTICL_TX_VERSION"
  by (simp add: is_particl_def int_and_255)

lemma witness_for_ok:
  assumes "tx_ok tx"
  shows "length (witness_for tx) = length (tx_vin tx)" "list_all (vector_ok string_ok) (witness_for tx)"
  using assms by (auto simp: tx_ok_def witness_for_def Let_def list_all_iff vector_ok_def dest: in_set_takeD)

lemma no_inputs_read: "deser_vector CTxIn_deserialize (0 # g) = Inr ([], g)"
  by (simp add: deser_vector_def deser_compact_size_def rbind_def)

lemma read_plain:
  assumes ok: "tx_ok tx" "\<not> is_particl tx" "wit_is_null tx" and inputs: "tx_vin tx \<noteq> [] \<or> \<not> allow_witness"
    and b: "serialize_with_witness tx = Inr b"
  shows "CTransaction_deserialize allow_witness (b @ rest) = Inr (tx\<lparr>tx_wit := []\<rparr>, rest)"
proof -
  obtain v i outs t where parts: "to_bytes_le 4 (nVersion tx) = Inr v" "ser_vector CTxIn_serialize (tx_vin tx) = Inr i"
      "ser_vector CTxOut_serialize (tx_vout tx) = Inr outs" "to_bytes_le 4 (nLockTime tx) = Inr t" "b = v @ i @ outs @ t"
    using b ok by (auto simp: serialize_with_witness_def rbind_Inr_iff)
  have vec: "vector_ok txin_ok (tx_vin tx)" "vector_ok txout_ok (tx_vout tx)"
    using ok by (auto simp: tx_ok_def)
  obtain x xs where v: "v = x # xs" "length xs = 3" "uint x = nVersion tx mod 256" "from_le xs = nVersion tx div 256"
    using version_parts [OF parts(1)] by auto
  show ?thesis
    using inputs ok v to_bytes_le_length [OF parts(4)]
    by (auto simp: CTransaction_deserialize_def parts(5) is_particl_mod txins.deser_ser [OF vec(1) parts(2)] txouts.deser_ser [OF vec(2) parts(3)]
        rbind_def Let_def push_bit_eq_mult)
qed

lemma read_witness:
  assumes ok: "tx_ok tx" "\<not> is_particl tx" "\<not> wit_is_null tx" and b: "serialize_with_witness tx = Inr b"
  shows "CTransaction_deserialize True (b @ rest) = Inr (tx\<lparr>tx_wit := witness_for tx\<rparr>, rest)"
proof -
  obtain v i outs w t where parts: "to_bytes_le 4 (nVersion tx) = Inr v" "ser_vector CTxIn_serialize (tx_vin tx) = Inr i"
      "ser_vector CTxOut_serialize (tx_vout tx) = Inr outs" "ser_items (ser_vector ser_string) (witness_for tx) = Inr w"
      "to_bytes_le 4 (nLockTime tx) = Inr t" "b = v @ [0, 1] @ i @ outs @ w @ t"
    using b ok by (auto simp: serialize_with_witness_def rbind_Inr_iff)
  have vec: "vector_ok txin_ok (tx_vin tx)" "vector_ok txout_ok (tx_vout tx)"
    using ok by (auto simp: tx_ok_def)
  have wit: "deser_items (deser_vector deser_string) (length (tx_vin tx)) (w @ r) = Inr (witness_for tx, r)" for r
    using stack.items_read [OF witness_for_ok(2) [OF ok(1)] parts(4), of r] by (simp add: witness_for_ok(1) [OF ok(1)])
  obtain x xs where v: "v = x # xs" "length xs = 3" "uint x = nVersion tx mod 256" "from_le xs = nVersion tx div 256"
    using version_parts [OF parts(1)] by auto
  show ?thesis
    using ok v to_bytes_le_length [OF parts(5)]
    by (simp add: CTransaction_deserialize_def parts(6) is_particl_mod no_inputs_read txins.deser_ser [OF vec(1) parts(2)] txouts.deser_ser [OF vec(2) parts(3)]
        wit rbind_def Let_def push_bit_eq_mult)
qed

lemma read_particl:
  assumes ok: "tx_ok tx" "is_particl tx" and b: "serialize_with_witness tx = Inr b"
  shows "CTransaction_deserialize allow_witness (b @ rest) = Inr (tx\<lparr>tx_wit := witness_for tx\<rparr>, rest)"
proof -
  obtain v i outs w t where parts: "to_bytes_le 2 (nVersion tx) = Inr v" "ser_vector CTxIn_serialize (tx_vin tx) = Inr i"
      "ser_vector (CTxOutPart_serialize True) (tx_vout tx) = Inr outs" "ser_items (ser_vector ser_string) (witness_for tx) = Inr w"
      "to_bytes_le 4 (nLockTime tx) = Inr t" "b = v @ t @ i @ outs @ w"
    using b ok by (auto simp: serialize_with_witness_def particl_body_def rbind_Inr_iff)
  have vec: "vector_ok txin_ok (tx_vin tx)" "vector_ok part_txout_ok (tx_vout tx)"
    using ok by (auto simp: tx_ok_def)
  have wit: "deser_items (deser_vector deser_string) (length (tx_vin tx)) (w @ r) = Inr (witness_for tx, r)" for r
    using stack.items_read [OF witness_for_ok(2) [OF ok(1)] parts(4), of r] by (simp add: witness_for_ok(1) [OF ok(1)])
  obtain x xs where v: "v = x # xs" "length xs = 1" "uint x = nVersion tx mod 256" "from_le xs = nVersion tx div 256"
    using version_parts [OF parts(1)] by auto
  have ver: "PARTICL_TX_VERSION + nVersion tx div 256 * 256 = nVersion tx"
    using ok(2) mult_div_mod_eq [of 256 "nVersion tx"] by (simp add: is_particl_mod)
  show ?thesis
    using ok v to_bytes_le_length [OF parts(5)]
    by (simp add: CTransaction_deserialize_def parts(6) is_particl_mod txins.deser_ser [OF vec(1) parts(2)] part_txouts.deser_ser [OF vec(2) parts(3)]
        wit ver rbind_def Let_def push_bit_eq_mult)
qed

lemma serialize_total:
  assumes "tx_ok tx"
  shows "\<exists>b. serialize_with_witness tx = Inr b"
proof -
  have wit: "\<exists>w. ser_items (ser_vector ser_string) (witness_for tx) = Inr w"
    by (rule stack.items_total [OF witness_for_ok(2) [OF assms]])
  have vins: "\<exists>i. ser_vector CTxIn_serialize (tx_vin tx) = Inr i"
    using assms by (intro txins.ser_total) (simp add: tx_ok_def)
  show ?thesis
  proof (cases "is_particl tx")
    case True
    then have "\<exists>outs. ser_vector (CTxOutPart_serialize True) (tx_vout tx) = Inr outs"
      using assms by (intro part_txouts.ser_total) (simp add: tx_ok_def)
    then show ?thesis
      using wit vins True assms by (auto simp: serialize_with_witness_def particl_body_def rbind_Inr_iff tx_ok_def to_bytes_le_def)
  next
    case False
    then have "\<exists>outs. ser_vector CTxOut_serialize (tx_vout tx) = Inr outs"
      using assms by (intro txouts.ser_total) (simp add: tx_ok_def)
    then show ?thesis
      using wit vins False assms by (auto simp: serialize_with_witness_def rbind_Inr_iff tx_ok_def to_bytes_le_def)
  qed
qed

text \<open>C38. Transactions survive serialisation. A transaction whose fields fit the wire format is written without an error, and \<open>deserialize\<close> gets it back
  from the bytes, whatever follows them: Particl transactions, transactions with a witness (filled up to one stack for each input) and
  those without. Only a transaction without inputs has to be read with \<open>allow_witness\<close> off, since its count of inputs is taken for the
  marker of a witness.\<close>

theorem transaction_roundtrip:
  assumes "tx_ok tx" "tx_vin tx = [] \<longrightarrow> is_particl tx \<or> (wit_is_null tx \<and> \<not> allow_witness)" "wit_is_null tx \<or> allow_witness \<or> is_particl tx"
  shows "\<exists>b. serialize_with_witness tx = Inr b \<and> CTransaction_deserialize allow_witness (b @ rest) = Inr (normal_wit tx, rest)"
proof -
  obtain b where b: "serialize_with_witness tx = Inr b"
    using serialize_total [OF assms(1)] by auto
  consider "is_particl tx" | "\<not> is_particl tx" "wit_is_null tx" | "\<not> is_particl tx" "\<not> wit_is_null tx" "allow_witness"
    using assms by blast
  then show ?thesis
  proof cases
    case 1
    then show ?thesis
      using b read_particl [OF assms(1) 1 b] by (auto simp: normal_wit_def)
  next
    case 2
    then show ?thesis
      using b read_plain [OF assms(1) 2 _ b] assms(2) by (auto simp: normal_wit_def)
  next
    case 3
    then show ?thesis
      using b read_witness [OF assms(1) 3(1,2) b] by (auto simp: normal_wit_def)
  qed
qed

theorem transaction_roundtrip_witness:
  "\<exists>b. serialize_with_witness signed_example = Inr b \<and> CTransaction_deserialize True (b @ [7]) = Inr (normal_wit signed_example, [7])
     \<and> tx_wit (normal_wit signed_example) = [[[1, 2], []]]"
proof -
  have "tx_ok signed_example"
    by (simp add: signed_example_def tx_ok_def is_particl_def PARTICL_TX_VERSION_def vector_ok_def txin_ok_def outpoint_ok_def txout_ok_def string_ok_def)
  moreover have "tx_wit (normal_wit signed_example) = [[[1, 2], []]]"
    by code_simp
  ultimately show ?thesis
    using transaction_roundtrip [of signed_example True "[7]"] by (simp add: signed_example_def)
qed

end
