(* ===== verification/Python_Float.thy ===== *)
theory Python_Float
  imports Prelude
begin

text \<open>
  The numbers of Python that the fee code needs besides integers: \<open>int.bit_length\<close>, the quotient \<open>a / b\<close> of two integers as a double and
  \<open>math.ceil\<close> of it. CPython rounds such a quotient once, to the nearest double with ties to the even one. A finite double is a
  pair of a numerator and a denominator that is a power of two; quotients of a size below the normal doubles do not occur and are not
  modelled. The fee of \<open>FeeValidator.feeForVSize\<close> (\<open>src/basicswap/interface/utils.py\<close>) is computed this way, and the main result is that it is the exact
  ceiling for all fees below \<open>2\<^sup>4\<^sup>3\<close> sats.
\<close>

section \<open>Definitions\<close>

function bit_length :: "int \<Rightarrow> nat" where
  "bit_length v = (if v = 0 then 0 else Suc (bit_length (\<bar>v\<bar> div 2)))"
  by pat_completeness auto
termination
  by (relation "measure (\<lambda>v. nat \<bar>v\<bar>)") auto

declare bit_length.simps [simp del]

definition round_half_even :: "int \<Rightarrow> int \<Rightarrow> int" where
  "round_half_even x y =
     (let k = x div y; r = x mod y in if 2 * r < y \<or> (2 * r = y \<and> even k) then k else k + 1)"

text \<open>The exponent of the last place of the double nearest to a positive \<open>a / b\<close>.\<close>

definition ulp_exponent :: "int \<Rightarrow> int \<Rightarrow> int" where
  "ulp_exponent a b =
     (let d = int (bit_length a) - int (bit_length b);
          at_least = (if 0 \<le> d then b * 2 ^ nat d \<le> a else b \<le> a * 2 ^ nat (- d))
      in (if at_least then d else d - 1) - 52)"

definition true_divide :: "int \<Rightarrow> int \<Rightarrow> (int \<times> int) res" where
  "true_divide a b =
     (if b = 0 then Inl (OtherError ''ZeroDivisionError'')
      else if a = 0 then Inr (0, 1)
      else let s = sgn a * sgn b; q = ulp_exponent \<bar>a\<bar> \<bar>b\<bar> in
           if 0 \<le> q then Inr (s * round_half_even \<bar>a\<bar> (\<bar>b\<bar> * 2 ^ nat q) * 2 ^ nat q, 1)
           else Inr (s * round_half_even (\<bar>a\<bar> * 2 ^ nat (- q)) \<bar>b\<bar>, 2 ^ nat (- q)))"

text \<open>\<open>math.ceil\<close> of a double.\<close>

definition float_ceil :: "int \<times> int \<Rightarrow> int" where
  "float_ceil v = - ((- fst v) div snd v)"

definition feeForVSize :: "int \<Rightarrow> int \<Rightarrow> int res" where
  "feeForVSize fee_rate vsize = rbind (true_divide (fee_rate * vsize) 1000) (\<lambda>v. Inr (float_ceil v))"

definition compareFeeRates :: "int \<Rightarrow> int \<Rightarrow> bool" where
  "compareFeeRates actual expected = (if actual < expected then False else actual - expected < 10)"

section \<open>Rounding\<close>

lemma bit_length_0 [simp]: "bit_length 0 = 0"
  by (simp add: bit_length.simps)

lemma bit_length_bounds: "0 < v \<Longrightarrow> 0 < bit_length v \<and> 2 ^ (bit_length v - 1) \<le> v \<and> v < 2 ^ bit_length v"
proof (induction v rule: bit_length.induct)
  case (1 v)
  show ?case
  proof (cases "v = 1")
    case True
    then show ?thesis
      by (simp add: bit_length.simps)
  next
    case False
    then have "0 < v div 2" "\<bar>v\<bar> div 2 = v div 2" "bit_length v = Suc (bit_length (v div 2))"
      using 1(2) by (auto simp: bit_length.simps [of v])
    then show ?thesis
      using 1 by (cases "bit_length (v div 2)") auto
  qed
qed

lemma round_half_even_near: "0 < y \<Longrightarrow> 2 * \<bar>y * round_half_even x y - x\<bar> \<le> y"
proof -
  assume y: "0 < y"
  define k r where "k = x div y" and "r = x mod y"
  have x: "x = y * k + r" "0 \<le> r" "r < y"
    using y by (simp_all add: k_def r_def)
  have "round_half_even x y = k \<and> 2 * r \<le> y \<or> round_half_even x y = k + 1 \<and> y \<le> 2 * r"
    by (auto simp: round_half_even_def Let_def k_def r_def)
  moreover have "y * k - x = - r" "y * (k + 1) - x = y - r"
    using x by (simp_all add: algebra_simps)
  ultimately show ?thesis
    using x by auto
qed

lemma round_half_even_exact: "0 < y \<Longrightarrow> round_half_even (y * k) y = k"
  by (simp add: round_half_even_def)

lemma ulp_exponent_small:
  assumes "0 < a" "0 < b" "a < b * 2 ^ k"
  shows "ulp_exponent a b + 52 < int k"
proof -
  let ?d = "int (bit_length a) - int (bit_length b)"
  have a: "0 < bit_length a" "2 ^ (bit_length a - 1) \<le> a" and b: "b < 2 ^ bit_length b"
    using bit_length_bounds assms by auto
  have "(2::int) ^ (bit_length a - 1) < 2 ^ (bit_length b + k)"
    using a(2) assms(3) mult_strict_right_mono [OF b zero_less_power [of "2::int" k, OF zero_less_numeral]] unfolding power_add by linarith
  then have "bit_length a - 1 < bit_length b + k"
    by (rule power_less_imp_less_exp [rotated]) simp
  then have d: "?d \<le> int k"
    using a(1) by linarith
  show ?thesis
  proof (cases "?d = int k")
    case True
    then show ?thesis
      using assms(3) by (simp add: ulp_exponent_def Let_def)
  next
    case False
    then show ?thesis
      using d by (simp add: ulp_exponent_def Let_def)
  qed
qed

lemma ceil_between: "0 < d \<Longrightarrow> d * (k - 1) < m \<Longrightarrow> m \<le> d * k \<Longrightarrow> float_ceil (m, d) = (k::int)"
proof -
  assume d: "0 < d" and m: "d * (k - 1) < m" "m \<le> d * k"
  have "(- m) div d = - k"
    by (rule int_div_pos_eq [where r = "d * k - m"]) (use d m in \<open>auto simp: algebra_simps\<close>)
  then show ?thesis
    by (simp add: float_ceil_def)
qed

lemma float_ceil_exact:
  assumes "0 < a" "0 < b" "b \<le> 2 ^ 10" "a < b * 2 ^ 43"
  shows "\<exists>v. true_divide a b = Inr v \<and> float_ceil v = - ((- a) div b)"
proof -
  let ?q = "ulp_exponent a b"
  define s where "s = nat (- ?q)"
  have q: "?q < 0" "10 \<le> s"
    using ulp_exponent_small [OF assms(1,2,4)] by (simp_all add: s_def)
  define k m where "k = - ((- a) div b)" and "m = round_half_even (a * 2 ^ s) b"
  have div: "true_divide a b = Inr (m, 2 ^ s)"
    using assms q by (simp add: true_divide_def Let_def m_def s_def)
  obtain r where r: "a = b * k - r" "0 \<le> r" "r < b"
  proof
    have "b * ((- a) div b) + (- a) mod b = - a"
      by simp
    then show "a = b * k - (- a) mod b"
      unfolding k_def mult_minus_right by linarith
  qed (use assms in simp_all)
  have pow: "b \<le> 2 ^ s" "0 < (2::int) ^ s"
    using assms(3) power_increasing [OF q(2), of "2::int"] by simp_all
  have "2 ^ s * (k - 1) < m \<and> m \<le> 2 ^ s * k"
  proof (cases "r = 0")
    case True
    then have "m = 2 ^ s * k"
      using round_half_even_exact [of b "k * 2 ^ s"] assms(2) r by (simp add: m_def mult.assoc)
    then show ?thesis
      using pow by (simp add: algebra_simps)
  next
    case False
    have near: "2 * \<bar>b * m - a * 2 ^ s\<bar> \<le> b"
      unfolding m_def by (rule round_half_even_near) (rule assms)
    have eq: "a * 2 ^ s = b * (2 ^ s * k) - r * 2 ^ s"
      by (subst r(1)) (simp add: algebra_simps)
    have rs: "2 ^ s \<le> r * 2 ^ s" "r * 2 ^ s \<le> (b - 1) * 2 ^ s"
      using r False pow by (simp_all add: mult_right_mono)
    have below: "x < y" if "2 * (x - d) \<le> b" "d = y - c" "p \<le> c" "b \<le> p" "0 < p" for x y c d p :: int
      using that by simp
    have above: "y - e < x" if "2 * (d - x) \<le> b" "d = y - c" "c \<le> e - p" "b \<le> p" "0 < p" for x y c d e p :: int
      using that by simp
    have abs: "2 * (b * m - a * 2 ^ s) \<le> b \<and> 2 * (a * 2 ^ s - b * m) \<le> b"
      using near by (simp add: abs_if split: if_splits)
    have "b * m < b * (2 ^ s * k)"
      by (rule below [OF abs [THEN conjunct1] eq rs(1) pow])
    moreover have "b * (2 ^ s * k) - b * 2 ^ s < b * m"
    proof (rule above [OF abs [THEN conjunct2] eq _ pow])
      show "r * 2 ^ s \<le> b * 2 ^ s - 2 ^ s"
        using rs(2) by (simp add: algebra_simps)
    qed
    then have "b * (2 ^ s * (k - 1)) < b * m"
      by (simp add: algebra_simps)
    ultimately have "b * (2 ^ s * (k - 1)) < b * m \<and> b * m < b * (2 ^ s * k)"
      by simp
    then show ?thesis
      using assms(2) by simp
  qed
  then show ?thesis
    using div pow by (auto simp: k_def intro!: ceil_between)
qed

lemma feeForVSize_exact:
  assumes "0 < fee_rate" "0 < vsize" "fee_rate * vsize < 1000 * 2 ^ 43"
  shows "\<exists>fee. feeForVSize fee_rate vsize = Inr fee \<and> fee_rate * vsize \<le> fee * 1000 \<and> fee * 1000 < fee_rate * vsize + 1000 \<and> 0 < fee"
proof -
  let ?a = "fee_rate * vsize" and ?fee = "- ((- (fee_rate * vsize)) div 1000)"
  have a: "0 < ?a"
    using assms by simp
  then have "feeForVSize fee_rate vsize = Inr ?fee"
    using float_ceil_exact [of ?a 1000] assms by (auto simp: feeForVSize_def rbind_def)
  moreover have "c \<le> - ((- c) div 1000) * 1000 \<and> - ((- c) div 1000) * 1000 < c + 1000 \<and> 0 < - ((- c) div 1000)" if "0 < c" for c :: int
    using that div_mult_mod_eq [of "- c" 1000] pos_mod_bound [of 1000 "- c"] pos_mod_sign [of 1000 "- c"] by linarith
  ultimately show ?thesis
    using a by blast
qed

text \<open>A fee computed for a transaction of at least 100 vbytes is one that \<open>compareFeeRates\<close> accepts for the same rate.\<close>

lemma fee_rate_accepted:
  assumes "fee_rate * vsize \<le> fee * 1000" "fee * 1000 < fee_rate * vsize + 1000" "100 \<le> vsize"
  shows "compareFeeRates (fee * 1000 div vsize) fee_rate"
proof -
  let ?r = "fee * 1000 div vsize"
  have "fee_rate \<le> ?r"
    using zdiv_mono1 [OF assms(1), of vsize] assms(3) by simp
  moreover have "?r < fee_rate + 10"
  proof (rule ccontr)
    assume "\<not> ?r < fee_rate + 10"
    then have "(fee_rate + 10) * vsize \<le> ?r * vsize"
      using assms(3) by (intro mult_right_mono) auto
    also have "\<dots> \<le> fee * 1000"
      using assms(3) minus_mod_eq_div_mult [of "fee * 1000" vsize] pos_mod_sign [of vsize "fee * 1000"] by linarith
    finally show False
      using assms by (simp add: algebra_simps)
  qed
  ultimately show ?thesis
    by (simp add: compareFeeRates_def)
qed

text \<open>C37. Fees are exact. For a positive rate and size whose product is below \<open>1000 * 2\<^sup>4\<^sup>3\<close>, \<open>feeForVSize\<close>, which divides as doubles, returns the exact
  quotient rounded up; for at least 100 vbytes \<open>compareFeeRates\<close> accepts the rate that this fee pays.\<close>

theorem fee_exact_ceiling:
  assumes "0 < fee_rate" "0 < vsize" "fee_rate * vsize < 1000 * 2 ^ 43"
  shows "\<exists>fee. feeForVSize fee_rate vsize = Inr fee \<and> fee = (fee_rate * vsize + 999) div 1000
    \<and> (100 \<le> vsize \<longrightarrow> compareFeeRates (fee * 1000 div vsize) fee_rate)"
proof -
  obtain fee where fee: "feeForVSize fee_rate vsize = Inr fee" "fee_rate * vsize \<le> fee * 1000" "fee * 1000 < fee_rate * vsize + 1000"
    using feeForVSize_exact [OF assms] by blast
  have "(p + 999) div 1000 = fee" if "p \<le> fee * 1000" "fee * 1000 < p + 1000" for p :: int
    using that by (intro int_div_pos_eq [where r = "p + 999 - 1000 * fee"]) auto
  then have "fee = (fee_rate * vsize + 999) div 1000"
    using fee(2,3) by simp
  then show ?thesis
    using fee fee_rate_accepted by blast
qed

theorem fee_exact_ceiling_witness:
  "feeForVSize 2500 150 = Inr 375 \<and> compareFeeRates (375 * 1000 div 150) 2500 \<and> feeForVSize 2501 150 = Inr 376"
  using fee_exact_ceiling [of 2500 150] fee_exact_ceiling [of 2501 150] by simp

end
