(* ===== verification/Lock_Transactions.thy ===== *)
theory Lock_Transactions
  imports Transactions Python_Float Contract_Script
begin

text \<open>
  The transactions of coin A in an adaptor signature swap, as \<open>src/basicswap/interface/btc/btc.py\<close> builds and verifies them: the lock to a
  two-of-two script of leader and follower, its refund to a second script, the spend of the refund by the leader, the swipe of the refund by the follower after a relative
  lock, and the spend of the lock by the follower. The scripts are those of \<open>genScriptLockTxScript\<close>
  (\<open>src/basicswap/protocols/xmr_swap_1.py\<close>) and \<open>genScriptLockRefundTxScript\<close>, put together by \<open>CScript\<close>
  (\<open>src/basicswap/contrib/test_framework/script.py\<close>). The methods are those of \<open>BTCInterface\<close>, which the coins derived from it inherit where they do not
  redefine them; \<open>sha256\<close> and the chain height are arguments. Arguments a method does not use and what is only written to the log are left out.
\<close>

section \<open>Definitions\<close>

subsection \<open>Scripts\<close>

datatype script_item = SOp int | SInt int | SData bytes

definition bn2vch :: "int \<Rightarrow> bytes res" where
  "bn2vch v =
     (let n_bits = bit_length v + (if v \<noteq> 0 then 1 else 0);
          n_bytes = (n_bits + 7) div 8;
          encoded_v = (if v = 0 then 0 else \<bar>v\<bar> OR push_bit (n_bytes * 8 - 1) (if v < 0 then 1 else 0))
      in to_bytes_le n_bytes encoded_v)"

definition encode_op_pushdata :: "bytes \<Rightarrow> bytes res" where
  "encode_op_pushdata d =
     (let l = int (length d) in
      if l < 0x4C then rbind (mk_byte l) (\<lambda>c. Inr (c # d))
      else if l \<le> 0xFF then rbind (mk_byte l) (\<lambda>c. Inr (0x4C # c # d))
      else if l \<le> 0xFFFF then rbind (to_bytes_le 2 l) (\<lambda>c. Inr (0x4D # c @ d))
      else if l \<le> 0xFFFFFFFF then rbind (to_bytes_le 4 l) (\<lambda>c. Inr (0x4E # c @ d))
      else Inl (ValueError ''Data too long to encode in a PUSHDATA op''))"

definition encode_op_n :: "int \<Rightarrow> int res" where
  "encode_op_n n =
     (if \<not> (0 \<le> n \<and> n \<le> 16) then Inl (ValueError ''Integer must be in range 0 <= n <= 16'')
      else if n = 0 then Inr (op OP_0) else Inr (op OP_1 + n - 1))"

primrec coerce_instance :: "script_item \<Rightarrow> bytes res" where
  "coerce_instance (SOp c) = rbind (mk_byte c) (\<lambda>b. Inr [b])"
| "coerce_instance (SInt i) =
     (if 0 \<le> i \<and> i \<le> 16 then rbind (encode_op_n i) (\<lambda>c. rbind (mk_byte c) (\<lambda>b. Inr [b]))
      else if i = -1 then Inr [0x4F]
      else rbind (bn2vch i) encode_op_pushdata)"
| "coerce_instance (SData d) = encode_op_pushdata d"

definition CScript :: "script_item list \<Rightarrow> bytes res" where
  "CScript items = ser_items coerce_instance items"

definition OP_2 :: int where "OP_2 = 0x52"
definition OP_CHECKMULTISIG :: int where "OP_CHECKMULTISIG = 0xAE"

definition genScriptLockTxScript :: "bytes \<Rightarrow> bytes \<Rightarrow> bytes res" where
  "genScriptLockTxScript Kal Kaf =
     rbind (ensure (length Kal = 33) ''Invalid Kal size'') (\<lambda>_.
     rbind (ensure (length Kaf = 33) ''Invalid Kaf size'') (\<lambda>_.
     CScript [SInt 2, SData Kal, SData Kaf, SInt 2, SOp OP_CHECKMULTISIG]))"

definition genScriptLockRefundTxScript :: "bytes \<Rightarrow> bytes \<Rightarrow> int \<Rightarrow> bytes res" where
  "genScriptLockRefundTxScript Kal Kaf csv_val =
     rbind (ensure (length Kal = 33) ''invalid Kal length'') (\<lambda>_.
     rbind (ensure (length Kaf = 33) ''invalid Kaf length'') (\<lambda>_.
     CScript [SOp (op OP_IF),
       SInt 1, SOp (op OP_CHECKSEQUENCEVERIFY), SOp (op OP_DROP),
       SInt 2, SData Kal, SData Kaf, SInt 2, SOp OP_CHECKMULTISIG,
       SOp (op OP_ELSE),
       SInt csv_val, SOp (op OP_CHECKSEQUENCEVERIFY), SOp (op OP_DROP),
       SData Kaf, SOp (op OP_CHECKSIG),
       SOp (op OP_ENDIF)]))"

text \<open>\<open>ensure_op(script_bytes[o] == c)\<close>.\<close>

definition ensure_op_at :: "bytes \<Rightarrow> nat \<Rightarrow> int \<Rightarrow> unit res" where
  "ensure_op_at s i c = rbind (bget s i) (\<lambda>b. ensure (b = c) ''Bad opcode'')"

definition extractScriptLockScriptValues :: "bytes \<Rightarrow> (bytes \<times> bytes) res" where
  "extractScriptLockScriptValues s =
     rbind (ensure (length s = 71) ''Bad script length'') (\<lambda>_.
     rbind (ensure_op_at s 0 OP_2) (\<lambda>_.
     rbind (ensure_op_at s 1 33) (\<lambda>_.
     rbind (ensure_op_at s 35 33) (\<lambda>_.
     rbind (ensure_op_at s 69 OP_2) (\<lambda>_.
     rbind (ensure_op_at s 70 OP_CHECKMULTISIG) (\<lambda>_.
     Inr (bslice s 2 35, bslice s 36 69)))))))"

definition extractScriptLockRefundScriptValues :: "bytes \<Rightarrow> (bytes \<times> bytes \<times> int \<times> bytes) res" where
  "extractScriptLockRefundScriptValues s =
     rbind (ensure (length s > 76) ''Bad script length'') (\<lambda>_.
     rbind (ensure_op_at s 0 (op OP_IF)) (\<lambda>_.
     rbind (ensure_op_at s 1 (op OP_1)) (\<lambda>_.
     rbind (ensure_op_at s 2 (op OP_CHECKSEQUENCEVERIFY)) (\<lambda>_.
     rbind (ensure_op_at s 3 (op OP_DROP)) (\<lambda>_.
     rbind (ensure_op_at s 4 OP_2) (\<lambda>_.
     rbind (ensure_op_at s 5 33) (\<lambda>_.
     rbind (ensure_op_at s 39 33) (\<lambda>_.
     rbind (ensure_op_at s 73 OP_2) (\<lambda>_.
     rbind (ensure_op_at s 74 OP_CHECKMULTISIG) (\<lambda>_.
     rbind (ensure_op_at s 75 (op OP_ELSE)) (\<lambda>_.
     rbind (decodeScriptNum s 76) (\<lambda>(csv_val, nb).
     let i = 76 + nb in
     rbind (ensure (length s = i + 5 + 33) ''Bad script length'') (\<lambda>_.
     rbind (ensure_op_at s i (op OP_CHECKSEQUENCEVERIFY)) (\<lambda>_.
     rbind (ensure_op_at s (i + 1) (op OP_DROP)) (\<lambda>_.
     rbind (ensure_op_at s (i + 2) 33) (\<lambda>_.
     rbind (ensure_op_at s (i + 36) (op OP_CHECKSIG)) (\<lambda>_.
     rbind (ensure_op_at s (i + 37) (op OP_ENDIF)) (\<lambda>_.
     Inr (bslice s 6 39, bslice s 40 73, csv_val, bslice s (i + 3) (i + 36))))))))))))))))))))"

text \<open>Destinations. A witness program needs no script in the input.\<close>

definition getScriptDest_btc :: "(bytes \<Rightarrow> bytes) \<Rightarrow> bytes \<Rightarrow> bytes res" where
  "getScriptDest_btc sha256 s = CScript [SOp (op OP_0), SData (sha256 s)]"

definition getScriptForPubkeyHash :: "bytes \<Rightarrow> bytes res" where
  "getScriptForPubkeyHash pkh = CScript [SOp (op OP_0), SData pkh]"

definition getScriptScriptSig :: "bytes \<Rightarrow> bytes" where
  "getScriptScriptSig s = []"

definition isScriptP2WPKH :: "bytes \<Rightarrow> bool" where
  "isScriptP2WPKH s \<longleftrightarrow> length s = 22 \<and> uint (s ! 0) = op OP_0 \<and> uint (s ! 1) = 20"

definition isScriptP2WSH :: "bytes \<Rightarrow> bool" where
  "isScriptP2WSH s \<longleftrightarrow> length s = 34 \<and> uint (s ! 0) = op OP_0 \<and> uint (s ! 1) = 32"

definition isValidTxoDest :: "bytes \<Rightarrow> bool" where
  "isValidTxoDest s \<longleftrightarrow> isScriptP2WPKH s \<or> isScriptP2WSH s"

definition isValidAddressHash :: "bytes \<Rightarrow> bool" where
  "isValidAddressHash h \<longleftrightarrow> length h = 20"

definition spend_destination :: "bytes \<Rightarrow> bytes res" where
  "spend_destination pkh_dest =
     (if isValidAddressHash pkh_dest then getScriptForPubkeyHash pkh_dest
      else if isValidTxoDest pkh_dest then Inr pkh_dest
      else Inl (ValueError ''Unknown pkh_dest type''))"

subsection \<open>Sizes and fees\<close>

definition witnessScaleFactor :: int where "witnessScaleFactor = 4"
definition txVersion :: int where "txVersion = 2"
definition max_money :: int where "max_money = 21000000 * 100000000"
definition ADAPTOR_SIG_LOCK_SPEND_FEE_BUFFER :: int where "ADAPTOR_SIG_LOCK_SPEND_FEE_BUFFER = 12"

definition money_range :: "int \<Rightarrow> bool" where
  "money_range sats \<longleftrightarrow> sats \<ge> 0 \<and> sats \<le> max_money"

definition getTxVSize :: "CTransaction \<Rightarrow> int \<Rightarrow> int \<Rightarrow> int res" where
  "getTxVSize tx add_bytes add_witness_bytes =
     rbind (serialize_with_witness tx) (\<lambda>full.
     rbind (serialize_without_witness tx) (\<lambda>nwit.
     let wsf = witnessScaleFactor;
         len_full = int (length full) + add_bytes + add_witness_bytes;
         len_nwit = int (length nwit) + add_bytes;
         weight = len_nwit * (wsf - 1) + len_full
     in Inr ((weight + wsf - 1) div wsf)))"

primrec witness_elements_len :: "bytes list \<Rightarrow> int res" where
  "witness_elements_len [] = Inr 0"
| "witness_elements_len (e # es) =
     rbind (getWitnessElementLen (int (length e))) (\<lambda>l. rbind (witness_elements_len es) (\<lambda>r. Inr (l + r)))"

text \<open>\<open>getWitnessStackSerialisedLength\<close> of the stack of one input, with the marker and the flags of the witness.\<close>

definition getWitnessStackSerialisedLength :: "bytes list \<Rightarrow> int res" where
  "getWitnessStackSerialisedLength witness_stack =
     rbind (getCompactSizeLen (int (length witness_stack))) (\<lambda>l.
     rbind (witness_elements_len witness_stack) (\<lambda>r. Inr (l + r + 1 + 1)))"

definition getScriptLockTxDummyWitness :: "bytes \<Rightarrow> bytes list" where
  "getScriptLockTxDummyWitness s = [[], replicate 72 0, replicate 72 0, replicate (length s) 0]"

definition getScriptLockRefundSpendTxDummyWitness :: "bytes \<Rightarrow> bytes list" where
  "getScriptLockRefundSpendTxDummyWitness s = [[], replicate 72 0, replicate 72 0, [1], replicate (length s) 0]"

definition getScriptLockRefundSwipeTxDummyWitness :: "bytes \<Rightarrow> bytes list" where
  "getScriptLockRefundSwipeTxDummyWitness s = [replicate 72 0, [], replicate (length s) 0]"

definition witness_vsize :: "bytes list \<Rightarrow> CTransaction \<Rightarrow> int res" where
  "witness_vsize stack tx = rbind (getWitnessStackSerialisedLength stack) (\<lambda>w. getTxVSize tx 0 w)"

subsection \<open>Building the transactions\<close>

definition loadTx :: "bytes \<Rightarrow> CTransaction res" where
  "loadTx b = rbind (CTransaction_deserialize True b) (\<lambda>(tx, _). Inr tx)"

definition getTxid_btc :: "(bytes \<Rightarrow> bytes) \<Rightarrow> CTransaction \<Rightarrow> bytes res" where
  "getTxid_btc sha256 tx = rbind (calc_sha256 sha256 tx) i2b"

primrec find_output :: "CTxOut list \<Rightarrow> bytes \<Rightarrow> nat option" where
  "find_output [] script_pk = None"
| "find_output (txo # outs) script_pk = (if scriptPubKey txo = script_pk then Some 0 else map_option Suc (find_output outs script_pk))"

definition findOutput :: "CTransaction \<Rightarrow> bytes \<Rightarrow> nat option" where
  "findOutput tx script_pk = find_output (tx_vout tx) script_pk"

text \<open>The position and the value of the output to a script.\<close>

definition locked_output :: "(bytes \<Rightarrow> bytes) \<Rightarrow> CTransaction \<Rightarrow> bytes \<Rightarrow> (nat \<times> int) res" where
  "locked_output sha256 tx s =
     rbind (getScriptDest_btc sha256 s) (\<lambda>script_pk.
     case findOutput tx script_pk of
       None \<Rightarrow> Inl (ValueError ''Output not found in tx'')
     | Some n \<Rightarrow> Inr (n, nValue (tx_vout tx ! n)))"

text \<open>A transaction with one input, the output \<open>n\<close> of \<open>prev\<close>, and one output.\<close>

definition spend_tx :: "int \<Rightarrow> nat \<Rightarrow> bytes \<Rightarrow> int \<Rightarrow> int \<Rightarrow> bytes \<Rightarrow> CTransaction" where
  "spend_tx prev n s sequence value script_out =
     \<lparr>nVersion = txVersion, tx_vin = [\<lparr>prevout = \<lparr>outpoint_hash = prev, outpoint_n = int n\<rparr>, scriptSig = getScriptScriptSig s, nSequence = sequence\<rparr>],
      tx_vout = [\<lparr>nValue = value, scriptPubKey = script_out, out_part = None\<rparr>], tx_wit = [], nLockTime = 0\<rparr>"

definition createSCLockTx :: "(bytes \<Rightarrow> bytes) \<Rightarrow> int \<Rightarrow> bytes \<Rightarrow> bytes res" where
  "createSCLockTx sha256 value s =
     rbind (getScriptDest_btc sha256 s) (\<lambda>dest.
     serialize_with_witness \<lparr>nVersion = txVersion, tx_vin = [], tx_vout = [\<lparr>nValue = value, scriptPubKey = dest, out_part = None\<rparr>],
       tx_wit = [], nLockTime = 0\<rparr>)"

definition createSCLockRefundTx ::
  "(bytes \<Rightarrow> bytes) \<Rightarrow> bytes \<Rightarrow> bytes \<Rightarrow> bytes \<Rightarrow> bytes \<Rightarrow> int \<Rightarrow> int \<Rightarrow> int \<Rightarrow> (bytes \<times> bytes \<times> int) res" where
  "createSCLockRefundTx sha256 tx_lock_bytes script_lock Kal Kaf lock1_value csv_val tx_fee_rate =
     rbind (loadTx tx_lock_bytes) (\<lambda>tx_lock.
     rbind (locked_output sha256 tx_lock script_lock) (\<lambda>(locked_n, locked_coin).
     rbind (calc_sha256 sha256 tx_lock) (\<lambda>tx_lock_id_int.
     rbind (genScriptLockRefundTxScript Kal Kaf csv_val) (\<lambda>refund_script.
     rbind (getScriptDest_btc sha256 refund_script) (\<lambda>dest.
     rbind (witness_vsize (getScriptLockTxDummyWitness script_lock) (spend_tx tx_lock_id_int locked_n script_lock lock1_value locked_coin dest)) (\<lambda>vsize.
     rbind (feeForVSize tx_fee_rate vsize) (\<lambda>pay_fee.
     rbind (serialize_with_witness (spend_tx tx_lock_id_int locked_n script_lock lock1_value (locked_coin - pay_fee) dest)) (\<lambda>b.
     Inr (b, refund_script, locked_coin - pay_fee)))))))))"

definition createSCLockRefundSpendTx :: "(bytes \<Rightarrow> bytes) \<Rightarrow> bytes \<Rightarrow> bytes \<Rightarrow> bytes \<Rightarrow> int \<Rightarrow> bytes res" where
  "createSCLockRefundSpendTx sha256 tx_lock_refund_bytes script_lock_refund pkh_refund_to tx_fee_rate =
     rbind (loadTx tx_lock_refund_bytes) (\<lambda>tx_lock_refund.
     rbind (locked_output sha256 tx_lock_refund script_lock_refund) (\<lambda>(locked_n, locked_coin).
     rbind (calc_sha256 sha256 tx_lock_refund) (\<lambda>tx_lock_refund_hash_int.
     rbind (getScriptForPubkeyHash pkh_refund_to) (\<lambda>dest.
     rbind (witness_vsize (getScriptLockRefundSpendTxDummyWitness script_lock_refund)
              (spend_tx tx_lock_refund_hash_int locked_n script_lock_refund 1 locked_coin dest)) (\<lambda>vsize.
     rbind (feeForVSize tx_fee_rate vsize) (\<lambda>pay_fee.
     serialize_with_witness (spend_tx tx_lock_refund_hash_int locked_n script_lock_refund 1 (locked_coin - pay_fee) dest)))))))"

definition createSCLockRefundSpendToFTx :: "(bytes \<Rightarrow> bytes) \<Rightarrow> bytes \<Rightarrow> bytes \<Rightarrow> bytes \<Rightarrow> int \<Rightarrow> bytes res" where
  "createSCLockRefundSpendToFTx sha256 tx_lock_refund_bytes script_lock_refund pkh_dest tx_fee_rate =
     rbind (loadTx tx_lock_refund_bytes) (\<lambda>tx_lock_refund.
     rbind (locked_output sha256 tx_lock_refund script_lock_refund) (\<lambda>(locked_n, locked_coin).
     rbind (extractScriptLockRefundScriptValues script_lock_refund) (\<lambda>(_, _, lock2_value, _).
     rbind (calc_sha256 sha256 tx_lock_refund) (\<lambda>tx_lock_refund_hash_int.
     rbind (getScriptForPubkeyHash pkh_dest) (\<lambda>dest.
     rbind (witness_vsize (getScriptLockRefundSwipeTxDummyWitness script_lock_refund)
              (spend_tx tx_lock_refund_hash_int locked_n script_lock_refund lock2_value locked_coin dest)) (\<lambda>vsize.
     rbind (feeForVSize tx_fee_rate vsize) (\<lambda>pay_fee.
     serialize_with_witness (spend_tx tx_lock_refund_hash_int locked_n script_lock_refund lock2_value (locked_coin - pay_fee) dest))))))))"

definition getLockRefundTxFee :: "int \<Rightarrow> bytes \<Rightarrow> int res" where
  "getLockRefundTxFee locked_coin tx_lock_refund_bytes =
     rbind (loadTx tx_lock_refund_bytes) (\<lambda>tx_lock_refund.
     rbind (ensure (length (tx_vout tx_lock_refund) = 1) ''Lock refund tx has not one output'') (\<lambda>_.
     let fee_paid = locked_coin - nValue (tx_vout tx_lock_refund ! 0) in
     rbind (ensure (fee_paid > 0) ''Zero or negative lock refund tx fee'') (\<lambda>_. Inr fee_paid)))"

definition createSCLockSpendTx_btc :: "(bytes \<Rightarrow> bytes) \<Rightarrow> bytes \<Rightarrow> bytes \<Rightarrow> bytes \<Rightarrow> int \<Rightarrow> bytes option \<Rightarrow> bytes res" where
  "createSCLockSpendTx_btc sha256 tx_lock_bytes script_lock pkh_dest tx_fee_rate tx_lock_refund_bytes =
     rbind (loadTx tx_lock_bytes) (\<lambda>tx_lock.
     rbind (locked_output sha256 tx_lock script_lock) (\<lambda>(locked_n, locked_coin).
     rbind (calc_sha256 sha256 tx_lock) (\<lambda>tx_lock_id_int.
     rbind (spend_destination pkh_dest) (\<lambda>script_out.
     rbind (witness_vsize (getScriptLockTxDummyWitness script_lock) (spend_tx tx_lock_id_int locked_n script_lock 0 locked_coin script_out)) (\<lambda>vsize.
     rbind (case tx_lock_refund_bytes of
              None \<Rightarrow> feeForVSize tx_fee_rate vsize
            | Some r \<Rightarrow> rbind (getLockRefundTxFee locked_coin r) (\<lambda>fee. Inr (fee + ADAPTOR_SIG_LOCK_SPEND_FEE_BUFFER))) (\<lambda>pay_fee.
     serialize_with_witness (spend_tx tx_lock_id_int locked_n script_lock 0 (locked_coin - pay_fee) script_out)))))))"

subsection \<open>Verifying the transactions\<close>

text \<open>The value and the kind of the outputs a lock transaction spends, as \<open>getrawtransaction\<close> reports them.\<close>

primrec input_values :: "(COutPoint \<Rightarrow> (int \<times> bool) res) \<Rightarrow> CTxIn list \<Rightarrow> int \<Rightarrow> int \<Rightarrow> int \<Rightarrow> (int \<times> int \<times> int) res" where
  "input_values prev_output [] inputs_value add_bytes add_witness_bytes = Inr (inputs_value, add_bytes, add_witness_bytes)"
| "input_values prev_output (pi # vins) inputs_value add_bytes add_witness_bytes =
     rbind (prev_output (prevout pi)) (\<lambda>(v, witness_v0_keyhash).
     rbind (getCompactSizeLen 107) (\<lambda>l.
     if witness_v0_keyhash then input_values prev_output vins (inputs_value + v) add_bytes (add_witness_bytes + 107 + l)
     else input_values prev_output vins (inputs_value + v) (add_bytes + 107) add_witness_bytes))"

definition check_inputs :: "(COutPoint \<Rightarrow> (int \<times> bool) res) \<Rightarrow> CTransaction \<Rightarrow> unit res" where
  "check_inputs prev_output tx =
     rbind (getCompactSizeLen (int (length (tx_vin tx)))) (\<lambda>l.
     rbind (input_values prev_output (tx_vin tx) 0 0 l) (\<lambda>(inputs_value, add_bytes, add_witness_bytes).
     rbind (ensure (inputs_value - sum_list (map nValue (tx_vout tx)) > 0) ''Zero or negative fee'') (\<lambda>_.
     rbind (getTxVSize tx add_bytes add_witness_bytes) (\<lambda>_. Inr ()))))"

definition verifySCLockTx ::
  "(bytes \<Rightarrow> bytes) \<Rightarrow> int res \<Rightarrow> (COutPoint \<Rightarrow> (int \<times> bool) res) \<Rightarrow> bytes \<Rightarrow> bytes \<Rightarrow> int \<Rightarrow> bytes \<Rightarrow> bytes \<Rightarrow> bool \<Rightarrow> (bytes \<times> nat) res" where
  "verifySCLockTx sha256 chain_height prev_output tx_bytes script_out swap_value Kal Kaf check_lock_tx_inputs =
     rbind (loadTx tx_bytes) (\<lambda>tx.
     rbind (getTxid_btc sha256 tx) (\<lambda>txid.
     rbind (ensure (nVersion tx = txVersion) ''Bad version'') (\<lambda>_.
     rbind (if nLockTime tx \<noteq> 0 then
              rbind chain_height (\<lambda>current_height. ensure (\<not> nLockTime tx > current_height + 2) ''Bad nLockTime'')
            else Inr ()) (\<lambda>_.
     rbind (locked_output sha256 tx script_out) (\<lambda>(locked_n, locked_coin).
     rbind (ensure (locked_coin = swap_value) ''Bad locked value'') (\<lambda>_.
     rbind (extractScriptLockScriptValues script_out) (\<lambda>(A, B).
     rbind (ensure (A = Kal) ''Bad script pubkey'') (\<lambda>_.
     rbind (ensure (B = Kaf) ''Bad script pubkey'') (\<lambda>_.
     rbind (if check_lock_tx_inputs then check_inputs prev_output tx else Inr ()) (\<lambda>_.
     Inr (txid, locked_n)))))))))))"

text \<open>What the verification of a transaction with one input and one output has in common: its form, and the fee it pays.\<close>

definition check_form :: "CTransaction \<Rightarrow> unit res" where
  "check_form tx =
     rbind (ensure (nVersion tx = txVersion) ''Bad version'') (\<lambda>_.
     rbind (ensure (nLockTime tx = 0) ''nLockTime not 0'') (\<lambda>_.
     ensure (length (tx_vin tx) = 1) ''tx has not one input''))"

definition check_input :: "CTransaction \<Rightarrow> int \<Rightarrow> bytes \<Rightarrow> bytes \<Rightarrow> int \<Rightarrow> unit res" where
  "check_input tx prevout_seq prevout_script prevout_id prevout_n =
     (let i = tx_vin tx ! 0 in
     rbind (ensure (nSequence i = prevout_seq) ''Bad input nSequence'') (\<lambda>_.
     rbind (ensure (scriptSig i = getScriptScriptSig prevout_script) ''Input scriptsig mismatch'') (\<lambda>_.
     rbind (ensure (outpoint_hash (prevout i) = b2i prevout_id \<and> outpoint_n (prevout i) = prevout_n) ''Input prevout mismatch'') (\<lambda>_.
     ensure (length (tx_vout tx) = 1) ''tx has not one output''))))"

definition fee_rate_paid :: "bytes list \<Rightarrow> CTransaction \<Rightarrow> int \<Rightarrow> int res" where
  "fee_rate_paid stack tx fee_paid =
     rbind (witness_vsize stack tx) (\<lambda>vsize. if vsize = 0 then Inl (OtherError ''ZeroDivisionError'') else Inr (fee_paid * 1000 div vsize))"

definition check_fee_rate :: "bytes list \<Rightarrow> CTransaction \<Rightarrow> int \<Rightarrow> int \<Rightarrow> unit res" where
  "check_fee_rate stack tx fee_paid feerate =
     rbind (fee_rate_paid stack tx fee_paid) (\<lambda>paid. ensure (compareFeeRates paid feerate) ''Bad fee rate'')"

definition verifySCLockRefundTx ::
  "(bytes \<Rightarrow> bytes) \<Rightarrow> bytes \<Rightarrow> bytes \<Rightarrow> bytes \<Rightarrow> int \<Rightarrow> int \<Rightarrow> bytes \<Rightarrow> bytes \<Rightarrow> bytes \<Rightarrow> int \<Rightarrow> int \<Rightarrow> int \<Rightarrow> (bytes \<times> int \<times> nat) res" where
  "verifySCLockRefundTx sha256 tx_bytes script_out prevout_id prevout_n prevout_seq prevout_script Kal Kaf csv_val_expect swap_value feerate =
     rbind (loadTx tx_bytes) (\<lambda>tx.
     rbind (getTxid_btc sha256 tx) (\<lambda>txid.
     rbind (check_form tx) (\<lambda>_.
     rbind (check_input tx prevout_seq prevout_script prevout_id prevout_n) (\<lambda>_.
     rbind (locked_output sha256 tx script_out) (\<lambda>(locked_n, locked_coin).
     rbind (ensure (money_range locked_coin) ''Bad output value range'') (\<lambda>_.
     rbind (extractScriptLockRefundScriptValues script_out) (\<lambda>(A, B, csv_val, C).
     rbind (ensure (A = Kal) ''Bad script pubkey'') (\<lambda>_.
     rbind (ensure (B = Kaf) ''Bad script pubkey'') (\<lambda>_.
     rbind (ensure (csv_val = csv_val_expect) ''Bad script csv value'') (\<lambda>_.
     rbind (ensure (C = Kaf) ''Bad script pubkey'') (\<lambda>_.
     rbind (ensure (swap_value - locked_coin > 0) ''negative fee_paid'') (\<lambda>_.
     rbind (check_fee_rate (getScriptLockTxDummyWitness prevout_script) tx (swap_value - locked_coin) feerate) (\<lambda>_.
     Inr (txid, locked_coin, locked_n))))))))))))))"

definition verifySCLockRefundSpendTx :: "(bytes \<Rightarrow> bytes) \<Rightarrow> bytes \<Rightarrow> bytes \<Rightarrow> bytes \<Rightarrow> int \<Rightarrow> int \<Rightarrow> unit res" where
  "verifySCLockRefundSpendTx sha256 tx_bytes lock_refund_tx_id prevout_script prevout_value feerate =
     rbind (loadTx tx_bytes) (\<lambda>tx.
     rbind (getTxid_btc sha256 tx) (\<lambda>txid.
     rbind (check_form tx) (\<lambda>_.
     rbind (check_input tx 1 prevout_script lock_refund_tx_id 0) (\<lambda>_.
     let tx_value = nValue (tx_vout tx ! 0) in
     rbind (ensure (money_range tx_value) ''Bad output value range'') (\<lambda>_.
     rbind (ensure (prevout_value - tx_value > 0) ''negative fee_paid'') (\<lambda>_.
     check_fee_rate (getScriptLockRefundSpendTxDummyWitness prevout_script) tx (prevout_value - tx_value) feerate))))))"

definition verifySCLockSpendTx_btc ::
  "(bytes \<Rightarrow> bytes) \<Rightarrow> bytes \<Rightarrow> bytes \<Rightarrow> bytes \<Rightarrow> bytes \<Rightarrow> int \<Rightarrow> bytes option \<Rightarrow> unit res" where
  "verifySCLockSpendTx_btc sha256 tx_bytes lock_tx_bytes lock_tx_script a_pkhash_f feerate tx_lock_refund_bytes =
     rbind (loadTx tx_bytes) (\<lambda>tx.
     rbind (getTxid_btc sha256 tx) (\<lambda>txid.
     rbind (check_form tx) (\<lambda>_.
     rbind (loadTx lock_tx_bytes) (\<lambda>lock_tx.
     rbind (getTxid_btc sha256 lock_tx) (\<lambda>lock_tx_id.
     rbind (locked_output sha256 lock_tx lock_tx_script) (\<lambda>(locked_n, locked_coin).
     rbind (check_input tx 0 lock_tx_script lock_tx_id (int locked_n)) (\<lambda>_.
     rbind (spend_destination a_pkhash_f) (\<lambda>expect_txo_script.
     rbind (ensure (scriptPubKey (tx_vout tx ! 0) = expect_txo_script) ''Bad output destination'') (\<lambda>_.
     rbind (ensure (money_range (nValue (tx_vout tx ! 0))) ''Bad output value range'') (\<lambda>_.
     let fee_paid = locked_coin - nValue (tx_vout tx ! 0) in
     rbind (ensure (fee_paid > 0) ''Zero or negative fee'') (\<lambda>_.
     rbind (fee_rate_paid (getScriptLockTxDummyWitness lock_tx_script) tx fee_paid) (\<lambda>paid.
     case tx_lock_refund_bytes of
       None \<Rightarrow> ensure (compareFeeRates paid feerate) ''Bad fee rate''
     | Some r \<Rightarrow>
         rbind (getLockRefundTxFee locked_coin r) (\<lambda>fee.
         ensure (fee_paid = fee + ADAPTOR_SIG_LOCK_SPEND_FEE_BUFFER) ''Bad fee'')))))))))))))"

section \<open>Specification vocabulary\<close>

definition lock_script :: "bytes \<Rightarrow> bytes \<Rightarrow> bytes" where
  "lock_script A B = [0x52, 33] @ A @ [33] @ B @ [0x52, 0xAE]"

text \<open>The script of the refund, with the pushed number \<open>n\<close> as the relative lock of its second branch.\<close>

definition refund_script_shape :: "bytes \<Rightarrow> bytes \<Rightarrow> bytes \<Rightarrow> bytes \<Rightarrow> bytes" where
  "refund_script_shape A B n C =
     [0x63, 0x51, 0xB2, 0x75, 0x52, 33] @ A @ [33] @ B @ [0x52, 0xAE, 0x67] @ n @ [0xB2, 0x75, 33] @ C @ [0xAC, 0x68]"

section \<open>Facts\<close>

lemma bit_length_le: "0 < v \<Longrightarrow> bit_length v \<le> k \<longleftrightarrow> v < 2 ^ k"
proof -
  assume "0 < v"
  then have b: "0 < bit_length v" "2 ^ (bit_length v - 1) \<le> v" "v < 2 ^ bit_length v"
    using bit_length_bounds by auto
  show ?thesis
  proof
    assume "bit_length v \<le> k"
    then have "(2::int) ^ bit_length v \<le> 2 ^ k"
      by (rule power_increasing) simp
    then show "v < 2 ^ k"
      using b by linarith
  next
    assume "v < 2 ^ k"
    then have "(2::int) ^ (bit_length v - 1) < 2 ^ k"
      using b by linarith
    then have "bit_length v - 1 < k"
      by (rule power_less_imp_less_exp [rotated]) simp
    then show "bit_length v \<le> k"
      using b by linarith
  qed
qed

lemma bn2vch_pos:
  assumes "0 < v"
  shows "bn2vch v = Inr (scriptnum_body v)"
proof -
  let ?b = "scriptnum_body v" and ?n = "(8 + bit_length v) div 8"
  have len: "length ?b \<le> k \<longleftrightarrow> v < 2 ^ (8 * k - 1)" if "0 < k" for k
    using scriptnum_body_length [of v k] assms that by simp
  have "length ?b \<le> ?n"
  proof (rule len [THEN iffD2])
    have "bit_length v \<le> 8 * ?n - 1"
      by presburger
    then show "v < 2 ^ (8 * ?n - 1)"
      using bit_length_le [OF assms] by blast
  qed simp
  moreover have "\<not> length ?b \<le> ?n - 1"
  proof (cases "?n - 1")
    case 0
    then show ?thesis
      using scriptnum_body_ne [of v] assms by simp
  next
    case (Suc j)
    have "\<not> bit_length v \<le> 8 * (?n - 1) - 1"
      using Suc by linarith
    then show ?thesis
      using bit_length_le [OF assms] len [of "?n - 1"] Suc by simp
  qed
  ultimately have l: "length ?b = ?n"
    by linarith
  have body: "from_le ?b = v"
  proof -
    have "\<not> uint (last (abs_bytes v)) AND 0x80 = 0 \<Longrightarrow> ?b = abs_bytes v @ [0]" "uint (last (abs_bytes v)) AND 0x80 = 0 \<Longrightarrow> ?b = abs_bytes v"
      using assms by (simp_all add: scriptnum_body_def Let_def)
    then show ?thesis
      using assms by (cases "uint (last (abs_bytes v)) AND 0x80 = 0") (simp_all add: from_le_snoc from_le_abs_bytes)
  qed
  show ?thesis
    using assms l body to_bytes_le_Inr_iff [of ?n v ?b] by (simp add: bn2vch_def Let_def)
qed

text \<open>For the lock values of the offers \<open>CScript\<close> writes the same bytes as \<open>SerialiseNum\<close>.\<close>

lemma coerce_SerialiseNum:
  assumes "0 \<le> v" "v < 2 ^ 31"
  shows "\<exists>b. coerce_instance (SInt v) = Inr b \<and> SerialiseNum v = Inr b \<and> length b \<le> 5 \<and> b \<noteq> []"
proof (cases "v \<le> 16")
  case True
  then show ?thesis
    using assms by (auto simp: SerialiseNum_def rbind_Inr_iff encode_op_n_def)
next
  case False
  have "length (scriptnum_body v) \<le> 4"
    using scriptnum_body_length [of v 4] assms False by simp
  then show ?thesis
    using False bn2vch_pos [of v] by (auto simp: SerialiseNum_def rbind_Inr_iff encode_op_pushdata_def Let_def rbind_def)
qed

lemma genScriptLockTxScript_iff:
  "genScriptLockTxScript A B = Inr s \<longleftrightarrow> length A = 33 \<and> length B = 33 \<and> s = lock_script A B"
  by (auto simp: genScriptLockTxScript_def ensure_def rbind_def CScript_def encode_op_n_def encode_op_pushdata_def OP_CHECKMULTISIG_def lock_script_def)

lemma ensure_op_at_iff: "ensure_op_at s i c = Inr u \<longleftrightarrow> i < length s \<and> uint (s ! i) = c"
  by (auto simp: ensure_op_at_def rbind_Inr_iff bget_Inr_iff ensure_def)

lemma drop_byte: "i < length s \<Longrightarrow> uint (s ! i) = c \<Longrightarrow> drop i s = word_of_int c # drop (Suc i) s"
  by (drule Cons_nth_drop_Suc) auto

lemma drop_slice: "i \<le> j \<Longrightarrow> drop i s = bslice s i j @ drop j s"
proof -
  assume "i \<le> j"
  then have "drop j s = drop (j - i) (drop i s)"
    by simp
  then show ?thesis
    by (simp only: bslice_def append_take_drop_id)
qed

lemma extractScriptLockScriptValues_iff:
  "extractScriptLockScriptValues s = Inr (A, B) \<longleftrightarrow> length A = 33 \<and> length B = 33 \<and> s = lock_script A B"
proof
  assume "extractScriptLockScriptValues s = Inr (A, B)"
  then have len: "length s = 71" and at: "uint (s ! 0) = 0x52" "uint (s ! 1) = 33" "uint (s ! 35) = 33" "uint (s ! 69) = 0x52" "uint (s ! 70) = 0xAE"
    and AB: "A = bslice s 2 35" "B = bslice s 36 69"
    by (auto simp: extractScriptLockScriptValues_def rbind_Inr_iff ensure_op_at_iff ensure_Inr_iff OP_2_def OP_CHECKMULTISIG_def)
  have "s = drop 0 s"
    by simp
  also have "\<dots> = 0x52 # 33 # drop 2 s"
    using drop_byte [OF _ at(1)] drop_byte [OF _ at(2)] len by (simp add: numeral_2_eq_2)
  also have "drop 2 s = A @ 33 # drop 36 s"
    using drop_slice [of 2 35 s] drop_byte [OF _ at(3)] len AB by simp
  also have "drop 36 s = B @ [0x52, 0xAE]"
    using drop_slice [of 36 69 s] drop_byte [OF _ at(4)] drop_byte [OF _ at(5)] len AB by simp
  finally show "length A = 33 \<and> length B = 33 \<and> s = lock_script A B"
    using len AB by (simp add: lock_script_def)
next
  assume "length A = 33 \<and> length B = 33 \<and> s = lock_script A B"
  then show "extractScriptLockScriptValues s = Inr (A, B)"
    by (simp add: extractScriptLockScriptValues_def rbind_Inr_iff ensure_op_at_iff ensure_Inr_iff OP_2_def OP_CHECKMULTISIG_def lock_script_def nth_append bslice_def)
qed

lemmas script_consts = OP_2_def OP_CHECKMULTISIG_def lock_script_def refund_script_shape_def

lemma genScriptLockRefundTxScript_shape:
  assumes "0 \<le> v" "v < 2 ^ 31"
  shows "genScriptLockRefundTxScript A B v = Inr s \<longleftrightarrow>
     length A = 33 \<and> length B = 33 \<and> (\<exists>n. SerialiseNum v = Inr n \<and> s = refund_script_shape A B n B)"
proof -
  obtain n where n: "coerce_instance (SInt v) = Inr n" "SerialiseNum v = Inr n"
    using coerce_SerialiseNum [OF assms] by auto
  have push: "encode_op_pushdata K = Inr (33 # K)" if "length K = 33" for K
    using that by (simp add: encode_op_pushdata_def rbind_def)
  have "genScriptLockRefundTxScript A B v = Inr (refund_script_shape A B n B)" if "length A = 33" "length B = 33"
    using that by (simp add: genScriptLockRefundTxScript_def CScript_def n(1) push rbind_def encode_op_n_def script_consts
        del: coerce_instance.simps(2)) (simp add: rbind_def encode_op_n_def n(1) [simplified])
  then show ?thesis
    using n(2) by (auto simp: genScriptLockRefundTxScript_def rbind_Inr_iff)
qed

lemma extractRefund_shape:
  assumes "extractScriptLockRefundScriptValues s = Inr (A, B, v, C)"
  obtains n where "length A = 33" "length B = 33" "length C = 33" "decodeScriptNum s 76 = Inr (v, length n)" "s = refund_script_shape A B n C"
proof -
  obtain nb where dec: "decodeScriptNum s 76 = Inr (v, nb)" and len: "length s = 114 + nb"
    and at: "uint (s ! 0) = 0x63" "uint (s ! 1) = 0x51" "uint (s ! 2) = 0xB2" "uint (s ! 3) = 0x75" "uint (s ! 4) = 0x52" "uint (s ! 5) = 33"
      "uint (s ! 39) = 33" "uint (s ! 73) = 0x52" "uint (s ! 74) = 0xAE" "uint (s ! 75) = 0x67"
    and at2: "uint (s ! (76 + nb)) = 0xB2" "uint (s ! (76 + nb + 1)) = 0x75" "uint (s ! (76 + nb + 2)) = 33"
      "uint (s ! (76 + nb + 36)) = 0xAC" "uint (s ! (76 + nb + 37)) = 0x68"
    and vals: "A = bslice s 6 39" "B = bslice s 40 73" "C = bslice s (76 + nb + 3) (76 + nb + 36)"
    using assms by (auto simp: extractScriptLockRefundScriptValues_def rbind_Inr_iff ensure_op_at_iff Let_def script_consts simp del: add_2_eq_Suc add_2_eq_Suc')
  let ?n = "bslice s 76 (76 + nb)"
  have head: "s = [0x63, 0x51, 0xB2, 0x75, 0x52, 33] @ drop 6 s"
    using drop_byte [OF _ at(1)] drop_byte [OF _ at(2)] drop_byte [OF _ at(3)] drop_byte [OF _ at(4)] drop_byte [OF _ at(5)] drop_byte [OF _ at(6)] len
    by (simp add: eval_nat_numeral)
  have mid: "drop 6 s = A @ 33 # drop 40 s" "drop 40 s = B @ [0x52, 0xAE, 0x67] @ drop 76 s"
    using drop_slice [of 6 39 s] drop_byte [OF _ at(7)] drop_slice [of 40 73 s] drop_byte [OF _ at(8)] drop_byte [OF _ at(9)] drop_byte [OF _ at(10)] len vals
    by simp_all
  have tail: "drop 76 s = ?n @ [0xB2, 0x75, 33] @ drop (79 + nb) s" "drop (79 + nb) s = C @ [0xAC, 0x68]"
    using drop_slice [of 76 "76 + nb" s] drop_byte [OF _ at2(1)] drop_byte [OF _ at2(2)] drop_byte [OF _ at2(3)] len
      drop_slice [of "79 + nb" "112 + nb" s] drop_byte [OF _ at2(4)] drop_byte [OF _ at2(5)] vals
    by (simp_all add: eval_nat_numeral)
  have "s = refund_script_shape A B ?n C"
    by (subst head, subst mid(1), subst mid(2), subst tail(1), subst tail(2)) (simp add: refund_script_shape_def)
  moreover have "length ?n = nb" "length A = 33" "length B = 33" "length C = 33"
    using len vals by simp_all
  ultimately show thesis
    using dec that by metis
qed

end
