(* ===== verification/Lock_Props.thy ===== *)
theory Lock_Props
  imports Lock_Transactions
begin

text \<open>
  The transactions of coin A: what the verified ones guarantee (\<open>refundable_lock\<close>), and that the ones the leader builds verify. The scripts are read back
  as they were written, the size of a built transaction depends only on its output script, and the rounded fee is one that the check of
  the fee rate accepts.
\<close>

section \<open>Specification vocabulary\<close>

text \<open>The transactions the interface builds fit the wire format; their size depends on the output script only.\<close>

definition spend_fits :: "int \<Rightarrow> nat \<Rightarrow> int \<Rightarrow> int \<Rightarrow> bytes \<Rightarrow> bool" where
  "spend_fits prev n sequence value script_out \<longleftrightarrow> 0 \<le> prev \<and> prev < 2 ^ 256 \<and> n < 2 ^ 32 \<and> 0 \<le> sequence \<and> sequence < 2 ^ 32
     \<and> - (2 ^ 63) \<le> value \<and> value < 2 ^ 63 \<and> length script_out < 253"

text \<open>What the builder of a refund finds: the output of the lock transaction, and its id.\<close>

definition lock_found :: "(bytes \<Rightarrow> bytes) \<Rightarrow> bytes \<Rightarrow> bytes \<Rightarrow> bytes \<Rightarrow> nat \<Rightarrow> int \<Rightarrow> bool" where
  "lock_found sha256 tx_bytes s txid n value \<longleftrightarrow>
     (\<exists>tx. loadTx tx_bytes = Inr tx \<and> getTxid_btc sha256 tx = Inr txid \<and> locked_output sha256 tx s = Inr (n, value))"

text \<open>A transaction that has one input, as given, and one output.\<close>

definition spends_only :: "CTransaction \<Rightarrow> bytes \<Rightarrow> int \<Rightarrow> int \<Rightarrow> CTxOut \<Rightarrow> bool" where
  "spends_only tx prev_id n sequence txo \<longleftrightarrow> nVersion tx = 2 \<and> nLockTime tx = 0 \<and> tx_vout tx = [txo]
     \<and> tx_vin tx = [\<lparr>prevout = \<lparr>outpoint_hash = b2i prev_id, outpoint_n = n\<rparr>, scriptSig = [], nSequence = sequence\<rparr>]"

definition pays_rate :: "bytes list \<Rightarrow> CTransaction \<Rightarrow> int \<Rightarrow> int \<Rightarrow> bool" where
  "pays_rate stack tx fee rate \<longleftrightarrow>
     (\<exists>vsize. witness_vsize stack tx = Inr vsize \<and> 0 < fee \<and> rate \<le> fee * 1000 div vsize \<and> fee * 1000 div vsize < rate + 10)"

text \<open>Coins locked to both keys, which the refund alone can spend without the other party's consent: after the first relative lock it moves them, less the fee, to the
  refund script. From there the leader spends them with the follower's signature, or the follower alone after the second relative lock.\<close>

definition refundable_lock ::
  "(bytes \<Rightarrow> bytes) \<Rightarrow> bytes \<Rightarrow> bytes \<Rightarrow> bytes \<Rightarrow> nat \<Rightarrow> bytes \<Rightarrow> bytes \<Rightarrow> bytes \<Rightarrow> bytes \<Rightarrow> bytes \<Rightarrow> bytes \<Rightarrow> int \<Rightarrow> int \<Rightarrow> int \<Rightarrow> int \<Rightarrow> int \<Rightarrow> bool" where
  "refundable_lock sha256 lock_bytes lock_s lock_id n refund_bytes refund_s refund_id spend_bytes Kal Kaf amount value lock1 lock2 rate \<longleftrightarrow>
     (\<exists>lock refund spend out1 out2 num.
        loadTx lock_bytes = Inr lock \<and> getTxid_btc sha256 lock = Inr lock_id \<and> n < length (tx_vout lock)
        \<and> nValue (tx_vout lock ! n) = amount \<and> getScriptDest_btc sha256 lock_s = Inr (scriptPubKey (tx_vout lock ! n))
        \<and> lock_s = lock_script Kal Kaf \<and> length Kal = 33 \<and> length Kaf = 33
        \<and> loadTx refund_bytes = Inr refund \<and> getTxid_btc sha256 refund = Inr refund_id \<and> spends_only refund lock_id (int n) lock1 out1
        \<and> nValue out1 = value \<and> getScriptDest_btc sha256 refund_s = Inr (scriptPubKey out1)
        \<and> refund_s = refund_script_shape Kal Kaf num Kaf \<and> decodeScriptNum refund_s 76 = Inr (lock2, length num)
        \<and> pays_rate (getScriptLockTxDummyWitness lock_s) refund (amount - value) rate
        \<and> loadTx spend_bytes = Inr spend \<and> spends_only spend refund_id 0 1 out2 \<and> 0 \<le> nValue out2
        \<and> pays_rate (getScriptLockRefundSpendTxDummyWitness refund_s) spend (value - nValue out2) rate)"

text \<open>A hash of 32 bytes, a lock transaction to the keys of two parties and what is built for it.\<close>

definition pad_hash :: "bytes \<Rightarrow> bytes" where
  "pad_hash x = take 32 (rev x @ replicate 32 0)"

definition example_kal :: bytes where "example_kal = 2 # replicate 32 7"
definition example_kaf :: bytes where "example_kaf = 3 # replicate 32 9"

definition example_lock_script :: bytes where
  "example_lock_script = lock_script example_kal example_kaf"

definition example_lock :: bytes where
  "example_lock = (case serialize_with_witness (spend_tx 99 1 [] 0 500000 (0 # 32 # pad_hash example_lock_script)) of Inr b \<Rightarrow> b | Inl _ \<Rightarrow> [])"

definition example_lock_id :: bytes where
  "example_lock_id = (case rbind (loadTx example_lock) (getTxid_btc pad_hash) of Inr b \<Rightarrow> b | Inl _ \<Rightarrow> [])"

definition example_refund :: "bytes \<times> bytes \<times> int" where
  "example_refund = (case createSCLockRefundTx pad_hash example_lock example_lock_script example_kal example_kaf 12 20 2500 of Inr r \<Rightarrow> r | Inl _ \<Rightarrow> ([], [], 0))"

definition example_spend :: bytes where
  "example_spend = (case createSCLockRefundSpendTx pad_hash (fst example_refund) (fst (snd example_refund)) (replicate 20 5) 2500 of Inr b \<Rightarrow> b | Inl _ \<Rightarrow> [])"

definition example_lock_spend :: bytes where
  "example_lock_spend = (case createSCLockSpendTx_btc pad_hash example_lock example_lock_script (replicate 20 6) 2500 (Some (fst example_refund)) of Inr b \<Rightarrow> b | Inl _ \<Rightarrow> [])"

section \<open>Facts\<close>

lemma bget_suffix: "length p = k \<Longrightarrow> bget (p @ s) (k + i) = bget s i"
  by auto

lemma bslice_suffix: "length p = k \<Longrightarrow> bslice (p @ s) (k + i) (k + j) = bslice s i j"
  by (simp add: bslice_def)

lemma extractRefund_of_shape:
  assumes "length A = 33" "length B = 33" "length C = 33" "SerialiseNum v = Inr n" "\<bar>v\<bar> < 2 ^ 31"
  shows "extractScriptLockRefundScriptValues (refund_script_shape A B n C) = Inr (A, B, v, C)"
proof -
  let ?p = "[0x63, 0x51, 0xB2, 0x75, 0x52, 33] @ A @ [33] @ B @ [0x52, 0xAE, 0x67]" and ?q = "[0xB2, 0x75, 33] @ C @ [0xAC, 0x68]"
  have s: "refund_script_shape A B n C = ?p @ n @ ?q" and p: "length ?p = 76"
    using assms by (simp_all add: refund_script_shape_def)
  have dec: "decodeScriptNum (?p @ n @ ?q) 76 = Inr (v, length n)"
    using decodeScriptNum_SerialiseNum [OF assms(4,5), of ?p ?q] p by simp
  have ne: "n \<noteq> []"
    using SerialiseNum_Inr [OF assms(4)] by auto
  have low: "bget (?p @ n @ ?q) i = bget ?p i" if "i < 76" for i
    using that p by (intro bget_append_left) simp
  have high: "bget (?p @ n @ ?q) (76 + length n + i) = bget ?q i" for i
    using bget_suffix [of "?p @ n" "76 + length n" ?q i] p by simp
  have cut: "bslice (?p @ n @ ?q) 6 39 = A" "bslice (?p @ n @ ?q) 40 73 = B" "bslice (?p @ n @ ?q) (76 + length n + 3) (76 + length n + 36) = C"
    using bslice_suffix [of "?p @ n" "76 + length n" ?q 3 36] assms p by (simp_all add: bslice_def)
  have ops: "ensure_op_at (?p @ n @ ?q) 0 0x63 = Inr ()" "ensure_op_at (?p @ n @ ?q) 1 0x51 = Inr ()" "ensure_op_at (?p @ n @ ?q) 2 0xB2 = Inr ()"
     "ensure_op_at (?p @ n @ ?q) 3 0x75 = Inr ()" "ensure_op_at (?p @ n @ ?q) 4 0x52 = Inr ()" "ensure_op_at (?p @ n @ ?q) 5 33 = Inr ()"
     "ensure_op_at (?p @ n @ ?q) 39 33 = Inr ()" "ensure_op_at (?p @ n @ ?q) 73 0x52 = Inr ()" "ensure_op_at (?p @ n @ ?q) 74 0xAE = Inr ()"
     "ensure_op_at (?p @ n @ ?q) 75 0x67 = Inr ()"
    unfolding ensure_op_at_def using assms by (simp_all only: low) (simp_all add: bget_def nth_append rbind_def)
  have ops2: "ensure_op_at (?p @ n @ ?q) (76 + length n) 0xB2 = Inr ()" "ensure_op_at (?p @ n @ ?q) (76 + length n + 1) 0x75 = Inr ()"
     "ensure_op_at (?p @ n @ ?q) (76 + length n + 2) 33 = Inr ()" "ensure_op_at (?p @ n @ ?q) (76 + length n + 36) 0xAC = Inr ()"
     "ensure_op_at (?p @ n @ ?q) (76 + length n + 37) 0x68 = Inr ()"
    unfolding ensure_op_at_def using high [of 0] high [of 1] high [of 2] high [of 36] high [of 37] assms by (simp_all add: bget_def nth_append rbind_def)
  have len: "length (?p @ n @ ?q) = 76 + length n + 5 + 33" "76 < length (?p @ n @ ?q)"
    using p ne assms(3) by simp_all
  show ?thesis
    unfolding extractScriptLockRefundScriptValues_def OP_2_def OP_CHECKMULTISIG_def op.simps
    by (simp only: ops [folded s] dec [folded s] ops2 [folded s] len [folded s] cut [folded s] rbind_simps ensure_simps Let_def prod.case simp_thms) simp
qed

lemma dest_bytes:
  assumes "length h \<le> 75"
  shows "CScript [SOp (op OP_0), SData h] = Inr (0 # word_of_int (int (length h)) # h)"
  using assms by (simp add: CScript_def encode_op_pushdata_def rbind_def)

lemma ser_string_small: "length s < 253 \<Longrightarrow> ser_string s = Inr (word_of_int (int (length s)) # s)"
  by (simp add: ser_string_def ser_compact_size_def to_bytes_le_def rbind_def)

lemma spend_tx_ok: "spend_fits prev n sequence value script_out \<Longrightarrow> tx_ok (spend_tx prev n s sequence value script_out)"
  by (auto simp: spend_fits_def tx_ok_def spend_tx_def txVersion_def is_particl_def PARTICL_TX_VERSION_def vector_ok_def txin_ok_def
      outpoint_ok_def txout_ok_def string_ok_def getScriptScriptSig_def)

lemma spend_tx_plain: "\<not> is_particl (spend_tx prev n s sequence value script_out)" "wit_is_null (spend_tx prev n s sequence value script_out)"
  by (simp_all add: spend_tx_def is_particl_def txVersion_def PARTICL_TX_VERSION_def wit_is_null_def)

lemma spend_tx_serialized:
  assumes "spend_fits prev n sequence value script_out"
  obtains b where "serialize_with_witness (spend_tx prev n s sequence value script_out) = Inr b"
    "serialize_without_witness (spend_tx prev n s sequence value script_out) = Inr b"
    "length b = 60 + length script_out" "loadTx b = Inr (spend_tx prev n s sequence value script_out)"
proof -
  let ?tx = "spend_tx prev n s sequence value script_out"
  obtain b where b: "serialize_with_witness ?tx = Inr b"
    using serialize_total [OF spend_tx_ok [OF assms]] by blast
  have vin: "tx_vin ?tx \<noteq> []" "?tx\<lparr>tx_wit := []\<rparr> = ?tx"
    by (simp_all add: spend_tx_def)
  have "CTransaction_deserialize True (b @ []) = Inr (?tx\<lparr>tx_wit := []\<rparr>, [])"
    by (rule read_plain [OF spend_tx_ok [OF assms] spend_tx_plain _ b]) (simp add: vin)
  then have load: "loadTx b = Inr ?tx"
    by (simp add: loadTx_def vin)
  have "length b = 60 + length script_out" "serialize_without_witness ?tx = Inr b"
    using b assms
    by (auto simp: spend_tx_def serialize_with_witness_def serialize_without_witness_def is_particl_def txVersion_def PARTICL_TX_VERSION_def
        wit_is_null_def rbind_Inr_iff ser_vector_def CTxIn_serialize_def COutPoint_serialize_def CTxOut_serialize_def ser_compact_size_def
        getScriptScriptSig_def ser_string_small spend_fits_def to_bytes_le_def to_bytes_le_signed_def split: if_splits)
  with b load that show thesis
    by blast
qed

lemma spend_tx_vsize:
  assumes "spend_fits prev n sequence value script_out" "getWitnessStackSerialisedLength stack = Inr w"
  shows "witness_vsize stack (spend_tx prev n s sequence value script_out) = Inr ((4 * (60 + int (length script_out)) + w + 3) div 4)"
proof -
  obtain b where "serialize_with_witness (spend_tx prev n s sequence value script_out) = Inr b"
      "serialize_without_witness (spend_tx prev n s sequence value script_out) = Inr b" "length b = 60 + length script_out"
    using spend_tx_serialized [OF assms(1)] by metis
  then show ?thesis
    using assms(2) by (simp add: witness_vsize_def getTxVSize_def rbind_def witnessScaleFactor_def)
qed

lemma dummy_witness_len:
  assumes "length s < 253"
  shows "getWitnessStackSerialisedLength (getScriptLockTxDummyWitness s) = Inr (151 + int (length s))"
    "getWitnessStackSerialisedLength (getScriptLockRefundSpendTxDummyWitness s) = Inr (153 + int (length s))"
  using assms
  by (simp_all add: getWitnessStackSerialisedLength_def getScriptLockTxDummyWitness_def getScriptLockRefundSpendTxDummyWitness_def
      getCompactSizeLen_def getWitnessElementLen_def rbind_def)

lemma calc_sha256_range: "calc_sha256 sha256 tx = Inr h \<Longrightarrow> 0 \<le> h \<and> h < 2 ^ 256"
proof -
  assume "calc_sha256 sha256 tx = Inr h"
  then obtain b where "h = from_le (take 32 b)"
    by (auto simp: calc_sha256_def)
  moreover have "from_le (take 32 b) < 256 ^ length (take 32 b)" "(256::int) ^ length (take 32 b) \<le> 256 ^ 32"
    by (rule from_le_less) (intro power_increasing, auto)
  ultimately show ?thesis
    using from_le_nonneg [of "take 32 b"] by simp
qed

lemma getTxid_iff: "getTxid_btc sha256 tx = Inr i \<longleftrightarrow> calc_sha256 sha256 tx = Inr (b2i i) \<and> length i = 32"
  by (auto simp: getTxid_btc_def rbind_Inr_iff b2i_i2b)

lemma spend_tx_id:
  assumes "spend_fits prev n sequence value script_out"
  obtains i where "getTxid_btc sha256 (spend_tx prev n s sequence value script_out) = Inr i"
proof -
  obtain b where "serialize_without_witness (spend_tx prev n s sequence value script_out) = Inr b"
    using spend_tx_serialized [OF assms] by metis
  then obtain h where h: "calc_sha256 sha256 (spend_tx prev n s sequence value script_out) = Inr h"
    by (auto simp: calc_sha256_def)
  have "i2b h = Inr (rev (le_bytes 32 h))"
    using calc_sha256_range [OF h] by (simp add: i2b_def to_bytes_be_def)
  with h that show thesis
    by (auto simp: getTxid_btc_def)
qed

text \<open>The fee of a transaction that was built for a rate is accepted for that rate.\<close>

lemma built_fee_accepted:
  assumes fits: "spend_fits prev n sequence coin script_out" "rate \<le> coin"
    and stack: "getWitnessStackSerialisedLength stack = Inr w" "160 \<le> 4 * int (length script_out) + w" "w < 1000"
    and vsize: "witness_vsize stack (spend_tx prev n s sequence coin script_out) = Inr vsize"
    and rate: "feeForVSize rate vsize = Inr fee" "0 < rate" "rate < 2 ^ 40"
  shows "check_fee_rate stack (spend_tx prev n s sequence (coin - fee) script_out) fee rate = Inr ()"
    "0 < fee" "fee * 1000 < 600 * rate + 1000" "fee \<le> coin" "spend_fits prev n sequence (coin - fee) script_out"
proof -
  have size: "vsize = (4 * (60 + int (length script_out)) + w + 3) div 4"
    using vsize spend_tx_vsize [OF fits(1) stack(1), of s] by simp
  have div: "100 \<le> x div 4 \<and> x div 4 < 600" if "400 \<le> x" "x < 2400" for x :: int
    using that zdiv_mono1 [of 400 x 4] zdiv_mono1 [of x 2399 4] by simp
  have v: "100 \<le> vsize" "vsize < 600"
    using div [of "4 * (60 + int (length script_out)) + w + 3"] stack fits(1) unfolding size spend_fits_def by auto
  have "rate * vsize < 2 ^ 40 * 600"
    using v rate by (intro mult_strict_mono) auto
  then obtain fee' where "feeForVSize rate vsize = Inr fee'" "rate * vsize \<le> fee' * 1000" "fee' * 1000 < rate * vsize + 1000" "0 < fee'"
    using feeForVSize_exact [of rate vsize] rate v by auto
  then have fee: "rate * vsize \<le> fee * 1000" "fee * 1000 < rate * vsize + 1000" "0 < fee"
    using rate(1) by simp_all
  have "rate * vsize \<le> rate * 600"
    using v rate by (intro mult_left_mono) auto
  with fee fits(2) show pos: "0 < fee" and small: "fee * 1000 < 600 * rate + 1000" and le: "fee \<le> coin"
    by simp_all
  show fits2: "spend_fits prev n sequence (coin - fee) script_out"
    using fee(3) le fits by (simp add: spend_fits_def)
  have "compareFeeRates (fee * 1000 div vsize) rate"
    using fee_rate_accepted [OF fee(1,2) v(1)] .
  then show "check_fee_rate stack (spend_tx prev n s sequence (coin - fee) script_out) fee rate = Inr ()"
    using spend_tx_vsize [OF fits2 stack(1), of s] v unfolding size [symmetric] by (simp add: check_fee_rate_def fee_rate_paid_def rbind_def)
qed

lemma spend_tx_checks:
  assumes "b2i prev_id = prev"
  shows "check_form (spend_tx prev n s sequence value script_out) = Inr ()"
    "check_input (spend_tx prev n s sequence value script_out) sequence s' prev_id (int n) = Inr ()"
  using assms by (simp_all add: check_form_def check_input_def spend_tx_def rbind_def getScriptScriptSig_def)

lemma spend_tx_output:
  assumes "getScriptDest_btc sha256 s' = Inr script_out"
  shows "locked_output sha256 (spend_tx prev n s sequence value script_out) s' = Inr (0, value)"
  using assms by (simp add: locked_output_def findOutput_def spend_tx_def)

lemma refund_verifies:
  assumes H: "\<And>x. length (sha256 x) = 32"
    and lock: "lock_found sha256 lock_bytes script_lock txid n coin" "n < 2 ^ 32" "0 \<le> coin" "coin \<le> max_money" "length script_lock = 71"
    and made: "createSCLockRefundTx sha256 lock_bytes script_lock Kal Kaf lock1 csv rate = Inr (b, refund_script, value)" "rate \<le> coin"
    and terms: "0 \<le> lock1" "lock1 < 2 ^ 32" "0 \<le> csv" "csv < 2 ^ 31" "0 < rate" "rate < 2 ^ 40"
  shows "\<exists>refund_id. lock_found sha256 b refund_script refund_id 0 value \<and> length refund_script < 253
     \<and> verifySCLockRefundTx sha256 b refund_script txid (int n) lock1 script_lock Kal Kaf csv coin rate = Inr (refund_id, value, 0)
     \<and> 0 \<le> value \<and> value < coin \<and> (coin - value) * 1000 < 600 * rate + 1000"
proof -
  obtain tx where tx: "loadTx lock_bytes = Inr tx" "getTxid_btc sha256 tx = Inr txid" "locked_output sha256 tx script_lock = Inr (n, coin)"
    using lock(1) by (auto simp: lock_found_def)
  let ?prev = "b2i txid" and ?dest = "0 # 32 # sha256 refund_script"
  have prev: "calc_sha256 sha256 tx = Inr ?prev"
    using tx(2) by (simp add: getTxid_iff)
  have dest: "getScriptDest_btc sha256 s = Inr (0 # 32 # sha256 s)" for s
    using dest_bytes [of "sha256 s"] H by (simp add: getScriptDest_btc_def)
  obtain vsize fee where parts: "genScriptLockRefundTxScript Kal Kaf csv = Inr refund_script"
      "witness_vsize (getScriptLockTxDummyWitness script_lock) (spend_tx ?prev n script_lock lock1 coin ?dest) = Inr vsize"
      "feeForVSize rate vsize = Inr fee" "serialize_with_witness (spend_tx ?prev n script_lock lock1 (coin - fee) ?dest) = Inr b"
      "value = coin - fee"
    using made tx prev dest by (auto simp: createSCLockRefundTx_def)
  have range: "0 \<le> ?prev" "?prev < 2 ^ 256"
    using calc_sha256_range [OF prev] by simp_all
  have fits: "spend_fits ?prev n lock1 coin ?dest"
    using range lock terms H by (simp add: spend_fits_def max_money_def)
  have w: "getWitnessStackSerialisedLength (getScriptLockTxDummyWitness script_lock) = Inr 222"
    using dummy_witness_len(1) [of script_lock] lock by simp
  have built: "check_fee_rate (getScriptLockTxDummyWitness script_lock) (spend_tx ?prev n script_lock lock1 value ?dest) fee rate = Inr ()"
      "0 < fee" "spend_fits ?prev n lock1 value ?dest" "fee * 1000 < 600 * rate + 1000" "fee \<le> coin"
    using built_fee_accepted [OF fits made(2) w _ _ parts(2,3) terms(5,6)] parts(5) by simp_all
  obtain b' where b': "serialize_with_witness (spend_tx ?prev n script_lock lock1 value ?dest) = Inr b'"
      "loadTx b' = Inr (spend_tx ?prev n script_lock lock1 value ?dest)"
    using spend_tx_serialized [OF built(3)] by metis
  have load: "loadTx b = Inr (spend_tx ?prev n script_lock lock1 value ?dest)"
    using b' parts(4,5) by simp
  obtain i where i: "getTxid_btc sha256 (spend_tx ?prev n script_lock lock1 value ?dest) = Inr i"
    using spend_tx_id [OF built(3)] by metis
  have found: "lock_found sha256 b refund_script i 0 value"
    using load i spend_tx_output [OF dest] by (simp add: lock_found_def)
  obtain num where shape: "length Kal = 33" "length Kaf = 33" "SerialiseNum csv = Inr num" "refund_script = refund_script_shape Kal Kaf num Kaf"
    using parts(1) genScriptLockRefundTxScript_shape [OF terms(3,4), of Kal Kaf refund_script] by auto
  have ext: "extractScriptLockRefundScriptValues refund_script = Inr (Kal, Kaf, csv, Kaf)"
    unfolding shape(4) by (rule extractRefund_of_shape) (use shape terms in simp_all)
  have "length num \<le> 5"
    using coerce_SerialiseNum [OF terms(3,4)] shape(3) by auto
  then have short: "length refund_script < 253"
    using shape by (simp add: refund_script_shape_def)
  have "verifySCLockRefundTx sha256 b refund_script txid (int n) lock1 script_lock Kal Kaf csv coin rate = Inr (i, value, 0)"
    using load i spend_tx_checks [of txid, OF refl] spend_tx_output [OF dest] ext built parts(5) lock(3,4)
    by (simp add: verifySCLockRefundTx_def rbind_def money_range_def)
  with found short show ?thesis
    using built parts(5) by auto
qed

lemma refund_spend_verifies:
  assumes refund: "lock_found sha256 refund_bytes refund_script refund_id 0 coin" "rate \<le> coin" "coin \<le> max_money" "length refund_script < 253"
    and made: "createSCLockRefundSpendTx sha256 refund_bytes refund_script pkh rate = Inr b" "length pkh = 20"
    and rate: "0 < rate" "rate < 2 ^ 40"
  shows "verifySCLockRefundSpendTx sha256 b refund_id refund_script coin rate = Inr ()"
proof -
  obtain tx where tx: "loadTx refund_bytes = Inr tx" "getTxid_btc sha256 tx = Inr refund_id" "locked_output sha256 tx refund_script = Inr (0, coin)"
    using refund(1) by (auto simp: lock_found_def)
  let ?prev = "b2i refund_id" and ?dest = "0 # 20 # pkh"
  have prev: "calc_sha256 sha256 tx = Inr ?prev"
    using tx(2) by (simp add: getTxid_iff)
  have dest: "getScriptForPubkeyHash pkh = Inr ?dest"
    using dest_bytes [of pkh] made(2) by (simp add: getScriptForPubkeyHash_def)
  obtain vsize fee where parts:
      "witness_vsize (getScriptLockRefundSpendTxDummyWitness refund_script) (spend_tx ?prev 0 refund_script 1 coin ?dest) = Inr vsize"
      "feeForVSize rate vsize = Inr fee" "serialize_with_witness (spend_tx ?prev 0 refund_script 1 (coin - fee) ?dest) = Inr b"
    using made tx prev dest by (auto simp: createSCLockRefundSpendTx_def)
  have fits: "spend_fits ?prev 0 1 coin ?dest"
    using calc_sha256_range [OF prev] refund rate made(2) by (simp add: spend_fits_def max_money_def)
  have w: "getWitnessStackSerialisedLength (getScriptLockRefundSpendTxDummyWitness refund_script) = Inr (153 + int (length refund_script))"
    using dummy_witness_len(2) refund(4) by simp
  have built: "check_fee_rate (getScriptLockRefundSpendTxDummyWitness refund_script) (spend_tx ?prev 0 refund_script 1 (coin - fee) ?dest) fee rate = Inr ()"
      "0 < fee" "spend_fits ?prev 0 1 (coin - fee) ?dest" "fee \<le> coin"
    using built_fee_accepted [OF fits refund(2) w _ _ parts(1,2) rate] refund(4) made(2) by simp_all
  have load: "loadTx b = Inr (spend_tx ?prev 0 refund_script 1 (coin - fee) ?dest)"
    using spend_tx_serialized [OF built(3), of refund_script] parts(3) by (metis sum.inject(2))
  obtain i where i: "getTxid_btc sha256 (spend_tx ?prev 0 refund_script 1 (coin - fee) ?dest) = Inr i"
    using spend_tx_id [OF built(3)] by metis
  have val: "nValue (tx_vout (spend_tx ?prev 0 refund_script 1 (coin - fee) ?dest) ! 0) = coin - fee"
    by (simp add: spend_tx_def)
  show ?thesis
    using load i spend_tx_checks [of refund_id, OF refl, of 0 refund_script 1] built refund(3)
    by (simp add: verifySCLockRefundSpendTx_def rbind_def money_range_def val)
qed

lemma lock_spend_verifies:
  assumes lock: "lock_found sha256 lock_bytes script_lock txid n coin" "n < 2 ^ 32" "coin \<le> max_money" "length script_lock = 71"
    and refund: "getLockRefundTxFee coin refund_bytes = Inr fee" "fee + ADAPTOR_SIG_LOCK_SPEND_FEE_BUFFER \<le> coin"
    and made: "createSCLockSpendTx_btc sha256 lock_bytes script_lock dest rate (Some refund_bytes) = Inr b"
  shows "verifySCLockSpendTx_btc sha256 b lock_bytes script_lock dest rate (Some refund_bytes) = Inr ()"
proof -
  obtain tx where tx: "loadTx lock_bytes = Inr tx" "getTxid_btc sha256 tx = Inr txid" "locked_output sha256 tx script_lock = Inr (n, coin)"
    using lock(1) by (auto simp: lock_found_def)
  let ?prev = "b2i txid" and ?paid_out = "coin - (fee + ADAPTOR_SIG_LOCK_SPEND_FEE_BUFFER)"
  have prev: "calc_sha256 sha256 tx = Inr ?prev"
    using tx(2) by (simp add: getTxid_iff)
  obtain out where parts: "spend_destination dest = Inr out" "serialize_with_witness (spend_tx ?prev n script_lock 0 ?paid_out out) = Inr b"
    using made tx prev refund(1) by (auto simp: createSCLockSpendTx_btc_def)
  have fee: "0 < fee"
    using refund(1) by (auto simp: getLockRefundTxFee_def Let_def)
  have out: "length out \<le> 34"
    using parts(1) dest_bytes [of dest] by (auto simp: spend_destination_def getScriptForPubkeyHash_def isValidAddressHash_def isValidTxoDest_def
      isScriptP2WPKH_def isScriptP2WSH_def split: if_splits)
  have fits: "spend_fits ?prev n 0 ?paid_out out"
    using calc_sha256_range [OF prev] lock refund(2) fee out by (simp add: spend_fits_def max_money_def ADAPTOR_SIG_LOCK_SPEND_FEE_BUFFER_def)
  have load: "loadTx b = Inr (spend_tx ?prev n script_lock 0 ?paid_out out)"
    using spend_tx_serialized [OF fits, of script_lock] parts(2) by (metis sum.inject(2))
  obtain i where i: "getTxid_btc sha256 (spend_tx ?prev n script_lock 0 ?paid_out out) = Inr i"
    using spend_tx_id [OF fits] by metis
  have "witness_vsize (getScriptLockTxDummyWitness script_lock) (spend_tx ?prev n script_lock 0 ?paid_out out)
      = Inr ((4 * (60 + int (length out)) + 225) div 4)"
    using spend_tx_vsize [OF fits dummy_witness_len(1), of script_lock] lock(4) by simp
  moreover have "(4 * (60 + int (length out)) + 225) div 4 \<noteq> 0"
    by simp
  ultimately obtain paid where paid: "fee_rate_paid (getScriptLockTxDummyWitness script_lock) (spend_tx ?prev n script_lock 0 ?paid_out out)
      (fee + ADAPTOR_SIG_LOCK_SPEND_FEE_BUFFER) = Inr paid"
    by (auto simp: fee_rate_paid_def rbind_def)
  have buffer: "0 < ADAPTOR_SIG_LOCK_SPEND_FEE_BUFFER"
    by (simp add: ADAPTOR_SIG_LOCK_SPEND_FEE_BUFFER_def)
  have one: "scriptPubKey (tx_vout (spend_tx ?prev n script_lock 0 ?paid_out out) ! 0) = out" "nValue (tx_vout (spend_tx ?prev n script_lock 0 ?paid_out out) ! 0) = ?paid_out"
    by (simp_all add: spend_tx_def)
  show ?thesis
    using load i tx spend_tx_checks [of txid, OF refl, of n script_lock 0] parts(1) paid refund fee lock(3) buffer
    by (simp add: verifySCLockSpendTx_btc_def rbind_def money_range_def one)
qed

lemma find_output_Some: "find_output outs s = Some n \<Longrightarrow> n < length outs \<and> scriptPubKey (outs ! n) = s"
  by (induction outs arbitrary: n) (auto split: if_splits)

lemma locked_output_iff:
  "locked_output sha256 tx s = Inr (n, v) \<Longrightarrow>
     n < length (tx_vout tx) \<and> nValue (tx_vout tx ! n) = v \<and> getScriptDest_btc sha256 s = Inr (scriptPubKey (tx_vout tx ! n))"
  by (auto simp: locked_output_def findOutput_def split: option.splits dest!: find_output_Some)

lemma checked_spends_only:
  assumes "check_form tx = Inr ()" "check_input tx sequence s prev_id n = Inr ()"
  shows "spends_only tx prev_id n sequence (tx_vout tx ! 0)"
proof -
  obtain i where i: "tx_vin tx = [i]"
    using assms by (auto simp: check_form_def length_Suc_conv)
  obtain txo where "tx_vout tx = [txo]"
    using assms by (auto simp: check_input_def Let_def length_Suc_conv)
  then show ?thesis
    using assms i by (auto simp: check_form_def check_input_def Let_def spends_only_def txVersion_def getScriptScriptSig_def)
qed

lemma checked_one_output: "check_input tx sequence s prev_id n = Inr () \<Longrightarrow> length (tx_vout tx) = 1"
  by (auto simp: check_input_def Let_def)

lemma check_fee_rate_pays: "check_fee_rate stack tx fee rate = Inr () \<Longrightarrow> 0 < fee \<Longrightarrow> pays_rate stack tx fee rate"
  by (auto simp: check_fee_rate_def fee_rate_paid_def pays_rate_def compareFeeRates_def split: if_splits)

lemma verified_refundable:
  assumes lock: "verifySCLockTx sha256 h prev_output lock_bytes lock_s amount Kal Kaf check_lock_tx_inputs = Inr (lock_id, n)"
    and refund: "verifySCLockRefundTx sha256 refund_bytes refund_s lock_id (int n) lock1 lock_s Kal Kaf lock2 amount rate = Inr (refund_id, value, m)"
    and spend: "verifySCLockRefundSpendTx sha256 spend_bytes refund_id refund_s value rate = Inr ()"
  shows "refundable_lock sha256 lock_bytes lock_s lock_id n refund_bytes refund_s refund_id spend_bytes Kal Kaf amount value lock1 lock2 rate"
proof -
  obtain ltx where l: "loadTx lock_bytes = Inr ltx" "getTxid_btc sha256 ltx = Inr lock_id" "locked_output sha256 ltx lock_s = Inr (n, amount)"
      "extractScriptLockScriptValues lock_s = Inr (Kal, Kaf)"
    using lock by (auto simp: verifySCLockTx_def)
  obtain rtx where r: "loadTx refund_bytes = Inr rtx" "getTxid_btc sha256 rtx = Inr refund_id" "check_form rtx = Inr ()"
      "check_input rtx lock1 lock_s lock_id (int n) = Inr ()" "locked_output sha256 rtx refund_s = Inr (m, value)"
      "extractScriptLockRefundScriptValues refund_s = Inr (Kal, Kaf, lock2, Kaf)" "0 < amount - value"
      "check_fee_rate (getScriptLockTxDummyWitness lock_s) rtx (amount - value) rate = Inr ()"
    using refund by (auto simp: verifySCLockRefundTx_def)
  obtain stx where s: "loadTx spend_bytes = Inr stx" "check_form stx = Inr ()" "check_input stx 1 refund_s refund_id 0 = Inr ()"
      "0 \<le> nValue (tx_vout stx ! 0)" "0 < value - nValue (tx_vout stx ! 0)"
      "check_fee_rate (getScriptLockRefundSpendTxDummyWitness refund_s) stx (value - nValue (tx_vout stx ! 0)) rate = Inr ()"
    using spend by (auto simp: verifySCLockRefundSpendTx_def Let_def money_range_def)
  obtain num where num: "decodeScriptNum refund_s 76 = Inr (lock2, length num)" "refund_s = refund_script_shape Kal Kaf num Kaf"
    using extractRefund_shape [OF r(6)] by metis
  have only: "spends_only rtx lock_id (int n) lock1 (tx_vout rtx ! 0)" "spends_only stx refund_id 0 1 (tx_vout stx ! 0)"
    using checked_spends_only r s by blast+
  have "m = 0"
    using checked_one_output [OF r(4)] locked_output_iff [OF r(5)] by simp
  then show ?thesis
    unfolding refundable_lock_def
    using l r(1,2) s(1,4) only num locked_output_iff [OF l(3)] locked_output_iff [OF r(5)] l(4) [unfolded extractScriptLockScriptValues_iff]
      check_fee_rate_pays [OF r(8,7)] check_fee_rate_pays [OF s(6,5)]
    by blast
qed

text \<open>C6. What the follower knows when the transactions of coin A verify. Let \<open>verifySCLockTx\<close>, \<open>verifySCLockRefundTx\<close> and
  \<open>verifySCLockRefundSpendTx\<close> accept, each with what the one before returned. Then the lock pays exactly the agreed amount to the two-of-two script
  of both keys; the refund has that output as its only input, with the first lock time as its sequence, and pays all of it but the fee to the script that lets both
  keys spend it, or the follower's key alone after the second lock time; the spend has the refund's output as its only input. Both pay the agreed fee rate, or up to 9 sats per 1000 vbytes more.\<close>

theorem verified_lock_refundable:
  assumes lock: "verifySCLockTx sha256 h prev_output lock_bytes lock_s amount Kal Kaf check_lock_tx_inputs = Inr (lock_id, n)"
    and refund: "verifySCLockRefundTx sha256 refund_bytes refund_s lock_id (int n) lock1 lock_s Kal Kaf lock2 amount rate = Inr (refund_id, value, m)"
    and spend: "verifySCLockRefundSpendTx sha256 spend_bytes refund_id refund_s value rate = Inr ()"
  shows "refundable_lock sha256 lock_bytes lock_s lock_id n refund_bytes refund_s refund_id spend_bytes Kal Kaf amount value lock1 lock2 rate"
  using assms by (rule verified_refundable)

text \<open>C17. What the leader builds is what the follower accepts. For a lock transaction that pays at least three times the fee of 1000 vbytes to the
  two-of-two script, the refund, the spend of the refund and the spend of the lock made by \<open>createSCLockRefundTx\<close>, \<open>createSCLockRefundSpendTx\<close> and
  \<open>createSCLockSpendTx\<close> pass \<open>verifySCLockRefundTx\<close>, \<open>verifySCLockRefundSpendTx\<close> and \<open>verifySCLockSpendTx\<close> with the same lock times and fee
  rate: the fee rounded up from a double stays within what \<open>compareFeeRates\<close> allows.\<close>

theorem built_transactions_verify:
  assumes H: "\<And>x. length (sha256 x) = 32"
    and lock: "lock_found sha256 lock_bytes script_lock txid n coin" "n < 2 ^ 32" "coin \<le> max_money" "length script_lock = 71"
    and refund: "createSCLockRefundTx sha256 lock_bytes script_lock Kal Kaf lock1 lock2 rate = Inr (refund_bytes, refund_script, value)"
    and terms: "0 \<le> lock1" "lock1 < 2 ^ 32" "0 \<le> lock2" "lock2 < 2 ^ 31" "12 \<le> rate" "rate < 2 ^ 40" "3 * rate \<le> coin"
    and spend: "createSCLockRefundSpendTx sha256 refund_bytes refund_script pkh rate = Inr spend_bytes" "length pkh = 20"
    and lock_spend: "createSCLockSpendTx_btc sha256 lock_bytes script_lock dest rate (Some refund_bytes) = Inr lock_spend_bytes"
  shows "\<exists>refund_id. verifySCLockRefundTx sha256 refund_bytes refund_script txid (int n) lock1 script_lock Kal Kaf lock2 coin rate = Inr (refund_id, value, 0)
     \<and> verifySCLockRefundSpendTx sha256 spend_bytes refund_id refund_script value rate = Inr ()
     \<and> verifySCLockSpendTx_btc sha256 lock_spend_bytes lock_bytes script_lock dest rate (Some refund_bytes) = Inr ()"
proof -
  obtain refund_id where r: "lock_found sha256 refund_bytes refund_script refund_id 0 value" "length refund_script < 253"
      "verifySCLockRefundTx sha256 refund_bytes refund_script txid (int n) lock1 script_lock Kal Kaf lock2 coin rate = Inr (refund_id, value, 0)"
      "0 \<le> value" "value < coin" "(coin - value) * 1000 < 600 * rate + 1000"
    using refund_verifies [OF H lock(1,2) _ lock(3,4) refund _ terms(1-4) _ terms(6)] terms(5,7) by auto
  have v: "rate \<le> value" "value \<le> max_money"
    using r(5,6) terms(5,7) lock(3) by simp_all
  have s: "verifySCLockRefundSpendTx sha256 spend_bytes refund_id refund_script value rate = Inr ()"
    by (rule refund_spend_verifies [OF r(1) v r(2) spend]) (use terms in simp_all)
  obtain tx where tx: "loadTx refund_bytes = Inr tx" "check_form tx = Inr ()" "check_input tx lock1 script_lock txid (int n) = Inr ()"
      "locked_output sha256 tx refund_script = Inr (0, value)"
    using r(3) by (auto simp: verifySCLockRefundTx_def)
  have "getLockRefundTxFee coin refund_bytes = Inr (coin - value)"
    using tx(1) checked_one_output [OF tx(3)] locked_output_iff [OF tx(4)] r(5) by (simp add: getLockRefundTxFee_def Let_def)
  then have "verifySCLockSpendTx_btc sha256 lock_spend_bytes lock_bytes script_lock dest rate (Some refund_bytes) = Inr ()"
    by (rule lock_spend_verifies [OF lock _ _ lock_spend]) (use v(1) terms(5) in \<open>simp add: ADAPTOR_SIG_LOCK_SPEND_FEE_BUFFER_def\<close>)
  with r(3) s show ?thesis
    by blast
qed

lemma example_found: "lock_found pad_hash example_lock example_lock_script example_lock_id 0 500000"
proof -
  have "case loadTx example_lock of Inl _ \<Rightarrow> False | Inr tx \<Rightarrow> getTxid_btc pad_hash tx = Inr example_lock_id
      \<and> locked_output pad_hash tx example_lock_script = Inr (0, 500000)"
    by code_simp
  then show ?thesis
    by (auto simp: lock_found_def split: sum.splits)
qed

lemma example_built:
  "createSCLockRefundTx pad_hash example_lock example_lock_script example_kal example_kaf 12 20 2500
     = Inr (fst example_refund, fst (snd example_refund), snd (snd example_refund))"
  "createSCLockRefundSpendTx pad_hash (fst example_refund) (fst (snd example_refund)) (replicate 20 5) 2500 = Inr example_spend"
  "createSCLockSpendTx_btc pad_hash example_lock example_lock_script (replicate 20 6) 2500 (Some (fst example_refund)) = Inr example_lock_spend"
  by code_simp+

theorem built_transactions_verify_witness:
  "\<exists>refund_id. verifySCLockRefundTx pad_hash (fst example_refund) (fst (snd example_refund)) example_lock_id 0 12 example_lock_script
       example_kal example_kaf 20 500000 2500 = Inr (refund_id, snd (snd example_refund), 0)
     \<and> verifySCLockRefundSpendTx pad_hash example_spend refund_id (fst (snd example_refund)) (snd (snd example_refund)) 2500 = Inr ()
     \<and> verifySCLockSpendTx_btc pad_hash example_lock_spend example_lock example_lock_script (replicate 20 6) 2500 (Some (fst example_refund)) = Inr ()
     \<and> snd (snd example_refund) = 499625"
proof -
  have "length (pad_hash x) = 32" for x
    by (simp add: pad_hash_def)
  moreover have "length example_lock_script = 71" "snd (snd example_refund) = 499625"
    by code_simp+
  ultimately show ?thesis
    using built_transactions_verify [OF _ example_found _ _ _ example_built(1) _ _ _ _ _ _ _ example_built(2) _ example_built(3)]
    by (simp add: max_money_def)
qed

theorem verified_lock_refundable_witness:
  "\<exists>refund_id. refundable_lock pad_hash example_lock example_lock_script example_lock_id 0 (fst example_refund) (fst (snd example_refund)) refund_id
     example_spend example_kal example_kaf 500000 (snd (snd example_refund)) 12 20 2500"
proof -
  have lock: "verifySCLockTx pad_hash (Inr 0) (\<lambda>_. Inl AttributeError) example_lock example_lock_script 500000 example_kal example_kaf False = Inr (example_lock_id, 0)"
    by code_simp
  have "case verifySCLockRefundTx pad_hash (fst example_refund) (fst (snd example_refund)) example_lock_id (int 0) 12 example_lock_script
       example_kal example_kaf 20 500000 2500 of Inl _ \<Rightarrow> False
     | Inr (i, v, m) \<Rightarrow> v = snd (snd example_refund) \<and> verifySCLockRefundSpendTx pad_hash example_spend i (fst (snd example_refund)) v 2500 = Inr ()"
    by code_simp
  then obtain i m where r: "verifySCLockRefundTx pad_hash (fst example_refund) (fst (snd example_refund)) example_lock_id (int 0) 12 example_lock_script
       example_kal example_kaf 20 500000 2500 = Inr (i, snd (snd example_refund), m)"
      "verifySCLockRefundSpendTx pad_hash example_spend i (fst (snd example_refund)) (snd (snd example_refund)) 2500 = Inr ()"
    by (auto split: sum.splits prod.splits)
  show ?thesis
    using verified_lock_refundable [OF lock r] by blast
qed

text \<open>The scripts that verify are the scripts that are generated. \<open>extractScriptLockScriptValues\<close> accepts a script with two keys exactly when
  \<open>genScriptLockTxScript\<close> makes it from these keys; and what \<open>genScriptLockRefundTxScript\<close> makes for a lock of less than \<open>2\<^sup>3\<^sup>1\<close> is accepted by
  \<open>extractScriptLockRefundScriptValues\<close> with its keys and its lock.\<close>

theorem lock_scripts_exact:
  "(genScriptLockTxScript A B = Inr s \<longleftrightarrow> extractScriptLockScriptValues s = Inr (A, B))
   \<and> (genScriptLockRefundTxScript A B v = Inr r \<longrightarrow> 0 \<le> v \<longrightarrow> v < 2 ^ 31 \<longrightarrow> extractScriptLockRefundScriptValues r = Inr (A, B, v, B))"
proof (intro conjI impI)
  show "genScriptLockTxScript A B = Inr s \<longleftrightarrow> extractScriptLockScriptValues s = Inr (A, B)"
    by (simp add: genScriptLockTxScript_iff extractScriptLockScriptValues_iff)
next
  assume "genScriptLockRefundTxScript A B v = Inr r" "0 \<le> v" "v < 2 ^ 31"
  then obtain n where "length A = 33" "length B = 33" "SerialiseNum v = Inr n" "r = refund_script_shape A B n B"
    using genScriptLockRefundTxScript_shape by blast
  then show "extractScriptLockRefundScriptValues r = Inr (A, B, v, B)"
    using \<open>0 \<le> v\<close> \<open>v < 2 ^ 31\<close> by (auto intro!: extractRefund_of_shape)
qed

theorem lock_scripts_exact_witness:
  "\<exists>r. genScriptLockRefundTxScript example_kal example_kaf 1000 = Inr r \<and> extractScriptLockRefundScriptValues r = Inr (example_kal, example_kaf, 1000, example_kaf)"
proof -
  have "\<not> isl (genScriptLockRefundTxScript example_kal example_kaf 1000)"
    by code_simp
  then obtain r where "genScriptLockRefundTxScript example_kal example_kaf 1000 = Inr r"
    by (cases "genScriptLockRefundTxScript example_kal example_kaf 1000") auto
  then show ?thesis
    using lock_scripts_exact [of example_kal example_kaf "[]" 1000 r] by auto
qed

end
