(* ===== verification/Bid_Acceptance.thy ===== *)
theory Bid_Acceptance
  imports Adaptor_Messages Lock_Props
begin

text \<open>
  Accepting bids. The follower of an adaptor signature swap receives the leader's transactions (\<open>processXmrBidAccept\<close>, \<open>receiveXmrBidAccept\<close>), the bidder
  of a secret hash swap the initiate contract (\<open>processBidAccept\<close>), in \<open>src/basicswap/basicswap.py\<close>. The methods that verify the transactions of coin A are fields
  of \<open>accept_interface\<close>; \<open>btc_accepting\<close> sets them to the definitions of \<open>Lock_Transactions\<close> for the coins that inherit them from \<open>BTCInterface\<close>.
  Keys, proofs of discrete logarithms and the scripts of BCH remain fields.
\<close>

section \<open>Definitions\<close>

subsection \<open>What acceptance asks of the coins\<close>

datatype Curves = secp256k1 | ed25519

text \<open>The values in the lock scripts of BCH, passed on to the methods that verify its transactions.\<close>

record bch_values =
  bv_mining_fee :: int
  bv_out_1 :: bytes
  bv_out_2 :: bytes
  bv_public_key :: bytes
  bv_timelock :: int

text \<open>Keys and proofs, the verification of the transactions of coin A, and what is read of the scripts of BCH. The last argument of the first three methods that
  verify transactions is \<open>lockExtraArgs\<close> or \<open>refundExtraArgs\<close>, the one before it the shared view key.\<close>

record accept_interface =
  curve_type :: Curves
  lengthDLEAG :: nat
  verifyDLEAG :: "bytes \<Rightarrow> bool res"
  verifyPubkey :: "bytes option \<Rightarrow> bool res"
  verifySigAndRecover :: "bytes \<Rightarrow> string \<Rightarrow> bytes res"
  sumPubkeys :: "bytes option \<Rightarrow> bytes option \<Rightarrow> bytes res"
  verify_a_lock :: "bytes \<Rightarrow> bytes \<Rightarrow> int \<Rightarrow> bytes \<Rightarrow> bytes option \<Rightarrow> int \<Rightarrow> bytes \<Rightarrow> bch_values option \<Rightarrow> (bytes \<times> int) res"
  verify_a_refund :: "bytes \<Rightarrow> bytes \<Rightarrow> bytes \<Rightarrow> bytes \<Rightarrow> int \<Rightarrow> int \<Rightarrow> bytes \<Rightarrow> bytes \<Rightarrow> bytes option \<Rightarrow> int \<Rightarrow> int \<Rightarrow> int \<Rightarrow> bytes
     \<Rightarrow> bch_values option \<Rightarrow> (bytes \<times> int \<times> int) res"
  verify_a_refund_spend :: "bytes \<Rightarrow> bytes \<Rightarrow> bytes \<Rightarrow> bytes \<Rightarrow> bytes \<Rightarrow> int \<Rightarrow> int \<Rightarrow> int \<Rightarrow> bytes \<Rightarrow> bch_values option \<Rightarrow> unit res"
  bch_lock_values :: "bytes \<Rightarrow> bch_values res"
  bch_pkh_script :: "bytes option \<Rightarrow> bytes res"
  scriptToP2SH32LockingBytecode :: "bytes \<Rightarrow> bytes"

type_synonym accepting = "Coins \<Rightarrow> accept_interface"

text \<open>The coins whose interface has these three methods, and all that they call, from \<open>BTCInterface\<close>, and the methods. The other coins override the script
  destination, the bound on amounts, the format of transactions or the weight of witnesses.\<close>

definition inherits_btc :: "Coins \<Rightarrow> bool" where
  "inherits_btc c \<longleftrightarrow> c \<in> {BTC, NMC}"

definition btc_verification :: "(bytes \<Rightarrow> bytes) \<Rightarrow> int res \<Rightarrow> accept_interface \<Rightarrow> accept_interface" where
  "btc_verification sha256 height i =
     i\<lparr>verify_a_lock := \<lambda>tx s swap_value Kal Kaf fee_rate kv args.
           rbind (of_option (ValueError ''Bad script pubkey'') Kaf) (\<lambda>Kaf.
           rbind (verifySCLockTx sha256 height (\<lambda>_. Inl AttributeError) tx s swap_value Kal Kaf False) (\<lambda>(t, k). Inr (t, int k))),
       verify_a_refund := \<lambda>tx lock_tx s prevout_id prevout_n prevout_seq prevout_script Kal Kaf csv swap_value fee_rate kv args.
           rbind (of_option (ValueError ''Bad script pubkey'') Kaf) (\<lambda>Kaf.
           rbind (verifySCLockRefundTx sha256 tx s prevout_id prevout_n prevout_seq prevout_script Kal Kaf csv swap_value fee_rate) (\<lambda>(t, v, k).
           Inr (t, v, int k))),
       verify_a_refund_spend := \<lambda>tx refund_tx refund_id prevout_script Kal prevout_n prevout_value fee_rate kv args.
           verifySCLockRefundSpendTx sha256 tx refund_id prevout_script prevout_value fee_rate\<rparr>"

definition btc_accepting :: "(bytes \<Rightarrow> bytes) \<Rightarrow> (Coins \<Rightarrow> int res) \<Rightarrow> accepting \<Rightarrow> accepting" where
  "btc_accepting sha256 heights A c = (if inherits_btc c then btc_verification sha256 (heights c) (A c) else A c)"

subsection \<open>The follower receives the leader's transactions\<close>

text \<open>What the message carries.\<close>

record accept_data =
  ad_pkal :: bytes
  ad_vkbvl :: bytes
  ad_kbsl_dleag :: bytes
  ad_lock_tx :: bytes
  ad_lock_script :: bytes
  ad_refund_tx :: bytes
  ad_refund_script :: bytes
  ad_refund_spend_tx :: bytes
  ad_refund_sig :: bytes

definition read_accept :: "attrs \<Rightarrow> accept_data res" where
  "read_accept a =
     rbind (attr_bytes a ''pkal'') (\<lambda>kal.
     rbind (attr_bytes a ''kbvl'') (\<lambda>kvl.
     rbind (attr_bytes a ''kbsl_dleag'') (\<lambda>dleag.
     rbind (attr_bytes a ''a_lock_tx'') (\<lambda>lock_tx.
     rbind (attr_bytes a ''a_lock_tx_script'') (\<lambda>lock_s.
     rbind (attr_bytes a ''a_lock_refund_tx'') (\<lambda>refund_tx.
     rbind (attr_bytes a ''a_lock_refund_tx_script'') (\<lambda>refund_s.
     rbind (attr_bytes a ''a_lock_refund_spend_tx'') (\<lambda>spend_tx.
     rbind (attr_bytes a ''al_lock_refund_tx_sig'') (\<lambda>sig.
     Inr \<lparr>ad_pkal = kal, ad_vkbvl = kvl, ad_kbsl_dleag = dleag, ad_lock_tx = lock_tx, ad_lock_script = lock_s, ad_refund_tx = refund_tx,
          ad_refund_script = refund_s, ad_refund_spend_tx = spend_tx, ad_refund_sig = sig\<rparr>)))))))))"

text \<open>The shared view key and the leader's view public key.\<close>

definition shared_view_key :: "xenv \<Rightarrow> Coins \<Rightarrow> bytes \<Rightarrow> XmrSwap \<Rightarrow> (bytes \<times> bytes) res" where
  "shared_view_key X cb kvl xs =
     rbind (verifyKey (x_ads X cb) kvl) (\<lambda>v.
     rbind (ensure v ''Invalid key, vkbvl'') (\<lambda>_.
     rbind (of_option TypeError (vkbvf xs)) (\<lambda>kvf.
     rbind (sumKeys (x_ads X cb) kvl kvf) (\<lambda>kv.
     rbind (verifyKey (x_ads X cb) kv) (\<lambda>v.
     rbind (ensure v ''Invalid key, vkbv'') (\<lambda>_.
     rbind (getPubkey (x_ads X cb) kvl) (\<lambda>kvl_pub.
     Inr (kv, kvl_pub))))))))"

text \<open>The scripts of BCH name their outputs: the follower's address, the refund contract and the follower's address again.\<close>

definition bch_args :: "accept_interface \<Rightarrow> XmrOffer \<Rightarrow> accept_data \<Rightarrow> XmrSwap \<Rightarrow> (bch_values \<times> bch_values) res" where
  "bch_args i xo d xs =
     rbind (bch_lock_values i (ad_lock_script d)) (\<lambda>lv.
     rbind (bch_pkh_script i (dest_af xs)) (\<lambda>dest.
     rbind (ensure (bv_out_1 lv = dest) ''Invalid BCH lock tx script out_1'') (\<lambda>_.
     rbind (ensure (bv_out_2 lv = scriptToP2SH32LockingBytecode i (ad_refund_script d)) ''Invalid BCH lock tx script out_2'') (\<lambda>_.
     rbind (ensure (bv_timelock lv = lock_time_1 xo) ''Invalid BCH lock tx script timelock'') (\<lambda>_.
     rbind (ensure (bv_public_key lv = ad_pkal d) ''Invalid BCH lock tx script public_key'') (\<lambda>_.
     rbind (bch_lock_values i (ad_refund_script d)) (\<lambda>rv.
     rbind (bch_pkh_script i (dest_af xs)) (\<lambda>dest.
     rbind (ensure (bv_out_2 rv = dest) ''Invalid BCH refund tx script out_2'') (\<lambda>_.
     rbind (ensure (bv_timelock rv = lock_time_2 xo) ''Invalid BCH refund tx script timelock'') (\<lambda>_.
     rbind (ensure (Some (bv_public_key rv) = pkaf xs) ''Invalid BCH refund tx script public_key'') (\<lambda>_.
     Inr (lv, rv))))))))))))"

definition extra_args :: "accepting \<Rightarrow> Offer \<Rightarrow> XmrOffer \<Rightarrow> accept_data \<Rightarrow> XmrSwap \<Rightarrow> (bch_values option \<times> bch_values option) res" where
  "extra_args A offer xo d xs =
     (if isBchXmrSwap offer then rbind (bch_args (A BCH) xo d xs) (\<lambda>(lv, rv). Inr (Some lv, Some rv)) else Inr (None, None))"

text \<open>The leader's signature of the refund, over the output of the lock.\<close>

definition check_refund_sig :: "xenv \<Rightarrow> Coins \<Rightarrow> accept_data \<Rightarrow> Bid \<Rightarrow> XmrSwap \<Rightarrow> unit res" where
  "check_refund_sig X ca d bid xs =
     rbind (getLockTxSwapOutputValue (x_ads X ca) bid xs) (\<lambda>prevout_amount.
     rbind (verifyTxSig (x_ads X ca) (Some (ad_refund_tx d)) (ad_refund_sig d) (Some (ad_pkal d)) (Some (ad_lock_script d)) prevout_amount) (\<lambda>v.
     ensure v ''Invalid coin A lock refund tx leader sig''))"

definition refunds_checked ::
  "xenv \<Rightarrow> accepting \<Rightarrow> Coins \<Rightarrow> int \<Rightarrow> XmrOffer \<Rightarrow> accept_data \<Rightarrow> bytes \<Rightarrow> bytes \<Rightarrow> bytes \<Rightarrow> bytes \<Rightarrow> int \<Rightarrow> bch_values option \<Rightarrow> Bid \<Rightarrow> XmrSwap
   \<Rightarrow> XmrSwap res" where
  "refunds_checked X A ca fee_rate xo d kv kvl_pub spend_id lock_id lock_vout rargs bid xs =
     rbind (verify_a_refund (A ca) (ad_refund_tx d) (ad_lock_tx d) (ad_refund_script d) lock_id lock_vout (lock_time_1 xo) (ad_lock_script d)
              (ad_pkal d) (pkaf xs) (lock_time_2 xo) (amount bid) fee_rate kv rargs) (\<lambda>(refund_id, refund_value, refund_vout).
     rbind (verify_a_refund_spend (A ca) (ad_refund_spend_tx d) (ad_refund_tx d) refund_id (ad_refund_script d) (ad_pkal d) refund_vout refund_value
              fee_rate kv rargs) (\<lambda>_.
     let xs = xs\<lparr>pkal := Some (ad_pkal d), vkbvl := Some (ad_vkbvl d), vkbv := Some kv, pkbvl := Some kvl_pub, kbsl_dleag := Some (ad_kbsl_dleag d),
                 a_lock_tx := Some (ad_lock_tx d), a_lock_tx_id := Some lock_id, a_lock_tx_vout := Some lock_vout,
                 a_lock_tx_script := Some (ad_lock_script d), a_lock_refund_tx_id := Some refund_id,
                 a_lock_refund_tx_script := Some (ad_refund_script d), a_swap_refund_value := Some refund_value,
                 a_lock_refund_spend_tx := Some (ad_refund_spend_tx d), a_lock_refund_spend_tx_id := Some spend_id\<rparr>
     in rbind (check_refund_sig X ca d bid xs) (\<lambda>_.
        Inr (xs\<lparr>a_lock_refund_tx := Some (ad_refund_tx d), al_lock_refund_tx_sig := Some (ad_refund_sig d)\<rparr>))))"

definition check_accept :: "xenv \<Rightarrow> accepting \<Rightarrow> bytes \<Rightarrow> Offer \<Rightarrow> XmrOffer \<Rightarrow> Coins \<Rightarrow> Coins \<Rightarrow> attrs \<Rightarrow> Bid \<Rightarrow> XmrSwap \<Rightarrow> (node, XmrSwap) py" where
  "check_accept X A b offer xo ca cb msg_data bid xs =
     (let fee_rate = (if reverse_offer offer then b_fee_rate xo else a_fee_rate xo) in
     pbind (plift (read_accept msg_data)) (\<lambda>d.
     pbind (plift (shared_view_key X cb (ad_vkbvl d) xs)) (\<lambda>(kv, kvl_pub).
     pbind (plift (getTxid (x_ads X ca) (Some (ad_refund_spend_tx d)))) (\<lambda>spend_id.
     pbind (plift (extra_args A offer xo d xs)) (\<lambda>(largs, rargs).
     pbind (ptry (plift (verify_a_lock (A ca) (ad_lock_tx d) (ad_lock_script d) (amount bid) (ad_pkal d) (pkaf xs) fee_rate kv largs))
                 (\<lambda>e. pseq (logEvent b EV_LOCK_TX_A_INVALID '''') (praise e))) (\<lambda>(lock_id, lock_vout).
     plift (refunds_checked X A ca fee_rate xo d kv kvl_pub spend_id lock_id lock_vout rargs bid xs)))))))"

text \<open>The proof that one secret underlies the keys on both chains, put together from its parts.\<close>

definition split_parts :: "bytes \<Rightarrow> XmrSplitMsgTypes \<Rightarrow> string \<Rightarrow> string \<Rightarrow> node \<Rightarrow> bytes" where
  "split_parts b t source dest n =
     concat (map sd_dleag (sort_key sd_msg_sequence (filter (\<lambda>r. sd_bid_id r = b \<and> sd_msg_type r = XmrSplitMsgTypes_val t
       \<and> sd_addr_from r = source \<and> sd_addr_to r = dest) (split_data n))))"

definition secret_pubkeys :: "accept_interface \<Rightarrow> string \<Rightarrow> bytes \<Rightarrow> (bytes \<times> bytes) res" where
  "secret_pubkeys i proof_text dleag =
     (case curve_type i of
        ed25519 \<Rightarrow> rbind (verifyDLEAG i dleag) (\<lambda>v.
                   rbind (if v then Inr () else Inl (ValueError ''Invalid DLEAG proof.'')) (\<lambda>_.
                   Inr (take 33 dleag, take 32 (drop 33 dleag))))
      | secp256k1 \<Rightarrow> rbind (verifySigAndRecover i dleag proof_text) (\<lambda>pk. Inr (pk, pk)))"

definition whole_dleag :: "accept_interface \<Rightarrow> bytes option \<Rightarrow> bytes \<Rightarrow> bytes res" where
  "whole_dleag i dleag ps =
     (case curve_type i of
        ed25519 \<Rightarrow> rbind (of_option TypeError dleag) (\<lambda>d. Inr (if length d < lengthDLEAG i then d @ ps else d))
      | secp256k1 \<Rightarrow> of_option TypeError dleag)"

definition distinct_keys :: "XmrSwap \<Rightarrow> unit res" where
  "distinct_keys xs =
     (if pkbvl xs = pkbvf xs then Inl (ValueError ''Duplicate scriptless view pubkey.'')
      else if pkbsl xs = pkbsf xs then Inl (ValueError ''Duplicate scriptless spend pubkey.'')
      else if pkal xs = pkaf xs then Inl (ValueError ''Duplicate script spend pubkey.'')
      else Inr ())"

definition valid_pubkey :: "accept_interface \<Rightarrow> bytes option \<Rightarrow> string \<Rightarrow> unit res" where
  "valid_pubkey i pk msg = rbind (verifyPubkey i pk) (\<lambda>v. if v then Inr () else Inl (ValueError msg))"

definition accept_keys :: "accepting \<Rightarrow> Coins \<Rightarrow> Coins \<Rightarrow> bytes \<Rightarrow> XmrSwap \<Rightarrow> XmrSwap res" where
  "accept_keys A ca cb ps xs =
     rbind (whole_dleag (A cb) (kbsl_dleag xs) ps) (\<lambda>dleag.
     rbind (secret_pubkeys (A cb) ''proof kbsl owned for swap'' dleag) (\<lambda>(pka, pkb).
     let xs = xs\<lparr>kbsl_dleag := Some dleag, pkasl := Some pka, pkbsl := Some pkb\<rparr> in
     rbind (valid_pubkey (A ca) (pkasl xs) ''Invalid coin a pubkey.'') (\<lambda>_.
     rbind (valid_pubkey (A cb) (pkbsl xs) ''Invalid coin b pubkey.'') (\<lambda>_.
     rbind (sumPubkeys (A cb) (pkbvl xs) (pkbvf xs)) (\<lambda>kv_pub.
     rbind (sumPubkeys (A cb) (pkbsl xs) (pkbsf xs)) (\<lambda>ks_pub.
     let xs = xs\<lparr>pkbv := Some kv_pub, pkbs := Some ks_pub\<rparr> in
     rbind (valid_pubkey (A ca) (pkal xs) ''Invalid pubkey.'') (\<lambda>_.
     rbind (distinct_keys xs) (\<lambda>_.
     Inr xs))))))))"

definition notify_bid :: "NotificationTypes \<Rightarrow> bytes \<Rightarrow> (node, unit) py" where
  "notify_bid t b = pmod (\<lambda>n. n\<lparr>notified := notified n @ [(t, b)]\<rparr>)"

definition receiveXmrBidAccept :: "xenv \<Rightarrow> accepting \<Rightarrow> bytes \<Rightarrow> Bid \<Rightarrow> (node, unit) py" where
  "receiveXmrBidAccept X A b bid =
     pbind (load_offer (bid_offer_id bid)) (\<lambda>(offer, xo).
     pbind (pget (\<lambda>n. xmr_swaps n b)) (\<lambda>xs.
     pbind (plift (of_option (ValueError ''Adaptor-sig swap not found'') xs)) (\<lambda>xs.
     pbind (plift (coin_a offer)) (\<lambda>ca.
     pbind (plift (coin_b offer)) (\<lambda>cb.
     pbind (pget (split_parts b XSM_BID_ACCEPT (leader_addr offer bid) (follower_addr offer bid))) (\<lambda>ps.
     pbind (plift (accept_keys A ca cb ps xs)) (\<lambda>xs.
     pbind (with_state (now (x_env X)) BID_ACCEPTED bid) (\<lambda>bid.
     pseq (save_swap b bid xs)
    (pseq (pwhen (\<not> reverse_offer offer) (notify_bid NT_BID_ACCEPTED b))
          (createAction (now (x_env X)) (duplicate_actions (x_env X)) (x_delay X) SIGN_XMR_SWAP_LOCK_TX_A b))))))))))"

definition accept_states :: "Offer \<Rightarrow> Bid \<Rightarrow> BidStates list" where
  "accept_states offer bid =
     [BID_SENT, BID_RECEIVED, BID_REQUEST_ACCEPTED] @ (if was_sent bid \<and> offer_was_sent offer then [BID_ACCEPTED] else [])"

text \<open>The transactions verified: they are saved, and a proof that came in one piece is checked at once.\<close>

definition save_accept :: "xenv \<Rightarrow> accepting \<Rightarrow> Coins \<Rightarrow> bytes \<Rightarrow> (Bid \<times> XmrSwap) option \<Rightarrow> (node, unit) py" where
  "save_accept X A cb b r =
     (case r of
        None \<Rightarrow> pret ()
      | Some (bid, xs) \<Rightarrow>
          pseq (save_swap b bid xs)
         (pwhen (curve_type (A cb) \<noteq> ed25519)
            (ptry (receiveXmrBidAccept X A b bid) (\<lambda>_. pseq (fail_bid X b bid) (pret ())))))"

text \<open>An error of the checks is saved with the bid as it was read, an error of \<open>receiveXmrBidAccept\<close> with the bid that was saved before.\<close>

definition processXmrBidAccept :: "xenv \<Rightarrow> accepting \<Rightarrow> message \<Rightarrow> (node, unit) py" where
  "processXmrBidAccept X A msg =
     pbind (plift (parse_message XmrBidAcceptMessage msg)) (\<lambda>msg_data.
     pbind (message_rows msg_data) (\<lambda>(b, bid, xs).
     pbind (load_offer (bid_offer_id bid)) (\<lambda>(offer, xo).
     pbind (plift (coin_a offer)) (\<lambda>ca.
     pbind (plift (coin_b offer)) (\<lambda>cb.
     pseq (check_addresses msg (leader_addr offer bid) (follower_addr offer bid))
    (pseq (check_state (accept_states offer bid) bid)
    (pbind (ptry (pbind (check_accept X A b offer xo ca cb msg_data bid xs) (\<lambda>xs.
                  pbind (with_state (now (x_env X)) BID_RECEIVING_ACC bid) (\<lambda>bid'. pret (Some (bid', xs)))))
                 (\<lambda>_. pseq (fail_bid X b bid) (pret None))) (save_accept X A cb b))))))))"

subsection \<open>The bidder receives the initiate transaction\<close>

definition ABS_LOCK_TIME_LEEWAY :: int where
  "ABS_LOCK_TIME_LEEWAY = 10 * 60"

definition ABS_LOCK_BLOCKS_LEEWAY :: int where
  "ABS_LOCK_BLOCKS_LEEWAY = 4"

definition bid_expired_leeway :: int where
  "bid_expired_leeway = 5"

text \<open>The lock in the contract is the one the offer's terms ask for.\<close>

definition check_contract_lock :: "env \<Rightarrow> Coins \<Rightarrow> Offer \<Rightarrow> int \<Rightarrow> unit res" where
  "check_contract_lock E cf offer script_lock_val =
     (if lock_type offer < TxLockTypes_val ABS_LOCK_BLOCKS then
        rbind (getExpectedSequence (lock_type offer) (lock_value offer)) (\<lambda>expect_sequence.
        ensure (script_lock_val = expect_sequence) ''sequence mismatch'')
      else if lock_type offer = TxLockTypes_val ABS_LOCK_BLOCKS then
        rbind (getBlockHeaderAt (ci E cf) (now E) False) (\<lambda>block_header_from.
        rbind (ensure (script_lock_val \<le> bh_height block_header_from + lock_value offer + ABS_LOCK_BLOCKS_LEEWAY)
          ''script lock height too high'') (\<lambda>_.
        ensure (script_lock_val \<ge> bh_height block_header_from + lock_value offer - ABS_LOCK_BLOCKS_LEEWAY) ''script lock height too low''))
      else
        rbind (ensure (script_lock_val \<le> now E + lock_value offer + INITIATE_TX_TIMEOUT) ''script lock time too high'') (\<lambda>_.
        ensure (script_lock_val \<ge> now E + lock_value offer - ABS_LOCK_TIME_LEEWAY) ''script lock time too low''))"

text \<open>The contract pays the bidder for the secret; the answer is the hash the refund goes to.\<close>

definition check_contract :: "env \<Rightarrow> Coins \<Rightarrow> Offer \<Rightarrow> Bid \<Rightarrow> bytes \<Rightarrow> bytes option res" where
  "check_contract E cf offer bid contract_script =
     rbind (verifyContractScript contract_script
              (op (if lock_type offer < TxLockTypes_val ABS_LOCK_BLOCKS then OP_CHECKSEQUENCEVERIFY else OP_CHECKLOCKTIMEVERIFY))
              (op (if cf = DCR then OP_SHA256_DECRED else OP_SHA256)))
       (\<lambda>(script_valid, script_hash, script_pkhash1, script_lock_val, script_pkhash2).
     rbind (if script_valid then Inr () else Inl (ValueError ''Bad script'')) (\<lambda>_.
     rbind (ensure (script_pkhash1 = pkhash_buyer bid) ''pkhash_buyer mismatch'') (\<lambda>_.
     rbind (of_option TypeError script_lock_val) (\<lambda>lock_val.
     rbind (check_contract_lock E cf offer lock_val) (\<lambda>_.
     Inr script_pkhash2)))))"

definition accept_links :: "bytes \<Rightarrow> node \<Rightarrow> nat" where
  "accept_links b n = length (filter (\<lambda>(c, t, m). c = b \<and> t = MT_BID_ACCEPT) (message_links n))"

definition with_itx_state :: "int \<Rightarrow> TxStates \<Rightarrow> Bid \<Rightarrow> (node, Bid) py" where
  "with_itx_state time s bid = (case setITxState (TxStates_val s) time bid of (Inl e, _) \<Rightarrow> praise e | (Inr _, bid') \<Rightarrow> pret bid')"

text \<open>The bid starts to wait for the initiate transaction.\<close>

definition accept_initiate :: "xenv \<Rightarrow> bytes \<Rightarrow> bytes \<Rightarrow> bytes \<Rightarrow> bytes \<Rightarrow> bytes option \<Rightarrow> bytes \<Rightarrow> Offer \<Rightarrow> Bid \<Rightarrow> (node, unit) py" where
  "accept_initiate X b itx_id contract_script pkh_seller script_pkhash2 accept_id offer bid =
     pbind (pget (accept_links b)) (\<lambda>k.
     pseq (plift (ensure (k = 0) ''Bid already accepted''))
    (pseq (pmod (\<lambda>n. n\<lparr>message_links := message_links n @ [(b, MT_BID_ACCEPT, accept_id)]\<rparr>))
    (let bid = bid\<lparr>initiate_tx := Some ((new_tx b ITX (Some contract_script))\<lparr>txid := Some itx_id\<rparr>),
                   pkhash_seller := (if length pkh_seller = 20 then Some pkh_seller else script_pkhash2)\<rparr> in
     pbind (with_state (now (x_env X)) BID_ACCEPTED bid) (\<lambda>bid.
     pbind (with_itx_state (now (x_env X)) TX_NONE bid) (\<lambda>bid.
     pseq (saveBidInSession b bid)
    (pseq (put_in_progress b bid offer)
          (notify_bid NT_BID_ACCEPTED b)))))))"

definition bid_and_offer :: "bytes \<Rightarrow> (node, Bid \<times> Offer) py" where
  "bid_and_offer b =
     pbind (pget (\<lambda>n. bid_rows n b)) (\<lambda>bid.
     pbind (plift (of_option (ValueError ''Unknown bid_id'') bid)) (\<lambda>bid.
     pseq (plift (ensure (was_sent bid) ''Unknown bid_id''))
    (pbind (pget (\<lambda>n. offer_rows n (bid_offer_id bid))) (\<lambda>offer.
     pbind (plift (of_option (ValueError ''Offer not found'') offer)) (\<lambda>offer.
     pret (bid, offer))))))"

definition processBidAccept :: "xenv \<Rightarrow> message \<Rightarrow> (node, unit) py" where
  "processBidAccept X msg =
     pbind (plift (parse_message BidAcceptMessage msg)) (\<lambda>msg_data.
     pbind (plift (attr_bytes msg_data ''bid_msg_id'')) (\<lambda>b.
     pseq (plift (ensure (length b = 28) ''Bad bid_msg_id length''))
    (pbind (plift (attr_bytes msg_data ''initiate_txid'')) (\<lambda>itx_id.
     pseq (plift (ensure (length itx_id = 32) ''Bad initiate_txid length''))
    (pbind (plift (attr_bytes msg_data ''contract_script'')) (\<lambda>contract_script.
     pseq (plift (ensure (length contract_script < 100) ''Bad contract_script length''))
    (pbind (bid_and_offer b) (\<lambda>(bid, offer).
     pseq (plift (ensure (expire_at bid > now (x_env X) + bid_expired_leeway) ''Bid expired''))
    (pseq (check_addresses msg (addr_from offer) (bid_addr bid))
    (pbind (plift (of_option (ValueError ''Coins'') (Coins_of (coin_from offer)))) (\<lambda>cf.
     pbind (plift (of_option TypeError (state bid))) (\<lambda>st.
     if st \<ge> BidStates_val BID_ACCEPTED then
       (if was_received bid
        then pbind (pget (accept_links b)) (\<lambda>k. if k = 0 then praise TypeError else pret ())
        else praise (ValueError ''Wrong bid state''))
     else
       pbind (plift (check_contract (x_env X) cf offer bid contract_script)) (\<lambda>script_pkhash2.
       pbind (plift (attr_bytes msg_data ''pkhash_seller'')) (\<lambda>pkh_seller.
       accept_initiate X b itx_id contract_script pkh_seller script_pkhash2 (msg_id msg) offer bid))))))))))))))"

section \<open>Specification vocabulary\<close>

text \<open>The transactions in the row of a swap: for a coin that inherits them, they pass the checks of \<open>BTCInterface\<close> for the terms of the bid and the offer;
  for every coin the leader signed the refund.\<close>

definition leader_txs_ok :: "(bytes \<Rightarrow> bytes) \<Rightarrow> xenv \<Rightarrow> Offer \<Rightarrow> XmrOffer \<Rightarrow> Coins \<Rightarrow> Bid \<Rightarrow> XmrSwap \<Rightarrow> bool" where
  "leader_txs_ok sha256 X offer xo ca bid ys \<longleftrightarrow>
     (inherits_btc ca \<longrightarrow> (\<exists>lock_tx s lock_id k refund_tx rs refund_id spend_tx kal kaf v.
        a_lock_tx ys = Some lock_tx \<and> a_lock_tx_script ys = Some s \<and> a_lock_tx_id ys = Some lock_id \<and> a_lock_tx_vout ys = Some (int k)
        \<and> a_lock_refund_tx ys = Some refund_tx \<and> a_lock_refund_tx_script ys = Some rs \<and> a_lock_refund_tx_id ys = Some refund_id
        \<and> a_lock_refund_spend_tx ys = Some spend_tx \<and> pkal ys = Some kal \<and> pkaf ys = Some kaf \<and> a_swap_refund_value ys = Some v
        \<and> refundable_lock sha256 lock_tx s lock_id k refund_tx rs refund_id spend_tx kal kaf (amount bid) v (lock_time_1 xo) (lock_time_2 xo)
            (if reverse_offer offer then b_fee_rate xo else a_fee_rate xo)))
     \<and> (\<exists>sig am. al_lock_refund_tx_sig ys = Some sig
          \<and> verifyTxSig (x_ads X ca) (a_lock_refund_tx ys) sig (pkal ys) (a_lock_tx_script ys) am = Inr True)"

text \<open>What a handler did to a bid: nothing, an error, or it took the leader's transactions; and it queued the signing of the refunds only for
  an accepted bid whose keys differ from the leader's.\<close>

definition takes_refundable :: "(bytes \<Rightarrow> bytes) \<Rightarrow> xenv \<Rightarrow> node \<Rightarrow> node \<Rightarrow> bytes \<Rightarrow> bool" where
  "takes_refundable sha256 X n n' b \<longleftrightarrow>
     (bid_rows n' b = bid_rows n b \<and> xmr_swaps n' b = xmr_swaps n b)
     \<or> (map_option state (bid_rows n' b) = Some (Some (BidStates_val BID_ERROR)) \<and> xmr_swaps n' b = xmr_swaps n b)
     \<or> (\<exists>bid xs offer xo ca ys. swap_rows n b bid xs offer xo \<and> coin_a offer = Inr ca \<and> xmr_swaps n' b = Some ys
          \<and> pkaf ys = pkaf xs \<and> leader_txs_ok sha256 X offer xo ca bid ys)"

definition signs_distinct :: "node \<Rightarrow> node \<Rightarrow> bool" where
  "signs_distinct n n' \<longleftrightarrow> (\<exists>as. actions n' = actions n @ as \<and> (\<forall>a\<in>set as. \<exists>row zs.
     action_type a = ActionTypes_val SIGN_XMR_SWAP_LOCK_TX_A \<and> bid_rows n' (action_linked_id a) = Some row
     \<and> state row = Some (BidStates_val BID_ACCEPTED) \<and> xmr_swaps n' (action_linked_id a) = Some zs
     \<and> pkal zs \<noteq> pkaf zs \<and> pkbsl zs \<noteq> pkbsf zs \<and> pkbvl zs \<noteq> pkbvf zs))"

text \<open>The lock of the initiate contract: the sequence of the offer's lock value, or a height or time that far ahead, with leeway.\<close>

definition agreed_lock :: "env \<Rightarrow> Coins \<Rightarrow> Offer \<Rightarrow> int \<Rightarrow> bool" where
  "agreed_lock E cf offer v \<longleftrightarrow>
     (if lock_type offer < TxLockTypes_val ABS_LOCK_BLOCKS then getExpectedSequence (lock_type offer) (lock_value offer) = Inr v
      else if lock_type offer = TxLockTypes_val ABS_LOCK_BLOCKS
      then \<exists>hdr. getBlockHeaderAt (ci E cf) (now E) False = Inr hdr \<and> \<bar>v - (bh_height hdr + lock_value offer)\<bar> \<le> 4
      else now E + lock_value offer - 600 \<le> v \<and> v \<le> now E + lock_value offer + 2400)"

text \<open>A contract that pays \<open>buyer\<close> for the secret and refunds somebody after the agreed lock.\<close>

definition pays_bidder :: "env \<Rightarrow> Coins \<Rightarrow> Offer \<Rightarrow> bytes option \<Rightarrow> bytes \<Rightarrow> bool" where
  "pays_bidder E cf offer buyer s \<longleftrightarrow> (\<exists>h lock_val refund_to. agreed_lock E cf offer lock_val
     \<and> verifyContractScript s (op (if lock_type offer < TxLockTypes_val ABS_LOCK_BLOCKS then OP_CHECKSEQUENCEVERIFY else OP_CHECKLOCKTIMEVERIFY))
         (op (if cf = DCR then OP_SHA256_DECRED else OP_SHA256)) = Inr (True, Some h, buyer, Some lock_val, Some refund_to))"

definition accepts_contract :: "xenv \<Rightarrow> message \<Rightarrow> node \<Rightarrow> node \<Rightarrow> bytes \<Rightarrow> bool" where
  "accepts_contract X msg n n' b \<longleftrightarrow> bid_rows n' b = bid_rows n b
     \<or> (\<exists>bid offer cf st row tx s. bid_rows n b = Some bid \<and> offer_rows n (bid_offer_id bid) = Some offer \<and> Coins_of (coin_from offer) = Some cf
          \<and> was_sent bid \<and> state bid = Some st \<and> st < BidStates_val BID_ACCEPTED \<and> now (x_env X) + 5 < expire_at bid
          \<and> msg_source msg = addr_from offer \<and> msg_dest msg = bid_addr bid \<and> accept_links b n = 0 \<and> accept_links b n' = 1
          \<and> bid_rows n' b = Some row \<and> state row = Some (BidStates_val BID_ACCEPTED) \<and> pkhash_buyer row = pkhash_buyer bid
          \<and> initiate_tx row = Some tx \<and> script tx = Some s \<and> pays_bidder (x_env X) cf offer (pkhash_buyer row) s)"

section \<open>Facts\<close>

lemma keep_swap_keys:
  assumes "accept_keys A ca cb ps xs = Inr zs"
  shows "a_lock_tx zs = a_lock_tx xs" "a_lock_tx_script zs = a_lock_tx_script xs" "a_lock_tx_id zs = a_lock_tx_id xs" "a_lock_tx_vout zs = a_lock_tx_vout xs"
    "a_lock_refund_tx zs = a_lock_refund_tx xs" "a_lock_refund_tx_script zs = a_lock_refund_tx_script xs" "a_lock_refund_tx_id zs = a_lock_refund_tx_id xs"
    "a_lock_refund_spend_tx zs = a_lock_refund_spend_tx xs" "pkal zs = pkal xs" "pkaf zs = pkaf xs" "a_swap_refund_value zs = a_swap_refund_value xs"
    "al_lock_refund_tx_sig zs = al_lock_refund_tx_sig xs" "distinct_keys zs = Inr ()"
  using assms by (auto simp: accept_keys_def Let_def)

lemma accept_keys_txs: "accept_keys A ca' cb ps xs = Inr zs \<Longrightarrow> leader_txs_ok sha256 X offer xo ca bid zs = leader_txs_ok sha256 X offer xo ca bid xs"
  by (simp only: leader_txs_ok_def keep_swap_keys)

lemma distinct_keys_iff: "distinct_keys xs = Inr () \<longleftrightarrow> pkal xs \<noteq> pkaf xs \<and> pkbsl xs \<noteq> pkbsf xs \<and> pkbvl xs \<noteq> pkbvf xs"
  by (auto simp: distinct_keys_def)

lemma refunds_checked_ok:
  assumes "verify_a_lock (btc_accepting sha256 h A ca) (ad_lock_tx d) (ad_lock_script d) (amount bid) (ad_pkal d) (pkaf xs) fee kv largs = Inr (lock_id, lock_vout)"
    and "refunds_checked X (btc_accepting sha256 h A) ca fee xo d kv kvp spend_id lock_id lock_vout rargs bid xs = Inr ys"
    and "fee = (if reverse_offer offer then b_fee_rate xo else a_fee_rate xo)"
  shows "pkaf ys = pkaf xs \<and> leader_txs_ok sha256 X offer xo ca bid ys"
proof -
  let ?A = "btc_accepting sha256 h A"
  obtain refund_id v w where r: "verify_a_refund (?A ca) (ad_refund_tx d) (ad_lock_tx d) (ad_refund_script d) lock_id lock_vout (lock_time_1 xo) (ad_lock_script d)
       (ad_pkal d) (pkaf xs) (lock_time_2 xo) (amount bid) fee kv rargs = Inr (refund_id, v, w)"
     "verify_a_refund_spend (?A ca) (ad_refund_spend_tx d) (ad_refund_tx d) refund_id (ad_refund_script d) (ad_pkal d) w v fee kv rargs = Inr ()"
     "check_refund_sig X ca d bid (xs\<lparr>pkal := Some (ad_pkal d), vkbvl := Some (ad_vkbvl d), vkbv := Some kv, pkbvl := Some kvp, kbsl_dleag := Some (ad_kbsl_dleag d),
                 a_lock_tx := Some (ad_lock_tx d), a_lock_tx_id := Some lock_id, a_lock_tx_vout := Some lock_vout,
                 a_lock_tx_script := Some (ad_lock_script d), a_lock_refund_tx_id := Some refund_id,
                 a_lock_refund_tx_script := Some (ad_refund_script d), a_swap_refund_value := Some v,
                 a_lock_refund_spend_tx := Some (ad_refund_spend_tx d), a_lock_refund_spend_tx_id := Some spend_id\<rparr>) = Inr ()"
     and ys: "ys = xs\<lparr>pkal := Some (ad_pkal d), vkbvl := Some (ad_vkbvl d), vkbv := Some kv, pkbvl := Some kvp, kbsl_dleag := Some (ad_kbsl_dleag d),
                 a_lock_tx := Some (ad_lock_tx d), a_lock_tx_id := Some lock_id, a_lock_tx_vout := Some lock_vout,
                 a_lock_tx_script := Some (ad_lock_script d), a_lock_refund_tx_id := Some refund_id,
                 a_lock_refund_tx_script := Some (ad_refund_script d), a_swap_refund_value := Some v,
                 a_lock_refund_spend_tx := Some (ad_refund_spend_tx d), a_lock_refund_spend_tx_id := Some spend_id,
                 a_lock_refund_tx := Some (ad_refund_tx d), al_lock_refund_tx_sig := Some (ad_refund_sig d)\<rparr>"
    using assms(2) by (auto simp: refunds_checked_def Let_def)
  have sig: "\<exists>am. verifyTxSig (x_ads X ca) (Some (ad_refund_tx d)) (ad_refund_sig d) (Some (ad_pkal d)) (Some (ad_lock_script d)) am = Inr True"
    using r(3) by (auto simp: check_refund_sig_def)
  have "\<exists>kaf k. pkaf xs = Some kaf \<and> lock_vout = int k \<and> refundable_lock sha256 (ad_lock_tx d) (ad_lock_script d) lock_id k (ad_refund_tx d) (ad_refund_script d) refund_id
      (ad_refund_spend_tx d) (ad_pkal d) kaf (amount bid) v (lock_time_1 xo) (lock_time_2 xo) fee" if btc: "inherits_btc ca"
  proof -
    obtain kaf k m where k: "pkaf xs = Some kaf" "lock_vout = int k" and v:
      "verifySCLockTx sha256 (h ca) (\<lambda>_. Inl AttributeError) (ad_lock_tx d) (ad_lock_script d) (amount bid) (ad_pkal d) kaf False = Inr (lock_id, k)"
      "verifySCLockRefundTx sha256 (ad_refund_tx d) (ad_refund_script d) lock_id (int k) (lock_time_1 xo) (ad_lock_script d) (ad_pkal d) kaf (lock_time_2 xo)
         (amount bid) fee = Inr (refund_id, v, m)"
      "verifySCLockRefundSpendTx sha256 (ad_refund_spend_tx d) refund_id (ad_refund_script d) v fee = Inr ()"
      using assms(1) r(1,2) btc by (auto simp: btc_accepting_def btc_verification_def of_option_def split: option.splits)
    show ?thesis
      using k verified_refundable [OF v] by blast
  qed
  then show ?thesis
    using sig unfolding leader_txs_ok_def ys assms(3) by auto
qed

lemma check_accept_run:
  assumes "check_accept X (btc_accepting sha256 h A) b offer xo ca cb msg_data bid xs n = (r, m)"
  shows "(\<exists>es. m = n\<lparr>events := es\<rparr>) \<and> (\<forall>ys. r = Inr ys \<longrightarrow> pkaf ys = pkaf xs \<and> leader_txs_ok sha256 X offer xo ca bid ys)"
proof
  show "\<exists>es. m = n\<lparr>events := es\<rparr>"
    using assms by (auto simp: check_accept_def Let_def pbind_def pseq_def ptry_def py_simps logEvent_def split: sum.splits prod.splits) (metis node.surjective node.update_convs(4))+
  show "\<forall>ys. r = Inr ys \<longrightarrow> pkaf ys = pkaf xs \<and> leader_txs_ok sha256 X offer xo ca bid ys"
    using assms
    by (auto simp: check_accept_def Let_def pbind_def pseq_def ptry_def py_simps logEvent_def split: sum.splits prod.splits dest!: refunds_checked_ok)
qed

lemma createAction_rows:
  "\<exists>as. createAction t k d ty b n = (Inr (), n\<lparr>actions := actions n @ as\<rparr>) \<and> (\<forall>a\<in>set as. action_type a = ActionTypes_val ty \<and> action_linked_id a = b)"
  using createAction_run [of t k d ty b n] by blast

lemma receive_run:
  assumes "receiveXmrBidAccept X A b bid n = (r, n')"
  shows "(\<exists>e. r = Inl e) \<and> n' = n
    \<or> (\<exists>ys zs ca cb ps row as. r = Inr () \<and> xmr_swaps n b = Some ys \<and> accept_keys A ca cb ps ys = Inr zs \<and> state row = Some (BidStates_val BID_ACCEPTED)
        \<and> bid_rows n' = (bid_rows n)(b \<mapsto> row) \<and> xmr_swaps n' = (xmr_swaps n)(b \<mapsto> zs) \<and> actions n' = actions n @ as
        \<and> (\<forall>a\<in>set as. action_type a = ActionTypes_val SIGN_XMR_SWAP_LOCK_TX_A \<and> action_linked_id a = b))"
proof -
  define tail where "tail offer bid' zs = pseq (save_swap b bid' zs) (pseq (pwhen (\<not> reverse_offer offer) (notify_bid NT_BID_ACCEPTED b))
          (createAction (now (x_env X)) (duplicate_actions (x_env X)) (x_delay X) SIGN_XMR_SWAP_LOCK_TX_A b))" for offer bid' zs
  have tail: "\<exists>m as. tail offer bid' zs n = (Inr (), m) \<and> bid_rows m = (bid_rows n)(b \<mapsto> saved_row (bid_rows n b) bid') \<and> xmr_swaps m = (xmr_swaps n)(b \<mapsto> zs)
       \<and> actions m = actions n @ as \<and> (\<forall>a\<in>set as. action_type a = ActionTypes_val SIGN_XMR_SWAP_LOCK_TX_A \<and> action_linked_id a = b)" for offer bid' zs
  proof -
    obtain k where k: "pseq (save_swap b bid' zs) (pwhen (\<not> reverse_offer offer) (notify_bid NT_BID_ACCEPTED b)) n = (Inr (), k)"
        "bid_rows k = (bid_rows n)(b \<mapsto> saved_row (bid_rows n b) bid')" "xmr_swaps k = (xmr_swaps n)(b \<mapsto> zs)" "actions k = actions n"
      by (cases "reverse_offer offer") (simp_all add: save_swap_def saveBidInSession_def notify_bid_def pseq_def pbind_def pwhen_def py_simps)
    moreover have "tail offer bid' zs n = createAction (now (x_env X)) (duplicate_actions (x_env X)) (x_delay X) SIGN_XMR_SWAP_LOCK_TX_A b k"
      using k(1) by (auto simp: tail_def pseq_def pbind_def split: sum.splits prod.splits)
    ultimately show ?thesis
      using createAction_rows [of "now (x_env X)" "duplicate_actions (x_env X)" "x_delay X" SIGN_XMR_SWAP_LOCK_TX_A b k] by auto
  qed
  have st: "setState (BidStates_val BID_ACCEPTED) (now (x_env X)) bid = (Inr u, bid') \<Longrightarrow> state bid' = Some (BidStates_val BID_ACCEPTED)" for u bid'
    by (auto simp: setState_def Let_def split: sum.splits)
  show ?thesis
  proof (cases "n' = n \<and> (\<exists>e. r = Inl e)")
    case False
    then obtain offer ys ca cb ps zs bid' u where "xmr_swaps n b = Some ys" "accept_keys A ca cb ps ys = Inr zs"
        "setState (BidStates_val BID_ACCEPTED) (now (x_env X)) bid = (Inr u, bid')" "tail offer bid' zs n = (r, n')"
      using assms
      by (auto simp: receiveXmrBidAccept_def tail_def [symmetric] load_offer_def getXmrOfferFromSession_def pbind_def py_simps with_state_def of_option_def
          split: sum.splits prod.splits option.splits)
    then show ?thesis
      using tail [of offer bid' zs] st saved_row_simps(1) by (metis prod.inject)
  qed auto
qed

lemma takes_same: "bid_rows n' c = bid_rows n c \<Longrightarrow> xmr_swaps n' c = xmr_swaps n c \<Longrightarrow> takes_refundable sha256 X n n' c"
  by (simp add: takes_refundable_def)

lemma takes_refundableI:
  "swap_rows n b bid xs offer xo \<Longrightarrow> coin_a offer = Inr ca \<Longrightarrow> xmr_swaps n' b = Some ys \<Longrightarrow> pkaf ys = pkaf xs
   \<Longrightarrow> leader_txs_ok sha256 X offer xo ca bid ys \<Longrightarrow> takes_refundable sha256 X n n' b"
  unfolding takes_refundable_def by blast

lemma signs_same: "actions n' = actions n \<Longrightarrow> signs_distinct n n'"
  by (auto simp: signs_distinct_def)

lemma takes_failed:
  assumes "keeps_rows n m" "fail_bid X b bid m = (q, m')"
  shows "takes_refundable sha256 X n m' c"
  using fail_bid_rows [OF assms(2)] assms(1) by (cases "c = b") (auto simp: takes_refundable_def keeps_rows_def)

lemma fail_bid_actions: "fail_bid X b bid m = (q, m') \<Longrightarrow> actions m' = actions m"
  by (auto simp: fail_bid_def logEvent_def with_state_def setState_def Let_def saveBidInSession_def pseq_def pbind_def py_simps split: sum.splits)

text \<open>The transactions are in the row; what follows changes the bid's row only, or accepts.\<close>

lemma takes_taken:
  assumes rows: "swap_rows n b bid xs offer xo" "coin_a offer = Inr ca" "pkaf ys = pkaf xs" "leader_txs_ok sha256 X offer xo ca bid ys"
    and m: "xmr_swaps m = (xmr_swaps n)(b \<mapsto> ys)" "\<And>c. c \<noteq> b \<Longrightarrow> bid_rows m c = bid_rows n c" "actions m = actions n"
    and recv: "receiveXmrBidAccept X A b bid' m = (r, n')"
  shows "takes_refundable sha256 X n n' c \<and> signs_distinct n n'"
  using receive_run [OF recv]
proof (elim disjE conjE exE)
  fix e
  assume "r = Inl e" "n' = m"
  then show ?thesis
    using assms(1-7) by (cases "c = b") (auto simp: takes_refundable_def signs_same)
next
  fix zs ws ca' cb ps row as
  assume n': "bid_rows n' = (bid_rows m)(b \<mapsto> row)" "xmr_swaps n' = (xmr_swaps m)(b \<mapsto> ws)" "actions n' = actions m @ as"
    and as: "\<forall>a\<in>set as. action_type a = ActionTypes_val SIGN_XMR_SWAP_LOCK_TX_A \<and> action_linked_id a = b"
    and st: "state row = Some (BidStates_val BID_ACCEPTED)" and zs: "xmr_swaps m b = Some zs" "accept_keys A ca' cb ps zs = Inr ws"
  have "zs = ys"
    using zs(1) m(1) by simp
  with zs(2) rows(3,4) have ws: "pkaf ws = pkaf xs" "leader_txs_ok sha256 X offer xo ca bid ws" "distinct_keys ws = Inr ()"
    by (simp_all add: accept_keys_txs keep_swap_keys)
  have "takes_refundable sha256 X n n' c"
  proof (cases "c = b")
    case True
    with takes_refundableI [OF rows(1,2) _ ws(1,2)] n'(2) show ?thesis
      by simp
  qed (simp add: n' m takes_same)
  moreover have "signs_distinct n n'"
    unfolding signs_distinct_def using n' m(3) as st ws(3) by (intro exI [of _ as]) (auto simp: distinct_keys_iff)
  ultimately show ?thesis ..
qed

lemma save_swap_run:
  "save_swap b bid xs n = (Inr (), n\<lparr>bid_rows := (bid_rows n)(b \<mapsto> saved_row (bid_rows n b) bid), xmr_swaps := (xmr_swaps n)(b \<mapsto> xs)\<rparr>)"
  by (simp add: save_swap_def saveBidInSession_def pseq_def pbind_def py_simps)

text \<open>A handler that fails is followed by \<open>setBidError\<close>.\<close>

lemma ptry_fail_bid:
  assumes "snd (ptry m (\<lambda>_. pseq (fail_bid X b bid) (pret x)) n) = n'" "m n = (r, k)"
  shows "(\<exists>y. r = Inr y) \<and> n' = k \<or> (\<exists>e q. r = Inl e \<and> fail_bid X b bid k = (q, n'))"
  using assms by (cases "fail_bid X b bid k") (auto simp: ptry_def pseq_def pbind_def py_simps split: sum.splits)

lemma save_accept_takes:
  assumes rows: "swap_rows n b bid xs offer xo" "coin_a offer = Inr ca" "pkaf ys = pkaf xs" "leader_txs_ok sha256 X offer xo ca bid ys"
    and k: "k = n\<lparr>events := es\<rparr>"
  shows "takes_refundable sha256 X n (snd (save_accept X A cb b (Some (bid', ys)) k)) c \<and> signs_distinct n (snd (save_accept X A cb b (Some (bid', ys)) k))"
proof -
  define m where "m = k\<lparr>bid_rows := (bid_rows k)(b \<mapsto> saved_row (bid_rows k b) bid'), xmr_swaps := (xmr_swaps k)(b \<mapsto> ys)\<rparr>"
  have m: "xmr_swaps m = (xmr_swaps n)(b \<mapsto> ys)" "\<And>c. c \<noteq> b \<Longrightarrow> bid_rows m c = bid_rows n c" "actions m = actions n"
    by (simp_all add: m_def k)
  have stored: "takes_refundable sha256 X n m' c \<and> signs_distinct n m'"
    if "xmr_swaps m' = xmr_swaps m" "\<And>c. c \<noteq> b \<Longrightarrow> bid_rows m' c = bid_rows m c" "actions m' = actions m" for m'
    using that m takes_refundableI [OF rows(1,2) _ rows(3,4), of m'] by (cases "c = b") (auto simp: takes_same signs_same)
  obtain r n' where recv: "receiveXmrBidAccept X A b bid' m = (r, n')"
    by fastforce
  have "snd (save_accept X A cb b (Some (bid', ys)) k) = (if curve_type (A cb) = ed25519 then m
      else snd (ptry (receiveXmrBidAccept X A b bid') (\<lambda>_. pseq (fail_bid X b bid') (pret ())) m))"
    by (simp add: save_accept_def pseq_def pbind_def save_swap_run m_def pwhen_def py_simps)
  moreover have "takes_refundable sha256 X n n'' c \<and> signs_distinct n n''"
    if "n'' = snd (ptry (receiveXmrBidAccept X A b bid') (\<lambda>_. pseq (fail_bid X b bid') (pret ())) m)" for n''
    using ptry_fail_bid [OF that [symmetric] recv]
  proof (elim disjE conjE exE)
    assume "n'' = n'"
    then show ?thesis
      using takes_taken [OF rows m recv] by simp
  next
    fix e q
    assume "r = Inl e" and fail: "fail_bid X b bid' n' = (q, n'')"
    then have "n' = m"
      using receive_run [OF recv] by auto
    then show ?thesis
      using fail_bid_rows [OF fail] fail_bid_actions [OF fail] by (intro stored) auto
  qed
  ultimately show ?thesis
    using stored by auto
qed

lemma accept_step:
  assumes rows: "swap_rows n b bid xs offer xo" "coin_a offer = Inr ca"
    and run: "n' = snd (pbind (ptry (pbind (check_accept X (btc_accepting sha256 h A) b offer xo ca cb msg_data bid xs) (\<lambda>xs.
                  pbind (with_state (now (x_env X)) BID_RECEIVING_ACC bid) (\<lambda>bid'. pret (Some (bid', xs)))))
                 (\<lambda>_. pseq (fail_bid X b bid) (pret None))) (save_accept X (btc_accepting sha256 h A) cb b) n)"
  shows "takes_refundable sha256 X n n' c \<and> signs_distinct n n'"
proof -
  obtain r k where chk: "check_accept X (btc_accepting sha256 h A) b offer xo ca cb msg_data bid xs n = (r, k)"
    by fastforce
  obtain es where k: "k = n\<lparr>events := es\<rparr>" and ok: "\<And>ys. r = Inr ys \<Longrightarrow> pkaf ys = pkaf xs \<and> leader_txs_ok sha256 X offer xo ca bid ys"
    using check_accept_run [OF chk] by blast
  have failed: "takes_refundable sha256 X n m' c \<and> signs_distinct n m'" if "fail_bid X b bid k = (q, m')" for q m'
    using takes_failed [OF _ that] fail_bid_actions [OF that] by (simp add: keeps_rows_def k signs_same)
  obtain q k' where fail: "fail_bid X b bid k = (q, k')"
    by fastforce
  show ?thesis
  proof (cases "\<exists>ys bid' u. r = Inr ys \<and> setState (BidStates_val BID_RECEIVING_ACC) (now (x_env X)) bid = (Inr u, bid')")
    case True
    then obtain ys bid' u where ys: "r = Inr ys" "setState (BidStates_val BID_RECEIVING_ACC) (now (x_env X)) bid = (Inr u, bid')"
      by blast
    then have "n' = snd (save_accept X (btc_accepting sha256 h A) cb b (Some (bid', ys)) k)"
      using run chk by (simp add: pbind_def ptry_def with_state_def py_simps)
    then show ?thesis
      using save_accept_takes [OF rows _ _ k, of ys sha256 X] ok [OF ys(1)] by blast
  next
    case False
    then have "n' = k'"
      using run chk fail
      by (auto simp: pbind_def pseq_def ptry_def with_state_def py_simps save_accept_def split: sum.splits prod.splits)
    then show ?thesis
      using failed [OF fail] by simp
  qed
qed


lemma verifyContractScript_True:
  "verifyContractScript s ol oh = Inr (True, h, r, v, f) \<Longrightarrow> \<exists>h' f'. h = Some h' \<and> f = Some f'"
  by (auto simp: verifyContractScript_def Let_def split: if_splits)

lemma check_contract_pays:
  assumes "check_contract E cf offer bid s = Inr p"
  shows "pays_bidder E cf offer (pkhash_buyer bid) s"
proof -
  obtain h v where v: "verifyContractScript s (op (if lock_type offer < TxLockTypes_val ABS_LOCK_BLOCKS then OP_CHECKSEQUENCEVERIFY else OP_CHECKLOCKTIMEVERIFY))
       (op (if cf = DCR then OP_SHA256_DECRED else OP_SHA256)) = Inr (True, h, pkhash_buyer bid, Some v, p)" "check_contract_lock E cf offer v = Inr ()"
    using assms by (auto simp: check_contract_def of_option_def split: if_splits option.splits)
  have "agreed_lock E cf offer v"
    using v(2) by (auto simp: check_contract_lock_def agreed_lock_def ABS_LOCK_BLOCKS_LEEWAY_def INITIATE_TX_TIMEOUT_def ABS_LOCK_TIME_LEEWAY_def split: if_splits)
  then show ?thesis
    using v(1) verifyContractScript_True [OF v(1)] unfolding pays_bidder_def by blast
qed

lemma saved_row_buyer [simp]: "pkhash_buyer (saved_row old bid) = pkhash_buyer bid"
  by (simp add: saved_row_def split: option.split)

lemma accept_initiate_accepts:
  assumes rows: "bid_rows n b = Some bid" "offer_rows n (bid_offer_id bid) = Some offer" "Coins_of (coin_from offer) = Some cf"
      "was_sent bid" "state bid = Some st" "st < BidStates_val BID_ACCEPTED" "now (x_env X) + 5 < expire_at bid"
      "msg_source msg = addr_from offer" "msg_dest msg = bid_addr bid" "check_contract (x_env X) cf offer bid s = Inr p"
    and run: "accept_initiate X b i s pk p m offer bid n = (r, n')"
  shows "accepts_contract X msg n n' c"
proof (cases "bid_rows n' = bid_rows n")
  case False
  then obtain row tx where n': "bid_rows n' = (bid_rows n)(b \<mapsto> row)" "message_links n' = message_links n @ [(b, MT_BID_ACCEPT, m)]" "accept_links b n = 0"
      "state row = Some (BidStates_val BID_ACCEPTED)" "pkhash_buyer row = pkhash_buyer bid" "initiate_tx row = Some tx" "script tx = Some s"
    using run
    by (auto simp: accept_initiate_def Let_def pbind_def pseq_def py_simps with_state_def with_itx_state_def setITxState_def setState_def new_tx_def
        saveBidInSession_def put_in_progress_def notify_bid_def split: sum.splits prod.splits)
  have "accept_links b n' = 1"
    using n'(2,3) by (simp add: accept_links_def)
  then show ?thesis
    using rows n' check_contract_pays [OF rows(10)] by (cases "c = b") (auto simp: accepts_contract_def)
qed (simp add: accepts_contract_def)

lemma bid_and_offer_run:
  "bid_and_offer b n = (Inr (bid, offer), m) \<longleftrightarrow> m = n \<and> bid_rows n b = Some bid \<and> was_sent bid \<and> offer_rows n (bid_offer_id bid) = Some offer"
  "snd (bid_and_offer b n) = n"
  by (auto simp: bid_and_offer_def pbind_def pseq_def py_simps of_option_def ensure_def split: option.splits sum.splits if_splits)

lemma only_if_bid_and_offer:
  assumes "\<And>bid offer. bid_rows n b = Some bid \<Longrightarrow> was_sent bid \<Longrightarrow> offer_rows n (bid_offer_id bid) = Some offer \<Longrightarrow> only_if C (f bid offer) n"
  shows "only_if C (pbind (bid_and_offer b) (\<lambda>(bid, offer). f bid offer)) n"
proof (rule only_if_pbind)
  fix y
  assume "bid_and_offer b n = (Inr y, n)"
  then show "only_if C (case y of (bid, offer) \<Rightarrow> f bid offer) n"
    by (cases y) (auto intro: assms simp: bid_and_offer_run)
qed (simp add: bid_and_offer_run)

lemma only_if_pget: "only_if C (f (g n)) n \<Longrightarrow> only_if C (pbind (pget g) f) n"
  by (simp add: only_if_def pbind_def pget_def)

lemma only_if_praise [simp]: "only_if C (praise e) n"
  by (simp add: only_if_def praise_def)

text \<open>C8. The bidder accepts only a contract that pays it. Whatever message \<open>processBidAccept\<close> is given, whether it returns or raises: a bid's row is left as it
  was, or the bid was sent by this node, was not accepted before and had not expired, the message came from the offer's address to the bid's, and the row is now
  accepted with an initiate contract that verifies, pays the bidder's key hash for the secret and is refundable only after the lock the offer's terms ask for. The
  accept message is recorded, so that no second one is taken for the bid.\<close>

theorem bidder_accepts_contract: "accepts_contract X msg n (snd (processBidAccept X msg n)) c"
proof -
  have "only_if (\<lambda>n'. accepts_contract X msg n n' c) (processBidAccept X msg) n"
    unfolding processBidAccept_def
  proof (intro only_if_intros only_if_bid_and_offer only_if_pget only_if_pret only_if_praise, rule only_ifI, goal_cases)
    case (1 msg_data b itx_id s bid offer cf st p pk)
    obtain r n' where run: "accept_initiate X b itx_id s pk p (msg_id msg) offer bid n = (r, n')"
      by fastforce
    have "accepts_contract X msg n n' c"
      by (rule accept_initiate_accepts [OF _ _ _ _ _ _ _ _ _ _ run])
        (use 1 in \<open>auto simp: of_option_def bid_expired_leeway_def split: option.splits\<close>)
    then show ?case
      by (simp add: run)
  qed
  then show ?thesis
    by (auto simp: only_if_def accepts_contract_def)
qed

end
