(* ===== verification/Expiry.thy ===== *)
theory Expiry
  imports Adaptor_Messages "HOL-Library.Multiset"
begin

text \<open>
  Expiry of bids and offers: \<open>expireBidsAndOffers\<close> and \<open>unlockPrefundedTxInputs\<close> of \<open>src/basicswap/basicswap.py\<close>. The lists of what expires soon are popped while
  they are enumerated, so that entries are passed over: \<open>pop_due\<close> keeps the index of the iterator, \<open>sweep\<close> is its reference. The rows are read and written
  in the tables of the node, not in the objects of the swaps in progress.
\<close>

section \<open>Definitions\<close>

text \<open>What the node keeps for expiry: bids and offers that expire soon with their times, and when the rows were last looked at.\<close>

record expiry_state =
  expiring_bids :: "(bytes \<times> int) list"
  expiring_offers :: "(bytes \<times> int) list"
  last_checked_expiring :: int

text \<open>\<open>for i, (id, expired_at) in enumerate(xs): if expired_at <= now: ...; xs.pop(i)\<close>. The iterator goes on at the next index of the shortened list.\<close>

function pop_due :: "int \<Rightarrow> nat \<Rightarrow> ('a \<times> int) list \<Rightarrow> 'a list \<times> ('a \<times> int) list" where
  "pop_due time i xs =
     (if i < length xs then
        (case xs ! i of (record_id, expired_at) \<Rightarrow>
           if expired_at \<le> time
           then case pop_due time (Suc i) (take i xs @ drop (Suc i) xs) of (popped, rest) \<Rightarrow> (record_id # popped, rest)
           else pop_due time (Suc i) xs)
      else ([], xs))"
  by pat_completeness auto

termination
  by (relation "measure (\<lambda>(time, i, xs). length xs - i)") auto

declare pop_due.simps [simp del]

text \<open>Rows that can expire, as the joins with the table of bid states and the lists of offer states select them.\<close>

definition can_expire :: "Bid \<Rightarrow> bool" where
  "can_expire row \<longleftrightarrow> active_ind row = 1 \<and> (case Option.bind (state row) BidStates_of of None \<Rightarrow> False | Some st \<Rightarrow> canExpireBidState st)"

definition offer_can_expire :: "Offer \<Rightarrow> bool" where
  "offer_can_expire row \<longleftrightarrow> offer_active_ind row = 1
     \<and> (state row = Some (OfferStates_val OFFER_RECEIVED) \<or> state row = Some (OfferStates_val OFFER_SENT))"

definition add_new :: "'a list \<Rightarrow> 'a list \<Rightarrow> 'a list" where
  "add_new xs ys = xs @ filter (\<lambda>y. y \<notin> set xs) (remdups ys)"

text \<open>The answer of the query over the rows, in the order \<open>bid_ids\<close> and \<open>offer_ids\<close> the tables list them.\<close>

definition expiring_rows :: "int \<Rightarrow> bytes list \<Rightarrow> node \<Rightarrow> (bytes \<times> int) list" where
  "expiring_rows check_time bid_ids n =
     concat (map (\<lambda>b. case bid_rows n b of None \<Rightarrow> [] | Some row \<Rightarrow> if can_expire row \<and> expire_at row \<le> check_time then [(b, expire_at row)] else []) bid_ids)"

definition expiring_offer_rows :: "int \<Rightarrow> bytes list \<Rightarrow> node \<Rightarrow> (bytes \<times> int) list" where
  "expiring_offer_rows check_time offer_ids n =
     concat (map (\<lambda>i. case offer_rows n i of None \<Rightarrow> []
       | Some row \<Rightarrow> if offer_can_expire row \<and> offer_expire_at row \<le> check_time then [(i, offer_expire_at row)] else []) offer_ids)"

definition prefunded_calls :: "xenv \<Rightarrow> bytes \<Rightarrow> Coins \<Rightarrow> (node, unit) py" where
  "prefunded_calls X b coin =
     pfor (\<lambda>t. case x_prefunded X b t of None \<Rightarrow> pret () | Some tx \<Rightarrow> wallet_call (UnlockInputs coin tx)) [ITX_PRE_FUNDED, PTX_PRE_FUNDED]"

text \<open>The row of a bid expires: its state and its history change, not the time of its state.\<close>

definition expire_bid :: "xenv \<Rightarrow> int \<Rightarrow> bytes \<Rightarrow> (node, unit) py" where
  "expire_bid X time b =
     pbind (pget (\<lambda>n. bid_rows n b)) (\<lambda>row.
     case row of
       None \<Rightarrow> pret ()
     | Some row \<Rightarrow>
         pwhen (can_expire row)
          (pbind (plift (pack_state (BidStates_val BID_EXPIRED) time)) (\<lambda>p.
           pseq (pmod (\<lambda>n. n\<lparr>bid_rows := (bid_rows n)(b \<mapsto> row\<lparr>state := Some (BidStates_val BID_EXPIRED),
                    states := Some ((case states row of None \<Rightarrow> [] | Some s \<Rightarrow> s) @ p)\<rparr>)\<rparr>))
          (pbind (pget (\<lambda>n. offer_rows n (bid_offer_id row))) (\<lambda>offer.
           case offer of
             None \<Rightarrow> pret ()
           | Some offer \<Rightarrow>
               pbind (plift (of_option (ValueError ''Coins'') (Coins_of (coin_to offer)))) (\<lambda>coin.
               prefunded_calls X b coin))))))"

definition expire_offer :: "int \<Rightarrow> bytes \<Rightarrow> (node, unit) py" where
  "expire_offer time i =
     pbind (pget (\<lambda>n. offer_rows n i)) (\<lambda>row.
     case row of
       None \<Rightarrow> pret ()
     | Some row \<Rightarrow>
         pwhen (offer_can_expire row)
          (pbind (plift (pack_state (OfferStates_val OFFER_EXPIRED) time)) (\<lambda>p.
           pmod (\<lambda>n. n\<lparr>offer_rows := (offer_rows n)(i \<mapsto> row\<lparr>state := Some (OfferStates_val OFFER_EXPIRED),
             states := Some ((case states row of None \<Rightarrow> [] | Some s \<Rightarrow> s) @ p)\<rparr>)\<rparr>))))"

text \<open>The ids to expire and the lists of later: popped from the lists of soon, and from the rows when it is time to look at them. The sets are lists
  without duplicates, in the order the ids are found.\<close>

definition collect_due ::
  "int \<Rightarrow> int \<Rightarrow> bytes list \<Rightarrow> bytes list \<Rightarrow> expiry_state \<Rightarrow> node \<Rightarrow> bytes list \<times> bytes list \<times> expiry_state" where
  "collect_due period time bid_ids offer_ids es n =
     (case pop_due time 0 (expiring_bids es) of (due_bids, later_bids) \<Rightarrow>
      case pop_due time 0 (expiring_offers es) of (due_offers, later_offers) \<Rightarrow>
      if time - last_checked_expiring es \<ge> period then
        (let found_bids = expiring_rows (time + period) bid_ids n;
             found_offers = expiring_offer_rows (time + period) offer_ids n
         in (add_new (remdups due_bids) (map fst (filter (\<lambda>p. snd p \<le> time) found_bids)),
             add_new (remdups due_offers) (map fst (filter (\<lambda>p. snd p \<le> time) found_offers)),
             \<lparr>expiring_bids = later_bids @ filter (\<lambda>p. snd p > time) found_bids,
              expiring_offers = later_offers @ filter (\<lambda>p. snd p > time) found_offers,
              last_checked_expiring = time\<rparr>))
      else (remdups due_bids, remdups due_offers, es\<lparr>expiring_bids := later_bids, expiring_offers := later_offers\<rparr>))"

definition expireBidsAndOffers ::
  "xenv \<Rightarrow> int \<Rightarrow> int \<Rightarrow> bytes list \<Rightarrow> bytes list \<Rightarrow> expiry_state \<Rightarrow> node \<Rightarrow> (unit res \<times> node) \<times> expiry_state" where
  "expireBidsAndOffers X period time bid_ids offer_ids es n =
     (case collect_due period time bid_ids offer_ids es n of (due_bids, due_offers, es') \<Rightarrow>
      (pseq (pfor (expire_bid X time) due_bids) (pfor (expire_offer time) due_offers) n, es'))"

section \<open>Specification vocabulary\<close>

definition overdue :: "int \<Rightarrow> ('a \<times> int) list \<Rightarrow> ('a \<times> int) list" where
  "overdue time xs = filter (\<lambda>p. snd p \<le> time) xs"

definition pending :: "int \<Rightarrow> ('a \<times> int) list \<Rightarrow> ('a \<times> int) list" where
  "pending time xs = filter (\<lambda>p. time < snd p) xs"

text \<open>The loop without indexes: the entry after one that is removed is passed over.\<close>

fun sweep :: "int \<Rightarrow> ('a \<times> int) list \<Rightarrow> 'a list \<times> ('a \<times> int) list" where
  "sweep time [] = ([], [])"
| "sweep time [p] = (if snd p \<le> time then ([fst p], []) else ([], [p]))"
| "sweep time (p # q # xs) =
     (if snd p \<le> time then (case sweep time xs of (popped, rest) \<Rightarrow> (fst p # popped, q # rest))
      else case sweep time (q # xs) of (popped, rest) \<Rightarrow> (popped, p # rest))"

definition passes :: "int \<Rightarrow> nat \<Rightarrow> ('a \<times> int) list \<Rightarrow> ('a \<times> int) list" where
  "passes time k = (\<lambda>xs. snd (pop_due time 0 xs)) ^^ k"

text \<open>A row with the state and its time appended to the history; the column \<open>state_time\<close> is not changed.\<close>

definition row_expired :: "int \<Rightarrow> int \<Rightarrow> 'a StateRows_scheme \<Rightarrow> 'a StateRows_scheme \<Rightarrow> bool" where
  "row_expired st time row row' \<longleftrightarrow> (\<exists>p. pack_state st time = Inr p
     \<and> row' = row\<lparr>state := Some st, states := Some ((case states row of None \<Rightarrow> [] | Some s \<Rightarrow> s) @ p)\<rparr>)"

text \<open>What expiry does to the tables: it expires rows that can expire, and nothing else.\<close>

definition expires :: "int \<Rightarrow> node \<Rightarrow> node \<Rightarrow> bool" where
  "expires time n n' \<longleftrightarrow>
     (\<forall>b. bid_rows n' b = bid_rows n b
        \<or> (\<exists>row row'. bid_rows n b = Some row \<and> can_expire row \<and> bid_rows n' b = Some row' \<and> row_expired (BidStates_val BID_EXPIRED) time row row'))
     \<and> (\<forall>i. offer_rows n' i = offer_rows n i
        \<or> (\<exists>row row'. offer_rows n i = Some row \<and> offer_can_expire row \<and> offer_rows n' i = Some row' \<and> row_expired (OfferStates_val OFFER_EXPIRED) time row row'))
     \<and> bids n' = bids n \<and> swaps_in_progress n' = swaps_in_progress n \<and> xmr_swaps n' = xmr_swaps n \<and> actions n' = actions n
     \<and> published n' = published n \<and> sent_messages n' = sent_messages n"

definition offer_coins_known :: "node \<Rightarrow> bool" where
  "offer_coins_known n \<longleftrightarrow> (\<forall>i offer. offer_rows n i = Some offer \<longrightarrow> Coins_of (coin_to offer) \<noteq> None)"

text \<open>A bid whose time is up, in a table of one row.\<close>

definition stale_node :: node where
  "stale_node = ads_node ((ads_bid BID_SENT False)\<lparr>active_ind := 1, expire_at := 50\<rparr>)"

definition gone :: "node \<Rightarrow> bytes \<Rightarrow> bool" where
  "gone n b \<longleftrightarrow> (case bid_rows n b of None \<Rightarrow> True | Some row \<Rightarrow> \<not> can_expire row)"

definition offer_gone :: "node \<Rightarrow> bytes \<Rightarrow> bool" where
  "offer_gone n i \<longleftrightarrow> (case offer_rows n i of None \<Rightarrow> True | Some row \<Rightarrow> \<not> offer_can_expire row)"

section \<open>Facts\<close>

lemma pop_due_sweep_at: "pop_due time (length pre) (pre @ xs) = (fst (sweep time xs), pre @ snd (sweep time xs))"
proof (induction time xs arbitrary: pre rule: sweep.induct)
  case (1 time)
  then show ?case
    by (simp add: pop_due.simps)
next
  case (2 time p)
  then show ?case
    by (cases p) (simp add: pop_due.simps)
next
  case (3 time p q xs)
  obtain x e where p: "p = (x, e)"
    by fastforce
  show ?case
  proof (cases "e \<le> time")
    case True
    with 3(1) [of "pre @ [q]"] show ?thesis
      by (subst pop_due.simps) (simp add: p split: prod.splits)
  next
    case False
    with 3(2) [of "pre @ [p]"] show ?thesis
      by (subst pop_due.simps) (simp add: p split: prod.splits)
  qed
qed

lemma pop_due_sweep: "pop_due time 0 xs = sweep time xs"
  using pop_due_sweep_at [of time "[]" xs] by simp

lemma sweep_parts:
  "pending time (snd (sweep time xs)) = pending time xs"
  "length (overdue time (snd (sweep time xs))) \<le> length (fst (sweep time xs))"
  "mset (map fst (overdue time xs)) = mset (fst (sweep time xs)) + mset (map fst (overdue time (snd (sweep time xs))))"
  by (induction time xs rule: sweep.induct) (auto simp: pending_def overdue_def split: prod.splits)

lemma sweep_halves: "2 * length (overdue time (snd (sweep time xs))) \<le> length (overdue time xs)"
proof -
  have "length (overdue time xs) = length (fst (sweep time xs)) + length (overdue time (snd (sweep time xs)))"
    using arg_cong [OF sweep_parts(3), of size] by simp
  then show ?thesis
    using sweep_parts(2) [of time xs] by simp
qed

lemma passes_pending: "pending time (passes time k xs) = pending time xs"
  by (induction k) (simp_all add: passes_def pop_due_sweep sweep_parts)

lemma passes_halve: "2 ^ k * length (overdue time (passes time k xs)) \<le> length (overdue time xs)"
proof (induction k)
  case (Suc k)
  have "2 * length (overdue time (passes time (Suc k) xs)) \<le> length (overdue time (passes time k xs))"
    using sweep_halves [of time "passes time k xs"] by (simp add: passes_def pop_due_sweep)
  then have "2 ^ k * (2 * length (overdue time (passes time (Suc k) xs))) \<le> 2 ^ k * length (overdue time (passes time k xs))"
    by (rule mult_le_mono2)
  also have "\<dots> \<le> length (overdue time xs)"
    by (rule Suc)
  finally show ?case
    by (simp only: power_Suc2 mult.assoc)
qed (simp add: passes_def)

lemma pending_all: "overdue time xs = [] \<Longrightarrow> pending time xs = xs"
  by (auto simp: overdue_def pending_def filter_empty_conv not_le intro!: filter_True)

text \<open>C32. The lists of bids and offers that expire soon. The loop of \<open>expireBidsAndOffers\<close> removes entries from the list it runs over. It ends; each
  entry it reports is overdue and leaves the list, no entry that is not overdue is lost, and entries it passed over are at most as many as those it reports: of
  fewer than \<open>2 ^ k\<close> overdue entries none is left after \<open>k\<close> runs, and the list holds then exactly what was not overdue.\<close>

theorem expiring_list_drains:
  "mset (map fst (overdue time xs)) = mset (fst (pop_due time 0 xs)) + mset (map fst (overdue time (snd (pop_due time 0 xs))))
   \<and> pending time (snd (pop_due time 0 xs)) = pending time xs
   \<and> 2 * length (overdue time (snd (pop_due time 0 xs))) \<le> length (overdue time xs)
   \<and> (length (overdue time xs) < 2 ^ k \<longrightarrow> passes time k xs = pending time xs)"
proof (intro conjI impI)
  assume "length (overdue time xs) < 2 ^ k"
  then have "2 ^ k * length (overdue time (passes time k xs)) < 2 ^ k * 1"
    using le_less_trans [OF passes_halve [of k time xs]] by simp
  then have "overdue time (passes time k xs) = []"
    by (metis length_0_conv less_one nat_mult_less_cancel_disj)
  then show "passes time k xs = pending time xs"
    using pending_all passes_pending by metis
qed (simp_all only: pop_due_sweep sweep_parts sweep_halves flip: sweep_parts(3))

theorem expiring_list_drains_witness:
  "fst (pop_due 5 0 [(1::nat, 3), (2, 4), (3, 9), (4, 5)]) = [1, 4] \<and> passes 5 2 [(1::nat, 3), (2, 4), (3, 9), (4, 5)] = [(3, 9)]"
proof
  show "fst (pop_due 5 0 [(1::nat, 3), (2, 4), (3, 9), (4, 5)]) = [1, 4]"
    by (simp add: pop_due_sweep)
  have "passes 5 2 [(1::nat, 3), (2, 4), (3, 9), (4, 5)] = pending 5 [(1::nat, 3), (2, 4), (3, 9), (4, 5)]"
    using expiring_list_drains [where time = 5 and xs = "[(1::nat, 3), (2, 4), (3, 9), (4, 5)]" and k = 2] by (simp add: overdue_def)
  then show "passes 5 2 [(1::nat, 3), (2, 4), (3, 9), (4, 5)] = [(3, 9)]"
    by (simp add: pending_def)
qed

lemma expired_final:
  "row_expired (BidStates_val BID_EXPIRED) time row row' \<Longrightarrow> \<not> can_expire row'"
  "row_expired (OfferStates_val OFFER_EXPIRED) time orow orow' \<Longrightarrow> \<not> offer_can_expire orow'"
  by (auto simp: row_expired_def can_expire_def offer_can_expire_def BidStates_of_def BidStates_all_def canExpireBidState_def)

lemma expires_trans: "expires time n m \<Longrightarrow> expires time m k \<Longrightarrow> expires time n k"
  unfolding expires_def using expired_final [of time] by (intro conjI allI; elim conjE; metis option.inject)

interpretation expires: effect_relation "expires time"
proof unfold_locales
  show "expires time n n" for n
    by (simp add: expires_def)
qed (rule expires_trans)

lemma expires_wallet [intro!]: "steps (expires time) (wallet_call c)"
  by (rule stepsI) (auto simp: wallet_call_def py_simps expires_def)

lemma expire_bid_steps [intro!]: "steps (expires time) (expire_bid X time b)"
proof (rule stepsI)
  fix n r n'
  assume run: "expire_bid X time b n = (r, n')"
  have calls: "steps (expires time) (prefunded_calls X b coin)" for coin
    unfolding prefunded_calls_def by auto
  show "expires time n n'"
  proof (cases "\<exists>row p. bid_rows n b = Some row \<and> can_expire row \<and> pack_state (BidStates_val BID_EXPIRED) time = Inr p")
    case False
    then have "n' = n"
      using run by (auto simp: expire_bid_def pbind_def pseq_def pwhen_def py_simps split: option.splits sum.splits if_splits)
    then show ?thesis
      by (simp add: expires.refl)
  next
    case True
    then obtain row p where row: "bid_rows n b = Some row" "can_expire row" "pack_state (BidStates_val BID_EXPIRED) time = Inr p"
      by blast
    let ?m = "n\<lparr>bid_rows := (bid_rows n)(b \<mapsto> row\<lparr>state := Some (BidStates_val BID_EXPIRED), states := Some ((case states row of None \<Rightarrow> [] | Some s \<Rightarrow> s) @ p)\<rparr>)\<rparr>"
    have "expires time n ?m"
      using row by (auto simp: expires_def row_expired_def)
    moreover have "expires time ?m n'"
      using run row
      by (auto simp: expire_bid_def pbind_def pseq_def pwhen_def py_simps of_option_def expires.refl split: option.splits dest: stepsD [OF calls])
    ultimately show ?thesis
      by (rule expires.trans)
  qed
qed

lemma expire_offer_steps [intro!]: "steps (expires time) (expire_offer time i)"
proof (rule stepsI)
  fix n r n'
  assume "expire_offer time i n = (r, n')"
  then show "expires time n n'"
    by (auto simp: expire_offer_def pbind_def pseq_def pwhen_def py_simps expires_def row_expired_def split: option.splits sum.splits if_splits)
qed


lemma expires_bid:
  "expires time n n' \<Longrightarrow> bid_rows n' b = bid_rows n b
     \<or> (\<exists>row row'. bid_rows n b = Some row \<and> can_expire row \<and> bid_rows n' b = Some row' \<and> row_expired (BidStates_val BID_EXPIRED) time row row')"
  by (simp add: expires_def)

lemma expires_offer:
  "expires time n n' \<Longrightarrow> offer_rows n' i = offer_rows n i
     \<or> (\<exists>row row'. offer_rows n i = Some row \<and> offer_can_expire row \<and> offer_rows n' i = Some row' \<and> row_expired (OfferStates_val OFFER_EXPIRED) time row row')"
  by (simp add: expires_def)

lemma pack_expired:
  "0 \<le> time \<Longrightarrow> time < 2 ^ 64 \<Longrightarrow> \<exists>p. pack_state (BidStates_val BID_EXPIRED) time = Inr p"
  "0 \<le> time \<Longrightarrow> time < 2 ^ 64 \<Longrightarrow> \<exists>p. pack_state (OfferStates_val OFFER_EXPIRED) time = Inr p"
  by (simp_all add: pack_state_ok)

lemma prefunded_calls_run: "\<exists>m. prefunded_calls X b coin n = (Inr (), m) \<and> bid_rows m = bid_rows n"
  by (auto simp: prefunded_calls_def wallet_call_def pseq_def pbind_def py_simps split: option.splits)

lemma expires_coins:
  assumes "expires time n n'" "offer_coins_known n"
  shows "offer_coins_known n'"
  unfolding offer_coins_known_def
proof (intro allI impI)
  fix i offer
  assume "offer_rows n' i = Some offer"
  then show "Coins_of (coin_to offer) \<noteq> None"
    using expires_offer [OF assms(1), of i] assms(2) by (auto simp: offer_coins_known_def row_expired_def)
qed

lemma expire_bid_run:
  assumes "0 \<le> time" "time < 2 ^ 64" "offer_coins_known n"
  shows "\<exists>n'. expire_bid X time b n = (Inr (), n') \<and> gone n' b"
proof (cases "\<exists>row. bid_rows n b = Some row \<and> can_expire row")
  case False
  then show ?thesis
    by (auto simp: expire_bid_def pbind_def pwhen_def py_simps gone_def split: option.splits)
next
  case True
  then obtain row p where row: "bid_rows n b = Some row" "can_expire row" "pack_state (BidStates_val BID_EXPIRED) time = Inr p"
    using pack_expired(1) [OF assms(1,2)] by blast
  let ?row = "row\<lparr>state := Some (BidStates_val BID_EXPIRED), states := Some ((case states row of None \<Rightarrow> [] | Some s \<Rightarrow> s) @ p)\<rparr>"
  let ?m = "n\<lparr>bid_rows := (bid_rows n)(b \<mapsto> ?row)\<rparr>"
  have "\<not> can_expire ?row"
    using row(3) by (intro expired_final(1) [of time row]) (auto simp: row_expired_def)
  then have gone: "bid_rows m = bid_rows ?m \<Longrightarrow> gone m b" for m
    by (simp add: gone_def)
  show ?thesis
  proof (cases "offer_rows n (bid_offer_id row)")
    case None
    then show ?thesis
      using row gone [of ?m] by (simp add: expire_bid_def pbind_def pseq_def pwhen_def py_simps)
  next
    case (Some offer)
    obtain coin where "Coins_of (coin_to offer) = Some coin"
      using assms(3) Some by (auto simp: offer_coins_known_def)
    moreover obtain k where "prefunded_calls X b coin ?m = (Inr (), k)" "bid_rows k = bid_rows ?m"
      using prefunded_calls_run by blast
    ultimately show ?thesis
      using row Some gone [of k] by (simp add: expire_bid_def pbind_def pseq_def pwhen_def py_simps of_option_def)
  qed
qed

lemma expire_offer_run:
  assumes "0 \<le> time" "time < 2 ^ 64"
  shows "\<exists>n'. expire_offer time i n = (Inr (), n') \<and> offer_gone n' i"
proof (cases "\<exists>row. offer_rows n i = Some row \<and> offer_can_expire row")
  case False
  then show ?thesis
    by (auto simp: expire_offer_def pbind_def pwhen_def py_simps offer_gone_def split: option.splits)
next
  case True
  then obtain row p where row: "offer_rows n i = Some row" "offer_can_expire row" "pack_state (OfferStates_val OFFER_EXPIRED) time = Inr p"
    using pack_expired(2) [OF assms] by blast
  then have "\<not> offer_can_expire (row\<lparr>state := Some (OfferStates_val OFFER_EXPIRED), states := Some ((case states row of None \<Rightarrow> [] | Some s \<Rightarrow> s) @ p)\<rparr>)"
    by (intro expired_final(2) [of time row]) (auto simp: row_expired_def)
  then show ?thesis
    using row by (simp add: expire_offer_def pbind_def pwhen_def py_simps offer_gone_def)
qed

lemma gone_stays: "expires time n n' \<Longrightarrow> gone n b \<Longrightarrow> gone n' b" "expires time n n' \<Longrightarrow> offer_gone n i \<Longrightarrow> offer_gone n' i"
  using expires_bid [of time n n' b] expires_offer [of time n n' i] by (auto simp: gone_def offer_gone_def)

lemma expire_bids_run:
  assumes "0 \<le> time" "time < 2 ^ 64" "offer_coins_known n"
  shows "\<exists>n'. pfor (expire_bid X time) bs n = (Inr (), n') \<and> (\<forall>b\<in>set bs. gone n' b)"
  using assms(3)
proof (induction bs arbitrary: n)
  case (Cons b bs)
  obtain m where m: "expire_bid X time b n = (Inr (), m)" "gone m b"
    using expire_bid_run [OF assms(1,2) Cons.prems] by blast
  have "offer_coins_known m"
    using expires_coins [OF stepsD [OF expire_bid_steps m(1)] Cons.prems] .
  then obtain k where k: "pfor (expire_bid X time) bs m = (Inr (), k)" "\<forall>b\<in>set bs. gone k b"
    using Cons.IH by blast
  have "steps (expires time) (pfor (expire_bid X time) bs)"
    by auto
  from gone_stays(1) [OF stepsD [OF this k(1)] m(2)] have "gone k b" .
  with k m(1) show ?case
    by (auto simp: pseq_def pbind_def)
qed (simp add: py_simps)

lemma expire_offers_run:
  assumes "0 \<le> time" "time < 2 ^ 64"
  shows "\<exists>n'. pfor (expire_offer time) bs n = (Inr (), n') \<and> (\<forall>i\<in>set bs. offer_gone n' i)"
proof (induction bs arbitrary: n)
  case (Cons b bs)
  obtain m where m: "expire_offer time b n = (Inr (), m)" "offer_gone m b"
    using expire_offer_run [OF assms] by blast
  obtain k where k: "pfor (expire_offer time) bs m = (Inr (), k)" "\<forall>b\<in>set bs. offer_gone k b"
    using Cons.IH by blast
  have "steps (expires time) (pfor (expire_offer time) bs)"
    by auto
  from gone_stays(2) [OF stepsD [OF this k(1)] m(2)] have "offer_gone k b" .
  with k m(1) show ?case
    by (auto simp: pseq_def pbind_def)
qed (simp add: py_simps)

lemma expiring_row:
  "b \<in> set ids \<Longrightarrow> bid_rows n b = Some row \<Longrightarrow> can_expire row \<Longrightarrow> expire_at row \<le> t \<Longrightarrow> (b, expire_at row) \<in> set (expiring_rows t ids n)"
  "i \<in> set ids \<Longrightarrow> offer_rows n i = Some offer \<Longrightarrow> offer_can_expire offer \<Longrightarrow> offer_expire_at offer \<le> t
     \<Longrightarrow> (i, offer_expire_at offer) \<in> set (expiring_offer_rows t ids n)"
  unfolding expiring_rows_def expiring_offer_rows_def by (auto intro!: bexI)

lemma add_new_mem: "(x, t) \<in> set xs \<Longrightarrow> t \<le> time \<Longrightarrow> x \<in> set (add_new ys (map fst (filter (\<lambda>p. snd p \<le> time) xs)))"
  unfolding add_new_def by force

lemma collected:
  assumes "period \<le> time - last_checked_expiring es" "collect_due period time bid_ids offer_ids es n = (bs, is, es')" "0 \<le> period"
  shows "b \<in> set bid_ids \<Longrightarrow> bid_rows n b = Some row \<Longrightarrow> can_expire row \<Longrightarrow> expire_at row \<le> time \<Longrightarrow> b \<in> set bs"
    "i \<in> set offer_ids \<Longrightarrow> offer_rows n i = Some offer \<Longrightarrow> offer_can_expire offer \<Longrightarrow> offer_expire_at offer \<le> time \<Longrightarrow> i \<in> set is"
proof -
  obtain ys zs where bs: "bs = add_new ys (map fst (filter (\<lambda>p. snd p \<le> time) (expiring_rows (time + period) bid_ids n)))"
      "is = add_new zs (map fst (filter (\<lambda>p. snd p \<le> time) (expiring_offer_rows (time + period) offer_ids n)))"
    using assms(1,2) by (auto simp: collect_due_def Let_def split: prod.splits)
  show "b \<in> set bid_ids \<Longrightarrow> bid_rows n b = Some row \<Longrightarrow> can_expire row \<Longrightarrow> expire_at row \<le> time \<Longrightarrow> b \<in> set bs"
    unfolding bs by (rule add_new_mem [OF expiring_row(1)]) (use assms(3) in auto)
  show "i \<in> set offer_ids \<Longrightarrow> offer_rows n i = Some offer \<Longrightarrow> offer_can_expire offer \<Longrightarrow> offer_expire_at offer \<le> time \<Longrightarrow> i \<in> set is"
    unfolding bs by (rule add_new_mem [OF expiring_row(2)]) (use assms(3) in auto)
qed

text \<open>What is due expires. When it is time to look at the rows (\<open>period\<close> seconds after the last time) and the clock can be packed, \<open>expireBidsAndOffers\<close>
  returns, and every row of the tables that could expire and whose time is up is expired after it: bids in \<open>BID_EXPIRED\<close>, offers in \<open>OFFER_EXPIRED\<close>.\<close>

theorem due_rows_expire:
  assumes time: "period \<le> time - last_checked_expiring es" "0 \<le> period" "0 \<le> time" "time < 2 ^ 64" and known: "offer_coins_known n"
  shows "\<exists>n' es'. expireBidsAndOffers X period time bid_ids offer_ids es n = ((Inr (), n'), es') \<and> last_checked_expiring es' = time
     \<and> (\<forall>b row. b \<in> set bid_ids \<and> bid_rows n b = Some row \<and> can_expire row \<and> expire_at row \<le> time
          \<longrightarrow> map_option state (bid_rows n' b) = Some (Some (BidStates_val BID_EXPIRED)))
     \<and> (\<forall>i row. i \<in> set offer_ids \<and> offer_rows n i = Some row \<and> offer_can_expire row \<and> offer_expire_at row \<le> time
          \<longrightarrow> map_option state (offer_rows n' i) = Some (Some (OfferStates_val OFFER_EXPIRED)))"
proof -
  obtain bs js es' where c: "collect_due period time bid_ids offer_ids es n = (bs, js, es')"
    by (metis prod.exhaust)
  obtain m where m: "pfor (expire_bid X time) bs n = (Inr (), m)" "\<forall>b\<in>set bs. gone m b"
    using expire_bids_run [OF time(3,4) known] by blast
  obtain n' where n': "pfor (expire_offer time) js m = (Inr (), n')" "\<forall>i\<in>set js. offer_gone n' i"
    using expire_offers_run [OF time(3,4)] by blast
  have st: "steps (expires time) (pfor (expire_bid X time) bs)" "steps (expires time) (pfor (expire_offer time) js)"
    by auto
  have ex: "expires time n m" "expires time m n'"
    using stepsD [OF st(1) m(1)] stepsD [OF st(2) n'(1)] .
  then have ex': "expires time n n'"
    by (rule expires.trans)
  have run: "expireBidsAndOffers X period time bid_ids offer_ids es n = ((Inr (), n'), es')"
    using m(1) n'(1) by (simp add: expireBidsAndOffers_def c pseq_def pbind_def)
  moreover have "last_checked_expiring es' = time"
    using c time(1) by (auto simp: collect_due_def Let_def split: prod.splits)
  moreover have "map_option state (bid_rows n' b) = Some (Some (BidStates_val BID_EXPIRED))"
    if b: "b \<in> set bid_ids" "bid_rows n b = Some row" "can_expire row" "expire_at row \<le> time" for b row
  proof -
    have "gone n' b"
      using collected(1) [OF time(1) c time(2) b] m(2) gone_stays(1) [OF ex(2)] by blast
    then show ?thesis
      using expires_bid [OF ex', of b] b by (auto simp: gone_def row_expired_def)
  qed
  moreover have "map_option state (offer_rows n' i) = Some (Some (OfferStates_val OFFER_EXPIRED))"
    if i: "i \<in> set offer_ids" "offer_rows n i = Some row" "offer_can_expire row" "offer_expire_at row \<le> time" for i row
    using collected(2) [OF time(1) c time(2) i] n'(2) expires_offer [OF ex', of i] i by (auto simp: offer_gone_def row_expired_def)
  ultimately show ?thesis
    by blast
qed

theorem due_rows_expire_witness:
  "\<exists>n' es'. expireBidsAndOffers idle_xenv 60 100 [[7]] [] \<lparr>expiring_bids = [], expiring_offers = [], last_checked_expiring = 0\<rparr> stale_node = ((Inr (), n'), es')
     \<and> map_option state (bid_rows n' [7]) = Some (Some (BidStates_val BID_EXPIRED))"
proof -
  have row: "bid_rows stale_node [7] = Some ((ads_bid BID_SENT False)\<lparr>active_ind := 1, expire_at := 50\<rparr>)"
    by (simp add: stale_node_def ads_node_def)
  have exp: "can_expire ((ads_bid BID_SENT False)\<lparr>active_ind := 1, expire_at := 50\<rparr>)"
    by code_simp
  have "Coins_of (coin_to ads_offer) = Some XMR"
    by code_simp
  then have "offer_coins_known stale_node"
    by (simp add: offer_coins_known_def stale_node_def ads_node_def)
  with due_rows_expire [of 60 100 "\<lparr>expiring_bids = [], expiring_offers = [], last_checked_expiring = 0\<rparr>" stale_node idle_xenv "[[7]]" "[]"] row exp
  show ?thesis
    by (auto simp: expiry_state.simps)
qed

end
