(* ===== verification/Swap_Runs.thy ===== *)
theory Swap_Runs
  imports Bid_Acceptance Expiry
begin

text \<open>
  Runs of the node: the dispatch \<open>processMsg\<close> of received messages, and sequences of its steps for adaptor signature swaps, in any order and for any number of
  swaps at once: the periodic check, the delayed actions, the handlers of messages, and what the chains report. Steps for one swap leave every other as it was, and
  each transaction the node publishes in a run was due in the state it was published from.
\<close>

section \<open>Definitions\<close>

text \<open>The dispatch of received messages by the type in their first byte. The handlers of offers and new bids are \<open>other\<close>; they need more than the node and come in with
  \<open>Node_Messages\<close>. What a handler raises ends here, and is logged only.\<close>

definition handle_message ::
  "xenv \<Rightarrow> signing \<Rightarrow> accepting \<Rightarrow> (MessageTypes \<Rightarrow> message \<Rightarrow> (node, unit) py) \<Rightarrow> MessageTypes \<Rightarrow> message \<Rightarrow> (node, unit) py" where
  "handle_message X S A other t msg =
     (if t = MT_BID_ACCEPT then processBidAccept X msg
      else if t = MT_XMR_BID_ACCEPT_LF then processXmrBidAccept X A msg
      else if t = MT_XMR_BID_TXN_SIGS_FL then processXmrBidCoinALockSigs X msg
      else if t = MT_XMR_BID_LOCK_SPEND_TX_LF then processXmrBidLockSpendTx X S msg
      else if t = MT_XMR_BID_SPLIT then processXmrSplitMessage X msg
      else if t = MT_XMR_BID_LOCK_RELEASE_LF then processXmrLockReleaseMessage X S msg
      else other t msg)"

definition message_type :: "message \<Rightarrow> MessageTypes option" where
  "message_type msg = (case msg_payload msg of [] \<Rightarrow> None | t # _ \<Rightarrow> find (\<lambda>ty. MessageTypes_val ty = uint t) MessageTypes_all)"

definition processMsg :: "xenv \<Rightarrow> signing \<Rightarrow> accepting \<Rightarrow> (MessageTypes \<Rightarrow> message \<Rightarrow> (node, unit) py) \<Rightarrow> message \<Rightarrow> (node, unit) py" where
  "processMsg X S A other msg =
     ptry (case message_type msg of None \<Rightarrow> pret () | Some t \<Rightarrow> handle_message X S A other t msg) (\<lambda>_. pret ())"

section \<open>Specification vocabulary\<close>

text \<open>The bid a message is about.\<close>

definition message_class :: "MessageTypes \<Rightarrow> field_map" where
  "message_class t =
     (if t = MT_BID_ACCEPT then BidAcceptMessage else if t = MT_XMR_BID_ACCEPT_LF then XmrBidAcceptMessage
      else if t = MT_XMR_BID_TXN_SIGS_FL then XmrBidLockTxSigsMessage else if t = MT_XMR_BID_LOCK_SPEND_TX_LF then XmrBidLockSpendTxMessage
      else XmrBidLockReleaseMessage)"

definition message_bid :: "message \<Rightarrow> bytes" where
  "message_bid msg = (case message_type msg of None \<Rightarrow> []
     | Some t \<Rightarrow> (case rbind (parse_message (message_class t) msg) (\<lambda>a. attr_bytes a ''bid_msg_id'') of Inl _ \<Rightarrow> [] | Inr b \<Rightarrow> b))"

text \<open>One step of the node in swaps that are under way, with the bid it is for. The clock, the chains, the wallets and the other party (\<open>X\<close>, \<open>S\<close>, \<open>A\<close> and the
  message) are any at each step. \<open>dropped\<close> is the deletion of a row of the queue.\<close>

inductive swap_step :: "bytes \<Rightarrow> node \<Rightarrow> node \<Rightarrow> bool" where
  check: "map_of (swaps_in_progress n) b = Some offer \<Longrightarrow> swap_step b n (snd (checkXmrBidState X b offer n))"
| action: "queued t b n \<Longrightarrow> swap_step b n (snd (swap_handler X S (\<lambda>_ _. pret ()) t b n))"
| message: "swap_step (message_bid msg) n (snd (processMsg X S A (\<lambda>_ _. pret ()) msg n))"
| parts: "bid_rows n b = Some bid \<Longrightarrow> state bid = Some (BidStates_val BID_RECEIVING_ACC) \<Longrightarrow> swap_step b n (snd (receiveXmrBidAccept X A b bid n))"
| spent: "wo \<in> set (watched_outputs (cc n c)) \<Longrightarrow> swap_step (wo_bid_id wo) n (snd (processSpentOutputXmr X c wo spend_id spend_txn n))"
| found: "ws \<in> set (watched_scripts (cc n c)) \<Longrightarrow> swap_step (ws_bid_id ws) n (snd (processFoundScript X c ws t v n))"
| dropped: "swap_step (action_linked_id a) n (n\<lparr>actions := filter (\<lambda>x. x \<noteq> a) (actions n)\<rparr>)"

text \<open>A run of the node: steps of any swaps, in any order.\<close>

inductive swap_run :: "bytes list \<Rightarrow> node \<Rightarrow> node \<Rightarrow> bool" where
  start: "swap_run [] n n"
| step: "swap_run bs n m \<Longrightarrow> swap_step b m k \<Longrightarrow> swap_run (bs @ [b]) n k"

text \<open>Why a transaction may be published for a bid.\<close>

definition b_lock_due :: "bytes \<Rightarrow> node \<Rightarrow> Coins \<times> bytes \<Rightarrow> bool" where
  "b_lock_due b n p \<longleftrightarrow> (\<exists>bid xs offer xo. swap_rows n b bid xs offer xo \<and> coin_b offer = Inr (fst p) \<and> xmr_b_lock_tx bid = None)"

definition mercy_due :: "xenv \<Rightarrow> bytes \<Rightarrow> node \<Rightarrow> Coins \<times> bytes \<Rightarrow> bool" where
  "mercy_due X b n p \<longleftrightarrow> (\<exists>bid xs offer swipe_tx keyshare fee key. bid_rows n b = Some bid \<and> xmr_swaps n b = Some xs \<and> coin_a offer = Inr (fst p)
     \<and> txns bid MERCY = None \<and> txns bid SWIPE_SWEEP = None \<and> txns bid XMR_SWAP_A_LOCK_REFUND_SWIPE = Some swipe_tx
     \<and> createMercyTx (x_ads X (fst p)) xs (txid swipe_tx) keyshare fee key = Inr (snd p) \<and> (keyshare \<noteq> None \<longrightarrow> altruistic (x_ads X (fst p))))"

definition check_due :: "xenv \<Rightarrow> bytes \<Rightarrow> node \<Rightarrow> Coins \<times> bytes \<Rightarrow> bool" where
  "check_due X b n p \<longleftrightarrow> (\<exists>offer xo xs. map_of (swaps_in_progress n) b = Some offer \<and> xmr_offers n (offer_id offer) = Some xo
     \<and> xmr_swaps n (bid_id (bids n b)) = Some xs \<and> ads_due X offer xo xs (bids n b) p)"

definition publish_due :: "xenv \<Rightarrow> signing \<Rightarrow> bytes \<Rightarrow> node \<Rightarrow> Coins \<times> bytes \<Rightarrow> bool" where
  "publish_due X S b n p \<longleftrightarrow> check_due X b n p \<or> a_lock_due X S b n p \<or> b_lock_due b n p \<or> redeem_due X b n p
     \<or> spends_b X b n pkbsf KBSL p \<or> spends_b X b n pkbsl KBSF p \<or> mercy_due X b n p"


text \<open>The handlers of messages, when the message names the bid \<open>c\<close>.\<close>

definition names :: "field_map \<Rightarrow> message \<Rightarrow> bytes \<Rightarrow> bool" where
  "names fm msg c \<longleftrightarrow> (\<forall>a b. parse_message fm msg = Inr a \<longrightarrow> attr_bytes a ''bid_msg_id'' = Inr b \<longrightarrow> b = c)"

text \<open>Nothing of a swap changed: its object, its rows, its entry in the table of swaps in progress, its queued actions and its watches; and nothing was logged for it.\<close>

definition untouched :: "bytes \<Rightarrow> node \<Rightarrow> node \<Rightarrow> bool" where
  "untouched c n n' \<longleftrightarrow> bids n' c = bids n c \<and> bid_rows n' c = bid_rows n c \<and> xmr_swaps n' c = xmr_swaps n c
     \<and> map_of (swaps_in_progress n') c = map_of (swaps_in_progress n) c
     \<and> (\<forall>t. queued t c n' \<longleftrightarrow> queued t c n)
     \<and> filter (\<lambda>e. fst e = c) (events n') = filter (\<lambda>e. fst e = c) (events n)
     \<and> (\<forall>coin w. wo_bid_id w = c \<longrightarrow> (w \<in> set (watched_outputs (coin_clients n' coin)) \<longleftrightarrow> w \<in> set (watched_outputs (coin_clients n coin))))
     \<and> (\<forall>coin w. ws_bid_id w = c \<longrightarrow> (w \<in> set (watched_scripts (coin_clients n' coin)) \<longleftrightarrow> w \<in> set (watched_scripts (coin_clients n coin))))"


text \<open>A leader's swap with the follower's signatures, whose lock of coin A is queued.\<close>

definition lock_xenv :: xenv where
  "lock_xenv = idle_xenv\<lparr>x_ads := \<lambda>_. idle_ads\<lparr>getTxid := \<lambda>_. Inr [9]\<rparr>\<rparr>"

definition lock_node :: node where
  "lock_node = (ads_node (ads_bid XMR_SWAP_MSG_SCRIPT_LOCK_TX_SIGS True))\<lparr>actions := [\<lparr>action_id = 1, action_active_ind = 1, action_created_at = 0,
     action_trigger_at = 0, action_type = ActionTypes_val SEND_XMR_SWAP_LOCK_TX_A, action_linked_id = [7]\<rparr>]\<rparr>"


section \<open>Facts\<close>

lemma swap_put_in_progress [intro!]: "steps (only_swap b) (put_in_progress b bid offer)"
  by (rule stepsI) (auto simp: put_in_progress_def py_simps only_swap_def update_conv)

lemma swap_links [intro!]: "steps (only_swap b) (pmod (\<lambda>n. n\<lparr>message_links := f n\<rparr>))" "steps (only_swap b) (pmod (\<lambda>n. n\<lparr>split_data := g n\<rparr>))"
  by (auto intro!: stepsI simp: py_simps only_swap_def)

lemma swap_small [intro!]:
  "steps (only_swap b) (fail_bid X b bid)" "steps (only_swap b) (check_addresses msg s d)" "steps (only_swap b) (check_state sts bid)"
  "steps (only_swap b) (sendMessage X s d payload)" "steps (only_swap b) (notify_bid nt b)" "steps (only_swap b) (setBidError b time msg')"
  "steps (only_swap b) (with_itx_state time ts bid)" "steps (only_swap b) (bid_and_offer c)"
  unfolding fail_bid_def check_addresses_def check_state_def sendMessage_def notify_bid_def setBidError_def with_itx_state_def bid_and_offer_def
  by (auto split: prod.split sum.split)

lemma swap_message_rows:
  assumes "\<And>b bid xs. attr_bytes a ''bid_msg_id'' = Inr b \<Longrightarrow> steps (only_swap c) (f b bid xs)"
  shows "steps (only_swap c) (pbind (message_rows a) (\<lambda>(b, bid, xs). f b bid xs))"
proof (rule swap.steps_pbind_run)
  show "steps (only_swap c) (message_rows a)"
    unfolding message_rows_def by auto
next
  fix s x s'
  assume "message_rows a s = (Inr x, s')"
  then show "steps (only_swap c) (case x of (b, bid, xs) \<Rightarrow> f b bid xs)"
    by (auto simp: message_rows_def run_simps intro!: assms)
qed

lemma swap_senders [intro!]:
  "steps (only_swap b) (sendXmrBidTxnSigsFtoL X S b)"
  "steps (only_swap b) (sendXmrBidCoinALockTx X S b)"
  "steps (only_swap b) (sendXmrBidCoinALockSpendTxMsg X b)"
  unfolding sendXmrBidTxnSigsFtoL_def send_sigs_def wait_for_a_lock_def sendXmrBidCoinALockTx_def publish_a_lock_def sendXmrBidCoinALockSpendTxMsg_def Let_def
  by (auto split: sum.split prod.split)

lemma swap_accepts [intro!]: "steps (only_swap b) (receiveXmrBidAccept X A b bid)" "steps (only_swap b) (save_accept X A cb b r)"
  "steps (only_swap b) (check_accept X A b offer xo ca cb msg_data bid xs)"
  unfolding save_accept_def receiveXmrBidAccept_def check_accept_def Let_def by (auto split: option.split prod.split)

lemma swap_named:
  assumes "names fm msg c" "\<And>a bid xs. steps (only_swap c) (f a c bid xs)"
  shows "steps (only_swap c) (pbind (plift (parse_message fm msg)) (\<lambda>a. pbind (message_rows a) (\<lambda>(b, bid, xs). f a b bid xs)))"
  using assms by (intro swap.steps_pbind_plift swap_message_rows) (auto simp: names_def)

lemma swap_messages:
  "names XmrBidLockTxSigsMessage msg c \<Longrightarrow> steps (only_swap c) (processXmrBidCoinALockSigs X msg)"
  "names XmrBidLockSpendTxMessage msg c \<Longrightarrow> steps (only_swap c) (processXmrBidLockSpendTx X S msg)"
  "names XmrBidLockReleaseMessage msg c \<Longrightarrow> steps (only_swap c) (processXmrLockReleaseMessage X S msg)"
  "names XmrBidAcceptMessage msg c \<Longrightarrow> steps (only_swap c) (processXmrBidAccept X A msg)"
  unfolding processXmrBidCoinALockSigs_def processXmrBidLockSpendTx_def processXmrLockReleaseMessage_def processXmrBidAccept_def
    accept_sigs_def accept_spend_def released_bid_def Let_def
  by (rule swap_named; auto split: sum.split prod.split option.split)+

lemma swap_split [intro!]: "steps (only_swap c) (processXmrSplitMessage X msg)"
  unfolding processXmrSplitMessage_def by auto

lemma swap_bid_accept:
  assumes "names BidAcceptMessage msg c"
  shows "steps (only_swap c) (processBidAccept X msg)"
  unfolding processBidAccept_def accept_initiate_def Let_def
  using assms by (intro swap.steps_pbind_plift) (auto simp: names_def intro!: swap.steps_pbind swap.steps_pseq)

lemma message_names:
  assumes "message_type msg = Some t"
  shows "names (message_class t) msg (message_bid msg)"
  using assms by (auto simp: names_def message_bid_def)

lemma handle_message_frame:
  assumes "message_type msg = Some t"
  shows "steps (only_swap (message_bid msg)) (handle_message X S A (\<lambda>_ _. pret ()) t msg)"
  using message_names [OF assms] swap_messages [where c = "message_bid msg" and msg = msg] swap_bid_accept [where c = "message_bid msg" and msg = msg]
  unfolding handle_message_def message_class_def by (auto split: if_splits)

lemma swap_handler_frame: "steps (only_swap b) (swap_handler X S (\<lambda>_ _. pret ()) t b)"
  unfolding swap_handler_def ads_handler_def by auto

lemma swap_step_frame: "swap_step b n n' \<Longrightarrow> only_swap b n n'"
proof (induction rule: swap_step.induct)
  case (check n b offer X)
  then show ?case
    using swap_checkXmrBidState by (simp add: steps_def)
next
  case (action t b n X S)
  then show ?case
    using swap_handler_frame by (simp add: steps_def)
next
  case (message msg n X S A)
  have "steps (only_swap (message_bid msg)) (processMsg X S A (\<lambda>_ _. pret ()) msg)"
    unfolding processMsg_def by (intro swap.steps_ptry swap.steps_case_option handle_message_frame) auto
  then show ?case
    by (simp add: steps_def)
next
  case (parts n b bid X A)
  then show ?case
    using swap_accepts(1) by (simp add: steps_def)
next
  case (spent wo n c X spend_id spend_txn)
  then show ?case
    using swap_found(2) by (simp add: steps_def)
next
  case (found ws n c X t v)
  then show ?case
    using swap_found(1) by (simp add: steps_def)
next
  case (dropped a n)
  then show ?case
    by (auto simp: only_swap_def)
qed

lemma only_swap_untouched:
  assumes "only_swap b n n'" "c \<noteq> b"
  shows "untouched c n n'"
proof -
  obtain es where "events n' = events n @ es" "\<forall>e\<in>set es. fst e = b"
    using assms(1) by (auto simp: only_swap_def)
  then have "filter (\<lambda>e. fst e = c) (events n') = filter (\<lambda>e. fst e = c) (events n)"
    using assms(2) by (auto simp: filter_empty_conv)
  then show ?thesis
    using assms unfolding only_swap_def untouched_def queued_def by (auto 4 3)
qed

lemma untouched_trans: "untouched c n m \<Longrightarrow> untouched c m k \<Longrightarrow> untouched c n k"
  unfolding untouched_def by auto

text \<open>C2. Swaps do not disturb one another. In any run of the node, whatever its chains, wallets, peers and clock do, a swap for which no step was made is as it
  was at the start: its object in memory, its rows, its entry among the swaps in progress, its queued actions, its watched outputs and scripts and its log.\<close>

theorem swaps_isolated:
  assumes "swap_run bs n n'" "c \<notin> set bs"
  shows "untouched c n n'"
  using assms
proof (induction rule: swap_run.induct)
  case (start n)
  then show ?case
    by (simp add: untouched_def)
next
  case (step bs n m b k)
  then have "untouched c n m" "untouched c m k"
    using only_swap_untouched [OF swap_step_frame] by auto
  then show ?case
    by (rule untouched_trans)
qed

lemma publishes_mono: "publishes P n n' \<Longrightarrow> (\<And>p. P p \<Longrightarrow> Q p) \<Longrightarrow> publishes Q n n'"
  unfolding publishes_def by blast

lemma publishes_same: "published n' = published n \<Longrightarrow> publishes P n n'"
  by (simp add: publishes_def)

lemma check_publishes_due:
  assumes "map_of (swaps_in_progress n) b = Some offer"
  shows "publishes (check_due X b n) n (snd (checkXmrBidState X b offer n))"
proof (cases "\<exists>xo xs. xmr_offers n (offer_id offer) = Some xo \<and> xmr_swaps n (bid_id (bids n b)) = Some xs")
  case True
  then obtain xo xs where rows: "xmr_offers n (offer_id offer) = Some xo" "xmr_swaps n (bid_id (bids n b)) = Some xs"
    by blast
  have "publishes (ads_due X offer xo xs (bids n b)) n (snd (checkXmrBidState X b offer n))"
    using check_published [OF prod.collapse [symmetric] rows] by (simp add: publishes_def)
  then show ?thesis
    by (rule publishes_mono) (use assms rows in \<open>auto simp: check_due_def\<close>)
next
  case False
  then have "snd (checkXmrBidState X b offer n) = n"
    by (auto simp: checkXmrBidState_def get_state_def pbind_def py_simps of_option_def split: sum.splits option.splits)
  then show ?thesis
    by (simp add: publishes.refl)
qed

lemma pub_small [intro!]:
  "steps (publishes P) (fail_bid X b bid)" "steps (publishes P) (check_addresses msg s d)" "steps (publishes P) (check_state sts bid)"
  "steps (publishes P) (sendMessage X s d payload)" "steps (publishes P) (notify_bid nt b)" "steps (publishes P) (setBidError b time msg')"
  "steps (publishes P) (with_itx_state time ts bid)" "steps (publishes P) (bid_and_offer c)" "steps (publishes P) (put_in_progress b bid offer)"
  "steps (publishes P) (message_rows a)" "steps (publishes P) (pmod (\<lambda>n. n\<lparr>message_links := f n\<rparr>))" "steps (publishes P) (pmod (\<lambda>n. n\<lparr>split_data := g n\<rparr>))"
  "steps (publishes P) (load_swap b)" "steps (publishes P) (load_offer i)"
  unfolding fail_bid_def check_addresses_def check_state_def sendMessage_def notify_bid_def setBidError_def saveBid_def with_itx_state_def bid_and_offer_def
    put_in_progress_def message_rows_def load_swap_def load_offer_def getXmrBidFromSession_def getXmrOfferFromSession_def
  by (auto intro!: pub_pmod split: prod.split sum.split)

lemma pub_messages [intro!]:
  "steps (publishes P) (processXmrBidCoinALockSigs X msg)" "steps (publishes P) (processXmrBidLockSpendTx X S msg)"
  "steps (publishes P) (processXmrLockReleaseMessage X S msg)" "steps (publishes P) (processXmrSplitMessage X msg)"
  unfolding processXmrBidCoinALockSigs_def processXmrBidLockSpendTx_def processXmrLockReleaseMessage_def processXmrSplitMessage_def
    accept_sigs_def accept_spend_def released_bid_def Let_def
  by (auto split: sum.split prod.split option.split)

lemma pub_accepts [intro!]:
  "steps (publishes P) (receiveXmrBidAccept X A b bid)" "steps (publishes P) (processXmrBidAccept X A msg)" "steps (publishes P) (processBidAccept X msg)"
  unfolding receiveXmrBidAccept_def processXmrBidAccept_def save_accept_def check_accept_def processBidAccept_def accept_initiate_def Let_def
  by (auto split: option.split prod.split)

lemma pub_processMsg: "steps (publishes P) (processMsg X S A (\<lambda>_ _. pret ()) msg)"
  unfolding processMsg_def handle_message_def by (auto split: option.split)

lemma pub_found:
  "steps (publishes P) (processFoundScript X c ws t v)"
  "steps (publishes P) (processSpentOutputXmr X c wo spend_id spend_txn)"
  unfolding processFoundScript_def processSpentOutputXmr_def process_MERCY_tx_def process_XMR_SWAP_A_LOCK_REFUND_tx_spend_def a_lock_refund_spent_def
    refund_spend_seen_def refund_swiped_def upd_ptx_def get_ptx_def upd_alock_def set_block_state_def saveBid_def put_txn_def set_ptx_state_def set_bid_state_def
    removeWatchedOutput_def removeWatchedScript_def swap_completed_note_def queue_action_def Let_def
  by (auto split: option.split sum.split)

lemma pub_senders [intro!]:
  "steps (publishes P) (sendXmrBidTxnSigsFtoL X S b)" "steps (publishes P) (sendXmrBidCoinALockSpendTxMsg X b)" "steps (publishes P) (sendXmrBidLockRelease X b)"
  unfolding sendXmrBidTxnSigsFtoL_def send_sigs_def wait_for_a_lock_def sendXmrBidCoinALockSpendTxMsg_def sendXmrBidLockRelease_def send_release_def Let_def
  by (auto split: sum.split prod.split)

lemma publish_b_lock_publishes:
  assumes "\<And>t. P (cb, t)"
  shows "steps (publishes P) (publish_b_lock X b cb fee unlock bid xs)" "steps (publishes P) (send_b_lock X b cb offer xo bid xs)"
proof -
  have "steps (publishes P) (pmod (\<lambda>n. n\<lparr>published := published n @ [(cb, t)]\<rparr>))" for t
    using assms by (auto intro!: stepsI simp: publishes_def py_simps)
  then show any: "steps (publishes P) (publish_b_lock X b cb fee unlock bid xs)" for fee unlock bid
    unfolding publish_b_lock_def using assms by (auto intro!: pub_publish split: option.split)
  show "steps (publishes P) (send_b_lock X b cb offer xo bid xs)"
    unfolding send_b_lock_def Let_def by (auto intro!: any split: sum.split)
qed

lemma findTxB_same: "findTxB X b cb s bid xs m = (Inr (False, bid', xs'), m') \<Longrightarrow> bid' = bid"
  by (auto simp: findTxB_def Let_def run_simps countBidEvents_def split: if_splits option.splits b_search.splits)

lemma b_lock_published: "publishes (b_lock_due b n) n (snd (sendXmrBidCoinBLockTx X b n))"
proof -
  have "steps_at (publishes (b_lock_due b n)) (sendXmrBidCoinBLockTx X b) n"
    unfolding sendXmrBidCoinBLockTx_def
  proof (rule pub_load_swap, rule pub_load_offer, rule steps_at_steps, rule publishes.steps_pbind_plift, goal_cases)
    case (1 bid xs offer xo cb)
    have due: "b_lock_due b n (cb, t)" if "xmr_b_lock_tx bid = None" for t
      using 1 that by (auto simp: b_lock_due_def swap_rows_def)
    show ?case
    proof (rule publishes.steps_pbind_run [OF pub_findTxB])
      fix m y m'
      assume run: "findTxB X b cb (is_follower offer bid) bid xs m = (Inr y, m')"
      obtain changed bid' xs' where y: "y = (changed, bid', xs')"
        by (metis prod.exhaust)
      show "steps (publishes (b_lock_due b n)) (case y of (changed, bid, xs) \<Rightarrow>
          if changed then save_in_progress b bid xs offer
          else if xmr_b_lock_tx bid \<noteq> None then praise AttributeError
          else if debug_ind bid = Some (DebugTypes_val DBG_BID_STOP_AFTER_COIN_A_LOCK) then
            pbind (with_state (now (x_env X)) BID_STALLED_FOR_TEST bid) (\<lambda>bid.
            pseq (logEvent b EV_DEBUG_TWEAK_APPLIED ''ind '') (save_in_progress b bid xs offer))
          else send_b_lock X b cb offer xo bid xs)"
      proof (cases changed)
        case False
        then have "bid' = bid"
          using findTxB_same run y by metis
        then show ?thesis
          using False by (auto simp: y intro!: publish_b_lock_publishes(2) due)
      qed (auto simp: y)
    qed
  qed
  then show ?thesis
    by (simp add: steps_at_def)
qed

lemma spendSwipe_publishes:
  assumes "\<And>swipe_tx fee t. txns bid XMR_SWAP_A_LOCK_REFUND_SWIPE = Some swipe_tx \<Longrightarrow> createMercyTx (x_ads X ca) xs (txid swipe_tx) ks fee k = Inr t \<Longrightarrow> P (ca, t)"
  shows "steps (publishes P) (spendSwipePayout X ca offer xo bid xs k ks)"
  unfolding spendSwipePayout_def using assms by (auto intro!: pub_publish simp: of_option_def split: option.splits)

lemma pub_swipe_payout [intro!]: "steps (publishes P) (getSwipePayout X ca bid xs)" "steps (publishes P) (mercy_prevout X ca bid call)"
  unfolding getSwipePayout_def mercy_prevout_def wallet_call_def by (auto split: list.split)

lemma give_up_mercy_publishes:
  assumes "\<And>swipe_tx fee t. txns bid XMR_SWAP_A_LOCK_REFUND_SWIPE = Some swipe_tx \<Longrightarrow> createMercyTx (x_ads X ca) xs (txid swipe_tx) None fee True = Inr t \<Longrightarrow> P (ca, t)"
  shows "steps (publishes P) (give_up_mercy X b ca offer bid xs reason)"
  unfolding give_up_mercy_def recoverSwipePayout_def sweepSwipePayout_def by (auto intro!: spendSwipe_publishes assms split: option.split)

lemma send_mercy_publishes:
  assumes "\<And>swipe_tx ks fee k t. txns bid XMR_SWAP_A_LOCK_REFUND_SWIPE = Some swipe_tx \<Longrightarrow> createMercyTx (x_ads X ca) xs (txid swipe_tx) ks fee k = Inr t \<Longrightarrow> P (ca, t)"
  shows "steps (publishes P) (send_mercy X b ca cb offer xo bid xs)"
  unfolding send_mercy_def Let_def by (auto intro!: spendSwipe_publishes assms split: option.split)

lemma mercy_dueI:
  "bid_rows n b = Some bid \<Longrightarrow> xmr_swaps n b = Some xs \<Longrightarrow> coin_a offer = Inr ca \<Longrightarrow> txns bid MERCY = None \<Longrightarrow> txns bid SWIPE_SWEEP = None
   \<Longrightarrow> txns bid XMR_SWAP_A_LOCK_REFUND_SWIPE = Some swipe_tx \<Longrightarrow> createMercyTx (x_ads X ca) xs (txid swipe_tx) ks fee k = Inr t
   \<Longrightarrow> (ks \<noteq> None \<longrightarrow> altruistic (x_ads X ca)) \<Longrightarrow> mercy_due X b n (ca, t)"
  unfolding mercy_due_def fst_conv snd_conv by blast

lemma mercy_published: "publishes (mercy_due X b n) n (snd (sendMercyTx X b n))"
proof -
  have "steps_at (publishes (mercy_due X b n)) (sendMercyTx X b) n"
    unfolding sendMercyTx_def
  proof (rule pub_load_swap, rule steps_at_steps, goal_cases)
    case (1 bid xs)
    show ?case
      using 1 unfolding getXmrOfferFromSession_def
      by (auto intro!: give_up_mercy_publishes send_mercy_publishes intro: mercy_dueI)
  qed
  then show ?thesis
    by (simp add: steps_at_def)
qed

lemma swap_handler_published: "publishes (publish_due X S b n) n (snd (swap_handler X S (\<lambda>_ _. pret ()) t b n))"
proof -
  note senders = stepsD [OF pub_senders(1) prod.collapse [symmetric]] stepsD [OF pub_senders(2) prod.collapse [symmetric]]
    stepsD [OF pub_senders(3) prod.collapse [symmetric]]
  have a: "publishes (a_lock_due X S b n) n (snd (sendXmrBidCoinALockTx X S b n))"
    using a_lock_published unfolding publishes_def by blast
  have b: "publishes (redeem_due X b n) n (snd (redeemXmrBidCoinALockTx X b n))"
    using redeem_a_published [OF prod.collapse [symmetric]] unfolding publishes_def by blast
  have c: "publishes (spends_b X b n pkbsf KBSL) n (snd (redeemXmrBidCoinBLockTx X b n))" "publishes (spends_b X b n pkbsl KBSF) n (snd (recoverXmrBidCoinBLockTx X b n))"
    using spend_b_published unfolding publishes_def by blast+
  show ?thesis
    unfolding swap_handler_def ads_handler_def
    using senders a b c b_lock_published [of b n X] mercy_published [of X b n]
    by (auto simp: publish_due_def publishes.refl pret_def elim!: publishes_mono)
qed

lemma swap_step_published: "swap_step b n n' \<Longrightarrow> \<exists>X S. publishes (publish_due X S b n) n n'"
proof (induction rule: swap_step.induct)
  case (check n b offer X)
  then have "publishes (publish_due X S b n) n (snd (checkXmrBidState X b offer n))" for S
    by (rule publishes_mono [OF check_publishes_due]) (simp add: publish_due_def)
  then show ?case
    by blast
next
  case (action t b n X S)
  then show ?case
    using swap_handler_published by blast
next
  case (message msg n X S A)
  then show ?case
    using pub_processMsg unfolding steps_def by blast
next
  case (parts n b bid X A)
  then show ?case
    using pub_accepts(1) unfolding steps_def by blast
next
  case (spent wo n c X spend_id spend_txn)
  then show ?case
    using pub_found(2) unfolding steps_def by blast
next
  case (found ws n c X t v)
  then show ?case
    using pub_found(1) unfolding steps_def by blast
next
  case (dropped a n)
  then show ?case
    by (auto simp: publishes_def)
qed


lemma lock_run: "swap_run [[7]] lock_node (snd (sendXmrBidCoinALockTx lock_xenv idle_signing [7] lock_node))"
proof -
  have "queued SEND_XMR_SWAP_LOCK_TX_A [7] lock_node"
    by (simp add: queued_def lock_node_def)
  from swap_step.action [OF this, of lock_xenv idle_signing] show ?thesis
    using swap_run.step [OF swap_run.start] by (fastforce simp: swap_handler_def)
qed

theorem swaps_isolated_witness: "untouched [8] lock_node (snd (sendXmrBidCoinALockTx lock_xenv idle_signing [7] lock_node))"
  using swaps_isolated [OF lock_run, of "[8]"] by simp


end
