(* ===== verification/Swap_Progress.thy ===== *)
theory Swap_Progress
  imports Swap_Runs
begin

text \<open>
  How swaps end: \<open>deactivateBid\<close>, \<open>deactivateBidForReason\<close>, \<open>abandonBid\<close>, \<open>timeoutBid\<close>, \<open>updateIdentityBidState\<close>, \<open>checkAcceptedBids\<close> and the loop of
  \<open>update\<close> over the swaps in progress, in \<open>src/basicswap/basicswap.py\<close>. A bid that ends leaves no trace that could act again, other bids are untouched, and
  an exception of one swap does not stop the checks of the others. Wallet managers are only asked to unlock outputs, so that only the calls are recorded.
\<close>

section \<open>Definitions\<close>

subsection \<open>Statistics of the other parties\<close>

definition zeroIfNone :: "int option \<Rightarrow> int" where
  "zeroIfNone x = (case x of None \<Rightarrow> 0 | Some v \<Rightarrow> v)"

definition failed_states :: "BidStates list" where
  "failed_states = [BID_ERROR, XMR_SWAP_FAILED_REFUNDED, XMR_SWAP_FAILED_SWIPED, XMR_SWAP_FAILED, SWAP_TIMEDOUT]"

definition in_states :: "Bid \<Rightarrow> BidStates list \<Rightarrow> bool" where
  "in_states bid sts \<longleftrightarrow> state bid \<in> Some ` BidStates_val ` set sts"

text \<open>The counters an ended bid raises, of the offer's creator or of the bidder.\<close>

definition count_bid :: "Bid \<Rightarrow> bool \<Rightarrow> KnownIdentity \<Rightarrow> KnownIdentity" where
  "count_bid bid is_offer_creator i =
     (if in_states bid [SWAP_COMPLETED] then
        (if is_offer_creator then i\<lparr>num_recv_bids_successful := Some (zeroIfNone (num_recv_bids_successful i) + 1)\<rparr>
         else i\<lparr>num_sent_bids_successful := Some (zeroIfNone (num_sent_bids_successful i) + 1)\<rparr>)
      else if in_states bid failed_states then
        (if is_offer_creator then i\<lparr>num_recv_bids_failed := Some (zeroIfNone (num_recv_bids_failed i) + 1)\<rparr>
         else i\<lparr>num_sent_bids_failed := Some (zeroIfNone (num_sent_bids_failed i) + 1)\<rparr>)
      else if in_states bid [BID_REJECTED] then
        (if is_offer_creator then i\<lparr>num_recv_bids_rejected := Some (zeroIfNone (num_recv_bids_rejected i) + 1)\<rparr>
         else i\<lparr>num_sent_bids_rejected := Some (zeroIfNone (num_sent_bids_rejected i) + 1)\<rparr>)
      else i)"

definition new_identity :: KnownIdentity where
  "new_identity = \<lparr>num_sent_bids_successful = None, num_recv_bids_successful = None, num_sent_bids_rejected = None,
     num_recv_bids_rejected = None, num_sent_bids_failed = None, num_recv_bids_failed = None\<rparr>"

definition updateIdentityBidState :: "string \<Rightarrow> Bid \<Rightarrow> (node, unit) py" where
  "updateIdentityBidState address bid =
     pbind (pget (\<lambda>n. offer_rows n (bid_offer_id bid))) (\<lambda>offer.
     pbind (plift (of_option AttributeError offer)) (\<lambda>offer.
     pfor (\<lambda>a. pmod (\<lambda>n. n\<lparr>identities := (identities n)(a \<mapsto>
             count_bid bid (a = addr_from offer) (case identities n a of None \<Rightarrow> new_identity | Some i \<Rightarrow> i))\<rparr>))
          [addr_from offer, bid_addr bid]))"

subsection \<open>A swap leaves the table of swaps in progress\<close>

text \<open>Settings, whether the wallets are locked, and which coins have a wallet manager.\<close>

record progress_env =
  g_xenv :: xenv
  g_locked :: bool
  g_wallet_manager :: "Coins \<Rightarrow> bool"
  g_sc_lock_tx_timeout :: int
  g_sc_lock_tx_mempool_timeout :: int

text \<open>Addresses that were not used go back to the pool.\<close>

definition return_addresses :: "Bid \<Rightarrow> (node, unit) py" where
  "return_addresses bid =
     (let b = bid_id bid; itx_state = getITxState bid; ptx_state = getPTxState bid in
      pseq (pwhen (itx_state \<noteq> None \<and> itx_state \<noteq> Some (TxStates_val TX_REDEEMED)) (returnAddressToPool b ITX_REDEEM))
     (pseq (pwhen (itx_state \<noteq> None \<and> itx_state \<noteq> Some (TxStates_val TX_REFUNDED)) (returnAddressToPool b ITX_REFUND))
     (pseq (pwhen (ptx_state \<noteq> None \<and> ptx_state \<noteq> Some (TxStates_val TX_REDEEMED)) (returnAddressToPool b PTX_REDEEM))
           (pwhen (ptx_state \<noteq> None \<and> ptx_state \<noteq> Some (TxStates_val TX_REFUNDED)) (returnAddressToPool b PTX_REFUND)))))"

text \<open>Inputs that were locked for the swap.\<close>

definition unlock_inputs :: "progress_env \<Rightarrow> Offer \<Rightarrow> Coins \<Rightarrow> Coins \<Rightarrow> Bid \<Rightarrow> (node, unit) py" where
  "unlock_inputs G offer ca cto bid =
     pwhen (swap_type offer = SwapTypes_val XMR_SWAP)
       (pbind (pget (\<lambda>n. xmr_swaps n (bid_id bid))) (\<lambda>xs.
        pseq (case Option.bind xs a_lock_tx of None \<Rightarrow> pret () | Some tx \<Rightarrow> pwhen (is_leader offer bid) (wallet_call (UnlockInputs ca tx)))
             (prefunded_calls (g_xenv G) (bid_id bid) cto)))"

definition unlock_utxos :: "progress_env \<Rightarrow> bytes \<Rightarrow> Coins list \<Rightarrow> (node, unit) py" where
  "unlock_utxos G b cs = pfor (\<lambda>c. pwhen (g_wallet_manager G c) (wallet_call (UnlockUTXOs c b))) cs"

text \<open>Addresses, queued actions and locked outputs are given back, and the other party's statistics updated.\<close>

definition release_bid :: "progress_env \<Rightarrow> Offer \<Rightarrow> Coins \<Rightarrow> Coins \<Rightarrow> Coins \<Rightarrow> Bid \<Rightarrow> (node, unit) py" where
  "release_bid G offer ca cfrom cto bid =
      pseq (pwhen (in_states bid [BID_ABANDONED, SWAP_COMPLETED]) (return_addresses bid))
     (pseq (drop_actions (x_debug (g_xenv G)) (\<lambda>a. action_linked_id a = bid_id bid))
     (pseq (unlock_utxos G (bid_id bid) [cfrom, cto])
     (pseq (unlock_inputs G offer ca cto bid)
           (pwhen (in_states bid (SWAP_COMPLETED # failed_states))
             (updateIdentityBidState (if (if reverse_offer offer then was_received bid else was_sent bid) then addr_from offer else bid_addr bid) bid)))))"

text \<open>\<open>own\<close>: no cursor was given, so the bid, an object in memory, is saved. The answer is the bid as it is then.\<close>

definition deactivateBid :: "progress_env \<Rightarrow> bool \<Rightarrow> Offer \<Rightarrow> Bid \<Rightarrow> (node, Bid) py" where
  "deactivateBid G own offer bid =
     (let X = g_xenv G; b = bid_id bid; bid = bid\<lparr>in_progress := 0\<rparr> in
      pseq (pmod (\<lambda>n. n\<lparr>swaps_in_progress := filter (\<lambda>e. fst e \<noteq> b) (swaps_in_progress n)\<rparr>))
     (pseq (pwhen own (pseq (pmod (upd_bid b (\<lambda>_. bid))) (saveBidInSession b bid)))
     (pbind (plift (coin_a offer)) (\<lambda>ca.
      pseq (mercy_prevout X ca bid UnlockOutput)
     (pbind (plift (of_option (ValueError ''Coins'') (Coins_of (coin_from offer)))) (\<lambda>cfrom.
      pseq (removeWatchedOutput cfrom b None None)
     (pbind (plift (of_option (ValueError ''Coins'') (Coins_of (coin_to offer)))) (\<lambda>cto.
      pseq (removeWatchedOutput cto b None None)
     (pseq (removeWatchedScript cfrom b None None)
     (pseq (removeWatchedScript cto b None None)
     (pseq (release_bid G offer ca cfrom cto bid)
           (pret bid))))))))))))"

text \<open>A row read without its transactions.\<close>

definition without_txns :: "Bid \<Rightarrow> Bid" where
  "without_txns row = row\<lparr>initiate_tx := None, participate_tx := None, xmr_a_lock_tx := None, xmr_a_lock_spend_tx := None,
     xmr_b_lock_tx := None, txns := \<lambda>_. None\<rparr>"

definition deactivateBidForReason :: "progress_env \<Rightarrow> bytes \<Rightarrow> BidStates \<Rightarrow> (node, unit) py" where
  "deactivateBidForReason G b new_state =
     pbind (pget (\<lambda>n. bid_rows n b)) (\<lambda>bid.
     pbind (plift (of_option (ValueError ''Bid not found'') bid)) (\<lambda>bid.
     pbind (pget (\<lambda>n. offer_rows n (bid_offer_id bid))) (\<lambda>offer.
     pbind (plift (of_option (ValueError ''Offer not found'') offer)) (\<lambda>offer.
     pbind (with_state (now (x_env (g_xenv G))) new_state (without_txns bid)) (\<lambda>bid.
     pbind (deactivateBid G False offer bid) (\<lambda>bid.
     saveBidInSession b bid))))))"

definition abandonBid :: "progress_env \<Rightarrow> bytes \<Rightarrow> (node, unit) py" where
  "abandonBid G b = pwhen (x_debug (g_xenv G)) (deactivateBidForReason G b BID_ABANDONED)"

definition timeoutBid :: "progress_env \<Rightarrow> bytes \<Rightarrow> (node, unit) py" where
  "timeoutBid G b = deactivateBidForReason G b SWAP_TIMEDOUT"

subsection \<open>Bids that wait for the lock transaction\<close>

definition has_event :: "bytes \<Rightarrow> EventLogTypes \<Rightarrow> node \<Rightarrow> bool" where
  "has_event b t n \<longleftrightarrow> list_ex (\<lambda>(i, e, _). i = b \<and> e = t) (events n)"

text \<open>The condition of the query.\<close>

definition lock_overdue :: "progress_env \<Rightarrow> node \<Rightarrow> bytes \<Rightarrow> bool" where
  "lock_overdue G n b \<longleftrightarrow>
     (case bid_rows n b of
        None \<Rightarrow> False
      | Some row \<Rightarrow> active_ind row = 1
          \<and> (case Option.bind (state row) BidStates_of of None \<Rightarrow> False | Some st \<Rightarrow> canTimeoutBidState st)
          \<and> (case state_time row of
               None \<Rightarrow> False
             | Some t \<Rightarrow> t + (if has_event b EV_LOCK_TX_A_IN_MEMPOOL n then g_sc_lock_tx_mempool_timeout G else g_sc_lock_tx_timeout G)
                 \<le> now (x_env (g_xenv G)))
          \<and> \<not> has_event b EV_LOCK_TX_A_PUBLISHED n)"

text \<open>The rows come in the order \<open>bid_ids\<close> of the table. \<open>timeoutBid\<close> runs its queries on the cursor the loop reads from, so the loop ends after one row.\<close>

definition checkAcceptedBids :: "progress_env \<Rightarrow> bytes list \<Rightarrow> (node, unit) py" where
  "checkAcceptedBids G bid_ids =
     pwhen (\<not> g_locked G)
       (pbind (pget (\<lambda>n. filter (lock_overdue G n) bid_ids)) (\<lambda>rows.
        case rows of [] \<Rightarrow> pret () | b # _ \<Rightarrow> timeoutBid G b))"

subsection \<open>The check of the swaps in progress\<close>

text \<open>One swap: what its check raises is logged, or puts the bid into error.\<close>

definition check_swap :: "progress_env \<Rightarrow> bytes \<Rightarrow> Offer \<Rightarrow> (node, bool) py" where
  "check_swap G b offer =
     (let X = g_xenv G in
      ptry (checkBidState (checkXmrBidState X b offer) (x_env X) b offer)
        (\<lambda>e. pseq (if x_transient X e then logEvent b EV_SYSTEM_WARNING ''No connection to daemon''
                   else setBidError b (now (x_env X)) '''') (pret False)))"

fun check_swaps :: "progress_env \<Rightarrow> (bytes \<times> Offer) list \<Rightarrow> (node, (bytes \<times> Offer) list) py" where
  "check_swaps G [] = pret []"
| "check_swaps G ((b, offer) # swaps) =
     pbind (check_swap G b offer) (\<lambda>done.
     pbind (check_swaps G swaps) (\<lambda>to_remove.
     pret (if done then (b, offer) # to_remove else to_remove)))"

definition leave_progress :: "progress_env \<Rightarrow> bytes \<times> Offer \<Rightarrow> (node, unit) py" where
  "leave_progress G = (\<lambda>(b, offer). pbind (pget (\<lambda>n. bids n b)) (\<lambda>bid. pseq (deactivateBid G True offer bid) (pret ())))"

definition check_progress :: "progress_env \<Rightarrow> (node, unit) py" where
  "check_progress G =
     pbind (pget swaps_in_progress) (\<lambda>swaps.
     pbind (check_swaps G swaps) (\<lambda>to_remove.
     pfor (leave_progress G) to_remove))"

section \<open>Specification vocabulary\<close>

definition ended :: "bytes \<Rightarrow> Coins set \<Rightarrow> node \<Rightarrow> bool" where
  "ended b cs n \<longleftrightarrow> map_of (swaps_in_progress n) b = None \<and> (\<forall>t. \<not> queued t b n)
     \<and> (\<forall>c\<in>cs. (\<forall>w\<in>set (watched_outputs (cc n c)). wo_bid_id w \<noteq> b) \<and> (\<forall>w\<in>set (watched_scripts (cc n c)). ws_bid_id w \<noteq> b))"

text \<open>Only the bid \<open>b\<close> changed, and nothing was published or sent.\<close>

definition ends_only :: "bytes \<Rightarrow> node \<Rightarrow> node \<Rightarrow> bool" where
  "ends_only b n n' \<longleftrightarrow> (\<forall>c. c \<noteq> b \<longrightarrow> untouched c n n') \<and> published n' = published n \<and> sent_messages n' = sent_messages n \<and> offer_rows n' = offer_rows n
     \<and> events n' = events n"

text \<open>Steps that only ask something of a wallet, return addresses or count for the statistics.\<close>

definition bookkeeping :: "node \<Rightarrow> node \<Rightarrow> bool" where
  "bookkeeping n n' \<longleftrightarrow> bids n' = bids n \<and> swaps_in_progress n' = swaps_in_progress n \<and> coin_clients n' = coin_clients n \<and> events n' = events n
     \<and> actions n' = actions n \<and> bid_rows n' = bid_rows n \<and> offer_rows n' = offer_rows n \<and> xmr_swaps n' = xmr_swaps n \<and> xmr_offers n' = xmr_offers n
     \<and> published n' = published n \<and> sent_messages n' = sent_messages n"

text \<open>Steps that always return.\<close>

definition returns :: "('s, 'a) py \<Rightarrow> bool" where
  "returns m \<longleftrightarrow> (\<forall>s. \<exists>x s'. m s = (Inr x, s'))"

text \<open>Nothing of a bid is watched on a chain any more.\<close>

definition without_outputs :: "bytes \<Rightarrow> coin_client \<Rightarrow> coin_client" where
  "without_outputs b c = c\<lparr>watched_outputs := filter (\<lambda>w. wo_bid_id w \<noteq> b) (watched_outputs c)\<rparr>"

definition without_scripts :: "bytes \<Rightarrow> coin_client \<Rightarrow> coin_client" where
  "without_scripts b c = c\<lparr>watched_scripts := filter (\<lambda>w. ws_bid_id w \<noteq> b) (watched_scripts c)\<rparr>"

definition forgotten :: "bytes \<Rightarrow> Coins \<Rightarrow> Coins \<Rightarrow> node \<Rightarrow> node" where
  "forgotten b cfrom cto n = upd_cc cto (without_scripts b) (upd_cc cfrom (without_scripts b) (upd_cc cto (without_outputs b) (upd_cc cfrom (without_outputs b) n)))"

definition popped :: "bytes \<Rightarrow> node \<Rightarrow> node" where
  "popped b n = n\<lparr>swaps_in_progress := filter (\<lambda>e. fst e \<noteq> b) (swaps_in_progress n)\<rparr>"

definition kept :: "bool \<Rightarrow> bytes \<Rightarrow> Bid \<Rightarrow> node \<Rightarrow> node" where
  "kept own b bid n = (if own then (upd_bid b (\<lambda>_. bid) n)\<lparr>bid_rows := (bid_rows n)(b \<mapsto> saved_row (bid_rows n b) bid)\<rparr> else n)"

text \<open>The row keeps its transactions.\<close>

definition same_txns :: "Bid \<Rightarrow> Bid \<Rightarrow> bool" where
  "same_txns row row' \<longleftrightarrow> initiate_tx row' = initiate_tx row \<and> participate_tx row' = participate_tx row \<and> xmr_a_lock_tx row' = xmr_a_lock_tx row
     \<and> xmr_a_lock_spend_tx row' = xmr_a_lock_spend_tx row \<and> xmr_b_lock_tx row' = xmr_b_lock_tx row \<and> txns row' = txns row"

text \<open>The row of a bid after it was ended in state \<open>st\<close>.\<close>

definition ended_row :: "BidStates \<Rightarrow> Bid \<Rightarrow> Bid \<Rightarrow> bool" where
  "ended_row st row row' \<longleftrightarrow> state row' = Some (BidStates_val st) \<and> in_progress row' = 0 \<and> bid_id row' = bid_id row \<and> bid_offer_id row' = bid_offer_id row
     \<and> same_txns row row'"

text \<open>Rows name themselves, an offer in the table and known coins.\<close>

definition row_known :: "node \<Rightarrow> bytes \<Rightarrow> Bid \<Rightarrow> bool" where
  "row_known n b row \<longleftrightarrow> bid_id row = b
     \<and> (\<exists>offer cfrom cto. offer_rows n (bid_offer_id row) = Some offer \<and> Coins_of (coin_from offer) = Some cfrom \<and> Coins_of (coin_to offer) = Some cto)"

definition rows_known :: "node \<Rightarrow> bool" where
  "rows_known n \<longleftrightarrow> (\<forall>b row. bid_rows n b = Some row \<longrightarrow> row_known n b row)"

text \<open>\<open>k\<close> runs of \<open>checkAcceptedBids\<close> at one time.\<close>

fun timeouts :: "progress_env \<Rightarrow> bytes list \<Rightarrow> nat \<Rightarrow> node \<Rightarrow> node" where
  "timeouts G bid_ids 0 n = n"
| "timeouts G bid_ids (Suc k) n = timeouts G bid_ids k (snd (checkAcceptedBids G bid_ids n))"


text \<open>A bid read without its transactions has no unused addresses to give back.\<close>

definition same_pool :: "node \<Rightarrow> node \<Rightarrow> bool" where
  "same_pool n n' \<longleftrightarrow> pool_returns n' = pool_returns n"

definition swap_known :: "node \<Rightarrow> bytes \<times> Offer \<Rightarrow> bool" where
  "swap_known n e \<longleftrightarrow> bid_id (bids n (fst e)) = fst e \<and> offer_rows n (bid_offer_id (bids n (fst e))) \<noteq> None
     \<and> Coins_of (coin_from (snd e)) \<noteq> None \<and> Coins_of (coin_to (snd e)) \<noteq> None"

definition swap_coins :: "Offer \<Rightarrow> Coins set" where
  "swap_coins offer = {c. Coins_of (coin_from offer) = Some c \<or> Coins_of (coin_to offer) = Some c}"

text \<open>The swaps \<open>left\<close> ended, the others are as they were, and nothing was published.\<close>

definition all_ended :: "(bytes \<times> Offer) list \<Rightarrow> node \<Rightarrow> node \<Rightarrow> bool" where
  "all_ended left n n' \<longleftrightarrow> (\<forall>e\<in>set left. ended (fst e) (swap_coins (snd e)) n') \<and> (\<forall>c. c \<notin> fst ` set left \<longrightarrow> untouched c n n')
     \<and> published n' = published n \<and> sent_messages n' = sent_messages n"


text \<open>An accepted bid that has waited since time 0, in progress and watched, and settings with a grace period of an hour.\<close>

definition idle_progress :: progress_env where
  "idle_progress = \<lparr>g_xenv = idle_xenv, g_locked = False, g_wallet_manager = \<lambda>_. False, g_sc_lock_tx_timeout = 3600, g_sc_lock_tx_mempool_timeout = 7200\<rparr>"

definition waiting_bid :: Bid where
  "waiting_bid = (ads_bid BID_ACCEPTED False)\<lparr>state_time := Some 0\<rparr>"

definition waiting_node :: node where
  "waiting_node = (ads_node waiting_bid)\<lparr>bid_rows := [[7] \<mapsto> waiting_bid], swaps_in_progress := [([7], ads_offer)]\<rparr>"

definition done_node :: node where
  "done_node = (example_node (example_bid BID_ABANDONED None None))\<lparr>offer_rows := \<lambda>_. Some blank_offer\<rparr>"


section \<open>Facts\<close>

lemma untouched_refl: "untouched c n n"
  by (simp add: untouched_def)

interpretation ending: effect_relation "ends_only b" for b
  by unfold_locales (auto simp: ends_only_def intro: untouched_refl untouched_trans)

interpretation books: effect_relation bookkeeping
  by unfold_locales (auto simp: bookkeeping_def)

lemma book_primitives [intro!]: "steps bookkeeping (wallet_call c)" "steps bookkeeping (returnAddressToPool b t)"
  "steps bookkeeping (pmod (\<lambda>n. n\<lparr>identities := f n\<rparr>))"
  by (auto intro!: stepsI simp: wallet_call_def returnAddressToPool_def py_simps bookkeeping_def)

lemma books_pfor [intro!]: "(\<And>x. steps bookkeeping (f x)) \<Longrightarrow> steps bookkeeping (pfor f xs)"
  by (induction xs) auto

lemma books_pwhen [intro!]: "steps bookkeeping m \<Longrightarrow> steps bookkeeping (pwhen c m)"
  by (simp add: pwhen_def)

lemma book_steps [intro!]: "steps bookkeeping (mercy_prevout X ca bid call)" "steps bookkeeping (prefunded_calls X b coin)"
  "steps bookkeeping (unlock_inputs G offer ca cto bid)" "steps bookkeeping (return_addresses bid)" "steps bookkeeping (updateIdentityBidState a bid)"
  "steps bookkeeping (unlock_utxos G b cs)"
  unfolding mercy_prevout_def prefunded_calls_def unlock_inputs_def return_addresses_def updateIdentityBidState_def unlock_utxos_def Let_def
  by (auto split: option.split)

lemma returns_pret [intro!]: "returns (pret x)" "returns (pget f)" "returns (pmod g)"
  by (simp_all add: returns_def py_simps)

lemma returns_pbind [intro!]: "returns m \<Longrightarrow> (\<And>x. returns (f x)) \<Longrightarrow> returns (pbind m f)"
  unfolding returns_def by (metis pbind_eval(1))

lemma returns_pseq [intro!]: "returns m \<Longrightarrow> returns k \<Longrightarrow> returns (pseq m k)"
  unfolding pseq_def by auto

lemma returns_ptry [intro!]: "(\<And>e. returns (h e)) \<Longrightarrow> returns (ptry m h)"
  unfolding returns_def
proof (intro allI)
  fix s
  assume h: "\<And>e. \<forall>s. \<exists>x s'. h e s = (Inr x, s')"
  show "\<exists>x s'. ptry m h s = (Inr x, s')"
    by (cases "m s"; cases "fst (m s)") (use h in \<open>auto simp: ptry_def\<close>)
qed

lemma returns_pfor [intro!]: "(\<And>x. returns (f x)) \<Longrightarrow> returns (pfor f xs)"
  by (induction xs) auto

lemma returns_pwhen [intro!]: "returns m \<Longrightarrow> returns (pwhen c m)"
  by (auto simp: pwhen_def)

lemma returns_books [intro!]: "returns (wallet_call c)" "returns (mercy_prevout X ca bid call)" "returns (prefunded_calls X b coin)"
  "returns (unlock_inputs G offer ca cto bid)" "returns (return_addresses bid)" "returns (unlock_utxos G b cs)"
  unfolding mercy_prevout_def prefunded_calls_def unlock_inputs_def wallet_call_def return_addresses_def returnAddressToPool_def unlock_utxos_def Let_def
  by (auto split: option.split)

lemma book_run:
  assumes "returns m" "steps bookkeeping m"
  obtains x n' where "m n = (Inr x, n')" "bookkeeping n n'"
  using assms unfolding returns_def by (metis stepsD)

lemma identity_run:
  assumes "offer_rows n (bid_offer_id bid) = Some offer"
  obtains n' where "updateIdentityBidState a bid n = (Inr (), n')" "bookkeeping n n'"
proof -
  have "\<exists>n'. updateIdentityBidState a bid n = (Inr (), n')"
    using assms by (simp add: updateIdentityBidState_def py_simps of_option_def)
  then show thesis
    using stepsD [OF book_steps(5)] that by metis
qed

lemma pbind_known [simp]: "pbind (plift (Inr x)) f = f x"
  by (rule ext) (simp add: py_simps)

lemma remove_all:
  "removeWatchedOutput c b None None = pmod (upd_cc c (without_outputs b))"
  "removeWatchedScript c b None None = pmod (upd_cc c (without_scripts b))"
  by (simp_all add: removeWatchedOutput_def removeWatchedScript_def delete_from_end_filter output_matches_def [abs_def] script_matches_def [abs_def] comp_def
        without_outputs_def [abs_def] without_scripts_def [abs_def])

lemma remove_watches:
  "pseq (removeWatchedOutput cfrom b None None) (pseq (removeWatchedOutput cto b None None)
     (pseq (removeWatchedScript cfrom b None None) (pseq (removeWatchedScript cto b None None) k))) n = k (forgotten b cfrom cto n)"
  by (simp add: remove_all py_simps forgotten_def)

lemmas forgotten_simps = forgotten_def upd_cc_def without_outputs_def without_scripts_def

lemma forgotten_ends: "ends_only b n (forgotten b cfrom cto n)"
  by (auto simp: ends_only_def untouched_def forgotten_simps queued_def)

lemma dropped_ends: "steps (ends_only b) (drop_actions d (\<lambda>a. action_linked_id a = b))"
  by (rule stepsI) (auto simp: drop_actions_def py_simps ends_only_def untouched_def queued_def image_iff)

lemma bookkeeping_ends: "bookkeeping n n' \<Longrightarrow> ends_only b n n'"
  by (auto simp: bookkeeping_def ends_only_def untouched_def queued_def)

lemma forgotten_watches: "c \<in> {cfrom, cto} \<Longrightarrow> w \<in> set (watched_outputs (cc (forgotten b cfrom cto n) c)) \<Longrightarrow> wo_bid_id w \<noteq> b"
  "c \<in> {cfrom, cto} \<Longrightarrow> s \<in> set (watched_scripts (cc (forgotten b cfrom cto n) c)) \<Longrightarrow> ws_bid_id s \<noteq> b"
  by (auto simp: forgotten_simps split: if_splits)

lemma kept_run: "pwhen own (pseq (pmod (upd_bid b (\<lambda>_. bid))) (saveBidInSession b bid)) n = (Inr (), kept own b bid n)"
  by (simp add: pwhen_def kept_def saveBidInSession_def upd_bid_def py_simps)

lemma map_of_popped: "map_of (filter (\<lambda>e. fst e \<noteq> b) xs) c = (if c = b then None else map_of xs c)"
  by (induction xs) auto

lemma popped_ends: "ends_only b n (popped b n)" "ends_only b n (kept own b bid n)"
  by (auto simp: ends_only_def untouched_def popped_def kept_def upd_bid_def queued_def map_of_popped)

lemma popped_fields [simp]:
  "bid_rows (popped b n) = bid_rows n" "bid_rows (forgotten b cfrom cto n) = bid_rows n" "swaps_in_progress (forgotten b cfrom cto n) = swaps_in_progress n"
  "bid_rows (kept own c bid (popped b n)) = bid_rows (kept own c bid n)" "map_of (swaps_in_progress (kept own c bid (popped b n))) b = None"
  by (simp_all add: popped_def forgotten_simps kept_def upd_bid_def map_of_popped)

lemma identity_when:
  assumes "offer_rows n (bid_offer_id bid) = Some offer"
  obtains n' where "pwhen c (updateIdentityBidState a bid) n = (Inr (), n')" "bookkeeping n n'"
proof (cases c)
  case True
  then show thesis
    using identity_run [OF assms] that by (metis pwhen_eval(1))
next
  case False
  then show thesis
    using that by (simp add: py_simps books.refl)
qed

lemma drop_run:
  assumes "drop_actions d p n = (Inr (), n')"
  shows "a \<in> set (actions n') \<Longrightarrow> action_active_ind a = 1 \<Longrightarrow> \<not> p (a\<lparr>action_active_ind := i\<rparr>) \<or> \<not> p a"
    and "swaps_in_progress n' = swaps_in_progress n" "coin_clients n' = coin_clients n" "bid_rows n' = bid_rows n"
proof -
  have n': "n' = n\<lparr>actions := if d then map (\<lambda>a. if p a then a\<lparr>action_active_ind := 2\<rparr> else a) (actions n) else filter (\<lambda>a. \<not> p a) (actions n)\<rparr>"
    using assms by (simp add: drop_actions_def py_simps)
  show "\<not> p (a\<lparr>action_active_ind := i\<rparr>) \<or> \<not> p a" if "a \<in> set (actions n')" "action_active_ind a = 1"
    using that by (cases d) (auto simp: n' split: if_splits)
  show "swaps_in_progress n' = swaps_in_progress n" "coin_clients n' = coin_clients n" "bid_rows n' = bid_rows n"
    by (simp_all add: n')
qed

lemma release_bid_run:
  assumes "offer_rows n (bid_offer_id bid) = Some row"
  obtains n' where "release_bid G offer ca cfrom cto bid n = (Inr (), n')" "ends_only (bid_id bid) n n'"
    "swaps_in_progress n' = swaps_in_progress n" "coin_clients n' = coin_clients n" "bid_rows n' = bid_rows n" "\<And>t. \<not> queued t (bid_id bid) n'"
proof -
  let ?b = "bid_id bid"
  obtain u1 n1 where pool: "pwhen (in_states bid [BID_ABANDONED, SWAP_COMPLETED]) (return_addresses bid) n = (Inr u1, n1)" "bookkeeping n n1"
    by (rule book_run [OF returns_pwhen [OF returns_books(5)] books_pwhen [OF book_steps(4)]])
  obtain n2 where dropped: "drop_actions (x_debug (g_xenv G)) (\<lambda>a. action_linked_id a = ?b) n1 = (Inr (), n2)"
    by (simp add: drop_actions_def py_simps)
  obtain u3 n3 where utxos: "unlock_utxos G ?b [cfrom, cto] n2 = (Inr u3, n3)" "bookkeeping n2 n3"
    by (rule book_run [OF returns_books(6) book_steps(6)])
  obtain u4 n4 where unlocked: "unlock_inputs G offer ca cto bid n3 = (Inr u4, n4)" "bookkeeping n3 n4"
    by (rule book_run [OF returns_books(4) book_steps(3)])
  have two: "ends_only ?b n n2"
    by (rule ending.trans [OF bookkeeping_ends [OF pool(2)] stepsD [OF dropped_ends dropped]])
  have "offer_rows n4 (bid_offer_id bid) = Some row"
    using two utxos(2) unlocked(2) assms by (simp add: ends_only_def bookkeeping_def)
  then obtain n' where ident: "pwhen (in_states bid (SWAP_COMPLETED # failed_states))
      (updateIdentityBidState (if (if reverse_offer offer then was_received bid else was_sent bid) then addr_from offer else bid_addr bid) bid) n4 = (Inr (), n')"
      "bookkeeping n4 n'"
    by (rule identity_when)
  have books: "bookkeeping n2 n'"
    by (rule books.trans [OF books.trans [OF utxos(2) unlocked(2)] ident(2)])
  have "\<not> queued t ?b n'" for t
    using books drop_run(1) [OF dropped] by (auto simp: queued_def bookkeeping_def)
  moreover have "release_bid G offer ca cfrom cto bid n = (Inr (), n')"
    using pool(1) dropped utxos(1) unlocked(1) ident(1) by (simp add: release_bid_def py_simps)
  moreover have "swaps_in_progress n' = swaps_in_progress n" "coin_clients n' = coin_clients n" "bid_rows n' = bid_rows n"
    using books pool(2) drop_run(2-4) [OF dropped] by (simp_all add: bookkeeping_def)
  ultimately show thesis
    using ending.trans [OF two bookkeeping_ends [OF books]] that by blast
qed

lemma deactivateBid_run:
  assumes coins: "Coins_of (coin_from offer) = Some cfrom" "Coins_of (coin_to offer) = Some cto"
    and row: "offer_rows n (bid_offer_id bid) = Some row"
  obtains n' where "deactivateBid G own offer bid n = (Inr (bid\<lparr>in_progress := 0\<rparr>), n')" "ended (bid_id bid) {cfrom, cto} n'"
    "ends_only (bid_id bid) n n'" "bid_rows n' = bid_rows (kept own (bid_id bid) (bid\<lparr>in_progress := 0\<rparr>) n)"
proof -
  define b where "b = bid_id bid"
  define bid' where "bid' = bid\<lparr>in_progress := 0\<rparr>"
  have id: "bid_id bid' = b"
    by (simp add: b_def bid'_def)
  define n1 where "n1 = kept own b bid' (popped b n)"
  obtain ca where ca: "coin_a offer = Inr ca"
    using coins by (cases "reverse_offer offer") (auto simp: coin_a_def of_option_def)
  obtain u n2 where mercy: "mercy_prevout (g_xenv G) ca bid' UnlockOutput n1 = (Inr u, n2)" "bookkeeping n1 n2"
    by (rule book_run [OF returns_books(2) book_steps(1)])
  define n3 where "n3 = forgotten b cfrom cto n2"
  have upto: "ends_only b n n3"
    unfolding n3_def
    by (rule ending.trans [OF ending.trans [OF ending.trans [OF popped_ends(1) popped_ends(2)] bookkeeping_ends [OF mercy(2) [unfolded n1_def]]] forgotten_ends])
  then have "offer_rows n3 (bid_offer_id bid') = Some row"
    using row by (simp add: ends_only_def bid'_def)
  then obtain n' where released: "release_bid G offer ca cfrom cto bid' n3 = (Inr (), n')" "ends_only b n3 n'"
      "swaps_in_progress n' = swaps_in_progress n3" "coin_clients n' = coin_clients n3" "bid_rows n' = bid_rows n3" "\<And>t. \<not> queued t b n'"
    using release_bid_run [where bid = bid', unfolded id] by metis
  have "deactivateBid G own offer bid n = (Inr bid', n')"
    using mercy(1) released(1) coins
    by (simp add: deactivateBid_def Let_def ca of_option_def remove_watches popped_def [symmetric] kept_run py_simps flip: b_def bid'_def n1_def n3_def)
  moreover have "ended b {cfrom, cto} n'"
    using released(3,4,6) mercy(2) forgotten_watches [of _ cfrom cto _ b n2] by (auto simp: ended_def bookkeeping_def n3_def n1_def)
  moreover have "bid_rows n' = bid_rows (kept own b bid' n)"
    using released(5) mercy(2) by (simp add: bookkeeping_def n3_def n1_def)
  ultimately show thesis
    using that ending.trans [OF upto released(2)] unfolding b_def bid'_def by blast
qed

lemma with_state_row:
  assumes "0 \<le> time" "time < 2 ^ 64"
  obtains bid' where "with_state time s bid n = (Inr bid', n)" "state bid' = Some (BidStates_val s)" "bid_id bid' = bid_id bid"
    "bid_offer_id bid' = bid_offer_id bid" "initiate_tx bid' = initiate_tx bid" "participate_tx bid' = participate_tx bid" "xmr_a_lock_tx bid' = xmr_a_lock_tx bid"
    "xmr_a_lock_spend_tx bid' = xmr_a_lock_spend_tx bid" "xmr_b_lock_tx bid' = xmr_b_lock_tx bid" "txns bid' = txns bid"
proof -
  obtain p where "pack_state (BidStates_val s) time = Inr p"
    using assms by (cases s) (auto simp: pack_state_ok)
  then show thesis
    using that by (auto simp: with_state_def setState_def Let_def py_simps)
qed

lemma deactivated:
  assumes row: "bid_rows n b = Some row" "bid_id row = b" "offer_rows n (bid_offer_id row) = Some offer"
    and coins: "Coins_of (coin_from offer) = Some cfrom" "Coins_of (coin_to offer) = Some cto"
    and time: "0 \<le> now (x_env (g_xenv G))" "now (x_env (g_xenv G)) < 2 ^ 64"
  obtains n' row' where "deactivateBidForReason G b st n = (Inr (), n')" "ended b {cfrom, cto} n'" "ends_only b n n'"
    "bid_rows n' b = Some row'" "ended_row st row row'"
proof -
  obtain bid where bid: "with_state (now (x_env (g_xenv G))) st (without_txns row) n = (Inr bid, n)" "state bid = Some (BidStates_val st)" "bid_id bid = b"
      "bid_offer_id bid = bid_offer_id row" "initiate_tx bid = None" "participate_tx bid = None" "xmr_a_lock_tx bid = None" "xmr_a_lock_spend_tx bid = None"
      "xmr_b_lock_tx bid = None" "txns bid = (\<lambda>_. None)"
    by (rule with_state_row [OF time, of st "without_txns row" n]) (use row(2) in \<open>auto simp: without_txns_def\<close>)
  define bid' where "bid' = bid\<lparr>in_progress := 0\<rparr>"
  have offer: "offer_rows n (bid_offer_id bid) = Some offer"
    using row(3) bid(4) by simp
  obtain m where m: "deactivateBid G False offer bid n = (Inr bid', m)" "ended b {cfrom, cto} m" "ends_only b n m" "bid_rows m = bid_rows n"
    by (rule deactivateBid_run [OF coins offer, of G False]) (use bid(3) in \<open>auto simp: kept_def bid'_def\<close>)
  define n' where "n' = m\<lparr>bid_rows := (bid_rows m)(b \<mapsto> saved_row (Some row) bid')\<rparr>"
  have "deactivateBidForReason G b st n = (Inr (), n')"
    using row bid(1) m(1,4) by (simp add: deactivateBidForReason_def of_option_def py_simps saveBidInSession_def n'_def)
  moreover have "ended b {cfrom, cto} n'" "ends_only b n n'"
    using m(2,3) by (simp_all add: n'_def ended_def ends_only_def untouched_def queued_def)
  moreover have "bid_rows n' b = Some (saved_row (Some row) bid')"
    by (simp add: n'_def)
  moreover have "ended_row st row (saved_row (Some row) bid')"
    using bid row(2) by (simp add: ended_row_def same_txns_def saved_row_def bid'_def or_else_def)
  ultimately show thesis
    by (rule that)
qed

interpretation pool: effect_relation same_pool
  by unfold_locales (auto simp: same_pool_def)

lemma pool_primitives [intro!]: "steps same_pool (wallet_call c)" "steps same_pool (pmod (\<lambda>n. n\<lparr>identities := f n\<rparr>))"
  "steps same_pool (pmod (\<lambda>n. n\<lparr>swaps_in_progress := g n\<rparr>))" "steps same_pool (pmod (upd_cc cn h))" "steps same_pool (saveBidInSession b bid)"
  "steps same_pool (drop_actions d p)"
  by (auto intro!: stepsI simp: wallet_call_def py_simps same_pool_def upd_cc_def saveBidInSession_def drop_actions_def)

lemma pool_pfor [intro!]: "(\<And>x. steps same_pool (f x)) \<Longrightarrow> steps same_pool (pfor f xs)"
  by (induction xs) auto

lemma pool_steps [intro!]: "steps same_pool (mercy_prevout X ca bid call)" "steps same_pool (unlock_inputs G offer ca cto bid)"
  "steps same_pool (updateIdentityBidState a bid)" "steps same_pool (unlock_utxos G b cs)"
  "steps same_pool (removeWatchedOutput c b None None)" "steps same_pool (removeWatchedScript c b None None)"
  unfolding mercy_prevout_def prefunded_calls_def unlock_inputs_def updateIdentityBidState_def unlock_utxos_def remove_all pwhen_def
  by (auto split: option.split)

lemma no_addresses: "initiate_tx bid = None \<Longrightarrow> participate_tx bid = None \<Longrightarrow> return_addresses bid n = (Inr (), n)"
  by (simp add: return_addresses_def getITxState_def getPTxState_def py_simps)

lemma pool_return [intro!]: "initiate_tx bid = None \<Longrightarrow> participate_tx bid = None \<Longrightarrow> steps same_pool (return_addresses bid)"
  by (rule stepsI) (simp add: no_addresses same_pool_def)

lemma pool_with_state:
  assumes "\<And>bid'. initiate_tx bid' = initiate_tx bid \<Longrightarrow> participate_tx bid' = participate_tx bid \<Longrightarrow> steps same_pool (f bid')"
  shows "steps same_pool (pbind (with_state time s bid) f)"
proof (rule pool.steps_pbind_run)
  show "steps same_pool (with_state time s bid)"
    by (rule stepsI) (auto simp: with_state_def py_simps same_pool_def split: sum.splits prod.splits)
  show "steps same_pool (f bid')" if "with_state time s bid n = (Inr bid', n')" for n bid' n'
    by (rule assms) (use that in \<open>auto simp: with_state_def setState_def Let_def py_simps split: sum.splits\<close>)
qed

lemma pool_reason: "steps same_pool (deactivateBidForReason G b st)"
  unfolding deactivateBidForReason_def deactivateBid_def release_bid_def Let_def pwhen_def
  by (auto simp: without_txns_def intro!: pool_with_state)


lemma has_event_filter: "has_event b t n \<longleftrightarrow> list_ex (\<lambda>(i, e, _). e = t) (filter (\<lambda>e. fst e = b) (events n))"
  by (auto simp: has_event_def list_ex_iff)

lemma overdue_untouched: "untouched c n n' \<Longrightarrow> lock_overdue G n' c = lock_overdue G n c"
proof -
  assume u: "untouched c n n'"
  then have "has_event c t n' = has_event c t n" for t
    by (simp add: has_event_filter untouched_def)
  then show ?thesis
    using u by (cases "bid_rows n c") (simp_all add: lock_overdue_def untouched_def)
qed

lemma timed_out_not_overdue: "bid_rows n b = Some row \<Longrightarrow> ended_row SWAP_TIMEDOUT r row \<Longrightarrow> \<not> lock_overdue G n b"
  by (simp add: lock_overdue_def ended_row_def canTimeoutBidState_def del: BidStates_val.simps)

lemma rows_known_kept:
  assumes "rows_known n" "ends_only b n n'" "bid_rows n b = Some row" "bid_rows n' b = Some row'" "ended_row st row row'"
  shows "rows_known n'"
  unfolding rows_known_def row_known_def
proof (intro allI impI)
  fix c r
  assume r: "bid_rows n' c = Some r"
  obtain r0 where "bid_rows n c = Some r0" "bid_id r = bid_id r0" "bid_offer_id r = bid_offer_id r0"
    using assms(2-5) r by (cases "c = b") (auto simp: ends_only_def untouched_def ended_row_def)
  then show "bid_id r = c \<and> (\<exists>offer cfrom cto. offer_rows n' (bid_offer_id r) = Some offer \<and> Coins_of (coin_from offer) = Some cfrom \<and> Coins_of (coin_to offer) = Some cto)"
    using assms(1,2) by (simp add: rows_known_def row_known_def ends_only_def)
qed

lemma one_timeout:
  assumes known: "rows_known n" and ids: "distinct bid_ids" and unlocked: "\<not> g_locked G"
    and time: "0 \<le> now (x_env (g_xenv G))" "now (x_env (g_xenv G)) < 2 ^ 64"
    and over: "filter (lock_overdue G n) bid_ids = b # rest"
  obtains n' where "checkAcceptedBids G bid_ids n = (Inr (), n')" "filter (lock_overdue G n') bid_ids = rest" "ends_only b n n'"
    "map_option state (bid_rows n' b) = Some (Some (BidStates_val SWAP_TIMEDOUT))" "rows_known n'"
proof -
  have "lock_overdue G n b"
    using over by (metis filter_eq_ConsD)
  then obtain row where row: "bid_rows n b = Some row"
    by (auto simp: lock_overdue_def split: option.splits)
  then obtain offer cfrom cto where offer: "bid_id row = b" "offer_rows n (bid_offer_id row) = Some offer"
      "Coins_of (coin_from offer) = Some cfrom" "Coins_of (coin_to offer) = Some cto"
    using known unfolding rows_known_def row_known_def by blast
  obtain n' row' where n': "deactivateBidForReason G b SWAP_TIMEDOUT n = (Inr (), n')" "ends_only b n n'" "bid_rows n' b = Some row'" "ended_row SWAP_TIMEDOUT row row'"
    by (rule deactivated [OF row offer time, of SWAP_TIMEDOUT])
  have "lock_overdue G n' c \<longleftrightarrow> c \<noteq> b \<and> lock_overdue G n c" for c
    using n'(2) overdue_untouched timed_out_not_overdue [OF n'(3,4)] by (cases "c = b") (auto simp: ends_only_def)
  then have "filter (lock_overdue G n') bid_ids = filter (\<lambda>c. c \<noteq> b) (filter (lock_overdue G n) bid_ids)"
    by (simp add: conj_commute cong: filter_cong)
  also have "\<dots> = rest"
    using over distinct_filter [OF ids, of "lock_overdue G n"] by (auto intro: filter_True)
  finally have "filter (lock_overdue G n') bid_ids = rest" .
  moreover have "checkAcceptedBids G bid_ids n = (Inr (), n')"
    using unlocked over n'(1) by (simp add: checkAcceptedBids_def timeoutBid_def py_simps)
  ultimately show thesis
    using that n' rows_known_kept [OF known n'(2) row n'(3,4)] by (auto simp: ended_row_def)
qed

text \<open>Bids that wait too long for the lock transaction time out, one in a run. Let the wallets be unlocked, the rows name offers with known coins and the clock be
  one that can be packed. Then each run of \<open>checkAcceptedBids\<close> returns and times out the first overdue bid of the table, if there is one: its row is in
  \<open>SWAP_TIMEDOUT\<close>, and no other bid is touched. Those overdue after \<open>k\<close> runs are exactly the others, without the first \<open>k\<close>.\<close>

theorem overdue_bids_time_out:
  assumes known: "rows_known n" and ids: "distinct bid_ids" and unlocked: "\<not> g_locked G"
    and time: "0 \<le> now (x_env (g_xenv G))" "now (x_env (g_xenv G)) < 2 ^ 64"
  shows "(\<exists>n'. checkAcceptedBids G bid_ids n = (Inr (), n')
          \<and> (case filter (lock_overdue G n) bid_ids of
               [] \<Rightarrow> n' = n
             | b # _ \<Rightarrow> map_option state (bid_rows n' b) = Some (Some (BidStates_val SWAP_TIMEDOUT)) \<and> ends_only b n n'))
     \<and> filter (lock_overdue G (timeouts G bid_ids k n)) bid_ids = drop k (filter (lock_overdue G n) bid_ids)"
proof
  have "filter (lock_overdue G n) bid_ids = [] \<Longrightarrow> checkAcceptedBids G bid_ids n = (Inr (), n)"
    using unlocked by (simp add: checkAcceptedBids_def py_simps)
  then show "\<exists>n'. checkAcceptedBids G bid_ids n = (Inr (), n')
          \<and> (case filter (lock_overdue G n) bid_ids of
               [] \<Rightarrow> n' = n
             | b # _ \<Rightarrow> map_option state (bid_rows n' b) = Some (Some (BidStates_val SWAP_TIMEDOUT)) \<and> ends_only b n n')"
    using one_timeout [OF known ids unlocked time] by (cases "filter (lock_overdue G n) bid_ids") (fastforce split: list.split)+
next
  show "filter (lock_overdue G (timeouts G bid_ids k n)) bid_ids = drop k (filter (lock_overdue G n) bid_ids)"
    using known
  proof (induction k arbitrary: n)
    case (Suc k)
    show ?case
    proof (cases "filter (lock_overdue G n) bid_ids")
      case Nil
      then have "checkAcceptedBids G bid_ids n = (Inr (), n)"
        using unlocked by (simp add: checkAcceptedBids_def py_simps)
      then show ?thesis
        using Suc.IH [OF Suc.prems] Nil by simp
    next
      case (Cons b rest)
      show ?thesis
        by (rule one_timeout [OF Suc.prems ids unlocked time Cons]) (simp add: Suc.IH Cons)
    qed
  qed simp
qed

lemma ended_untouched: "untouched b n n' \<Longrightarrow> ended b cs n \<Longrightarrow> ended b cs n'"
  unfolding ended_def untouched_def by metis

lemma swap_known_kept: "ends_only b n n' \<Longrightarrow> fst e \<noteq> b \<Longrightarrow> swap_known n e \<Longrightarrow> swap_known n' e"
  by (simp add: swap_known_def ends_only_def untouched_def)

lemma leave_all:
  assumes "\<forall>e\<in>set left. swap_known n e" "distinct (map fst left)"
  shows "\<exists>n'. pfor (leave_progress G) left n = (Inr (), n') \<and> all_ended left n n'"
  using assms
proof (induction left arbitrary: n)
  case Nil
  then show ?case
    by (simp add: py_simps all_ended_def untouched_refl)
next
  case (Cons e left)
  obtain b offer where e: "e = (b, offer)"
    by fastforce
  have known: "swap_known n (b, offer)"
    using Cons.prems(1) e by simp
  then obtain row cfrom cto where row: "bid_id (bids n b) = b" "offer_rows n (bid_offer_id (bids n b)) = Some row"
    and coins: "Coins_of (coin_from offer) = Some cfrom" "Coins_of (coin_to offer) = Some cto"
    by (auto simp: swap_known_def)
  obtain m where m: "deactivateBid G True offer (bids n b) n = (Inr ((bids n b)\<lparr>in_progress := 0\<rparr>), m)" "ended b {cfrom, cto} m" "ends_only b n m"
    by (rule deactivateBid_run [OF coins row(2), of G True]) (use row(1) in simp)
  have "\<forall>x\<in>set left. swap_known m x"
  proof
    fix x
    assume "x \<in> set left"
    then have "swap_known n x" "fst x \<noteq> b"
      using Cons.prems e by auto
    then show "swap_known m x"
      using swap_known_kept [OF m(3)] by blast
  qed
  then obtain n' where n': "pfor (leave_progress G) left m = (Inr (), n')"
      "all_ended left m n'"
    using Cons.IH [of m] Cons.prems(2) by auto
  have "swap_coins offer = {cfrom, cto}"
    using coins by (auto simp: swap_coins_def)
  then have "ended b (swap_coins offer) n'"
    using n'(2) m(2) Cons.prems(2) e ended_untouched [of b m n'] by (simp add: all_ended_def)
  moreover have "untouched c n n'" if "c \<notin> fst ` set (e # left)" for c
    using that e n'(2) m(3) untouched_trans [of c n m n'] by (simp add: all_ended_def ends_only_def)
  ultimately have "all_ended (e # left) n n'"
    using n'(2) m(3) e by (simp add: all_ended_def ends_only_def)
  moreover have "leave_progress G e n = (Inr (), m)"
    using m(1) e by (simp add: leave_progress_def py_simps)
  ultimately show ?case
    using n'(1) by (simp add: py_simps)
qed

lemma set_error_returns:
  assumes "0 \<le> time" "time < 2 ^ 64"
  shows "\<exists>n'. setBidError b time msg n = (Inr (), n')"
proof -
  obtain p where "pack_state (BidStates_val BID_ERROR) time = Inr p"
    using assms by (auto simp: pack_state_ok)
  then show ?thesis
    by (simp add: setBidError_def set_bid_state_def bid_call_def setState_def Let_def logEvent_def saveBid_def saveBidInSession_def py_simps)
qed

lemma check_swap_returns:
  assumes "0 \<le> now (x_env (g_xenv G))" "now (x_env (g_xenv G)) < 2 ^ 64"
  shows "\<exists>v n'. check_swap G b offer n = (Inr v, n')"
proof -
  let ?h = "\<lambda>e. pseq (if x_transient (g_xenv G) e then logEvent b EV_SYSTEM_WARNING ''No connection to daemon''
                else setBidError b (now (x_env (g_xenv G))) '''') (pret False)"
  have h: "\<exists>v m. ?h e s = (Inr v, m)" for e s
    using set_error_returns [OF assms, of b "''''" s] by (auto simp: logEvent_def py_simps)
  obtain r m where "checkBidState (checkXmrBidState (g_xenv G) b offer) (x_env (g_xenv G)) b offer n = (r, m)"
    by fastforce
  then show ?thesis
    using h by (cases r) (auto simp: check_swap_def Let_def ptry_def)
qed

lemma check_swaps_returns:
  assumes "0 \<le> now (x_env (g_xenv G))" "now (x_env (g_xenv G)) < 2 ^ 64"
  shows "\<exists>left m. check_swaps G swaps n = (Inr left, m) \<and> set left \<subseteq> set swaps \<and> (distinct (map fst swaps) \<longrightarrow> distinct (map fst left))"
proof (induction swaps arbitrary: n)
  case (Cons e swaps)
  obtain b offer where e: "e = (b, offer)"
    by fastforce
  obtain v m where v: "check_swap G b offer n = (Inr v, m)"
    using check_swap_returns [OF assms] by blast
  obtain left k where "check_swaps G swaps m = (Inr left, k)" "set left \<subseteq> set swaps" "distinct (map fst swaps) \<longrightarrow> distinct (map fst left)"
    using Cons.IH by blast
  then show ?case
    using v e by (auto simp: py_simps)
qed (simp add: py_simps)


lemma waiting_facts:
  "bid_rows waiting_node [7] = Some waiting_bid" "bid_id waiting_bid = [7]" "offer_rows waiting_node (bid_offer_id waiting_bid) = Some ads_offer"
  "Coins_of (coin_from ads_offer) = Some BTC" "Coins_of (coin_to ads_offer) = Some XMR" "now (x_env (g_xenv idle_progress)) = 1700000000" "\<not> g_locked idle_progress"
  by (simp_all add: waiting_node_def waiting_bid_def ads_node_def ads_bid_def blank_bid_def idle_progress_def idle_xenv_def idle_env_def) code_simp+


theorem overdue_bids_time_out_witness:
  "\<exists>n'. checkAcceptedBids idle_progress [[7], [8]] waiting_node = (Inr (), n') \<and> map_option state (bid_rows n' [7]) = Some (Some (BidStates_val SWAP_TIMEDOUT))
     \<and> filter (lock_overdue idle_progress (timeouts idle_progress [[7], [8]] 1 waiting_node)) [[7], [8]] = []"
proof -
  have "rows_known waiting_node"
    using waiting_facts(2-5) by (auto simp: rows_known_def row_known_def waiting_node_def ads_node_def split: if_splits)
  moreover have "filter (lock_overdue idle_progress waiting_node) [[7], [8]] = [[7]]"
    by code_simp
  ultimately show ?thesis
    using overdue_bids_time_out [of waiting_node "[[7], [8]]" idle_progress 1] waiting_facts(6,7) by (simp del: BidStates_val.simps) blast
qed

lemma done_checked: "check_swaps idle_progress (swaps_in_progress done_node) done_node = (Inr [([7], blank_offer)], done_node)"
proof -
  have "swaps_in_progress done_node = [([7], blank_offer)]" "state (bids done_node [7]) = Some (BidStates_val BID_ABANDONED)"
    "swap_type blank_offer \<noteq> SwapTypes_val XMR_SWAP" "Coins_of (coin_from blank_offer) = Some BTC" "Coins_of (coin_to blank_offer) = Some LTC"
    by (simp_all add: done_node_def example_node_def example_bid_def blank_offer_def) code_simp+
  then show ?thesis
    by (simp add: check_swap_def checkBidState_def Let_def py_simps of_option_def del: BidStates_val.simps)
qed


end
