(* ===== verification/Offer_Tracking.thy ===== *)
theory Offer_Tracking
  imports Swap_Progress
begin

text \<open>
  Offers with a budget: \<open>src/basicswap/offer_tracking.py\<close> and its uses in \<open>src/basicswap/basicswap.py\<close> (\<open>completeOfferTrackingForBid\<close>, \<open>validateOfferWalletFloor\<close>,
  \<open>checkStandingOfferWalletFloors\<close>, \<open>reconcileOfferTracking\<close>, \<open>revokeOffer\<close>). The table of tracked offers stands beside the node in \<open>market\<close>; queries run over the
  keys of the tables, and a sum of a query is a sum over the rows it selects. The main result is that sales and promises of an offer stay within its budget however its bids
  interleave.
\<close>

section \<open>Definitions\<close>

subsection \<open>Modes\<close>

datatype OfferTrackingModes = LEGACY | ONE_TIME | FIXED_TOTAL | STANDING

fun OfferTrackingModes_val :: "OfferTrackingModes \<Rightarrow> int" where
  "OfferTrackingModes_val LEGACY = 0"
| "OfferTrackingModes_val ONE_TIME = 1"
| "OfferTrackingModes_val FIXED_TOTAL = 2"
| "OfferTrackingModes_val STANDING = 3"

definition OfferTrackingModes_of :: "int \<Rightarrow> OfferTrackingModes res" where
  "OfferTrackingModes_of v = of_option (ValueError ''OfferTrackingModes'')
     (find (\<lambda>m. OfferTrackingModes_val m = v) [LEGACY, ONE_TIME, FIXED_TOTAL, STANDING])"

definition strOfferTrackingMode :: "int \<Rightarrow> string" where
  "strOfferTrackingMode v =
     (case OfferTrackingModes_of v of
        Inl _ \<Rightarrow> ''Unknown''
      | Inr LEGACY \<Rightarrow> ''Legacy''
      | Inr ONE_TIME \<Rightarrow> ''One-time''
      | Inr FIXED_TOTAL \<Rightarrow> ''Fixed total''
      | Inr STANDING \<Rightarrow> ''Standing'')"

text \<open>\<open>str(s).strip().lower().replace("-", "_").replace(" ", "_")\<close> for texts of ASCII characters.\<close>

definition py_strip :: "string \<Rightarrow> string" where
  "py_strip s = (let sp = (\<lambda>c. c \<in> set [CHR '' '', CHR 0x09, CHR 0x0A, CHR 0x0B, CHR 0x0C, CHR 0x0D, CHR 0x1C, CHR 0x1D, CHR 0x1E, CHR 0x1F])
     in rev (dropWhile sp (rev (dropWhile sp s))))"

definition mode_key :: "string \<Rightarrow> string" where
  "mode_key s = map (\<lambda>c. if c = CHR ''-'' \<or> c = CHR '' '' then CHR ''_'' else c) (lower (py_strip s))"

definition mode_names :: "(string \<times> OfferTrackingModes) list" where
  "mode_names =
     [(''legacy'', LEGACY), (''none'', LEGACY), (''one_time'', ONE_TIME), (''onetime'', ONE_TIME), (''fixed_total'', FIXED_TOTAL),
      (''fixedtotal'', FIXED_TOTAL), (''standing'', STANDING)]"

datatype mode_text = NoMode | ModeInt int | ModeStr string

definition offerTrackingModeFromString :: "mode_text \<Rightarrow> OfferTrackingModes res" where
  "offerTrackingModeFromString s =
     (case s of
        NoMode \<Rightarrow> Inr LEGACY
      | ModeInt v \<Rightarrow> OfferTrackingModes_of v
      | ModeStr t \<Rightarrow> of_option (ValueError ''Unknown offer tracking mode'') (map_of mode_names (mode_key t)))"

definition offerTrackingModeToString :: "int \<Rightarrow> string" where
  "offerTrackingModeToString v =
     (case OfferTrackingModes_of v of
        Inl _ \<Rightarrow> ''legacy''
      | Inr LEGACY \<Rightarrow> ''legacy''
      | Inr ONE_TIME \<Rightarrow> ''one_time''
      | Inr FIXED_TOTAL \<Rightarrow> ''fixed_total''
      | Inr STANDING \<Rightarrow> ''standing'')"

subsection \<open>The budget of an offer\<close>

record OfferTracking =
  ot_active_ind :: int
  ot_mode :: int
  per_swap_amount :: "int option"
  total_budget :: "int option"
  filled_amount :: "int option"
  reserved_amount :: "int option"
  max_fills :: "int option"
  fills_completed :: "int option"
  min_wallet_reserve :: "int option"
  ot_created_at :: int
  ot_updated_at :: int

definition offer_tracking_remaining :: "OfferTracking option \<Rightarrow> int \<Rightarrow> int option" where
  "offer_tracking_remaining row in_flight =
     (case row of
        None \<Rightarrow> None
      | Some row \<Rightarrow>
          if ot_mode row = OfferTrackingModes_val STANDING then None
          else let budget = zeroIfNone (total_budget row) in
               if budget \<le> 0 then None
               else let used = zeroIfNone (filled_amount row) + in_flight; remaining = budget - used
                    in Some (if remaining > 0 then remaining else 0))"

definition offer_tracking_is_exhausted :: "OfferTracking option \<Rightarrow> int \<Rightarrow> bool" where
  "offer_tracking_is_exhausted row in_flight =
     (case row of
        None \<Rightarrow> False
      | Some r \<Rightarrow>
          if ot_mode r = OfferTrackingModes_val STANDING then False
          else let limit = zeroIfNone (max_fills r) in
               if limit > 0 \<and> zeroIfNone (fills_completed r) \<ge> limit then True
               else (case offer_tracking_remaining row in_flight of None \<Rightarrow> False | Some remaining \<Rightarrow> remaining \<le> 0))"

definition init_offer_tracking :: "int \<Rightarrow> int \<Rightarrow> int \<Rightarrow> int \<Rightarrow> int \<Rightarrow> int \<Rightarrow> OfferTracking option res" where
  "init_offer_tracking mode per_swap budget fills reserve time =
     rbind (OfferTrackingModes_of mode) (\<lambda>m.
     if m = LEGACY then Inr None
     else
       rbind (case m of
                ONE_TIME \<Rightarrow> Inr (per_swap, 1)
              | FIXED_TOTAL \<Rightarrow> if budget < per_swap then Inl (ValueError ''total_budget must be >= per_swap_amount'') else Inr (budget, 0)
              | STANDING \<Rightarrow> Inr (0, 0)
              | LEGACY \<Rightarrow> Inr (budget, fills)) (\<lambda>(budget, fills).
       Inr (Some \<lparr>ot_active_ind = 1, ot_mode = OfferTrackingModes_val m, per_swap_amount = Some per_swap, total_budget = Some budget,
         filled_amount = Some 0, reserved_amount = Some 0, max_fills = Some fills, fills_completed = Some 0, min_wallet_reserve = Some reserve,
         ot_created_at = time, ot_updated_at = time\<rparr>)))"

text \<open>The bids of an offer that are in flight: active rows whose state is in progress or for which an acceptance is queued. \<open>bid_ids\<close> are the keys of the table;
  the union of the two queries has each bid once.\<close>

definition accept_actions :: "ActionTypes list" where
  "accept_actions = [ACCEPT_BID, ACCEPT_XMR_BID, ACCEPT_AS_REV_BID]"

definition accept_queued :: "node \<Rightarrow> bytes \<Rightarrow> bool" where
  "accept_queued n b \<longleftrightarrow> list_ex (\<lambda>a. action_linked_id a = b \<and> action_active_ind a = 1 \<and> action_type a \<in> ActionTypes_val ` set accept_actions) (actions n)"

definition active_row :: "Bid \<Rightarrow> bool" where
  "active_row row \<longleftrightarrow> (case Option.bind (state row) BidStates_of of None \<Rightarrow> False | Some st \<Rightarrow> isActiveBidState st)"

definition in_flight :: "node \<Rightarrow> bytes \<Rightarrow> bytes \<Rightarrow> bool" where
  "in_flight n offer b \<longleftrightarrow>
     (case bid_rows n b of
        None \<Rightarrow> False
      | Some row \<Rightarrow> active_ind row = 1 \<and> bid_offer_id row = offer \<and> (active_row row \<or> accept_queued n b))"

definition row_amount :: "bool \<Rightarrow> node \<Rightarrow> bytes \<Rightarrow> int" where
  "row_amount reverse n b = (case bid_rows n b of None \<Rightarrow> 0 | Some row \<Rightarrow> if reverse then amount_to row else amount row)"

definition offer_in_flight_amount :: "bytes list \<Rightarrow> node \<Rightarrow> bytes \<Rightarrow> bytes option \<Rightarrow> bool \<Rightarrow> int" where
  "offer_in_flight_amount bid_ids n offer exclude reverse =
     sum_list (map (row_amount reverse n) (filter (\<lambda>b. in_flight n offer b \<and> Some b \<noteq> exclude) bid_ids))"

definition getOfferInFlightAmount :: "bytes list \<Rightarrow> node \<Rightarrow> Offer \<Rightarrow> bytes option \<Rightarrow> int" where
  "getOfferInFlightAmount bid_ids n offer exclude = offer_in_flight_amount bid_ids n (offer_id offer) exclude (reverse_offer offer)"

definition negotiating_states :: "BidStates list" where
  "negotiating_states = [BID_ACCEPTED, SWAP_DELAYING, BID_REQUEST_ACCEPTED]"

definition offer_has_negotiating_bid :: "bytes list \<Rightarrow> node \<Rightarrow> bytes \<Rightarrow> bool" where
  "offer_has_negotiating_bid bid_ids n offer \<longleftrightarrow>
     list_ex (\<lambda>b. case bid_rows n b of
        None \<Rightarrow> False
      | Some row \<Rightarrow> active_ind row = 1 \<and> bid_offer_id row = offer \<and> (in_states row negotiating_states \<or> accept_queued n b)) bid_ids"

definition validate_offer_budget :: "OfferTracking option \<Rightarrow> int \<Rightarrow> int \<Rightarrow> unit res" where
  "validate_offer_budget row bid_amount flight =
     (if row = None then Inr ()
      else if offer_tracking_is_exhausted row flight then Inl (ValueError ''Offer budget exhausted'')
      else case offer_tracking_remaining row flight of
             None \<Rightarrow> Inr ()
           | Some remaining \<Rightarrow> if bid_amount > remaining then Inl (ValueError ''Bid amount exceeds remaining offer budget'') else Inr ())"

definition offer_budget_allows :: "OfferTracking option \<Rightarrow> int \<Rightarrow> int \<Rightarrow> bool" where
  "offer_budget_allows row bid_amount flight =
     (if row = None then True
      else if offer_tracking_is_exhausted row flight then False
      else case offer_tracking_remaining row flight of None \<Rightarrow> True | Some remaining \<Rightarrow> \<not> bid_amount > remaining)"

text \<open>The node with the tables of offers that are tracked and of their tokens, and what the wallets answer.\<close>

record market =
  market_node :: node
  offer_tracking :: "bytes \<Rightarrow> OfferTracking option"

record market_env =
  m_xenv :: xenv
  m_bid_ids :: "bytes list"
  m_offer_ids :: "bytes list"
  m_token :: "bytes \<Rightarrow> bytes option"
  m_balance :: "Coins \<Rightarrow> int res"
  m_sign :: "string \<Rightarrow> bytes \<Rightarrow> bytes res"
  m_network_addr :: string

definition on_node :: "(node, 'a) py \<Rightarrow> (market, 'a) py" where
  "on_node f m = (case f (market_node m) of (r, n) \<Rightarrow> (r, m\<lparr>market_node := n\<rparr>))"

definition complete_offer_fill :: "int \<Rightarrow> bytes \<Rightarrow> int \<Rightarrow> (market, bool) py" where
  "complete_offer_fill time offer filled =
     pbind (pget (\<lambda>m. offer_tracking m offer)) (\<lambda>row.
     case row of
       None \<Rightarrow> pret False
     | Some row \<Rightarrow>
         let row = row\<lparr>filled_amount := Some (zeroIfNone (filled_amount row) + filled), fills_completed := Some (zeroIfNone (fills_completed row) + 1),
                      ot_updated_at := time\<rparr>
         in pseq (pmod (\<lambda>m. m\<lparr>offer_tracking := (offer_tracking m)(offer \<mapsto> row)\<rparr>))
                 (pret (offer_tracking_is_exhausted (Some row) 0)))"

definition validateOfferWalletFloor :: "market_env \<Rightarrow> market \<Rightarrow> Offer \<Rightarrow> int \<Rightarrow> bytes option \<Rightarrow> unit res" where
  "validateOfferWalletFloor M m offer bid_amount exclude =
     (if \<not> offer_was_sent offer then Inr ()
      else case offer_tracking m (offer_id offer) of
        None \<Rightarrow> Inr ()
      | Some row \<Rightarrow>
          if ot_mode row \<noteq> OfferTrackingModes_val STANDING then Inr ()
          else let floor = zeroIfNone (min_wallet_reserve row) in
               if floor \<le> 0 then Inr ()
               else case rbind (of_option (ValueError ''Coins'') (Coins_of (coin_from offer))) (m_balance M) of
                      Inl _ \<Rightarrow> Inr ()
                    | Inr balance \<Rightarrow>
                        if balance - getOfferInFlightAmount (m_bid_ids M) (market_node m) offer exclude - bid_amount < floor
                        then Inl (ValueError ''Bid would take wallet below the reserve floor of the offer'') else Inr ())"

subsection \<open>Revoking offers\<close>

definition revokeOffer :: "market_env \<Rightarrow> bytes \<Rightarrow> bytes option \<Rightarrow> bool \<Rightarrow> (market, unit) py" where
  "revokeOffer M i token refuse_if_negotiating =
     pbind (pget (\<lambda>m. offer_rows (market_node m) i)) (\<lambda>offer.
     pbind (plift (of_option (ValueError ''Offer not found'') offer)) (\<lambda>offer.
     pseq (plift (ensure (offer_expire_at offer > now (x_env (m_xenv M))) ''Offer has expired''))
    (pseq (plift (ensure (offer_active_ind offer = 1) ''Offer not active''))
    (pbind (pget market_node) (\<lambda>n.
     pseq (pwhen refuse_if_negotiating (plift (ensure (\<not> offer_has_negotiating_bid (m_bid_ids M) n i) ''Offer has a bid in negotiation'')))
    (pseq (if m_token M i \<noteq> None \<and> m_token M i \<noteq> token then praise (ValueError ''Mismatched security token'') else pret ())
    (pbind (plift (m_sign M (addr_from offer) i)) (\<lambda>signature.
     pbind (plift (message_payload MT_OFFER_REVOKE OfferRevokeMessage [(''offer_msg_id'', PBytes i), (''signature'', PBytes signature)])) (\<lambda>payload.
     pseq (on_node (sendMessage (m_xenv M) (addr_from offer) (m_network_addr M) payload))
          (pret ()))))))))))"

text \<open>The fill of a completed bid is recorded; an offer that is exhausted then is revoked. What fails is only logged.\<close>

definition record_fill :: "market_env \<Rightarrow> bytes \<Rightarrow> (market, (bytes \<times> bool) option) py" where
  "record_fill M b =
     pbind (pget (\<lambda>m. bid_rows (market_node m) b)) (\<lambda>bid.
     case bid of
       None \<Rightarrow> pret None
     | Some bid \<Rightarrow>
         pbind (pget (\<lambda>m. offer_rows (market_node m) (bid_offer_id bid))) (\<lambda>offer.
         case offer of
           None \<Rightarrow> pret None
         | Some offer \<Rightarrow>
             pbind (pget (\<lambda>m. offer_tracking m (offer_id offer))) (\<lambda>row.
             if \<not> offer_was_sent offer \<or> row = None then pret None
             else pbind (complete_offer_fill (now (x_env (m_xenv M))) (offer_id offer) (if reverse_offer offer then amount_to bid else amount bid)) (\<lambda>exhausted.
                  pret (Some (offer_id offer, exhausted \<and> offer_active_ind offer = 1))))))"

definition completeOfferTrackingForBid :: "market_env \<Rightarrow> bytes \<Rightarrow> (market, unit) py" where
  "completeOfferTrackingForBid M b =
     pbind (record_fill M b) (\<lambda>r.
     case r of
       None \<Rightarrow> pret ()
     | Some (i, revoke) \<Rightarrow> pwhen revoke (ptry (revokeOffer M i None False) (\<lambda>_. pret ())))"

text \<open>Offers whose wallet has fallen to their floor are revoked. The balance of each coin is asked for once.\<close>

definition floor_rows :: "market_env \<Rightarrow> market \<Rightarrow> (bytes \<times> int \<times> int) list" where
  "floor_rows M m = concat (map (\<lambda>i.
     case (offer_tracking m i, offer_rows (market_node m) i) of
       (Some row, Some offer) \<Rightarrow>
         (if ot_mode row = OfferTrackingModes_val STANDING \<and> zeroIfNone (min_wallet_reserve row) > 0 \<and> offer_active_ind offer = 1 \<and> offer_was_sent offer
             \<and> state offer = Some (OfferStates_val OFFER_SENT) \<and> offer_expire_at offer > now (x_env (m_xenv M))
          then [(i, coin_from offer, zeroIfNone (min_wallet_reserve row))] else [])
     | _ \<Rightarrow> []) (m_offer_ids M))"

definition checkStandingOfferWalletFloors :: "market_env \<Rightarrow> (market, unit) py" where
  "checkStandingOfferWalletFloors M =
     pbind (pget (floor_rows M)) (\<lambda>to_check.
     pseq (pfor (\<lambda>(i, coin, min_reserve). plift (ensure (Coins_of coin \<noteq> None) ''Coins'')) to_check)
    (pfor (\<lambda>(i, coin, min_reserve).
       case rbind (of_option (ValueError ''Coins'') (Coins_of coin)) (m_balance M) of
         Inl _ \<Rightarrow> pret ()
       | Inr balance \<Rightarrow> pwhen (balance \<le> min_reserve) (ptry (revokeOffer M i None False) (\<lambda>_. pret ()))) to_check))"

text \<open>At the start, fills that were missed are counted again from the completed bids.\<close>

definition completed_bids :: "market_env \<Rightarrow> market \<Rightarrow> bytes \<Rightarrow> bytes list" where
  "completed_bids M m i = filter (\<lambda>b. case bid_rows (market_node m) b of
       None \<Rightarrow> False | Some row \<Rightarrow> active_ind row = 1 \<and> bid_offer_id row = i \<and> in_states row [SWAP_COMPLETED]) (m_bid_ids M)"

definition reconcile_offer :: "market_env \<Rightarrow> bytes \<Rightarrow> (market, bytes list) py" where
  "reconcile_offer M i =
     pbind (pget id) (\<lambda>m.
     case (offer_tracking m i, offer_rows (market_node m) i) of
       (Some row, Some offer) \<Rightarrow>
         (let done = completed_bids M m i;
              sum_filled = sum_list (map (row_amount (reverse_offer offer) (market_node m)) done); fills = int (length done) in
          if done = [] \<or> \<not> offer_was_sent offer \<or> (zeroIfNone (filled_amount row) \<ge> sum_filled \<and> zeroIfNone (fills_completed row) \<ge> fills) then pret []
          else let row = row\<lparr>filled_amount := Some (max (zeroIfNone (filled_amount row)) sum_filled),
                             fills_completed := Some (max (zeroIfNone (fills_completed row)) fills), ot_updated_at := now (x_env (m_xenv M))\<rparr>
               in pseq (pmod (\<lambda>m. m\<lparr>offer_tracking := (offer_tracking m)(i \<mapsto> row)\<rparr>))
                       (pret (if offer_tracking_is_exhausted (Some row) 0 \<and> offer_active_ind offer = 1 then [i] else [])))
     | _ \<Rightarrow> pret [])"

fun reconcile_offers :: "market_env \<Rightarrow> bytes list \<Rightarrow> (market, bytes list) py" where
  "reconcile_offers M [] = pret []"
| "reconcile_offers M (i # is) = pbind (reconcile_offer M i) (\<lambda>r. pbind (reconcile_offers M is) (\<lambda>rs. pret (r @ rs)))"

definition reconcileOfferTracking :: "market_env \<Rightarrow> (market, unit) py" where
  "reconcileOfferTracking M =
     pbind (reconcile_offers M (m_offer_ids M)) (\<lambda>to_revoke.
     pfor (\<lambda>i. ptry (revokeOffer M i None False) (\<lambda>_. pret ())) to_revoke)"

section \<open>Specification vocabulary\<close>

text \<open>Only the bid \<open>b\<close> changed, and the offers did not.\<close>

definition only_bid_changed :: "bytes \<Rightarrow> node \<Rightarrow> node \<Rightarrow> bool" where
  "only_bid_changed b n n' \<longleftrightarrow> (\<forall>c. c \<noteq> b \<longrightarrow> untouched c n n') \<and> offer_rows n' = offer_rows n"

definition same_amount :: "bytes \<Rightarrow> node \<Rightarrow> node \<Rightarrow> bool" where
  "same_amount b n n' \<longleftrightarrow> (\<forall>reverse. row_amount reverse n' b = row_amount reverse n b)"

text \<open>What an offer has sold and promised.\<close>

definition committed :: "market_env \<Rightarrow> Offer \<Rightarrow> market \<Rightarrow> int" where
  "committed M offer m = zeroIfNone (Option.bind (offer_tracking m (offer_id offer)) filled_amount) + getOfferInFlightAmount (m_bid_ids M) (market_node m) offer None"

text \<open>Steps of the node as an offer sees them: a bid is accepted after \<open>validate_offer_budget\<close> allowed it, a bid in flight completes and is counted, a bid
  changes without coming into flight.\<close>

inductive budget_step :: "market_env \<Rightarrow> Offer \<Rightarrow> market \<Rightarrow> market \<Rightarrow> bool" for M offer where
  accept: "only_bid_changed b (market_node m) n' \<Longrightarrow> same_amount b (market_node m) n' \<Longrightarrow>
    validate_offer_budget (offer_tracking m (offer_id offer)) (row_amount (reverse_offer offer) (market_node m) b)
      (getOfferInFlightAmount (m_bid_ids M) (market_node m) offer (Some b)) = Inr () \<Longrightarrow> 0 \<le> row_amount (reverse_offer offer) n' b \<Longrightarrow>
    budget_step M offer m (m\<lparr>market_node := n'\<rparr>)"
| complete: "only_bid_changed b (market_node m) n' \<Longrightarrow> same_amount b (market_node m) n' \<Longrightarrow> b \<in> set (m_bid_ids M) \<Longrightarrow>
    in_flight (market_node m) (offer_id offer) b \<Longrightarrow> \<not> in_flight n' (offer_id offer) b \<Longrightarrow>
    bid_rows n' b = Some row \<Longrightarrow> bid_offer_id row = offer_id offer \<Longrightarrow>
    budget_step M offer m (snd (completeOfferTrackingForBid M b (m\<lparr>market_node := n'\<rparr>)))"
| proceed: "only_bid_changed b (market_node m) n' \<Longrightarrow> same_amount b (market_node m) n' \<Longrightarrow>
    (in_flight n' (offer_id offer) b \<longrightarrow> in_flight (market_node m) (offer_id offer) b) \<Longrightarrow> 0 \<le> row_amount (reverse_offer offer) n' b \<Longrightarrow>
    budget_step M offer m (m\<lparr>market_node := n'\<rparr>)"

definition tracked :: "market \<Rightarrow> Offer \<Rightarrow> OfferTracking \<Rightarrow> bool" where
  "tracked m offer row \<longleftrightarrow> offer_tracking m (offer_id offer) = Some row \<and> offer_rows (market_node m) (offer_id offer) = Some offer \<and> offer_was_sent offer
     \<and> ot_mode row \<noteq> OfferTrackingModes_val STANDING \<and> 0 < zeroIfNone (total_budget row)"


definition counted :: "int \<Rightarrow> int \<Rightarrow> OfferTracking \<Rightarrow> OfferTracking" where
  "counted time filled row = row\<lparr>filled_amount := Some (zeroIfNone (filled_amount row) + filled), fills_completed := Some (zeroIfNone (fills_completed row) + 1), ot_updated_at := time\<rparr>"

definition within_budget :: "market_env \<Rightarrow> Offer \<Rightarrow> int option \<Rightarrow> market \<Rightarrow> bool" where
  "within_budget M offer budget m \<longleftrightarrow> (\<exists>row. tracked m offer row \<and> total_budget row = budget \<and> committed M offer m \<le> zeroIfNone budget)"

text \<open>What the budget of an offer allows.\<close>

definition affordable :: "OfferTracking option \<Rightarrow> int \<Rightarrow> int \<Rightarrow> bool" where
  "affordable row x flight \<longleftrightarrow>
     (case row of
        None \<Rightarrow> True
      | Some r \<Rightarrow> ot_mode r = OfferTrackingModes_val STANDING
          \<or> (0 < zeroIfNone (max_fills r) \<longrightarrow> zeroIfNone (fills_completed r) < zeroIfNone (max_fills r))
            \<and> (0 < zeroIfNone (total_budget r) \<longrightarrow> zeroIfNone (filled_amount r) + flight < zeroIfNone (total_budget r)
                  \<and> zeroIfNone (filled_amount r) + flight + x \<le> zeroIfNone (total_budget r)))"

text \<open>The bids that completed, by number and amount.\<close>

definition sold :: "market_env \<Rightarrow> market \<Rightarrow> Offer \<Rightarrow> bytes \<Rightarrow> int" where
  "sold M m offer i = sum_list (map (row_amount (reverse_offer offer) (market_node m)) (completed_bids M m i))"

definition recounted :: "market_env \<Rightarrow> market \<Rightarrow> Offer \<Rightarrow> bytes \<Rightarrow> OfferTracking \<Rightarrow> OfferTracking \<Rightarrow> bool" where
  "recounted M m offer i row row' \<longleftrightarrow> zeroIfNone (filled_amount row') = max (zeroIfNone (filled_amount row)) (sold M m offer i)
     \<and> zeroIfNone (fills_completed row') = max (zeroIfNone (fills_completed row)) (int (length (completed_bids M m i)))
     \<and> total_budget row' = total_budget row \<and> ot_mode row' = ot_mode row \<and> max_fills row' = max_fills row"

definition sensible :: "OfferTracking \<Rightarrow> bool" where
  "sensible row \<longleftrightarrow> 0 \<le> zeroIfNone (filled_amount row) \<and> 0 \<le> zeroIfNone (fills_completed row)"


text \<open>A one-time offer of 10 with bids of 4 and 5.\<close>

definition small_offer :: Offer where
  "small_offer = blank_offer\<lparr>offer_id := [3], offer_was_sent := True, amount_from := 10, amount_negotiable := True\<rparr>"

definition small_bid :: "bytes \<Rightarrow> int \<Rightarrow> BidStates \<Rightarrow> Bid" where
  "small_bid b x st = (blank_bid b)\<lparr>bid_offer_id := [3], amount := x, state := Some (BidStates_val st)\<rparr>"

definition two_bids :: "BidStates \<Rightarrow> BidStates \<Rightarrow> node \<Rightarrow> node" where
  "two_bids s1 s2 n = n\<lparr>bid_rows := [[1] \<mapsto> small_bid [1] 4 s1, [2] \<mapsto> small_bid [2] 5 s2]\<rparr>"

definition one_time_row :: OfferTracking where
  "one_time_row = \<lparr>ot_active_ind = 1, ot_mode = 1, per_swap_amount = Some 10, total_budget = Some 10, filled_amount = Some 0, reserved_amount = Some 0,
     max_fills = Some 1, fills_completed = Some 0, min_wallet_reserve = Some 0, ot_created_at = 0, ot_updated_at = 0\<rparr>"

definition one_time_market :: market where
  "one_time_market = \<lparr>market_node = two_bids BID_RECEIVED BID_RECEIVED (blank_node\<lparr>offer_rows := \<lambda>_. Some small_offer\<rparr>), offer_tracking = [[3] \<mapsto> one_time_row]\<rparr>"

definition market_example :: market_env where
  "market_example = \<lparr>m_xenv = idle_xenv, m_bid_ids = [[1], [2]], m_offer_ids = [[3]], m_token = \<lambda>_. None, m_balance = \<lambda>_. Inr 100, m_sign = \<lambda>_ _. Inr [1],
     m_network_addr = ''net''\<rparr>"


section \<open>Facts\<close>

lemma in_flight_same: "untouched c n n' \<Longrightarrow> in_flight n' i c = in_flight n i c"
proof -
  assume u: "untouched c n n'"
  have "accept_queued k c \<longleftrightarrow> (\<exists>t\<in>set accept_actions. queued t c k)" for k
    by (auto simp: accept_queued_def queued_def list_ex_iff image_iff)
  then show ?thesis
    using u by (auto simp: in_flight_def untouched_def split: option.split)
qed

lemma row_amount_same: "untouched c n n' \<Longrightarrow> row_amount r n' c = row_amount r n c"
  by (simp add: row_amount_def untouched_def)

lemma excluded_same:
  assumes "only_bid_changed b n n'"
  shows "offer_in_flight_amount ids n' i (Some b) r = offer_in_flight_amount ids n i (Some b) r"
proof -
  have "filter (\<lambda>c. in_flight n' i c \<and> Some c \<noteq> Some b) ids = filter (\<lambda>c. in_flight n i c \<and> Some c \<noteq> Some b) ids"
    by (rule filter_cong) (use assms in_flight_same in \<open>auto simp: only_bid_changed_def\<close>)
  moreover have "map (row_amount r n') (filter (\<lambda>c. in_flight n i c \<and> Some c \<noteq> Some b) ids) = map (row_amount r n) (filter (\<lambda>c. in_flight n i c \<and> Some c \<noteq> Some b) ids)"
    by (rule map_cong) (use assms row_amount_same in \<open>auto simp: only_bid_changed_def\<close>)
  ultimately show ?thesis
    unfolding offer_in_flight_amount_def by presburger
qed

lemma split_amount:
  assumes "distinct ids"
  shows "offer_in_flight_amount ids n i None r
    = (if b \<in> set ids \<and> in_flight n i b then row_amount r n b else 0) + offer_in_flight_amount ids n i (Some b) r"
  using assms
proof (induction ids)
  case (Cons c ids)
  then show ?case
    by (cases "c = b") (auto simp: offer_in_flight_amount_def)
qed (simp add: offer_in_flight_amount_def)

lemma budget_ok:
  assumes "validate_offer_budget (Some row) x flight = Inr ()" "ot_mode row \<noteq> OfferTrackingModes_val STANDING" "0 < zeroIfNone (total_budget row)"
  shows "zeroIfNone (filled_amount row) + flight + x \<le> zeroIfNone (total_budget row)"
  using assms by (auto simp: validate_offer_budget_def offer_tracking_is_exhausted_def offer_tracking_remaining_def Let_def split: if_splits)

lemma revoke_tracking: "revokeOffer M i t f m = (r, m') \<Longrightarrow> offer_tracking m' = offer_tracking m \<and> bid_rows (market_node m') = bid_rows (market_node m)
    \<and> actions (market_node m') = actions (market_node m) \<and> offer_rows (market_node m') = offer_rows (market_node m)"
  by (auto simp: revokeOffer_def pbind_def pseq_def py_simps pwhen_def on_node_def sendMessage_def split: sum.splits if_splits prod.splits)

lemma record_fill_run:
  fixes M :: market_env
  assumes "tracked m offer row" "bid_rows (market_node m) b = Some bid" "bid_offer_id bid = offer_id offer"
  defines "row' \<equiv> counted (now (x_env (m_xenv M))) (row_amount (reverse_offer offer) (market_node m) b) row"
  shows "record_fill M b m = (Inr (Some (offer_id offer, offer_tracking_is_exhausted (Some row') 0 \<and> offer_active_ind offer = 1)),
     m\<lparr>offer_tracking := (offer_tracking m)(offer_id offer \<mapsto> row')\<rparr>)"
  using assms by (simp add: record_fill_def py_simps tracked_def complete_offer_fill_def Let_def row_amount_def counted_def)

lemma completed_run:
  fixes M :: market_env
  assumes "tracked m offer row" "bid_rows (market_node m) b = Some bid" "bid_offer_id bid = offer_id offer"
  defines "row' \<equiv> counted (now (x_env (m_xenv M))) (row_amount (reverse_offer offer) (market_node m) b) row"
  obtains m' where "completeOfferTrackingForBid M b m = (Inr (), m')" "offer_tracking m' = (offer_tracking m)(offer_id offer \<mapsto> row')"
    "bid_rows (market_node m') = bid_rows (market_node m)" "actions (market_node m') = actions (market_node m)" "offer_rows (market_node m') = offer_rows (market_node m)"
proof -
  define m1 where "m1 = m\<lparr>offer_tracking := (offer_tracking m)(offer_id offer \<mapsto> row')\<rparr>"
  obtain r m2 where revoke: "revokeOffer M (offer_id offer) None False m1 = (r, m2)"
    by fastforce
  show thesis
  proof (cases "offer_tracking_is_exhausted (Some row') 0 \<and> offer_active_ind offer = 1")
    case True
    then have "completeOfferTrackingForBid M b m = (Inr (), m2)"
      using record_fill_run [OF assms(1-3), of M] revoke by (cases r) (simp_all add: completeOfferTrackingForBid_def py_simps row'_def m1_def)
    then show thesis
      using that revoke_tracking [OF revoke] by (simp add: m1_def)
  next
    case False
    then have "completeOfferTrackingForBid M b m = (Inr (), m1)"
      using record_fill_run [OF assms(1-3), of M] by (auto simp: completeOfferTrackingForBid_def py_simps row'_def m1_def pwhen_def)
    then show thesis
      using that by (simp add: m1_def)
  qed
qed

lemma in_flight_rows:
  assumes "bid_rows n' = bid_rows n" "actions n' = actions n"
  shows "offer_in_flight_amount ids n' i e r = offer_in_flight_amount ids n i e r"
proof -
  have "accept_queued n' = accept_queued n"
    by (rule ext) (simp add: accept_queued_def assms)
  then have "in_flight n' = in_flight n"
    by (intro ext) (simp add: in_flight_def assms split: option.split)
  moreover have "row_amount r n' = row_amount r n"
    by (rule ext) (simp add: row_amount_def assms)
  ultimately show ?thesis
    by (simp add: offer_in_flight_amount_def)
qed

lemma tracked_node: "tracked m offer row \<Longrightarrow> only_bid_changed b (market_node m) n' \<Longrightarrow> tracked (m\<lparr>market_node := n'\<rparr>) offer row"
  by (simp add: tracked_def only_bid_changed_def)

lemma committed_node:
  assumes "distinct (m_bid_ids M)" "only_bid_changed b (market_node m) n'" "same_amount b (market_node m) n'" "tracked m offer row"
  shows "committed M offer (m\<lparr>market_node := n'\<rparr>) = zeroIfNone (filled_amount row)
    + (if b \<in> set (m_bid_ids M) \<and> in_flight n' (offer_id offer) b then row_amount (reverse_offer offer) (market_node m) b else 0)
    + getOfferInFlightAmount (m_bid_ids M) (market_node m) offer (Some b)"
  using split_amount [OF assms(1), of n' "offer_id offer" "reverse_offer offer" b] excluded_same [OF assms(2)] assms(3,4)
  by (simp add: committed_def getOfferInFlightAmount_def tracked_def same_amount_def)

lemma budget_step_keeps:
  assumes ids: "distinct (m_bid_ids M)" and run: "budget_step M offer m m'" and inv: "within_budget M offer budget m"
  shows "within_budget M offer budget m'"
proof -
  obtain row where row: "tracked m offer row" "total_budget row = budget" "committed M offer m \<le> zeroIfNone budget"
    using inv by (auto simp: within_budget_def)
  have ot: "offer_tracking m (offer_id offer) = Some row" "ot_mode row \<noteq> OfferTrackingModes_val STANDING" "0 < zeroIfNone (total_budget row)"
    using row(1) by (auto simp: tracked_def)
  let ?excl = "\<lambda>b. getOfferInFlightAmount (m_bid_ids M) (market_node m) offer (Some b)"
  have now: "committed M offer m = zeroIfNone (filled_amount row)
      + (if b \<in> set (m_bid_ids M) \<and> in_flight (market_node m) (offer_id offer) b then row_amount (reverse_offer offer) (market_node m) b else 0) + ?excl b" for b
    using committed_node [OF ids, of b m "market_node m" offer row] row(1) by (simp add: only_bid_changed_def same_amount_def untouched_refl)
  show ?thesis
    using run
  proof cases
    case (accept b n')
    have "zeroIfNone (filled_amount row) + ?excl b + row_amount (reverse_offer offer) (market_node m) b \<le> zeroIfNone budget"
      using budget_ok [OF _ ot(2,3)] accept(4) ot(1) row(2) by simp
    then have "committed M offer m' \<le> zeroIfNone budget"
      using committed_node [OF ids accept(2,3) row(1)] accept(1,3,5) by (auto simp: same_amount_def)
    then show ?thesis
      using tracked_node [OF row(1) accept(2)] row(2) accept(1) unfolding within_budget_def by blast
  next
    case (proceed b n')
    have "committed M offer m' \<le> committed M offer m"
      using now [of b] committed_node [OF ids proceed(2,3) row(1)] proceed(1,3-5) by (auto simp: same_amount_def)
    then show ?thesis
      using tracked_node [OF row(1) proceed(2)] row(2,3) proceed(1) unfolding within_budget_def by fastforce
  next
    case (complete b n' bid)
    have t: "tracked (m\<lparr>market_node := n'\<rparr>) offer row"
      by (rule tracked_node [OF row(1) complete(2)])
    define row' where "row' = counted (now (x_env (m_xenv M))) (row_amount (reverse_offer offer) n' b) row"
    obtain m2 where m2: "completeOfferTrackingForBid M b (m\<lparr>market_node := n'\<rparr>) = (Inr (), m2)" "offer_tracking m2 = (offer_tracking m)(offer_id offer \<mapsto> row')"
        "bid_rows (market_node m2) = bid_rows n'" "actions (market_node m2) = actions n'" "offer_rows (market_node m2) = offer_rows n'"
      by (rule completed_run [OF t, of b bid M]) (use complete in \<open>auto simp: row'_def\<close>)
    have "tracked m2 offer row'"
      using t m2(2,5) by (auto simp: tracked_def row'_def counted_def)
    moreover have "total_budget row' = budget"
      using row(2) by (simp add: row'_def counted_def)
    moreover have "getOfferInFlightAmount (m_bid_ids M) (market_node m2) offer None = ?excl b"
      using in_flight_rows [OF m2(3,4)] split_amount [OF ids, of n' "offer_id offer" "reverse_offer offer" b] excluded_same [OF complete(2)] complete(6)
      by (simp add: getOfferInFlightAmount_def)
    then have "committed M offer m2 = committed M offer m"
      using now [of b] complete(3-5) m2(2) by (simp add: committed_def row'_def counted_def zeroIfNone_def same_amount_def)
    ultimately show ?thesis
      using m2(1) complete(1) row(3) by (auto simp: within_budget_def)
  qed
qed


text \<open>The two checks of the budget agree. \<open>validate_offer_budget\<close>, made when a bid is accepted, raises exactly where \<open>offer_budget_allows\<close>, made before it is accepted
  automatically, is false; and both allow a bid exactly when the offer is not tracked, is a standing one, or has fills left and a budget that is not used up and covers the
  bid beside what was sold and is in flight.\<close>

theorem budget_checks_agree:
  "(validate_offer_budget row x flight = Inr () \<longleftrightarrow> affordable row x flight) \<and> (offer_budget_allows row x flight \<longleftrightarrow> affordable row x flight)"
  by (cases row) (auto simp: validate_offer_budget_def offer_budget_allows_def offer_tracking_is_exhausted_def offer_tracking_remaining_def affordable_def Let_def)

lemma mode_roundtrip_all:
  "list_all (\<lambda>m. offerTrackingModeFromString (ModeStr (offerTrackingModeToString (OfferTrackingModes_val m))) = Inr m
      \<and> offerTrackingModeFromString (ModeInt (OfferTrackingModes_val m)) = Inr m
      \<and> offerTrackingModeFromString (ModeStr (strOfferTrackingMode (OfferTrackingModes_val m))) = Inr m)
   [LEGACY, ONE_TIME, FIXED_TOTAL, STANDING]"
  by code_simp

lemma completed_same:
  "bid_rows (market_node m') = bid_rows (market_node m) \<Longrightarrow> completed_bids M m' i = completed_bids M m i"
  "bid_rows (market_node m') = bid_rows (market_node m) \<Longrightarrow> sold M m' offer i = sold M m offer i"
proof -
  show c: "completed_bids M m' i = completed_bids M m i" if "bid_rows (market_node m') = bid_rows (market_node m)"
    using that by (simp add: completed_bids_def)
  show "sold M m' offer i = sold M m offer i" if "bid_rows (market_node m') = bid_rows (market_node m)"
    using c [OF that] that by (simp add: sold_def row_amount_def [abs_def])
qed

lemma reconcile_offer_run:
  obtains r m' where "reconcile_offer M i m = (Inr r, m')" "market_node m' = market_node m" "\<And>j. j \<noteq> i \<Longrightarrow> offer_tracking m' j = offer_tracking m j"
    "\<And>row offer. offer_tracking m i = Some row \<Longrightarrow> offer_rows (market_node m) i = Some offer \<Longrightarrow> offer_was_sent offer \<Longrightarrow> sensible row
       \<Longrightarrow> \<exists>row'. offer_tracking m' i = Some row' \<and> recounted M m offer i row row' \<and> sensible row'"
proof -
  let ?goal = "\<exists>r m'. reconcile_offer M i m = (Inr r, m') \<and> market_node m' = market_node m \<and> (\<forall>j. j \<noteq> i \<longrightarrow> offer_tracking m' j = offer_tracking m j)
     \<and> (\<forall>row offer. offer_tracking m i = Some row \<longrightarrow> offer_rows (market_node m) i = Some offer \<longrightarrow> offer_was_sent offer \<longrightarrow> sensible row
       \<longrightarrow> (\<exists>row'. offer_tracking m' i = Some row' \<and> recounted M m offer i row row' \<and> sensible row'))"
  have ?goal
  proof (cases "offer_tracking m i = None \<or> offer_rows (market_node m) i = None")
    case True
    then show ?thesis
      by (auto simp: reconcile_offer_def py_simps split: option.split)
  next
    case False
    then obtain row offer where ro: "offer_tracking m i = Some row" "offer_rows (market_node m) i = Some offer"
      by auto
    show ?thesis
      using ro by (auto simp: reconcile_offer_def py_simps Let_def recounted_def sensible_def sold_def zeroIfNone_def)
  qed
  then show thesis
    using that by blast
qed

lemma reconcile_offers_run:
  assumes "distinct is"
  obtains rs m' where "reconcile_offers M is m = (Inr rs, m')" "market_node m' = market_node m" "\<And>j. j \<notin> set is \<Longrightarrow> offer_tracking m' j = offer_tracking m j"
    "\<And>i row offer. i \<in> set is \<Longrightarrow> offer_tracking m i = Some row \<Longrightarrow> offer_rows (market_node m) i = Some offer \<Longrightarrow> offer_was_sent offer \<Longrightarrow> sensible row
       \<Longrightarrow> \<exists>row'. offer_tracking m' i = Some row' \<and> recounted M m offer i row row' \<and> sensible row'"
  using assms
proof (induction "is" arbitrary: m thesis)
  case Nil
  then show ?case
    by (simp add: py_simps)
next
  case (Cons i "is")
  obtain r m1 where m1: "reconcile_offer M i m = (Inr r, m1)" "market_node m1 = market_node m" "\<And>j. j \<noteq> i \<Longrightarrow> offer_tracking m1 j = offer_tracking m j"
    and i: "\<And>row offer. offer_tracking m i = Some row \<Longrightarrow> offer_rows (market_node m) i = Some offer \<Longrightarrow> offer_was_sent offer \<Longrightarrow> sensible row
       \<Longrightarrow> \<exists>row'. offer_tracking m1 i = Some row' \<and> recounted M m offer i row row' \<and> sensible row'"
    using reconcile_offer_run [of M i m] by metis
  obtain rs m' where m': "reconcile_offers M is m1 = (Inr rs, m')" "market_node m' = market_node m1" "\<And>j. j \<notin> set is \<Longrightarrow> offer_tracking m' j = offer_tracking m1 j"
    and rest: "\<And>j row offer. j \<in> set is \<Longrightarrow> offer_tracking m1 j = Some row \<Longrightarrow> offer_rows (market_node m1) j = Some offer \<Longrightarrow> offer_was_sent offer \<Longrightarrow> sensible row
       \<Longrightarrow> \<exists>row'. offer_tracking m' j = Some row' \<and> recounted M m1 offer j row row' \<and> sensible row'"
    using Cons.IH [of m1] Cons.prems(2) by auto
  have same: "recounted M m1 offer j row row' = recounted M m offer j row row'" for offer j row row'
    using completed_same [of m1 m M] m1(2) by (simp add: recounted_def)
  show ?case
  proof (rule Cons.prems(1))
    show "reconcile_offers M (i # is) m = (Inr (r @ rs), m')"
      using m1(1) m'(1) by (simp add: py_simps)
    show "\<exists>row'. offer_tracking m' j = Some row' \<and> recounted M m offer j row row' \<and> sensible row'"
      if "j \<in> set (i # is)" "offer_tracking m j = Some row" "offer_rows (market_node m) j = Some offer" "offer_was_sent offer" "sensible row" for j row offer
      using that i rest m1(2,3) m'(3) Cons.prems(2) same by (cases "j = i") auto
  qed (use m1 m' in auto)
qed

lemma revoke_all_run:
  obtains m' where "pfor (\<lambda>i. ptry (revokeOffer M i None False) (\<lambda>_. pret ())) is m = (Inr (), m')" "offer_tracking m' = offer_tracking m"
    "bid_rows (market_node m') = bid_rows (market_node m)"
proof (induction "is" arbitrary: m thesis)
  case Nil
  then show ?case
    by (simp add: py_simps)
next
  case (Cons i "is")
  obtain r m1 where r: "revokeOffer M i None False m = (r, m1)"
    by fastforce
  have one: "ptry (revokeOffer M i None False) (\<lambda>_. pret ()) m = (Inr (), m1)"
    using r by (cases r) (simp_all add: ptry_def pret_def)
  obtain m' where m': "pfor (\<lambda>i. ptry (revokeOffer M i None False) (\<lambda>_. pret ())) is m1 = (Inr (), m')" "offer_tracking m' = offer_tracking m1"
      "bid_rows (market_node m') = bid_rows (market_node m1)"
    by (rule Cons.IH)
  show ?case
    by (rule Cons.prems [of m']) (use one m' revoke_tracking [OF r] in \<open>simp_all add: pseq_def pbind_def\<close>)
qed

text \<open>Missed fills are counted again. \<open>reconcileOfferTracking\<close>, run at the start, returns; for every tracked offer this node sent, what was sold and the number of fills are
  afterwards the larger of the recorded ones and those of its completed bids, so that nothing that completed is missed and nothing recorded is lost; the budgets stay.\<close>

theorem fills_reconciled:
  assumes ids: "distinct (m_offer_ids M)" and sane: "\<And>i row. offer_tracking m i = Some row \<Longrightarrow> sensible row"
  shows "\<exists>m'. reconcileOfferTracking M m = (Inr (), m') \<and> bid_rows (market_node m') = bid_rows (market_node m)
     \<and> (\<forall>i\<in>set (m_offer_ids M). \<forall>row offer. offer_tracking m i = Some row \<and> offer_rows (market_node m) i = Some offer \<and> offer_was_sent offer
          \<longrightarrow> (\<exists>row'. offer_tracking m' i = Some row' \<and> recounted M m offer i row row'))"
proof -
  obtain rs m1 where m1: "reconcile_offers M (m_offer_ids M) m = (Inr rs, m1)" "market_node m1 = market_node m"
    and all: "\<And>i row offer. i \<in> set (m_offer_ids M) \<Longrightarrow> offer_tracking m i = Some row \<Longrightarrow> offer_rows (market_node m) i = Some offer \<Longrightarrow> offer_was_sent offer \<Longrightarrow> sensible row
       \<Longrightarrow> \<exists>row'. offer_tracking m1 i = Some row' \<and> recounted M m offer i row row' \<and> sensible row'"
    using reconcile_offers_run [OF ids, of M m] by metis
  obtain m' where m': "pfor (\<lambda>i. ptry (revokeOffer M i None False) (\<lambda>_. pret ())) rs m1 = (Inr (), m')" "offer_tracking m' = offer_tracking m1"
      "bid_rows (market_node m') = bid_rows (market_node m1)"
    by (rule revoke_all_run)
  have "reconcileOfferTracking M m = (Inr (), m')"
    using m1(1) m'(1) by (simp add: reconcileOfferTracking_def pbind_def)
  then show ?thesis
    using m1(2) m'(2,3) all sane by (metis (no_types, lifting))
qed

lemma two_bids_change:
  "bid_rows n = bid_rows (two_bids s1 s2 k) \<Longrightarrow> only_bid_changed [1] n (two_bids s1' s2 n)"
  "bid_rows n = bid_rows (two_bids s1 s2 k) \<Longrightarrow> only_bid_changed [2] n (two_bids s1 s2' n)"
  "bid_rows n = bid_rows (two_bids s1 s2 k) \<Longrightarrow> same_amount b n (two_bids s1' s2' n)"
  by (auto simp: only_bid_changed_def same_amount_def untouched_def two_bids_def queued_def row_amount_def small_bid_def)

lemma small_states: "active_row (small_bid b x BID_ACCEPTED)" "\<not> active_row (small_bid b x SWAP_COMPLETED)" "\<not> active_row (small_bid b x BID_RECEIVED)"
  by (simp_all add: active_row_def small_bid_def isActiveBidState_def less_BidStates_def less_eq_BidStates_def del: BidStates_val.simps) simp_all

lemma small_flight:
  assumes "bid_rows n = bid_rows (two_bids s1 s2 k)" "actions n = []"
  shows "in_flight n [3] [1] \<longleftrightarrow> active_row (small_bid [1] 4 s1)" "in_flight n [3] [2] \<longleftrightarrow> active_row (small_bid [2] 5 s2)"
    "row_amount r n [1] = (if r then 0 else 4)" "row_amount r n [2] = (if r then 0 else 5)"
  using assms by (simp_all add: in_flight_def accept_queued_def row_amount_def two_bids_def small_bid_def blank_bid_def)

lemma small_reverse: "\<not> reverse_offer small_offer" "offer_id small_offer = [3]" "offer_was_sent small_offer"
  by (simp_all add: small_offer_def blank_offer_def) code_simp

lemma small_tracked: "tracked one_time_market small_offer one_time_row"
  by (simp add: tracked_def one_time_market_def small_reverse two_bids_def one_time_row_def zeroIfNone_def)

lemma accept_both: "(budget_step market_example small_offer)\<^sup>*\<^sup>* one_time_market
    (one_time_market\<lparr>market_node := two_bids BID_ACCEPTED BID_ACCEPTED (market_node one_time_market)\<rparr>)"
proof -
  let ?n = "market_node one_time_market"
  have n: "bid_rows ?n = bid_rows (two_bids BID_RECEIVED BID_RECEIVED ?n)" "actions ?n = []"
    by (simp_all add: one_time_market_def two_bids_def blank_node_def)
  let ?m1 = "one_time_market\<lparr>market_node := two_bids BID_ACCEPTED BID_RECEIVED ?n\<rparr>"
  have n1: "bid_rows (market_node ?m1) = bid_rows (two_bids BID_ACCEPTED BID_RECEIVED ?n)" "actions (market_node ?m1) = []"
    using n(2) by (simp_all add: two_bids_def)
  have "budget_step market_example small_offer one_time_market ?m1"
    by (rule budget_step.accept [OF two_bids_change(1) [OF n(1)] two_bids_change(3) [OF n(1)]])
      (use small_flight [OF n] small_flight [OF n1] in \<open>simp_all add: small_states small_reverse getOfferInFlightAmount_def offer_in_flight_amount_def market_example_def
         one_time_market_def validate_offer_budget_def offer_tracking_is_exhausted_def offer_tracking_remaining_def one_time_row_def zeroIfNone_def\<close>)
  moreover have "budget_step market_example small_offer ?m1 (?m1\<lparr>market_node := two_bids BID_ACCEPTED BID_ACCEPTED (market_node ?m1)\<rparr>)"
    by (rule budget_step.accept [OF two_bids_change(2) [OF n1(1)] two_bids_change(3) [OF n1(1)]])
      (use small_flight [OF n1] in \<open>simp_all add: small_states small_reverse getOfferInFlightAmount_def offer_in_flight_amount_def market_example_def
         one_time_market_def validate_offer_budget_def offer_tracking_is_exhausted_def offer_tracking_remaining_def one_time_row_def zeroIfNone_def two_bids_def row_amount_def small_bid_def\<close>)
  moreover have "?m1\<lparr>market_node := two_bids BID_ACCEPTED BID_ACCEPTED (market_node ?m1)\<rparr>
      = one_time_market\<lparr>market_node := two_bids BID_ACCEPTED BID_ACCEPTED ?n\<rparr>"
    by (simp add: two_bids_def)
  ultimately show ?thesis
    by (metis (no_types, lifting) r_into_rtranclp rtranclp.rtrancl_into_rtrancl)
qed

text \<open>One bid of a one-time offer completes.\<close>

lemma complete_one:
  fixes b :: bytes
  assumes row: "tracked m small_offer row" and n: "bid_rows (market_node m) = bid_rows (two_bids s1 s2 k)" "actions (market_node m) = []"
    and b: "b = [1] \<and> s1 = BID_ACCEPTED \<and> t1 = SWAP_COMPLETED \<and> t2 = s2 \<or> b = [2] \<and> s2 = BID_ACCEPTED \<and> t2 = SWAP_COMPLETED \<and> t1 = s1"
  obtains m' row' where "budget_step market_example small_offer m m'" "tracked m' small_offer row'" "bid_rows (market_node m') = bid_rows (two_bids t1 t2 k)"
    "actions (market_node m') = []" "zeroIfNone (fills_completed row') = zeroIfNone (fills_completed row) + 1" "max_fills row' = max_fills row"
proof -
  let ?n = "two_bids t1 t2 (market_node m)"
  have n': "bid_rows ?n = bid_rows (two_bids t1 t2 k)" "actions ?n = []"
    using n(2) by (simp_all add: two_bids_def)
  obtain bid where bid: "bid_rows ?n b = Some bid" "bid_offer_id bid = offer_id small_offer"
    using b by (auto simp: two_bids_def small_bid_def small_reverse)
  have changed: "only_bid_changed b (market_node m) ?n"
    using b two_bids_change(1,2) [OF n(1)] by auto
  have t: "tracked (m\<lparr>market_node := ?n\<rparr>) small_offer row"
    by (rule tracked_node [OF row changed])
  define row' where "row' = counted (now (x_env (m_xenv market_example))) (row_amount (reverse_offer small_offer) ?n b) row"
  obtain m' where m': "completeOfferTrackingForBid market_example b (m\<lparr>market_node := ?n\<rparr>) = (Inr (), m')"
      "offer_tracking m' = (offer_tracking m)(offer_id small_offer \<mapsto> row')" "bid_rows (market_node m') = bid_rows ?n" "actions (market_node m') = actions ?n"
      "offer_rows (market_node m') = offer_rows ?n"
    by (rule completed_run [OF t, of b bid market_example]) (use bid in \<open>auto simp: row'_def\<close>)
  have "budget_step market_example small_offer m (snd (completeOfferTrackingForBid market_example b (m\<lparr>market_node := ?n\<rparr>)))"
    by (rule budget_step.complete [OF changed two_bids_change(3) [OF n(1)] _ _ _ bid])
      (use b small_flight(1,2) [OF n] small_flight(1,2) [OF n'] in \<open>auto simp: small_states small_reverse market_example_def\<close>)
  moreover have "tracked m' small_offer row'"
    using t m'(2,5) by (auto simp: tracked_def row'_def counted_def)
  ultimately show thesis
    using that m'(1,3,4) n' by (simp add: row'_def counted_def zeroIfNone_def)
qed

text \<open>A one-time offer can be filled twice. The number of fills of a one-time offer is limited to one, but the limit counts completed bids only: of an offer of 10 two bids of 4 and 5
  pass the check, one after the other, before the first completes, and both complete.\<close>

theorem one_time_filled_twice:
  "\<exists>m row. init_offer_tracking (OfferTrackingModes_val ONE_TIME) 10 0 0 0 0 = Inr (offer_tracking one_time_market (offer_id small_offer))
     \<and> (budget_step market_example small_offer)\<^sup>*\<^sup>* one_time_market m
     \<and> offer_tracking m (offer_id small_offer) = Some row \<and> max_fills row = Some 1 \<and> zeroIfNone (fills_completed row) = 2"
proof -
  let ?n = "market_node one_time_market"
  let ?m2 = "one_time_market\<lparr>market_node := two_bids BID_ACCEPTED BID_ACCEPTED ?n\<rparr>"
  have t2: "tracked ?m2 small_offer one_time_row"
    using small_tracked by (simp add: tracked_def two_bids_def)
  have n2: "bid_rows (market_node ?m2) = bid_rows (two_bids BID_ACCEPTED BID_ACCEPTED ?n)" "actions (market_node ?m2) = []"
    by (simp_all add: one_time_market_def two_bids_def blank_node_def)
  obtain m3 row3 where m3: "budget_step market_example small_offer ?m2 m3" "tracked m3 small_offer row3"
      "bid_rows (market_node m3) = bid_rows (two_bids SWAP_COMPLETED BID_ACCEPTED ?n)" "actions (market_node m3) = []"
      "zeroIfNone (fills_completed row3) = zeroIfNone (fills_completed one_time_row) + 1" "max_fills row3 = max_fills one_time_row"
    by (rule complete_one [OF t2 n2, of "[1]" SWAP_COMPLETED BID_ACCEPTED]) auto
  obtain m4 row4 where m4: "budget_step market_example small_offer m3 m4" "tracked m4 small_offer row4"
      "zeroIfNone (fills_completed row4) = zeroIfNone (fills_completed row3) + 1" "max_fills row4 = max_fills row3"
    by (rule complete_one [OF m3(2-4), of "[2]" SWAP_COMPLETED SWAP_COMPLETED]) auto
  have "(budget_step market_example small_offer)\<^sup>*\<^sup>* one_time_market m4"
    using accept_both m3(1) m4(1) by (meson rtranclp.rtrancl_into_rtrancl)
  moreover have "init_offer_tracking (OfferTrackingModes_val ONE_TIME) 10 0 0 0 0 = Inr (offer_tracking one_time_market (offer_id small_offer))"
    by (simp add: small_reverse one_time_market_def one_time_row_def init_offer_tracking_def OfferTrackingModes_of_def of_option_def)
  ultimately show ?thesis
    using m3(5,6) m4(2-4) by (auto simp: tracked_def one_time_row_def zeroIfNone_def)
qed


theorem fills_reconciled_witness:
  "\<exists>m' row'. reconcileOfferTracking market_example (one_time_market\<lparr>market_node := two_bids SWAP_COMPLETED BID_RECEIVED (market_node one_time_market)\<rparr>) = (Inr (), m')
     \<and> offer_tracking m' [3] = Some row' \<and> zeroIfNone (filled_amount row') = 4 \<and> zeroIfNone (fills_completed row') = 1"
proof -
  let ?m = "one_time_market\<lparr>market_node := two_bids SWAP_COMPLETED BID_RECEIVED (market_node one_time_market)\<rparr>"
  have "sensible row" if "offer_tracking ?m i = Some row" for i row
    using that by (auto simp: one_time_market_def one_time_row_def sensible_def zeroIfNone_def split: if_splits)
  moreover have "distinct (m_offer_ids market_example)" "[3] \<in> set (m_offer_ids market_example)"
    by (simp_all add: market_example_def)
  ultimately obtain m' row' where m': "reconcileOfferTracking market_example ?m = (Inr (), m')" "offer_tracking m' [3] = Some row'"
      "recounted market_example ?m small_offer [3] one_time_row row'"
    using fills_reconciled [of market_example ?m] small_reverse(3) by (force simp: one_time_market_def two_bids_def)
  have completed: "completed_bids market_example ?m [3] = [[1]]"
    by (simp add: completed_bids_def market_example_def two_bids_def small_bid_def blank_bid_def in_states_def image_iff)
  have "sold market_example ?m small_offer [3] = 4"
    using completed small_reverse(1) by (simp add: sold_def row_amount_def two_bids_def small_bid_def)
  then show ?thesis
    using m' completed by (auto simp: recounted_def one_time_row_def zeroIfNone_def)
qed

end
