(* ===== verification/Auto_Accept.thy ===== *)
theory Auto_Accept
  imports Offer_Tracking
begin

text \<open>
  Acceptance of bids without the user: \<open>shouldAutoAcceptBid\<close>, \<open>getCompletedAndActiveBidsValue\<close>, \<open>evaluateKnownIdentityForAutoAccept\<close> and
  \<open>checkDelayedAutoAccept\<close> of \<open>src/basicswap/basicswap.py\<close>. The exceptions that say why a bid is not accepted are the datatype \<open>refusal\<close>; the settings of a strategy
  are read from JSON, which is a parameter. The main result is what a bid meets that is accepted; two more show where the checks ask for the wrong thing.
\<close>

section \<open>Definitions\<close>

subsection \<open>Strategies\<close>

text \<open>A number of a JSON text: an integer or a double, as in \<open>Python_Float\<close>.\<close>

datatype json_number = JInt int | JFloat "int \<times> int"

record strategy_opts =
  exact_rate_only :: bool
  total_bids_value_multiplier :: "json_number option"
  max_concurrent_bids :: "int option"

record AutomationStrategy =
  only_known_identities :: bool
  strategy_data :: "strategy_opts res"

text \<open>The tables of automation: the active link of an offer, the active strategies, and the overrides recorded for addresses.\<close>

record auto_env =
  a_market :: market_env
  a_links :: "bytes \<Rightarrow> int option"
  a_strategies :: "int \<Rightarrow> AutomationStrategy option"
  a_override :: "string \<Rightarrow> int option"

text \<open>Why a bid is not accepted automatically: for good, for now, or because of an error.\<close>

datatype refusal = AutomationConstraint string | AutomationConstraintTemporary string | AutomationError

definition evaluateKnownIdentityForAutoAccept :: "AutomationStrategy \<Rightarrow> int option \<Rightarrow> KnownIdentity option \<Rightarrow> refusal + unit" where
  "evaluateKnownIdentityForAutoAccept strategy override identity_stats =
     (if identity_stats \<noteq> None \<and> override = Some (AutomationOverrideOptions_val AOO_NEVER_ACCEPT)
      then Inl (AutomationConstraint ''From address is marked never accept'')
      else if identity_stats \<noteq> None \<and> override = Some (AutomationOverrideOptions_val AOO_ALWAYS_ACCEPT) then Inr ()
      else if only_known_identities strategy then
        (case identity_stats of
           None \<Rightarrow> Inl (AutomationConstraint ''Unknown bidder'')
         | Some stats \<Rightarrow>
             (case num_recv_bids_successful stats of
                None \<Rightarrow> Inl AutomationError
              | Some successful \<Rightarrow>
                  if successful < 1 then Inl (AutomationConstraint ''Bidder has too few successful swaps'')
                  else (case num_recv_bids_failed stats of
                          None \<Rightarrow> Inl AutomationError
                        | Some failed \<Rightarrow>
                            if successful \<le> failed then Inl (AutomationConstraint ''Bidder has too many failed swaps'') else Inr ())))
      else Inr ())"

subsection \<open>Bids of an offer\<close>

definition counted_bid :: "node \<Rightarrow> bytes \<Rightarrow> bytes \<Rightarrow> bool" where
  "counted_bid n offer b \<longleftrightarrow>
     (case bid_rows n b of
        None \<Rightarrow> False
      | Some row \<Rightarrow> active_ind row = 1 \<and> bid_offer_id row = offer \<and> (in_states row [SWAP_COMPLETED] \<or> active_row row \<or> accept_queued n b))"

definition row_state :: "node \<Rightarrow> bytes \<Rightarrow> int option" where
  "row_state n b = Option.bind (bid_rows n b) state"

definition getCompletedAndActiveBidsValue :: "bytes list \<Rightarrow> node \<Rightarrow> Offer \<Rightarrow> bool \<Rightarrow> (bytes \<times> int \<times> int option) list \<times> int" where
  "getCompletedAndActiveBidsValue bid_ids n offer reverse =
     (let bids = map (\<lambda>b. (b, row_amount reverse n b, row_state n b)) (filter (counted_bid n (offer_id offer)) bid_ids)
      in (bids, sum_list (map (\<lambda>(b, x, s). x) bids)))"

text \<open>\<open>total_bids_value + bid_amount > offer.amount_from * total_bids_value_multiplier\<close>, for a multiplier above zero. An integer times a double is rounded twice.\<close>

definition over_value :: "json_number \<Rightarrow> int \<Rightarrow> int \<Rightarrow> bool res" where
  "over_value multiplier offer_amount wanted =
     (case multiplier of
        JInt k \<Rightarrow> Inr (k > 0 \<and> wanted > offer_amount * k)
      | JFloat (p, q) \<Rightarrow>
          if p \<le> 0 then Inr False
          else rbind (true_divide offer_amount 1) (\<lambda>(a, b).
               rbind (true_divide (a * p) (b * q)) (\<lambda>(x, y).
               Inr (wanted * y > x))))"

definition lift_error :: "'a res \<Rightarrow> refusal + 'a" where
  "lift_error r = (case r of Inl _ \<Rightarrow> Inl AutomationError | Inr x \<Rightarrow> Inr x)"

definition bind_refusal :: "refusal + 'a \<Rightarrow> ('a \<Rightarrow> refusal + 'b) \<Rightarrow> refusal + 'b" where
  "bind_refusal r f = (case r of Inl e \<Rightarrow> Inl e | Inr x \<Rightarrow> f x)"

definition require :: "bool \<Rightarrow> string \<Rightarrow> refusal + unit" where
  "require c msg = (if c then Inr () else Inl (AutomationConstraint msg))"

subsection \<open>Whether a bid is accepted\<close>

definition check_terms :: "auto_env \<Rightarrow> market \<Rightarrow> Offer \<Rightarrow> Bid \<Rightarrow> strategy_opts \<Rightarrow> int \<Rightarrow> int \<Rightarrow> refusal + unit" where
  "check_terms A m offer bid opts bid_amount bid_rate =
     (let M = a_market A in
      bind_refusal (require (\<not> expire_at bid < now (x_env (m_xenv M))) ''Bid expired'') (\<lambda>_.
      bind_refusal (require (amount_negotiable offer \<or> bid_amount = amount_from offer) ''Need exact amount match'') (\<lambda>_.
      bind_refusal (require (\<not> bid_amount < min_bid_amount offer) ''Bid amount below offer minimum'') (\<lambda>_.
      bind_refusal (require (offer_budget_allows (offer_tracking m (offer_id offer)) bid_amount
          (getOfferInFlightAmount (m_bid_ids M) (market_node m) offer (Some (bid_id bid)))) ''Offer budget exhausted or bid over remaining budget'') (\<lambda>_.
      bind_refusal (require (validateOfferWalletFloor M m offer bid_amount (Some (bid_id bid)) = Inr ()) ''Bid would take wallet below the reserve floor of the offer'') (\<lambda>_.
      require (\<not> exact_rate_only opts \<or> ratesMatch bid_rate (offer_rate offer) (offer_rate offer)) ''Rate outside acceptable tolerance''))))))"

definition check_value :: "market \<Rightarrow> Offer \<Rightarrow> strategy_opts \<Rightarrow> int \<Rightarrow> int \<Rightarrow> refusal + unit" where
  "check_value m offer opts total_bids_value bid_amount =
     (if offer_tracking m (offer_id offer) \<noteq> None then Inr ()
      else let multiplier = (case total_bids_value_multiplier opts of None \<Rightarrow> JFloat (1, 1) | Some k \<Rightarrow> k) in
           bind_refusal (lift_error (over_value multiplier (amount_from offer) (total_bids_value + bid_amount))) (\<lambda>over.
           require (\<not> over) ''Over remaining offer value''))"

definition check_capacity :: "auto_env \<Rightarrow> market \<Rightarrow> Offer \<Rightarrow> Bid \<Rightarrow> AutomationStrategy \<Rightarrow> strategy_opts \<Rightarrow> int \<Rightarrow> int \<Rightarrow> refusal + unit" where
  "check_capacity A m offer bid strategy opts num_not_completed bid_amount =
     bind_refusal (if num_not_completed \<ge> (case max_concurrent_bids opts of None \<Rightarrow> 1 | Some k \<Rightarrow> k)
                   then Inl (AutomationConstraintTemporary ''Already have bids to complete'') else Inr ()) (\<lambda>_.
     bind_refusal (evaluateKnownIdentityForAutoAccept strategy (a_override A (bid_addr bid)) (identities (market_node m) (bid_addr bid))) (\<lambda>_.
     bind_refusal (lift_error (of_option KeyError (Coins_of (coin_from offer)))) (\<lambda>cfrom.
     case m_balance (a_market A) cfrom of
       Inl _ \<Rightarrow> Inl (AutomationConstraintTemporary ''Balance too low'')
     | Inr balance \<Rightarrow> if balance < (num_not_completed + 1) * bid_amount then Inl (AutomationConstraintTemporary ''Balance too low'') else Inr ())))"

definition evaluate_bid :: "auto_env \<Rightarrow> market \<Rightarrow> Offer \<Rightarrow> Bid \<Rightarrow> int option \<Rightarrow> AutomationStrategy \<Rightarrow> refusal + unit" where
  "evaluate_bid A m offer bid reverse_rate strategy =
     bind_refusal (lift_error (strategy_data strategy)) (\<lambda>opts.
     let reverse = reverse_rate \<noteq> None;
         bid_amount = (if reverse then amount_to bid else amount bid);
         bid_rate = (case reverse_rate of None \<Rightarrow> rate bid | Some r \<Rightarrow> r) in
     bind_refusal (check_terms A m offer bid opts bid_amount bid_rate) (\<lambda>_.
     case getCompletedAndActiveBidsValue (m_bid_ids (a_market A)) (market_node m) offer reverse of
       (active_bids, total_bids_value) \<Rightarrow>
         bind_refusal (check_value m offer opts total_bids_value bid_amount) (\<lambda>_.
         check_capacity A m offer bid strategy opts
           (int (length (filter (\<lambda>(b, x, s). s \<noteq> Some (BidStates_val SWAP_COMPLETED)) active_bids))) bid_amount)))"

text \<open>\<open>updateDB\<close> of a bid: the columns of its row, if there is one.\<close>

definition updateBidRow :: "Bid \<Rightarrow> (node, unit) py" where
  "updateBidRow bid = pmod (\<lambda>n. if bid_rows n (bid_id bid) = None then n
     else n\<lparr>bid_rows := (bid_rows n)(bid_id bid \<mapsto> saved_row (bid_rows n (bid_id bid)) bid)\<rparr>)"

definition refused :: "auto_env \<Rightarrow> Bid \<Rightarrow> refusal \<Rightarrow> (node, bool \<times> Bid) py" where
  "refused A bid e =
     (let X = m_xenv (a_market A); note = pwhen (x_debug X) (logEvent (bid_id bid) EV_AUTOMATION_CONSTRAINT '''');
          put = (\<lambda>st. pseq note (pbind (with_state (now (x_env X)) st bid) (\<lambda>bid. pseq (updateBidRow bid) (pret (False, bid))))) in
      case e of
        AutomationConstraint _ \<Rightarrow> put BID_AACCEPT_FAIL
      | AutomationConstraintTemporary _ \<Rightarrow> put BID_AACCEPT_DELAY
      | AutomationError \<Rightarrow> pret (False, bid))"

text \<open>\<open>reverse_rate\<close> is the rate given for a reversed bid. The answer has the bid, whose state may have changed.\<close>

definition shouldAutoAcceptBid :: "auto_env \<Rightarrow> Offer \<Rightarrow> Bid \<Rightarrow> int option \<Rightarrow> (market, bool \<times> Bid) py" where
  "shouldAutoAcceptBid A offer bid reverse_rate =
     pbind (on_node (countQueuedActions (bid_id bid) (Some ACCEPT_BID))) (\<lambda>k.
     if k \<noteq> 0 then pret (False, bid)
     else case Option.bind (a_links A (offer_id offer)) (a_strategies A) of
       None \<Rightarrow> pret (False, bid)
     | Some strategy \<Rightarrow>
         pbind (pget (\<lambda>m. evaluate_bid A m offer bid reverse_rate strategy)) (\<lambda>verdict.
         case verdict of
           Inl e \<Rightarrow> on_node (refused A bid e)
         | Inr _ \<Rightarrow> pseq (on_node (logEvent (bid_id bid) EV_AUTOMATION_ACCEPTING_BID '''')) (pret (True, bid))))"

text \<open>Bids whose acceptance was put off are looked at again.\<close>

definition delayed_bids :: "auto_env \<Rightarrow> market \<Rightarrow> Bid list" where
  "delayed_bids A m = map without_txns (filter (\<lambda>row. in_states row [BID_AACCEPT_DELAY]) (List.map_filter (bid_rows (market_node m)) (m_bid_ids (a_market A))))"

definition check_delayed :: "auto_env \<Rightarrow> Bid \<Rightarrow> (market, unit) py" where
  "check_delayed A bid =
     pbind (pget (\<lambda>m. offer_rows (market_node m) (bid_offer_id bid))) (\<lambda>offer.
     case offer of
       None \<Rightarrow> pret ()
     | Some offer \<Rightarrow>
         pbind (shouldAutoAcceptBid A offer bid None) (\<lambda>(accept, bid).
         pwhen accept (on_node (let X = m_xenv (a_market A) in
           createAction (now (x_env X)) (duplicate_actions (x_env X)) (x_delay X) ACCEPT_BID (bid_id bid)))))"

definition checkDelayedAutoAccept :: "auto_env \<Rightarrow> (market, unit) py" where
  "checkDelayedAutoAccept A = pbind (pget (delayed_bids A)) (pfor (check_delayed A))"

section \<open>Specification vocabulary\<close>

text \<open>The bids of an offer that are accepted and not completed, and the value of these and the completed ones.\<close>

definition open_bids :: "auto_env \<Rightarrow> market \<Rightarrow> Offer \<Rightarrow> bytes list" where
  "open_bids A m offer = filter (\<lambda>b. counted_bid (market_node m) (offer_id offer) b \<and> row_state (market_node m) b \<noteq> Some (BidStates_val SWAP_COMPLETED))
     (m_bid_ids (a_market A))"

definition bids_value :: "auto_env \<Rightarrow> market \<Rightarrow> Offer \<Rightarrow> bool \<Rightarrow> int" where
  "bids_value A m offer reverse = sum_list (map (row_amount reverse (market_node m)) (filter (counted_bid (market_node m) (offer_id offer)) (m_bid_ids (a_market A))))"

text \<open>A standing offer leaves its reserve in the wallet.\<close>

definition floor_kept :: "auto_env \<Rightarrow> market \<Rightarrow> Offer \<Rightarrow> Bid \<Rightarrow> int \<Rightarrow> bool" where
  "floor_kept A m offer bid x \<longleftrightarrow>
     (\<forall>row cfrom balance. offer_was_sent offer \<and> offer_tracking m (offer_id offer) = Some row \<and> ot_mode row = OfferTrackingModes_val STANDING
        \<and> 0 < zeroIfNone (min_wallet_reserve row) \<and> Coins_of (coin_from offer) = Some cfrom \<and> m_balance (a_market A) cfrom = Inr balance
      \<longrightarrow> zeroIfNone (min_wallet_reserve row) + getOfferInFlightAmount (m_bid_ids (a_market A)) (market_node m) offer (Some (bid_id bid)) + x \<le> balance)"

text \<open>What a bid that is accepted automatically meets.\<close>

definition acceptable :: "auto_env \<Rightarrow> market \<Rightarrow> Offer \<Rightarrow> Bid \<Rightarrow> bool \<Rightarrow> strategy_opts \<Rightarrow> int \<Rightarrow> int \<Rightarrow> bool" where
  "acceptable A m offer bid reverse opts x r \<longleftrightarrow>
     now (x_env (m_xenv (a_market A))) \<le> expire_at bid
     \<and> (amount_negotiable offer \<or> x = amount_from offer) \<and> min_bid_amount offer \<le> x
     \<and> (exact_rate_only opts \<longrightarrow> ratesMatch r (offer_rate offer) (offer_rate offer))
     \<and> floor_kept A m offer bid x
     \<and> affordable (offer_tracking m (offer_id offer)) x (getOfferInFlightAmount (m_bid_ids (a_market A)) (market_node m) offer (Some (bid_id bid)))
     \<and> (offer_tracking m (offer_id offer) = None \<and> total_bids_value_multiplier opts = None \<and> 0 < amount_from offer \<and> amount_from offer < 2 ^ 53
          \<longrightarrow> bids_value A m offer reverse + x \<le> amount_from offer)
     \<and> int (length (open_bids A m offer)) < (case max_concurrent_bids opts of None \<Rightarrow> 1 | Some k \<Rightarrow> k)
     \<and> (identities (market_node m) (bid_addr bid) \<noteq> None \<longrightarrow> a_override A (bid_addr bid) \<noteq> Some (AutomationOverrideOptions_val AOO_NEVER_ACCEPT))
     \<and> (\<exists>cfrom balance. Coins_of (coin_from offer) = Some cfrom \<and> m_balance (a_market A) cfrom = Inr balance \<and> (int (length (open_bids A m offer)) + 1) * x \<le> balance)"


text \<open>The market with an event of the bid logged.\<close>

definition with_event :: "bytes \<Rightarrow> EventLogTypes \<Rightarrow> market \<Rightarrow> market" where
  "with_event b ev m = m\<lparr>market_node := (market_node m)\<lparr>events := events (market_node m) @ [(b, ev, '''')]\<rparr>\<rparr>"

text \<open>Only the state of a bid may change, and the log.\<close>

definition only_put_off :: "bytes \<Rightarrow> market \<Rightarrow> market \<Rightarrow> bool" where
  "only_put_off b m m' \<longleftrightarrow> offer_tracking m' = offer_tracking m
     \<and> market_node m' = (market_node m)\<lparr>bid_rows := bid_rows (market_node m'), events := events (market_node m')\<rparr>
     \<and> (\<forall>c. c \<noteq> b \<longrightarrow> bid_rows (market_node m') c = bid_rows (market_node m) c)
     \<and> (bid_rows (market_node m') b = bid_rows (market_node m) b
          \<or> (\<exists>row. bid_rows (market_node m') b = Some row \<and> in_states row [BID_AACCEPT_FAIL, BID_AACCEPT_DELAY]))"

text \<open>A strategy with the defaults, for the offers of the example market, which are not tracked here.\<close>

definition default_strategy :: AutomationStrategy where
  "default_strategy = \<lparr>only_known_identities = False, strategy_data = Inr \<lparr>exact_rate_only = False, total_bids_value_multiplier = None, max_concurrent_bids = None\<rparr>\<rparr>"

definition auto_example :: auto_env where
  "auto_example = \<lparr>a_market = market_example, a_links = \<lambda>_. Some 1, a_strategies = [1 \<mapsto> default_strategy], a_override = \<lambda>_. None\<rparr>"

definition untracked_market :: market where
  "untracked_market = one_time_market\<lparr>offer_tracking := \<lambda>_. None\<rparr>"

definition waiting_bid :: Bid where
  "waiting_bid = (small_bid [1] 4 BID_RECEIVED)\<lparr>expire_at := 2000000000\<rparr>"

text \<open>The statistics after bids ended one after the other.\<close>

fun bids_ended :: "(string \<times> Bid) list \<Rightarrow> (node, unit) py" where
  "bids_ended [] = pret ()"
| "bids_ended ((address, bid) # rest) = pseq (updateIdentityBidState address bid) (bids_ended rest)"

definition known_node :: node where
  "known_node = blank_node\<lparr>offer_rows := \<lambda>_. Some (blank_offer\<lparr>addr_from := ''offerer''\<rparr>)\<rparr>"

definition done_bid :: Bid where
  "done_bid = (blank_bid [1])\<lparr>bid_addr := ''bidder'', state := Some (BidStates_val SWAP_COMPLETED)\<rparr>"


text \<open>An offer of 10 XMR units against 3 BTC units, whose bids are reversed, and a bid that takes it but had to wait.\<close>

definition reversed_offer :: Offer where
  "reversed_offer = small_offer\<lparr>coin_from := Coins_val XMR, coin_to := Coins_val BTC, amount_negotiable := False\<rparr>"

definition reversed_bid :: Bid where
  "reversed_bid = (small_bid [1] 3 BID_AACCEPT_DELAY)\<lparr>amount_to := 10, expire_at := 2000000000\<rparr>"

definition reversed_market :: market where
  "reversed_market = \<lparr>market_node = blank_node\<lparr>bid_rows := [[1] \<mapsto> reversed_bid], offer_rows := \<lambda>_. Some reversed_offer\<rparr>, offer_tracking = \<lambda>_. None\<rparr>"


section \<open>Facts\<close>

lemma bind_refusal_ok [simp]: "bind_refusal r f = Inr y \<longleftrightarrow> (\<exists>x. r = Inr x \<and> f x = Inr y)"
  by (cases r) (simp_all add: bind_refusal_def)

lemma require_ok [simp]: "require c msg = Inr u \<longleftrightarrow> c"
  by (simp add: require_def)

lemma lift_error_ok [simp]: "lift_error r = Inr x \<longleftrightarrow> r = Inr x"
  by (cases r) (simp_all add: lift_error_def)

lemma bids_split:
  assumes "getCompletedAndActiveBidsValue (m_bid_ids (a_market A)) (market_node m) offer reverse = (active_bids, total_value)"
  shows "total_value = bids_value A m offer reverse"
    and "length (filter (\<lambda>(b, x, s). s \<noteq> Some (BidStates_val SWAP_COMPLETED)) active_bids) = length (open_bids A m offer)"
proof -
  have bids: "active_bids = map (\<lambda>b. (b, row_amount reverse (market_node m) b, row_state (market_node m) b))
      (filter (counted_bid (market_node m) (offer_id offer)) (m_bid_ids (a_market A)))"
    and sum: "total_value = sum_list (map (\<lambda>(b, x, s). x) active_bids)"
    using assms by (auto simp: getCompletedAndActiveBidsValue_def Let_def)
  show "total_value = bids_value A m offer reverse"
    by (simp add: sum bids bids_value_def comp_def)
  show "length (filter (\<lambda>(b, x, s). s \<noteq> Some (BidStates_val SWAP_COMPLETED)) active_bids) = length (open_bids A m offer)"
    by (simp add: bids filter_map comp_def open_bids_def conj_commute del: BidStates_val.simps)
qed

lemma budget_allows_affordable: "offer_budget_allows row x flight \<longleftrightarrow> affordable row x flight"
  by (cases row) (auto simp: offer_budget_allows_def offer_tracking_is_exhausted_def offer_tracking_remaining_def affordable_def Let_def)

lemma floor_validated: "validateOfferWalletFloor (a_market A) m offer x (Some (bid_id bid)) = Inr () \<Longrightarrow> floor_kept A m offer bid x"
  by (auto simp: validateOfferWalletFloor_def floor_kept_def Let_def of_option_def split: if_splits)

lemma true_divide_exact:
  assumes "0 < c" "c < 2 ^ 53" "0 < b"
  obtains x y where "true_divide (c * b) b = Inr (x, y)" "x = c * y" "0 < y"
proof -
  let ?q = "ulp_exponent (c * b) b"
  have pos: "0 < c * b" "sgn (c * b) * sgn b = 1" "\<bar>c * b\<bar> = c * b" "\<bar>b\<bar> = b"
    using assms by (simp_all add: sgn_mult)
  have "c * b < b * 2 ^ 53"
    using assms by simp
  then have "?q < 1"
    using ulp_exponent_small [OF pos(1) assms(3)] by fastforce
  show thesis
  proof (cases "?q = 0")
    case True
    then have "true_divide (c * b) b = Inr (c, 1)"
      using pos assms round_half_even_exact [OF assms(3), of c] by (simp add: true_divide_def Let_def mult.commute)
    then show thesis
      using that by simp
  next
    case False
    then have "true_divide (c * b) b = Inr (c * 2 ^ nat (- ?q), 2 ^ nat (- ?q))"
      using \<open>?q < 1\<close> pos assms round_half_even_exact [OF assms(3), of "c * 2 ^ nat (- ?q)"] by (simp add: true_divide_def Let_def mult_ac)
    then show thesis
      using that by simp
  qed
qed

lemma over_value_default:
  assumes "0 < a" "a < 2 ^ 53"
  shows "over_value (JFloat (1, 1)) a wanted = Inr (a < wanted)"
proof -
  obtain x y where one: "true_divide (a * 1) 1 = Inr (x, y)" "x = a * y" "0 < y"
    by (rule true_divide_exact [OF assms, of 1]) auto
  obtain u v where two: "true_divide (a * y) y = Inr (u, v)" "u = a * v" "0 < v"
    by (rule true_divide_exact [OF assms one(3)])
  show ?thesis
    using one two by (simp add: over_value_def)
qed

lemma evaluated_acceptable:
  assumes "evaluate_bid A m offer bid reverse_rate strategy = Inr u"
  shows "\<exists>opts. strategy_data strategy = Inr opts
    \<and> acceptable A m offer bid (reverse_rate \<noteq> None) opts (if reverse_rate \<noteq> None then amount_to bid else amount bid)
      (case reverse_rate of None \<Rightarrow> rate bid | Some r \<Rightarrow> r)"
proof -
  let ?rev = "reverse_rate \<noteq> None"
  let ?r = "case reverse_rate of None \<Rightarrow> rate bid | Some r \<Rightarrow> r"
  let ?x = "if ?rev then amount_to bid else amount bid"
  obtain bids value_sum where split: "getCompletedAndActiveBidsValue (m_bid_ids (a_market A)) (market_node m) offer ?rev = (bids, value_sum)"
    by fastforce
  obtain opts where opts: "strategy_data strategy = Inr opts"
    and terms: "check_terms A m offer bid opts ?x ?r = Inr ()"
    and val: "check_value m offer opts (bids_value A m offer ?rev) ?x = Inr ()"
    and cap: "check_capacity A m offer bid strategy opts (int (length (open_bids A m offer))) ?x = Inr ()"
    using assms split bids_split [OF split] by (auto simp: evaluate_bid_def Let_def simp del: BidStates_val.simps)
  have "bids_value A m offer ?rev + ?x \<le> amount_from offer"
    if "offer_tracking m (offer_id offer) = None" "total_bids_value_multiplier opts = None" "0 < amount_from offer" "amount_from offer < 2 ^ 53"
    using val that over_value_default [OF that(3,4)] by (simp add: check_value_def)
  moreover have "affordable (offer_tracking m (offer_id offer)) ?x (getOfferInFlightAmount (m_bid_ids (a_market A)) (market_node m) offer (Some (bid_id bid)))"
    using terms budget_allows_affordable by (auto simp: check_terms_def Let_def)
  moreover have "floor_kept A m offer bid ?x"
    using terms by (intro floor_validated) (simp add: check_terms_def Let_def)
  ultimately have "acceptable A m offer bid ?rev opts ?x ?r"
    using terms cap
    by (auto simp: acceptable_def check_terms_def check_capacity_def Let_def evaluateKnownIdentityForAutoAccept_def split: if_splits option.splits sum.splits)
  then show ?thesis
    using opts by blast
qed

lemma on_node_run: "on_node f m = (fst (f (market_node m)), m\<lparr>market_node := snd (f (market_node m))\<rparr>)"
  by (simp add: on_node_def split_beta)

lemma auto_accept_evaluated:
  assumes "shouldAutoAcceptBid A offer bid reverse_rate m = (Inr (True, bid'), m')"
  obtains i strategy where "bid' = bid" "m' = with_event (bid_id bid) EV_AUTOMATION_ACCEPTING_BID m" "\<not> queued ACCEPT_BID (bid_id bid) (market_node m)"
    "a_links A (offer_id offer) = Some i" "a_strategies A i = Some strategy" "evaluate_bid A m offer bid reverse_rate strategy = Inr ()"
proof -
  obtain k where k: "countQueuedActions (bid_id bid) (Some ACCEPT_BID) (market_node m) = (Inr k, market_node m)" "k = 0 \<Longrightarrow> \<not> queued ACCEPT_BID (bid_id bid) (market_node m)"
    by (auto simp: countQueuedActions_def pget_def queued_def filter_empty_conv)
  have no: "on_node (refused A bid e) m \<noteq> (Inr (True, bid'), m')" for e
    by (cases e) (auto simp: on_node_run refused_def Let_def pseq_def pbind_def pret_def split: sum.splits prod.splits)
  show thesis
    using assms k no that
    by (auto simp: shouldAutoAcceptBid_def pbind_def pseq_def pget_def pret_def on_node_run logEvent_def pmod_def with_event_def Option.bind_eq_Some_conv
        split: if_splits option.splits sum.splits)
qed

text \<open>C10. A bid is accepted without the user only on the terms of the offer and of its strategy. If \<open>shouldAutoAcceptBid\<close> says yes, it changed nothing but the
  log, no acceptance was queued, and an active strategy is linked to the offer under which the bid is not expired, has the offer's amount if that is fixed and at least its minimum,
  has the rate asked for, keeps a standing offer's reserve in the wallet, fits what is left of a tracked offer's budget, or with the default multiplier (amounts below \<open>2 ^ 53\<close>)
  fits with all accepted bids into the offer; fewer bids than allowed are open, the bidder is not marked to be refused, and the wallet holds enough for all open bids of this size.\<close>

theorem auto_accept_safe:
  assumes "shouldAutoAcceptBid A offer bid reverse_rate m = (Inr (True, bid'), m')"
  shows "bid' = bid \<and> m' = with_event (bid_id bid) EV_AUTOMATION_ACCEPTING_BID m \<and> \<not> queued ACCEPT_BID (bid_id bid) (market_node m)
    \<and> (\<exists>i strategy opts. a_links A (offer_id offer) = Some i \<and> a_strategies A i = Some strategy \<and> strategy_data strategy = Inr opts
         \<and> acceptable A m offer bid (reverse_rate \<noteq> None) opts (if reverse_rate \<noteq> None then amount_to bid else amount bid)
             (case reverse_rate of None \<Rightarrow> rate bid | Some r \<Rightarrow> r))"
  using assms by (rule auto_accept_evaluated) (use evaluated_acceptable in blast)

theorem auto_accept_safe_witness:
  "acceptable auto_example untracked_market small_offer waiting_bid False
     \<lparr>exact_rate_only = False, total_bids_value_multiplier = None, max_concurrent_bids = None\<rparr> 4 (rate waiting_bid)"
proof -
  have "evaluate_bid auto_example untracked_market small_offer waiting_bid None default_strategy = Inr ()" "actions (market_node untracked_market) = []"
    by code_simp+
  then have "shouldAutoAcceptBid auto_example small_offer waiting_bid None untracked_market
    = (Inr (True, waiting_bid), with_event (bid_id waiting_bid) EV_AUTOMATION_ACCEPTING_BID untracked_market)"
    by (simp add: shouldAutoAcceptBid_def countQueuedActions_def pget_def pbind_def pseq_def pret_def on_node_run logEvent_def pmod_def with_event_def auto_example_def)
  from auto_accept_safe [OF this] show ?thesis
    by (simp add: auto_example_def default_strategy_def waiting_bid_def small_bid_def del: BidStates_val.simps)
qed

lemma refused_put_off:
  "only_put_off (bid_id bid) m (snd (on_node (refused A bid e) m)) \<and> (\<forall>x. fst (on_node (refused A bid e) m) = Inr x \<longrightarrow> \<not> fst x)"
  by (cases e) (auto simp: on_node_run refused_def Let_def pseq_def pbind_def pret_def pwhen_def logEvent_def pmod_def updateBidRow_def with_state_def praise_def
    only_put_off_def in_states_def saved_row_def setState_def split: sum.splits prod.splits option.splits if_splits)

lemma auto_refusal_frame:
  assumes "shouldAutoAcceptBid A offer bid reverse_rate m = (r, m')" "\<And>bid'. r \<noteq> Inr (True, bid')"
  shows "only_put_off (bid_id bid) m m'"
proof -
  have same: "only_put_off (bid_id bid) m m"
    by (simp add: only_put_off_def)
  show ?thesis
  proof (cases "countQueuedActions (bid_id bid) (Some ACCEPT_BID) (market_node m)")
    case (Pair k n)
    then have "n = market_node m" "\<exists>j. k = Inr j"
      by (auto simp: countQueuedActions_def pget_def)
    with Pair assms same refused_put_off [of bid m A] show ?thesis
      by (auto simp: shouldAutoAcceptBid_def pbind_def pseq_def pget_def pret_def on_node_run logEvent_def pmod_def split: if_splits option.splits sum.splits)
  qed
qed

lemma count_bidder [simp]: "num_recv_bids_successful (count_bid bid False i) = num_recv_bids_successful i"
  by (simp add: count_bid_def)

lemma ended_statistics:
  assumes "updateIdentityBidState address bid n = (r, n')" "\<And>offer. offer_rows n (bid_offer_id bid) = Some offer \<Longrightarrow> addr_from offer \<noteq> a"
    and "\<And>i. identities n a = Some i \<Longrightarrow> num_recv_bids_successful i = None"
  shows "offer_rows n' = offer_rows n \<and> (\<forall>i. identities n' a = Some i \<longrightarrow> num_recv_bids_successful i = None)"
proof (cases "offer_rows n (bid_offer_id bid)")
  case None
  then show ?thesis
    using assms by (simp add: updateIdentityBidState_def pbind_def pget_def plift_def of_option_def)
next
  case (Some offer)
  have fresh: "num_recv_bids_successful (case identities n a of None \<Rightarrow> new_identity | Some i \<Rightarrow> i) = None"
    using assms(3) by (simp add: new_identity_def split: option.split)
  have "n' = n\<lparr>identities := identities n'\<rparr>" "identities n' a = identities n a \<or> identities n' a = Some (count_bid bid False (case identities n a of None \<Rightarrow> new_identity | Some i \<Rightarrow> i))"
    using assms(1) Some assms(2) [OF Some] by (auto simp: updateIdentityBidState_def pbind_def pget_def plift_def of_option_def pseq_def pmod_def pret_def)
  then show ?thesis
    using fresh assms(3) by (metis count_bidder node.select_convs option.inject node.surjective node.update_convs)
qed

lemma bidder_never_successful:
  assumes "\<forall>e \<in> set ends. \<forall>offer. offer_rows n (bid_offer_id (snd e)) = Some offer \<longrightarrow> addr_from offer \<noteq> a"
    and "\<forall>i. identities n a = Some i \<longrightarrow> num_recv_bids_successful i = None"
    and "bids_ended ends n = (r, n')" "identities n' a = Some i"
  shows "num_recv_bids_successful i = None"
  using assms
proof (induction ends arbitrary: n)
  case Nil
  then show ?case by (simp add: pret_def)
next
  case (Cons e rest)
  obtain r1 n1 where step: "updateIdentityBidState (fst e) (snd e) n = (r1, n1)" by fastforce
  have "\<And>offer. offer_rows n (bid_offer_id (snd e)) = Some offer \<Longrightarrow> addr_from offer \<noteq> a" "\<And>i. identities n a = Some i \<Longrightarrow> num_recv_bids_successful i = None"
    using Cons.prems(1,2) by simp_all
  then have keep: "offer_rows n1 = offer_rows n" "\<forall>i. identities n1 a = Some i \<longrightarrow> num_recv_bids_successful i = None"
    using ended_statistics [OF step, of a] by simp_all
  have run: "bids_ended (e # rest) n = (case r1 of Inl x \<Rightarrow> (Inl x, n1) | Inr _ \<Rightarrow> bids_ended rest n1)"
    by (cases e) (use step in \<open>simp add: pseq_def pbind_def split: sum.split\<close>)
  show ?case
  proof (cases r1)
    case Inl
    then show ?thesis using Cons.prems(3,4) run keep by simp
  next
    case Inr
    then have "bids_ended rest n1 = (r, n')"
      using Cons.prems(3) run by simp
    then show ?thesis
      using Cons.IH [of n1] Cons.prems(1,4) keep by simp
  qed
qed

text \<open>An address that only bids never becomes known. A strategy can restrict automatic acceptance to known identities, and
  \<open>evaluateKnownIdentityForAutoAccept\<close> asks for received bids that were successful; the statistics count a bidder's successes as sent bids. However many bids of an address end, in
  whatever states, as long as it made none of the offers and is not marked to be accepted always, its next bid is refused.\<close>

theorem known_bidder_refused:
  assumes "\<forall>e \<in> set ends. \<forall>offer. offer_rows n (bid_offer_id (snd e)) = Some offer \<longrightarrow> addr_from offer \<noteq> a"
    and "identities n a = None" "bids_ended ends n = (Inr (), n')"
    and "only_known_identities strategy" "override \<noteq> Some (AutomationOverrideOptions_val AOO_ALWAYS_ACCEPT)"
  shows "evaluateKnownIdentityForAutoAccept strategy override (identities n' a) \<noteq> Inr ()"
proof (cases "identities n' a")
  case None
  then show ?thesis
    using assms(4) by (simp add: evaluateKnownIdentityForAutoAccept_def)
next
  case (Some i)
  then have "num_recv_bids_successful i = None"
    using bidder_never_successful [OF assms(1) _ assms(3)] assms(2) by simp
  then show ?thesis
    using Some assms(4,5) by (simp add: evaluateKnownIdentityForAutoAccept_def)
qed

theorem known_bidder_refused_witness:
  "\<exists>n' i. bids_ended [(''bidder'', done_bid), (''bidder'', done_bid)] known_node = (Inr (), n') \<and> identities n' ''bidder'' = Some i \<and> num_sent_bids_successful i = Some 2
     \<and> evaluateKnownIdentityForAutoAccept (default_strategy\<lparr>only_known_identities := True\<rparr>) None (identities n' ''bidder'') \<noteq> Inr ()"
proof -
  let ?ends = "[(''bidder'', done_bid), (''bidder'', done_bid)]"
  let ?n' = "snd (bids_ended ?ends known_node)"
  have run: "bids_ended ?ends known_node = (Inr (), ?n')" and count: "map_option num_sent_bids_successful (identities ?n' ''bidder'') = Some (Some 2)"
    by (simp_all add: known_node_def done_bid_def updateIdentityBidState_def pbind_def pget_def plift_def of_option_def pseq_def pmod_def pret_def count_bid_def in_states_def
        blank_node_def new_identity_def zeroIfNone_def blank_offer_def)
  have "evaluateKnownIdentityForAutoAccept (default_strategy\<lparr>only_known_identities := True\<rparr>) None (identities ?n' ''bidder'') \<noteq> Inr ()"
    by (rule known_bidder_refused [OF _ _ run]) (simp_all add: known_node_def blank_node_def)
  then show ?thesis
    using run count by auto
qed

lemma refused_evaluated:
  assumes "a_links A (offer_id offer) = Some i" "a_strategies A i = Some strategy" "actions (market_node m) = []"
    and "evaluate_bid A m offer bid reverse_rate strategy = Inl e"
  shows "shouldAutoAcceptBid A offer bid reverse_rate m = on_node (refused A bid e) m"
  using assms by (simp add: shouldAutoAcceptBid_def countQueuedActions_def pget_def pbind_def pret_def on_node_run)

lemma accepted_evaluated:
  assumes "a_links A (offer_id offer) = Some i" "a_strategies A i = Some strategy" "actions (market_node m) = []"
    and "evaluate_bid A m offer bid reverse_rate strategy = Inr ()"
  shows "shouldAutoAcceptBid A offer bid reverse_rate m = (Inr (True, bid), with_event (bid_id bid) EV_AUTOMATION_ACCEPTING_BID m)"
  using assms by (simp add: shouldAutoAcceptBid_def countQueuedActions_def pget_def pbind_def pret_def on_node_run pseq_def logEvent_def pmod_def with_event_def)

lemma refused_for_good:
  assumes "0 \<le> now (x_env (m_xenv (a_market A)))" "now (x_env (m_xenv (a_market A))) < 2 ^ 64" "bid_rows n (bid_id bid) \<noteq> None"
  obtains bid' n' row where "refused A bid (AutomationConstraint t) n = (Inr (False, bid'), n')" "bid_rows n' (bid_id bid) = Some row"
    "state row = Some (BidStates_val BID_AACCEPT_FAIL)"
proof -
  obtain evs where noted: "pwhen (x_debug (m_xenv (a_market A))) (logEvent (bid_id bid) EV_AUTOMATION_CONSTRAINT '''') n = (Inr (), n\<lparr>events := evs\<rparr>)"
    by (cases "x_debug (m_xenv (a_market A))") (auto simp: pwhen_def logEvent_def pmod_def pret_def dest: meta_spec [of _ "events n"])
  obtain bid' where bid': "with_state (now (x_env (m_xenv (a_market A)))) BID_AACCEPT_FAIL bid (n\<lparr>events := evs\<rparr>) = (Inr bid', n\<lparr>events := evs\<rparr>)"
    "state bid' = Some (BidStates_val BID_AACCEPT_FAIL)" "bid_id bid' = bid_id bid"
    by (rule with_state_row [OF assms(1,2)])
  obtain row where "bid_rows n (bid_id bid) = Some row"
    using assms(3) by auto
  then show thesis
    using that bid'(2,3)
    by (simp add: refused_def Let_def pseq_def pbind_def noted bid'(1) pret_def pmod_def updateBidRow_def saved_row_def del: BidStates_val.simps)
qed

lemma reversed_evaluated:
  "evaluate_bid auto_example reversed_market reversed_offer (without_txns reversed_bid) (Some 5) default_strategy = Inr ()"
  "evaluate_bid auto_example reversed_market reversed_offer (without_txns reversed_bid) None default_strategy = Inl (AutomationConstraint ''Need exact amount match'')"
  by code_simp+

lemma reversed_example [simp]:
  "a_links auto_example i = Some 1" "a_strategies auto_example 1 = Some default_strategy" "actions (market_node reversed_market) = []"
  "offer_rows (market_node reversed_market) i = Some reversed_offer" "bid_rows (market_node reversed_market) = [[1] \<mapsto> reversed_bid]"
  "bid_id (without_txns reversed_bid) = [1]" "offer_tracking reversed_market = (\<lambda>_. None)"
  by (simp_all add: auto_example_def reversed_market_def blank_node_def reversed_bid_def small_bid_def without_txns_def blank_bid_def)

text \<open>A reversed bid that had to wait is judged by the wrong amount. The amounts of a reversed bid are exchanged in its row; \<open>processADSBidReversed\<close> tells
  \<open>shouldAutoAcceptBid\<close> so, \<open>checkDelayedAutoAccept\<close> does not. In an example the bid takes the whole offer and would be accepted as a reversed bid, but the delayed check
  refuses it for good.\<close>

theorem delayed_reverse_misjudged:
  "reverse_offer reversed_offer \<and> delayed_bids auto_example reversed_market = [without_txns reversed_bid]
   \<and> fst (shouldAutoAcceptBid auto_example reversed_offer (without_txns reversed_bid) (Some 5) reversed_market) = Inr (True, without_txns reversed_bid)
   \<and> fst (checkDelayedAutoAccept auto_example reversed_market) = Inr ()
   \<and> map_option state (bid_rows (market_node (snd (checkDelayedAutoAccept auto_example reversed_market))) [1]) = Some (Some (BidStates_val BID_AACCEPT_FAIL))"
proof (intro conjI)
  let ?bid = "without_txns reversed_bid"
  show "reverse_offer reversed_offer"
    by code_simp
  show delayed: "delayed_bids auto_example reversed_market = [?bid]"
    by (simp add: delayed_bids_def auto_example_def market_example_def List.map_filter_simps in_states_def reversed_bid_def small_bid_def)
  show "fst (shouldAutoAcceptBid auto_example reversed_offer ?bid (Some 5) reversed_market) = Inr (True, ?bid)"
    by (simp add: accepted_evaluated [OF _ _ _ reversed_evaluated(1)])
  have time: "0 \<le> now (x_env (m_xenv (a_market auto_example)))" "now (x_env (m_xenv (a_market auto_example))) < 2 ^ 64"
    by code_simp+
  obtain bid' n' row where n': "refused auto_example ?bid (AutomationConstraint ''Need exact amount match'') (market_node reversed_market) = (Inr (False, bid'), n')"
    "bid_rows n' [1] = Some row" "state row = Some (BidStates_val BID_AACCEPT_FAIL)"
    by (rule refused_for_good [OF time, of "market_node reversed_market" ?bid]) auto
  have "checkDelayedAutoAccept auto_example reversed_market = (Inr (), reversed_market\<lparr>market_node := n'\<rparr>)"
    using n'(1) delayed
    by (simp add: checkDelayedAutoAccept_def check_delayed_def pbind_def pget_def pseq_def pret_def pwhen_def on_node_run
        refused_evaluated [OF _ _ _ reversed_evaluated(2)])
  then show "fst (checkDelayedAutoAccept auto_example reversed_market) = Inr ()"
    "map_option state (bid_rows (market_node (snd (checkDelayedAutoAccept auto_example reversed_market))) [1]) = Some (Some (BidStates_val BID_AACCEPT_FAIL))"
    using n' by simp_all
qed

end
