(* ===== verification/Smsg.thy ===== *)
theory Smsg
  imports Effects
begin

text \<open>
  Encrypted messages: \<open>src/basicswap/util/smsg.py\<close>. The layout of a message, its proof of work, encryption and decryption; the curve, the cipher and the
  hash functions are the fields of a record, of which the theorem asks what their packages promise. The loop of the proof of work is bounded as in the code.
\<close>

section \<open>Definitions\<close>

subsection \<open>Primitives\<close>

text \<open>The curve, the block cipher and the hash functions, of the packages \<open>coincurve\<close>, \<open>Crypto\<close>, \<open>hashlib\<close> and \<open>hmac\<close>.\<close>

record primitives =
  from_secret :: "bytes \<Rightarrow> bytes res"
  ecdh :: "bytes \<Rightarrow> bytes \<Rightarrow> bytes res"
  sign_recoverable :: "bytes \<Rightarrow> bytes \<Rightarrow> bytes res"
  from_signature_and_message :: "bytes \<Rightarrow> bytes \<Rightarrow> bytes res"
  cbc_encrypt :: "bytes \<Rightarrow> bytes \<Rightarrow> bytes \<Rightarrow> bytes res"
  cbc_decrypt :: "bytes \<Rightarrow> bytes \<Rightarrow> bytes \<Rightarrow> bytes res"
  sha256 :: "bytes \<Rightarrow> bytes"
  sha512 :: "bytes \<Rightarrow> bytes"
  hash160 :: "bytes \<Rightarrow> bytes"
  ripemd160 :: "bytes \<Rightarrow> bytes"
  hmac256 :: "bytes \<Rightarrow> bytes \<Rightarrow> bytes"

definition aes_pad :: "bytes \<Rightarrow> bytes" where
  "aes_pad s = (let c = 16 - length s mod 16 in s @ replicate c (of_nat c))"

definition aes_unpad :: "bytes \<Rightarrow> bytes res" where
  "aes_unpad s = (if s = [] then Inl IndexError else let k = unat (last s) in Inr (if k = 0 then [] else take (length s - k) s))"

definition aes_encrypt :: "primitives \<Rightarrow> bytes \<Rightarrow> bytes \<Rightarrow> bytes \<Rightarrow> bytes res" where
  "aes_encrypt P raw pass_data iv =
     rbind (ensure (length pass_data = 32) ''Invalid pass_data size'') (\<lambda>_.
     rbind (ensure (length iv = 16) ''Invalid iv size'') (\<lambda>_.
     cbc_encrypt P pass_data iv (aes_pad raw)))"

definition aes_decrypt :: "primitives \<Rightarrow> bytes \<Rightarrow> bytes \<Rightarrow> bytes \<Rightarrow> bytes res" where
  "aes_decrypt P enc pass_data iv =
     rbind (ensure (length pass_data = 32) ''Invalid pass_data size'') (\<lambda>_.
     rbind (ensure (length iv = 16) ''Invalid iv size'') (\<lambda>_.
     rbind (cbc_decrypt P pass_data iv enc) aes_unpad))"

subsection \<open>The header of a message\<close>

definition SMSG_MIN_TTL :: int where
  "SMSG_MIN_TTL = 60 * 60"

definition SMSG_HDR_LEN :: nat where
  "SMSG_HDR_LEN = 108"

definition after_header :: "bytes \<Rightarrow> unit res" where
  "after_header smsg_message = ensure (length smsg_message > SMSG_HDR_LEN) ''smsg_message shorter than header''"

definition smsgGetTimestamp :: "bytes \<Rightarrow> int res" where
  "smsgGetTimestamp smsg_message = rbind (after_header smsg_message) (\<lambda>_. Inr (from_le (bslice smsg_message 11 19)))"

definition smsgGetTTL :: "bytes \<Rightarrow> int res" where
  "smsgGetTTL smsg_message = rbind (after_header smsg_message) (\<lambda>_. Inr (from_le (bslice smsg_message 19 23)))"

definition smsgGetPOWHash :: "primitives \<Rightarrow> bytes \<Rightarrow> bytes res" where
  "smsgGetPOWHash P smsg_message =
     rbind (after_header smsg_message) (\<lambda>_.
     let nonce = bslice smsg_message 4 8; iv = concat (replicate 8 nonce)
     in Inr (hmac256 P iv (drop 4 smsg_message)))"

definition smsgGetID :: "primitives \<Rightarrow> bytes \<Rightarrow> bytes res" where
  "smsgGetID P smsg_message =
     rbind (after_header smsg_message) (\<lambda>_.
     rbind (smsgGetTimestamp smsg_message) (\<lambda>smsg_timestamp.
     rbind (to_bytes_be 8 smsg_timestamp) (\<lambda>t.
     Inr (t @ ripemd160 P (drop 8 smsg_message)))))"

definition uint256_from_compact :: "int \<Rightarrow> int res" where
  "uint256_from_compact c =
     (let nbytes = drop_bit 24 c AND 0xFF; shift = 8 * (nbytes - 3)
      in if shift < 0 then Inl (ValueError ''negative shift count'') else Inr (push_bit (nat shift) (c AND 0xFFFFFF)))"

definition uint256_from_str :: "bytes \<Rightarrow> int" where
  "uint256_from_str s = from_le (take 32 s)"

subsection \<open>Encryption\<close>

text \<open>The proof of work: \<open>for i in range(1000000)\<close>, a new nonce in every round.\<close>

primrec set_pow :: "primitives \<Rightarrow> int \<Rightarrow> nat \<Rightarrow> bytes \<Rightarrow> bytes \<Rightarrow> bytes res" where
  "set_pow P target 0 smsg_nonce smsg_message = Inl (ValueError ''Failed to set POW hash.'')"
| "set_pow P target (Suc i) smsg_nonce smsg_message =
     rbind (smsgGetPOWHash P smsg_message) (\<lambda>pow_hash.
     if uint256_from_str pow_hash > target then
       rbind (to_bytes_le 4 (from_le smsg_nonce + 1)) (\<lambda>smsg_nonce.
       set_pow P target i smsg_nonce (take 4 pow_hash @ smsg_nonce @ drop 8 smsg_message))
     else Inr (take 4 pow_hash @ drop 4 smsg_message))"

text \<open>The secret of the message key and the initialisation vector: derived, or random as in \<open>drawn\<close>.\<close>

definition message_secret :: "primitives \<Rightarrow> bytes \<times> bytes \<Rightarrow> bool \<Rightarrow> bytes \<Rightarrow> bytes \<Rightarrow> bytes \<Rightarrow> int option \<Rightarrow> (bytes \<times> bytes) res" where
  "message_secret P drawn deterministic privkey_from pubkey_to payload smsg_timestamp =
     (if deterministic then
        case smsg_timestamp of
          None \<Rightarrow> Inl (ValueError ''Missing smsg_timestamp'')
        | Some t \<Rightarrow>
            rbind (to_bytes_be 8 t) (\<lambda>t.
            let r = sha256 P (map of_char ''smsg'' @ privkey_from @ pubkey_to @ payload @ t)
            in Inr (r, take 16 (sha256 P (map of_char ''smsg_iv'' @ r))))
      else Inr drawn)"

definition plaintext_header :: "int \<Rightarrow> bytes res" where
  "plaintext_header payload_format =
     (if payload_format = 2 then Inr [249, 0] else if payload_format = 1 then Inr [0] else Inl (ValueError ''Unknown payload format.''))"

definition message_mac :: "primitives \<Rightarrow> bytes \<Rightarrow> int \<Rightarrow> bytes \<Rightarrow> bytes \<Rightarrow> bytes res" where
  "message_mac P key_m smsg_timestamp smsg_iv ciphertext =
     rbind (to_bytes_le 8 smsg_timestamp) (\<lambda>t. Inr (hmac256 P key_m (t @ smsg_iv @ ciphertext)))"

definition message_bytes :: "int \<Rightarrow> int \<Rightarrow> bytes \<Rightarrow> bytes \<Rightarrow> bytes \<Rightarrow> bytes \<Rightarrow> bytes res" where
  "message_bytes smsg_timestamp smsg_ttl smsg_iv R mac ciphertext =
     rbind (to_bytes_le 8 smsg_timestamp) (\<lambda>t.
     rbind (to_bytes_le 4 smsg_ttl) (\<lambda>ttl.
     rbind (to_bytes_le 4 (int (length ciphertext))) (\<lambda>l.
     Inr (replicate 4 0 @ replicate 4 0 @ [2, 1] @ [0] @ t @ ttl @ smsg_iv @ R @ mac @ l @ ciphertext))))"

definition smsgEncrypt :: "primitives \<Rightarrow> bytes \<times> bytes \<Rightarrow> int \<Rightarrow> bytes \<Rightarrow> bytes \<Rightarrow> bytes \<Rightarrow> int option \<Rightarrow> bool \<Rightarrow> int \<Rightarrow> int \<Rightarrow> int \<Rightarrow> bytes res" where
  "smsgEncrypt P drawn clock privkey_from pubkey_to payload smsg_timestamp deterministic payload_format smsg_ttl difficulty_target =
     rbind (message_secret P drawn deterministic privkey_from pubkey_to payload smsg_timestamp) (\<lambda>(r, smsg_iv).
     let time = (case smsg_timestamp of None \<Rightarrow> clock | Some t \<Rightarrow> t) in
     rbind (from_secret P r) (\<lambda>R.
     rbind (ecdh P r pubkey_to) (\<lambda>p.
     let H = sha512 P p; key_e = take 32 H; key_m = drop 32 H; payload_hash = sha256 P (sha256 P payload) in
     rbind (sign_recoverable P privkey_from payload_hash) (\<lambda>signature.
     rbind (if 64 < length signature then Inr (signature ! 64) else Inl IndexError) (\<lambda>recid.
     rbind (if 27 + uint recid + 4 < 256 then Inr [of_int (27 + uint recid + 4)] else Inl (ValueError ''bytes must be in range(0, 256)'')) (\<lambda>head.
     rbind (from_secret P privkey_from) (\<lambda>pubkey_from.
     rbind (plaintext_header payload_format) (\<lambda>start.
     rbind (to_bytes_le 4 (int (length payload))) (\<lambda>len_payload.
     rbind (aes_encrypt P (start @ hash160 P pubkey_from @ head @ take 64 signature @ len_payload @ payload) key_e smsg_iv) (\<lambda>ciphertext.
     rbind (message_mac P key_m time smsg_iv ciphertext) (\<lambda>mac.
     rbind (ensure (length R = 33) ''Invalid R length'') (\<lambda>_.
     rbind (ensure (length mac = 32) ''Invalid MAC length'') (\<lambda>_.
     rbind (message_bytes time smsg_ttl smsg_iv R mac ciphertext) (\<lambda>smsg_message.
     rbind (uint256_from_compact difficulty_target) (\<lambda>target.
     set_pow P target 1000000 (replicate 4 0) smsg_message)))))))))))))))"

subsection \<open>Decryption\<close>

text \<open>The answer with \<open>output_dict\<close>; without it only the payload is returned.\<close>

record decrypted =
  d_msgid :: bytes
  d_sent :: int
  d_payload :: bytes
  d_pubkey_from :: bytes

text \<open>Where the sender's key hash starts in the plaintext.\<close>

definition plaintext_start :: "bytes \<Rightarrow> nat res" where
  "plaintext_start plaintext =
     (case plaintext of
        [] \<Rightarrow> Inl IndexError
      | version # rest \<Rightarrow>
          if version = 249 then
            (case rest of
               [] \<Rightarrow> Inl IndexError
             | compressed # _ \<Rightarrow> rbind (ensure (compressed = 0) ''Compressed flag is set with version 249'') (\<lambda>_. Inr 2))
          else Inr 1)"

definition check_signature :: "primitives \<Rightarrow> bytes \<Rightarrow> (bytes \<times> bytes) res" where
  "check_signature P plaintext =
     rbind (plaintext_start plaintext) (\<lambda>ofs.
     let pkh_from = bslice plaintext ofs (ofs + 20); signature = bslice plaintext (ofs + 20) (ofs + 85); payload = drop (ofs + 89) plaintext;
         payload_hash = sha256 P (sha256 P payload) in
     rbind (if signature = [] then Inl IndexError else Inr (hd signature)) (\<lambda>head.
     let recid = (uint head - 27) AND 3 in
     rbind (from_signature_and_message P (tl signature @ [of_int recid]) payload_hash) (\<lambda>pubkey_signer.
     rbind (ensure (pkh_from = hash160 P pubkey_signer) ''Mismatched pubkeyhash from'') (\<lambda>_.
     Inr (payload, pubkey_signer)))))"

definition smsgDecrypt :: "primitives \<Rightarrow> bytes \<Rightarrow> bytes \<Rightarrow> decrypted res" where
  "smsgDecrypt P privkey_to encrypted_message =
     rbind (after_header encrypted_message) (\<lambda>_.
     let smsg_timestamp = from_le (bslice encrypted_message 11 19); smsg_iv = bslice encrypted_message 23 39; R = bslice encrypted_message 39 72;
         mac = bslice encrypted_message 72 104; ciphertextlen = from_le (bslice encrypted_message 104 108); ciphertext = drop 108 encrypted_message in
     rbind (ensure (int (length ciphertext) = ciphertextlen) ''Mismatched ciphertext length'') (\<lambda>_.
     rbind (ecdh P privkey_to R) (\<lambda>p.
     let H = sha512 P p; key_e = take 32 H; key_m = drop 32 H in
     rbind (message_mac P key_m smsg_timestamp smsg_iv ciphertext) (\<lambda>mac_calculated.
     rbind (ensure (mac = mac_calculated) ''Mismatched MAC'') (\<lambda>_.
     rbind (aes_decrypt P ciphertext key_e smsg_iv) (\<lambda>plaintext.
     rbind (check_signature P plaintext) (\<lambda>(payload, pubkey_signer).
     rbind (smsgGetID P encrypted_message) (\<lambda>msgid.
     Inr \<lparr>d_msgid = msgid, d_sent = smsg_timestamp, d_payload = payload, d_pubkey_from = pubkey_signer\<rparr>))))))))"

section \<open>Specification vocabulary\<close>

text \<open>What the packages promise: agreement of keys, recovery of the signer, decryption inverts encryption, and the lengths of their results.\<close>

definition primitives_ok :: "primitives \<Rightarrow> bool" where
  "primitives_ok P \<longleftrightarrow>
     (\<forall>a A b B p. from_secret P a = Inr A \<longrightarrow> from_secret P b = Inr B \<longrightarrow> ecdh P a B = Inr p \<longrightarrow> ecdh P b A = Inr p)
     \<and> (\<forall>k K m s. from_secret P k = Inr K \<longrightarrow> sign_recoverable P k m = Inr s \<longrightarrow>
          length s = 65 \<and> uint (s ! 64) < 4 \<and> from_signature_and_message P s m = Inr K)
     \<and> (\<forall>k iv m c. cbc_encrypt P k iv m = Inr c \<longrightarrow> cbc_decrypt P k iv c = Inr m)
     \<and> (\<forall>x. length (hash160 P x) = 20) \<and> (\<forall>k x. length (hmac256 P k x) = 32)"

text \<open>A message around its ciphertext.\<close>

definition framed :: "bytes \<Rightarrow> bytes \<Rightarrow> int \<Rightarrow> int \<Rightarrow> bytes \<Rightarrow> bytes \<Rightarrow> bytes \<Rightarrow> bytes \<Rightarrow> bytes" where
  "framed h nonce t ttl iv R mac c = h @ nonce @ [2, 1, 0] @ le_bytes 8 t @ le_bytes 4 ttl @ iv @ R @ mac @ le_bytes 4 (int (length c)) @ c"

text \<open>The work of a message is enough, and its first bytes are of the hash that shows it.\<close>

definition worked :: "primitives \<Rightarrow> int \<Rightarrow> bytes \<Rightarrow> bool" where
  "worked P target msg \<longleftrightarrow> (\<exists>h. smsgGetPOWHash P msg = Inr h \<and> uint256_from_str h \<le> target \<and> take 4 msg = take 4 h)"


text \<open>Primitives that keep their promises: keys that hash to themselves, a cipher that does nothing.\<close>

definition plain_primitives :: primitives where
  "plain_primitives = \<lparr>from_secret = \<lambda>k. if length k = 32 then Inr (2 # k) else Inl (ValueError ''secret''),
     ecdh = \<lambda>a B. if length a = 32 \<and> length B = 33 then Inr (map2 (XOR) a (tl B)) else Inl (ValueError ''key''),
     sign_recoverable = \<lambda>k m. Inr (k @ replicate 32 0 @ [1]), from_signature_and_message = \<lambda>s m. Inr (2 # take 32 s),
     cbc_encrypt = \<lambda>k iv m. Inr m, cbc_decrypt = \<lambda>k iv m. Inr m, sha256 = \<lambda>x. take 32 (x @ replicate 32 0), sha512 = \<lambda>x. take 64 (x @ replicate 64 0),
     hash160 = \<lambda>x. take 20 (x @ replicate 20 0), ripemd160 = \<lambda>x. take 20 (x @ replicate 20 0), hmac256 = \<lambda>k x. replicate 32 0\<rparr>"

section \<open>Facts\<close>

lemma aes_roundtrip: "aes_unpad (aes_pad s) = Inr s"
proof -
  obtain c where c: "c = 16 - length s mod 16" "0 < c" "c \<le> 16"
    by (simp add: less_Suc_eq_le)
  have "unat (of_nat c :: byte) = c"
    using c(3) by (simp add: unat_of_nat)
  moreover have "last (s @ replicate c (of_nat c)) = (of_nat c :: byte)"
    using c(2) by (simp add: last_append)
  ultimately show ?thesis
    using c(2) by (simp add: aes_pad_def aes_unpad_def Let_def flip: c(1))
qed

lemma set_pow_frame:
  assumes "set_pow P target i nonce msg = Inr msg'" "\<And>k x. length (hmac256 P k x) = 32" "length nonce = 4"
  shows "drop 8 msg' = drop 8 msg \<and> length msg' = length msg \<and> worked P target msg'"
  using assms
proof (induction i arbitrary: nonce msg)
  case (Suc i)
  obtain h where h: "smsgGetPOWHash P msg = Inr h" and long: "108 < length msg" and len: "length h = 32"
    using Suc.prems by (auto simp: smsgGetPOWHash_def after_header_def SMSG_HDR_LEN_def Let_def)
  show ?case
  proof (cases "uint256_from_str h > target")
    case True
    then obtain k where k: "to_bytes_le 4 (from_le nonce + 1) = Inr k" and rec: "set_pow P target i k (take 4 h @ k @ drop 8 msg) = Inr msg'"
      using Suc.prems(1) h by auto
    then have "length k = 4"
      by (auto simp: to_bytes_le_def split: if_splits)
    then show ?thesis
      using Suc.IH [OF rec Suc.prems(2)] len long by simp
  next
    case False
    then have msg': "msg' = take 4 h @ drop 4 msg"
      using Suc.prems(1) h by simp
    have "bslice msg' 4 8 = bslice msg 4 8" "drop 4 msg' = drop 4 msg" "length msg' = length msg" "take 4 msg' = take 4 h"
      using len long by (simp_all add: msg' bslice_def)
    moreover from this have "smsgGetPOWHash P msg' = Inr h"
      using h by (simp add: smsgGetPOWHash_def after_header_def)
    moreover have "drop 8 msg' = drop 8 msg"
      using len by (simp add: msg')
    ultimately show ?thesis
      using False by (auto simp: worked_def)
  qed
qed simp

lemma framed_slices:
  assumes "length h = 4" "length nonce = 4" "length iv = 16" "length R = 33" "length mac = 32"
    and "0 \<le> t" "t < 256 ^ 8" "0 \<le> ttl" "ttl < 256 ^ 4" "int (length c) < 256 ^ 4"
  defines "m \<equiv> framed h nonce t ttl iv R mac c"
  shows "from_le (bslice m 11 19) = t" "from_le (bslice m 19 23) = ttl" "bslice m 23 39 = iv" "bslice m 39 72 = R" "bslice m 72 104 = mac"
    "from_le (bslice m 104 108) = int (length c)" "drop 108 m = c" "length m = 108 + length c"
  using assms(1-10) by (simp_all add: m_def framed_def bslice_def from_le_le_bytes drop_Cons' take_Cons')

lemma framed_tail:
  assumes "drop 8 msg = drop 8 (framed h nonce t ttl iv R mac c)" "length msg = length (framed h nonce t ttl iv R mac c)" "length h = 4" "length nonce = 4"
  shows "msg = framed (take 4 msg) (bslice msg 4 8) t ttl iv R mac c"
proof -
  have "msg = take 4 msg @ bslice msg 4 8 @ drop 8 msg"
    using append_take_drop_id [of 4 msg] append_take_drop_id [of 4 "drop 4 msg"] by (simp add: bslice_def)
  then show ?thesis
    using assms by (simp add: framed_def)
qed

lemma signature_recovered:
  assumes ok: "primitives_ok P" and key: "from_secret P k = Inr K" and sig: "sign_recoverable P k (sha256 P (sha256 P payload)) = Inr s"
    and start: "plaintext_header fmt = Inr start" and l: "length l = 4"
  shows "check_signature P (start @ hash160 P K @ [of_int (27 + uint (s ! 64) + 4)] @ take 64 s @ l @ payload) = Inr (payload, K)"
proof -
  have s: "length s = 65" "uint (s ! 64) < 4" "from_signature_and_message P s (sha256 P (sha256 P payload)) = Inr K" and h: "length (hash160 P K) = 20"
    using ok key sig by (auto simp: primitives_ok_def)
  have recid: "(uint (of_int (27 + uint (s ! 64) + 4) :: byte) - 27) AND 3 = uint (s ! 64)"
  proof -
    obtain x where x: "uint (s ! 64) = x" "0 \<le> x" "x < 4"
      using s(2) by simp
    have "uint (of_int (27 + x + 4) :: byte) = 31 + x"
      by (simp only: uint_word_of_int_byte) (use x in simp)
    moreover have "(4 + x) AND 3 = x"
      using x int_and_mask [of "4 + x" 2] by (simp add: mask_eq_exp_minus_1)
    ultimately show ?thesis
      using x(1) by simp
  qed
  have whole: "take 64 s @ [s ! 64] = s"
    using s(1) by (simp flip: take_Suc_conv_app_nth)
  have ofs: "plaintext_start (start @ rest) = Inr (length start)" for rest
    using start by (auto simp: plaintext_header_def plaintext_start_def split: if_splits)
  show ?thesis
    using s h l whole recid by (simp add: check_signature_def ofs Let_def bslice_def)
qed

lemma encrypted_framed:
  assumes ok: "primitives_ok P" and key: "from_secret P k_from = Inr K_from"
    and enc: "smsgEncrypt P drawn clock k_from K_to payload ts det fmt ttl diff = Inr msg"
  defines "time \<equiv> (case ts of None \<Rightarrow> clock | Some t \<Rightarrow> t)"
  obtains r iv R p h nonce s start l c where "from_secret P r = Inr R" "ecdh P r K_to = Inr p"
    "msg = framed h nonce time ttl iv R (hmac256 P (drop 32 (sha512 P p)) (le_bytes 8 time @ iv @ c)) c"
    "sign_recoverable P k_from (sha256 P (sha256 P payload)) = Inr s" "plaintext_header fmt = Inr start" "length l = 4"
    "aes_encrypt P (start @ hash160 P K_from @ [of_int (27 + uint (s ! 64) + 4)] @ take 64 s @ l @ payload) (take 32 (sha512 P p)) iv = Inr c"
    "length h = 4" "length nonce = 4" "length R = 33" "0 \<le> time" "time < 256 ^ 8" "0 \<le> ttl" "ttl < 256 ^ 4" "int (length c) < 256 ^ 4"
    "\<exists>target. uint256_from_compact diff = Inr target \<and> worked P target msg"
proof -
  have mac32: "\<And>k x. length (hmac256 P k x) = 32"
    using ok by (simp add: primitives_ok_def)
  let ?plain = "\<lambda>s start. start @ hash160 P K_from @ [of_int (27 + uint (s ! 64) + 4)] @ take 64 s @ le_bytes 4 (int (length payload)) @ payload"
  obtain r iv R p s start c m0 target where r: "from_secret P r = Inr R" "ecdh P r K_to = Inr p"
    and s: "sign_recoverable P k_from (sha256 P (sha256 P payload)) = Inr s" "plaintext_header fmt = Inr start"
    and c: "aes_encrypt P (?plain s start) (take 32 (sha512 P p)) iv = Inr c"
    and R: "length R = 33" and t: "0 \<le> time" "time < 256 ^ 8"
    and m0: "message_bytes time ttl iv R (hmac256 P (drop 32 (sha512 P p)) (le_bytes 8 time @ iv @ c)) c = Inr m0"
    and work: "uint256_from_compact diff = Inr target" "set_pow P target 1000000 (replicate 4 0) m0 = Inr msg"
    using enc key unfolding smsgEncrypt_def time_def [symmetric]
    by (fastforce simp: Let_def message_mac_def to_bytes_le_def split: if_splits prod.splits)
  let ?mac = "hmac256 P (drop 32 (sha512 P p)) (le_bytes 8 time @ iv @ c)"
  have framed0: "m0 = framed (replicate 4 0) (replicate 4 0) time ttl iv R ?mac c" and bounds: "0 \<le> ttl" "ttl < 256 ^ 4" "int (length c) < 256 ^ 4"
    using m0 by (auto simp: message_bytes_def framed_def to_bytes_le_def split: if_splits)
  have pow: "drop 8 msg = drop 8 m0" "length msg = length m0" "worked P target msg"
    using set_pow_frame [OF work(2) mac32] by simp_all
  then have "msg = framed (take 4 msg) (bslice msg 4 8) time ttl iv R ?mac c"
    using framed_tail [of msg "replicate 4 0" "replicate 4 0" time ttl iv R ?mac c] framed0 by simp
  moreover have "length (take 4 msg) = 4" "length (bslice msg 4 8) = 4"
    using pow(2) by (simp_all add: framed0 framed_def)
  ultimately show thesis
    using that [OF r _ s _ c _ _ R t bounds] work(1) pow(3) by auto
qed

text \<open>C27. What is encrypted for an address is read there. Let the packages for curves, ciphers and hashes do what they promise. If \<open>smsgEncrypt\<close> returns a message for the key of
  a recipient, \<open>smsgDecrypt\<close> with the recipient's secret returns the payload, the time it was given and the key of the sender, and the message's id; the time to live is
  in the message, and its proof of work meets the difficulty.\<close>

theorem smsg_roundtrip:
  assumes "primitives_ok P" "from_secret P k_to = Inr K_to" "from_secret P k_from = Inr K_from"
    and "smsgEncrypt P drawn clock k_from K_to payload ts det fmt ttl diff = Inr msg"
  defines "time \<equiv> (case ts of None \<Rightarrow> clock | Some t \<Rightarrow> t)"
  shows "\<exists>i. smsgGetID P msg = Inr i \<and> smsgDecrypt P k_to msg = Inr \<lparr>d_msgid = i, d_sent = time, d_payload = payload, d_pubkey_from = K_from\<rparr>
    \<and> smsgGetTTL msg = Inr ttl \<and> (\<exists>target. uint256_from_compact diff = Inr target \<and> worked P target msg)"
proof -
  obtain r iv R p h nonce s start l c where e: "from_secret P r = Inr R" "ecdh P r K_to = Inr p"
    "msg = framed h nonce time ttl iv R (hmac256 P (drop 32 (sha512 P p)) (le_bytes 8 time @ iv @ c)) c"
    "sign_recoverable P k_from (sha256 P (sha256 P payload)) = Inr s" "plaintext_header fmt = Inr start" "length l = 4"
    "aes_encrypt P (start @ hash160 P K_from @ [of_int (27 + uint (s ! 64) + 4)] @ take 64 s @ l @ payload) (take 32 (sha512 P p)) iv = Inr c"
    "length h = 4" "length nonce = 4" "length R = 33" "0 \<le> time" "time < 256 ^ 8" "0 \<le> ttl" "ttl < 256 ^ 4" "int (length c) < 256 ^ 4"
    "\<exists>target. uint256_from_compact diff = Inr target \<and> worked P target msg"
    unfolding time_def by (rule encrypted_framed [OF assms(1,3,4)]) blast
  let ?plain = "start @ hash160 P K_from @ [of_int (27 + uint (s ! 64) + 4)] @ take 64 s @ l @ payload"
  have iv: "length iv = 16" and dec: "aes_decrypt P c (take 32 (sha512 P p)) iv = Inr ?plain"
    using e(7) assms(1) aes_roundtrip by (auto simp: aes_encrypt_def aes_decrypt_def primitives_ok_def)
  have long: "108 < length msg"
    using e(16) by (auto simp: worked_def smsgGetPOWHash_def after_header_def SMSG_HDR_LEN_def)
  have mac32: "\<And>k x. length (hmac256 P k x) = 32"
    using assms(1) by (simp add: primitives_ok_def)
  note slices = framed_slices [OF e(8,9) iv e(10) mac32 e(11-15)]
  have agree: "ecdh P k_to R = Inr p"
    using assms(1) [unfolded primitives_ok_def, THEN conjunct1, rule_format, OF e(1) assms(2) e(2)] .
  have mac: "message_mac P key time iv c = Inr (hmac256 P key (le_bytes 8 time @ iv @ c))" for key
    using e(11,12) by (simp add: message_mac_def to_bytes_le_def)
  obtain i where i: "smsgGetID P msg = Inr i"
    using long e(11,12) by (simp add: smsgGetID_def smsgGetTimestamp_def after_header_def SMSG_HDR_LEN_def to_bytes_be_def e(3) slices)
  have "check_signature P ?plain = Inr (payload, K_from)"
    by (rule signature_recovered [OF assms(1,3) e(4-6)])
  then have "smsgDecrypt P k_to msg = Inr \<lparr>d_msgid = i, d_sent = time, d_payload = payload, d_pubkey_from = K_from\<rparr>"
    using long i unfolding e(3) by (simp add: smsgDecrypt_def after_header_def SMSG_HDR_LEN_def Let_def slices agree mac dec)
  moreover have "smsgGetTTL msg = Inr ttl"
    using long by (simp add: smsgGetTTL_def after_header_def SMSG_HDR_LEN_def e(3) slices)
  ultimately show ?thesis
    using i e(16) by blast
qed

lemma map2_xor_commute: "map2 (XOR) a b = map2 (XOR) b (a :: bytes)"
  by (induction a b rule: list_induct2') (simp_all add: xor.commute)

lemma plain_primitives_ok: "primitives_ok plain_primitives"
  unfolding primitives_ok_def
  by (intro conjI allI impI)
    (auto simp: plain_primitives_def map2_xor_commute nth_append split: if_splits)

lemma plain_eval:
  "from_secret plain_primitives k = (if length k = 32 then Inr (2 # k) else Inl (ValueError ''secret''))"
  "ecdh plain_primitives k B = (if length k = 32 \<and> length B = 33 then Inr (map2 (XOR) k (tl B)) else Inl (ValueError ''key''))"
  "sign_recoverable plain_primitives k m = Inr (k @ replicate 32 0 @ [1])" "cbc_encrypt plain_primitives k iv m = Inr m"
  "sha512 plain_primitives x = take 64 (x @ replicate 64 0)" "hash160 plain_primitives x = take 20 (x @ replicate 20 0)" "hmac256 plain_primitives k x = replicate 32 0"
  by (simp_all add: plain_primitives_def)

lemma set_pow_first: "0 < i \<Longrightarrow> smsgGetPOWHash P msg = Inr h \<Longrightarrow> uint256_from_str h \<le> target \<Longrightarrow> set_pow P target i nonce msg = Inr (take 4 h @ drop 4 msg)"
  by (cases i) simp_all

lemma easy_target: "uint256_from_compact 0x1EFFFFFF = Inr (0xFFFFFF * 2 ^ 216)" "uint256_from_str (replicate 32 0) \<le> 0xFFFFFF * 2 ^ 216"
  by code_simp+

lemma plain_work: "108 < length msg \<Longrightarrow> smsgGetPOWHash plain_primitives msg = Inr (replicate 32 0)"
  by (simp add: smsgGetPOWHash_def after_header_def SMSG_HDR_LEN_def plain_primitives_def)

theorem smsg_roundtrip_witness:
  "\<exists>msg i. smsgEncrypt plain_primitives (replicate 32 7, replicate 16 8) 1700000000 (replicate 32 1) (2 # replicate 32 5) [10, 20, 30] None False 2 3600 0x1EFFFFFF = Inr msg
     \<and> smsgDecrypt plain_primitives (replicate 32 5) msg = Inr \<lparr>d_msgid = i, d_sent = 1700000000, d_payload = [10, 20, 30], d_pubkey_from = 2 # replicate 32 1\<rparr>"
proof -
  have "\<exists>msg. smsgEncrypt plain_primitives (replicate 32 7, replicate 16 8) 1700000000 (replicate 32 1) (2 # replicate 32 5) [10, 20, 30] None False 2 3600 0x1EFFFFFF = Inr msg"
    by (simp add: smsgEncrypt_def message_secret_def plaintext_header_def aes_encrypt_def aes_pad_def message_mac_def message_bytes_def to_bytes_le_def Let_def
        easy_target(1) [simplified] set_pow_first [OF _ plain_work easy_target(2) [simplified]] plain_eval nth_append)
  then obtain msg where msg: "smsgEncrypt plain_primitives (replicate 32 7, replicate 16 8) 1700000000 (replicate 32 1) (2 # replicate 32 5) [10, 20, 30] None False 2 3600 0x1EFFFFFF = Inr msg" ..
  have keys: "from_secret plain_primitives (replicate 32 5) = Inr (2 # replicate 32 5)" "from_secret plain_primitives (replicate 32 1) = Inr (2 # replicate 32 1)"
    by (simp_all add: plain_primitives_def)
  show ?thesis
    using smsg_roundtrip [OF plain_primitives_ok keys msg] msg by auto
qed

end
