(* ===== verification/Message_Networks.thy ===== *)
theory Message_Networks
  imports Smsg Adaptor_Messages
begin

text \<open>
  The networks messages travel on: \<open>src/basicswap/network/bsx_network.py\<close> and the sending functions of \<open>src/basicswap/network/simplex.py\<close>. The names of networks and the
  choice of one to answer on, \<open>sendMessage\<close> over all networks and their bridges, and the portals nodes offer each other. The daemon, the chat client and the table of keys are
  fields of \<open>net_env\<close>; the order in which Python iterates a set is a parameter. A transmission is recorded before the call that makes it answers.
\<close>

section \<open>Definitions\<close>

subsection \<open>Names of networks\<close>

datatype MessageNetworks = SMSG | SIMPLEX

fun MessageNetworks_val :: "MessageNetworks \<Rightarrow> int" where
  "MessageNetworks_val SMSG = 1"
| "MessageNetworks_val SIMPLEX = 2"

definition networkTypeToID :: "string \<Rightarrow> int res" where
  "networkTypeToID typ =
     (if typ = ''smsg'' then Inr (MessageNetworks_val SMSG)
      else if typ = ''simplex'' then Inr (MessageNetworks_val SIMPLEX)
      else Inl (RuntimeError ''Unknown message network type''))"

definition networkIDToType :: "int \<Rightarrow> bool \<Rightarrow> string res" where
  "networkIDToType i is_bridged =
     rbind (if i = MessageNetworks_val SMSG then Inr ''smsg'' else if i = MessageNetworks_val SIMPLEX then Inr ''simplex''
            else Inl (RuntimeError ''Unknown message network id'')) (\<lambda>network_name.
     Inr ((if is_bridged then ''b.'' else '''') @ network_name))"

text \<open>A network of the settings and those it is bridged to; a type that is missing is read as \<open>smsg\<close> in most places and raises \<open>KeyError\<close> in the others.\<close>

record bridge =
  bridge_type :: "string option"
  bridge_enabled :: "bool option"

record network =
  network_type :: "string option"
  bridged :: "bridge list"

definition type_or_smsg :: "string option \<Rightarrow> string" where
  "type_or_smsg t = (case t of None \<Rightarrow> ''smsg'' | Some s \<Rightarrow> s)"

text \<open>\<open>s.split(",")\<close>.\<close>

fun py_split :: "char \<Rightarrow> string \<Rightarrow> string list" where
  "py_split sep [] = [[]]"
| "py_split sep (c # cs) = (if c = sep then [] # py_split sep cs else (case py_split sep cs of [] \<Rightarrow> [[c]] | w # ws \<Rightarrow> (c # w) # ws))"

text \<open>The loop of \<open>expandMessageNets\<close>. An unknown name is only logged: the variable \<open>network_id\<close> keeps the value of the round before, or has none.\<close>

fun expand_nets :: "string list \<Rightarrow> int option \<Rightarrow> int list \<Rightarrow> int list \<Rightarrow> (int list \<times> int list) res" where
  "expand_nets [] network_id active_networks bridged_networks = Inr (active_networks, bridged_networks)"
| "expand_nets (s # ss) network_id active_networks bridged_networks =
     (let is_bridged = (take 2 s = ''b.'');
          name = (if is_bridged then drop 2 s else s);
          network_id = (case networkTypeToID name of Inl _ \<Rightarrow> network_id | Inr i \<Rightarrow> Some i) in
      case network_id of
        None \<Rightarrow> Inl (OtherError ''UnboundLocalError'')
      | Some i \<Rightarrow>
          if i \<in> set active_networks \<or> i \<in> set bridged_networks then Inl (ValueError ''Malformed networks data.'')
          else if is_bridged then expand_nets ss network_id active_networks (bridged_networks @ [i])
          else expand_nets ss network_id (active_networks @ [i]) bridged_networks)"

definition expandMessageNets :: "string option \<Rightarrow> (int list \<times> int list) res" where
  "expandMessageNets message_nets =
     (case message_nets of
        None \<Rightarrow> Inr ([], [])
      | Some s \<Rightarrow>
          if length s < 1 then Inr ([], [])
          else if length s > 256 then Inl (ValueError ''message_nets string is too large'')
          else expand_nets (py_split CHR '','' s) None [] [])"

definition validateMessageNets :: "string option \<Rightarrow> unit res" where
  "validateMessageNets message_nets =
     (case expandMessageNets message_nets of Inl _ \<Rightarrow> Inl (ValueError ''Invalid message networks'') | Inr _ \<Rightarrow> Inr ())"

text \<open>\<open>",".join(s)\<close> over a set of names, in the order \<open>order\<close> the set is iterated in.\<close>

fun py_join :: "string list \<Rightarrow> string" where
  "py_join [] = []"
| "py_join [s] = s"
| "py_join (s # ss) = s @ CHR '','' # py_join ss"

definition active_types :: "network list \<Rightarrow> string list" where
  "active_types nets = remdups (map (\<lambda>n. type_or_smsg (network_type n)) nets)"

definition bridged_types :: "network list \<Rightarrow> string list" where
  "bridged_types nets = remdups (concat (map (\<lambda>n. map (\<lambda>b. type_or_smsg (bridge_type b)) (bridged n)) nets))"

definition getMessageNetsString :: "int \<Rightarrow> network list \<Rightarrow> (string list \<Rightarrow> string list) \<Rightarrow> bool \<Rightarrow> string" where
  "getMessageNetsString payload_version nets order with_bridged =
     (if payload_version < 2 then ''''
      else py_join (order (active_types nets
             @ (if with_bridged then map (\<lambda>t. ''b.'' @ t) (filter (\<lambda>t. t \<notin> set (active_types nets)) (bridged_types nets)) else []))))"

fun ids_of :: "string list \<Rightarrow> int list res" where
  "ids_of [] = Inr []"
| "ids_of (t # ts) = rbind (networkTypeToID t) (\<lambda>i. rbind (ids_of ts) (\<lambda>is. Inr (i # is)))"

text \<open>The network to answer on: the first choice that is possible. Sets of numbers are iterated in the order \<open>order\<close>.\<close>

definition choose_net :: "(int list \<Rightarrow> int list) \<Rightarrow> int list \<Rightarrow> int list \<Rightarrow> int list \<Rightarrow> int list \<Rightarrow> int list \<Rightarrow> string res" where
  "choose_net order received_on active bridged_ids remote_active remote_bridged =
     (case find (\<lambda>i. i \<in> set active \<and> i \<in> set remote_active) received_on of
        Some i \<Rightarrow> networkIDToType i False
      | None \<Rightarrow> (case find (\<lambda>i. i \<in> set remote_active) (order active) of
        Some i \<Rightarrow> networkIDToType i False
      | None \<Rightarrow> (case find (\<lambda>i. i \<in> set remote_bridged) (order active) of
        Some i \<Rightarrow> networkIDToType i True
      | None \<Rightarrow> (case find (\<lambda>i. i \<in> set remote_active) (order bridged_ids) of
        Some i \<Rightarrow> networkIDToType i True
      | None \<Rightarrow> (case find (\<lambda>i. i \<in> set remote_bridged) (order bridged_ids) of
        Some i \<Rightarrow> networkIDToType i True
      | None \<Rightarrow> Inl (RuntimeError ''Unable to select network to respond on''))))))"

definition selectMessageNetString :: "int \<Rightarrow> network list \<Rightarrow> (int list \<Rightarrow> int list) \<Rightarrow> int list \<Rightarrow> string option \<Rightarrow> string res" where
  "selectMessageNetString payload_version nets order received_on_network_ids remote_message_nets =
     (if payload_version < 2 then Inr ''''
      else
        rbind (ids_of (active_types nets)) (\<lambda>active.
        rbind (ids_of (bridged_types nets)) (\<lambda>bridged_ids.
        rbind (expandMessageNets remote_message_nets) (\<lambda>(remote_active, remote_bridged).
        let received_on = (if length received_on_network_ids < 1 then [MessageNetworks_val SMSG] else received_on_network_ids) in
        if length remote_active < 1 \<and> length remote_bridged < 1 then networkIDToType (hd received_on) False
        else choose_net order received_on active bridged_ids remote_active remote_bridged))))"

definition setMsgSplitInfo :: "network list \<Rightarrow> string res" where
  "setMsgSplitInfo nets =
     foldr (\<lambda>n rest. rbind (of_option KeyError (network_type n)) (\<lambda>t.
              if t = ''simplex'' then Inr ''9000:11000''
              else foldr (\<lambda>b rest. rbind (of_option KeyError (bridge_type b)) (\<lambda>t. if t = ''simplex'' then Inr ''9000:11000'' else rest)) (bridged n) rest))
       nets (Inr ''16000:17000'')"

subsection \<open>Sending\<close>

datatype transmission = SmsgSend string string bytes | SmsgImport bytes | SimplexGroup bytes | SimplexDirect bytes

record NetworkPortal =
  portal_time_start :: int
  portal_time_valid :: int
  network_from :: int
  network_to :: int
  portal_address_from :: string
  portal_address_to :: bytes
  portal_smsg_difficulty :: int
  num_refreshes :: int
  messages_sent :: int
  num_issues :: int
  portal_created_at :: int
  own_portal :: bool

record net_state =
  transmissions :: "transmission list"
  known_portals :: "int \<Rightarrow> int \<Rightarrow> NetworkPortal list"
  own_portals :: "int \<Rightarrow> (int \<times> NetworkPortal) list"
  portal_rows :: "string \<Rightarrow> NetworkPortal option"
  address_keys :: "string \<Rightarrow> string option"

text \<open>What the node asks of its daemon, its chat client and its table of keys. \<open>smsgsend\<close> answers with the id and the bytes of the message.\<close>

record net_env =
  nv_payload_version :: int
  nv_have_smsg_rpc :: bool
  nv_smsggetdifficulty :: "int res"
  nv_nets :: "network list"
  nv_smsgsend :: "string \<Rightarrow> string \<Rightarrow> bytes \<Rightarrow> int \<Rightarrow> (bytes \<times> bytes) res"
  nv_smsgimport :: "bytes \<Rightarrow> unit res"
  nv_chat :: "bytes \<Rightarrow> unit res"
  nv_pubkey :: "string \<Rightarrow> bytes res"
  nv_privkey :: "string \<Rightarrow> bytes res"
  nv_primitives :: primitives
  nv_drawn :: "bytes \<times> bytes"
  nv_time :: int
  nv_route :: "int \<Rightarrow> string \<Rightarrow> string \<Rightarrow> bool"
  nv_direct :: "string \<Rightarrow> string \<Rightarrow> bytes \<Rightarrow> (bytes \<times> bytes) res"
  nv_network_addr :: string
  nv_new_address :: "string res"

definition transmit :: "transmission \<Rightarrow> 'a res \<Rightarrow> (net_state, 'a) py" where
  "transmit t r = pseq (pmod (\<lambda>s. s\<lparr>transmissions := transmissions s @ [t]\<rparr>)) (plift r)"

definition sendSmsg :: "net_env \<Rightarrow> string \<Rightarrow> string \<Rightarrow> bytes \<Rightarrow> int \<Rightarrow> (net_state, bytes \<times> bytes) py" where
  "sendSmsg N source dest payload msg_valid = transmit (SmsgSend source dest payload) (nv_smsgsend N source dest payload msg_valid)"

definition forwardSmsg :: "net_env \<Rightarrow> bytes \<Rightarrow> (net_state, unit) py" where
  "forwardSmsg N smsg_msg = transmit (SmsgImport smsg_msg) (nv_smsgimport N smsg_msg)"

definition getActiveNetwork :: "network list \<Rightarrow> int \<Rightarrow> network res" where
  "getActiveNetwork nets network_id =
     foldr (\<lambda>n rest. rbind (of_option KeyError (network_type n)) (\<lambda>t. rbind (networkTypeToID t) (\<lambda>i. if i = network_id then Inr n else rest)))
       nets (Inl (RuntimeError ''Network not found.''))"

definition encryptMsg :: "net_env \<Rightarrow> string \<Rightarrow> string \<Rightarrow> bytes \<Rightarrow> int \<Rightarrow> int option \<Rightarrow> bool \<Rightarrow> int \<Rightarrow> bytes res" where
  "encryptMsg N source dest payload msg_valid timestamp deterministic difficulty_target =
     rbind (nv_pubkey N dest) (\<lambda>pubkey_to.
     rbind (nv_privkey N source) (\<lambda>privkey_from.
     smsgEncrypt (nv_primitives N) (nv_drawn N) (nv_time N) privkey_from pubkey_to payload timestamp deterministic 2 msg_valid difficulty_target))"

definition sendSimplexMsg :: "net_env \<Rightarrow> string \<Rightarrow> string \<Rightarrow> bytes \<Rightarrow> int \<Rightarrow> int option \<Rightarrow> bool \<Rightarrow> int \<Rightarrow> (net_state, bytes \<times> bytes) py" where
  "sendSimplexMsg N source dest payload msg_valid timestamp deterministic difficulty_target =
     pbind (plift (encryptMsg N source dest payload msg_valid timestamp deterministic difficulty_target)) (\<lambda>smsg_msg.
     pbind (plift (smsgGetID (nv_primitives N) smsg_msg)) (\<lambda>smsg_id.
     pseq (transmit (SimplexGroup smsg_msg) (nv_chat N smsg_msg)) (pret (smsg_id, smsg_msg))))"

definition forwardSimplexMsg :: "net_env \<Rightarrow> bytes \<Rightarrow> (net_state, bytes) py" where
  "forwardSimplexMsg N smsg_msg =
     pbind (plift (smsgGetID (nv_primitives N) smsg_msg)) (\<lambda>smsg_id.
     pseq (transmit (SimplexGroup smsg_msg) (nv_chat N smsg_msg)) (pret smsg_id))"

text \<open>The variables of the two loops over the networks.\<close>

record sending =
  networks_sent_to :: "int list"
  g_msg :: "bytes option"
  g_id :: "bytes option"

definition truthy :: "bytes option \<Rightarrow> bool" where
  "truthy x = (case x of None \<Rightarrow> False | Some b \<Rightarrow> b \<noteq> [])"

primrec pfold :: "('a \<Rightarrow> 'b \<Rightarrow> ('s, 'b) py) \<Rightarrow> 'a list \<Rightarrow> 'b \<Rightarrow> ('s, 'b) py" where
  "pfold f [] b = pret b"
| "pfold f (x # xs) b = pbind (f x b) (pfold f xs)"

text \<open>The arguments of \<open>sendMessage\<close> that all its calls share.\<close>

record letter =
  l_source :: string
  l_dest :: string
  l_payload :: bytes
  l_valid :: int
  l_timestamp :: "int option"
  l_deterministic :: bool

definition send_on :: "net_env \<Rightarrow> letter \<Rightarrow> int \<Rightarrow> int \<Rightarrow> bytes option \<Rightarrow> (net_state, bytes option \<times> bytes option) py" where
  "send_on N l smsg_difficulty t smsg_msg =
     (if t = MessageNetworks_val SMSG then
        (if truthy smsg_msg then pseq (forwardSmsg N (the smsg_msg)) (pret (None, smsg_msg))
         else pbind (sendSmsg N (l_source l) (l_dest l) (l_payload l) (l_valid l)) (\<lambda>(i, m).
              pret (Some i, if nv_payload_version N < 2 then smsg_msg else Some m)))
      else if t = MessageNetworks_val SIMPLEX then
        (if truthy smsg_msg then pbind (forwardSimplexMsg N (the smsg_msg)) (\<lambda>_. pret (None, smsg_msg))
         else pbind (sendSimplexMsg N (l_source l) (l_dest l) (l_payload l) (l_valid l) (l_timestamp l) (l_deterministic l) smsg_difficulty) (\<lambda>(i, m).
              pret (Some i, Some m)))
      else praise (ValueError ''Unknown network''))"

definition skipped :: "int list \<Rightarrow> int \<Rightarrow> sending \<Rightarrow> bool" where
  "skipped networks_list t g \<longleftrightarrow> t \<in> set (networks_sent_to g) \<or> (length networks_list > 0 \<and> t \<notin> set networks_list)"

definition send_active :: "net_env \<Rightarrow> letter \<Rightarrow> int list \<Rightarrow> int \<Rightarrow> network \<Rightarrow> sending \<Rightarrow> (net_state, sending) py" where
  "send_active N l networks_list smsg_difficulty network g =
     pbind (plift (networkTypeToID (type_or_smsg (network_type network)))) (\<lambda>t.
     if skipped networks_list t g then pret g
     else pbind (send_on N l smsg_difficulty t (g_msg g)) (\<lambda>(i, m).
          pret (g\<lparr>networks_sent_to := networks_sent_to g @ [t], g_msg := m, g_id := if truthy (g_id g) then g_id g else i\<rparr>)))"

definition pick_portal :: "NetworkPortal list \<Rightarrow> NetworkPortal option" where
  "pick_portal portals = fold (\<lambda>portal use_portal. case use_portal of
       None \<Rightarrow> Some portal | Some p \<Rightarrow> if num_issues portal < num_issues p then Some portal else Some p) portals None"

definition usePortal :: "net_env \<Rightarrow> NetworkPortal \<Rightarrow> bytes \<Rightarrow> string \<Rightarrow> (net_state, unit) py" where
  "usePortal N portal smsg source =
     pbind (plift (message_payload MT_PORTAL_SEND MessagePortalSend [(''message_bytes'', PBytes smsg)])) (\<lambda>payload.
     let msg_valid = max SMSG_SECONDS_IN_HOUR (portal_time_valid portal); dest = portal_address_from portal in
     if network_from portal = MessageNetworks_val SMSG then pbind (sendSmsg N source dest payload msg_valid) (\<lambda>_. pret ())
     else if network_from portal = MessageNetworks_val SIMPLEX then
       pbind (plift (getActiveNetwork (nv_nets N) (MessageNetworks_val SIMPLEX))) (\<lambda>_.
       pbind (sendSimplexMsg N source dest payload msg_valid (Some (nv_time N)) False 0x1EFFFFFF) (\<lambda>_. pret ()))
     else praise (ValueError ''Unknown network from ind.''))"

definition send_bridge :: "net_env \<Rightarrow> letter \<Rightarrow> int list \<Rightarrow> int \<Rightarrow> bridge \<Rightarrow> sending \<Rightarrow> (net_state, sending) py" where
  "send_bridge N l networks_list source_net b g =
     pbind (plift (rbind (of_option KeyError (bridge_type b)) networkTypeToID)) (\<lambda>t.
     if skipped networks_list t g then pret g
     else pbind (pget (\<lambda>s. pick_portal (known_portals s source_net t))) (\<lambda>use_portal.
          case use_portal of
            None \<Rightarrow> pret g
          | Some portal \<Rightarrow>
              pbind (plift (case g_msg g of
                        Some m \<Rightarrow> Inr (m, g_id g)
                      | None \<Rightarrow> rbind (encryptMsg N (l_source l) (l_dest l) (l_payload l) (l_valid l) (l_timestamp l) (l_deterministic l) (portal_smsg_difficulty portal)) (\<lambda>m.
                                if truthy (g_id g) then Inr (m, g_id g) else rbind (smsgGetID (nv_primitives N) m) (\<lambda>i. Inr (m, Some i))))) (\<lambda>(m, i).
              pseq (usePortal N portal m (l_source l))
                   (pret (g\<lparr>networks_sent_to := networks_sent_to g @ [t], g_msg := Some m, g_id := i\<rparr>)))))"

definition send_bridges :: "net_env \<Rightarrow> letter \<Rightarrow> int list \<Rightarrow> network \<Rightarrow> sending \<Rightarrow> (net_state, sending) py" where
  "send_bridges N l networks_list network g =
     pbind (plift (networkTypeToID (type_or_smsg (network_type network)))) (\<lambda>source_net.
     pfold (send_bridge N l networks_list source_net) (bridged network) g)"

definition sendMessage_nets :: "net_env \<Rightarrow> letter \<Rightarrow> string option \<Rightarrow> (net_state, bytes option) py" where
  "sendMessage_nets N l message_nets =
     pbind (plift (expandMessageNets message_nets)) (\<lambda>(active_networks_list, bridged_networks_list).
     let networks_list = active_networks_list @ bridged_networks_list in
     if nv_route N 1 (l_source l) (l_dest l) then praise (RuntimeError ''Trying to send through an unestablished direct route.'')
     else if nv_route N 2 (l_source l) (l_dest l) then
       pbind (plift (getActiveNetwork (nv_nets N) (MessageNetworks_val SIMPLEX))) (\<lambda>_.
       pbind (transmit (SimplexDirect (l_payload l)) (nv_direct N (l_source l) (l_dest l) (l_payload l))) (\<lambda>(i, m). pret (Some i)))
     else
       pbind (plift (if nv_have_smsg_rpc N \<and> nv_payload_version N \<ge> 2 then nv_smsggetdifficulty N else Inr 0x1EFFFFFF)) (\<lambda>smsg_difficulty.
       pbind (pfold (send_active N l networks_list smsg_difficulty) (nv_nets N) \<lparr>networks_sent_to = [], g_msg = None, g_id = None\<rparr>) (\<lambda>g.
       pbind (pfold (send_bridges N l networks_list) (nv_nets N) g) (\<lambda>g.
       pret (g_id g)))))"

subsection \<open>Portals\<close>

text \<open>The offer of a portal, as a payload.\<close>

definition portal_offer_payload :: "net_env \<Rightarrow> int \<Rightarrow> int \<Rightarrow> int \<Rightarrow> bytes res" where
  "portal_offer_payload N source_net dest_net valid =
     rbind (if nv_have_smsg_rpc N then nv_smsggetdifficulty N else Inr 0x1EFFFFFF) (\<lambda>smsg_difficulty.
     message_payload MT_PORTAL_OFFER MessagePortalOffer
       [(''network_type_from'', PInt source_net), (''network_type_to'', PInt dest_net), (''time_valid'', PInt valid), (''smsg_difficulty'', PInt smsg_difficulty)])"

definition send_portal_offer :: "net_env \<Rightarrow> NetworkPortal \<Rightarrow> bytes \<Rightarrow> bool \<Rightarrow> (net_state, unit) py" where
  "send_portal_offer N portal payload deterministic =
     (let msg_valid = max SMSG_SECONDS_IN_HOUR (portal_time_valid portal); source = portal_address_from portal; dest = nv_network_addr N in
      if network_from portal = MessageNetworks_val SMSG then pbind (sendSmsg N source dest payload msg_valid) (\<lambda>_. pret ())
      else if network_from portal = MessageNetworks_val SIMPLEX then
        pbind (plift (getActiveNetwork (nv_nets N) (MessageNetworks_val SIMPLEX))) (\<lambda>_.
        pbind (sendSimplexMsg N source dest payload msg_valid (Some (portal_time_start portal)) deterministic 0x1EFFFFFF) (\<lambda>_. pret ()))
      else praise (RuntimeError ''Unknown network id''))"

definition new_portal :: "int \<Rightarrow> int \<Rightarrow> int \<Rightarrow> int \<Rightarrow> string \<Rightarrow> bytes \<Rightarrow> NetworkPortal" where
  "new_portal time_start valid source_net dest_net source dest =
     \<lparr>portal_time_start = time_start, portal_time_valid = valid, network_from = source_net, network_to = dest_net, portal_address_from = source, portal_address_to = dest,
      portal_smsg_difficulty = 0x1EFFFFFF, num_refreshes = 0, messages_sent = 0, num_issues = 0, portal_created_at = 0, own_portal = False\<rparr>"

definition newPortal :: "net_env \<Rightarrow> int \<Rightarrow> int \<Rightarrow> (net_state, unit) py" where
  "newPortal N network_from_id network_to_id =
     pbind (plift (nv_new_address N)) (\<lambda>addr_portal.
     let portal = (new_portal (nv_time N) (30 * 60) network_from_id network_to_id addr_portal (map of_char (nv_network_addr N)))
                    \<lparr>portal_created_at := nv_time N, own_portal := True\<rparr> in
     pseq (pmod (\<lambda>s. s\<lparr>portal_rows := (portal_rows s)(addr_portal \<mapsto> portal)\<rparr>))
    (pbind (plift (portal_offer_payload N network_from_id network_to_id (portal_time_valid portal))) (\<lambda>payload.
     pseq (send_portal_offer N portal payload True)
          (pmod (\<lambda>s. s\<lparr>own_portals := (own_portals s)(network_from_id := AList.update network_to_id portal (own_portals s network_from_id))\<rparr>)))))"

definition refreshPortal :: "net_env \<Rightarrow> int \<Rightarrow> int \<Rightarrow> NetworkPortal \<Rightarrow> (net_state, unit) py" where
  "refreshPortal N network_from_id network_to_id portal =
     pbind (plift (portal_offer_payload N (network_from portal) (network_to portal) (portal_time_valid portal))) (\<lambda>payload.
     pseq (send_portal_offer N portal payload False)
          (pmod (\<lambda>s. s\<lparr>own_portals := (own_portals s)(network_from_id := AList.update network_to_id (portal\<lparr>portal_time_start := nv_time N\<rparr>) (own_portals s network_from_id))\<rparr>)))"

text \<open>An offer of a portal that was received. The bridges of the network are looked through until one leads to the network offered.\<close>

definition enabled_bridge :: "bridge list \<Rightarrow> int \<Rightarrow> bool res" where
  "enabled_bridge bridges dest_net =
     foldr (\<lambda>b rest. if bridge_enabled b = Some False then rest
              else rbind (networkTypeToID (type_or_smsg (bridge_type b))) (\<lambda>i. if i = dest_net then Inr True else rest)) bridges (Inr False)"

definition refresh_known :: "NetworkPortal \<Rightarrow> NetworkPortal list \<Rightarrow> NetworkPortal list" where
  "refresh_known p portals =
     (if list_ex (\<lambda>q. portal_address_from q = portal_address_from p) portals
      then let i = length (takeWhile (\<lambda>q. portal_address_from q \<noteq> portal_address_from p) portals) in
           portals[i := (portals ! i)\<lparr>num_refreshes := num_refreshes p, portal_time_start := portal_time_start p, portal_time_valid := portal_time_valid p,
                                      portal_smsg_difficulty := portal_smsg_difficulty p\<rparr>]
      else portals @ [p])"

definition keep_key :: "string \<Rightarrow> string option \<Rightarrow> (net_state, unit) py" where
  "keep_key address pubkey_from =
     pbind (pget (\<lambda>s. address_keys s address)) (\<lambda>key.
     if key \<noteq> None \<and> \<not> length (the key) < 33 then pret ()
     else pbind (plift (of_option KeyError pubkey_from)) (\<lambda>k. pmod (\<lambda>s. s\<lparr>address_keys := (address_keys s)(address \<mapsto> k)\<rparr>)))"

definition admit_portal :: "net_env \<Rightarrow> message \<Rightarrow> string option \<Rightarrow> int \<Rightarrow> int \<Rightarrow> int \<Rightarrow> int \<Rightarrow> bytes \<Rightarrow> (net_state, unit) py" where
  "admit_portal N msg pubkey_from source_net dest_net valid smsg_difficulty address_to =
     pbind (pget (\<lambda>s. portal_rows s (msg_source msg))) (\<lambda>row.
     let p = (case row of
                None \<Rightarrow> (new_portal (msg_sent msg) valid source_net dest_net (msg_source msg) address_to)\<lparr>portal_created_at := nv_time N\<rparr>
              | Some p \<Rightarrow> p\<lparr>num_refreshes := num_refreshes p + 1\<rparr>);
         p = p\<lparr>portal_smsg_difficulty := smsg_difficulty, portal_time_start := msg_sent msg, portal_time_valid := valid\<rparr> in
     pseq (pmod (\<lambda>s. s\<lparr>portal_rows := (portal_rows s)(msg_source msg \<mapsto> p)\<rparr>))
    (pseq (keep_key (portal_address_from p) pubkey_from)
          (pmod (\<lambda>s. s\<lparr>known_portals := (known_portals s)(network_from p :=
             (known_portals s (network_from p))(network_to p := refresh_known p (known_portals s (network_from p) (network_to p))))\<rparr>))))"

definition processPortalOffer :: "net_env \<Rightarrow> message \<Rightarrow> string option \<Rightarrow> (net_state, unit) py" where
  "processPortalOffer N msg pubkey_from =
     pbind (plift (networkTypeToID (msg_net msg))) (\<lambda>network_received_on.
     pbind (plift (parse_message MessagePortalOffer msg)) (\<lambda>portal_data.
     pbind (plift (attr_int portal_data ''network_type_from'')) (\<lambda>source_net.
     if source_net \<noteq> network_received_on then praise (RuntimeError ''Network from must match network received on.'')
     else
       pbind (plift (getActiveNetwork (nv_nets N) source_net)) (\<lambda>net.
       pbind (pget (\<lambda>s. list_ex (\<lambda>(i, p). portal_address_from p = msg_source msg) (own_portals s source_net))) (\<lambda>own.
       if own then pret ()
       else
         pbind (plift (attr_int portal_data ''network_type_to'')) (\<lambda>dest_net.
         pbind (plift (enabled_bridge (bridged net) dest_net)) (\<lambda>found_enabled_bridge.
         if \<not> found_enabled_bridge then pret ()
         else
           pbind (plift (attr_int portal_data ''time_valid'')) (\<lambda>valid.
           if msg_sent msg + valid < nv_time N then pret ()
           else
             pbind (plift (attr_bytes portal_data ''portal_address_to'')) (\<lambda>address_to.
             pbind (plift (attr_int portal_data ''smsg_difficulty'')) (\<lambda>smsg_difficulty.
             admit_portal N msg pubkey_from source_net dest_net valid smsg_difficulty address_to))))))))))"

text \<open>A message another node sends through a portal of this one is passed on.\<close>

definition processPortalMessage :: "net_env \<Rightarrow> message \<Rightarrow> (net_state, unit) py" where
  "processPortalMessage N msg =
     pbind (plift (networkTypeToID (msg_net msg))) (\<lambda>source_net.
     pbind (pget (\<lambda>s. find (\<lambda>(i, p). portal_address_from p = msg_dest msg) (own_portals s source_net))) (\<lambda>found.
     case found of
       None \<Rightarrow> pret ()
     | Some (i, portal) \<Rightarrow>
         pbind (plift (parse_message MessagePortalSend msg)) (\<lambda>portal_msg.
         pbind (plift (attr_bytes portal_msg ''message_bytes'')) (\<lambda>m.
         pseq (if network_to portal = MessageNetworks_val SMSG then forwardSmsg N m
               else if network_to portal = MessageNetworks_val SIMPLEX then
                 pbind (plift (getActiveNetwork (nv_nets N) (MessageNetworks_val SIMPLEX))) (\<lambda>_. pbind (forwardSimplexMsg N m) (\<lambda>_. pret ()))
               else praise (ValueError ''Unknown network ID''))
        (pseq (pmod (\<lambda>s. s\<lparr>own_portals := (own_portals s)(source_net := AList.update i (portal\<lparr>messages_sent := messages_sent portal + 1\<rparr>) (own_portals s source_net))\<rparr>))
        (pbind (pget (\<lambda>s. portal_rows s (portal_address_from portal))) (\<lambda>row.
         pbind (plift (of_option AttributeError row)) (\<lambda>row.
         pmod (\<lambda>s. s\<lparr>portal_rows := (portal_rows s)(portal_address_from portal \<mapsto> row\<lparr>messages_sent := messages_sent portal + 1\<rparr>)\<rparr>)))))))))"

text \<open>The portals this node keeps open, one for each pair of its networks. \<open>forget\<close> is the time after which rows are removed.\<close>

definition keep_portal :: "net_env \<Rightarrow> network \<Rightarrow> network \<Rightarrow> (net_state, unit) py" where
  "keep_portal N net other =
     (if net = other then pret ()
      else
        pbind (plift (rbind (of_option KeyError (network_type net)) networkTypeToID)) (\<lambda>source_net.
        pbind (plift (rbind (of_option KeyError (network_type other)) networkTypeToID)) (\<lambda>dest_net.
        pbind (pget (\<lambda>s. map_of (own_portals s source_net) dest_net)) (\<lambda>portal.
        case portal of
          None \<Rightarrow> newPortal N source_net dest_net
        | Some portal \<Rightarrow> pwhen (portal_time_start portal + portal_time_valid portal \<le> nv_time N - 5 * 60) (refreshPortal N source_net dest_net portal)))))"

definition updateNetworkBridges :: "net_env \<Rightarrow> int \<Rightarrow> (net_state, unit) py" where
  "updateNetworkBridges N forget =
     pseq (pfor (\<lambda>net. pseq (plift (rbind (rbind (of_option KeyError (network_type net)) networkTypeToID) (\<lambda>_. Inr ())))
                            (pfor (keep_portal N net) (nv_nets N))) (nv_nets N))
          (pmod (\<lambda>s. s\<lparr>portal_rows := (\<lambda>a. case portal_rows s a of None \<Rightarrow> None
             | Some p \<Rightarrow> if portal_time_start p < nv_time N - forget then None else Some p)\<rparr>))"

section \<open>Specification vocabulary\<close>

text \<open>A name in a list of networks: whether it is bridged, and its number if it is known.\<close>

definition net_entry :: "string \<Rightarrow> bool \<times> int option" where
  "net_entry s = (take 2 s = ''b.'', case networkTypeToID (if take 2 s = ''b.'' then drop 2 s else s) of Inl _ \<Rightarrow> None | Inr i \<Rightarrow> Some i)"

definition entry_ids :: "bool \<Rightarrow> string list \<Rightarrow> int list" where
  "entry_ids is_bridged names = List.map_filter (\<lambda>s. if fst (net_entry s) = is_bridged then snd (net_entry s) else None) names"

text \<open>The names are known and no network is named twice.\<close>

definition nets_ok :: "string list \<Rightarrow> bool" where
  "nets_ok names \<longleftrightarrow> list_all (\<lambda>s. snd (net_entry s) \<noteq> None) names \<and> distinct (map (the \<circ> snd \<circ> net_entry) names)"

definition net_label :: "bool \<Rightarrow> int \<Rightarrow> string" where
  "net_label is_bridged i = (if is_bridged then ''b.'' else '''') @ (if i = 1 then ''smsg'' else ''simplex'')"

text \<open>A node with the network \<open>smsg\<close>, bridged to \<open>simplex\<close>.\<close>

definition bridged_nets :: "network list" where
  "bridged_nets = [\<lparr>network_type = Some ''smsg'', bridged = [\<lparr>bridge_type = Some ''simplex'', bridge_enabled = None\<rparr>]\<rparr>]"


text \<open>The networks a message is meant for: those of the list, or all.\<close>

definition selected :: "int list \<Rightarrow> int \<Rightarrow> bool" where
  "selected networks_list t \<longleftrightarrow> networks_list = [] \<or> t \<in> set networks_list"

definition active_targets :: "int list \<Rightarrow> network \<Rightarrow> int set" where
  "active_targets networks_list n = {t. networkTypeToID (type_or_smsg (network_type n)) = Inr t \<and> selected networks_list t}"

definition bridge_targets :: "(int \<Rightarrow> int \<Rightarrow> NetworkPortal list) \<Rightarrow> int list \<Rightarrow> int \<Rightarrow> bridge \<Rightarrow> int set" where
  "bridge_targets portals networks_list f b = {t. rbind (of_option KeyError (bridge_type b)) networkTypeToID = Inr t \<and> selected networks_list t \<and> portals f t \<noteq> []}"

definition bridged_targets :: "(int \<Rightarrow> int \<Rightarrow> NetworkPortal list) \<Rightarrow> int list \<Rightarrow> network \<Rightarrow> int set" where
  "bridged_targets portals networks_list n = (\<Union>b\<in>set (bridged n). {t. \<exists>f. networkTypeToID (type_or_smsg (network_type n)) = Inr f \<and> t \<in> bridge_targets portals networks_list f b})"

text \<open>A transmission that brings a message to a network: on the network itself, or to a portal that leads there.\<close>

definition direct :: "letter \<Rightarrow> int \<Rightarrow> transmission \<Rightarrow> bool" where
  "direct l t tx \<longleftrightarrow> t = 1 \<and> (tx = SmsgSend (l_source l) (l_dest l) (l_payload l) \<or> (\<exists>m. tx = SmsgImport m)) \<or> t = 2 \<and> (\<exists>m. tx = SimplexGroup m)"

definition through_portal :: "letter \<Rightarrow> NetworkPortal \<Rightarrow> transmission \<Rightarrow> bool" where
  "through_portal l p tx \<longleftrightarrow> (\<exists>m payload. message_payload MT_PORTAL_SEND MessagePortalSend [(''message_bytes'', PBytes m)] = Inr payload
     \<and> (network_from p = 1 \<and> tx = SmsgSend (l_source l) (portal_address_from p) payload \<or> network_from p = 2 \<and> (\<exists>e. tx = SimplexGroup e)))"

definition carries :: "letter \<Rightarrow> (int \<Rightarrow> int \<Rightarrow> NetworkPortal list) \<Rightarrow> int \<Rightarrow> transmission \<Rightarrow> bool" where
  "carries l portals t tx \<longleftrightarrow> direct l t tx \<or> (\<exists>f p. p \<in> set (portals f t) \<and> through_portal l p tx)"

definition sent_once :: "letter \<Rightarrow> net_state \<Rightarrow> sending \<Rightarrow> net_state \<Rightarrow> bool" where
  "sent_once l s0 g s \<longleftrightarrow> known_portals s = known_portals s0 \<and> distinct (networks_sent_to g)
     \<and> (\<exists>txs. transmissions s = transmissions s0 @ txs \<and> list_all2 (carries l (known_portals s0)) (networks_sent_to g) txs)"


text \<open>The tables of portals agree with their keys: known portals stand under their networks, each address once; rows stand under their address; own portals under their
  networks.\<close>

definition portals_ok :: "net_state \<Rightarrow> bool" where
  "portals_ok s \<longleftrightarrow>
     (\<forall>f t. distinct (map portal_address_from (known_portals s f t)) \<and> (\<forall>p\<in>set (known_portals s f t). network_from p = f \<and> network_to p = t))
     \<and> (\<forall>a p. portal_rows s a = Some p \<longrightarrow> portal_address_from p = a)
     \<and> (\<forall>f i p. (i, p) \<in> set (own_portals s f) \<longrightarrow> network_from p = f \<and> network_to p = i)"

definition keeps_portals :: "net_state \<Rightarrow> net_state \<Rightarrow> bool" where
  "keeps_portals s s' \<longleftrightarrow> (portals_ok s \<longrightarrow> portals_ok s')"

text \<open>What an offer of a portal must be to be admitted.\<close>

definition admissible :: "net_env \<Rightarrow> net_state \<Rightarrow> message \<Rightarrow> bool" where
  "admissible N s msg \<longleftrightarrow> (\<exists>f t valid net. networkTypeToID (msg_net msg) = Inr f \<and> getActiveNetwork (nv_nets N) f = Inr net \<and> enabled_bridge (bridged net) t = Inr True
     \<and> nv_time N \<le> msg_sent msg + valid \<and> (\<forall>(i, p)\<in>set (own_portals s f). portal_address_from p \<noteq> msg_source msg)
     \<and> (\<exists>a. parse_message MessagePortalOffer msg = Inr a \<and> a ''network_type_from'' = Some (PInt f) \<and> a ''network_type_to'' = Some (PInt t) \<and> a ''time_valid'' = Some (PInt valid)))"

text \<open>A node on \<open>smsg\<close> that is bridged to \<open>simplex\<close>, before and after it was offered a portal.\<close>

definition net_example :: net_env where
  "net_example = \<lparr>nv_payload_version = 2, nv_have_smsg_rpc = False, nv_smsggetdifficulty = Inl KeyError, nv_nets = bridged_nets,
     nv_smsgsend = \<lambda>_ _ _ _. Inr ([1], [9]), nv_smsgimport = \<lambda>_. Inr (), nv_chat = \<lambda>_. Inr (), nv_pubkey = \<lambda>_. Inl KeyError, nv_privkey = \<lambda>_. Inl KeyError,
     nv_primitives = plain_primitives, nv_drawn = ([], []), nv_time = 200, nv_route = \<lambda>_ _ _. False, nv_direct = \<lambda>_ _ _. Inl KeyError, nv_network_addr = ''net'',
     nv_new_address = Inr ''own''\<rparr>"

definition blank_net :: net_state where
  "blank_net = \<lparr>transmissions = [], known_portals = \<lambda>_ _. [], own_portals = \<lambda>_. [], portal_rows = \<lambda>_. None, address_keys = \<lambda>_. None\<rparr>"

definition portal_letter :: message where
  "portal_letter = \<lparr>msg_id = [1], msg_source = ''portal'', msg_dest = ''net'', msg_sent = 100,
     msg_payload = (case portal_offer_payload net_example 1 2 1800 of Inl _ \<Rightarrow> [] | Inr p \<Rightarrow> p), msg_payload_version = 2, msg_net = ''smsg''\<rparr>"

definition portal_net :: net_state where
  "portal_net = snd (processPortalOffer net_example portal_letter (Some ''key'') blank_net)"

definition small_letter :: letter where
  "small_letter = \<lparr>l_source = ''a'', l_dest = ''b'', l_payload = [5], l_valid = 3600, l_timestamp = None, l_deterministic = False\<rparr>"


section \<open>Facts\<close>

lemma entry_ids_simps [simp]:
  "entry_ids br [] = []"
  "entry_ids br (s # ss) = (if fst (net_entry s) = br \<and> snd (net_entry s) \<noteq> None then the (snd (net_entry s)) # entry_ids br ss else entry_ids br ss)"
  by (auto simp: entry_ids_def List.map_filter_simps split: option.split)

lemma expand_step:
  "expand_nets (s # ss) prev act brd = (case net_entry s of (br, i) \<Rightarrow>
     (case (case i of None \<Rightarrow> prev | Some j \<Rightarrow> Some j) of
        None \<Rightarrow> Inl (OtherError ''UnboundLocalError'')
      | Some j \<Rightarrow> if j \<in> set act \<or> j \<in> set brd then Inl (ValueError ''Malformed networks data.'')
          else expand_nets ss (Some j) (if br then act else act @ [j]) (if br then brd @ [j] else brd)))"
  by (cases "networkTypeToID (if take 2 s = ''b.'' then drop 2 s else s)") (auto simp: net_entry_def Let_def split: option.split)

lemma expand_nets_iff:
  assumes "\<And>j. prev = Some j \<Longrightarrow> j \<in> set act \<union> set brd"
  shows "expand_nets names prev act brd = Inr r \<longleftrightarrow>
    nets_ok names \<and> set (map (the \<circ> snd \<circ> net_entry) names) \<inter> (set act \<union> set brd) = {} \<and> r = (act @ entry_ids False names, brd @ entry_ids True names)"
  using assms
proof (induction names arbitrary: prev act brd)
  case Nil
  then show ?case by (auto simp: nets_ok_def)
next
  case (Cons s ss)
  obtain br i where e: "net_entry s = (br, i)" by fastforce
  show ?case
  proof (cases i)
    case None
    then show ?thesis
      using Cons.prems e by (auto simp: expand_step nets_ok_def simp del: expand_nets.simps(2) split: option.split)
  next
    case (Some j)
    have IH: "expand_nets ss (Some j) (if br then act else act @ [j]) (if br then brd @ [j] else brd) = Inr r \<longleftrightarrow>
        nets_ok ss \<and> set (map (the \<circ> snd \<circ> net_entry) ss) \<inter> (set (if br then act else act @ [j]) \<union> set (if br then brd @ [j] else brd)) = {}
        \<and> r = ((if br then act else act @ [j]) @ entry_ids False ss, (if br then brd @ [j] else brd) @ entry_ids True ss)"
      by (rule Cons.IH) auto
    then show ?thesis
      using Some e by (auto simp: expand_step nets_ok_def simp del: expand_nets.simps(2))
  qed
qed

text \<open>\<open>expandMessageNets\<close> reads exactly the lists of networks that name known ones, each once. It returns for a text of at most 256 characters whose names are all known and
  all different, with the numbers of the active and of the bridged networks in their order, and for no text; for every other text it raises. A name of a network this version
  does not know is thus not passed over, as the log message says, but makes the whole list invalid.\<close>

theorem nets_expanded:
  "expandMessageNets (Some s) = Inr r \<longleftrightarrow>
     (s = [] \<and> r = ([], [])) \<or> (s \<noteq> [] \<and> length s \<le> 256 \<and> nets_ok (py_split CHR '','' s) \<and> r = (entry_ids False (py_split CHR '','' s), entry_ids True (py_split CHR '','' s)))"
  by (cases "s = []") (auto simp: expandMessageNets_def expand_nets_iff [of None "[]" "[]", simplified] not_less Suc_le_eq)

lemma networkTypeToID_iff: "networkTypeToID t = Inr i \<longleftrightarrow> t = ''smsg'' \<and> i = 1 \<or> t = ''simplex'' \<and> i = 2"
  by (auto simp: networkTypeToID_def)

lemma networkIDToType_known: "i = 1 \<or> i = 2 \<Longrightarrow> networkIDToType i br = Inr (net_label br i)"
  by (auto simp: networkIDToType_def net_label_def)

lemma ids_of_set: "ids_of ts = Inr is \<Longrightarrow> set is = {i. \<exists>t\<in>set ts. networkTypeToID t = Inr i} \<and> set is \<subseteq> {1, 2}"
proof (induction ts arbitrary: "is")
  case (Cons t ts)
  then show ?case by (auto simp: networkTypeToID_iff)
qed simp

lemma find_cases:
  obtains (found) i where "find p xs = Some i" "i \<in> set xs" "p i" | (missing) "find p xs = None" "\<forall>i\<in>set xs. \<not> p i"
  by (cases "find p xs") (auto simp: find_None_iff find_Some_iff)

lemma choose_net_cases:
  assumes order: "\<And>xs. set (order xs) = set xs" and known: "set active \<subseteq> {1, 2}" "set brd \<subseteq> {1, 2}"
  shows "if set active \<inter> set ra \<noteq> {} then \<exists>i\<in>set active \<inter> set ra. choose_net order received_on active brd ra rb = Inr (net_label False i)
           \<and> (set received_on \<inter> set active \<inter> set ra \<noteq> {} \<longrightarrow> i \<in> set received_on)
         else if (set active \<union> set brd) \<inter> (set ra \<union> set rb) \<noteq> {}
         then \<exists>i\<in>(set active \<union> set brd) \<inter> (set ra \<union> set rb). choose_net order received_on active brd ra rb = Inr (net_label True i)
         else choose_net order received_on active brd ra rb = Inl (RuntimeError ''Unable to select network to respond on'')"
proof (cases "set active \<inter> set ra = {}")
  case False
  show ?thesis
  proof (cases rule: find_cases [of "\<lambda>i. i \<in> set active \<and> i \<in> set ra" received_on])
    case (found i)
    then have "choose_net order received_on active brd ra rb = Inr (net_label False i)"
      using known by (auto simp: choose_net_def networkIDToType_known)
    then show ?thesis
      using False found by auto
  next
    case missing
    then obtain i where i: "find (\<lambda>i. i \<in> set ra) (order active) = Some i" "i \<in> set active" "i \<in> set ra"
      using False order find_cases [of "\<lambda>i. i \<in> set ra" "order active"] by (metis disjoint_iff)
    then have "choose_net order received_on active brd ra rb = Inr (net_label False i)"
      using known missing by (auto simp: choose_net_def networkIDToType_known)
    then show ?thesis
      using False i missing by (auto split: if_split)
  qed
next
  case True
  then have none: "find (\<lambda>i. i \<in> set active \<and> i \<in> set ra) received_on = None" "find (\<lambda>i. i \<in> set ra) (order active) = None"
    using order by (auto simp: find_None_iff)
  note step = choose_net_def none networkIDToType_known
  show ?thesis
  proof (cases rule: find_cases [of "\<lambda>i. i \<in> set rb" "order active"])
    case (found i)
    then have "choose_net order received_on active brd ra rb = Inr (net_label True i)" "i \<in> (set active \<union> set brd) \<inter> (set ra \<union> set rb)"
      using order known by (auto simp: step)
    then show ?thesis using True by auto
  next
    case f1: missing
    show ?thesis
    proof (cases rule: find_cases [of "\<lambda>i. i \<in> set ra" "order brd"])
      case (found i)
      then have "choose_net order received_on active brd ra rb = Inr (net_label True i)" "i \<in> (set active \<union> set brd) \<inter> (set ra \<union> set rb)"
        using order known f1(1) by (auto simp: step)
      then show ?thesis using True by auto
    next
      case f2: missing
      show ?thesis
      proof (cases rule: find_cases [of "\<lambda>i. i \<in> set rb" "order brd"])
        case (found i)
        then have "choose_net order received_on active brd ra rb = Inr (net_label True i)" "i \<in> (set active \<union> set brd) \<inter> (set ra \<union> set rb)"
          using order known f1(1) f2(1) by (auto simp: step)
        then show ?thesis using True by auto
      next
        case f3: missing
        then have "(set active \<union> set brd) \<inter> (set ra \<union> set rb) = {}"
          using True order f1(2) f2(2) by auto
        then show ?thesis
          using True f1(1) f2(1) f3(1) by (simp add: step)
      qed
    qed
  qed
qed

text \<open>The answer goes over a network both nodes can reach. Let a node of the current version know the types of its networks, and let the other node have named its
  networks. If some network is active at both, \<open>selectMessageNetString\<close> names one of them, and one the message came in on if that is possible; otherwise, if some network is
  active or bridged at both, it names one of those as bridged; otherwise it raises. This holds in whatever order sets are iterated.\<close>

theorem net_selected:
  assumes "2 \<le> version" "\<forall>xs. set (order xs) = set xs" "ids_of (active_types nets) = Inr active" "ids_of (bridged_types nets) = Inr brd"
    and "expandMessageNets remote = Inr (ra, rb)" "ra \<noteq> [] \<or> rb \<noteq> []" "received_on \<noteq> []"
  defines "answer \<equiv> selectMessageNetString version nets order received_on remote"
  shows "if set active \<inter> set ra \<noteq> {} then \<exists>i\<in>set active \<inter> set ra. answer = Inr (net_label False i)
           \<and> (set received_on \<inter> set active \<inter> set ra \<noteq> {} \<longrightarrow> i \<in> set received_on)
         else if (set active \<union> set brd) \<inter> (set ra \<union> set rb) \<noteq> {}
         then \<exists>i\<in>(set active \<union> set brd) \<inter> (set ra \<union> set rb). answer = Inr (net_label True i)
         else answer = Inl (RuntimeError ''Unable to select network to respond on'')"
proof -
  have "answer = choose_net order received_on active brd ra rb"
    using assms(1,3-7) by (simp add: answer_def selectMessageNetString_def Let_def) auto
  moreover have "set active \<subseteq> {1, 2}" "set brd \<subseteq> {1, 2}"
    using ids_of_set assms(3,4) by blast+
  ultimately show ?thesis
    using choose_net_cases [of order active brd ra received_on rb] assms(2) by simp
qed

theorem net_selected_witness: "selectMessageNetString 2 bridged_nets id [2] (Some ''simplex'') = Inr ''b.simplex''"
proof -
  have "ids_of (active_types bridged_nets) = Inr [1]" "ids_of (bridged_types bridged_nets) = Inr [2]" "expandMessageNets (Some ''simplex'') = Inr ([2], [])"
    by code_simp+
  from net_selected [OF _ _ this, of 2 id "[2]"] show ?thesis
    by (simp add: net_label_def)
qed

lemma transmit_runs: "transmit t r s = (r, s\<lparr>transmissions := transmissions s @ [t]\<rparr>)"
  by (simp add: transmit_def py_simps)

lemma send_on_runs:
  assumes "send_on N l d t m s = (Inr (i, m'), s')"
  shows "\<exists>tx. s' = s\<lparr>transmissions := transmissions s @ [tx]\<rparr> \<and> direct l t tx"
  using assms
  by (auto simp: send_on_def direct_def forwardSmsg_def sendSmsg_def forwardSimplexMsg_def sendSimplexMsg_def run_simps transmit_runs py_simps split: if_splits)

lemma usePortal_runs:
  assumes "usePortal N p m (l_source l) s = (Inr u, s')"
  shows "\<exists>tx. s' = s\<lparr>transmissions := transmissions s @ [tx]\<rparr> \<and> through_portal l p tx"
  using assms
  by (auto simp: usePortal_def through_portal_def sendSmsg_def sendSimplexMsg_def Let_def run_simps transmit_runs py_simps split: if_splits)

lemma pick_portal_some: "pick_portal ps = Some p \<Longrightarrow> p \<in> set ps" and pick_portal_none: "pick_portal ps = None \<longleftrightarrow> ps = []"
proof -
  let ?step = "\<lambda>portal use_portal. case use_portal of None \<Rightarrow> Some portal | Some p \<Rightarrow> if num_issues portal < num_issues p then Some portal else Some p"
  have "fold ?step ps (Some q) \<noteq> None \<and> (\<forall>p. fold ?step ps (Some q) = Some p \<longrightarrow> p \<in> insert q (set ps))" for q and ps :: "NetworkPortal list"
    by (induction ps arbitrary: q) auto
  then show "pick_portal ps = Some p \<Longrightarrow> p \<in> set ps" "pick_portal ps = None \<longleftrightarrow> ps = []"
    by (cases ps; auto simp: pick_portal_def)+
qed

lemma sent_once_extend:
  assumes "sent_once l s0 g s" "t \<notin> set (networks_sent_to g)" "carries l (known_portals s0) t tx"
    and "networks_sent_to g' = networks_sent_to g @ [t]" "s' = s\<lparr>transmissions := transmissions s @ [tx]\<rparr>"
  shows "sent_once l s0 g' s'"
proof -
  obtain txs where "transmissions s = transmissions s0 @ txs" "list_all2 (carries l (known_portals s0)) (networks_sent_to g) txs"
    using assms(1) by (auto simp: sent_once_def)
  then show ?thesis
    using assms by (auto simp: sent_once_def intro!: exI [of _ "txs @ [tx]"] list_all2_appendI)
qed

lemma send_active_step:
  assumes "send_active N l L d n g s = (Inr g', s')" "sent_once l s0 g s"
  shows "sent_once l s0 g' s' \<and> set (networks_sent_to g') = set (networks_sent_to g) \<union> active_targets L n"
proof -
  obtain t where t: "networkTypeToID (type_or_smsg (network_type n)) = Inr t"
    using assms(1) by (auto simp: send_active_def run_simps py_simps)
  show ?thesis
  proof (cases "skipped L t g")
    case True
    then have "g' = g" "s' = s"
      using assms(1) t by (auto simp: send_active_def run_simps py_simps)
    then show ?thesis
      using assms(2) True t by (auto simp: active_targets_def skipped_def selected_def)
  next
    case False
    then obtain i m where on: "send_on N l d t (g_msg g) s = (Inr (i, m), s')"
      and g': "g' = g\<lparr>networks_sent_to := networks_sent_to g @ [t], g_msg := m, g_id := if truthy (g_id g) then g_id g else i\<rparr>"
      using assms(1) t by (auto simp: send_active_def run_simps py_simps)
    obtain tx where "s' = s\<lparr>transmissions := transmissions s @ [tx]\<rparr>" "direct l t tx"
      using send_on_runs [OF on] by auto
    then show ?thesis
      using sent_once_extend [OF assms(2), of t tx g' s'] False g' t by (auto simp: carries_def active_targets_def skipped_def selected_def)
  qed
qed

lemma send_bridge_step:
  assumes "send_bridge N l L f b g s = (Inr g', s')" "sent_once l s0 g s"
  shows "sent_once l s0 g' s' \<and> set (networks_sent_to g') = set (networks_sent_to g) \<union> bridge_targets (known_portals s0) L f b"
proof -
  have same: "known_portals s = known_portals s0"
    using assms(2) by (simp add: sent_once_def)
  obtain t where t: "rbind (of_option KeyError (bridge_type b)) networkTypeToID = Inr t"
    using assms(1) by (auto simp: send_bridge_def run_simps py_simps)
  show ?thesis
  proof (cases "skipped L t g \<or> known_portals s0 f t = []")
    case True
    then have "g' = g" "s' = s"
      using assms(1) by (simp_all add: send_bridge_def py_simps t same pick_portal_none [THEN iffD2] split: if_splits)
    then show ?thesis
      using assms(2) True t by (auto simp: bridge_targets_def skipped_def selected_def)
  next
    case False
    then obtain p where p: "pick_portal (known_portals s0 f t) = Some p"
      using pick_portal_none by (cases "pick_portal (known_portals s0 f t)") auto
    then obtain m i where use: "usePortal N p m (l_source l) s = (Inr (), s')"
      and g': "g' = g\<lparr>networks_sent_to := networks_sent_to g @ [t], g_msg := Some m, g_id := i\<rparr>"
      using assms(1) False by (auto simp: send_bridge_def py_simps t same p run_simps)
    obtain tx where "s' = s\<lparr>transmissions := transmissions s @ [tx]\<rparr>" "through_portal l p tx"
      using usePortal_runs [OF use] by auto
    moreover have "carries l (known_portals s0) t tx"
      using calculation(2) pick_portal_some [OF p] by (auto simp: carries_def)
    ultimately show ?thesis
      using sent_once_extend [OF assms(2), of t tx g' s'] False g' t by (auto simp: bridge_targets_def skipped_def selected_def)
  qed
qed

lemma pfold_reaches:
  assumes "pfold f xs g s = (Inr g', s')" "sent_once l s0 g s"
    and "\<And>x g s g1 s1. x \<in> set xs \<Longrightarrow> f x g s = (Inr g1, s1) \<Longrightarrow> sent_once l s0 g s \<Longrightarrow>
      sent_once l s0 g1 s1 \<and> set (networks_sent_to g1) = set (networks_sent_to g) \<union> T x"
  shows "sent_once l s0 g' s' \<and> set (networks_sent_to g') = set (networks_sent_to g) \<union> (\<Union>x\<in>set xs. T x)"
  using assms
proof (induction xs arbitrary: g s)
  case Nil
  then show ?case by (simp add: py_simps)
next
  case (Cons x xs)
  obtain g1 s1 where one: "f x g s = (Inr g1, s1)" and rest: "pfold f xs g1 s1 = (Inr g', s')"
    using Cons.prems(1) by (auto simp: run_simps)
  have first: "sent_once l s0 g1 s1" "set (networks_sent_to g1) = set (networks_sent_to g) \<union> T x"
    using Cons.prems(3) [OF _ one Cons.prems(2)] by simp_all
  have "sent_once l s0 g' s' \<and> set (networks_sent_to g') = set (networks_sent_to g1) \<union> (\<Union>x\<in>set xs. T x)"
    by (rule Cons.IH [OF rest first(1)]) (rule Cons.prems(3); simp)
  then show ?case
    using first(2) by auto
qed

lemma send_bridges_step:
  assumes "send_bridges N l L n g s = (Inr g', s')" "sent_once l s0 g s"
  shows "sent_once l s0 g' s' \<and> set (networks_sent_to g') = set (networks_sent_to g) \<union> bridged_targets (known_portals s0) L n"
proof -
  obtain f where f: "networkTypeToID (type_or_smsg (network_type n)) = Inr f" and run: "pfold (send_bridge N l L f) (bridged n) g s = (Inr g', s')"
    using assms(1) by (auto simp: send_bridges_def run_simps py_simps)
  have "sent_once l s0 g' s' \<and> set (networks_sent_to g') = set (networks_sent_to g) \<union> (\<Union>b\<in>set (bridged n). bridge_targets (known_portals s0) L f b)"
    by (rule pfold_reaches [OF run assms(2)]) (rule send_bridge_step)
  then show ?thesis
    using f by (auto simp: bridged_targets_def)
qed

text \<open>C26. A message goes once to every network it is meant for. Let there be no direct route to the receiver. If \<open>sendMessage\<close> returns, the transmissions it made belong one
  to one to different networks: exactly the active ones of this node and those it is bridged to by a known portal, as far as they are in the list given, or all if none is
  given. Each transmission is on the network itself, or carries the message to a portal that leads to it; the known portals are as before.\<close>

theorem message_sent_once:
  assumes "\<not> nv_route N 1 (l_source l) (l_dest l)" "\<not> nv_route N 2 (l_source l) (l_dest l)" "sendMessage_nets N l message_nets s = (Inr i, s')"
  shows "\<exists>a b reached txs. expandMessageNets message_nets = Inr (a, b) \<and> transmissions s' = transmissions s @ txs \<and> known_portals s' = known_portals s
    \<and> distinct reached \<and> list_all2 (carries l (known_portals s)) reached txs
    \<and> set reached = (\<Union>n\<in>set (nv_nets N). active_targets (a @ b) n \<union> bridged_targets (known_portals s) (a @ b) n)"
proof -
  let ?g0 = "\<lparr>networks_sent_to = [], g_msg = None, g_id = None\<rparr>"
  obtain a b d g1 s1 g2 where nets: "expandMessageNets message_nets = Inr (a, b)"
    and one: "pfold (send_active N l (a @ b) d) (nv_nets N) ?g0 s = (Inr g1, s1)"
    and two: "pfold (send_bridges N l (a @ b)) (nv_nets N) g1 s1 = (Inr g2, s')"
    using assms by (auto simp: sendMessage_nets_def Let_def run_simps py_simps)
  have "sent_once l s ?g0 s"
    by (simp add: sent_once_def)
  then have first: "sent_once l s g1 s1 \<and> set (networks_sent_to g1) = set (networks_sent_to ?g0) \<union> (\<Union>n\<in>set (nv_nets N). active_targets (a @ b) n)"
    by (rule pfold_reaches [OF one]) (rule send_active_step)
  then have "sent_once l s g2 s' \<and> set (networks_sent_to g2) = set (networks_sent_to g1) \<union> (\<Union>n\<in>set (nv_nets N). bridged_targets (known_portals s) (a @ b) n)"
    by (intro pfold_reaches [OF two]) (auto dest: send_bridges_step)
  then show ?thesis
    using nets first by (auto simp: sent_once_def UN_Un_distrib)
qed

interpretation tables: effect_relation keeps_portals
  by unfold_locales (auto simp: keeps_portals_def)

lemma takeWhile_shorter: "x \<in> set xs \<Longrightarrow> \<not> P x \<Longrightarrow> length (takeWhile P xs) < length xs"
  by (induction xs) auto

lemma refresh_known_ok:
  assumes "distinct (map portal_address_from ps)" "\<forall>q\<in>set ps. network_from q = network_from p \<and> network_to q = network_to p"
  shows "distinct (map portal_address_from (refresh_known p ps)) \<and> (\<forall>q\<in>set (refresh_known p ps). network_from q = network_from p \<and> network_to q = network_to p)"
proof (cases "list_ex (\<lambda>q. portal_address_from q = portal_address_from p) ps")
  case True
  let ?i = "length (takeWhile (\<lambda>q. portal_address_from q \<noteq> portal_address_from p) ps)"
  have i: "?i < length ps"
    using True by (auto simp: list_ex_iff intro: takeWhile_shorter)
  have "map portal_address_from (ps[?i := (ps ! ?i)\<lparr>num_refreshes := a, portal_time_start := b, portal_time_valid := c, portal_smsg_difficulty := d\<rparr>]) = map portal_address_from ps" for a b c d
    using i by (simp add: map_update list_update_same_conv)
  moreover have "network_from (ps ! ?i) = network_from p \<and> network_to (ps ! ?i) = network_to p"
    using i assms(2) by simp
  ultimately show ?thesis
    using True assms by (auto simp: refresh_known_def Let_def dest!: set_update_subset_insert [THEN subsetD])
next
  case False
  then show ?thesis
    using assms by (auto simp: refresh_known_def list_ex_iff)
qed

lemma tables_transmit [intro!]: "steps keeps_portals (transmit t r)"
  by (rule stepsI) (auto simp: transmit_runs keeps_portals_def portals_ok_def)

lemma tables_send [intro!]:
  "steps keeps_portals (sendSmsg N a b p v)" "steps keeps_portals (forwardSmsg N m)" "steps keeps_portals (sendSimplexMsg N a b p v ts det d)"
  "steps keeps_portals (forwardSimplexMsg N m)"
  unfolding sendSmsg_def forwardSmsg_def sendSimplexMsg_def forwardSimplexMsg_def by blast+

lemma tables_offer [intro!]: "steps keeps_portals (send_portal_offer N p payload det)"
  unfolding send_portal_offer_def Let_def by blast

lemma tables_keep_key [intro!]: "steps keeps_portals (keep_key a k)"
  by (rule stepsI) (auto simp: keep_key_def py_simps pbind_def of_option_def keeps_portals_def portals_ok_def split: if_splits option.splits)

lemma AList_update_in: "(j, q) \<in> set (AList.update i p xs) \<Longrightarrow> (j, q) \<in> set xs \<or> j = i \<and> q = p"
  by (induction xs) (auto split: if_splits)

lemma tables_own [intro!]:
  "network_from p = f \<Longrightarrow> network_to p = t \<Longrightarrow> steps keeps_portals (pmod (\<lambda>s. s\<lparr>own_portals := (own_portals s)(f := AList.update t p (own_portals s f))\<rparr>))"
  by (rule stepsI) (auto simp: py_simps keeps_portals_def portals_ok_def dest!: AList_update_in)

lemma tables_row [intro!]:
  "portal_address_from p = a \<Longrightarrow> steps keeps_portals (pmod (\<lambda>s. s\<lparr>portal_rows := (portal_rows s)(a \<mapsto> p)\<rparr>))"
  by (rule stepsI) (auto simp: py_simps keeps_portals_def portals_ok_def)

lemma tables_newPortal [intro!]: "steps keeps_portals (newPortal N f t)"
  unfolding newPortal_def Let_def by (auto simp: new_portal_def)

lemma tables_refreshPortal: "network_from p = f \<Longrightarrow> network_to p = t \<Longrightarrow> steps keeps_portals (refreshPortal N f t p)"
  unfolding refreshPortal_def by auto

lemma tables_known [intro!]:
  assumes "network_from p = f" "network_to p = t"
  shows "steps keeps_portals (pmod (\<lambda>s. s\<lparr>known_portals := (known_portals s)(f := (known_portals s f)(t := refresh_known p (known_portals s f t)))\<rparr>))"
  by (rule stepsI) (use refresh_known_ok [of _ p] assms in \<open>auto simp: py_simps keeps_portals_def portals_ok_def\<close>)

lemma tables_pget:
  assumes "\<And>s. portals_ok s \<Longrightarrow> steps keeps_portals (f (g s))"
  shows "steps keeps_portals (pbind (pget g) f)"
proof (rule stepsI)
  fix s r s'
  assume "pbind (pget g) f s = (r, s')"
  then have "f (g s) s = (r, s')"
    by (simp add: pbind_def pget_def)
  then show "keeps_portals s s'"
    using stepsD [OF assms] by (cases "portals_ok s") (auto simp: keeps_portals_def)
qed

lemma tables_admit: "steps keeps_portals (admit_portal N msg k f t v d a)"
  unfolding admit_portal_def Let_def
  by (rule tables_pget) (auto simp: portals_ok_def new_portal_def split: option.split)

lemma find_in: "find P xs = Some x \<Longrightarrow> x \<in> set xs \<and> P x"
  by (auto simp: find_Some_iff)

lemma own_portal_networks: "portals_ok s \<Longrightarrow> (i, p) \<in> set (own_portals s f) \<Longrightarrow> network_from p = f \<and> network_to p = i"
  by (auto simp: portals_ok_def)

lemma row_address: "portals_ok s \<Longrightarrow> portal_rows s a = Some p \<Longrightarrow> portal_address_from p = a"
  by (auto simp: portals_ok_def)

lemma tables_pass_on: "steps keeps_portals (if network_to p = MessageNetworks_val SMSG then forwardSmsg N m
    else if network_to p = MessageNetworks_val SIMPLEX then
      pbind (plift (getActiveNetwork (nv_nets N) (MessageNetworks_val SIMPLEX))) (\<lambda>_. pbind (forwardSimplexMsg N m) (\<lambda>_. pret ()))
    else praise (ValueError ''Unknown network ID''))"
  by auto

lemma tables_keep_portal [intro!]: "steps keeps_portals (keep_portal N net other)"
  unfolding keep_portal_def
  by (auto intro!: tables_pget tables_refreshPortal dest: map_of_SomeD own_portal_networks)

lemma tables_forget: "steps keeps_portals (pmod (\<lambda>s. s\<lparr>portal_rows := (\<lambda>a. case portal_rows s a of None \<Rightarrow> None
    | Some p \<Rightarrow> if portal_time_start p < time - forget then None else Some p)\<rparr>))"
  by (rule stepsI) (auto simp: py_simps keeps_portals_def portals_ok_def split: option.splits if_splits)

lemma tables_handlers:
  "steps keeps_portals (updateNetworkBridges N forget)" "steps keeps_portals (processPortalOffer N msg k)" "steps keeps_portals (processPortalMessage N msg)"
proof -
  show "steps keeps_portals (updateNetworkBridges N forget)"
    unfolding updateNetworkBridges_def by (auto intro!: tables_forget)
  show "steps keeps_portals (processPortalOffer N msg k)"
    unfolding processPortalOffer_def by (auto intro!: tables_admit)
  show "steps keeps_portals (processPortalMessage N msg)"
    unfolding processPortalMessage_def
    by (rule tables.steps_pbind_plift, rule tables_pget)
      (auto intro!: tables_pass_on tables_pget tables_row tables_own dest: find_in own_portal_networks row_address)
qed

interpretation quiet: effect_relation "\<lambda>s s'. transmissions s' = transmissions s \<and> own_portals s' = own_portals s"
  by unfold_locales auto

lemma quiet_admit: "steps (\<lambda>s s'. transmissions s' = transmissions s \<and> own_portals s' = own_portals s) (admit_portal N msg k f t v d a)"
  unfolding admit_portal_def keep_key_def Let_def
  by (intro quiet.steps_pbind quiet.steps_pseq quiet.steps_if quiet.steps_pget quiet.steps_plift quiet.steps_pret) (auto simp: steps_def pmod_def)

lemma attr_int_iff: "attr_int a name = Inr v \<longleftrightarrow> a name = Some (PInt v)"
  by (auto simp: attr_int_def split: option.splits pyval.splits)

lemma pbind_plift_run: "pbind (plift r) f s = (x, s') \<Longrightarrow> s' \<noteq> s \<Longrightarrow> \<exists>y. r = Inr y \<and> f y s = (x, s')"
  by (cases r) (auto simp: pbind_def plift_def)

lemma offer_admitted:
  assumes "processPortalOffer N msg k s = (r, s')" "s' \<noteq> s"
  shows "admissible N s msg \<and> (\<exists>f t v d a. admit_portal N msg k f t v d a s = (r, s'))"
  using assms unfolding processPortalOffer_def
  by (fastforce dest!: pbind_plift_run simp: admissible_def attr_int_iff list_ex_iff py_simps not_less split: if_splits)

lemma offer_frame:
  assumes "processPortalOffer N msg k s = (r, s')"
  shows "transmissions s' = transmissions s \<and> own_portals s' = own_portals s"
  using offer_admitted [OF assms] stepsD [OF quiet_admit] by (cases "s' = s") auto

text \<open>C28. The tables of portals stay consistent, and only proper offers enter them. The handlers of portal offers and portal messages and the upkeep of own portals keep the tables
  in agreement with their keys, whether they return or raise. An offer of a portal changes nothing but these tables, and only if it came over the network it names, which is active
  here and has an enabled bridge to the network it leads to, if it has not run out, and if it is not from a portal of this node.\<close>

theorem portals_consistent:
  assumes "portals_ok s"
  shows "portals_ok (snd (processPortalOffer N msg k s)) \<and> portals_ok (snd (processPortalMessage N msg s)) \<and> portals_ok (snd (updateNetworkBridges N forget s))
    \<and> (snd (processPortalOffer N msg k s) \<noteq> s \<longrightarrow> admissible N s msg)
    \<and> transmissions (snd (processPortalOffer N msg k s)) = transmissions s \<and> own_portals (snd (processPortalOffer N msg k s)) = own_portals s"
proof -
  have "portals_ok (snd (m s))" if "steps keeps_portals m" for m :: "(net_state, unit) py"
    using that assms by (auto simp: steps_def keeps_portals_def)
  then show ?thesis
    using tables_handlers offer_admitted [of N msg k s] offer_frame [of N msg k s] by (metis prod.collapse)
qed

theorem portals_consistent_witness:
  "portals_ok portal_net \<and> map portal_address_from (known_portals portal_net 1 2) = [''portal''] \<and> admissible net_example blank_net portal_letter"
proof -
  have ok: "portals_ok blank_net"
    by (simp add: portals_ok_def blank_net_def)
  have known: "map portal_address_from (known_portals portal_net 1 2) = [''portal'']"
    unfolding portal_net_def by code_simp
  moreover have "known_portals blank_net 1 2 = []"
    by (simp add: blank_net_def)
  ultimately have "portal_net \<noteq> blank_net"
    by auto
  then show ?thesis
    using portals_consistent [OF ok, of net_example portal_letter "Some ''key''" 0] known by (simp flip: portal_net_def)
qed

theorem message_sent_once_witness:
  "\<exists>s' reached txs. sendMessage_nets net_example small_letter None portal_net = (Inr (Some [1]), s') \<and> transmissions s' = txs \<and> length txs = 2 \<and> distinct reached
     \<and> list_all2 (carries small_letter (known_portals portal_net)) reached txs"
proof -
  let ?s' = "snd (sendMessage_nets net_example small_letter None portal_net)"
  have "fst (sendMessage_nets net_example small_letter None portal_net) = Inr (Some [1])" and two: "length (transmissions ?s') = 2" and none: "length (transmissions portal_net) = 0"
    unfolding portal_net_def by code_simp+
  then have run: "sendMessage_nets net_example small_letter None portal_net = (Inr (Some [1]), ?s')"
    by (simp add: prod_eq_iff)
  have free: "\<not> nv_route net_example 1 (l_source small_letter) (l_dest small_letter)" "\<not> nv_route net_example 2 (l_source small_letter) (l_dest small_letter)"
    by (simp_all add: net_example_def)
  show ?thesis
    using message_sent_once [OF free run] run two none by auto
qed

end
