(* ===== verification/New_Bids.thy ===== *)
theory New_Bids
  imports Auto_Accept Message_Networks Amounts
begin

text \<open>
  New bids: the handlers \<open>processBid\<close>, \<open>processXmrBid\<close>, \<open>receiveXmrBid\<close>, \<open>processADSBidReversed\<close> and \<open>processADSBidReversedAccept\<close> of \<open>src/basicswap/basicswap.py\<close>, on the
  offerer's side and, for a reversed bid, the bidder's. They act on the market (the node and the budgets of offers), as the automatic acceptance does. Wallets, keys, proofs of
  funds and the decimal text of a float are fields of \<open>bids_env\<close>. Columns that only record networks, message ids and keys of addresses are left out; the checks made for them are kept.
  Two theorems say on which terms a bid enters the node and when it is accepted without the user.
\<close>

section \<open>Definitions\<close>

subsection \<open>What is checked of a new bid\<close>

definition MINPROTO_VERSION_SECRET_HASH :: int where
  "MINPROTO_VERSION_SECRET_HASH = 4"

definition MINPROTO_VERSION_ADAPTOR_SIG :: int where
  "MINPROTO_VERSION_ADAPTOR_SIG = 6"

text \<open>Chains, wallets and keys, and the settings of the networks. \<open>b_float_to_str\<close> is the decimal text of a double, with the digits Python's \<open>repr\<close> chooses.\<close>

record bids_env =
  b_auto :: auto_env
  b_payload_version :: int
  b_nets :: "network list"
  b_order :: "int list \<Rightarrow> int list"
  b_float_to_str :: "int \<times> int \<Rightarrow> string"
  b_exp :: "Coins \<Rightarrow> nat"
  b_msg_pubkey :: "message \<Rightarrow> bytes res"
  b_height :: "Coins \<Rightarrow> int res"
  b_restore_height :: "Coins \<Rightarrow> int res"
  b_keys :: accepting
  b_proof :: "Coins \<Rightarrow> string \<Rightarrow> string \<Rightarrow> bytes \<Rightarrow> bytes \<Rightarrow> int res"
  b_dest_ok :: "Coins \<Rightarrow> bytes \<Rightarrow> bool res"

definition b_xenv :: "bids_env \<Rightarrow> xenv" where
  "b_xenv E = m_xenv (a_market (b_auto E))"

definition b_now :: "bids_env \<Rightarrow> int" where
  "b_now E = now (x_env (b_xenv E))"

text \<open>A text attribute; characters beyond the first 256 occur in no name of a network and are all read as one.\<close>

definition attr_text :: "attrs \<Rightarrow> string \<Rightarrow> string res" where
  "attr_text a name = (case a name of None \<Rightarrow> Inl AttributeError
     | Some (PStr s) \<Rightarrow> Inr (map (\<lambda>k. if k < 256 then char_of k else CHR 0xFF) s) | Some _ \<Rightarrow> Inl TypeError)"

definition make_rate :: "bids_env \<Rightarrow> Coins \<Rightarrow> int \<Rightarrow> int \<Rightarrow> int res" where
  "make_rate E c x y = rbind (true_divide x y) (\<lambda>q. make_int_str (b_float_to_str E q) (b_exp E c) 1)"

definition check_open :: "bids_env \<Rightarrow> message \<Rightarrow> Offer \<Rightarrow> bool \<Rightarrow> int \<Rightarrow> unit res" where
  "check_open E msg offer state_ok valid =
     rbind (ensure state_ok ''Bad offer state'') (\<lambda>_.
     rbind (ensure (msg_dest msg = addr_from offer) ''Received on incorrect address'') (\<lambda>_.
     rbind (ensure (b_now E \<le> offer_expire_at offer) ''Offer expired'') (\<lambda>_.
     rbind (if offer_active_ind offer \<noteq> 1 then Inl (OtherError ''RevokedOffer'') else Inr ()) (\<lambda>_.
     rbind (validateBidValidTime valid) (\<lambda>_.
     ensure (b_now E \<le> msg_sent msg + valid) ''Bid expired'')))))"

definition respond_on :: "bids_env \<Rightarrow> message \<Rightarrow> string \<Rightarrow> string res" where
  "respond_on E msg message_nets =
     rbind (networkTypeToID (msg_net msg)) (\<lambda>i.
     selectMessageNetString (b_payload_version E) (b_nets E) (b_order E) [i] (Some message_nets))"

definition coin_of :: "int \<Rightarrow> Coins res" where
  "coin_of c = of_option (ValueError ''Coins'') (Coins_of c)"

text \<open>The row of a bid that was not known, and what is new in one that was sent from this node.\<close>

definition new_bid :: "message \<Rightarrow> bytes \<Rightarrow> int \<Rightarrow> int \<Rightarrow> int \<Rightarrow> int \<Rightarrow> int \<Rightarrow> int \<Rightarrow> int \<Rightarrow> Bid" where
  "new_bid msg offer version x x_to r valid height_a height_b =
     (blank_bid (msg_id msg))\<lparr>bid_offer_id := offer, protocol_version := version, amount := x, amount_to := x_to, rate := r, created_at := msg_sent msg,
       expire_at := msg_sent msg + valid, bid_addr := msg_source msg, was_received := True, chain_a_height_start := Some height_a, chain_b_height_start := Some height_b\<rparr>"

definition known_bid :: "message \<Rightarrow> BidStates \<Rightarrow> int \<Rightarrow> Bid \<Rightarrow> Bid res" where
  "known_bid msg st valid bid =
     rbind (ensure (state bid = Some (BidStates_val st)) ''Wrong bid state'') (\<lambda>_.
     Inr (bid\<lparr>expire_at := msg_sent msg + valid, was_received := True\<rparr>))"

definition queue_accept :: "bids_env \<Rightarrow> ActionTypes \<Rightarrow> bytes \<Rightarrow> (market, unit) py" where
  "queue_accept E t b = on_node (let X = b_xenv E in createAction (now (x_env X)) (duplicate_actions (x_env X)) (x_delay X) t b)"

subsection \<open>Bids of secret hash swaps\<close>

definition check_proof :: "bids_env \<Rightarrow> bytes \<Rightarrow> Offer \<Rightarrow> Coins \<Rightarrow> attrs \<Rightarrow> int \<Rightarrow> unit res" where
  "check_proof E i offer cto d x_to =
     (if swap_type offer = SwapTypes_val SELLER_FIRST then
        rbind (attr_bytes d ''pkhash_buyer'') (\<lambda>pkh.
        rbind (ensure (length pkh = 20) ''Bad pkhash_buyer length'') (\<lambda>_.
        rbind (attr_text d ''proof_address'') (\<lambda>address.
        rbind (attr_text d ''proof_signature'') (\<lambda>signature.
        rbind (attr_bytes d ''proof_utxos'') (\<lambda>utxos.
        rbind (b_proof E cto address signature utxos i) (\<lambda>sum_unspent.
        ensure (sum_unspent \<ge> x_to) ''Proof of funds failed''))))))
      else if swap_type offer = SwapTypes_val BUYER_FIRST then Inl (ValueError ''TODO'')
      else Inl (ValueError ''Unknown swap type''))"

definition check_bid :: "bids_env \<Rightarrow> message \<Rightarrow> attrs \<Rightarrow> bytes \<Rightarrow> Offer \<Rightarrow> (int \<times> int \<times> int \<times> int) res" where
  "check_bid E msg d i offer =
     rbind (attr_int d ''time_valid'') (\<lambda>valid.
     rbind (check_open E msg offer (state offer = Some (OfferStates_val OFFER_RECEIVED)) valid) (\<lambda>_.
     rbind (coin_of (coin_to offer)) (\<lambda>cto.
     rbind (coin_of (coin_from offer)) (\<lambda>cfrom.
     rbind (attr_int d ''amount'') (\<lambda>x.
     rbind (attr_int d ''amount_to'') (\<lambda>x_to.
     rbind (make_rate E cfrom x_to x) (\<lambda>r.
     rbind (validateBidAmount offer x r) (\<lambda>_.
     rbind (attr_text d ''message_nets'') (\<lambda>message_nets.
     rbind (validateMessageNets (Some message_nets)) (\<lambda>_.
     rbind (respond_on E msg message_nets) (\<lambda>_.
     rbind (check_proof E i offer cto d x_to) (\<lambda>_.
     Inr (valid, x, x_to, r)))))))))))))"

definition start_heights :: "bids_env \<Rightarrow> Coins \<Rightarrow> Coins \<Rightarrow> (int \<times> int) res" where
  "start_heights E ca cb = rbind (b_height E ca) (\<lambda>a. rbind (b_height E cb) (\<lambda>b. Inr (a, b)))"

definition bid_row :: "bids_env \<Rightarrow> message \<Rightarrow> attrs \<Rightarrow> bytes \<Rightarrow> Offer \<Rightarrow> int \<times> int \<times> int \<times> int \<Rightarrow> Bid option \<Rightarrow> Bid res" where
  "bid_row E msg d i offer terms old =
     (case terms of (valid, x, x_to, r) \<Rightarrow>
        rbind (b_msg_pubkey E msg) (\<lambda>_.
        case old of
          Some bid \<Rightarrow> rbind (known_bid msg BID_SENT valid bid) (\<lambda>bid. Inr (bid\<lparr>created_at := msg_sent msg\<rparr>))
        | None \<Rightarrow>
            rbind (coin_of (coin_from offer)) (\<lambda>cfrom.
            rbind (coin_of (coin_to offer)) (\<lambda>cto.
            rbind (attr_int d ''protocol_version'') (\<lambda>version.
            rbind (attr_bytes d ''pkhash_buyer'') (\<lambda>pkh.
            rbind (attr_bytes d ''pkhash_buyer_to'') (\<lambda>pkh_to.
            rbind (start_heights E cfrom cto) (\<lambda>(ha, hb).
            Inr ((new_bid msg i version x x_to r valid ha hb)\<lparr>pkhash_buyer := Some pkh,
                   pkhash_buyer_to := (if length pkh_to > 0 then Some pkh_to else None)\<rparr>))))))))) "

definition offer_of_bid :: "attrs \<Rightarrow> int \<Rightarrow> bytes res" where
  "offer_of_bid d minimum =
     rbind (attr_int d ''protocol_version'') (\<lambda>version.
     rbind (ensure (version \<ge> minimum) ''Invalid protocol version'') (\<lambda>_.
     rbind (attr_bytes d ''offer_msg_id'') (\<lambda>i.
     rbind (ensure (length i = 28) ''Bad offer_id length'') (\<lambda>_.
     Inr i))))"

definition sent_offer :: "string \<Rightarrow> Offer option \<Rightarrow> Offer res" where
  "sent_offer err offer = (case offer of None \<Rightarrow> Inl (ValueError err) | Some offer \<Rightarrow> rbind (ensure (offer_was_sent offer) err) (\<lambda>_. Inr offer))"

definition processBid :: "bids_env \<Rightarrow> message \<Rightarrow> (market, unit) py" where
  "processBid E msg =
     pbind (plift (parse_message BidMessage msg)) (\<lambda>d.
     pbind (plift (offer_of_bid d MINPROTO_VERSION_SECRET_HASH)) (\<lambda>i.
     pbind (pget (\<lambda>m. offer_rows (market_node m) i)) (\<lambda>offer.
     pbind (plift (sent_offer ''Unknown offer'' offer)) (\<lambda>offer.
     pbind (plift (check_bid E msg d i offer)) (\<lambda>terms.
     pbind (pget (\<lambda>m. bid_rows (market_node m) (msg_id msg))) (\<lambda>old.
     pbind (plift (bid_row E msg d i offer terms old)) (\<lambda>bid.
     pbind (on_node (with_state (b_now E) BID_RECEIVED bid)) (\<lambda>bid.
     pseq (on_node (saveBidInSession (msg_id msg) bid))
    (pseq (on_node (notify_bid NT_BID_RECEIVED (msg_id msg)))
    (pbind (shouldAutoAcceptBid (b_auto E) offer bid None) (\<lambda>(accept, bid).
     pwhen accept (queue_accept E ACCEPT_BID (msg_id msg)))))))))))))"

subsection \<open>Bids of adaptor signature swaps\<close>

definition receive_keys :: "bids_env \<Rightarrow> Coins \<Rightarrow> Coins \<Rightarrow> bytes \<Rightarrow> XmrSwap \<Rightarrow> XmrSwap res" where
  "receive_keys E ca cb ps xs =
     (let A = b_keys E in
      rbind (whole_dleag (A cb) (kbsf_dleag xs) ps) (\<lambda>dleag.
      rbind (secret_pubkeys (A cb) ''proof kbsf owned for swap'' dleag) (\<lambda>(pka, pkb).
      rbind (valid_pubkey (A ca) (Some pka) ''Invalid coin a pubkey.'') (\<lambda>_.
      rbind (if curve_type (A cb) = ed25519 then valid_pubkey (A cb) (Some pkb) ''Invalid coin b pubkey.'' else Inr ()) (\<lambda>_.
      rbind (of_option TypeError (vkbvf xs)) (\<lambda>kvf.
      rbind (verifyKey (x_ads (b_xenv E) cb) kvf) (\<lambda>v.
      rbind (ensure v ''Invalid key, vkbvf'') (\<lambda>_.
      rbind (valid_pubkey (A ca) (pkaf xs) ''Invalid pubkey, pkaf'') (\<lambda>_.
      Inr (xs\<lparr>kbsf_dleag := Some dleag, pkasf := Some pka, pkbsf := Some pkb\<rparr>))))))))))"

definition receiveXmrBid :: "bids_env \<Rightarrow> bytes \<Rightarrow> Bid \<Rightarrow> (market, unit) py" where
  "receiveXmrBid E b bid =
     pbind (on_node (load_offer (bid_offer_id bid))) (\<lambda>(offer, xo).
     pbind (pget (\<lambda>m. xmr_swaps (market_node m) b)) (\<lambda>xs.
     pbind (plift (of_option (ValueError ''Adaptor-sig swap not found'') xs)) (\<lambda>xs.
     pseq (plift (ensure (reverse_offer offer \<or> offer_was_sent offer) ''Offer not sent''))
    (pbind (plift (coin_a offer)) (\<lambda>ca.
     pbind (plift (coin_b offer)) (\<lambda>cb.
     pbind (pget (\<lambda>m. split_parts b XSM_BID (follower_addr offer bid) (leader_addr offer bid) (market_node m))) (\<lambda>ps.
     pbind (plift (receive_keys E ca cb ps xs)) (\<lambda>xs.
     pseq (pwhen (\<not> reverse_offer offer) (on_node (notify_bid NT_BID_RECEIVED b)))
    (pbind (on_node (with_state (b_now E) BID_RECEIVED bid)) (\<lambda>bid.
     pbind (if reverse_offer offer then pret (True, bid) else shouldAutoAcceptBid (b_auto E) offer bid None) (\<lambda>(accept, bid).
     pbind (if accept then pseq (queue_accept E ACCEPT_XMR_BID b) (on_node (with_state (b_now E) SWAP_DELAYING bid)) else pret bid) (\<lambda>bid.
     on_node (save_swap b bid xs)))))))))))))"

definition ads_offer_of :: "bytes \<Rightarrow> bool \<Rightarrow> (market, Offer \<times> XmrOffer) py" where
  "ads_offer_of i reversed =
     pbind (on_node (getXmrOfferFromSession i)) (\<lambda>(offer, xo).
     pbind (plift (sent_offer ''Offer not found'' offer)) (\<lambda>offer.
     pseq (plift (ensure (swap_type offer = SwapTypes_val XMR_SWAP) ''Bid/offer swap type mismatch''))
    (pbind (plift (of_option (ValueError ''Adaptor-sig offer not found'') xo)) (\<lambda>xo.
     pseq (plift (ensure (offer_protocol_version offer \<ge> MINPROTO_VERSION_ADAPTOR_SIG) ''Incompatible offer protocol version''))
    (pseq (plift (ensure (reverse_offer offer = reversed) ''Offer is reversed''))
          (pret (offer, xo)))))))"

definition offer_open :: "Offer \<Rightarrow> bool" where
  "offer_open offer \<longleftrightarrow> (case state offer of None \<Rightarrow> False | Some st \<Rightarrow> validOfferStateToReceiveBid st)"

definition blank_xmr_swap :: XmrSwap where
  "blank_xmr_swap = \<lparr>swap_contract_count = None, dest_af = None, dest_bl = None, pkal = None, pkasl = None, pkaf = None, pkasf = None, vkbvl = None, pkbvl = None, pkbsl = None,
     vkbvf = None, pkbvf = None, pkbsf = None, kbsl_dleag = None, kbsf_dleag = None, vkbv = None, pkbv = None, pkbs = None, a_lock_tx = None, a_lock_tx_script = None,
     a_lock_tx_id = None, a_lock_tx_vout = None, a_lock_refund_tx = None, a_lock_refund_tx_script = None, a_lock_refund_tx_id = None, a_swap_refund_value = None,
     al_lock_refund_tx_sig = None, af_lock_refund_tx_sig = None, a_lock_refund_spend_tx = None, a_lock_refund_spend_tx_id = None, af_lock_refund_spend_tx_esig = None,
     af_lock_refund_spend_tx_sig = None, a_lock_spend_tx = None, a_lock_spend_tx_id = None, al_lock_spend_tx_esig = None, kal_sig = None, a_lock_refund_swipe_tx = None,
     b_lock_tx_id = None\<rparr>"

text \<open>The keys the follower sends. The proof is looked at in \<open>receiveXmrBid\<close>.\<close>

definition check_bid_keys :: "bids_env \<Rightarrow> Coins \<Rightarrow> Coins \<Rightarrow> attrs \<Rightarrow> (bytes \<times> bytes \<times> bytes \<times> bytes) res" where
  "check_bid_keys E ca cb d =
     rbind (attr_bytes d ''kbvf'') (\<lambda>kvf.
     rbind (verifyKey (x_ads (b_xenv E) cb) kvf) (\<lambda>v.
     rbind (ensure v ''Invalid chain B follower view key'') (\<lambda>_.
     rbind (attr_bytes d ''pkaf'') (\<lambda>kaf.
     rbind (valid_pubkey (b_keys E ca) (Some kaf) ''Invalid chain A follower public key'') (\<lambda>_.
     rbind (attr_bytes d ''dest_af'') (\<lambda>dest.
     rbind (b_dest_ok E ca dest) (\<lambda>v.
     rbind (ensure v ''Invalid destination address'') (\<lambda>_.
     rbind (attr_bytes d ''kbsf_dleag'') (\<lambda>dleag.
     rbind (ensure (curve_type (b_keys E cb) = ed25519 \<longrightarrow> length dleag \<le> 16000) ''Invalid kbsf_dleag size'') (\<lambda>_.
     Inr (kvf, kaf, dest, dleag)))))))))))"

definition put_bid_keys :: "bids_env \<Rightarrow> Coins \<Rightarrow> bytes \<times> bytes \<times> bytes \<times> bytes \<Rightarrow> XmrSwap \<Rightarrow> XmrSwap res" where
  "put_bid_keys E cb keys xs =
     (case keys of (kvf, kaf, dest, dleag) \<Rightarrow>
        rbind (getPubkey (x_ads (b_xenv E) cb) kvf) (\<lambda>kvf_pub.
        Inr (xs\<lparr>dest_af := Some dest, pkaf := Some kaf, vkbvf := Some kvf, pkbvf := Some kvf_pub, kbsf_dleag := Some dleag\<rparr>)))"

definition clamped_height :: "bids_env \<Rightarrow> Coins \<Rightarrow> int \<Rightarrow> int res" where
  "clamped_height E cb h = rbind (b_restore_height E cb) (\<lambda>w. Inr (if h < w then w else h))"

definition save_bid_swap :: "bytes \<Rightarrow> Bid \<Rightarrow> XmrSwap option \<Rightarrow> (market, unit) py" where
  "save_bid_swap b bid xs = on_node (case xs of None \<Rightarrow> saveBidInSession b bid | Some xs \<Rightarrow> save_swap b bid xs)"

text \<open>The rows of a bid that came: new ones, or those of a bid this node sent to itself.\<close>

definition ads_rows :: "bids_env \<Rightarrow> message \<Rightarrow> attrs \<Rightarrow> bytes \<Rightarrow> Coins \<Rightarrow> Coins \<Rightarrow> int \<times> int \<times> int \<times> int \<Rightarrow> XmrSwap res \<Rightarrow> BidStates
     \<Rightarrow> Bid option \<times> XmrSwap option \<Rightarrow> (Bid \<times> XmrSwap option) res" where
  "ads_rows E msg d i ca cb terms fresh st old =
     (case terms of (valid, x, x_to, r) \<Rightarrow>
        rbind (b_msg_pubkey E msg) (\<lambda>_.
        case old of
          (Some bid, xs) \<Rightarrow> rbind (known_bid msg st valid bid) (\<lambda>bid. Inr (bid, xs))
        | (None, _) \<Rightarrow>
            rbind (attr_int d ''protocol_version'') (\<lambda>version.
            rbind (start_heights E ca cb) (\<lambda>(ha, hb).
            rbind fresh (\<lambda>xs.
            rbind (setMsgSplitInfo (b_nets E)) (\<lambda>_.
            rbind (clamped_height E cb hb) (\<lambda>hb.
            Inr (new_bid msg i version x x_to r valid ha hb, Some xs))))))))"

definition check_ads_bid :: "bids_env \<Rightarrow> message \<Rightarrow> attrs \<Rightarrow> Offer \<Rightarrow> Coins \<Rightarrow> Coins \<Rightarrow> ((int \<times> int \<times> int \<times> int) \<times> bytes \<times> bytes \<times> bytes \<times> bytes) res" where
  "check_ads_bid E msg d offer ca cb =
     rbind (attr_int d ''time_valid'') (\<lambda>valid.
     rbind (check_open E msg offer (offer_open offer) valid) (\<lambda>_.
     rbind (attr_int d ''amount'') (\<lambda>x.
     rbind (attr_int d ''amount_to'') (\<lambda>x_to.
     rbind (make_rate E ca x_to x) (\<lambda>r.
     rbind (validateBidAmount offer x r) (\<lambda>_.
     rbind (check_bid_keys E ca cb d) (\<lambda>keys.
     rbind (attr_text d ''message_nets'') (\<lambda>message_nets.
     rbind (validateMessageNets (Some message_nets)) (\<lambda>_.
     rbind (respond_on E msg message_nets) (\<lambda>_.
     Inr ((valid, x, x_to, r), keys)))))))))))"

definition processXmrBid :: "bids_env \<Rightarrow> message \<Rightarrow> (market, unit) py" where
  "processXmrBid E msg =
     pbind (plift (parse_message XmrBidMessage msg)) (\<lambda>d.
     pbind (plift (offer_of_bid d MINPROTO_VERSION_ADAPTOR_SIG)) (\<lambda>i.
     pbind (ads_offer_of i False) (\<lambda>(offer, xo).
     pbind (plift (coin_a offer)) (\<lambda>ca.
     pbind (plift (coin_b offer)) (\<lambda>cb.
     pbind (plift (check_ads_bid E msg d offer ca cb)) (\<lambda>(terms, keys).
     pbind (on_node (getXmrBidFromSession (msg_id msg))) (\<lambda>old.
     pbind (plift (ads_rows E msg d i ca cb terms (put_bid_keys E cb keys blank_xmr_swap) BID_SENT old)) (\<lambda>(bid, xs).
     pbind (on_node (with_state (b_now E) BID_RECEIVING bid)) (\<lambda>bid.
     pseq (save_bid_swap (msg_id msg) bid xs)
          (pwhen (curve_type (b_keys E cb) \<noteq> ed25519) (receiveXmrBid E (msg_id msg) bid)))))))))))"

subsection \<open>Reversed bids\<close>

text \<open>The offer gives a coin without scripts: the bidder leads, and the amounts and coins of the bid are exchanged.\<close>

definition check_reversed_bid :: "bids_env \<Rightarrow> message \<Rightarrow> attrs \<Rightarrow> Offer \<Rightarrow> Coins \<Rightarrow> Coins \<Rightarrow> ((int \<times> int \<times> int \<times> int) \<times> int) res" where
  "check_reversed_bid E msg d offer ca cb =
     rbind (attr_text d ''message_nets'') (\<lambda>message_nets.
     rbind (validateMessageNets (Some message_nets)) (\<lambda>_.
     rbind (attr_int d ''time_valid'') (\<lambda>valid.
     rbind (check_open E msg offer (offer_open offer) valid) (\<lambda>_.
     rbind (attr_int d ''amount_to'') (\<lambda>x_to.
     rbind (attr_int d ''amount_from'') (\<lambda>x.
     rbind (make_rate E cb x_to x) (\<lambda>r.
     rbind (make_rate E ca x x_to) (\<lambda>reversed_rate.
     rbind (validateBidAmount offer x r) (\<lambda>_.
     rbind (expandMessageNets (Some message_nets)) (\<lambda>_.
     Inr ((valid, x_to, x, reversed_rate), r)))))))))))"

definition processADSBidReversed :: "bids_env \<Rightarrow> message \<Rightarrow> (market, unit) py" where
  "processADSBidReversed E msg =
     pbind (plift (parse_message ADSBidIntentMessage msg)) (\<lambda>d.
     pbind (plift (offer_of_bid d MINPROTO_VERSION_ADAPTOR_SIG)) (\<lambda>i.
     pbind (ads_offer_of i True) (\<lambda>(offer, xo).
     pbind (plift (coin_a offer)) (\<lambda>ca.
     pbind (plift (coin_b offer)) (\<lambda>cb.
     pbind (plift (check_reversed_bid E msg d offer ca cb)) (\<lambda>(terms, r).
     pbind (on_node (getXmrBidFromSession (msg_id msg))) (\<lambda>old.
     pbind (plift (ads_rows E msg d i ca cb terms (Inr blank_xmr_swap) BID_REQUEST_SENT old)) (\<lambda>(bid, xs).
     pbind (on_node (with_state (b_now E) BID_RECEIVED bid)) (\<lambda>bid.
     pseq (save_bid_swap (msg_id msg) bid xs)
    (pseq (on_node (notify_bid NT_BID_RECEIVED (msg_id msg)))
    (pbind (shouldAutoAcceptBid (b_auto E) offer bid (Some r)) (\<lambda>(accept, bid).
     pwhen accept
       (pseq (queue_accept E ACCEPT_AS_REV_BID (msg_id msg))
       (pbind (on_node (with_state (b_now E) SWAP_DELAYING bid)) (\<lambda>bid.
        on_node (saveBidInSession (msg_id msg) bid))))))))))))))))"

text \<open>The bidder of a reversed bid gets the follower's keys.\<close>

definition processADSBidReversedAccept :: "bids_env \<Rightarrow> message \<Rightarrow> (market, unit) py" where
  "processADSBidReversedAccept E msg =
     pbind (plift (parse_message ADSBidIntentAcceptMessage msg)) (\<lambda>d.
     pbind (plift (attr_bytes d ''bid_msg_id'')) (\<lambda>b.
     pbind (on_node (load_swap b)) (\<lambda>(bid, xs).
     pbind (on_node (load_offer (bid_offer_id bid))) (\<lambda>(offer, xo).
     pseq (plift (ensure (reverse_offer offer) ''Offer not reversed''))
    (pseq (on_node (check_addresses msg (addr_from offer) (bid_addr bid)))
    (pseq (on_node (check_state ([BID_REQUEST_SENT] @ (if was_sent bid \<and> offer_was_sent offer then [BID_REQUEST_ACCEPTED] else [])) bid))
    (pbind (plift (coin_a offer)) (\<lambda>ca.
     pbind (plift (coin_b offer)) (\<lambda>cb.
     pbind (plift (rbind (check_bid_keys E ca cb d) (\<lambda>keys. put_bid_keys E cb keys xs))) (\<lambda>xs.
     pbind (plift (rbind (start_heights E ca cb) (\<lambda>(ha, hb). rbind (clamped_height E cb hb) (\<lambda>hb. Inr (ha, hb))))) (\<lambda>(ha, hb).
     pbind (on_node (with_state (b_now E) BID_RECEIVING (bid\<lparr>chain_a_height_start := Some ha, chain_b_height_start := Some hb\<rparr>))) (\<lambda>bid.
     pseq (on_node (save_swap b bid xs))
    (pseq (on_node (notify_bid NT_BID_ACCEPTED b))
          (pwhen (curve_type (b_keys E cb) \<noteq> ed25519) (receiveXmrBid E b bid)))))))))))))))"

section \<open>Specification vocabulary\<close>

text \<open>The terms a bid is taken on.\<close>

definition on_terms :: "bids_env \<Rightarrow> message \<Rightarrow> Offer \<Rightarrow> int \<Rightarrow> int \<Rightarrow> int \<Rightarrow> bool" where
  "on_terms E msg offer valid x r \<longleftrightarrow>
     offer_was_sent offer \<and> offer_active_ind offer = 1 \<and> msg_dest msg = addr_from offer \<and> b_now E \<le> offer_expire_at offer
     \<and> 10 * 60 \<le> valid \<and> valid \<le> 24 * 60 * 60 \<and> b_now E \<le> msg_sent msg + valid
     \<and> min_bid_amount offer \<le> x \<and> x \<le> amount_from offer \<and> (amount_negotiable offer \<or> x = amount_from offer)
     \<and> 0 < r \<and> (rate_negotiable offer \<or> ratesMatch r (offer_rate offer) (offer_rate offer))"

definition reversed_swap :: "Offer \<Rightarrow> bool" where
  "reversed_swap offer \<longleftrightarrow> swap_type offer = SwapTypes_val XMR_SWAP \<and> reverse_offer offer"

text \<open>A bid that came with a message, on the terms of an offer. In a reversed bid the amounts are exchanged.\<close>

definition taken :: "bids_env \<Rightarrow> message \<Rightarrow> market \<Rightarrow> Offer \<Rightarrow> int \<Rightarrow> Bid \<Rightarrow> bool" where
  "taken E msg m offer r bid \<longleftrightarrow>
     offer_rows (market_node m) (bid_offer_id bid) = Some offer \<and> bid_id bid = msg_id msg \<and> bid_addr bid = msg_source msg
     \<and> on_terms E msg offer (expire_at bid - msg_sent msg) (if reversed_swap offer then amount_to bid else amount bid) r
     \<and> (\<exists>c. Coins_of (coin_from offer) = Some c
          \<and> make_rate E c (if reversed_swap offer then amount bid else amount_to bid) (if reversed_swap offer then amount_to bid else amount bid) = Inr r)
     \<and> (\<not> reversed_swap offer \<longrightarrow> rate bid = r)"

text \<open>Rows that agree in what was bid.\<close>

definition same_bid :: "Bid \<Rightarrow> Bid \<Rightarrow> bool" where
  "same_bid bid row \<longleftrightarrow> bid_id row = bid_id bid \<and> bid_offer_id row = bid_offer_id bid \<and> amount row = amount bid \<and> amount_to row = amount_to bid
     \<and> rate row = rate bid \<and> expire_at row = expire_at bid \<and> bid_addr row = bid_addr bid"

definition holds_bid :: "Bid \<Rightarrow> node \<Rightarrow> bool" where
  "holds_bid bid n \<longleftrightarrow> (case bid_rows n (bid_id bid) of None \<Rightarrow> True | Some row \<Rightarrow> same_bid bid row)"

text \<open>A step that keeps what was bid, and queues nothing.\<close>

definition keeps_row :: "Bid \<Rightarrow> node \<Rightarrow> node \<Rightarrow> bool" where
  "keeps_row bid n n' \<longleftrightarrow> only_swap (bid_id bid) n n' \<and> actions n' = actions n \<and> (holds_bid bid n \<longrightarrow> holds_bid bid n')"

text \<open>Nothing changes but one bid.\<close>

definition only_this_bid :: "bytes \<Rightarrow> market \<Rightarrow> market \<Rightarrow> bool" where
  "only_this_bid b m m' \<longleftrightarrow> only_swap b (market_node m) (market_node m') \<and> offer_tracking m' = offer_tracking m"

text \<open>What a node has after it received a bid: only this bid changed, its row is the bid, and something was queued only if \<open>V\<close>.\<close>

definition received :: "market \<Rightarrow> Bid \<Rightarrow> bool \<Rightarrow> market \<Rightarrow> bool" where
  "received m0 bid V m \<longleftrightarrow> only_this_bid (bid_id bid) m0 m \<and> holds_bid bid (market_node m) \<and> (V \<or> actions (market_node m) = actions (market_node m0))"

definition receiving :: "market \<Rightarrow> Bid \<Rightarrow> bool \<Rightarrow> market \<Rightarrow> market \<Rightarrow> bool" where
  "receiving m0 bid V m m' \<longleftrightarrow> (received m0 bid V m \<longrightarrow> received m0 bid V m')"

text \<open>The strategy of the offer accepts a bid.\<close>

definition backed :: "auto_env \<Rightarrow> Offer \<Rightarrow> int option \<Rightarrow> Bid \<Rightarrow> market \<Rightarrow> bool" where
  "backed A offer reverse_rate bid m \<longleftrightarrow>
     (\<exists>i strategy opts. a_links A (offer_id offer) = Some i \<and> a_strategies A i = Some strategy \<and> strategy_data strategy = Inr opts
        \<and> acceptable A m offer bid (reverse_rate \<noteq> None) opts (if reverse_rate \<noteq> None then amount_to bid else amount bid)
            (case reverse_rate of None \<Rightarrow> rate bid | Some r \<Rightarrow> r))"


definition vouched :: "bids_env \<Rightarrow> market \<Rightarrow> Offer \<Rightarrow> int \<Rightarrow> Bid \<Rightarrow> bool" where
  "vouched E m offer r bid \<longleftrightarrow>
     (\<exists>m1. only_this_bid (bid_id bid) m m1 \<and> backed (b_auto E) offer (if reversed_swap offer then Some r else None) bid m1)"

definition has_terms :: "message \<Rightarrow> bytes \<Rightarrow> int \<times> int \<times> int \<times> int \<Rightarrow> Bid \<Rightarrow> bool" where
  "has_terms msg i terms bid \<longleftrightarrow> (case terms of (valid, x, y, r) \<Rightarrow>
     bid_id bid = msg_id msg \<and> bid_offer_id bid = i \<and> amount bid = x \<and> amount_to bid = y \<and> rate bid = r \<and> expire_at bid = msg_sent msg + valid \<and> bid_addr bid = msg_source msg)"

definition open_offer :: Offer where
  "open_offer = small_offer\<lparr>state := Some (OfferStates_val OFFER_RECEIVED), addr_from := ''offerer'', offer_expire_at := 1800000000, offer_rate := 200\<rparr>"

definition open_market :: market where
  "open_market = \<lparr>market_node = blank_node\<lparr>offer_rows := \<lambda>_. Some open_offer\<rparr>, offer_tracking = \<lambda>_. None\<rparr>"

definition bid_letter :: message where
  "bid_letter = \<lparr>msg_id = [1], msg_source = ''bidder'', msg_dest = ''offerer'', msg_sent = 1699999000,
     msg_payload = (case message_payload MT_BID BidMessage
         [(''protocol_version'', PInt 4), (''offer_msg_id'', PBytes (replicate 28 3)), (''time_valid'', PInt 3600), (''amount'', PInt 4), (''amount_to'', PInt 8),
          (''pkhash_buyer'', PBytes (replicate 20 2)), (''proof_address'', PStr []), (''proof_signature'', PStr []), (''proof_utxos'', PBytes []),
          (''pkhash_buyer_to'', PBytes []), (''message_nets'', PStr [])] of Inl _ \<Rightarrow> [] | Inr p \<Rightarrow> p),
     msg_payload_version = 2, msg_net = ''smsg''\<rparr>"

definition plain_accept :: accept_interface where
  "plain_accept = \<lparr>curve_type = ed25519, lengthDLEAG = 0, verifyDLEAG = \<lambda>_. Inr True, verifyPubkey = \<lambda>_. Inr True, verifySigAndRecover = \<lambda>_ _. Inl KeyError,
     sumPubkeys = \<lambda>_ _. Inl KeyError, verify_a_lock = \<lambda>_ _ _ _ _ _ _ _. Inl KeyError, verify_a_refund = \<lambda>_ _ _ _ _ _ _ _ _ _ _ _ _ _. Inl KeyError,
     verify_a_refund_spend = \<lambda>_ _ _ _ _ _ _ _ _ _. Inl KeyError, bch_lock_values = \<lambda>_. Inl KeyError, bch_pkh_script = \<lambda>_. Inl KeyError,
     scriptToP2SH32LockingBytecode = \<lambda>_. []\<rparr>"

definition bids_example :: bids_env where
  "bids_example = \<lparr>b_auto = auto_example, b_payload_version = 2, b_nets = bridged_nets, b_order = id, b_float_to_str = \<lambda>_. ''2.0'', b_exp = \<lambda>_. 2,
     b_msg_pubkey = \<lambda>_. Inr [2], b_height = \<lambda>_. Inr 100, b_restore_height = \<lambda>_. Inr 0, b_keys = \<lambda>_. plain_accept, b_proof = \<lambda>_ _ _ _ _. Inr 8, b_dest_ok = \<lambda>_ _. Inr True\<rparr>"

section \<open>Facts\<close>

interpretation alone: effect_relation "only_this_bid b" for b
proof unfold_locales
  show "only_this_bid b m m" for m
    unfolding only_this_bid_def by (intro conjI swap.refl refl)
  fix m1 m2 m3
  assume "only_this_bid b m1 m2" "only_this_bid b m2 m3"
  then show "only_this_bid b m1 m3"
    unfolding only_this_bid_def by (elim conjE) (intro conjI, (rule swap.trans; assumption), (erule (1) HOL.trans))
qed

interpretation rows: effect_relation "keeps_row bid" for bid
proof unfold_locales
  show "keeps_row bid n n" for n
    unfolding keeps_row_def by (intro conjI swap.refl refl impI)
  fix n1 n2 n3
  assume "keeps_row bid n1 n2" "keeps_row bid n2 n3"
  then show "keeps_row bid n1 n3"
    unfolding keeps_row_def using swap.trans [of "bid_id bid" n1 n2 n3] by (metis (lifting))
qed

interpretation receipt: effect_relation "receiving m0 bid V" for m0 bid V
  by unfold_locales (auto simp: receiving_def)

lemma same_bid_state: "with_state t s bid n = (Inr bid', n') \<Longrightarrow> same_bid bid bid' \<and> n' = n"
  by (auto simp: with_state_def same_bid_def py_simps setState_def Let_def split: sum.splits prod.splits if_splits option.splits)

lemma same_bid_refl [simp]: "same_bid bid bid"
  by (simp add: same_bid_def)

lemma same_bid_trans: "same_bid a b \<Longrightarrow> same_bid b c \<Longrightarrow> same_bid a c"
  by (simp add: same_bid_def)

lemma same_bid_id: "same_bid a b \<Longrightarrow> bid_id b = bid_id a"
  by (simp add: same_bid_def)

lemma same_saved [simp]: "same_bid bid (saved_row old bid') = same_bid bid bid'"
  by (cases old) (auto simp: same_bid_def saved_row_def)

lemma rows_step: "steps (only_swap (bid_id bid)) f \<Longrightarrow> (\<And>n. actions (snd (f n)) = actions n) \<Longrightarrow> (\<And>n. holds_bid bid n \<Longrightarrow> holds_bid bid (snd (f n)))
  \<Longrightarrow> steps (keeps_row bid) f"
  by (auto simp: steps_def keeps_row_def)

lemma rows_saved [intro!]:
  assumes "same_bid bid bid'" "b = bid_id bid"
  shows "steps (keeps_row bid) (saveBidInSession b bid')" "steps (keeps_row bid) (save_swap b bid' xs)"
  by (rule rows_step; use assms in \<open>auto simp: saveBidInSession_def save_swap_def py_simps holds_bid_def pseq_def pbind_def only_swap_def steps_def\<close>)+

lemma rows_logs [intro!]:
  assumes "b = bid_id bid"
  shows "steps (keeps_row bid) (logEvent b e x)" "steps (keeps_row bid) (notify_bid t b)" "steps (keeps_row bid) (countQueuedActions b ty)"
  by (rule rows_step; use assms in \<open>auto simp: logEvent_def notify_bid_def countQueuedActions_def py_simps holds_bid_def only_swap_def steps_def\<close>)+

lemma rows_with_state [intro!]: "steps (keeps_row bid) (with_state t st bid')"
  unfolding with_state_def by auto

lemma rows_update: "same_bid bid bid' \<Longrightarrow> steps (keeps_row bid) (updateBidRow bid')"
  by (rule rows_step) (auto simp: steps_def updateBidRow_def py_simps only_swap_def holds_bid_def dest!: same_bid_id)

lemma rows_refused: "same_bid bid bid' \<Longrightarrow> steps (keeps_row bid) (refused A bid' e)"
proof -
  assume same: "same_bid bid bid'"
  have "steps (keeps_row bid) (pbind (with_state t st bid') (\<lambda>bid. pseq (updateBidRow bid) (pret (False, bid))))" for t st
    by (rule rows.steps_pbind_run) (auto dest!: same_bid_state intro!: rows_update same_bid_trans [OF same])
  then show ?thesis
    using same_bid_id [OF same] by (cases e) (simp_all add: refused_def Let_def rows.steps_pseq rows.steps_pwhen rows_logs)
qed

text \<open>On the market.\<close>

lemma receipt_on_node [intro!]:
  assumes "steps (keeps_row bid) f"
  shows "steps (receiving m0 bid V) (on_node f)"
proof (rule stepsI)
  fix m r m'
  assume "on_node f m = (r, m')"
  then have m': "m' = m\<lparr>market_node := snd (f (market_node m))\<rparr>"
    by (simp add: on_node_run)
  have kept: "keeps_row bid (market_node m) (market_node m')"
    using assms by (simp add: m' steps_def)
  then have "only_this_bid (bid_id bid) m m'"
    by (simp add: only_this_bid_def keeps_row_def m')
  then show "receiving m0 bid V m m'"
    using kept alone.trans [of "bid_id bid" m0 m m'] by (auto simp: receiving_def received_def keeps_row_def)
qed

lemma receipt_queue [intro]:
  assumes "V" "bid_id bid = b"
  shows "steps (receiving m0 bid V) (queue_accept E t b)"
proof (rule stepsI)
  fix m r m'
  assume run: "queue_accept E t b m = (r, m')"
  have only: "only_swap b (market_node m) (market_node m')"
    using run swap_createAction [of b "now (x_env (b_xenv E))" "duplicate_actions (x_env (b_xenv E))" "x_delay (b_xenv E)" t]
    by (auto simp: queue_accept_def on_node_run Let_def steps_def)
  have "bid_rows (market_node m') = bid_rows (market_node m)" "offer_tracking m' = offer_tracking m"
    using run createAction_run [of "now (x_env (b_xenv E))" "duplicate_actions (x_env (b_xenv E))" "x_delay (b_xenv E)" t b "market_node m"]
    by (auto simp: queue_accept_def on_node_run Let_def)
  then show "receiving m0 bid V m m'"
    using assms only alone.trans [of "bid_id bid" m0 m m'] by (auto simp: receiving_def received_def holds_bid_def only_this_bid_def)
qed

lemma backed_same:
  assumes "same_bid bid bid'"
  shows "backed A offer rr bid' m = backed A offer rr bid m"
proof -
  have "acceptable A m offer bid' rev opts x r = acceptable A m offer bid rev opts x r" for rev opts x r
    using assms unfolding same_bid_def acceptable_def floor_kept_def by simp
  moreover have "amount_to bid' = amount_to bid" "amount bid' = amount bid" "rate bid' = rate bid"
    using assms by (simp_all add: same_bid_def)
  ultimately show ?thesis
    by (cases rr) (simp_all add: backed_def)
qed

lemma receipt_should [intro!]: "same_bid bid bid' \<Longrightarrow> steps (receiving m0 bid V) (shouldAutoAcceptBid A offer bid' rr)"
  using rows_refused same_bid_id unfolding shouldAutoAcceptBid_def by (auto simp: rows_logs)

lemma auto_same:
  assumes "shouldAutoAcceptBid A offer bid rr m = (Inr (accept, bid'), m')"
  shows "same_bid bid bid'"
  using assms same_bid_state
  by (auto simp: shouldAutoAcceptBid_def refused_def Let_def pbind_def pseq_def py_simps on_node_run split: if_splits option.splits sum.splits prod.splits refusal.splits)

lemma receipt_auto:
  assumes same: "same_bid bid bid'" and V: "\<And>m. only_this_bid (bid_id bid) m0 m \<Longrightarrow> backed A offer rr bid m \<Longrightarrow> V"
    and f: "\<And>accept bid''. same_bid bid bid'' \<Longrightarrow> (accept \<Longrightarrow> V) \<Longrightarrow> steps (receiving m0 bid V) (f (accept, bid''))"
  shows "steps (receiving m0 bid V) (pbind (shouldAutoAcceptBid A offer bid' rr) f)"
proof (rule stepsI)
  fix m r m'
  assume run: "pbind (shouldAutoAcceptBid A offer bid' rr) f m = (r, m')"
  obtain x m1 where auto: "shouldAutoAcceptBid A offer bid' rr m = (x, m1)"
    by fastforce
  have first: "receiving m0 bid V m m1"
    using stepsD [OF receipt_should [OF same] auto] .
  show "receiving m0 bid V m m'"
  proof (cases "received m0 bid V m \<and> (\<exists>y. x = Inr y)")
    case False
    then show ?thesis
      using first run auto by (cases x) (auto simp: receiving_def pbind_def)
  next
    case True
    then obtain accept bid'' where x: "x = Inr (accept, bid'')"
      by auto
    have "V" if "accept"
    proof -
      have "backed A offer rr bid' m"
        using auto [unfolded x] that by (auto elim!: auto_accept_evaluated dest!: evaluated_acceptable simp: backed_def)
      then show V
        using V [of m] True backed_same [OF same] by (simp add: received_def)
    qed
    then have "steps (receiving m0 bid V) (f (accept, bid''))"
      using f same_bid_trans [OF same auto_same [OF auto [unfolded x]]] by blast
    moreover have "f (accept, bid'') m1 = (r, m')"
      using run auto x by (simp add: pbind_def)
    ultimately show ?thesis
      using receipt.trans [OF first] stepsD by metis
  qed
qed

lemma receipt_state:
  assumes "same_bid bid bid'" "\<And>bid''. same_bid bid bid'' \<Longrightarrow> steps (receiving m0 bid V) (f bid'')"
  shows "steps (receiving m0 bid V) (pbind (on_node (with_state t st bid')) f)"
proof (rule receipt.steps_pbind_run)
  show "steps (receiving m0 bid V) (f bid'')" if "on_node (with_state t st bid') m = (Inr bid'', m')" for m bid'' m'
    using that same_bid_state [of t st bid' "market_node m"] assms same_bid_trans by (auto simp: on_node_run) (metis prod.collapse)
qed auto

lemma receipt_load:
  assumes "offer_rows (market_node m0) i = Some offer" "\<And>xo. steps (receiving m0 bid V) (f (offer, xo))"
  shows "steps (receiving m0 bid V) (pbind (on_node (load_offer i)) f)"
proof (rule stepsI)
  fix m r m'
  assume run: "pbind (on_node (load_offer i)) f m = (r, m')"
  show "receiving m0 bid V m m'"
  proof (cases "received m0 bid V m")
    case True
    then have "offer_rows (market_node m) i = Some offer"
      using assms(1) by (simp add: received_def only_this_bid_def only_swap_def)
    then have "m' = m \<or> (\<exists>xo. f (offer, xo) m = (r, m'))"
      using run by (auto simp: load_offer_def getXmrOfferFromSession_def pbind_def on_node_run py_simps of_option_def split: option.splits)
    then show ?thesis
      using stepsD [OF assms(2)] by (auto simp: receiving_def)
  qed (simp add: receiving_def)
qed

lemma receipt_decided:
  assumes "same_bid bid bid'" "bid_id bid = b" "accept \<Longrightarrow> V"
  shows "steps (receiving m0 bid V)
    (pbind (if accept then pseq (queue_accept E t b) (on_node (with_state time st bid')) else pret bid') (\<lambda>bid. on_node (save_swap b bid xs)))"
proof (rule receipt.steps_pbind_run)
  show "steps (receiving m0 bid V) (if accept then pseq (queue_accept E t b) (on_node (with_state time st bid')) else pret bid')"
    using assms by auto
  fix m bid'' m'
  assume "(if accept then pseq (queue_accept E t b) (on_node (with_state time st bid')) else pret bid') m = (Inr bid'', m')"
  then have "same_bid bid' bid''"
    by (auto simp: pseq_def pbind_def pret_def on_node_run split: if_splits sum.splits prod.splits) (metis prod.collapse same_bid_state)
  then show "steps (receiving m0 bid V) (on_node (save_swap b bid'' xs))"
    using assms(2) same_bid_trans [OF assms(1)] by auto
qed

lemma receipt_receive:
  assumes same: "same_bid bid bid'" and b: "bid_id bid = b"
    and offer: "offer_rows (market_node m0) (bid_offer_id bid) = Some offer" "\<not> reverse_offer offer"
    and V: "\<And>m. only_this_bid b m0 m \<Longrightarrow> backed (b_auto E) offer None bid m \<Longrightarrow> V"
  shows "steps (receiving m0 bid V) (receiveXmrBid E b bid')"
proof -
  have row: "offer_rows (market_node m0) (bid_offer_id bid') = Some offer"
    using same offer(1) by (simp add: same_bid_def)
  have decide: "steps (receiving m0 bid V) (pbind (shouldAutoAcceptBid (b_auto E) offer bid'' None) (\<lambda>(accept, bid).
      pbind (if accept then pseq (queue_accept E ACCEPT_XMR_BID b) (on_node (with_state (b_now E) SWAP_DELAYING bid)) else pret bid) (\<lambda>bid. on_node (save_swap b bid xs))))"
    if "same_bid bid bid''" for bid'' xs
    using b V by (intro receipt_auto [OF that]) (simp_all add: receipt_decided)
  have "steps (receiving m0 bid V) (on_node (notify_bid NT_BID_RECEIVED b))"
    using b by auto
  then show ?thesis
    unfolding receiveXmrBid_def using offer(2)
    by (intro receipt_load [OF row]) (auto intro!: receipt_state [OF same] decide)
qed

lemma terms_hold:
  assumes "offer_was_sent offer" "check_open E msg offer ok valid = Inr ()" "validateBidAmount offer x r = Inr ()"
  shows "on_terms E msg offer valid x r"
  using assms
  by (auto simp: check_open_def validateBidValidTime_def validateBidAmount_def on_terms_def ensure_def split: if_splits)

lemma offer_sent: "sent_offer err x = Inr offer \<Longrightarrow> x = Some offer \<and> offer_was_sent offer"
  by (auto simp: sent_offer_def ensure_def split: option.splits if_splits)

lemma coin_of_known: "coin_of c = Inr x \<longleftrightarrow> Coins_of c = Some x"
  by (simp add: coin_of_def of_option_def split: option.split)

lemma checked_bid:
  assumes "check_bid E msg d i offer = Inr (valid, x, y, r)" "offer_was_sent offer"
  shows "on_terms E msg offer valid x r \<and> \<not> reversed_swap offer \<and> (\<exists>c. Coins_of (coin_from offer) = Some c \<and> make_rate E c y x = Inr r)"
  using assms
  by (auto simp: check_bid_def coin_of_known check_proof_def reversed_swap_def intro: terms_hold split: if_splits)

lemma checked_ads_bid:
  assumes "check_ads_bid E msg d offer ca cb = Inr ((valid, x, y, r), keys)" "offer_was_sent offer" "coin_a offer = Inr ca" "\<not> reverse_offer offer"
  shows "on_terms E msg offer valid x r \<and> \<not> reversed_swap offer \<and> (\<exists>c. Coins_of (coin_from offer) = Some c \<and> make_rate E c y x = Inr r)"
  using assms
  by (auto simp: check_ads_bid_def coin_a_def of_option_def reversed_swap_def intro: terms_hold split: option.splits)

lemma checked_reversed_bid:
  assumes "check_reversed_bid E msg d offer ca cb = Inr ((valid, y, x, rr), r)" "offer_was_sent offer" "coin_b offer = Inr cb" "reverse_offer offer"
    "swap_type offer = SwapTypes_val XMR_SWAP"
  shows "on_terms E msg offer valid x r \<and> reversed_swap offer \<and> (\<exists>c. Coins_of (coin_from offer) = Some c \<and> make_rate E c y x = Inr r)"
  using assms
  by (auto simp: check_reversed_bid_def coin_b_def of_option_def reversed_swap_def intro: terms_hold split: option.splits)

lemma received_start: "bid_rows (market_node m) (bid_id bid) = None \<Longrightarrow> received m bid V m"
  by (simp add: received_def holds_bid_def alone.refl)

lemma received_end: "steps (receiving m bid V) f \<Longrightarrow> bid_rows (market_node m) (bid_id bid) = None \<Longrightarrow> f m = (r, m') \<Longrightarrow> received m bid V m'"
  using received_start [of m bid V] stepsD [of "receiving m bid V" f m r m'] by (simp add: receiving_def)

lemma new_row: "bid_row E msg d i offer terms None = Inr bid \<Longrightarrow> has_terms msg i terms bid"
  by (cases terms) (auto simp: bid_row_def new_bid_def has_terms_def blank_bid_def)

lemma new_ads_row: "ads_rows E msg d i ca cb terms fresh st (None, xs) = Inr (bid, ys) \<Longrightarrow> has_terms msg i terms bid"
  by (cases terms) (auto simp: ads_rows_def new_bid_def has_terms_def blank_bid_def)

lemma taken_bid:
  assumes "has_terms msg i (valid, x, y, r) bid" "offer_rows (market_node m) i = Some offer" "\<not> reversed_swap offer"
    "on_terms E msg offer valid x r" "Coins_of (coin_from offer) = Some c" "make_rate E c y x = Inr r"
  shows "taken E msg m offer r bid"
  using assms by (auto simp: has_terms_def taken_def)

lemma pbind_pget_run: "pbind (pget g) f s = f (g s) s"
  by (simp add: pbind_def pget_def)

lemma receipt_bid:
  assumes "bid_id bid = b" "\<And>m. only_this_bid b m0 m \<Longrightarrow> backed (b_auto E) offer None bid m \<Longrightarrow> V"
  shows "steps (receiving m0 bid V) (pbind (on_node (with_state t st bid)) (\<lambda>bid.
     pseq (on_node (saveBidInSession b bid))
    (pseq (on_node (notify_bid nt b))
    (pbind (shouldAutoAcceptBid (b_auto E) offer bid None) (\<lambda>(accept, bid).
     pwhen accept (queue_accept E ac b))))))"
proof (rule receipt_state [OF same_bid_refl], intro receipt.steps_pseq)
  fix bid'
  assume same: "same_bid bid bid'"
  show "steps (receiving m0 bid V) (pbind (shouldAutoAcceptBid (b_auto E) offer bid' None) (\<lambda>(accept, bid). pwhen accept (queue_accept E ac b)))"
    using assms by (intro receipt_auto [OF same]) auto
qed (use assms in auto)

lemma bid_comes:
  assumes "processBid E msg m = (r, m')" "m' \<noteq> m" and new: "bid_rows (market_node m) (msg_id msg) = None"
  shows "\<exists>offer rt bid. taken E msg m offer rt bid \<and> received m bid (vouched E m offer rt bid) m'"
proof -
  obtain d i offer terms bid where offer: "sent_offer ''Unknown offer'' (offer_rows (market_node m) i) = Inr offer"
    and terms: "check_bid E msg d i offer = Inr terms" and bid: "bid_row E msg d i offer terms None = Inr bid"
    and run: "pbind (on_node (with_state (b_now E) BID_RECEIVED bid)) (\<lambda>bid.
     pseq (on_node (saveBidInSession (msg_id msg) bid))
    (pseq (on_node (notify_bid NT_BID_RECEIVED (msg_id msg)))
    (pbind (shouldAutoAcceptBid (b_auto E) offer bid None) (\<lambda>(accept, bid).
     pwhen accept (queue_accept E ACCEPT_BID (msg_id msg)))))) m = (r, m')"
    using assms unfolding processBid_def by (auto dest!: pbind_plift_run simp: pbind_pget_run)
  obtain valid x y rt where t: "terms = (valid, x, y, rt)"
    by (cases terms)
  note ok = checked_bid [OF terms [unfolded t]] offer_sent [OF offer] new_row [OF bid, unfolded t]
  have id: "bid_id bid = msg_id msg"
    using ok by (simp add: has_terms_def)
  have "received m bid (vouched E m offer rt bid) m'"
    using ok id by (intro received_end [OF receipt_bid _ run]) (auto simp: vouched_def new)
  moreover have "taken E msg m offer rt bid"
    using ok by (auto intro: taken_bid)
  ultimately show ?thesis by blast
qed

lemma ads_offer_run:
  assumes "pbind (ads_offer_of i back) f m = (r, m')" "m' \<noteq> m"
  obtains offer xo where "offer_rows (market_node m) i = Some offer" "offer_was_sent offer" "swap_type offer = SwapTypes_val XMR_SWAP"
    "reverse_offer offer = back" "f (offer, xo) m = (r, m')"
proof -
  have "\<exists>offer xo. offer_rows (market_node m) i = Some offer \<and> offer_was_sent offer \<and> swap_type offer = SwapTypes_val XMR_SWAP
      \<and> reverse_offer offer = back \<and> f (offer, xo) m = (r, m')"
    using assms
    by (auto simp: ads_offer_of_def getXmrOfferFromSession_def pbind_def pseq_def py_simps on_node_run of_option_def ensure_def
        split: sum.splits option.splits if_splits dest!: offer_sent)
  then show thesis
    using that by blast
qed

lemma new_session_run:
  "bid_rows (market_node m) b = None \<Longrightarrow> pbind (on_node (getXmrBidFromSession b)) f m = f (None, None) m"
  by (simp add: getXmrBidFromSession_def pbind_def on_node_run py_simps)

lemma receipt_save: "same_bid bid bid' \<Longrightarrow> bid_id bid = b \<Longrightarrow> steps (receiving m0 bid V) (save_bid_swap b bid' xs)"
  by (cases xs) (auto simp: save_bid_swap_def)

lemma xmr_bid_comes:
  assumes "processXmrBid E msg m = (r, m')" "m' \<noteq> m" and new: "bid_rows (market_node m) (msg_id msg) = None"
  shows "\<exists>offer rt bid. taken E msg m offer rt bid \<and> received m bid (vouched E m offer rt bid) m'"
proof -
  let ?tail = "\<lambda>cb bid xs. pbind (on_node (with_state (b_now E) BID_RECEIVING bid)) (\<lambda>bid.
     pseq (save_bid_swap (msg_id msg) bid xs)
          (pwhen (curve_type (b_keys E cb) \<noteq> ed25519) (receiveXmrBid E (msg_id msg) bid)))"
  obtain d i offer xo ca cb terms keys bid xs where offer: "offer_rows (market_node m) i = Some offer" "offer_was_sent offer" "\<not> reverse_offer offer"
    and coin: "coin_a offer = Inr ca" and terms: "check_ads_bid E msg d offer ca cb = Inr (terms, keys)"
    and bid: "ads_rows E msg d i ca cb terms (put_bid_keys E cb keys blank_xmr_swap) BID_SENT (None, None) = Inr (bid, xs)"
    and run: "?tail cb bid xs m = (r, m')"
    using assms unfolding processXmrBid_def
    by (auto dest!: pbind_plift_run elim!: ads_offer_run simp: new_session_run)
  obtain valid x y rt where t: "terms = (valid, x, y, rt)"
    by (cases terms)
  note ok = checked_ads_bid [OF terms [unfolded t] offer(2) coin offer(3)] new_ads_row [OF bid, unfolded t]
  have id: "bid_id bid = msg_id msg" "bid_offer_id bid = i"
    using ok by (simp_all add: has_terms_def)
  have "steps (receiving m bid (vouched E m offer rt bid)) (?tail cb bid xs)"
    using ok id offer
    by (intro receipt_state [OF same_bid_refl] receipt.steps_pseq receipt.steps_pwhen receipt_save receipt_receive) (auto simp: vouched_def)
  then have "received m bid (vouched E m offer rt bid) m'"
    by (rule received_end) (use run in \<open>simp_all add: id new\<close>)
  moreover have "taken E msg m offer rt bid"
    using ok offer by (auto intro: taken_bid)
  ultimately show ?thesis by blast
qed

lemma reversed_bid_comes:
  assumes "processADSBidReversed E msg m = (r, m')" "m' \<noteq> m" and new: "bid_rows (market_node m) (msg_id msg) = None"
  shows "\<exists>offer rt bid. taken E msg m offer rt bid \<and> received m bid (vouched E m offer rt bid) m'"
proof -
  let ?decide = "\<lambda>(accept, bid).
     pwhen accept
       (pseq (queue_accept E ACCEPT_AS_REV_BID (msg_id msg))
       (pbind (on_node (with_state (b_now E) SWAP_DELAYING bid)) (\<lambda>bid.
        on_node (saveBidInSession (msg_id msg) bid))))"
  let ?tail = "\<lambda>offer rt bid xs. pbind (on_node (with_state (b_now E) BID_RECEIVED bid)) (\<lambda>bid.
     pseq (save_bid_swap (msg_id msg) bid xs)
    (pseq (on_node (notify_bid NT_BID_RECEIVED (msg_id msg)))
    (pbind (shouldAutoAcceptBid (b_auto E) offer bid (Some rt)) ?decide)))"
  obtain d i offer xo ca cb terms rt bid xs where offer: "offer_rows (market_node m) i = Some offer" "offer_was_sent offer" "reverse_offer offer" "swap_type offer = SwapTypes_val XMR_SWAP"
    and coin: "coin_b offer = Inr cb" and terms: "check_reversed_bid E msg d offer ca cb = Inr (terms, rt)"
    and bid: "ads_rows E msg d i ca cb terms (Inr blank_xmr_swap) BID_REQUEST_SENT (None, None) = Inr (bid, xs)"
    and run: "?tail offer rt bid xs m = (r, m')"
    using assms unfolding processADSBidReversed_def
    by (auto dest!: pbind_plift_run elim!: ads_offer_run simp: new_session_run)
  obtain valid x y rr where t: "terms = (valid, y, x, rr)"
    by (cases terms)
  note ok = checked_reversed_bid [OF terms [unfolded t] offer(2) coin offer(3,4)] new_ads_row [OF bid, unfolded t]
  have id: "bid_id bid = msg_id msg"
    using ok by (simp add: has_terms_def)
  let ?V = "vouched E m offer rt bid"
  have decide: "steps (receiving m bid ?V) (?decide (accept, bid'))" if "same_bid bid bid'" "accept \<Longrightarrow> ?V" for accept bid'
    using id that by (auto intro!: receipt_state receipt_queue)
  have "steps (receiving m bid ?V) (?tail offer rt bid xs)"
    using ok id
    by (intro receipt_state [OF same_bid_refl] receipt.steps_pseq receipt_save receipt_auto decide) (auto simp: vouched_def)
  then have "received m bid ?V m'"
    by (rule received_end) (use run in \<open>simp_all add: id new\<close>)
  moreover have "taken E msg m offer rt bid"
    using ok offer by (auto simp: taken_def has_terms_def)
  ultimately show ?thesis by blast
qed

lemma new_bid_comes:
  assumes "h \<in> {processBid E msg, processXmrBid E msg, processADSBidReversed E msg}" "h m = (r, m')" "bid_rows (market_node m) (msg_id msg) = None"
  shows "m' = m \<or> (\<exists>offer rt bid. taken E msg m offer rt bid \<and> received m bid (vouched E m offer rt bid) m')"
  using assms bid_comes xmr_bid_comes reversed_bid_comes by blast

lemma taken_same: "same_bid bid row \<Longrightarrow> taken E msg m offer rt row = taken E msg m offer rt bid"
  by (simp add: same_bid_def taken_def)

lemma bid_letter_taken:
  "bid_rows (market_node (snd (processBid bids_example bid_letter open_market))) [1] \<noteq> None"
  "length (actions (market_node (snd (processBid bids_example bid_letter open_market)))) = 1"
  by code_simp+

text \<open>C11. Bids from the network are on the terms of an offer. Let a handler of a new bid (\<open>processBid\<close>, \<open>processXmrBid\<close> or \<open>processADSBidReversed\<close>) run on any message whose id
  is not the one of a known bid, whether it raises or not. Nothing but this bid has changed, and if it has a row then the row is for an offer this node sent that is active and not expired, came from
  the row's address to the one of the offer, lives between ten minutes and a day and is not expired, has an amount between the offer's minimum and its amount, and
  exactly its amount if that is fixed, and the rate computed from its amounts is positive and, unless negotiable, the one of the offer within the tolerance. In reversed bids the amounts are exchanged.\<close>

theorem new_bid_on_terms:
  assumes "h \<in> {processBid E msg, processXmrBid E msg, processADSBidReversed E msg}"
    and "bid_rows (market_node m) (msg_id msg) = None" and "h m = (r, m')"
  shows "only_this_bid (msg_id msg) m m' \<and> (\<forall>row. bid_rows (market_node m') (msg_id msg) = Some row \<longrightarrow> (\<exists>offer rt. taken E msg m offer rt row))"
  using new_bid_comes [OF assms(1,3,2)]
proof (elim disjE exE conjE)
  assume "m' = m"
  then show ?thesis
    using assms(2) alone.refl by simp
next
  fix offer rt bid
  assume "taken E msg m offer rt bid" "received m bid (vouched E m offer rt bid) m'"
  moreover from this have "bid_id bid = msg_id msg"
    by (simp add: taken_def)
  ultimately show ?thesis
    using taken_same by (fastforce simp: received_def holds_bid_def)
qed

theorem new_bid_on_terms_witness:
  "\<exists>row offer rt. bid_rows (market_node (snd (processBid bids_example bid_letter open_market))) [1] = Some row
     \<and> taken bids_example bid_letter open_market offer rt row"
proof -
  have "bid_rows (market_node open_market) (msg_id bid_letter) = None" "msg_id bid_letter = [1]"
    by (simp_all add: open_market_def blank_node_def bid_letter_def)
  with new_bid_on_terms [of "processBid bids_example bid_letter", OF _ this(1) prod.collapse [symmetric]] bid_letter_taken(1) show ?thesis
    by auto
qed

text \<open>C12. A new bid is answered without the user only when the strategy of its offer accepts it. Where such a handler has changed the queue of actions, the message's bid was taken on the terms of an
  offer, its row still says what was bid, and in a state that differs from the one before by this bid only the strategy linked to the offer accepts it: within the
  budget or the value of the offer, the number of open bids allowed, the reserve and the balance of the wallet, and not from a bidder marked to be refused.\<close>

theorem new_bid_accepted_by_strategy:
  assumes "h \<in> {processBid E msg, processXmrBid E msg, processADSBidReversed E msg}"
    and "bid_rows (market_node m) (msg_id msg) = None" and "h m = (r, m')"
    and "actions (market_node m') \<noteq> actions (market_node m)"
  shows "\<exists>offer rt bid m1. taken E msg m offer rt bid \<and> holds_bid bid (market_node m') \<and> only_this_bid (msg_id msg) m m1
    \<and> backed (b_auto E) offer (if reversed_swap offer then Some rt else None) bid m1"
  using new_bid_comes [OF assms(1,3,2)] assms(4)
proof (elim disjE exE conjE)
  fix offer rt bid
  assume bid: "taken E msg m offer rt bid" "received m bid (vouched E m offer rt bid) m'" "actions (market_node m') \<noteq> actions (market_node m)"
  moreover from this have "bid_id bid = msg_id msg"
    by (simp add: taken_def)
  ultimately show ?thesis
    unfolding received_def vouched_def by metis
qed simp

theorem new_bid_accepted_by_strategy_witness:
  "\<exists>offer rt bid m1. taken bids_example bid_letter open_market offer rt bid \<and> only_this_bid [1] open_market m1
     \<and> backed auto_example offer (if reversed_swap offer then Some rt else None) bid m1"
proof -
  have "bid_rows (market_node open_market) (msg_id bid_letter) = None" "msg_id bid_letter = [1]" "b_auto bids_example = auto_example"
    by (simp_all add: open_market_def blank_node_def bid_letter_def bids_example_def)
  moreover have "actions (market_node (snd (processBid bids_example bid_letter open_market))) \<noteq> actions (market_node open_market)"
    using bid_letter_taken(2) by (auto simp: open_market_def blank_node_def)
  ultimately show ?thesis
    using new_bid_accepted_by_strategy [of "processBid bids_example bid_letter", OF _ _ prod.collapse [symmetric]]
    by (metis insertI1)
qed

end
