(* ===== verification/Received_Offers.thy ===== *)
theory Received_Offers
  imports New_Bids
begin

text \<open>
  Offers from the network: \<open>processOffer\<close>, \<open>processOfferRevoke\<close> and the pending revocations (\<open>storeOfferRevoke\<close>, \<open>isOfferRevoked\<close>) of \<open>src/basicswap/basicswap.py\<close>, on the node with the two bounded
  queues it keeps for revocations (\<open>desk\<close>). The checks of an offer's terms are those of \<open>Offer_Validation\<close>; looking up a coin's interface, its fee rates, its bounds on amounts and the
  verification of a signed text are fields of \<open>offers_env\<close>. Left out are the counters of offers that were not understood, the keys of addresses, the records of networks, and the notice to web sockets.
  All attributes of an offer are read before the first check, which no check can see. The theorems: what any sequence of messages can do to the table, that a revocation sent by \<open>revokeOffer\<close> takes effect
  on another node, and two defects.
\<close>

section \<open>Definitions\<close>

subsection \<open>The node's view of offers\<close>

definition MINPROTO_VERSION :: int where
  "MINPROTO_VERSION = min MINPROTO_VERSION_SECRET_HASH MINPROTO_VERSION_ADAPTOR_SIG"

definition MAXPROTO_VERSION :: int where
  "MAXPROTO_VERSION = 10"

text \<open>The coins of the node, its settings and addresses. \<open>o_ci\<close> is what looking up the interface of a coin answers, \<open>o_verify\<close> whether an address signed the revocation of an offer.\<close>

record offers_env =
  o_bids :: bids_env
  o_locks :: lock_settings
  o_strict_swap_type :: bool
  o_ci :: "Coins \<Rightarrow> unit res"
  o_min_amount :: "Coins \<Rightarrow> int"
  o_max_amount :: "Coins \<Rightarrow> int"
  o_has_segwit :: "Coins \<Rightarrow> bool"
  o_observed :: "Coins \<Rightarrow> bool"
  o_validateFeeRate :: "Coins \<Rightarrow> int \<Rightarrow> unit res"
  o_lock_2_inc :: bool
  o_network_addr :: string
  o_recv_addr :: "string \<Rightarrow> bool"
  o_verify :: "string \<Rightarrow> bytes \<Rightarrow> bytes \<Rightarrow> bool res"

definition o_now :: "offers_env \<Rightarrow> int" where
  "o_now E = b_now (o_bids E)"

text \<open>The node with the revocations it keeps in memory, in two queues of bounded length.\<close>

record desk =
  desk_node :: node
  possibly_revoked_offers :: "(bytes \<times> bytes) list"
  expired_offer_revokes :: "bytes list"

definition queue_limit :: nat where
  "queue_limit = 1000"

definition appendleft :: "'a \<Rightarrow> 'a list \<Rightarrow> 'a list" where
  "appendleft x q = take queue_limit (x # q)"

definition append_bounded :: "'a \<Rightarrow> 'a list \<Rightarrow> 'a list" where
  "append_bounded x q = (let r = q @ [x] in drop (length r - queue_limit) r)"

definition storeOfferRevoke :: "bytes \<Rightarrow> bytes \<Rightarrow> (desk, bool) py" where
  "storeOfferRevoke i sig =
     pbind (pget (\<lambda>s. i \<in> fst ` set (possibly_revoked_offers s))) (\<lambda>known.
     if known then pret False
     else pseq (pmod (\<lambda>s. s\<lparr>possibly_revoked_offers := appendleft (i, sig) (possibly_revoked_offers s)\<rparr>)) (pret True))"

definition isOfferRevoked :: "offers_env \<Rightarrow> bytes \<Rightarrow> string \<Rightarrow> (desk, bool) py" where
  "isOfferRevoked E i address =
     pbind (pget (\<lambda>s. map_of (possibly_revoked_offers s) i)) (\<lambda>sig.
     case sig of None \<Rightarrow> pret False | Some sig \<Rightarrow> plift (o_verify E address i sig))"

subsection \<open>Offers that come in\<close>

record offer_data =
  od_protocol_version :: int
  od_coin_from :: int
  od_coin_to :: int
  od_amount_from :: int
  od_amount_to :: int
  od_min_bid_amount :: int
  od_time_valid :: int
  od_lock_type :: int
  od_lock_value :: int
  od_swap_type :: int
  od_proof_address :: string
  od_proof_signature :: string
  od_pkhash_seller :: bytes
  od_secret_hash :: bytes
  od_fee_rate_from :: int
  od_fee_rate_to :: int
  od_amount_negotiable :: int
  od_rate_negotiable :: int
  od_auto_accept_type :: int
  od_message_nets :: string

definition read_offer_data :: "attrs \<Rightarrow> offer_data res" where
  "read_offer_data a =
     rbind (attr_int a ''protocol_version'') (\<lambda>version.
     rbind (attr_int a ''coin_from'') (\<lambda>cf. rbind (attr_int a ''coin_to'') (\<lambda>ct.
     rbind (attr_int a ''amount_from'') (\<lambda>x. rbind (attr_int a ''amount_to'') (\<lambda>y. rbind (attr_int a ''min_bid_amount'') (\<lambda>least.
     rbind (attr_int a ''time_valid'') (\<lambda>valid. rbind (attr_int a ''lock_type'') (\<lambda>lt. rbind (attr_int a ''lock_value'') (\<lambda>lv.
     rbind (attr_int a ''swap_type'') (\<lambda>swap.
     rbind (attr_text a ''proof_address'') (\<lambda>address. rbind (attr_text a ''proof_signature'') (\<lambda>sig.
     rbind (attr_bytes a ''pkhash_seller'') (\<lambda>pkh. rbind (attr_bytes a ''secret_hash'') (\<lambda>sh.
     rbind (attr_int a ''fee_rate_from'') (\<lambda>fee_a. rbind (attr_int a ''fee_rate_to'') (\<lambda>fee_b.
     rbind (attr_int a ''amount_negotiable'') (\<lambda>an. rbind (attr_int a ''rate_negotiable'') (\<lambda>rn.
     rbind (attr_int a ''auto_accept_type'') (\<lambda>auto. rbind (attr_text a ''message_nets'') (\<lambda>nets.
     Inr \<lparr>od_protocol_version = version, od_coin_from = cf, od_coin_to = ct, od_amount_from = x, od_amount_to = y, od_min_bid_amount = least, od_time_valid = valid,
       od_lock_type = lt, od_lock_value = lv, od_swap_type = swap, od_proof_address = address, od_proof_signature = sig, od_pkhash_seller = pkh, od_secret_hash = sh,
       od_fee_rate_from = fee_a, od_fee_rate_to = fee_b, od_amount_negotiable = an, od_rate_negotiable = rn, od_auto_accept_type = auto, od_message_nets = nets\<rparr>))))))))))))))))))))"

text \<open>The version is read from the first two bytes; an offer that is not understood is dropped.\<close>

definition decode_offer :: "bytes \<Rightarrow> attrs res" where
  "decode_offer b =
     rbind (npb_from_bytes OfferMessage Map.empty (take 2 b) False) (\<lambda>a.
     rbind (attr_int a ''protocol_version'') (\<lambda>version.
     rbind (ensure (version \<ge> MINPROTO_VERSION \<and> version \<le> MAXPROTO_VERSION) ''protocol_version out of range'') (\<lambda>_.
     npb_from_bytes OfferMessage a b True)))"

definition check_offer_data :: "offers_env \<Rightarrow> offer_data \<Rightarrow> (Coins \<times> Coins) res" where
  "check_offer_data E d =
     rbind (coin_of (od_coin_from d)) (\<lambda>cfrom. rbind (o_ci E cfrom) (\<lambda>_.
     rbind (coin_of (od_coin_to d)) (\<lambda>cto. rbind (o_ci E cto) (\<lambda>_.
     rbind (ensure (od_coin_from d \<noteq> od_coin_to d) ''coin_from == coin_to'') (\<lambda>_.
     rbind (validateSwapType (o_strict_swap_type E) cfrom cto (od_swap_type d)) (\<lambda>_.
     rbind (validateOfferAmounts (o_min_amount E cfrom) (o_max_amount E cfrom) (o_min_amount E cto) (o_max_amount E cto) (od_amount_from d) (od_amount_to d) (od_min_bid_amount d)) (\<lambda>_.
     rbind (validateOfferLockValue (o_locks E) (od_swap_type d) cfrom cto (od_lock_type d) (od_lock_value d)) (\<lambda>_.
     rbind (validateOfferValidTime (od_time_valid d)) (\<lambda>_.
     Inr (cfrom, cto))))))))))"

definition check_unused :: "offer_data \<Rightarrow> unit res" where
  "check_unused d =
     rbind (ensure (length (od_proof_address d) = 0) ''Unexpected data'') (\<lambda>_.
     rbind (ensure (length (od_proof_signature d) = 0) ''Unexpected data'') (\<lambda>_.
     rbind (ensure (length (od_pkhash_seller d) = 0) ''Unexpected data'') (\<lambda>_.
     ensure (length (od_secret_hash d) = 0) ''Unexpected data'')))"

definition check_swap_data :: "offers_env \<Rightarrow> Coins \<Rightarrow> Coins \<Rightarrow> offer_data \<Rightarrow> unit res" where
  "check_swap_data E cfrom cto d =
     (if od_swap_type d = SwapTypes_val SELLER_FIRST then
        rbind (ensure (od_protocol_version d \<ge> MINPROTO_VERSION_SECRET_HASH) ''Invalid protocol version'') (\<lambda>_. check_unused d)
      else if od_swap_type d = SwapTypes_val BUYER_FIRST then Inl (ValueError ''TODO'')
      else if od_swap_type d = SwapTypes_val XMR_SWAP then
        rbind (ensure (od_protocol_version d \<ge> MINPROTO_VERSION_ADAPTOR_SIG) ''Invalid protocol version'') (\<lambda>_.
        rbind (if is_reverse_ads_bid cfrom cto then ensure (o_has_segwit E cto) ''Coin-to must support segwit for reverse bid offers''
               else ensure (o_has_segwit E cfrom) ''Coin-from must support segwit'') (\<lambda>_.
        rbind (check_unused d) (\<lambda>_.
        rbind (if \<not> o_observed E cfrom then o_validateFeeRate E cfrom (od_fee_rate_from d) else Inr ()) (\<lambda>_.
        if \<not> o_observed E cto then o_validateFeeRate E cto (od_fee_rate_to d) else Inr ()))))
      else Inl (ValueError ''Unknown swap type''))"

text \<open>Whether the two bytes of the tag of \<open>auto_accept_type\<close> are somewhere in the message.\<close>

definition has_auto_accept_tag :: "bytes \<Rightarrow> bool" where
  "has_auto_accept_tag b \<longleftrightarrow> list_ex (\<lambda>k. take 2 (drop k b) = [0xA0, 0x01]) [0..<length b]"

definition new_offer :: "message \<Rightarrow> offer_data \<Rightarrow> bool \<Rightarrow> int \<Rightarrow> Offer" where
  "new_offer msg d reverse r =
     blank_offer\<lparr>offer_id := msg_id msg, offer_active_ind := 1, offer_protocol_version := od_protocol_version d, coin_from := od_coin_from d, coin_to := od_coin_to d,
       amount_from := od_amount_from d, offer_amount_to := od_amount_to d, offer_rate := r, min_bid_amount := od_min_bid_amount d, time_valid := od_time_valid d,
       lock_type := od_lock_type d, lock_value := od_lock_value d, swap_type := od_swap_type d, amount_negotiable := (od_amount_negotiable d \<noteq> 0),
       rate_negotiable := (od_rate_negotiable d \<noteq> 0), addr_to := msg_dest msg, addr_from := msg_source msg, offer_created_at := msg_sent msg,
       offer_expire_at := msg_sent msg + od_time_valid d, offer_was_sent := False, bid_reversed := (od_swap_type d = SwapTypes_val XMR_SWAP \<and> reverse),
       auto_accept_type := (if has_auto_accept_tag (getSmsgMsgBytes msg) then Some (od_auto_accept_type d) else None)\<rparr>"

definition put_offer :: "bytes \<Rightarrow> Offer \<Rightarrow> (desk, unit) py" where
  "put_offer i offer = pmod (\<lambda>s. s\<lparr>desk_node := (desk_node s)\<lparr>offer_rows := (offer_rows (desk_node s))(i \<mapsto> offer)\<rparr>\<rparr>)"

definition offer_state :: "offers_env \<Rightarrow> OfferStates \<Rightarrow> Offer \<Rightarrow> Offer res" where
  "offer_state E st offer = (case setState (OfferStates_val st) (o_now E) offer of (Inl e, _) \<Rightarrow> Inl e | (Inr _, offer) \<Rightarrow> Inr offer)"

text \<open>The row of an offer of an adaptor signature swap: the time locks of coin A are those of the interface of \<open>BTCInterface\<close>.\<close>

definition new_xmr_offer :: "offers_env \<Rightarrow> offer_data \<Rightarrow> XmrOffer res" where
  "new_xmr_offer E d =
     rbind (getExpectedSequence (od_lock_type d) (od_lock_value d)) (\<lambda>t1.
     rbind (getExpectedSequence (od_lock_type d) (od_lock_value d + (if o_lock_2_inc E then 1000 else 0))) (\<lambda>t2.
     Inr \<lparr>a_fee_rate = od_fee_rate_from d, b_fee_rate = od_fee_rate_to d, lock_time_1 = t1, lock_time_2 = t2\<rparr>))"

definition add_offer :: "offers_env \<Rightarrow> message \<Rightarrow> offer_data \<Rightarrow> bool \<Rightarrow> int \<Rightarrow> (desk, unit) py" where
  "add_offer E msg d reverse r =
     pbind (plift (offer_state E OFFER_RECEIVED (new_offer msg d reverse r))) (\<lambda>offer.
     pseq (put_offer (msg_id msg) offer)
    (pseq (pwhen (swap_type offer = SwapTypes_val XMR_SWAP)
       (pbind (plift (new_xmr_offer E d)) (\<lambda>xo.
        pmod (\<lambda>s. s\<lparr>desk_node := (desk_node s)\<lparr>xmr_offers := (xmr_offers (desk_node s))(msg_id msg \<mapsto> xo)\<rparr>\<rparr>))))
          (pmod (\<lambda>s. s\<lparr>desk_node := (desk_node s)\<lparr>notified := notified (desk_node s) @ [(NT_OFFER_RECEIVED, msg_id msg)]\<rparr>\<rparr>))))"

definition seen_offer :: "offers_env \<Rightarrow> bytes \<Rightarrow> Offer \<Rightarrow> (desk, unit) py" where
  "seen_offer E i offer =
     (if offer_active_ind offer \<noteq> 1 then praise (OtherError ''RevokedOffer'')
      else if state offer \<noteq> Some (OfferStates_val OFFER_RECEIVED) then pbind (plift (offer_state E OFFER_RECEIVED offer)) (put_offer i)
      else pret ())"

definition take_offer :: "offers_env \<Rightarrow> message \<Rightarrow> offer_data \<Rightarrow> bool \<Rightarrow> int \<Rightarrow> (desk, unit) py" where
  "take_offer E msg d reverse r =
     pbind (isOfferRevoked E (msg_id msg) (msg_source msg)) (\<lambda>revoked.
     pseq (if revoked then praise (OtherError ''RevokedOffer'') else pret ())
    (pbind (plift (b_msg_pubkey (o_bids E) msg)) (\<lambda>_.
     pseq (plift (ensure (msg_dest msg = o_network_addr E \<or> o_recv_addr E (msg_dest msg)) ''Offer received on incorrect address''))
    (pbind (pget (\<lambda>s. offer_rows (desk_node s) (msg_id msg))) (\<lambda>existing_offer.
     case existing_offer of None \<Rightarrow> add_offer E msg d reverse r | Some offer \<Rightarrow> seen_offer E (msg_id msg) offer)))))"

definition processOffer :: "offers_env \<Rightarrow> message \<Rightarrow> (desk, unit) py" where
  "processOffer E msg =
     (case decode_offer (getSmsgMsgBytes msg) of
        Inl _ \<Rightarrow> pret ()
      | Inr a \<Rightarrow>
          pbind (plift (read_offer_data a)) (\<lambda>d.
          pbind (plift (check_offer_data E d)) (\<lambda>(cfrom, cto).
          if msg_sent msg + od_time_valid d < o_now E then pret ()
          else
            pseq (plift (validateMessageNets (Some (od_message_nets d))))
           (pbind (plift (make_rate (o_bids E) cfrom (od_amount_to d) (od_amount_from d))) (\<lambda>r.
            pseq (plift (check_swap_data E cfrom cto d))
                 (take_offer E msg d (is_reverse_ads_bid cfrom cto) r))))))"

subsection \<open>Revocations that come in\<close>

text \<open>The id of an offer starts with the time it was sent at; offers live for two days at most.\<close>

definition revoke_outdated :: "offers_env \<Rightarrow> bytes \<Rightarrow> bool" where
  "revoke_outdated E i \<longleftrightarrow> from_be (take 8 i) + 48 * 60 * 60 + 10 * 60 \<le> o_now E"

definition revoke_unknown :: "offers_env \<Rightarrow> message \<Rightarrow> bytes \<Rightarrow> bytes \<Rightarrow> (desk, unit) py" where
  "revoke_unknown E msg i sig =
     (if o_verify E (msg_source msg) i sig = Inr True then pseq (storeOfferRevoke i sig) (pret ()) else pret ())"

definition revoke_offer :: "offers_env \<Rightarrow> bytes \<Rightarrow> bytes \<Rightarrow> Offer \<Rightarrow> (desk, unit) py" where
  "revoke_offer E i sig offer =
     (if offer_expire_at offer \<le> o_now E then pmod (\<lambda>s. s\<lparr>expired_offer_revokes := append_bounded i (expired_offer_revokes s)\<rparr>)
      else
        pbind (plift (o_verify E (addr_from offer) i sig)) (\<lambda>passed.
        pseq (plift (ensure passed ''Signature invalid''))
             (put_offer i (offer\<lparr>offer_active_ind := 2\<rparr>))))"

definition processOfferRevoke :: "offers_env \<Rightarrow> message \<Rightarrow> (desk, unit) py" where
  "processOfferRevoke E msg =
     pseq (plift (ensure (msg_dest msg = o_network_addr E) ''Message received on wrong address''))
    (pbind (plift (parse_message OfferRevokeMessage msg)) (\<lambda>d.
     pbind (plift (attr_bytes d ''offer_msg_id'')) (\<lambda>i.
     pbind (plift (attr_bytes d ''signature'')) (\<lambda>sig.
     pseq (if length i \<noteq> 28 then praise (ValueError ''Invalid msg_id length'') else pret ())
    (pseq (if length sig \<noteq> 65 then praise (ValueError ''Invalid signature length'') else pret ())
    (if revoke_outdated E i then pret ()
     else
       pbind (pget (\<lambda>s. i \<in> set (expired_offer_revokes s))) (\<lambda>known.
       if known then pret ()
       else
         pbind (pget (\<lambda>s. offer_rows (desk_node s) i)) (\<lambda>offer.
         case offer of None \<Rightarrow> revoke_unknown E msg i sig | Some offer \<Rightarrow> revoke_offer E i sig offer))))))))"

section \<open>Specification vocabulary\<close>

datatype delivery = OfferDelivery offers_env message | RevokeDelivery offers_env message

fun deliver :: "delivery \<Rightarrow> (desk, unit) py" where
  "deliver (OfferDelivery E msg) = processOffer E msg"
| "deliver (RevokeDelivery E msg) = processOfferRevoke E msg"

text \<open>Messages one after the other; what a handler raises is logged.\<close>

fun deliveries :: "delivery list \<Rightarrow> desk \<Rightarrow> desk" where
  "deliveries [] s = s"
| "deliveries (d # ds) s = deliveries ds (snd (deliver d s))"

text \<open>The terms of an offer the node takes in.\<close>

definition valid_terms :: "offers_env \<Rightarrow> message \<Rightarrow> Offer \<Rightarrow> bool" where
  "valid_terms E msg offer \<longleftrightarrow>
     offer_id offer = msg_id msg \<and> addr_from offer = msg_source msg \<and> addr_to offer = msg_dest msg \<and> (msg_dest msg = o_network_addr E \<or> o_recv_addr E (msg_dest msg))
     \<and> \<not> offer_was_sent offer \<and> MINPROTO_VERSION \<le> offer_protocol_version offer
     \<and> offer_expire_at offer = msg_sent msg + time_valid offer \<and> o_now E \<le> offer_expire_at offer \<and> 10 * 60 \<le> time_valid offer \<and> time_valid offer \<le> 48 * 60 * 60
     \<and> (\<exists>cfrom cto. Coins_of (coin_from offer) = Some cfrom \<and> Coins_of (coin_to offer) = Some cto \<and> cfrom \<noteq> cto
          \<and> validateSwapType (o_strict_swap_type E) cfrom cto (swap_type offer) = Inr ()
          \<and> swap_type offer \<in> {SwapTypes_val SELLER_FIRST, SwapTypes_val XMR_SWAP}
          \<and> validateOfferLockValue (o_locks E) (swap_type offer) cfrom cto (lock_type offer) (lock_value offer) = Inr ()
          \<and> min_bid_amount offer \<le> amount_from offer \<and> o_min_amount E cfrom < amount_from offer \<and> amount_from offer < o_max_amount E cfrom
          \<and> o_min_amount E cto < offer_amount_to offer \<and> offer_amount_to offer < o_max_amount E cto
          \<and> make_rate (o_bids E) cfrom (offer_amount_to offer) (amount_from offer) = Inr (offer_rate offer)
          \<and> bid_reversed offer = (swap_type offer = SwapTypes_val XMR_SWAP \<and> is_reverse_ads_bid cfrom cto))"

text \<open>Offers that differ at most in their state and in whether they are active.\<close>

definition same_terms :: "Offer \<Rightarrow> Offer \<Rightarrow> bool" where
  "same_terms offer offer' \<longleftrightarrow>
     offer' = offer\<lparr>state := state offer', state_time := state_time offer', states := states offer', offer_active_ind := offer_active_ind offer'\<rparr>"

definition entered :: "delivery set \<Rightarrow> bytes \<Rightarrow> Offer \<Rightarrow> bool" where
  "entered D i offer \<longleftrightarrow> (\<exists>E msg. OfferDelivery E msg \<in> D \<and> msg_id msg = i \<and> valid_terms E msg offer)"

definition revoked_by :: "delivery set \<Rightarrow> bytes \<Rightarrow> string \<Rightarrow> bool" where
  "revoked_by D i address \<longleftrightarrow> (\<exists>E msg d sig. RevokeDelivery E msg \<in> D \<and> parse_message OfferRevokeMessage msg = Inr d \<and> attr_bytes d ''offer_msg_id'' = Inr i
     \<and> attr_bytes d ''signature'' = Inr sig \<and> o_verify E address i sig = Inr True)"

text \<open>How a row of the table of offers may change.\<close>

definition offer_change :: "delivery set \<Rightarrow> bytes \<Rightarrow> Offer option \<Rightarrow> Offer option \<Rightarrow> bool" where
  "offer_change D i before after \<longleftrightarrow>
     (case after of
        None \<Rightarrow> before = None
      | Some offer' \<Rightarrow>
          (case before of
             None \<Rightarrow> entered D i offer' \<and> (offer_active_ind offer' = 1 \<or> offer_active_ind offer' = 2 \<and> revoked_by D i (addr_from offer'))
           | Some offer \<Rightarrow> same_terms offer offer'
               \<and> (offer_active_ind offer' = offer_active_ind offer \<or> offer_active_ind offer' = 2 \<and> revoked_by D i (addr_from offer))))"

definition offers_change :: "delivery set \<Rightarrow> desk \<Rightarrow> desk \<Rightarrow> bool" where
  "offers_change D s s' \<longleftrightarrow> (\<forall>i. offer_change D i (offer_rows (desk_node s) i) (offer_rows (desk_node s') i))
     \<and> (\<exists>rows xmr notes. desk_node s' = (desk_node s)\<lparr>offer_rows := rows, xmr_offers := xmr, notified := notes\<rparr>)"


text \<open>An offer is withdrawn on a node: its row is inactive, or it is not known and no message of its sender brings it in.\<close>

definition withdrawn :: "(string \<Rightarrow> bytes \<Rightarrow> bytes \<Rightarrow> bool res) \<Rightarrow> bytes \<Rightarrow> string \<Rightarrow> desk \<Rightarrow> bool" where
  "withdrawn verify i address s \<longleftrightarrow>
     (case offer_rows (desk_node s) i of
        Some offer \<Rightarrow> offer_active_ind offer = 2
      | None \<Rightarrow> \<forall>E msg. o_verify E = verify \<and> msg_id msg = i \<and> msg_source msg = address \<longrightarrow> offer_rows (desk_node (snd (processOffer E msg s))) i = None)"


text \<open>A node that takes offers of every coin, and an offer it does not know yet.\<close>

definition offers_example :: offers_env where
  "offers_example = \<lparr>o_bids = bids_example, o_locks = \<lparr>use_csv = \<lambda>c. c \<noteq> DOGE, is_regtest = False, min_sequence_lock_seconds = 3600, max_sequence_lock_seconds = 345600\<rparr>,
     o_strict_swap_type = True, o_ci = \<lambda>_. Inr (), o_min_amount = \<lambda>_. 1, o_max_amount = \<lambda>_. 1000000, o_has_segwit = \<lambda>_. True, o_observed = \<lambda>_. False,
     o_validateFeeRate = \<lambda>_ _. Inr (), o_lock_2_inc = False, o_network_addr = ''net'', o_recv_addr = \<lambda>_. False, o_verify = \<lambda>address _ sig. Inr (sig = replicate 65 1 \<and> address = ''offerer'')\<rparr>"

definition blank_desk :: desk where
  "blank_desk = \<lparr>desk_node = blank_node, possibly_revoked_offers = [], expired_offer_revokes = []\<rparr>"

definition sent_id :: bytes where
  "sent_id = [0, 0, 0, 0, 0x65, 0x53, 0xF1, 0] @ replicate 20 3"

definition letter_of :: "string \<Rightarrow> string \<Rightarrow> bytes res \<Rightarrow> message" where
  "letter_of source dest payload = \<lparr>msg_id = sent_id, msg_source = source, msg_dest = dest, msg_sent = 1699999000,
     msg_payload = (case payload of Inl _ \<Rightarrow> [] | Inr p \<Rightarrow> p), msg_payload_version = 2, msg_net = ''smsg''\<rparr>"

definition signing_market :: market_env where
  "signing_market = market_example\<lparr>m_sign := \<lambda>_ _. Inr (replicate 65 1)\<rparr>"

definition revoke_letter :: "byte \<Rightarrow> message" where
  "revoke_letter k = letter_of ''offerer'' ''net'' (message_payload MT_OFFER_REVOKE OfferRevokeMessage [(''offer_msg_id'', PBytes sent_id), (''signature'', PBytes (replicate 65 k))])"

text \<open>An offer of BTC for DOGE by an adaptor signature swap, with a lock until a time.\<close>

definition absolute_letter :: message where
  "absolute_letter = letter_of ''offerer'' ''net'' (message_payload MT_OFFER OfferMessage
     [(''protocol_version'', PInt 6), (''coin_from'', PInt 2), (''coin_to'', PInt 18), (''amount_from'', PInt 10), (''amount_to'', PInt 20), (''min_bid_amount'', PInt 2),
      (''time_valid'', PInt 3600), (''lock_type'', PInt (TxLockTypes_val ABS_LOCK_TIME)), (''lock_value'', PInt 172800), (''swap_type'', PInt (SwapTypes_val XMR_SWAP)),
      (''fee_rate_from'', PInt 100), (''fee_rate_to'', PInt 100), (''message_nets'', PStr [])])"


definition shadowed_desk :: desk where
  "shadowed_desk = blank_desk\<lparr>possibly_revoked_offers := [(sent_id, replicate 65 2)]\<rparr>"

section \<open>Facts\<close>

lemma same_terms_refl [simp]: "same_terms offer offer"
  by (simp add: same_terms_def)

lemma same_terms_trans: "same_terms a b \<Longrightarrow> same_terms b c \<Longrightarrow> same_terms a c"
  unfolding same_terms_def by (cases a; cases b; cases c) auto

lemma same_terms_fields: "same_terms a b \<Longrightarrow> addr_from b = addr_from a \<and> (valid_terms E msg b \<longleftrightarrow> valid_terms E msg a)"
  unfolding same_terms_def by (cases a; cases b) (auto simp: valid_terms_def)

lemma same_terms_entered: "same_terms a b \<Longrightarrow> entered D i b \<longleftrightarrow> entered D i a"
  using same_terms_fields by (simp add: entered_def)

lemma offer_change_refl [simp]: "offer_change D i x x"
  by (simp add: offer_change_def split: option.split)

lemma offer_change_trans: "offer_change D i x y \<Longrightarrow> offer_change D i y z \<Longrightarrow> offer_change D i x z"
  by (cases x; cases y; cases z)
    (auto simp: offer_change_def dest: same_terms_trans same_terms_fields same_terms_entered)

interpretation offers: effect_relation "offers_change D" for D
proof unfold_locales
  fix s :: desk
  have "desk_node s = (desk_node s)\<lparr>offer_rows := offer_rows (desk_node s), xmr_offers := xmr_offers (desk_node s), notified := notified (desk_node s)\<rparr>"
    by simp
  then show "offers_change D s s"
    unfolding offers_change_def by (metis offer_change_refl)
next
  fix s t u :: desk
  assume st: "offers_change D s t" and tu: "offers_change D t u"
  obtain r x n where "desk_node t = (desk_node s)\<lparr>offer_rows := r, xmr_offers := x, notified := n\<rparr>"
    using st by (auto simp: offers_change_def)
  moreover obtain r' x' n' where "desk_node u = (desk_node t)\<lparr>offer_rows := r', xmr_offers := x', notified := n'\<rparr>"
    using tu by (auto simp: offers_change_def)
  ultimately have "desk_node u = (desk_node s)\<lparr>offer_rows := r', xmr_offers := x', notified := n'\<rparr>"
    by simp
  moreover have "offer_change D i (offer_rows (desk_node s) i) (offer_rows (desk_node u) i)" for i
    using st tu unfolding offers_change_def by (blast intro: offer_change_trans)
  ultimately show "offers_change D s u"
    unfolding offers_change_def by blast
qed

lemma put_change:
  assumes "put_offer i offer s = (r, s')" "offer_change D i (offer_rows (desk_node s) i) (Some offer)"
  shows "offers_change D s s'"
proof -
  have s': "desk_node s' = (desk_node s)\<lparr>offer_rows := (offer_rows (desk_node s))(i \<mapsto> offer), xmr_offers := xmr_offers (desk_node s), notified := notified (desk_node s)\<rparr>"
    using assms(1) by (auto simp: put_offer_def pmod_def)
  then have "offer_change D j (offer_rows (desk_node s) j) (offer_rows (desk_node s') j)" for j
    using assms(2) by (cases "j = i") simp_all
  then show ?thesis
    unfolding offers_change_def using s' by blast
qed

lemma beside_change:
  assumes "desk_node s' = (desk_node s)\<lparr>xmr_offers := xmr_offers (desk_node s'), notified := notified (desk_node s')\<rparr>"
  shows "offers_change D s s'"
proof -
  have "offer_rows (desk_node s') = offer_rows (desk_node s)"
    by (subst assms) simp
  moreover have "desk_node s' = (desk_node s)\<lparr>offer_rows := offer_rows (desk_node s), xmr_offers := xmr_offers (desk_node s'), notified := notified (desk_node s')\<rparr>"
    by (subst assms) simp
  ultimately show ?thesis
    unfolding offers_change_def by (metis offer_change_refl)
qed

lemma pmod_beside:
  assumes "\<And>s. desk_node (f s) = (desk_node s)\<lparr>xmr_offers := xmr_offers (desk_node (f s)), notified := notified (desk_node (f s))\<rparr>"
  shows "steps (offers_change D) (pmod f)"
  by (rule stepsI, rule beside_change) (use assms in \<open>auto simp: pmod_def\<close>)

lemma change_steps [intro!]:
  "steps (offers_change D) (pmod (\<lambda>s. s\<lparr>desk_node := (desk_node s)\<lparr>xmr_offers := (xmr_offers (desk_node s))(i \<mapsto> xo)\<rparr>\<rparr>))"
  "steps (offers_change D) (pmod (\<lambda>s. s\<lparr>desk_node := (desk_node s)\<lparr>notified := notified (desk_node s) @ ns\<rparr>\<rparr>))"
  "steps (offers_change D) (pmod (\<lambda>s. s\<lparr>possibly_revoked_offers := f s\<rparr>))"
  "steps (offers_change D) (pmod (\<lambda>s. s\<lparr>expired_offer_revokes := g s\<rparr>))"
  by (rule pmod_beside; simp)+

lemma offer_state_same: "offer_state E st offer = Inr offer' \<Longrightarrow> same_terms offer offer' \<and> offer_active_ind offer' = offer_active_ind offer"
  by (auto simp: offer_state_def setState_def Let_def same_terms_def split: prod.splits sum.splits)

lemma add_change:
  assumes "add_offer E msg d reverse x s = (r, s')" "offer_rows (desk_node s) (msg_id msg) = None" "entered D (msg_id msg) (new_offer msg d reverse x)"
  shows "offers_change D s s'"
proof (cases "offer_state E OFFER_RECEIVED (new_offer msg d reverse x)")
  case (Inl e)
  then show ?thesis
    using assms(1) offers.refl by (simp add: add_offer_def pbind_def plift_def)
next
  case (Inr offer)
  let ?rest = "pseq (pwhen (swap_type offer = SwapTypes_val XMR_SWAP)
       (pbind (plift (new_xmr_offer E d)) (\<lambda>xo.
        pmod (\<lambda>s. s\<lparr>desk_node := (desk_node s)\<lparr>xmr_offers := (xmr_offers (desk_node s))(msg_id msg \<mapsto> xo)\<rparr>\<rparr>))))
          (pmod (\<lambda>s. s\<lparr>desk_node := (desk_node s)\<lparr>notified := notified (desk_node s) @ [(NT_OFFER_RECEIVED, msg_id msg)]\<rparr>\<rparr>))"
  obtain t where put: "put_offer (msg_id msg) offer s = (Inr (), t)"
    by (simp add: put_offer_def pmod_def)
  have "steps (offers_change D) ?rest"
    by auto
  moreover have "?rest t = (r, s')"
    using assms(1) Inr put by (simp add: add_offer_def pbind_def pseq_def plift_def)
  ultimately have "offers_change D t s'"
    by (rule stepsD)
  moreover have "same_terms (new_offer msg d reverse x) offer" "offer_active_ind offer = 1"
    using offer_state_same [OF Inr] by (simp_all add: new_offer_def)
  then have "offers_change D s t"
    using put assms(2,3) by (auto intro!: put_change simp: offer_change_def same_terms_entered)
  ultimately show ?thesis
    using offers.trans by blast
qed

lemma seen_change:
  assumes "seen_offer E i offer s = (r, s')" "offer_rows (desk_node s) i = Some offer"
  shows "offers_change D s s'"
proof (cases "s' = s")
  case False
  then obtain offer' where "offer_state E OFFER_RECEIVED offer = Inr offer'" "put_offer i offer' s = (r, s')"
    using assms(1) by (auto simp: seen_offer_def py_simps pbind_def split: if_splits sum.splits)
  then show ?thesis
    using assms(2) offer_state_same by (fastforce intro!: put_change simp: offer_change_def)
qed (simp add: offers.refl)

lemma amounts_ok: "validateOfferAmounts a b c e x y z = Inr () \<Longrightarrow> z \<le> x \<and> a < x \<and> x < b \<and> c < y \<and> y < e"
  by (auto simp: validateOfferAmounts_def ensure_def split: if_splits)

lemma valid_time_ok: "validateOfferValidTime v = Inr () \<Longrightarrow> 10 * 60 \<le> v \<and> v \<le> 48 * 60 * 60"
  by (auto simp: validateOfferValidTime_def split: if_splits)

lemma data_checked:
  assumes "check_offer_data E d = Inr (cfrom, cto)"
  shows "Coins_of (od_coin_from d) = Some cfrom \<and> Coins_of (od_coin_to d) = Some cto \<and> od_coin_from d \<noteq> od_coin_to d
    \<and> validateSwapType (o_strict_swap_type E) cfrom cto (od_swap_type d) = Inr ()
    \<and> validateOfferAmounts (o_min_amount E cfrom) (o_max_amount E cfrom) (o_min_amount E cto) (o_max_amount E cto) (od_amount_from d) (od_amount_to d) (od_min_bid_amount d) = Inr ()
    \<and> validateOfferLockValue (o_locks E) (od_swap_type d) cfrom cto (od_lock_type d) (od_lock_value d) = Inr ()
    \<and> validateOfferValidTime (od_time_valid d) = Inr ()"
  using assms unfolding check_offer_data_def
  by (elim rbind_InrE) (simp add: coin_of_known ensure_def split: if_splits)

lemma swap_checked:
  assumes "check_swap_data E cfrom cto d = Inr ()"
  shows "od_swap_type d \<in> {SwapTypes_val SELLER_FIRST, SwapTypes_val XMR_SWAP} \<and> MINPROTO_VERSION \<le> od_protocol_version d"
  using assms
  by (auto simp: check_swap_data_def ensure_def MINPROTO_VERSION_def MINPROTO_VERSION_SECRET_HASH_def MINPROTO_VERSION_ADAPTOR_SIG_def split: if_splits)

lemma data_valid:
  assumes "check_offer_data E d = Inr (cfrom, cto)" "\<not> msg_sent msg + od_time_valid d < o_now E" "make_rate (o_bids E) cfrom (od_amount_to d) (od_amount_from d) = Inr x"
    "check_swap_data E cfrom cto d = Inr ()" "msg_dest msg = o_network_addr E \<or> o_recv_addr E (msg_dest msg)"
  shows "valid_terms E msg (new_offer msg d (is_reverse_ads_bid cfrom cto) x)"
proof -
  note ok = data_checked [OF assms(1)] swap_checked [OF assms(4)]
  have "Coins_val c = v" if "Coins_of v = Some c" for v c
    using that by (auto simp: Coins_of_def find_Some_iff)
  then have "cfrom \<noteq> cto"
    using ok(1) by metis
  moreover have "od_min_bid_amount d \<le> od_amount_from d \<and> o_min_amount E cfrom < od_amount_from d \<and> od_amount_from d < o_max_amount E cfrom
      \<and> o_min_amount E cto < od_amount_to d \<and> od_amount_to d < o_max_amount E cto"
    using ok(1) amounts_ok by blast
  moreover note valid_time_ok [of "od_time_valid d"]
  ultimately show ?thesis
    using ok assms(2,3,5) unfolding valid_terms_def new_offer_def by simp
qed

lemma taken_offer:
  assumes "take_offer E msg d reverse x s = (r, s')" "s' \<noteq> s"
  shows "(msg_dest msg = o_network_addr E \<or> o_recv_addr E (msg_dest msg))
    \<and> (case offer_rows (desk_node s) (msg_id msg) of None \<Rightarrow> add_offer E msg d reverse x s = (r, s') | Some offer \<Rightarrow> seen_offer E (msg_id msg) offer s = (r, s'))"
  using assms
  by (auto simp: take_offer_def isOfferRevoked_def pbind_def pseq_def py_simps ensure_def split: option.splits sum.splits if_splits)

lemma offer_delivery:
  assumes "processOffer E msg s = (r, s')" "OfferDelivery E msg \<in> D"
  shows "offers_change D s s'"
proof (cases "s' = s")
  case False
  then obtain d cfrom cto x where ok: "check_offer_data E d = Inr (cfrom, cto)" "\<not> msg_sent msg + od_time_valid d < o_now E"
      "make_rate (o_bids E) cfrom (od_amount_to d) (od_amount_from d) = Inr x" "check_swap_data E cfrom cto d = Inr ()"
    and take: "take_offer E msg d (is_reverse_ads_bid cfrom cto) x s = (r, s')"
    using assms(1) unfolding processOffer_def pseq_def
    by (auto dest!: pbind_plift_run simp: pret_def split: sum.splits if_splits)
  note taken = taken_offer [OF take False]
  have "entered D (msg_id msg) (new_offer msg d (is_reverse_ads_bid cfrom cto) x)"
    using assms(2) data_valid [OF ok] taken by (auto simp: entered_def)
  then show ?thesis
    using taken by (auto intro: add_change seen_change split: option.splits)
qed (simp add: offers.refl)

lemma revoke_change:
  assumes "revoke_offer E i sig offer s = (r, s')" "offer_rows (desk_node s) i = Some offer"
    "RevokeDelivery E msg \<in> D" "parse_message OfferRevokeMessage msg = Inr d" "attr_bytes d ''offer_msg_id'' = Inr i" "attr_bytes d ''signature'' = Inr sig"
  shows "offers_change D s s'"
proof (cases "offer_expire_at offer \<le> o_now E \<or> s' = s")
  case True
  moreover have "steps (offers_change D) (pmod (\<lambda>s. s\<lparr>expired_offer_revokes := append_bounded i (expired_offer_revokes s)\<rparr>))"
    by (rule change_steps)
  ultimately show ?thesis
    using assms(1) offers.refl stepsD by (auto simp: revoke_offer_def split: if_splits)
next
  case False
  then have "o_verify E (addr_from offer) i sig = Inr True" "put_offer i (offer\<lparr>offer_active_ind := 2\<rparr>) s = (r, s')"
    using assms(1) by (auto simp: revoke_offer_def pseq_def ensure_def dest!: pbind_plift_run split: if_splits)
  moreover have "same_terms offer (offer\<lparr>offer_active_ind := 2\<rparr>)"
    by (simp add: same_terms_def)
  ultimately show ?thesis
    using assms by (auto intro!: put_change simp: offer_change_def revoked_by_def)
qed

lemma pbind_guard: "pbind (if c then praise e else pret ()) f s = (if c then (Inl e, s) else f () s)"
  by (simp add: pbind_def praise_def pret_def)

lemma revoke_delivery:
  assumes "processOfferRevoke E msg s = (r, s')" "RevokeDelivery E msg \<in> D"
  shows "offers_change D s s'"
proof (cases "s' = s")
  case False
  then obtain d i sig where d: "parse_message OfferRevokeMessage msg = Inr d" "attr_bytes d ''offer_msg_id'' = Inr i" "attr_bytes d ''signature'' = Inr sig"
    and run: "(case offer_rows (desk_node s) i of None \<Rightarrow> revoke_unknown E msg i sig | Some offer \<Rightarrow> revoke_offer E i sig offer) s = (r, s')"
    using assms(1) unfolding processOfferRevoke_def pseq_def
    by (auto dest!: pbind_plift_run simp: pbind_pget_run pbind_guard pret_def split: if_splits)
  show ?thesis
  proof (cases "offer_rows (desk_node s) i")
    case None
    have "steps (offers_change D) (revoke_unknown E msg i sig)"
      unfolding revoke_unknown_def storeOfferRevoke_def by auto
    then show ?thesis
      using run None stepsD by fastforce
  next
    case (Some offer)
    then show ?thesis
      using run revoke_change [OF _ Some assms(2) d] by simp
  qed
qed (simp add: offers.refl)

lemma deliver_change: "d \<in> D \<Longrightarrow> offers_change D s (snd (deliver d s))"
  by (cases d) (auto intro: offer_delivery revoke_delivery prod.collapse [symmetric])

lemma deliveries_change: "set ds \<subseteq> D \<Longrightarrow> offers_change D s (deliveries ds s)"
proof (induction ds arbitrary: s)
  case (Cons d ds)
  then show ?case
    using deliver_change [of d D s] offers.trans by fastforce
qed (simp add: offers.refl)

lemma revoke_message_parses:
  assumes "message_payload MT_OFFER_REVOKE OfferRevokeMessage [(''offer_msg_id'', PBytes i), (''signature'', PBytes sig)] = Inr payload"
    and "length i < 2 ^ 63" "length sig < 2 ^ 63" "msg_payload msg = delivered (msg_payload_version msg) payload"
  shows "parse_message OfferRevokeMessage msg = Inr [''offer_msg_id'' \<mapsto> PBytes i, ''signature'' \<mapsto> PBytes sig]"
proof -
  let ?a = "[''offer_msg_id'' \<mapsto> PBytes i, ''signature'' \<mapsto> PBytes sig]"
  have init: "npb_init OfferRevokeMessage True [(''offer_msg_id'', PBytes i), (''signature'', PBytes sig)] = Inr ?a"
    by (simp add: npb_init_def OfferRevokeMessage_def)
  have "wf_fields OfferRevokeMessage"
    by code_simp
  moreover have "message_ok OfferRevokeMessage ?a"
    using assms(2,3) by (auto simp: message_ok_def OfferRevokeMessage_def value_ok_def NPBW_BYTES_def)
  ultimately obtain m where m: "npb_to_bytes OfferRevokeMessage ?a = Inr m" "npb_from_bytes OfferRevokeMessage Map.empty m True = Inr ?a"
    using message_roundtrip_generic by blast
  have "payload = word_of_int (MessageTypes_val MT_OFFER_REVOKE) # m"
    using assms(1) by (simp add: message_payload_def init m(1))
  then show ?thesis
    using delivered_bytes [OF assms(4) [unfolded \<open>payload = _\<close>]] m(2) by (simp add: parse_message_def)
qed

lemma revoke_sends:
  assumes "revokeOffer M i token refuse m = (Inr (), m')" "offer_rows (market_node m) i = Some offer"
  obtains sig payload where "m_sign M (addr_from offer) i = Inr sig"
    "message_payload MT_OFFER_REVOKE OfferRevokeMessage [(''offer_msg_id'', PBytes i), (''signature'', PBytes sig)] = Inr payload"
    "sent_messages (market_node m') = sent_messages (market_node m) @ [(addr_from offer, m_network_addr M, payload)]"
  using assms
  by (auto simp: revokeOffer_def pbind_def pseq_def py_simps on_node_run sendMessage_def of_option_def ensure_def pwhen_def
      split: sum.splits if_splits)

lemma pending_withdrawn:
  assumes "offer_rows (desk_node s) i = None" "map_of (possibly_revoked_offers s) i = Some sig" "verify address i sig = Inr True"
  shows "withdrawn verify i address s"
proof -
  have "offer_rows (desk_node (snd (processOffer E msg s))) i = None"
    if "o_verify E = verify" "msg_id msg = i" "msg_source msg = address" for E msg
  proof -
    have "snd (take_offer E msg d reverse x s) = s" for d reverse x
      using assms that by (simp add: take_offer_def isOfferRevoked_def pbind_def pseq_def py_simps)
    then have "snd (processOffer E msg s) = s"
      by (simp add: processOffer_def pbind_def pseq_def py_simps split: sum.split prod.split)
    then show ?thesis
      using assms(1) by simp
  qed
  then show ?thesis
    using assms(1) by (simp add: withdrawn_def)
qed

lemma revoke_taken:
  assumes "parse_message OfferRevokeMessage msg = Inr [''offer_msg_id'' \<mapsto> PBytes i, ''signature'' \<mapsto> PBytes sig]" "length i = 28" "length sig = 65"
    and "msg_dest msg = o_network_addr E" "\<not> revoke_outdated E i" "i \<notin> set (expired_offer_revokes s)"
  shows "processOfferRevoke E msg s = (case offer_rows (desk_node s) i of None \<Rightarrow> revoke_unknown E msg i sig | Some offer \<Rightarrow> revoke_offer E i sig offer) s"
  using assms by (simp add: processOfferRevoke_def pbind_def pseq_def py_simps attr_bytes_def ensure_def split: option.split)

lemma same_terms_lock: "same_terms a b \<Longrightarrow> lock_type b = lock_type a \<and> lock_value b = lock_value a \<and> swap_type b = swap_type a"
  unfolding same_terms_def by (cases a; cases b) auto

lemma absolute_run:
  "fst (processOffer offers_example absolute_letter blank_desk) = Inl (ValueError ''Unknown lock type'')"
  "map_option swap_type (offer_rows (desk_node (snd (processOffer offers_example absolute_letter blank_desk))) sent_id) = Some (SwapTypes_val XMR_SWAP)"
  by code_simp+

lemma example_revocation:
  "fst (revokeOffer signing_market sent_id None False open_market) = Inr ()"
  "sent_messages (market_node (snd (revokeOffer signing_market sent_id None False open_market)))
     = [] @ [(msg_source (revoke_letter 1), msg_dest (revoke_letter 1), msg_payload (revoke_letter 1))]"
  by code_simp+



text \<open>C40. A revocation by someone else keeps the real one out. While a revocation of an offer is remembered that does not verify under the address of the offer's sender,
  no revocation of that offer that arrives changes the node, and when the offer itself arrives it is not taken as revoked.\<close>

theorem foreign_revocation_shadows:
  assumes "offer_rows (desk_node s) i = None" "map_of (possibly_revoked_offers s) i = Some sig" "o_verify E address i sig = Inr False"
    and "parse_message OfferRevokeMessage msg = Inr d" "attr_bytes d ''offer_msg_id'' = Inr i"
  shows "snd (processOfferRevoke E' msg s) = s \<and> isOfferRevoked E i address s = (Inr False, s)"
proof -
  have "i \<in> fst ` set (possibly_revoked_offers s)"
    using map_of_SomeD [OF assms(2)] by force
  then have "snd (revoke_unknown E' msg i sig' s) = s" for sig'
    by (simp add: revoke_unknown_def storeOfferRevoke_def pbind_def pseq_def py_simps)
  then have "snd (processOfferRevoke E' msg s) = s"
    using assms(1,4,5) by (simp add: processOfferRevoke_def pbind_def pseq_def py_simps split: sum.split)
  then show ?thesis
    using assms(2,3) by (simp add: isOfferRevoked_def pbind_def py_simps)
qed

lemma foreign_revocation_parses:
  "case parse_message OfferRevokeMessage (revoke_letter 1) of Inl _ \<Rightarrow> False | Inr d \<Rightarrow> attr_bytes d ''offer_msg_id'' = Inr sent_id"
  by code_simp

theorem foreign_revocation_shadows_witness:
  "snd (processOfferRevoke offers_example (revoke_letter 1) shadowed_desk) = shadowed_desk"
proof -
  obtain d where d: "parse_message OfferRevokeMessage (revoke_letter 1) = Inr d" "attr_bytes d ''offer_msg_id'' = Inr sent_id"
    using foreign_revocation_parses by (auto split: sum.splits)
  have "offer_rows (desk_node shadowed_desk) sent_id = None" "map_of (possibly_revoked_offers shadowed_desk) sent_id = Some (replicate 65 2)"
    "o_verify offers_example ''offerer'' sent_id (replicate 65 2) = Inr False"
    by (simp_all add: shadowed_desk_def blank_desk_def blank_node_def offers_example_def)
  from foreign_revocation_shadows [OF this d] show ?thesis
    by blast
qed

text \<open>C14. A revocation takes effect elsewhere. Let \<open>revokeOffer\<close> return on the node of the sender, and let the message it sent last be delivered to another node with the same network
  address, where the sender's signature (65 bytes) verifies. If that node has the offer under the sender's address and it has not expired there, or does not have it and
  no revocation of it is pending, \<open>processOfferRevoke\<close> returns and the offer is withdrawn: its row is inactive, or no message with its id from its sender adds it as long as the revocation is remembered.\<close>

theorem revocation_takes_effect:
  assumes sender: "revokeOffer M i token refuse m = (Inr (), m')" "offer_rows (market_node m) i = Some offer"
    "sent_messages (market_node m') = sent @ [(msg_source msg, msg_dest msg, payload)]"
    and letter: "msg_payload msg = delivered (msg_payload_version msg) payload"
    and signed: "\<And>sig. m_sign M (addr_from offer) i = Inr sig \<Longrightarrow> length sig = 65 \<and> o_verify E (addr_from offer) i sig = Inr True"
    and receiver: "length i = 28" "o_network_addr E = m_network_addr M" "\<not> revoke_outdated E i" "i \<notin> set (expired_offer_revokes s)"
    "case offer_rows (desk_node s) i of
       Some row \<Rightarrow> addr_from row = addr_from offer \<and> o_now E < offer_expire_at row
     | None \<Rightarrow> i \<notin> fst ` set (possibly_revoked_offers s)"
  shows "\<exists>s'. processOfferRevoke E msg s = (Inr (), s') \<and> withdrawn (o_verify E) i (addr_from offer) s'"
proof -
  obtain sig where sig: "m_sign M (addr_from offer) i = Inr sig"
      "message_payload MT_OFFER_REVOKE OfferRevokeMessage [(''offer_msg_id'', PBytes i), (''signature'', PBytes sig)] = Inr payload"
    and addresses: "msg_source msg = addr_from offer" "msg_dest msg = m_network_addr M"
    by (rule revoke_sends [OF sender(1,2)]) (use sender(3) in auto)
  have ok: "length sig = 65" "o_verify E (addr_from offer) i sig = Inr True"
    using signed [OF sig(1)] by simp_all
  have run: "processOfferRevoke E msg s = (case offer_rows (desk_node s) i of None \<Rightarrow> revoke_unknown E msg i sig | Some offer \<Rightarrow> revoke_offer E i sig offer) s"
    using addresses receiver ok(1) by (intro revoke_taken revoke_message_parses [OF sig(2) _ _ letter]) simp_all
  show ?thesis
  proof (cases "offer_rows (desk_node s) i")
    case None
    let ?s' = "s\<lparr>possibly_revoked_offers := appendleft (i, sig) (possibly_revoked_offers s)\<rparr>"
    have "processOfferRevoke E msg s = (Inr (), ?s')"
      using None run ok addresses receiver(5) by (simp add: revoke_unknown_def storeOfferRevoke_def pbind_def pseq_def py_simps)
    moreover have "map_of (possibly_revoked_offers ?s') i = Some sig"
      by (simp add: appendleft_def queue_limit_def)
    ultimately show ?thesis
      using None ok(2) by (auto intro: pending_withdrawn)
  next
    case (Some row)
    then have "processOfferRevoke E msg s = put_offer i (row\<lparr>offer_active_ind := 2\<rparr>) s"
      using run ok(2) receiver(5) by (simp add: revoke_offer_def pbind_def pseq_def py_simps ensure_def)
    then show ?thesis
      by (simp add: put_offer_def pmod_def withdrawn_def)
  qed
qed

theorem revocation_takes_effect_witness:
  "\<exists>s'. processOfferRevoke offers_example (revoke_letter 1) blank_desk = (Inr (), s') \<and> withdrawn (o_verify offers_example) sent_id ''offerer'' s'"
proof -
  have "addr_from open_offer = ''offerer''" "offer_rows (market_node open_market) sent_id = Some open_offer" "length sent_id = 28"
    "m_sign signing_market x y = Inr (replicate 65 1)" "o_verify offers_example ''offerer'' y (replicate 65 1) = Inr True"
    "o_network_addr offers_example = m_network_addr signing_market" "msg_payload (revoke_letter 1) = delivered (msg_payload_version (revoke_letter 1)) (msg_payload (revoke_letter 1))"
    "expired_offer_revokes blank_desk = []" "possibly_revoked_offers blank_desk = []" "offer_rows (desk_node blank_desk) sent_id = None" for x y
    by (simp_all add: open_offer_def open_market_def sent_id_def signing_market_def offers_example_def market_example_def revoke_letter_def letter_of_def delivered_def blank_desk_def blank_node_def)
  moreover have "\<not> revoke_outdated offers_example sent_id"
    by code_simp
  moreover have "revokeOffer signing_market sent_id None False open_market = (Inr (), snd (revokeOffer signing_market sent_id None False open_market))"
    using example_revocation(1) by (metis prod.collapse)
  ultimately show ?thesis
    using revocation_takes_effect [of signing_market sent_id None False open_market _ open_offer "[]" "revoke_letter 1" "msg_payload (revoke_letter 1)" offers_example blank_desk]
      example_revocation(2) by auto
qed

text \<open>C13. What the network can do to the table of offers. Take any messages, offers and revocations, delivered in any order to a node whose clock and settings may change in between, and whether the handlers
  return or raise. Of the node only the rows of offers, their second rows and the notices have changed. A row there was keeps its terms; a new row has the id of a delivered
  message, its sender and times, and terms that passed every check: known coins that differ, swap type, amounts, lock value, life time and rate. A row becomes inactive only by a delivered revocation whose
  signature verifies under the address of the offer.\<close>

theorem offers_through_deliveries: "offers_change (set ds) s (deliveries ds s)"
  by (rule deliveries_change) simp

end
