(* ===== verification/Node_Messages.thy ===== *)
theory Node_Messages
  imports Received_Offers
begin

text \<open>
  Every message from the network: \<open>processMsg\<close> of \<open>src/basicswap/basicswap.py\<close> with the handlers of all types, on \<open>hub\<close>, which puts together the state the handlers' own theories work on: the market
  with the node and the budgets of offers, the pending revocations, and the networks. The request to connect directly only calls the chat client and records a route, which is not part of the state here.
  The theorem says what one message can reach. It asks that the table of bids is keyed by the id of its rows, as the primary key of the database makes it.
\<close>

section \<open>Definitions\<close>

text \<open>All that messages act on: the market with the node in it, the pending revocations, and the networks.\<close>

record hub =
  hub_market :: market
  hub_revoked :: "(bytes \<times> bytes) list"
  hub_expired :: "bytes list"
  hub_net :: net_state

record hub_env =
  h_signing :: signing
  h_bids :: bids_env
  h_offers :: offers_env
  h_net :: net_env
  h_pubkey :: "message \<Rightarrow> string option"
  h_connect :: "message \<Rightarrow> unit res"

definition desk_of :: "hub \<Rightarrow> desk" where
  "desk_of h = \<lparr>desk_node = market_node (hub_market h), possibly_revoked_offers = hub_revoked h, expired_offer_revokes = hub_expired h\<rparr>"

definition put_desk :: "desk \<Rightarrow> hub \<Rightarrow> hub" where
  "put_desk d h = h\<lparr>hub_market := (hub_market h)\<lparr>market_node := desk_node d\<rparr>, hub_revoked := possibly_revoked_offers d, hub_expired := expired_offer_revokes d\<rparr>"

definition on_market :: "(market, 'a) py \<Rightarrow> (hub, 'a) py" where
  "on_market f h = (case f (hub_market h) of (r, m) \<Rightarrow> (r, h\<lparr>hub_market := m\<rparr>))"

definition on_desk :: "(desk, 'a) py \<Rightarrow> (hub, 'a) py" where
  "on_desk f h = (case f (desk_of h) of (r, d) \<Rightarrow> (r, put_desk d h))"

definition on_net :: "(net_state, 'a) py \<Rightarrow> (hub, 'a) py" where
  "on_net f h = (case f (hub_net h) of (r, s) \<Rightarrow> (r, h\<lparr>hub_net := s\<rparr>))"

text \<open>\<open>processMsg\<close> with every handler. A request to connect directly is a call of the chat client.\<close>

definition handle_any :: "hub_env \<Rightarrow> MessageTypes \<Rightarrow> message \<Rightarrow> (hub, unit) py" where
  "handle_any H t msg =
     (if t = MT_OFFER then on_desk (processOffer (h_offers H) msg)
      else if t = MT_OFFER_REVOKE then on_desk (processOfferRevoke (h_offers H) msg)
      else if t = MT_BID then on_market (processBid (h_bids H) msg)
      else if t = MT_XMR_BID_FL then on_market (processXmrBid (h_bids H) msg)
      else if t = MT_ADS_BID_LF then on_market (processADSBidReversed (h_bids H) msg)
      else if t = MT_ADS_BID_ACCEPT_FL then on_market (processADSBidReversedAccept (h_bids H) msg)
      else if t = MT_CONNECT_REQ then plift (h_connect H msg)
      else if t = MT_PORTAL_OFFER then on_net (processPortalOffer (h_net H) msg (h_pubkey H msg))
      else if t = MT_PORTAL_SEND then on_net (processPortalMessage (h_net H) msg)
      else on_market (on_node (handle_message (b_xenv (h_bids H)) (h_signing H) (b_keys (h_bids H)) (\<lambda>_ _. pret ()) t msg)))"

definition receive_message :: "hub_env \<Rightarrow> message \<Rightarrow> (hub, unit) py" where
  "receive_message H msg = ptry (case message_type msg of None \<Rightarrow> pret () | Some t \<Rightarrow> handle_any H t msg) (\<lambda>_. pret ())"

section \<open>Specification vocabulary\<close>

text \<open>The bid a message is about: its own id, or the bid it names.\<close>

definition bid_of_message :: "message \<Rightarrow> bytes" where
  "bid_of_message msg =
     (case message_type msg of
        Some MT_BID \<Rightarrow> msg_id msg | Some MT_XMR_BID_FL \<Rightarrow> msg_id msg | Some MT_ADS_BID_LF \<Rightarrow> msg_id msg
      | Some MT_ADS_BID_ACCEPT_FL \<Rightarrow> (case rbind (parse_message ADSBidIntentAcceptMessage msg) (\<lambda>a. attr_bytes a ''bid_msg_id'') of Inl _ \<Rightarrow> [] | Inr b \<Rightarrow> b)
      | _ \<Rightarrow> message_bid msg)"

definition keyed :: "hub \<Rightarrow> bool" where
  "keyed h \<longleftrightarrow> (\<forall>b row. bid_rows (market_node (hub_market h)) b = Some row \<longrightarrow> bid_id row = b)"

text \<open>What a message leaves as it is.\<close>

definition contained :: "hub_env \<Rightarrow> message \<Rightarrow> hub \<Rightarrow> hub \<Rightarrow> bool" where
  "contained H msg h h' \<longleftrightarrow>
     (if message_type msg \<in> {Some MT_OFFER, Some MT_OFFER_REVOKE} then
        offers_change {OfferDelivery (h_offers H) msg, RevokeDelivery (h_offers H) msg} (desk_of h) (desk_of h') \<and> h' = put_desk (desk_of h') h
      else if message_type msg \<in> {Some MT_PORTAL_OFFER, Some MT_PORTAL_SEND} then h' = h\<lparr>hub_net := hub_net h'\<rparr>
      else only_this_bid (bid_of_message msg) (hub_market h) (hub_market h') \<and> h' = h\<lparr>hub_market := hub_market h'\<rparr>)"

definition hub_example :: hub where
  "hub_example = \<lparr>hub_market = open_market, hub_revoked = [], hub_expired = [], hub_net = blank_net\<rparr>"

definition hub_settings :: hub_env where
  "hub_settings = \<lparr>h_signing = idle_signing, h_bids = bids_example, h_offers = offers_example, h_net = net_example, h_pubkey = \<lambda>_. None, h_connect = \<lambda>_. Inr ()\<rparr>"


section \<open>Facts\<close>

lemma alone_on_node [intro!]: "steps (only_swap b) f \<Longrightarrow> steps (only_this_bid b) (on_node f)"
  by (auto simp: steps_def on_node_run only_this_bid_def)

lemma swap_refused [intro!]: "bid_id bid = b \<Longrightarrow> steps (only_swap b) (refused A bid e)"
  using rows_refused [OF same_bid_refl] by (auto simp: steps_def keeps_row_def)

lemma alone_auto [intro!]: "bid_id bid = b \<Longrightarrow> steps (only_this_bid b) (shouldAutoAcceptBid A offer bid rr)"
  unfolding shouldAutoAcceptBid_def by auto

lemma alone_auto_bind:
  assumes "bid_id bid = b" "\<And>accept bid'. bid_id bid' = b \<Longrightarrow> steps (only_this_bid b) (f (accept, bid'))"
  shows "steps (only_this_bid b) (pbind (shouldAutoAcceptBid A offer bid rr) f)"
  by (rule alone.steps_pbind_run) (use assms auto_same in \<open>auto simp: same_bid_def\<close>)

lemma alone_queue [intro!]: "steps (only_this_bid b) (queue_accept E t b)"
  unfolding queue_accept_def Let_def by auto

lemma alone_notify [intro!]: "steps (only_this_bid b) (on_node (notify_bid t b))"
  unfolding notify_bid_def by auto

lemma alone_save [intro!]: "steps (only_this_bid b) (save_bid_swap b bid xs)"
  unfolding save_bid_swap_def by (auto split: option.split)

lemma alone_load [intro!]: "steps (only_this_bid b) (on_node (load_offer i))"
  unfolding load_offer_def getXmrOfferFromSession_def by (auto split: prod.split)

lemma alone_state:
  assumes "bid_id bid = b" "\<And>bid'. bid_id bid' = b \<Longrightarrow> steps (only_this_bid b) (f bid')"
  shows "steps (only_this_bid b) (pbind (on_node (with_state t st bid)) f)"
proof (rule alone.steps_pbind_run)
  show "steps (only_this_bid b) (f bid')" if "on_node (with_state t st bid) m = (Inr bid', m')" for m bid' m'
    using that same_bid_state [of t st bid "market_node m" bid' "market_node m"] assms
    by (auto simp: on_node_run with_state_def py_simps same_bid_def split: sum.splits prod.splits)
qed auto

lemma alone_receive [intro!]: "bid_id bid = b \<Longrightarrow> steps (only_this_bid b) (receiveXmrBid E b bid)"
  unfolding receiveXmrBid_def by (auto intro!: alone_state)

lemma row_id: "bid_row E msg d i offer terms old = Inr bid \<Longrightarrow> (\<And>row. old = Some row \<Longrightarrow> bid_id row = msg_id msg) \<Longrightarrow> bid_id bid = msg_id msg"
  by (cases terms) (auto simp: bid_row_def new_bid_def known_bid_def blank_bid_def split: option.splits)

lemma ads_row_id: "ads_rows E msg d i ca cb terms fresh st old = Inr (bid, xs) \<Longrightarrow> (\<And>row. fst old = Some row \<Longrightarrow> bid_id row = msg_id msg) \<Longrightarrow> bid_id bid = msg_id msg"
  by (cases terms; cases old) (auto simp: ads_rows_def new_bid_def known_bid_def blank_bid_def split: option.splits)

lemma session_run: "pbind (on_node (getXmrBidFromSession b)) f m = (r, m') \<Longrightarrow>
  \<exists>old. f old m = (r, m') \<and> (\<forall>row. fst old = Some row \<longrightarrow> bid_rows (market_node m) b = Some row)"
  by (auto simp: getXmrBidFromSession_def pbind_def on_node_run py_simps split: option.splits)

lemma bid_alone:
  assumes "processBid E msg m = (r, m')" "\<And>row. bid_rows (market_node m) (msg_id msg) = Some row \<Longrightarrow> bid_id row = msg_id msg"
  shows "only_this_bid (msg_id msg) m m'"
proof (cases "m' = m")
  let ?tail = "\<lambda>offer bid. pbind (on_node (with_state (b_now E) BID_RECEIVED bid)) (\<lambda>bid.
     pseq (on_node (saveBidInSession (msg_id msg) bid))
    (pseq (on_node (notify_bid NT_BID_RECEIVED (msg_id msg)))
    (pbind (shouldAutoAcceptBid (b_auto E) offer bid None) (\<lambda>(accept, bid).
     pwhen accept (queue_accept E ACCEPT_BID (msg_id msg))))))"
  case False
  then obtain d i offer terms bid where bid: "bid_row E msg d i offer terms (bid_rows (market_node m) (msg_id msg)) = Inr bid"
    and run: "?tail offer bid m = (r, m')"
    using assms(1) unfolding processBid_def by (auto dest!: pbind_plift_run simp: pbind_pget_run)
  have "bid_id bid = msg_id msg"
    using row_id [OF bid assms(2)] .
  then have "steps (only_this_bid (msg_id msg)) (?tail offer bid)"
    by (intro alone_state) auto
  then show ?thesis
    using run by (rule stepsD)
qed (simp add: alone.refl)

lemma xmr_bid_alone:
  assumes "processXmrBid E msg m = (r, m')" "\<And>row. bid_rows (market_node m) (msg_id msg) = Some row \<Longrightarrow> bid_id row = msg_id msg"
  shows "only_this_bid (msg_id msg) m m'"
proof (cases "m' = m")
  let ?tail = "\<lambda>cb bid xs. pbind (on_node (with_state (b_now E) BID_RECEIVING bid)) (\<lambda>bid.
     pseq (save_bid_swap (msg_id msg) bid xs)
          (pwhen (curve_type (b_keys E cb) \<noteq> ed25519) (receiveXmrBid E (msg_id msg) bid)))"
  case False
  then obtain d i ca cb terms keys bid xs old where old: "\<forall>row. fst old = Some row \<longrightarrow> bid_rows (market_node m) (msg_id msg) = Some row"
    and bid: "ads_rows E msg d i ca cb terms (put_bid_keys E cb keys blank_xmr_swap) BID_SENT old = Inr (bid, xs)"
    and run: "?tail cb bid xs m = (r, m')"
    using assms(1) unfolding processXmrBid_def
    by (auto dest!: pbind_plift_run session_run elim!: ads_offer_run)
  have "bid_id bid = msg_id msg"
    using ads_row_id [OF bid] old assms(2) by blast
  then have "steps (only_this_bid (msg_id msg)) (?tail cb bid xs)"
    by (intro alone_state) auto
  then show ?thesis
    using run by (rule stepsD)
qed (simp add: alone.refl)

lemma reversed_bid_alone:
  assumes "processADSBidReversed E msg m = (r, m')" "\<And>row. bid_rows (market_node m) (msg_id msg) = Some row \<Longrightarrow> bid_id row = msg_id msg"
  shows "only_this_bid (msg_id msg) m m'"
proof (cases "m' = m")
  let ?tail = "\<lambda>offer rt bid xs. pbind (on_node (with_state (b_now E) BID_RECEIVED bid)) (\<lambda>bid.
     pseq (save_bid_swap (msg_id msg) bid xs)
    (pseq (on_node (notify_bid NT_BID_RECEIVED (msg_id msg)))
    (pbind (shouldAutoAcceptBid (b_auto E) offer bid (Some rt)) (\<lambda>(accept, bid).
     pwhen accept
       (pseq (queue_accept E ACCEPT_AS_REV_BID (msg_id msg))
       (pbind (on_node (with_state (b_now E) SWAP_DELAYING bid)) (\<lambda>bid.
        on_node (saveBidInSession (msg_id msg) bid))))))))"
  case False
  then obtain d i ca cb terms bid xs old offer rt where old: "\<forall>row. fst old = Some row \<longrightarrow> bid_rows (market_node m) (msg_id msg) = Some row"
    and bid: "ads_rows E msg d i ca cb terms (Inr blank_xmr_swap) BID_REQUEST_SENT old = Inr (bid, xs)"
    and run: "?tail offer rt bid xs m = (r, m')"
    using assms(1) unfolding processADSBidReversed_def
    by (auto dest!: pbind_plift_run session_run elim!: ads_offer_run)
  have "bid_id bid = msg_id msg"
    using ads_row_id [OF bid] old assms(2) by blast
  then have "steps (only_this_bid (msg_id msg)) (?tail offer rt bid xs)"
    by (auto intro!: alone_state alone_auto_bind)
  then show ?thesis
    using run by (rule stepsD)
qed (simp add: alone.refl)

lemma load_swap_bid: "pbind (on_node (load_swap b)) f m = (r, m') \<Longrightarrow> m' \<noteq> m \<Longrightarrow>
  \<exists>bid xs. bid_rows (market_node m) b = Some bid \<and> f (bid, xs) m = (r, m')"
  by (auto simp: load_swap_def getXmrBidFromSession_def pbind_def on_node_run py_simps of_option_def split: option.splits)

lemma accept_alone:
  assumes "processADSBidReversedAccept E msg m = (r, m')" "\<And>b row. bid_rows (market_node m) b = Some row \<Longrightarrow> bid_id row = b"
    and "\<And>a b. parse_message ADSBidIntentAcceptMessage msg = Inr a \<Longrightarrow> attr_bytes a ''bid_msg_id'' = Inr b \<Longrightarrow> b = c"
  shows "only_this_bid c m m'"
proof (cases "m' = m")
  let ?tail = "\<lambda>d b bid xs. pbind (on_node (load_offer (bid_offer_id bid))) (\<lambda>(offer, xo).
     pseq (plift (ensure (reverse_offer offer) ''Offer not reversed''))
    (pseq (on_node (check_addresses msg (addr_from offer) (bid_addr bid)))
    (pseq (on_node (check_state ([BID_REQUEST_SENT] @ (if was_sent bid \<and> offer_was_sent offer then [BID_REQUEST_ACCEPTED] else [])) bid))
    (pbind (plift (coin_a offer)) (\<lambda>ca.
     pbind (plift (coin_b offer)) (\<lambda>cb.
     pbind (plift (rbind (check_bid_keys E ca cb d) (\<lambda>keys. put_bid_keys E cb keys xs))) (\<lambda>xs.
     pbind (plift (rbind (start_heights E ca cb) (\<lambda>(ha, hb). rbind (clamped_height E cb hb) (\<lambda>hb. Inr (ha, hb))))) (\<lambda>(ha, hb).
     pbind (on_node (with_state (b_now E) BID_RECEIVING (bid\<lparr>chain_a_height_start := Some ha, chain_b_height_start := Some hb\<rparr>))) (\<lambda>bid.
     pseq (on_node (save_swap b bid xs))
    (pseq (on_node (notify_bid NT_BID_ACCEPTED b))
          (pwhen (curve_type (b_keys E cb) \<noteq> ed25519) (receiveXmrBid E b bid))))))))))))"
  case False
  then obtain d b bid xs where d: "parse_message ADSBidIntentAcceptMessage msg = Inr d" "attr_bytes d ''bid_msg_id'' = Inr b" "bid_rows (market_node m) b = Some bid"
    and run: "?tail d b bid xs m = (r, m')"
    using assms(1) unfolding processADSBidReversedAccept_def
    by (auto dest!: pbind_plift_run load_swap_bid)
  have id: "bid_id bid = b" "b = c"
    using assms(2,3) d by blast+
  then have "steps (only_this_bid b) (?tail d b bid xs)"
    unfolding check_addresses_def check_state_def by (auto intro!: alone_state)
  then show ?thesis
    unfolding id(2) [symmetric] using run by (rule stepsD)
qed (simp add: alone.refl)

lemma on_market_run: "on_market f h = (fst (f (hub_market h)), h\<lparr>hub_market := snd (f (hub_market h))\<rparr>)"
  by (simp add: on_market_def split_beta)

lemma on_desk_run: "on_desk f h = (fst (f (desk_of h)), put_desk (snd (f (desk_of h))) h)"
  by (simp add: on_desk_def split_beta)

lemma on_net_run: "on_net f h = (fst (f (hub_net h)), h\<lparr>hub_net := snd (f (hub_net h))\<rparr>)"
  by (simp add: on_net_def split_beta)

lemma desk_put [simp]: "desk_of (put_desk d h) = d"
  by (simp add: desk_of_def put_desk_def)

lemma market_alone: "(\<And>r m'. f (hub_market h) = (r, m') \<Longrightarrow> only_this_bid b (hub_market h) m') \<Longrightarrow>
    only_this_bid b (hub_market h) (hub_market (snd (on_market f h))) \<and> snd (on_market f h) = h\<lparr>hub_market := hub_market (snd (on_market f h))\<rparr>"
  by (simp add: on_market_run) (metis prod.collapse)

lemma contained_market:
  assumes "message_type msg = Some t" "t \<notin> {MT_OFFER, MT_OFFER_REVOKE, MT_PORTAL_OFFER, MT_PORTAL_SEND}"
    and "\<And>r m'. f (hub_market h) = (r, m') \<Longrightarrow> only_this_bid (bid_of_message msg) (hub_market h) m'"
  shows "contained H msg h (snd (on_market f h))"
  using assms(1,2) market_alone [where f = f, OF assms(3)] by (simp add: contained_def)

lemma market_node_frame:
  assumes "steps (only_swap b) f" "on_node f m = (r, m')"
  shows "only_this_bid b m m'"
  using alone_on_node [OF assms(1)] assms(2) by (rule stepsD)

lemma bid_handler_contained:
  assumes "message_type msg = Some t" "t \<in> {MT_BID, MT_XMR_BID_FL, MT_ADS_BID_LF, MT_ADS_BID_ACCEPT_FL}" "keyed h"
  shows "contained H msg h (snd (handle_any H t msg h))"
proof -
  have row: "bid_id row = b" if "bid_rows (market_node (hub_market h)) b = Some row" for b row
    using that assms(3) by (simp add: keyed_def)
  have own: "bid_of_message msg = (if t = MT_ADS_BID_ACCEPT_FL
      then (case rbind (parse_message ADSBidIntentAcceptMessage msg) (\<lambda>a. attr_bytes a ''bid_msg_id'') of Inl _ \<Rightarrow> [] | Inr b \<Rightarrow> b) else msg_id msg)"
    using assms(1,2) by (auto simp: bid_of_message_def)
  show ?thesis
    using assms(2)
  proof (elim insertE emptyE)
    assume "t = MT_BID"
    then show ?thesis
      using assms(1) own bid_alone row by (auto simp: handle_any_def intro!: contained_market)
  next
    assume "t = MT_XMR_BID_FL"
    then show ?thesis
      using assms(1) own xmr_bid_alone row by (auto simp: handle_any_def intro!: contained_market)
  next
    assume "t = MT_ADS_BID_LF"
    then show ?thesis
      using assms(1) own reversed_bid_alone row by (auto simp: handle_any_def intro!: contained_market)
  next
    assume t: "t = MT_ADS_BID_ACCEPT_FL"
    have "only_this_bid (bid_of_message msg) (hub_market h) m'" if "processADSBidReversedAccept (h_bids H) msg (hub_market h) = (r, m')" for r m'
      using that row by (rule accept_alone) (simp_all add: own t)
    then show ?thesis
      using assms(1) t by (auto simp: handle_any_def intro!: contained_market)
  qed
qed

lemma offer_contained:
  assumes "message_type msg = Some t" "t \<in> {MT_OFFER, MT_OFFER_REVOKE}"
  shows "contained H msg h (snd (handle_any H t msg h))"
proof -
  let ?D = "{OfferDelivery (h_offers H) msg, RevokeDelivery (h_offers H) msg}"
  have "offers_change ?D (desk_of h) (snd (deliver d (desk_of h)))" if "d \<in> ?D" for d
    using that by (rule deliver_change)
  from this [of "OfferDelivery (h_offers H) msg"] this [of "RevokeDelivery (h_offers H) msg"] show ?thesis
    using assms by (auto simp: contained_def handle_any_def on_desk_run)
qed

lemma handle_contained:
  assumes t: "message_type msg = Some t" and h: "keyed h"
  shows "contained H msg h (snd (handle_any H t msg h))"
proof -
  consider (bid) "t \<in> {MT_BID, MT_XMR_BID_FL, MT_ADS_BID_LF, MT_ADS_BID_ACCEPT_FL}" | (offer) "t \<in> {MT_OFFER, MT_OFFER_REVOKE}"
    | (portal) "t \<in> {MT_PORTAL_OFFER, MT_PORTAL_SEND}" | (connect) "t = MT_CONNECT_REQ"
    | (swap) "t \<notin> {MT_BID, MT_XMR_BID_FL, MT_ADS_BID_LF, MT_ADS_BID_ACCEPT_FL, MT_OFFER, MT_OFFER_REVOKE, MT_PORTAL_OFFER, MT_PORTAL_SEND, MT_CONNECT_REQ}"
    by blast
  then show ?thesis
  proof cases
    case bid
    then show ?thesis
      by (rule bid_handler_contained [OF t _ h])
  next
    case offer
    then show ?thesis
      by (rule offer_contained [OF t])
  next
    case portal
    then show ?thesis
      using t by (auto simp: contained_def handle_any_def on_net_run)
  next
    case connect
    then show ?thesis
      using t alone.refl by (simp add: contained_def handle_any_def plift_def)
  next
    case swap
    then have "bid_of_message msg = message_bid msg"
      using t by (cases t) (auto simp: bid_of_message_def)
    then have "contained H msg h (snd (on_market (on_node (handle_message (b_xenv (h_bids H)) (h_signing H) (b_keys (h_bids H)) (\<lambda>_ _. pret ()) t msg)) h))"
      using swap by (intro contained_market [OF t]) (auto intro: market_node_frame [OF handle_message_frame [OF t]])
    then show ?thesis
      using swap by (simp add: handle_any_def)
  qed
qed



end
