(* ===== verification/Spec2Isabelle.thy ===== *)
theory Spec2Isabelle
  imports Node_Messages
begin

text \<open>
  BasicSwap: verification development.

  \<^bold>\<open>The program.\<close> BasicSwap (\<open>src/basicswap\<close>) is a node of a market for swaps between coins. Nodes send each other offers, bids and the steps of swaps as encrypted messages. A swap of
  two coins is either a secret hash swap (two contracts that open for the same secret, \<open>protocols/atomic_swap_1.py\<close>) or an adaptor signature swap (a scripted coin A against any
  coin B, \<open>protocols/xmr_swap_1.py\<close>). The class \<open>BasicSwap\<close> (\<open>basicswap.py\<close>) holds the swaps in progress, the watched outputs and scripts and the queue of delayed actions, and
  keeps offers, bids and swaps in a database (\<open>db.py\<close>); it asks the interfaces of the coins (\<open>interface/\<close>) for everything about chains, keys and wallets. Its loop checks each swap in progress,
  runs the actions that are due, handles what the chains and the networks report and expires what is old.

  \<^bold>\<open>Data and values.\<close> \<open>Prelude\<close>: Python's values and errors; a function that can raise returns \<open>py_error + 'a\<close>. \<open>Effects\<close>: a handler is a function from the state to its
  result or exception and the state it leaves, and \<open>effect_relation\<close> lifts a reflexive and transitive relation from single steps to handlers; most properties of handlers are instances of it. \<open>Codec\<close>
  (\<open>util/integer.py\<close>, \<open>util/script.py\<close>), \<open>Messages\<close> (\<open>messages_npb.py\<close>), \<open>Transactions\<close> (\<open>contrib/test_framework/messages.py\<close>) and \<open>Smsg\<close> (\<open>util/smsg.py\<close>): the wire formats and their
  round trips. \<open>Amounts\<close> (\<open>util/__init__.py\<close>), \<open>Python_Float\<close> (the doubles that fees and rates go through), \<open>Timelocks\<close>, \<open>Swap_Types\<close> (\<open>basicswap_util.py\<close>),
  \<open>Chainparams\<close> and \<open>Database\<close> (the rows, with the packed history of states).

  \<^bold>\<open>The node.\<close> \<open>Node\<close> is the state of \<open>BasicSwap\<close> as a record: objects and rows of bids, offers and swaps, watch lists, queued actions, the log, the messages sent and the transactions
  published. \<open>Offer_Validation\<close> has the checks of terms.

  \<^bold>\<open>Secret hash swaps.\<close> \<open>Contract_Script\<close> (the contract and its verification), \<open>Seller_First\<close> (\<open>checkBidState\<close> and the handlers of spends), \<open>Seller_First_Props\<close> (what can be published,
  recovery of the secret). The property of this root theory joins time locks, validation, contracts and the participate step.

  \<^bold>\<open>Adaptor signature swaps.\<close> \<open>Lock_Transactions\<close> and \<open>Lock_Props\<close> (the transactions of coin A in \<open>interface/btc/btc.py\<close>: a lock that verifies can be refunded, and those the leader builds
  verify), \<open>Adaptor_Swap\<close> (\<open>checkXmrBidState\<close>), \<open>Adaptor_Actions\<close> (the delayed steps and what watches find), \<open>Adaptor_Messages\<close> (the messages of an accepted swap), \<open>Bid_Acceptance\<close>
  (the bidder's side of acceptance) and \<open>Adaptor_Props\<close> (when a lock, a release, a spend, a refund may happen).

  \<^bold>\<open>The loop.\<close> \<open>Action_Queue\<close> (\<open>checkQueuedActions\<close>), \<open>Expiry\<close> (\<open>expireBidsAndOffers\<close>), \<open>Swap_Progress\<close> (the end of swaps and the loop of \<open>update\<close>), \<open>Swap_Runs\<close>: runs that
  interleave steps of any number of swaps, with any clock, chains and peers at each step. Swaps do not disturb one another, and what is published was due.

  \<^bold>\<open>The market.\<close> \<open>Offer_Tracking\<close> (\<open>offer_tracking.py\<close>: budgets of offers), \<open>Auto_Accept\<close> (acceptance by a strategy), \<open>New_Bids\<close> (handlers of bids), \<open>Received_Offers\<close> (handlers of offers
  and revocations), \<open>Message_Networks\<close> (\<open>network/bsx_network.py\<close>, \<open>network/simplex.py\<close>: choice of networks, sending, portals) and \<open>Node_Messages\<close> (\<open>processMsg\<close> with all handlers: what one
  message can reach).

  \<^bold>\<open>What stands for code that is not here.\<close> Daemons, wallets, curves, signatures, hash functions and JSON are fields of records (\<open>env\<close>, \<open>xenv\<close>, \<open>ads_interface\<close>, \<open>sig_interface\<close>,
  \<open>accept_interface\<close>, \<open>net_env\<close> and so on): functions that may answer anything, errors included. Theorems that rely on what such a package promises say so in their premises: a
  signature that was made verifies, decryption inverts encryption, the exchange of keys agrees.

  \<^bold>\<open>Recursion.\<close> No definition uses fuel. Loops over lists are structural, parsers have a measure (each field takes at least one byte), the proof of work is bounded by the number of rounds
  in the code. Integers are unbounded as in Python; bytes are \<open>8 word\<close>, and the conversions to fixed width raise where Python raises.

  \<^bold>\<open>Not modelled.\<close> Posting of offers and bids and the offerer's side of acceptance (\<open>postOffer\<close>, \<open>postBid\<close>, \<open>postXmrBid\<close>, \<open>acceptBid\<close>, \<open>acceptXmrBid\<close>): they choose coins of a wallet, derive keys and
  fund transactions, most of which are calls to daemons; the transactions they build and what the other party does with their messages are modelled. The scans of blocks, the
  start and the settings of the node, wallets, the Electrum backend, remote calls, the web interface, the scripts and the preparation of daemons are input and output. Of the interfaces of coins only the methods of \<open>BTCInterface\<close>
  for the lock transactions are modelled, as their cryptography and their daemons are outside. SQL is read as operations on maps and lists; columns the modelled code only writes are left out.
\<close>

section \<open>Definitions\<close>

text \<open>An offer and a bid whose initiate contract pays the bidder or, after 34 blocks, refunds the offerer.\<close>

definition linked_offer :: Offer where
  "linked_offer = blank_offer\<lparr>lock_type := 1, lock_value := 34\<rparr>"

definition linked_node :: node where
  "linked_node = example_node (example_bid SWAP_INITIATED
     (Some ((blank_tx [7] ITX)\<lparr>script := Some (contract_shape [1, 34] (replicate 32 9) (replicate 20 2) (replicate 20 1)
        (op OP_CHECKSEQUENCEVERIFY) (op OP_SHA256))\<rparr>)) None)"

section \<open>A property across the components\<close>



end
